(* ===== verification/Prelude.thy ===== *)
theory Prelude
  imports Main "HOL-Library.Word" "HOL-Library.Char_ord" "HOL-Library.List_Lexorder"
begin

text \<open>
  What every component shares: the machine integer types, the ordered map that stands for
  \<open>std::map\<close> (an association list kept in strictly increasing key order, which is the order in
  which the C++ iterates), the interface of that map as a locale with the lemmas its clients
  use, and \<open>std::to_string\<close> on unsigned integers.
\<close>

section \<open>Machine integers\<close>

type_synonym u8 = "8 word"
type_synonym u16 = "16 word"
type_synonym u32 = "32 word"
type_synonym u64 = "64 word"

text \<open>Signed 64-bit values (durations and time points in nanoseconds): two's complement words,
  compared with the signed order \<open><s\<close>.\<close>

type_synonym i64 = "64 word"

definition u64_max :: u64 where
  "u64_max = - 1"

lemma u64_max_numeral: "u64_max = 18446744073709551615"
  by (simp add: u64_max_def)

lemma unat_u64_max [simp]: "unat u64_max = 2 ^ 64 - 1"
  by (simp add: u64_max_numeral)

lemma u64_le_max [simp]: "x \<le> u64_max"
  by (simp add: u64_max_def)

lemma unat_u64_less: "unat (x :: u64) < 2 ^ 64"
  using unsigned_less [of x] by simp

section \<open>Decimal strings\<close>

definition digit_char :: "nat \<Rightarrow> char" where
  "digit_char d = char_of (48 + d)"

fun nat_to_string :: "nat \<Rightarrow> string" where
  "nat_to_string n = (if n < 10 then [digit_char n] else nat_to_string (n div 10) @ [digit_char (n mod 10)])"

declare nat_to_string.simps [simp del]

text \<open>\<open>std::to_string\<close> of an unsigned 64-bit value.\<close>

definition to_string_u64 :: "u64 \<Rightarrow> string" where
  "to_string_u64 x = nat_to_string (unat x)"

lemma digit_char_inj: "a < 10 \<Longrightarrow> b < 10 \<Longrightarrow> digit_char a = digit_char b \<Longrightarrow> a = b"
  using char_of_eq_iff [of "48 + a" "char_of (48 + b)"]
  by (simp add: digit_char_def)

lemma digit_char_bounds: "d < 10 \<Longrightarrow> of_char (digit_char d) \<in> {48 :: nat..57}"
  by (simp add: digit_char_def)

lemma nat_to_string_nonempty [simp]: "nat_to_string n \<noteq> []"
  by (subst nat_to_string.simps) simp

lemma nat_to_string_digits: "c \<in> set (nat_to_string n) \<Longrightarrow> of_char c \<in> {48 :: nat..57}"
proof (induction n rule: nat_to_string.induct)
  case (1 n)
  then show ?case
    by (cases "n < 10") (auto simp: nat_to_string.simps [of n] digit_char_def)
qed

lemma nat_to_string_inj: "nat_to_string m = nat_to_string n \<Longrightarrow> m = n"
proof (induction m arbitrary: n rule: nat_to_string.induct)
  case (1 m)
  have "length (nat_to_string k) = 1 \<longleftrightarrow> k < 10" for k
    by (simp add: nat_to_string.simps [of k])
  with "1.prems" have small: "m < 10 \<longleftrightarrow> n < 10"
    by metis
  show ?case
  proof (cases "m < 10")
    case True
    with small "1.prems" show ?thesis
      by (auto simp: nat_to_string.simps [of m] nat_to_string.simps [of n] intro: digit_char_inj)
  next
    case False
    with small "1.prems" have "nat_to_string (m div 10) = nat_to_string (n div 10)"
      and "digit_char (m mod 10) = digit_char (n mod 10)"
      by (simp_all add: nat_to_string.simps [of m] nat_to_string.simps [of n])
    with False "1.IH" digit_char_inj [of "m mod 10" "n mod 10"]
    have "m div 10 = n div 10" and "m mod 10 = n mod 10"
      by simp_all
    then show ?thesis by (metis div_mult_mod_eq)
  qed
qed

lemma to_string_u64_inj: "to_string_u64 a = to_string_u64 b \<longleftrightarrow> a = b"
  by (auto simp: to_string_u64_def word_unat_eq_iff dest: nat_to_string_inj)

section \<open>Strings\<close>

text \<open>\<open>s.rfind(prefix, 0) == 0\<close>.\<close>

definition starts_with :: "string \<Rightarrow> string \<Rightarrow> bool" where
  "starts_with p s \<longleftrightarrow> take (length p) s = p"

section \<open>Ordered maps\<close>

type_synonym ('k, 'v) omap = "('k \<times> 'v) list"

definition om_ok :: "('k::linorder, 'v) omap \<Rightarrow> bool" where
  "om_ok m \<longleftrightarrow> sorted_wrt (<) (map fst m)"

definition om_find :: "('k, 'v) omap \<Rightarrow> 'k \<Rightarrow> 'v option" where
  "om_find m k = map_of m k"

text \<open>\<open>emplace\<close> of a new key and \<open>operator[]\<close> assignment to any key.\<close>

fun om_put :: "'k::linorder \<Rightarrow> 'v \<Rightarrow> ('k, 'v) omap \<Rightarrow> ('k, 'v) omap" where
  "om_put k v [] = [(k, v)]"
| "om_put k v ((j, w) # m) =
     (if k < j then (k, v) # (j, w) # m
      else if k = j then (k, v) # m
      else (j, w) # om_put k v m)"

fun om_erase :: "'k::linorder \<Rightarrow> ('k, 'v) omap \<Rightarrow> ('k, 'v) omap" where
  "om_erase k [] = []"
| "om_erase k ((j, w) # m) = (if k = j then m else (j, w) # om_erase k m)"

text \<open>\<open>lower_bound\<close>: the first entry whose key is not less than \<open>k\<close>.\<close>

fun om_lower_bound :: "'k::linorder \<Rightarrow> ('k, 'v) omap \<Rightarrow> ('k \<times> 'v) option" where
  "om_lower_bound k [] = None"
| "om_lower_bound k ((j, w) # m) = (if j < k then om_lower_bound k m else Some (j, w))"

definition om_map :: "('v \<Rightarrow> 'v) \<Rightarrow> ('k, 'v) omap \<Rightarrow> ('k, 'v) omap" where
  "om_map f m = map (\<lambda>(k, v). (k, f v)) m"

lemma om_ok_Nil [simp]: "om_ok []"
  by (simp add: om_ok_def)

lemma om_ok_Cons [simp]: "om_ok ((k, v) # m) \<longleftrightarrow> (\<forall>j \<in> fst ` set m. k < j) \<and> om_ok m"
  by (auto simp: om_ok_def)

lemma om_find_Nil [simp]: "om_find [] k = None"
  by (simp add: om_find_def)

lemma om_find_Cons [simp]: "om_find ((j, w) # m) k = (if k = j then Some w else om_find m k)"
  by (simp add: om_find_def)

lemma om_put_keys: "fst ` set (om_put k v m) = insert k (fst ` set m)"
  by (induction k v m rule: om_put.induct) auto

lemma om_ok_put: "om_ok m \<Longrightarrow> om_ok (om_put k v m)"
  by (induction k v m rule: om_put.induct) (auto simp: om_put_keys)

lemma om_erase_keys: "fst ` set (om_erase k m) \<subseteq> fst ` set m"
  by (induction k m rule: om_erase.induct) auto

lemma om_ok_erase: "om_ok m \<Longrightarrow> om_ok (om_erase k m)"
  using om_erase_keys by (induction k m rule: om_erase.induct) fastforce+

lemma om_find_None: "om_find m k = None \<longleftrightarrow> k \<notin> fst ` set m"
  by (simp add: om_find_def map_of_eq_None_iff)

lemma om_ok_distinct: "om_ok m \<Longrightarrow> distinct (map fst m)"
  by (simp add: om_ok_def strict_sorted_iff)

lemma om_put_length_le: "length (om_put k v m) \<le> Suc (length m)"
  by (induction k v m rule: om_put.induct) auto

lemma om_find_in_set: "om_ok m \<Longrightarrow> om_find m k = Some v \<longleftrightarrow> (k, v) \<in> set m"
  using om_ok_distinct [of m] by (auto simp: om_find_def)

lemma om_find_put_same: "om_find (om_put k v m) k = Some v"
  by (induction k v m rule: om_put.induct) auto

lemma om_find_put: "om_ok m \<Longrightarrow> om_find (om_put k v m) j = (if j = k then Some v else om_find m j)"
  by (induction k v m rule: om_put.induct) auto

lemma om_find_erase: "om_ok m \<Longrightarrow> om_find (om_erase k m) j = (if j = k then None else om_find m j)"
proof (induction k m rule: om_erase.induct)
  case (2 k i w m)
  show ?case
  proof (cases "k = i")
    case True
    with "2.prems" have "om_find m i = None"
      by (auto simp: om_find_None)
    with True show ?thesis by simp
  next
    case False
    with 2 show ?thesis by (cases "j = k") auto
  qed
qed simp

lemma om_map_keys [simp]: "map fst (om_map f m) = map fst m"
  by (simp add: om_map_def case_prod_beta)

lemma om_ok_map: "om_ok m \<Longrightarrow> om_ok (om_map f m)"
  by (simp add: om_ok_def)

lemma om_find_map: "om_find (om_map f m) k = map_option f (om_find m k)"
  by (induction m) (auto simp: om_map_def)

section \<open>The map interface and what its clients use\<close>

text \<open>The contract of \<open>std::map\<close> the accounting relies on. \<open>entries\<close> is the iteration.\<close>

locale ordered_map =
  fixes find :: "'m \<Rightarrow> 'k::linorder \<Rightarrow> 'v option"
    and put :: "'k \<Rightarrow> 'v \<Rightarrow> 'm \<Rightarrow> 'm"
    and entries :: "'m \<Rightarrow> ('k \<times> 'v) list"
    and ok :: "'m \<Rightarrow> bool"
  assumes ok_put: "ok m \<Longrightarrow> ok (put k v m)"
    and find_put: "ok m \<Longrightarrow> find (put k v m) j = (if j = k then Some v else find m j)"
    and entries_find: "ok m \<Longrightarrow> (k, v) \<in> set (entries m) \<longleftrightarrow> find m k = Some v"
    and entries_sorted: "ok m \<Longrightarrow> sorted_wrt (<) (map fst (entries m))"
begin

lemma distinct_entries: "ok m \<Longrightarrow> distinct (entries m)"
  using entries_sorted [of m] by (simp add: strict_sorted_iff distinct_map)

lemma entries_put:
  assumes "ok m"
  shows "set (entries (put k v m)) = insert (k, v) {e \<in> set (entries m). fst e \<noteq> k}"
  using assms by (auto simp: entries_find find_put ok_put split: if_splits)

text \<open>A sum over the iteration, as the recomputation of the running totals needs it.\<close>

lemma sum_entries_put:
  fixes f :: "'v \<Rightarrow> nat"
  assumes "ok m"
  shows "(\<Sum>(j, w) \<leftarrow> entries (put k v m). f w) + (case find m k of None \<Rightarrow> 0 | Some w \<Rightarrow> f w)
       = (\<Sum>(j, w) \<leftarrow> entries m. f w) + f v"
proof -
  let ?g = "\<lambda>e :: 'k \<times> 'v. f (snd e)"
  let ?rest = "{e \<in> set (entries m). fst e \<noteq> k}"
  have list_sum: "(\<Sum>(j, w) \<leftarrow> entries n. f w) = sum ?g (set (entries n))" if "ok n" for n
    using distinct_entries [OF that] by (simp add: sum_list_distinct_conv_sum_set case_prod_beta)
  have "sum ?g (set (entries (put k v m))) = sum ?g ?rest + f v"
    by (simp add: entries_put assms)
  moreover have "sum ?g (set (entries m)) = sum ?g ?rest + (case find m k of None \<Rightarrow> 0 | Some w \<Rightarrow> f w)"
  proof (cases "find m k")
    case None
    then have "set (entries m) = ?rest"
      using entries_find [OF assms] by auto
    with None show ?thesis by simp
  next
    case (Some w)
    then have "set (entries m) = insert (k, w) ?rest"
      using entries_find [OF assms] by auto
    then have "sum ?g (set (entries m)) = sum ?g (insert (k, w) ?rest)"
      by simp
    with Some show ?thesis by simp
  qed
  ultimately show ?thesis
    using assms by (simp add: list_sum ok_put)
qed

end

interpretation om: ordered_map om_find om_put "\<lambda>m. m" om_ok
proof unfold_locales
  fix m :: "('k::linorder, 'v) omap" and k j v
  show "om_ok m \<Longrightarrow> om_ok (om_put k v m)" by (rule om_ok_put)
  show "om_ok m \<Longrightarrow> om_find (om_put k v m) j = (if j = k then Some v else om_find m j)"
    by (rule om_find_put)
  show "om_ok m \<Longrightarrow> (k, v) \<in> set m \<longleftrightarrow> om_find m k = Some v"
    by (simp add: om_find_in_set)
  show "om_ok m \<Longrightarrow> sorted_wrt (<) (map fst m)"
    by (simp add: om_ok_def)
qed

end
