(* ===== verification/Errors.thy ===== *)
theory Errors
  imports Prelude
begin

text \<open>
  \<open>error.hpp\<close>: the error code taxonomy with its stable integer values and names, the structured
  \<open>Error\<close>, \<open>Status\<close> (an error whose code may be \<open>Ok\<close>) and \<open>Result\<close> (an error or a value).
  \<open>ErrorCode_Raw\<close> stands for a value outside the enumeration, which C++ admits for an enum with a
  fixed underlying type and which \<open>static_cast<ErrorCode>(r.i32())\<close> can produce.
\<close>

section \<open>Error codes\<close>

datatype (plugins only: code size) ErrorCode =
    ErrorCode_Ok
  | ErrorCode_InvalidArgument
  | ErrorCode_MalformedDescriptor
  | ErrorCode_UnknownError
  | ErrorCode_NotImplemented
  | ErrorCode_OperationNotPermitted
  | ErrorCode_OutOfRange
  | ErrorCode_InsufficientCapacity
  | ErrorCode_NegativeCapacity
  | ErrorCode_CapacityOverflow
  | ErrorCode_NoValidCapacity
  | ErrorCode_HostCapacityMismatch
  | ErrorCode_QuotaViolation
  | ErrorCode_QuotaGenerationMismatch
  | ErrorCode_CapabilityMismatch
  | ErrorCode_UnsupportedDtype
  | ErrorCode_UnsupportedBackend
  | ErrorCode_SloInfeasible
  | ErrorCode_ExpiredDeadline
  | ErrorCode_DeadlineOverflow
  | ErrorCode_StaleEpoch
  | ErrorCode_StaleBootIdentity
  | ErrorCode_StaleAdmissionGeneration
  | ErrorCode_StaleReservation
  | ErrorCode_StaleSnapshotGeneration
  | ErrorCode_StalePolicyGeneration
  | ErrorCode_StaleCapacityGeneration
  | ErrorCode_StaleInterpretation
  | ErrorCode_DoubleReservation
  | ErrorCode_DoubleRelease
  | ErrorCode_ReservationAfterRejection
  | ErrorCode_ReservationExpired
  | ErrorCode_ReservationIdentityCollision
  | ErrorCode_AdmissionWithoutReservation
  | ErrorCode_ReservationLeak
  | ErrorCode_ReservationOverflow
  | ErrorCode_ReservationRollbackError
  | ErrorCode_PolicyValidationError
  | ErrorCode_UnknownPolicyGeneration
  | ErrorCode_PolicyConflict
  | ErrorCode_PersistenceCorrupt
  | ErrorCode_PersistenceTruncated
  | ErrorCode_PersistenceInvalidCount
  | ErrorCode_PersistenceUnknownVersion
  | ErrorCode_PersistenceDuplicateId
  | ErrorCode_PersistenceNegativeValue
  | ErrorCode_PersistenceInconsistentAccounting
  | ErrorCode_PersistenceImpossibleTransition
  | ErrorCode_PersistenceChecksumMismatch
  | ErrorCode_PersistenceIoError
  | ErrorCode_MalformedFrame
  | ErrorCode_TruncatedFrame
  | ErrorCode_UnknownMessage
  | ErrorCode_UnsupportedVersion
  | ErrorCode_FrameTooLarge
  | ErrorCode_ConnectionReset
  | ErrorCode_IoError
  | ErrorCode_SocketError
  | ErrorCode_AddressInUse
  | ErrorCode_CudaError
  | ErrorCode_CudaAllocationFailure
  | ErrorCode_CudaKernelFailure
  | ErrorCode_CudaDeviceMismatch
  | ErrorCode_DeviceNotPresent
  | ErrorCode_AgentLost
  | ErrorCode_CapacityFenced
  | ErrorCode_AgentAlreadyRegistered
  | ErrorCode_NoAgents
  | ErrorCode_AgentBootMismatch
  | ErrorCode_Raw "32 word"

primrec error_code_value :: "ErrorCode \<Rightarrow> 32 word" where
  "error_code_value ErrorCode_Ok = 0"
| "error_code_value ErrorCode_InvalidArgument = 1"
| "error_code_value ErrorCode_MalformedDescriptor = 2"
| "error_code_value ErrorCode_UnknownError = 3"
| "error_code_value ErrorCode_NotImplemented = 4"
| "error_code_value ErrorCode_OperationNotPermitted = 5"
| "error_code_value ErrorCode_OutOfRange = 6"
| "error_code_value ErrorCode_InsufficientCapacity = 20"
| "error_code_value ErrorCode_NegativeCapacity = 21"
| "error_code_value ErrorCode_CapacityOverflow = 22"
| "error_code_value ErrorCode_NoValidCapacity = 23"
| "error_code_value ErrorCode_HostCapacityMismatch = 24"
| "error_code_value ErrorCode_QuotaViolation = 30"
| "error_code_value ErrorCode_QuotaGenerationMismatch = 31"
| "error_code_value ErrorCode_CapabilityMismatch = 40"
| "error_code_value ErrorCode_UnsupportedDtype = 41"
| "error_code_value ErrorCode_UnsupportedBackend = 42"
| "error_code_value ErrorCode_SloInfeasible = 50"
| "error_code_value ErrorCode_ExpiredDeadline = 51"
| "error_code_value ErrorCode_DeadlineOverflow = 52"
| "error_code_value ErrorCode_StaleEpoch = 60"
| "error_code_value ErrorCode_StaleBootIdentity = 61"
| "error_code_value ErrorCode_StaleAdmissionGeneration = 62"
| "error_code_value ErrorCode_StaleReservation = 63"
| "error_code_value ErrorCode_StaleSnapshotGeneration = 64"
| "error_code_value ErrorCode_StalePolicyGeneration = 65"
| "error_code_value ErrorCode_StaleCapacityGeneration = 66"
| "error_code_value ErrorCode_StaleInterpretation = 67"
| "error_code_value ErrorCode_DoubleReservation = 70"
| "error_code_value ErrorCode_DoubleRelease = 71"
| "error_code_value ErrorCode_ReservationAfterRejection = 72"
| "error_code_value ErrorCode_ReservationExpired = 73"
| "error_code_value ErrorCode_ReservationIdentityCollision = 74"
| "error_code_value ErrorCode_AdmissionWithoutReservation = 75"
| "error_code_value ErrorCode_ReservationLeak = 76"
| "error_code_value ErrorCode_ReservationOverflow = 77"
| "error_code_value ErrorCode_ReservationRollbackError = 78"
| "error_code_value ErrorCode_PolicyValidationError = 80"
| "error_code_value ErrorCode_UnknownPolicyGeneration = 81"
| "error_code_value ErrorCode_PolicyConflict = 82"
| "error_code_value ErrorCode_PersistenceCorrupt = 90"
| "error_code_value ErrorCode_PersistenceTruncated = 91"
| "error_code_value ErrorCode_PersistenceInvalidCount = 92"
| "error_code_value ErrorCode_PersistenceUnknownVersion = 93"
| "error_code_value ErrorCode_PersistenceDuplicateId = 94"
| "error_code_value ErrorCode_PersistenceNegativeValue = 95"
| "error_code_value ErrorCode_PersistenceInconsistentAccounting = 96"
| "error_code_value ErrorCode_PersistenceImpossibleTransition = 97"
| "error_code_value ErrorCode_PersistenceChecksumMismatch = 98"
| "error_code_value ErrorCode_PersistenceIoError = 99"
| "error_code_value ErrorCode_MalformedFrame = 110"
| "error_code_value ErrorCode_TruncatedFrame = 111"
| "error_code_value ErrorCode_UnknownMessage = 112"
| "error_code_value ErrorCode_UnsupportedVersion = 113"
| "error_code_value ErrorCode_FrameTooLarge = 114"
| "error_code_value ErrorCode_ConnectionReset = 115"
| "error_code_value ErrorCode_IoError = 116"
| "error_code_value ErrorCode_SocketError = 117"
| "error_code_value ErrorCode_AddressInUse = 118"
| "error_code_value ErrorCode_CudaError = 120"
| "error_code_value ErrorCode_CudaAllocationFailure = 121"
| "error_code_value ErrorCode_CudaKernelFailure = 122"
| "error_code_value ErrorCode_CudaDeviceMismatch = 123"
| "error_code_value ErrorCode_DeviceNotPresent = 124"
| "error_code_value ErrorCode_AgentLost = 130"
| "error_code_value ErrorCode_CapacityFenced = 131"
| "error_code_value ErrorCode_AgentAlreadyRegistered = 132"
| "error_code_value ErrorCode_NoAgents = 133"
| "error_code_value ErrorCode_AgentBootMismatch = 134"
| "error_code_value (ErrorCode_Raw v) = v"

text \<open>The enumerators, in the order of the source.\<close>

definition error_codes :: "ErrorCode list" where
  "error_codes = [
     ErrorCode_Ok,
     ErrorCode_InvalidArgument,
     ErrorCode_MalformedDescriptor,
     ErrorCode_UnknownError,
     ErrorCode_NotImplemented,
     ErrorCode_OperationNotPermitted,
     ErrorCode_OutOfRange,
     ErrorCode_InsufficientCapacity,
     ErrorCode_NegativeCapacity,
     ErrorCode_CapacityOverflow,
     ErrorCode_NoValidCapacity,
     ErrorCode_HostCapacityMismatch,
     ErrorCode_QuotaViolation,
     ErrorCode_QuotaGenerationMismatch,
     ErrorCode_CapabilityMismatch,
     ErrorCode_UnsupportedDtype,
     ErrorCode_UnsupportedBackend,
     ErrorCode_SloInfeasible,
     ErrorCode_ExpiredDeadline,
     ErrorCode_DeadlineOverflow,
     ErrorCode_StaleEpoch,
     ErrorCode_StaleBootIdentity,
     ErrorCode_StaleAdmissionGeneration,
     ErrorCode_StaleReservation,
     ErrorCode_StaleSnapshotGeneration,
     ErrorCode_StalePolicyGeneration,
     ErrorCode_StaleCapacityGeneration,
     ErrorCode_StaleInterpretation,
     ErrorCode_DoubleReservation,
     ErrorCode_DoubleRelease,
     ErrorCode_ReservationAfterRejection,
     ErrorCode_ReservationExpired,
     ErrorCode_ReservationIdentityCollision,
     ErrorCode_AdmissionWithoutReservation,
     ErrorCode_ReservationLeak,
     ErrorCode_ReservationOverflow,
     ErrorCode_ReservationRollbackError,
     ErrorCode_PolicyValidationError,
     ErrorCode_UnknownPolicyGeneration,
     ErrorCode_PolicyConflict,
     ErrorCode_PersistenceCorrupt,
     ErrorCode_PersistenceTruncated,
     ErrorCode_PersistenceInvalidCount,
     ErrorCode_PersistenceUnknownVersion,
     ErrorCode_PersistenceDuplicateId,
     ErrorCode_PersistenceNegativeValue,
     ErrorCode_PersistenceInconsistentAccounting,
     ErrorCode_PersistenceImpossibleTransition,
     ErrorCode_PersistenceChecksumMismatch,
     ErrorCode_PersistenceIoError,
     ErrorCode_MalformedFrame,
     ErrorCode_TruncatedFrame,
     ErrorCode_UnknownMessage,
     ErrorCode_UnsupportedVersion,
     ErrorCode_FrameTooLarge,
     ErrorCode_ConnectionReset,
     ErrorCode_IoError,
     ErrorCode_SocketError,
     ErrorCode_AddressInUse,
     ErrorCode_CudaError,
     ErrorCode_CudaAllocationFailure,
     ErrorCode_CudaKernelFailure,
     ErrorCode_CudaDeviceMismatch,
     ErrorCode_DeviceNotPresent,
     ErrorCode_AgentLost,
     ErrorCode_CapacityFenced,
     ErrorCode_AgentAlreadyRegistered,
     ErrorCode_NoAgents,
     ErrorCode_AgentBootMismatch]"

text \<open>\<open>static_cast<ErrorCode>(v)\<close>.\<close>

definition error_code_of_value :: "32 word \<Rightarrow> ErrorCode" where
  "error_code_of_value v =
     (case List.find (\<lambda>c. error_code_value c = v) error_codes of Some c \<Rightarrow> c | None \<Rightarrow> ErrorCode_Raw v)"

primrec error_code_name :: "ErrorCode \<Rightarrow> string" where
  "error_code_name ErrorCode_Ok = ''Ok''"
| "error_code_name ErrorCode_InvalidArgument = ''InvalidArgument''"
| "error_code_name ErrorCode_MalformedDescriptor = ''MalformedDescriptor''"
| "error_code_name ErrorCode_UnknownError = ''UnknownError''"
| "error_code_name ErrorCode_NotImplemented = ''NotImplemented''"
| "error_code_name ErrorCode_OperationNotPermitted = ''OperationNotPermitted''"
| "error_code_name ErrorCode_OutOfRange = ''OutOfRange''"
| "error_code_name ErrorCode_InsufficientCapacity = ''InsufficientCapacity''"
| "error_code_name ErrorCode_NegativeCapacity = ''NegativeCapacity''"
| "error_code_name ErrorCode_CapacityOverflow = ''CapacityOverflow''"
| "error_code_name ErrorCode_NoValidCapacity = ''NoValidCapacity''"
| "error_code_name ErrorCode_HostCapacityMismatch = ''HostCapacityMismatch''"
| "error_code_name ErrorCode_QuotaViolation = ''QuotaViolation''"
| "error_code_name ErrorCode_QuotaGenerationMismatch = ''QuotaGenerationMismatch''"
| "error_code_name ErrorCode_CapabilityMismatch = ''CapabilityMismatch''"
| "error_code_name ErrorCode_UnsupportedDtype = ''UnsupportedDtype''"
| "error_code_name ErrorCode_UnsupportedBackend = ''UnsupportedBackend''"
| "error_code_name ErrorCode_SloInfeasible = ''SloInfeasible''"
| "error_code_name ErrorCode_ExpiredDeadline = ''ExpiredDeadline''"
| "error_code_name ErrorCode_DeadlineOverflow = ''DeadlineOverflow''"
| "error_code_name ErrorCode_StaleEpoch = ''StaleEpoch''"
| "error_code_name ErrorCode_StaleBootIdentity = ''StaleBootIdentity''"
| "error_code_name ErrorCode_StaleAdmissionGeneration = ''StaleAdmissionGeneration''"
| "error_code_name ErrorCode_StaleReservation = ''StaleReservation''"
| "error_code_name ErrorCode_StaleSnapshotGeneration = ''StaleSnapshotGeneration''"
| "error_code_name ErrorCode_StalePolicyGeneration = ''StalePolicyGeneration''"
| "error_code_name ErrorCode_StaleCapacityGeneration = ''StaleCapacityGeneration''"
| "error_code_name ErrorCode_StaleInterpretation = ''StaleInterpretation''"
| "error_code_name ErrorCode_DoubleReservation = ''DoubleReservation''"
| "error_code_name ErrorCode_DoubleRelease = ''DoubleRelease''"
| "error_code_name ErrorCode_ReservationAfterRejection = ''ReservationAfterRejection''"
| "error_code_name ErrorCode_ReservationExpired = ''ReservationExpired''"
| "error_code_name ErrorCode_ReservationIdentityCollision = ''ReservationIdentityCollision''"
| "error_code_name ErrorCode_AdmissionWithoutReservation = ''AdmissionWithoutReservation''"
| "error_code_name ErrorCode_ReservationLeak = ''ReservationLeak''"
| "error_code_name ErrorCode_ReservationOverflow = ''ReservationOverflow''"
| "error_code_name ErrorCode_ReservationRollbackError = ''ReservationRollbackError''"
| "error_code_name ErrorCode_PolicyValidationError = ''PolicyValidationError''"
| "error_code_name ErrorCode_UnknownPolicyGeneration = ''UnknownPolicyGeneration''"
| "error_code_name ErrorCode_PolicyConflict = ''PolicyConflict''"
| "error_code_name ErrorCode_PersistenceCorrupt = ''PersistenceCorrupt''"
| "error_code_name ErrorCode_PersistenceTruncated = ''PersistenceTruncated''"
| "error_code_name ErrorCode_PersistenceInvalidCount = ''PersistenceInvalidCount''"
| "error_code_name ErrorCode_PersistenceUnknownVersion = ''PersistenceUnknownVersion''"
| "error_code_name ErrorCode_PersistenceDuplicateId = ''PersistenceDuplicateId''"
| "error_code_name ErrorCode_PersistenceNegativeValue = ''PersistenceNegativeValue''"
| "error_code_name ErrorCode_PersistenceInconsistentAccounting = ''PersistenceInconsistentAccounting''"
| "error_code_name ErrorCode_PersistenceImpossibleTransition = ''PersistenceImpossibleTransition''"
| "error_code_name ErrorCode_PersistenceChecksumMismatch = ''PersistenceChecksumMismatch''"
| "error_code_name ErrorCode_PersistenceIoError = ''PersistenceIoError''"
| "error_code_name ErrorCode_MalformedFrame = ''MalformedFrame''"
| "error_code_name ErrorCode_TruncatedFrame = ''TruncatedFrame''"
| "error_code_name ErrorCode_UnknownMessage = ''UnknownMessage''"
| "error_code_name ErrorCode_UnsupportedVersion = ''UnsupportedVersion''"
| "error_code_name ErrorCode_FrameTooLarge = ''FrameTooLarge''"
| "error_code_name ErrorCode_ConnectionReset = ''ConnectionReset''"
| "error_code_name ErrorCode_IoError = ''IoError''"
| "error_code_name ErrorCode_SocketError = ''SocketError''"
| "error_code_name ErrorCode_AddressInUse = ''AddressInUse''"
| "error_code_name ErrorCode_CudaError = ''CudaError''"
| "error_code_name ErrorCode_CudaAllocationFailure = ''CudaAllocationFailure''"
| "error_code_name ErrorCode_CudaKernelFailure = ''CudaKernelFailure''"
| "error_code_name ErrorCode_CudaDeviceMismatch = ''CudaDeviceMismatch''"
| "error_code_name ErrorCode_DeviceNotPresent = ''DeviceNotPresent''"
| "error_code_name ErrorCode_AgentLost = ''AgentLost''"
| "error_code_name ErrorCode_CapacityFenced = ''CapacityFenced''"
| "error_code_name ErrorCode_AgentAlreadyRegistered = ''AgentAlreadyRegistered''"
| "error_code_name ErrorCode_NoAgents = ''NoAgents''"
| "error_code_name ErrorCode_AgentBootMismatch = ''AgentBootMismatch''"
| "error_code_name (ErrorCode_Raw v) = ''UnknownErrorCode''"

section \<open>Error, Status, Result\<close>

record Error =
  err_code :: ErrorCode
  err_message :: string

type_synonym Status = Error
type_synonym 'a Result = "Error + 'a"

definition status_success :: Status where
  "status_success = \<lparr>err_code = ErrorCode_Ok, err_message = []\<rparr>"

definition status_failure :: "ErrorCode \<Rightarrow> string \<Rightarrow> Status" where
  "status_failure c msg = \<lparr>err_code = c, err_message = msg\<rparr>"

definition status_ok :: "Status \<Rightarrow> bool" where
  "status_ok s \<longleftrightarrow> err_code s = ErrorCode_Ok"

definition result_fail :: "ErrorCode \<Rightarrow> string \<Rightarrow> 'a Result" where
  "result_fail c msg = Inl \<lparr>err_code = c, err_message = msg\<rparr>"

definition result_ok :: "'a \<Rightarrow> 'a Result" where
  "result_ok x = Inr x"

lemma status_ok_success [simp]: "status_ok status_success"
  by (simp add: status_ok_def status_success_def)

lemma status_ok_failure [simp]: "status_ok (status_failure c msg) \<longleftrightarrow> c = ErrorCode_Ok"
  by (simp add: status_ok_def status_failure_def)

lemma status_failure_code [simp]: "err_code (status_failure c msg) = c"
  by (simp add: status_failure_def)

lemma status_failure_eq [simp]:
  "status_failure c msg = status_failure c' msg' \<longleftrightarrow> c = c' \<and> msg = msg'"
  by (simp add: status_failure_def)

lemma status_success_not_failure [simp]:
  "status_success = status_failure c msg \<longleftrightarrow> c = ErrorCode_Ok \<and> msg = []"
  "status_failure c msg = status_success \<longleftrightarrow> c = ErrorCode_Ok \<and> msg = []"
  by (auto simp: status_failure_def status_success_def)

lemma result_simps [simp]:
  "result_ok x = result_ok y \<longleftrightarrow> x = y"
  "result_ok x \<noteq> result_fail c msg"
  "result_fail c msg \<noteq> result_ok x"
  "result_fail c msg = result_fail c' msg' \<longleftrightarrow> c = c' \<and> msg = msg'"
  by (simp_all add: result_ok_def result_fail_def)

section \<open>The integer values identify the codes\<close>

lemma error_codes_values_distinct: "distinct (map error_code_value error_codes)"
  by (simp add: error_codes_def)

lemma error_codes_names_distinct: "distinct (map error_code_name error_codes)"
  by (simp add: error_codes_def)

lemma error_codes_complete: "c \<in> set error_codes \<or> (\<exists>v. c = ErrorCode_Raw v)"
  by (cases c) (simp_all add: error_codes_def)

lemma find_by_distinct_key:
  "distinct (map f xs) \<Longrightarrow> x \<in> set xs \<Longrightarrow> List.find (\<lambda>y. f y = f x) xs = Some x"
  by (induction xs) (auto intro: rev_image_eqI)

lemma error_code_of_value_enumerator:
  "c \<in> set error_codes \<Longrightarrow> error_code_of_value (error_code_value c) = c"
  using find_by_distinct_key [OF error_codes_values_distinct]
  by (simp add: error_code_of_value_def)

text \<open>The integer value of every enumerator identifies it and its printed name
  (the codes can be serialized and compared across processes), reading a value back never
  changes it, and \<open>Ok\<close> alone has the value 0.\<close>

theorem error_code_roundtrip:
  "(\<forall>c \<in> set error_codes. error_code_of_value (error_code_value c) = c)
   \<and> (\<forall>v. error_code_value (error_code_of_value v) = v)
   \<and> distinct (map error_code_name error_codes)
   \<and> (\<forall>v. error_code_of_value v = ErrorCode_Ok \<longleftrightarrow> v = 0)"
proof -
  have val_of: "error_code_value (error_code_of_value v) = v" for v
    by (auto simp: error_code_of_value_def find_Some_iff split: option.splits)
  have "error_code_of_value v = ErrorCode_Ok \<longleftrightarrow> v = 0" for v
    using val_of [of v] error_code_of_value_enumerator [of ErrorCode_Ok]
    by (auto simp: error_codes_def)
  with val_of show ?thesis
    using error_code_of_value_enumerator error_codes_names_distinct by blast
qed

lemma error_code_roundtrip_witness:
  "ErrorCode_StaleReservation \<in> set error_codes
   \<and> error_code_of_value (error_code_value ErrorCode_StaleReservation) = ErrorCode_StaleReservation"
  using error_code_roundtrip by (simp add: error_codes_def)

end
