(* ===== verification/Ids.thy ===== *)
theory Ids
  imports Prelude
begin

text \<open>
  \<open>id.hpp\<close>: strong typed identities. \<open>Id<Tag>\<close> is a wrapper around a 64-bit value with a phantom
  tag type, so that identities of different domains are different types here as they are in the
  source. Every alias of the source uses the default representation \<open>std::uint64_t\<close>.
\<close>

section \<open>The wrapper\<close>

datatype (plugins only: code size) 'tag Id = Id (id_value: u64)

definition is_nil :: "'tag Id \<Rightarrow> bool" where
  "is_nil a \<longleftrightarrow> id_value a = 0"

text \<open>\<open>next()\<close> saturates at the largest value.\<close>

definition id_next :: "'tag Id \<Rightarrow> 'tag Id" where
  "id_next a = Id (if id_value a = u64_max then id_value a else id_value a + 1)"

text \<open>\<open>str()\<close>.\<close>

definition id_str :: "'tag Id \<Rightarrow> string" where
  "id_str a = to_string_u64 (id_value a)"

text \<open>\<open>operator<\<close> and \<open>operator<=\<close> compare the values; \<open>std::map\<close> orders its keys by them.\<close>

instantiation Id :: (type) linorder
begin

definition less_eq_Id :: "'a Id \<Rightarrow> 'a Id \<Rightarrow> bool" where
  "less_eq_Id a b \<longleftrightarrow> id_value a \<le> id_value b"

definition less_Id :: "'a Id \<Rightarrow> 'a Id \<Rightarrow> bool" where
  "less_Id a b \<longleftrightarrow> id_value a < id_value b"

instance
  by standard (auto simp: less_eq_Id_def less_Id_def intro: Id.expand)

end

section \<open>Identity domains\<close>

datatype (plugins only: code) AdmissionRequestIdTag = AdmissionRequestIdTag
datatype (plugins only: code) RequestIdTag = RequestIdTag
datatype (plugins only: code) AttemptIdTag = AttemptIdTag
datatype (plugins only: code) TenantIdTag = TenantIdTag
datatype (plugins only: code) ModelIdTag = ModelIdTag
datatype (plugins only: code) ModelRevisionTag = ModelRevisionTag
datatype (plugins only: code) AdapterIdTag = AdapterIdTag
datatype (plugins only: code) PolicyGenerationTag = PolicyGenerationTag
datatype (plugins only: code) AdmissionGenerationTag = AdmissionGenerationTag
datatype (plugins only: code) CoordinatorEpochTag = CoordinatorEpochTag
datatype (plugins only: code) ReservationIdTag = ReservationIdTag
datatype (plugins only: code) ResourceSnapshotGenerationTag = ResourceSnapshotGenerationTag
datatype (plugins only: code) SchedulerRequestIdTag = SchedulerRequestIdTag
datatype (plugins only: code) CorrelationIdTag = CorrelationIdTag
datatype (plugins only: code) AgentIdTag = AgentIdTag
datatype (plugins only: code) WorkerIdTag = WorkerIdTag
datatype (plugins only: code) AgentBootIdTag = AgentBootIdTag
datatype (plugins only: code) ObservationIdTag = ObservationIdTag
datatype (plugins only: code) ProtocolVersionTag = ProtocolVersionTag
datatype (plugins only: code) CapacityGenerationTag = CapacityGenerationTag

type_synonym AdmissionRequestId = "AdmissionRequestIdTag Id"
type_synonym RequestId = "RequestIdTag Id"
type_synonym AttemptId = "AttemptIdTag Id"
type_synonym TenantId = "TenantIdTag Id"
type_synonym ModelId = "ModelIdTag Id"
type_synonym ModelRevision = "ModelRevisionTag Id"
type_synonym AdapterId = "AdapterIdTag Id"
type_synonym PolicyGeneration = "PolicyGenerationTag Id"
type_synonym AdmissionGeneration = "AdmissionGenerationTag Id"
type_synonym CoordinatorEpoch = "CoordinatorEpochTag Id"
type_synonym ReservationId = "ReservationIdTag Id"
type_synonym ResourceSnapshotGeneration = "ResourceSnapshotGenerationTag Id"
type_synonym SchedulerRequestId = "SchedulerRequestIdTag Id"
type_synonym CorrelationId = "CorrelationIdTag Id"
type_synonym AgentId = "AgentIdTag Id"
type_synonym WorkerId = "WorkerIdTag Id"
type_synonym AgentBootId = "AgentBootIdTag Id"
type_synonym ObservationId = "ObservationIdTag Id"
type_synonym ProtocolVersion = "ProtocolVersionTag Id"
type_synonym CapacityGeneration = "CapacityGenerationTag Id"

section \<open>Saturation\<close>

lemma Id_less_eq [simp]: "Id a \<le> Id b \<longleftrightarrow> a \<le> b"
  by (simp add: less_eq_Id_def)

lemma Id_less [simp]: "Id a < Id b \<longleftrightarrow> a < b"
  by (simp add: less_Id_def)

lemma unat_u64_Suc: "(x :: u64) \<noteq> u64_max \<Longrightarrow> unat (x + 1) = Suc (unat x)"
  using unat_u64_less [of x] unat_u64_max
  by (auto simp: unat_word_ariths word_unat_eq_iff)

lemma u64_less_Suc: "(x :: u64) \<noteq> u64_max \<Longrightarrow> x < x + 1"
  by (simp add: word_less_nat_alt unat_u64_Suc)

lemma u64_Suc_nonzero: "(x :: u64) \<noteq> u64_max \<Longrightarrow> x + 1 \<noteq> 0"
  using u64_less_Suc [of x] by auto

lemma id_next_not_nil [simp]: "\<not> is_nil (id_next a)"
  using u64_Suc_nonzero [of "id_value a"]
  by (auto simp: is_nil_def id_next_def u64_max_def)

lemma id_next_greater: "id_value a \<noteq> u64_max \<Longrightarrow> a < id_next a"
  by (simp add: less_Id_def id_next_def u64_less_Suc)

lemma id_next_ge [simp]: "a \<le> id_next a"
  using id_next_greater [of a] by (cases "id_value a = u64_max") (simp_all add: less_eq_Id_def id_next_def less_Id_def)

text \<open>\<open>next()\<close> iterated: the values handed out by a generation counter.\<close>

lemma id_next_iterate_mono: "i \<le> j \<Longrightarrow> (id_next ^^ i) a \<le> (id_next ^^ j) a"
proof (induction rule: dec_induct)
  case (step n)
  then show ?case
    using id_next_ge [of "(id_next ^^ n) a"] by (simp del: id_next_ge)
qed simp

text \<open>A generation that is advanced never wraps to nil and never goes back, and it
  strictly grows until it saturates at the largest value; from there on it repeats.\<close>

theorem id_next_saturates:
  "\<not> is_nil (id_next a) \<and> a \<le> id_next a
   \<and> (id_next a = a \<longleftrightarrow> id_value a = u64_max)
   \<and> ((id_next ^^ n) a = (id_next ^^ Suc n) a \<longleftrightarrow> id_value ((id_next ^^ n) a) = u64_max)"
proof -
  have fixpoint: "id_next b = b \<longleftrightarrow> id_value b = u64_max" for b :: "'a Id"
  proof (cases "id_value b = u64_max")
    case True
    then show ?thesis by (cases b) (simp add: id_next_def)
  next
    case False
    then show ?thesis using id_next_greater [of b] by auto
  qed
  have "(id_next ^^ n) a = (id_next ^^ Suc n) a \<longleftrightarrow> id_value ((id_next ^^ n) a) = u64_max"
    using fixpoint [of "(id_next ^^ n) a"] by (metis funpow.simps(2) comp_apply)
  then show ?thesis
    using fixpoint [of a] by (simp only: id_next_not_nil id_next_ge) simp
qed

end
