(* ===== verification/Checked.thy ===== *)
theory Checked
  imports Prelude
begin

text \<open>
  \<open>checked.hpp\<close>: overflow-checked and saturating arithmetic on unsigned 64-bit values. A checked
  operation of the source returns \<open>false\<close> on overflow and leaves its output parameter alone; here
  it returns \<open>None\<close>.
\<close>

section \<open>Operations\<close>

definition checked_add :: "u64 \<Rightarrow> u64 \<Rightarrow> u64 option" where
  "checked_add a b = (if b > u64_max - a then None else Some (a + b))"

definition checked_sub :: "u64 \<Rightarrow> u64 \<Rightarrow> u64 option" where
  "checked_sub a b = (if b > a then None else Some (a - b))"

definition checked_mul :: "u64 \<Rightarrow> u64 \<Rightarrow> u64 option" where
  "checked_mul a b = (if a \<noteq> 0 \<and> b > u64_max div a then None else Some (a * b))"

definition sat_add :: "u64 \<Rightarrow> u64 \<Rightarrow> u64" where
  "sat_add a b = (if b > u64_max - a then u64_max else a + b)"

definition sat_sub :: "u64 \<Rightarrow> u64 \<Rightarrow> u64" where
  "sat_sub a b = (if a \<ge> b then a - b else 0)"

section \<open>What they compute on the natural numbers\<close>

named_theorems checked_nat \<open>the natural-number meaning of the checked operations\<close>

lemma add_overflow_iff: "b > u64_max - a \<longleftrightarrow> 2 ^ 64 \<le> unat a + unat b"
proof -
  have "unat (u64_max - a) = 2 ^ 64 - 1 - unat a"
    using unat_sub [of a u64_max] by simp
  then show ?thesis
    using unat_u64_less [of a] by (auto simp: word_less_nat_alt)
qed

lemma mul_overflow_iff: "a \<noteq> 0 \<and> b > u64_max div a \<longleftrightarrow> 2 ^ 64 \<le> unat a * unat b"
proof (cases "a = 0")
  case False
  then have pos: "0 < unat a"
    by (simp add: unat_gt_0)
  have "b > u64_max div a \<longleftrightarrow> (2 ^ 64 - 1) div unat a < unat b"
    by (simp add: word_less_nat_alt unat_div)
  also have "\<dots> \<longleftrightarrow> 2 ^ 64 - 1 < unat b * unat a"
    using pos by (rule div_less_iff_less_mult)
  finally show ?thesis
    using False by (auto simp: mult.commute)
qed simp

lemma unat_add_no_overflow: "unat a + unat b < 2 ^ 64 \<Longrightarrow> unat (a + b :: u64) = unat a + unat b"
  by (simp add: unat_word_ariths)

lemma unat_mult_no_overflow: "unat a * unat b < 2 ^ 64 \<Longrightarrow> unat (a * b :: u64) = unat a * unat b"
  by (simp add: unat_word_ariths)

lemma checked_add_Some [checked_nat]:
  "checked_add a b = Some c \<longleftrightarrow> unat a + unat b < 2 ^ 64 \<and> unat c = unat a + unat b"
  using add_overflow_iff [of a b] unat_add_no_overflow [of a b]
  by (auto simp: checked_add_def word_unat_eq_iff)

lemma checked_add_None [checked_nat]: "checked_add a b = None \<longleftrightarrow> 2 ^ 64 \<le> unat a + unat b"
  using add_overflow_iff [of a b] by (auto simp: checked_add_def)

lemma checked_sub_Some [checked_nat]:
  "checked_sub a b = Some c \<longleftrightarrow> b \<le> a \<and> unat c + unat b = unat a"
  using unat_sub [of b a]
  by (auto simp: checked_sub_def word_unat_eq_iff word_le_nat_alt word_less_nat_alt)

lemma checked_sub_None [checked_nat]: "checked_sub a b = None \<longleftrightarrow> unat a < unat b"
  by (auto simp: checked_sub_def word_less_nat_alt)

lemma checked_mul_Some [checked_nat]:
  "checked_mul a b = Some c \<longleftrightarrow> unat a * unat b < 2 ^ 64 \<and> unat c = unat a * unat b"
  using mul_overflow_iff [of a b] unat_mult_no_overflow [of a b]
  by (auto simp: checked_mul_def word_unat_eq_iff)

lemma checked_mul_None [checked_nat]: "checked_mul a b = None \<longleftrightarrow> 2 ^ 64 \<le> unat a * unat b"
  using mul_overflow_iff [of a b] by (auto simp: checked_mul_def)

lemma unat_sat_add [checked_nat]: "unat (sat_add a b) = min (2 ^ 64 - 1) (unat a + unat b)"
  using add_overflow_iff [of a b] unat_add_no_overflow [of a b]
  by (auto simp: sat_add_def)

lemma unat_sat_sub [checked_nat]: "unat (sat_sub a b) = unat a - unat b"
  using unat_sub [of b a] by (auto simp: sat_sub_def word_le_nat_alt)

lemma sat_sub_le [simp]: "sat_sub a b \<le> a"
  by (simp add: word_le_nat_alt unat_sat_sub)

lemma sat_add_zero [simp]: "sat_add a 0 = a" "sat_add 0 a = a"
  by (simp_all add: word_unat_eq_iff unat_sat_add) (use unat_u64_less [of a] in simp)+

text \<open>The checked operations succeed exactly when the true result fits in 64 bits (is not
  negative for subtraction) and then return it; the saturating ones clamp it to the range.\<close>

theorem checked_arithmetic_exact:
  "(case checked_add a b of None \<Rightarrow> 2 ^ 64 \<le> unat a + unat b | Some c \<Rightarrow> unat c = unat a + unat b)
   \<and> (case checked_sub a b of None \<Rightarrow> unat a < unat b | Some c \<Rightarrow> unat c + unat b = unat a)
   \<and> (case checked_mul a b of None \<Rightarrow> 2 ^ 64 \<le> unat a * unat b | Some c \<Rightarrow> unat c = unat a * unat b)
   \<and> unat (sat_add a b) = min (2 ^ 64 - 1) (unat a + unat b)
   \<and> unat (sat_sub a b) = unat a - unat b"
  by (simp add: checked_nat split: option.split)

end
