(* ===== verification/Resource.thy ===== *)
theory Resource
  imports Errors Ids Checked
begin

text \<open>
  \<open>resource.hpp\<close>: the bounded set of resource dimensions, the resource vector, capabilities, the
  versioned capacity snapshot and the accounting container \<open>ResourceAccount\<close>. The loops of the
  source run over the dimensions in the order of their indices, so they are recursions over the
  list \<open>resource_ids\<close>.
\<close>

section \<open>Dimensions\<close>

text \<open>The sentinel \<open>Count\<close> of the source is the number of dimensions, \<open>kResourceCount\<close>.\<close>

datatype ResourceId =
    AcceleratorMemory | HostMemory | PinnedHostMemory | PersistentCache | AcceleratorCompute | CpuSupport
  | TransferBandwidth | ExecutionSlots | SequenceSlots | ModelResidency | KvCapacity | TensorState

definition resource_ids :: "ResourceId list" where
  "resource_ids = [AcceleratorMemory, HostMemory, PinnedHostMemory, PersistentCache, AcceleratorCompute,
     CpuSupport, TransferBandwidth, ExecutionSlots, SequenceSlots, ModelResidency, KvCapacity, TensorState]"

definition kResourceCount :: nat where
  "kResourceCount = 12"

text \<open>\<open>static_cast<std::size_t>(id)\<close>.\<close>

primrec resource_index :: "ResourceId \<Rightarrow> nat" where
  "resource_index AcceleratorMemory = 0"
| "resource_index HostMemory = 1"
| "resource_index PinnedHostMemory = 2"
| "resource_index PersistentCache = 3"
| "resource_index AcceleratorCompute = 4"
| "resource_index CpuSupport = 5"
| "resource_index TransferBandwidth = 6"
| "resource_index ExecutionSlots = 7"
| "resource_index SequenceSlots = 8"
| "resource_index ModelResidency = 9"
| "resource_index KvCapacity = 10"
| "resource_index TensorState = 11"

primrec resource_name :: "ResourceId \<Rightarrow> string" where
  "resource_name AcceleratorMemory = ''accelerator_memory''"
| "resource_name HostMemory = ''host_memory''"
| "resource_name PinnedHostMemory = ''pinned_host_memory''"
| "resource_name PersistentCache = ''persistent_cache''"
| "resource_name AcceleratorCompute = ''accelerator_compute''"
| "resource_name CpuSupport = ''cpu_support''"
| "resource_name TransferBandwidth = ''transfer_bandwidth''"
| "resource_name ExecutionSlots = ''execution_slots''"
| "resource_name SequenceSlots = ''sequence_slots''"
| "resource_name ModelResidency = ''model_residency''"
| "resource_name KvCapacity = ''kv_capacity''"
| "resource_name TensorState = ''tensor_state''"

definition resource_is_bytes :: "ResourceId \<Rightarrow> bool" where
  "resource_is_bytes i \<longleftrightarrow>
     i \<in> {AcceleratorMemory, HostMemory, PinnedHostMemory, PersistentCache, KvCapacity, TensorState}"

instantiation ResourceId :: enum
begin

definition enum_ResourceId :: "ResourceId list" where
  "enum_ResourceId = resource_ids"

definition enum_all_ResourceId :: "(ResourceId \<Rightarrow> bool) \<Rightarrow> bool" where
  "enum_all_ResourceId P \<longleftrightarrow> list_all P resource_ids"

definition enum_ex_ResourceId :: "(ResourceId \<Rightarrow> bool) \<Rightarrow> bool" where
  "enum_ex_ResourceId P \<longleftrightarrow> list_ex P resource_ids"

lemma UNIV_ResourceId: "(UNIV :: ResourceId set) = set resource_ids"
proof -
  have "i \<in> set resource_ids" for i
    by (cases i) (simp_all add: resource_ids_def)
  then show ?thesis by auto
qed

instance
  by standard
    (auto simp: enum_ResourceId_def enum_all_ResourceId_def enum_ex_ResourceId_def UNIV_ResourceId
      list_all_iff list_ex_iff, auto simp: resource_ids_def)

end

instantiation ResourceId :: linorder
begin

definition less_eq_ResourceId :: "ResourceId \<Rightarrow> ResourceId \<Rightarrow> bool" where
  "less_eq_ResourceId a b \<longleftrightarrow> resource_index a \<le> resource_index b"

definition less_ResourceId :: "ResourceId \<Rightarrow> ResourceId \<Rightarrow> bool" where
  "less_ResourceId a b \<longleftrightarrow> resource_index a < resource_index b"

lemma resource_index_inj: "resource_index a = resource_index b \<Longrightarrow> a = b"
  by (cases a; cases b) simp_all

instance
  by standard (auto simp: less_eq_ResourceId_def less_ResourceId_def intro: resource_index_inj)

end

lemma in_resource_ids [simp]: "i \<in> set resource_ids"
  using UNIV_ResourceId by auto

lemma all_ResourceId: "(\<forall>i. P i) \<longleftrightarrow> list_all P resource_ids"
  by (auto simp: list_all_iff)

lemma ball_resource_ids [simp]: "(\<forall>i \<in> set resource_ids. P i) \<longleftrightarrow> (\<forall>i. P i)"
  by auto

lemma bex_resource_ids [simp]: "(\<exists>i \<in> set resource_ids. P i) \<longleftrightarrow> (\<exists>i. P i)"
  by auto

lemma sorted_resource_ids: "sorted_wrt (<) resource_ids"
  by (simp add: resource_ids_def less_ResourceId_def)

section \<open>Provenance and pressure\<close>

text \<open>The arrays of a default snapshot are zero-initialised, and 0 is not an enumerator of
  \<open>Provenance\<close>: \<open>Provenance_Raw\<close> stands for the bytes outside the enumeration.\<close>

datatype (plugins only: code size) Provenance =
    Provenance_Measured | Provenance_Configured | Provenance_Derived | Provenance_Predicted
  | Provenance_Stale | Provenance_Unavailable | Provenance_Raw u8

datatype (plugins only: code size) PressureLevel =
    PressureLevel_None | PressureLevel_Low | PressureLevel_Normal | PressureLevel_High
  | PressureLevel_Critical | PressureLevel_Raw u8

primrec provenance_name :: "Provenance \<Rightarrow> string" where
  "provenance_name Provenance_Measured = ''measured''"
| "provenance_name Provenance_Configured = ''configured''"
| "provenance_name Provenance_Derived = ''derived''"
| "provenance_name Provenance_Predicted = ''predicted''"
| "provenance_name Provenance_Stale = ''stale''"
| "provenance_name Provenance_Unavailable = ''unavailable''"
| "provenance_name (Provenance_Raw b) = ''unknown''"

primrec pressure_name :: "PressureLevel \<Rightarrow> string" where
  "pressure_name PressureLevel_None = ''none''"
| "pressure_name PressureLevel_Low = ''low''"
| "pressure_name PressureLevel_Normal = ''normal''"
| "pressure_name PressureLevel_High = ''high''"
| "pressure_name PressureLevel_Critical = ''critical''"
| "pressure_name (PressureLevel_Raw b) = ''unknown''"

section \<open>Resource vectors\<close>

text \<open>\<open>std::array<std::uint64_t, 12>\<close> indexed by the dimension: \<open>get\<close> is application, \<open>set\<close> is
  function update.\<close>

type_synonym ResourceVector = "ResourceId \<Rightarrow> u64"

definition rv_zero :: ResourceVector where
  "rv_zero = (\<lambda>i. 0)"

fun is_zero_loop :: "ResourceId list \<Rightarrow> ResourceVector \<Rightarrow> bool" where
  "is_zero_loop [] v = True"
| "is_zero_loop (i # is) v = (if v i \<noteq> 0 then False else is_zero_loop is v)"

definition rv_is_zero :: "ResourceVector \<Rightarrow> bool" where
  "rv_is_zero v = is_zero_loop resource_ids v"

definition rv_any_nonzero :: "ResourceVector \<Rightarrow> bool" where
  "rv_any_nonzero v \<longleftrightarrow> \<not> rv_is_zero v"

text \<open>\<open>try_add\<close> and \<open>try_sub\<close> write the result dimension by dimension and stop at the first one
  that does not fit; every caller drops the partial result when the call returns \<open>false\<close>.\<close>

fun try_loop :: "(u64 \<Rightarrow> u64 \<Rightarrow> u64 option) \<Rightarrow> ResourceId list \<Rightarrow> ResourceVector \<Rightarrow> ResourceVector
    \<Rightarrow> ResourceVector \<Rightarrow> ResourceVector option" where
  "try_loop f [] a b out = Some out"
| "try_loop f (i # is) a b out =
     (case f (a i) (b i) of None \<Rightarrow> None | Some r \<Rightarrow> try_loop f is a b (out(i := r)))"

definition try_add :: "ResourceVector \<Rightarrow> ResourceVector \<Rightarrow> ResourceVector option" where
  "try_add a b = try_loop checked_add resource_ids a b rv_zero"

definition try_sub :: "ResourceVector \<Rightarrow> ResourceVector \<Rightarrow> ResourceVector option" where
  "try_sub a b = try_loop checked_sub resource_ids a b rv_zero"

definition diff_of :: "ResourceVector \<Rightarrow> ResourceVector \<Rightarrow> ResourceVector" where
  "diff_of a b = (\<lambda>i. if a i \<ge> b i then a i - b i else b i - a i)"

fun fits_loop :: "ResourceId list \<Rightarrow> ResourceVector \<Rightarrow> ResourceVector \<Rightarrow> bool" where
  "fits_loop [] v limit = True"
| "fits_loop (i # is) v limit = (if v i > limit i then False else fits_loop is v limit)"

definition fits_in :: "ResourceVector \<Rightarrow> ResourceVector \<Rightarrow> bool" where
  "fits_in v limit = fits_loop resource_ids v limit"

definition rv_sat_add :: "ResourceVector \<Rightarrow> ResourceVector \<Rightarrow> ResourceVector" where
  "rv_sat_add a b = (\<lambda>i. sat_add (a i) (b i))"

definition rv_sat_sub :: "ResourceVector \<Rightarrow> ResourceVector \<Rightarrow> ResourceVector" where
  "rv_sat_sub a b = (\<lambda>i. sat_sub (a i) (b i))"

definition max_with :: "ResourceVector \<Rightarrow> ResourceVector \<Rightarrow> ResourceVector" where
  "max_with a b = (\<lambda>i. max (a i) (b i))"

definition min_with :: "ResourceVector \<Rightarrow> ResourceVector \<Rightarrow> ResourceVector" where
  "min_with a b = (\<lambda>i. min (a i) (b i))"

text \<open>\<open>ResourceRequirement\<close> wraps one vector.\<close>

record ResourceRequirement =
  req_demand :: ResourceVector

section \<open>Capabilities and snapshots\<close>

text \<open>\<open>std::set<std::string>\<close>: the keys of an ordered map.\<close>

type_synonym Capabilities = "(string, unit) omap"

definition cap_add :: "string \<Rightarrow> Capabilities \<Rightarrow> Capabilities" where
  "cap_add t c = om_put t () c"

definition cap_contains :: "Capabilities \<Rightarrow> string \<Rightarrow> bool" where
  "cap_contains c t \<longleftrightarrow> om_find c t \<noteq> None"

definition cap_contains_all :: "Capabilities \<Rightarrow> Capabilities \<Rightarrow> bool" where
  "cap_contains_all c required \<longleftrightarrow> list_all (\<lambda>(t, _). cap_contains c t) required"

definition cap_backend :: "string \<Rightarrow> string" where
  "cap_backend b = ''backend='' @ b"

definition cap_compute_capability :: "string \<Rightarrow> string" where
  "cap_compute_capability cc = ''cuda:cc='' @ cc"

definition cap_min_vram :: "u64 \<Rightarrow> string" where
  "cap_min_vram n = ''cuda:min_vram='' @ to_string_u64 n"

definition cap_dtype :: "string \<Rightarrow> string" where
  "cap_dtype d = ''dtype='' @ d"

definition cap_quantization :: "string \<Rightarrow> string" where
  "cap_quantization q = ''quant='' @ q"

definition cap_runtime_feature :: "string \<Rightarrow> string" where
  "cap_runtime_feature f = ''runtime='' @ f"

definition cap_execution_family :: "string \<Rightarrow> string" where
  "cap_execution_family f = ''family='' @ f"

definition cap_adapter :: "string \<Rightarrow> string" where
  "cap_adapter a = ''adapter='' @ a"

definition cap_protocol_version :: "string \<Rightarrow> string" where
  "cap_protocol_version v = ''protocol='' @ v"

record ResourceSnapshot =
  snap_generation :: ResourceSnapshotGeneration
  snap_timestamp :: i64
  snap_agent_id :: AgentId
  snap_boot_id :: AgentBootId
  snap_node_name :: string
  snap_device_index :: u32
  snap_device_name :: string
  snap_total :: ResourceVector
  snap_used :: ResourceVector
  snap_reserved :: ResourceVector
  snap_reclaimable :: ResourceVector
  snap_capabilities :: Capabilities
  snap_healthy :: bool
  snap_model_residency_hints :: "string list"
  snap_transfer_path_hints :: "string list"
  snap_pressure :: "ResourceId \<Rightarrow> PressureLevel"
  snap_provenance :: "ResourceId \<Rightarrow> Provenance"

text \<open>A default-constructed snapshot.\<close>

definition default_snapshot :: ResourceSnapshot where
  "default_snapshot = \<lparr>snap_generation = Id 0, snap_timestamp = 0, snap_agent_id = Id 0, snap_boot_id = Id 0,
     snap_node_name = [], snap_device_index = 0, snap_device_name = [],
     snap_total = rv_zero, snap_used = rv_zero, snap_reserved = rv_zero, snap_reclaimable = rv_zero,
     snap_capabilities = [], snap_healthy = True,
     snap_model_residency_hints = [], snap_transfer_path_hints = [],
     snap_pressure = (\<lambda>_. PressureLevel_None), snap_provenance = (\<lambda>_. Provenance_Raw 0)\<rparr>"

definition snap_headroom :: "ResourceSnapshot \<Rightarrow> ResourceVector" where
  "snap_headroom s = rv_sat_sub (rv_sat_sub (snap_total s) (snap_used s)) (snap_reserved s)"

definition available_including_reclaimable :: "ResourceSnapshot \<Rightarrow> ResourceVector" where
  "available_including_reclaimable s = rv_sat_add (snap_headroom s) (snap_reclaimable s)"

text \<open>\<open>now - timestamp > max_age\<close> on signed 64-bit nanosecond counts.\<close>

definition is_stale_as_of :: "ResourceSnapshot \<Rightarrow> i64 \<Rightarrow> i64 \<Rightarrow> bool" where
  "is_stale_as_of s now max_age \<longleftrightarrow> max_age <s now - snap_timestamp s"

definition has_unavailable_dimension :: "ResourceSnapshot \<Rightarrow> bool" where
  "has_unavailable_dimension s \<longleftrightarrow> list_ex (\<lambda>i. snap_provenance s i = Provenance_Unavailable) resource_ids"

section \<open>The accounting container\<close>

record ResourceAccount =
  acct_total :: ResourceVector
  acct_used :: ResourceVector
  acct_reserved :: ResourceVector

definition account_set_total :: "ResourceAccount \<Rightarrow> ResourceVector \<Rightarrow> ResourceAccount" where
  "account_set_total a t = a\<lparr>acct_total := t\<rparr>"

definition account_headroom :: "ResourceAccount \<Rightarrow> ResourceVector" where
  "account_headroom a = rv_sat_sub (rv_sat_sub (acct_total a) (acct_used a)) (acct_reserved a)"

definition account_reserve :: "ResourceAccount \<Rightarrow> ResourceVector \<Rightarrow> bool \<times> ResourceAccount" where
  "account_reserve a demand =
     (case try_add (acct_reserved a) demand of
        None \<Rightarrow> (False, a)
      | Some nxt \<Rightarrow>
          (case try_add (acct_used a) nxt of
             None \<Rightarrow> (False, a)
           | Some s \<Rightarrow>
               if \<not> fits_in s (acct_total a) then (False, a)
               else (True, a\<lparr>acct_reserved := nxt\<rparr>)))"

definition account_commit :: "ResourceAccount \<Rightarrow> ResourceVector \<Rightarrow> bool \<times> ResourceAccount" where
  "account_commit a demand =
     (if \<not> fits_in demand (acct_reserved a) then (False, a)
      else case try_sub (acct_reserved a) demand of
             None \<Rightarrow> (False, a)
           | Some r2 \<Rightarrow>
               (case try_add (acct_used a) demand of
                  None \<Rightarrow> (False, a)
                | Some u2 \<Rightarrow> (True, a\<lparr>acct_reserved := r2, acct_used := u2\<rparr>)))"

definition account_rollback :: "ResourceAccount \<Rightarrow> ResourceVector \<Rightarrow> bool \<times> ResourceAccount" where
  "account_rollback a demand =
     (if \<not> fits_in demand (acct_reserved a) then (False, a)
      else case try_sub (acct_reserved a) demand of
             None \<Rightarrow> (False, a)
           | Some r2 \<Rightarrow> (True, a\<lparr>acct_reserved := r2\<rparr>))"

definition account_release :: "ResourceAccount \<Rightarrow> ResourceVector \<Rightarrow> bool \<times> ResourceAccount" where
  "account_release a demand =
     (if \<not> fits_in demand (acct_used a) then (False, a)
      else case try_sub (acct_used a) demand of
             None \<Rightarrow> (False, a)
           | Some u2 \<Rightarrow> (True, a\<lparr>acct_used := u2\<rparr>))"

definition account_coherent :: "ResourceAccount \<Rightarrow> bool" where
  "account_coherent a =
     (case try_add (acct_used a) (acct_reserved a) of
        None \<Rightarrow> False
      | Some s \<Rightarrow> fits_in s (acct_total a))"

section \<open>The loops, dimension by dimension\<close>

named_theorems rv_simps \<open>the vector operations as statements over all dimensions\<close>

lemma distinct_resource_ids: "distinct resource_ids"
  by (simp add: resource_ids_def)

lemma is_zero_loop_iff: "is_zero_loop is v \<longleftrightarrow> (\<forall>i \<in> set is. v i = 0)"
  by (induction "is") auto

lemma rv_is_zero_iff [rv_simps]: "rv_is_zero v \<longleftrightarrow> (\<forall>i. v i = 0)"
  by (auto simp: rv_is_zero_def is_zero_loop_iff)

lemma fits_loop_iff: "fits_loop is v l \<longleftrightarrow> (\<forall>i \<in> set is. v i \<le> l i)"
  by (induction "is") auto

lemma fits_in_iff [rv_simps]: "fits_in v l \<longleftrightarrow> (\<forall>i. v i \<le> l i)"
  by (auto simp: fits_in_def fits_loop_iff)

lemma try_loop_Some:
  "distinct is \<Longrightarrow> try_loop f is a b out = Some c \<longleftrightarrow>
     (\<forall>i \<in> set is. f (a i) (b i) = Some (c i)) \<and> (\<forall>i. i \<notin> set is \<longrightarrow> c i = out i)"
  by (induction f "is" a b out rule: try_loop.induct) (auto split: option.split)

lemma try_loop_None:
  "try_loop f is a b out = None \<longleftrightarrow> (\<exists>i \<in> set is. f (a i) (b i) = None)"
  by (induction "is" arbitrary: out) (auto simp del: fun_upd_apply split: option.split)

lemma try_add_Some [rv_simps]:
  "try_add a b = Some c \<longleftrightarrow>
     (\<forall>i. unat (a i) + unat (b i) < 2 ^ 64 \<and> unat (c i) = unat (a i) + unat (b i))"
  by (simp add: try_add_def try_loop_Some distinct_resource_ids checked_nat)

lemma try_add_None [rv_simps]: "try_add a b = None \<longleftrightarrow> (\<exists>i. 2 ^ 64 \<le> unat (a i) + unat (b i))"
  by (simp add: try_add_def try_loop_None checked_nat)

lemma try_sub_Some [rv_simps]:
  "try_sub a b = Some c \<longleftrightarrow> (\<forall>i. b i \<le> a i \<and> unat (c i) + unat (b i) = unat (a i))"
  by (simp add: try_sub_def try_loop_Some distinct_resource_ids checked_nat)

lemma try_sub_None [rv_simps]: "try_sub a b = None \<longleftrightarrow> (\<exists>i. unat (a i) < unat (b i))"
  by (simp add: try_sub_def try_loop_None checked_nat)

lemma rv_zero_apply [simp]: "rv_zero i = 0"
  by (simp add: rv_zero_def)

lemma rv_eqI: "(\<And>i. unat (a i) = unat (b i)) \<Longrightarrow> a = (b :: ResourceVector)"
  by (auto simp: fun_eq_iff word_unat_eq_iff)

lemma try_sub_total: "fits_in b a \<Longrightarrow> \<exists>c. try_sub a b = Some c"
  by (cases "try_sub a b") (auto simp: try_sub_None fits_in_iff word_le_nat_alt simp flip: not_le)

lemma try_sub_fits: "try_sub a b = Some c \<Longrightarrow> fits_in c a"
  by (simp add: try_sub_Some fits_in_iff word_le_nat_alt) (metis le_add1)

lemma try_sub_fits_in: "try_sub a b = Some c \<Longrightarrow> fits_in b a"
  by (simp add: try_sub_Some fits_in_iff)

lemma fits_in_refl [simp]: "fits_in a a"
  by (simp add: fits_in_iff)

lemma try_add_sub: "try_add a b = Some c \<Longrightarrow> try_sub c b = Some a"
  by (simp add: try_add_Some try_sub_Some word_le_nat_alt)

lemma try_sub_add: "try_sub a b = Some c \<Longrightarrow> try_add c b = Some a"
  using unat_u64_less by (metis (no_types, lifting) try_add_Some try_sub_Some)

lemma try_add_cancel: "try_add a b = Some c \<Longrightarrow> try_add d b = Some c \<Longrightarrow> a = d"
  by (rule rv_eqI) (metis add_right_cancel try_add_Some)

lemma coherent_iff [rv_simps]:
  "account_coherent a \<longleftrightarrow>
     (\<forall>i. unat (acct_used a i) + unat (acct_reserved a i) \<le> unat (acct_total a i))"
proof (cases "try_add (acct_used a) (acct_reserved a)")
  case None
  then obtain i where "2 ^ 64 \<le> unat (acct_used a i) + unat (acct_reserved a i)"
    by (auto simp: try_add_None)
  then have "\<not> unat (acct_used a i) + unat (acct_reserved a i) \<le> unat (acct_total a i)"
    using unat_u64_less [of "acct_total a i"] by linarith
  with None show ?thesis
    by (auto simp: account_coherent_def)
next
  case (Some c)
  then have "unat (c i) = unat (acct_used a i) + unat (acct_reserved a i)" for i
    by (simp add: try_add_Some)
  with Some show ?thesis
    by (simp add: account_coherent_def fits_in_iff word_le_nat_alt)
qed

section \<open>Two-phase accounting\<close>

text \<open>
  The contract shared by the accounting container and the reservation manager: an amount is held
  (reserved), and then either settled (moved to used) and later freed, or undone. \<open>pending\<close> and
  \<open>settled\<close> say that the handle's amount is part of the reserved or of the used vector.
\<close>

locale two_phase_account =
  fixes reserved used :: "'s \<Rightarrow> ResourceVector"
    and hold settle undo free :: "'h \<Rightarrow> 's \<Rightarrow> bool \<times> 's"
    and amount :: "'h \<Rightarrow> ResourceVector"
    and pending settled :: "'s \<Rightarrow> 'h \<Rightarrow> bool"
    and ok :: "'s \<Rightarrow> bool"
  assumes ok_hold: "ok s \<Longrightarrow> hold h s = (True, t) \<Longrightarrow> ok t"
    and ok_settle: "ok s \<Longrightarrow> pending s h \<Longrightarrow> settle h s = (True, t) \<Longrightarrow> ok t"
    and hold_effect: "ok s \<Longrightarrow> hold h s = (True, t) \<Longrightarrow>
      try_add (reserved s) (amount h) = Some (reserved t) \<and> used t = used s \<and> pending t h"
    and settle_effect: "ok s \<Longrightarrow> pending s h \<Longrightarrow> settle h s = (True, t) \<Longrightarrow>
      try_sub (reserved s) (amount h) = Some (reserved t) \<and> try_add (used s) (amount h) = Some (used t)
      \<and> settled t h"
    and undo_effect: "ok s \<Longrightarrow> pending s h \<Longrightarrow>
      \<exists>t. undo h s = (True, t) \<and> try_sub (reserved s) (amount h) = Some (reserved t) \<and> used t = used s"
    and free_effect: "ok s \<Longrightarrow> settled s h \<Longrightarrow>
      \<exists>t. free h s = (True, t) \<and> try_sub (used s) (amount h) = Some (used t) \<and> reserved t = reserved s"
begin

lemma hold_undo:
  assumes "ok s" and "hold h s = (True, t)"
  shows "\<exists>u. undo h t = (True, u) \<and> reserved u = reserved s \<and> used u = used s"
  using undo_effect [of t h] hold_effect [OF assms] ok_hold [OF assms]
    try_add_sub [of "reserved s" "amount h" "reserved t"] by fastforce

lemma hold_settle_free:
  assumes "ok s" and "hold h s = (True, t)" and "settle h t = (True, u)"
  shows "reserved u = reserved s \<and> try_add (used s) (amount h) = Some (used u)
    \<and> (\<exists>v. free h u = (True, v) \<and> reserved v = reserved s \<and> used v = used s)"
proof -
  note h = hold_effect [OF assms(1,2)] ok_hold [OF assms(1,2)]
  then have st: "try_sub (reserved t) (amount h) = Some (reserved u)"
    and ad: "try_add (used s) (amount h) = Some (used u)" and "settled u h" and "ok u"
    using settle_effect [of t h u] ok_settle [of t h u] assms(3) by auto
  then obtain v where "free h u = (True, v)" and "try_sub (used u) (amount h) = Some (used v)"
    and "reserved v = reserved u"
    using free_effect by blast
  then show ?thesis
    using h st ad try_add_sub by fastforce
qed

end

lemma account_reserve_True:
  "account_reserve a d = (True, t) \<longleftrightarrow>
     (\<exists>nxt. try_add (acct_reserved a) d = Some nxt \<and> t = a\<lparr>acct_reserved := nxt\<rparr> \<and> account_coherent t)"
  by (auto simp: account_reserve_def account_coherent_def split: option.split)

lemma account_commit_True:
  "account_commit a d = (True, t) \<longleftrightarrow>
     (\<exists>r2 u2. try_sub (acct_reserved a) d = Some r2 \<and> try_add (acct_used a) d = Some u2
        \<and> t = a\<lparr>acct_reserved := r2, acct_used := u2\<rparr>)"
  by (auto simp: account_commit_def dest: try_sub_fits_in split: option.split)

lemma account_rollback_True:
  "account_rollback a d = (True, t) \<longleftrightarrow> (\<exists>r2. try_sub (acct_reserved a) d = Some r2 \<and> t = a\<lparr>acct_reserved := r2\<rparr>)"
  by (auto simp: account_rollback_def dest: try_sub_fits_in split: option.split)

lemma account_release_True:
  "account_release a d = (True, t) \<longleftrightarrow> (\<exists>u2. try_sub (acct_used a) d = Some u2 \<and> t = a\<lparr>acct_used := u2\<rparr>)"
  by (auto simp: account_release_def dest: try_sub_fits_in split: option.split)

lemma account_failure_unchanged:
  "account_reserve a d = (False, t) \<Longrightarrow> t = a"
  "account_commit a d = (False, t) \<Longrightarrow> t = a"
  "account_rollback a d = (False, t) \<Longrightarrow> t = a"
  "account_release a d = (False, t) \<Longrightarrow> t = a"
  by (auto simp: account_reserve_def account_commit_def account_rollback_def account_release_def
      split: option.splits if_splits)

lemma account_coherent_commit:
  assumes "account_coherent a" and "account_commit a d = (True, t)"
  shows "account_coherent t"
proof -
  obtain r2 u2 where r: "try_sub (acct_reserved a) d = Some r2" and u: "try_add (acct_used a) d = Some u2"
    and t: "t = a\<lparr>acct_reserved := r2, acct_used := u2\<rparr>"
    using assms(2) by (auto simp: account_commit_True)
  have "unat (u2 i) + unat (r2 i) \<le> unat (acct_total a i)" for i
  proof -
    have "unat (r2 i) + unat (d i) = unat (acct_reserved a i)"
      using r by (simp add: try_sub_Some)
    moreover have "unat (u2 i) = unat (acct_used a i) + unat (d i)"
      using u by (simp add: try_add_Some)
    moreover have "unat (acct_used a i) + unat (acct_reserved a i) \<le> unat (acct_total a i)"
      using assms(1) by (simp add: coherent_iff)
    ultimately show ?thesis by linarith
  qed
  then show ?thesis by (simp add: t coherent_iff)
qed

lemma account_coherent_shrink:
  assumes "account_coherent a" and "fits_in (acct_used t) (acct_used a)"
    and "fits_in (acct_reserved t) (acct_reserved a)" and "acct_total t = acct_total a"
  shows "account_coherent t"
  unfolding coherent_iff
proof
  fix i
  have "unat (acct_used t i) \<le> unat (acct_used a i)" and "unat (acct_reserved t i) \<le> unat (acct_reserved a i)"
    and "unat (acct_used a i) + unat (acct_reserved a i) \<le> unat (acct_total a i)"
    using assms by (simp_all add: coherent_iff fits_in_iff word_le_nat_alt)
  then show "unat (acct_used t i) + unat (acct_reserved t i) \<le> unat (acct_total t i)"
    using assms(4) by simp
qed

interpretation account: two_phase_account acct_reserved acct_used
  "\<lambda>d a. account_reserve a d" "\<lambda>d a. account_commit a d"
  "\<lambda>d a. account_rollback a d" "\<lambda>d a. account_release a d"
  "\<lambda>d. d" "\<lambda>a d. fits_in d (acct_reserved a)" "\<lambda>a d. fits_in d (acct_used a)" account_coherent
proof unfold_locales
  fix s t :: ResourceAccount and h :: ResourceVector
  show "account_reserve s h = (True, t) \<Longrightarrow> account_coherent t"
    by (auto simp: account_reserve_True)
  show "account_coherent s \<Longrightarrow> account_commit s h = (True, t) \<Longrightarrow> account_coherent t"
    by (rule account_coherent_commit)
  show "account_reserve s h = (True, t) \<Longrightarrow>
    try_add (acct_reserved s) h = Some (acct_reserved t) \<and> acct_used t = acct_used s
    \<and> fits_in h (acct_reserved t)"
    by (auto simp: account_reserve_True try_add_Some fits_in_iff word_le_nat_alt)
  show "account_commit s h = (True, t) \<Longrightarrow>
    try_sub (acct_reserved s) h = Some (acct_reserved t) \<and> try_add (acct_used s) h = Some (acct_used t)
    \<and> fits_in h (acct_used t)"
    by (auto simp: account_commit_True try_add_Some fits_in_iff word_le_nat_alt)
  show "fits_in h (acct_reserved s) \<Longrightarrow> \<exists>t. account_rollback s h = (True, t)
    \<and> try_sub (acct_reserved s) h = Some (acct_reserved t) \<and> acct_used t = acct_used s"
    using try_sub_total [of h "acct_reserved s"] by (auto simp: account_rollback_True)
  show "fits_in h (acct_used s) \<Longrightarrow> \<exists>t. account_release s h = (True, t)
    \<and> try_sub (acct_used s) h = Some (acct_used t) \<and> acct_reserved t = acct_reserved s"
    using try_sub_total [of h "acct_used s"] by (auto simp: account_release_True)
qed

text \<open>The commands of a client of the container.\<close>

datatype account_op = AReserve ResourceVector | ACommit ResourceVector | ARollback ResourceVector | ARelease ResourceVector

primrec account_step :: "account_op \<Rightarrow> ResourceAccount \<Rightarrow> bool \<times> ResourceAccount" where
  "account_step (AReserve d) a = account_reserve a d"
| "account_step (ACommit d) a = account_commit a d"
| "account_step (ARollback d) a = account_rollback a d"
| "account_step (ARelease d) a = account_release a d"

definition account_run :: "account_op list \<Rightarrow> ResourceAccount \<Rightarrow> ResourceAccount" where
  "account_run ops a = fold (\<lambda>op b. snd (account_step op b)) ops a"

lemma account_step_coherent: "account_coherent a \<Longrightarrow> account_step op a = (r, t) \<Longrightarrow> account_coherent t"
proof (cases r)
  case False
  assume "account_coherent a" and "account_step op a = (r, t)"
  with False show ?thesis
    by (cases op) (auto dest: account_failure_unchanged)
next
  case True
  assume c: "account_coherent a" and "account_step op a = (r, t)"
  with True show ?thesis
    using account_coherent_shrink [OF c, of t] account_coherent_commit [OF c]
    by (cases op) (auto simp: account_reserve_True account_rollback_True account_release_True dest: try_sub_fits)
qed

lemma account_run_coherent: "account_coherent a \<Longrightarrow> account_coherent (account_run ops a)"
proof (induction ops arbitrary: a)
  case (Cons op ops)
  then show ?case
    using account_step_coherent [of a op] by (cases "account_step op a") (auto simp: account_run_def)
qed (simp add: account_run_def)

text \<open>From a coherent account every sequence of reserve, commit, rollback and release, whether
  each call succeeds or fails, keeps used + reserved within the total in every dimension, and a
  call that returns false changes nothing.\<close>

theorem account_run_within_total:
  assumes "account_coherent a"
  shows "unat (acct_used (account_run ops a) i) + unat (acct_reserved (account_run ops a) i)
           \<le> unat (acct_total (account_run ops a) i)
         \<and> (account_step op (account_run ops a) = (False, t) \<longrightarrow> t = account_run ops a)"
  using account_run_coherent [OF assms, of ops]
  by (cases op) (auto simp: coherent_iff dest: account_failure_unchanged)

lemma account_run_within_total_witness:
  "unat (acct_used (account_run [AReserve (\<lambda>_. 3), ACommit (\<lambda>_. 2)]
      \<lparr>acct_total = (\<lambda>_. 9), acct_used = rv_zero, acct_reserved = rv_zero\<rparr>) HostMemory)
   + unat (acct_reserved (account_run [AReserve (\<lambda>_. 3), ACommit (\<lambda>_. 2)]
      \<lparr>acct_total = (\<lambda>_. 9), acct_used = rv_zero, acct_reserved = rv_zero\<rparr>) HostMemory)
   \<le> unat (acct_total (account_run [AReserve (\<lambda>_. 3), ACommit (\<lambda>_. 2)]
      \<lparr>acct_total = (\<lambda>_. 9), acct_used = rv_zero, acct_reserved = rv_zero\<rparr>) HostMemory)"
  by (rule account_run_within_total [THEN conjunct1]) (simp add: coherent_iff)

end
