(* ===== verification/Doubles.thy ===== *)
theory Doubles
  imports Prelude
begin

text \<open>
  The \<open>double\<close> arithmetic of the program on IEEE 754 binary64 bit patterns: a value is unpacked to a
  sign, an integer significand and a power of two, the operation is exact on these, and the result is
  rounded to nearest, ties to even. Two things C++ leaves to the platform are fields of a parameter
  record: \<open>std::exp\<close>, and the result of converting a double that is out of range to an integer.
\<close>

type_synonym f64 = "64 word"

datatype (plugins only: code size) fval = FNaN | FInf bool | FNum bool nat int

record platform =
  libm_exp :: "f64 \<Rightarrow> f64"
  oob_u64 :: "f64 \<Rightarrow> u64"
  oob_i64 :: "f64 \<Rightarrow> i64"

section \<open>Bit patterns\<close>

definition f64_sign :: "f64 \<Rightarrow> bool" where
  "f64_sign b \<longleftrightarrow> 2 ^ 63 \<le> unat b"

text \<open>The pattern without its sign bit: ordered like the absolute values.\<close>

definition f64_mag :: "f64 \<Rightarrow> nat" where
  "f64_mag b = unat b mod 2 ^ 63"

definition f64_inf_mag :: nat where
  "f64_inf_mag = 2047 * 2 ^ 52"

definition f64_is_nan :: "f64 \<Rightarrow> bool" where
  "f64_is_nan b \<longleftrightarrow> f64_inf_mag < f64_mag b"

definition f64_is_finite :: "f64 \<Rightarrow> bool" where
  "f64_is_finite b \<longleftrightarrow> f64_mag b < f64_inf_mag"

definition f64_make :: "bool \<Rightarrow> nat \<Rightarrow> f64" where
  "f64_make s mag = of_nat ((if s then 2 ^ 63 else 0) + mag)"

definition f64_nan :: f64 where
  "f64_nan = f64_make False (f64_inf_mag + 2 ^ 51)"

definition f64_neg :: "f64 \<Rightarrow> f64" where
  "f64_neg b = f64_make (\<not> f64_sign b) (f64_mag b)"

definition f64_unpack :: "f64 \<Rightarrow> fval" where
  "f64_unpack b =
     (let mag = f64_mag b; e = mag div 2 ^ 52; f = mag mod 2 ^ 52; s = f64_sign b in
      if e = 2047 then (if f = 0 then FInf s else FNaN)
      else if e = 0 then FNum s f (- 1074)
      else FNum s (2 ^ 52 + f) (int e - 1075))"

section \<open>Rounding\<close>

fun bitlen :: "nat \<Rightarrow> nat" where
  "bitlen n = (if n = 0 then 0 else Suc (bitlen (n div 2)))"

declare bitlen.simps [simp del]

definition round_half_even :: "nat \<Rightarrow> nat \<Rightarrow> nat" where
  "round_half_even n d =
     (let q = n div d; r = n mod d in
      if 2 * r < d \<or> (2 * r = d \<and> even q) then q else q + 1)"

text \<open>The exponent of the last place of a positive quotient \<open>n / d\<close>.\<close>

definition ulp_exp :: "nat \<Rightarrow> nat \<Rightarrow> int" where
  "ulp_exp n d =
     (let e = int (bitlen n) - int (bitlen d);
          at_least = (if 0 \<le> e then d * 2 ^ nat e \<le> n else d \<le> n * 2 ^ nat (- e))
      in max (- 1074) ((if at_least then e else e - 1) - 52))"

text \<open>\<open>n / d\<close> with the given sign, rounded; too large a result is an infinity.\<close>

definition f64_round :: "bool \<Rightarrow> nat \<Rightarrow> nat \<Rightarrow> f64" where
  "f64_round s n d =
     (if n = 0 then f64_make s 0
      else let e = ulp_exp n d;
               m = (if 0 \<le> e then round_half_even n (d * 2 ^ nat e) else round_half_even (n * 2 ^ nat (- e)) d)
           in f64_make s (min f64_inf_mag (nat (e + 1074) * 2 ^ 52 + m)))"

text \<open>\<open>m * 2 ^ e / d\<close>, rounded.\<close>

definition f64_scaled :: "bool \<Rightarrow> nat \<Rightarrow> int \<Rightarrow> nat \<Rightarrow> f64" where
  "f64_scaled s m e d =
     (if 0 \<le> e then f64_round s (m * 2 ^ nat e) d else f64_round s m (d * 2 ^ nat (- e)))"

text \<open>The literals of the source: a decimal fraction \<open>n / d\<close> and an integer.\<close>

definition f64_lit :: "nat \<Rightarrow> nat \<Rightarrow> f64" where
  "f64_lit n d = f64_round False n d"

definition f64_nat :: "nat \<Rightarrow> f64" where
  "f64_nat n = f64_round False n 1"

section \<open>Operations\<close>

definition f64_add :: "f64 \<Rightarrow> f64 \<Rightarrow> f64" where
  "f64_add a b =
     (case f64_unpack a of
        FNaN \<Rightarrow> f64_nan
      | FInf s \<Rightarrow> (case f64_unpack b of FNaN \<Rightarrow> f64_nan | FInf t \<Rightarrow> (if s = t then a else f64_nan) | FNum t n f \<Rightarrow> a)
      | FNum s m e \<Rightarrow>
          (case f64_unpack b of
             FNaN \<Rightarrow> f64_nan
           | FInf t \<Rightarrow> b
           | FNum t n f \<Rightarrow>
               let g = min e f;
                   x = int m * 2 ^ nat (e - g); y = int n * 2 ^ nat (f - g);
                   v = (if s then - x else x) + (if t then - y else y)
               in if v = 0 then f64_make (s \<and> t) 0 else f64_scaled (v < 0) (nat \<bar>v\<bar>) g 1))"

definition f64_sub :: "f64 \<Rightarrow> f64 \<Rightarrow> f64" where
  "f64_sub a b = f64_add a (f64_neg b)"

definition f64_mul :: "f64 \<Rightarrow> f64 \<Rightarrow> f64" where
  "f64_mul a b =
     (case f64_unpack a of
        FNaN \<Rightarrow> f64_nan
      | FInf s \<Rightarrow>
          (case f64_unpack b of
             FNaN \<Rightarrow> f64_nan
           | FInf t \<Rightarrow> f64_make (s \<noteq> t) f64_inf_mag
           | FNum t n f \<Rightarrow> if n = 0 then f64_nan else f64_make (s \<noteq> t) f64_inf_mag)
      | FNum s m e \<Rightarrow>
          (case f64_unpack b of
             FNaN \<Rightarrow> f64_nan
           | FInf t \<Rightarrow> if m = 0 then f64_nan else f64_make (s \<noteq> t) f64_inf_mag
           | FNum t n f \<Rightarrow> f64_scaled (s \<noteq> t) (m * n) (e + f) 1))"

definition f64_div :: "f64 \<Rightarrow> f64 \<Rightarrow> f64" where
  "f64_div a b =
     (case f64_unpack a of
        FNaN \<Rightarrow> f64_nan
      | FInf s \<Rightarrow>
          (case f64_unpack b of
             FNaN \<Rightarrow> f64_nan
           | FInf t \<Rightarrow> f64_nan
           | FNum t n f \<Rightarrow> f64_make (s \<noteq> t) f64_inf_mag)
      | FNum s m e \<Rightarrow>
          (case f64_unpack b of
             FNaN \<Rightarrow> f64_nan
           | FInf t \<Rightarrow> f64_make (s \<noteq> t) 0
           | FNum t n f \<Rightarrow>
               if n = 0 then (if m = 0 then f64_nan else f64_make (s \<noteq> t) f64_inf_mag)
               else f64_scaled (s \<noteq> t) m (e - f) n))"

text \<open>Comparisons: false when an operand is a NaN; the two zeros are equal.\<close>

definition f64_key :: "f64 \<Rightarrow> int" where
  "f64_key b = (if f64_sign b then - int (f64_mag b) else int (f64_mag b))"

definition f64_lt :: "f64 \<Rightarrow> f64 \<Rightarrow> bool" where
  "f64_lt a b \<longleftrightarrow> \<not> f64_is_nan a \<and> \<not> f64_is_nan b \<and> f64_key a < f64_key b"

definition f64_le :: "f64 \<Rightarrow> f64 \<Rightarrow> bool" where
  "f64_le a b \<longleftrightarrow> \<not> f64_is_nan a \<and> \<not> f64_is_nan b \<and> f64_key a \<le> f64_key b"

text \<open>\<open>std::min\<close> and \<open>std::max\<close> return their first argument unless the comparison says otherwise.\<close>

definition f64_min :: "f64 \<Rightarrow> f64 \<Rightarrow> f64" where
  "f64_min a b = (if f64_lt b a then b else a)"

definition f64_max :: "f64 \<Rightarrow> f64 \<Rightarrow> f64" where
  "f64_max a b = (if f64_lt a b then b else a)"

section \<open>Conversions\<close>

definition f64_of_u64 :: "u64 \<Rightarrow> f64" where
  "f64_of_u64 x = f64_round False (unat x) 1"

definition f64_of_i64 :: "i64 \<Rightarrow> f64" where
  "f64_of_i64 x = f64_round (sint x < 0) (nat \<bar>sint x\<bar>) 1"

text \<open>Truncation toward zero, \<open>None\<close> for the infinities and NaN.\<close>

definition f64_trunc :: "f64 \<Rightarrow> int option" where
  "f64_trunc b =
     (case f64_unpack b of
        FNum s m e \<Rightarrow>
          let v = (if 0 \<le> e then int m * 2 ^ nat e else int (m div 2 ^ nat (- e)))
          in Some (if s then - v else v)
      | _ \<Rightarrow> None)"

definition f64_to_u64 :: "platform \<Rightarrow> f64 \<Rightarrow> u64" where
  "f64_to_u64 pf b =
     (case f64_trunc b of
        None \<Rightarrow> oob_u64 pf b
      | Some v \<Rightarrow> if 0 \<le> v \<and> v < 2 ^ 64 then of_int v else oob_u64 pf b)"

definition f64_to_i64 :: "platform \<Rightarrow> f64 \<Rightarrow> i64" where
  "f64_to_i64 pf b =
     (case f64_trunc b of
        None \<Rightarrow> oob_i64 pf b
      | Some v \<Rightarrow> if - (2 ^ 63) \<le> v \<and> v < 2 ^ 63 then of_int v else oob_i64 pf b)"

definition f64_zero :: f64 where
  "f64_zero = 0"

end
