(* ===== verification/Descriptor.thy ===== *)
theory Descriptor
  imports Resource Doubles
begin

text \<open>
  \<open>descriptor.hpp\<close>: what a request claims about itself before admission, and its validation.
\<close>

datatype (plugins only: code size) WorkloadType =
    WorkloadType_Inference | WorkloadType_Prefill | WorkloadType_Decode | WorkloadType_Training
  | WorkloadType_FineTune | WorkloadType_Embedding | WorkloadType_Rerank | WorkloadType_Other
  | WorkloadType_Raw u8

primrec workload_type_name :: "WorkloadType \<Rightarrow> string" where
  "workload_type_name WorkloadType_Inference = ''inference''"
| "workload_type_name WorkloadType_Prefill = ''prefill''"
| "workload_type_name WorkloadType_Decode = ''decode''"
| "workload_type_name WorkloadType_Training = ''training''"
| "workload_type_name WorkloadType_FineTune = ''fine_tune''"
| "workload_type_name WorkloadType_Embedding = ''embedding''"
| "workload_type_name WorkloadType_Rerank = ''rerank''"
| "workload_type_name WorkloadType_Other = ''other''"
| "workload_type_name (WorkloadType_Raw b) = ''unknown''"

datatype (plugins only: code size) LatencyClass =
    LatencyClass_BestEffort | LatencyClass_Interactive | LatencyClass_Realtime
  | LatencyClass_FixedDeadline | LatencyClass_SoftRealtime | LatencyClass_Raw u8

primrec latency_class_name :: "LatencyClass \<Rightarrow> string" where
  "latency_class_name LatencyClass_BestEffort = ''best_effort''"
| "latency_class_name LatencyClass_Interactive = ''interactive''"
| "latency_class_name LatencyClass_Realtime = ''realtime''"
| "latency_class_name LatencyClass_FixedDeadline = ''fixed_deadline''"
| "latency_class_name LatencyClass_SoftRealtime = ''soft_realtime''"
| "latency_class_name (LatencyClass_Raw b) = ''unknown''"

record RetryPolicy =
  retry_max_attempts :: u32
  retry_max_deferrals :: u32
  retry_defer_backoff :: i64
  retry_defer_max_wait :: i64

datatype (plugins only: code size) PreemptionPermission =
    PreemptionPermission_NotPermitted | PreemptionPermission_Preemptible | PreemptionPermission_Deferrable
  | PreemptionPermission_Raw u8

text \<open>Whole seconds as nanoseconds.\<close>

definition seconds :: "nat \<Rightarrow> i64" where
  "seconds n = of_nat (n * 1000000000)"

definition default_retry_policy :: RetryPolicy where
  "default_retry_policy = \<lparr>retry_max_attempts = 1, retry_max_deferrals = 0, retry_defer_backoff = seconds 1,
     retry_defer_max_wait = seconds 60\<rparr>"

record AdmissionDescriptor =
  d_admission_request_id :: AdmissionRequestId
  d_request_id :: RequestId
  d_attempt_id :: AttemptId
  d_tenant_id :: TenantId
  d_model_id :: ModelId
  d_model_revision :: ModelRevision
  d_adapter_id :: "AdapterId option"
  d_policy_generation :: PolicyGeneration
  d_workload_type :: WorkloadType
  d_workload_class :: string
  d_backend :: string
  d_dtype :: string
  d_quantization :: string
  d_input_tokens :: u64
  d_expected_output_tokens :: u64
  d_max_output_tokens :: u64
  d_batchable :: bool
  d_priority :: u8
  d_latency_class :: LatencyClass
  d_deadline :: "i64 option"
  d_requested_slo :: "f64 option"
  d_expected_demand :: "ResourceVector option"
  d_preemption :: PreemptionPermission
  d_degradation_permitted :: bool
  d_requires_reservation :: bool
  d_admission_ttl :: i64
  d_policy_tags :: "string list"

text \<open>A default-constructed descriptor.\<close>

definition default_descriptor :: AdmissionDescriptor where
  "default_descriptor = \<lparr>d_admission_request_id = Id 0, d_request_id = Id 0, d_attempt_id = Id 0,
     d_tenant_id = Id 0, d_model_id = Id 0, d_model_revision = Id 0, d_adapter_id = None,
     d_policy_generation = Id 0, d_workload_type = WorkloadType_Inference, d_workload_class = [],
     d_backend = [], d_dtype = [], d_quantization = [], d_input_tokens = 0, d_expected_output_tokens = 0,
     d_max_output_tokens = 0, d_batchable = False, d_priority = 0, d_latency_class = LatencyClass_BestEffort,
     d_deadline = None, d_requested_slo = None, d_expected_demand = None,
     d_preemption = PreemptionPermission_NotPermitted, d_degradation_permitted = False,
     d_requires_reservation = True, d_admission_ttl = seconds 30, d_policy_tags = []\<rparr>"

definition token_limit :: u64 where
  "token_limit = push_bit 40 1"

definition descriptor_validate :: "AdmissionDescriptor \<Rightarrow> Status" where
  "descriptor_validate d =
     (if is_nil (d_admission_request_id d) then status_failure ErrorCode_MalformedDescriptor ''missing admission_request_id''
      else if is_nil (d_request_id d) then status_failure ErrorCode_MalformedDescriptor ''missing request_id''
      else if is_nil (d_attempt_id d) then status_failure ErrorCode_MalformedDescriptor ''missing attempt_id''
      else if is_nil (d_tenant_id d) then status_failure ErrorCode_MalformedDescriptor ''missing tenant_id''
      else if is_nil (d_model_id d) then status_failure ErrorCode_MalformedDescriptor ''missing model_id''
      else if is_nil (d_model_revision d) then status_failure ErrorCode_MalformedDescriptor ''missing model_revision''
      else if is_nil (d_policy_generation d)
      then status_failure ErrorCode_MalformedDescriptor ''missing policy_generation''
      else if d_max_output_tokens d \<noteq> 0 \<and> d_expected_output_tokens d > d_max_output_tokens d
      then status_failure ErrorCode_MalformedDescriptor ''expected_output_tokens > max_output_tokens''
      else if d_input_tokens d > token_limit then status_failure ErrorCode_MalformedDescriptor ''input_tokens absurd''
      else if d_expected_output_tokens d > token_limit
      then status_failure ErrorCode_MalformedDescriptor ''expected_output_tokens absurd''
      else if d_max_output_tokens d > token_limit
      then status_failure ErrorCode_MalformedDescriptor ''max_output_tokens absurd''
      else if (case d_deadline d of None \<Rightarrow> False | Some t \<Rightarrow> t \<le>s 0)
      then status_failure ErrorCode_MalformedDescriptor ''non-positive deadline''
      else if (case d_requested_slo d of None \<Rightarrow> False | Some slo \<Rightarrow> \<not> f64_lt f64_zero slo)
      then status_failure ErrorCode_MalformedDescriptor ''non-positive SLO''
      else if d_priority d > 63 then status_failure ErrorCode_MalformedDescriptor ''priority out of range''
      else if d_admission_ttl d \<le>s 0 then status_failure ErrorCode_MalformedDescriptor ''non-positive admission_ttl''
      else status_success)"

section \<open>What a valid descriptor guarantees\<close>

lemma token_limit_numeral: "token_limit = 1099511627776"
  by (simp add: token_limit_def)

lemma descriptor_validate_cases:
  "descriptor_validate d = status_success \<or> err_code (descriptor_validate d) = ErrorCode_MalformedDescriptor"
  unfolding descriptor_validate_def by (simp add: status_failure_def split del: option.split)

lemma descriptor_validate_code:
  "\<not> status_ok (descriptor_validate d) \<Longrightarrow> err_code (descriptor_validate d) = ErrorCode_MalformedDescriptor"
  using descriptor_validate_cases [of d] by auto

lemma descriptor_valid_ids:
  "status_ok (descriptor_validate d) \<Longrightarrow>
     \<not> is_nil (d_admission_request_id d) \<and> \<not> is_nil (d_tenant_id d) \<and> \<not> is_nil (d_policy_generation d)"
  by (simp add: descriptor_validate_def split: if_split_asm)

lemma descriptor_valid_tokens:
  "status_ok (descriptor_validate d) \<Longrightarrow>
     d_input_tokens d \<le> token_limit \<and> d_expected_output_tokens d \<le> token_limit \<and> d_max_output_tokens d \<le> token_limit"
  by (simp add: descriptor_validate_def not_less split: if_split_asm)

lemma descriptor_valid_ttl: "status_ok (descriptor_validate d) \<Longrightarrow> 0 <s d_admission_ttl d"
  by (simp add: descriptor_validate_def word_sless_alt word_sle_eq not_le split: if_split_asm)

lemma descriptor_valid_deadline: "status_ok (descriptor_validate d) \<Longrightarrow> d_deadline d = Some t \<Longrightarrow> 0 <s t"
  by (simp add: descriptor_validate_def word_sless_alt word_sle_eq not_le split: if_split_asm)

text \<open>A descriptor that passes validation names its request, tenant and policy; the sums of token
  counts the predictor and the quota check form from it cannot wrap; its time to live and deadline are
  positive and its priority is at most 63. A refused one gets the code \<open>MalformedDescriptor\<close>.\<close>

theorem descriptor_validate_sound:
  "(if status_ok (descriptor_validate d)
    then \<not> is_nil (d_admission_request_id d) \<and> \<not> is_nil (d_tenant_id d) \<and> \<not> is_nil (d_policy_generation d)
      \<and> unat (d_input_tokens d + d_expected_output_tokens d) = unat (d_input_tokens d) + unat (d_expected_output_tokens d)
      \<and> unat (d_input_tokens d + d_max_output_tokens d) = unat (d_input_tokens d) + unat (d_max_output_tokens d)
      \<and> 0 <s d_admission_ttl d \<and> (case d_deadline d of None \<Rightarrow> True | Some t \<Rightarrow> 0 <s t) \<and> d_priority d \<le> 63
    else err_code (descriptor_validate d) = ErrorCode_MalformedDescriptor)"
proof (cases "status_ok (descriptor_validate d)")
  case True
  have "unat (d_input_tokens d) \<le> 2 ^ 40" "unat (d_expected_output_tokens d) \<le> 2 ^ 40" "unat (d_max_output_tokens d) \<le> 2 ^ 40"
    using descriptor_valid_tokens [OF True] by (simp_all add: word_le_nat_alt token_limit_numeral)
  then have "unat (d_input_tokens d + d_expected_output_tokens d) = unat (d_input_tokens d) + unat (d_expected_output_tokens d)"
    and "unat (d_input_tokens d + d_max_output_tokens d) = unat (d_input_tokens d) + unat (d_max_output_tokens d)"
    by (simp_all add: unat_word_ariths)
  moreover have "d_priority d \<le> 63"
    using True by (simp add: descriptor_validate_def not_less split: if_split_asm)
  ultimately show ?thesis
    using True descriptor_valid_ids descriptor_valid_ttl descriptor_valid_deadline by (simp split: option.split)
next
  case False
  then show ?thesis using descriptor_validate_code by simp
qed

text \<open>A small valid descriptor, for examples.\<close>

definition demo_descriptor :: AdmissionDescriptor where
  "demo_descriptor = default_descriptor\<lparr>d_admission_request_id := Id 1, d_request_id := Id 2, d_attempt_id := Id 3,
     d_tenant_id := Id 4, d_model_id := Id 5, d_model_revision := Id 6, d_policy_generation := Id 1,
     d_input_tokens := 100, d_expected_output_tokens := 50\<rparr>"

lemma demo_descriptor_valid: "status_ok (descriptor_validate demo_descriptor)"
  by (simp add: descriptor_validate_def demo_descriptor_def default_descriptor_def is_nil_def seconds_def
      token_limit_numeral word_sle_eq)

end
