(* ===== verification/Observation.thy ===== *)
theory Observation
  imports Descriptor
begin

text \<open>
  \<open>observation.hpp\<close>: a measured outcome that is fed back to the predictor, and its validation.
\<close>

datatype (plugins only: code size) ObservationKind =
    ObservationKind_Completed | ObservationKind_Failed | ObservationKind_Aborted | ObservationKind_Raw u8

record Observation =
  o_id :: ObservationId
  o_admission_request_id :: AdmissionRequestId
  o_tenant_id :: TenantId
  o_model_id :: ModelId
  o_model_revision :: ModelRevision
  o_backend :: string
  o_dtype :: string
  o_quantization :: string
  o_workload_type :: WorkloadType
  o_peak_vram :: u64
  o_host_memory :: u64
  o_pinned_memory :: u64
  o_kv_growth :: u64
  o_transfer_bytes :: u64
  o_execution_duration :: i64
  o_input_tokens :: u64
  o_output_tokens :: u64
  o_completed_at :: i64
  o_kind :: ObservationKind

definition observation_validate :: "Observation \<Rightarrow> Status" where
  "observation_validate ob =
     (if is_nil (o_id ob) then status_failure ErrorCode_InvalidArgument ''observation id nil''
      else if is_nil (o_model_id ob) then status_failure ErrorCode_InvalidArgument ''model id nil''
      else if o_backend ob = [] then status_failure ErrorCode_InvalidArgument ''backend empty''
      else if o_kind ob = ObservationKind_Completed
      then (if o_execution_duration ob <s 0 then status_failure ErrorCode_InvalidArgument ''negative duration''
            else if o_input_tokens ob > push_bit 40 1 \<or> o_output_tokens ob > push_bit 40 1
            then status_failure ErrorCode_InvalidArgument ''token count absurd''
            else if o_peak_vram ob > push_bit 48 1 \<or> o_host_memory ob > push_bit 48 1
              \<or> o_pinned_memory ob > push_bit 48 1
            then status_failure ErrorCode_InvalidArgument ''memory value absurd''
            else status_success)
      else status_success)"

text \<open>The observed decode rate; the division by \<open>1e9\<close> is in double arithmetic.\<close>

definition observed_tokens_per_sec :: "Observation \<Rightarrow> f64" where
  "observed_tokens_per_sec ob =
     (if o_execution_duration ob \<le>s 0 \<or> o_output_tokens ob = 0 then f64_zero
      else f64_div (f64_of_u64 (o_output_tokens ob))
             (f64_div (f64_of_i64 (o_execution_duration ob)) (f64_nat 1000000000)))"

lemma observation_valid_completed:
  "status_ok (observation_validate ob) \<Longrightarrow> o_kind ob = ObservationKind_Completed \<Longrightarrow>
     0 \<le>s o_execution_duration ob \<and> o_peak_vram ob \<le> push_bit 48 1"
  by (simp add: observation_validate_def word_sless_alt word_sle_eq not_less split: if_split_asm)

end
