(* ===== verification/Doubles_Order.thy ===== *)
theory Doubles_Order
  imports Complex_Main Doubles
begin

text \<open>
  Rounding is monotone: the facts about the model's doubles that bound what the predictor, the policy
  thresholds and the headroom computation can do. Values are compared as reals.
\<close>

section \<open>The exponent of the last place\<close>

lemma bitlen_bounds:
  "0 < n \<Longrightarrow> 2 ^ bitlen n \<le> 2 * n \<and> n < 2 ^ bitlen n"
proof (induction n rule: bitlen.induct)
  case (1 n)
  have b: "bitlen n = Suc (bitlen (n div 2))" using "1.prems" by (simp add: bitlen.simps [of n])
  show ?case
  proof (cases "n div 2 = 0")
    case True
    then have "n = 1" using "1.prems" by simp
    then show ?thesis by (simp add: bitlen.simps [of "Suc 0"] bitlen.simps [of 0])
  next
    case False
    then have "2 ^ bitlen (n div 2) \<le> 2 * (n div 2) \<and> n div 2 < 2 ^ bitlen (n div 2)"
      using "1.IH" "1.prems" by simp
    then show ?thesis unfolding b power_Suc by linarith
  qed
qed

definition scale :: "int \<Rightarrow> real" where
  "scale e = 2 powi e"

lemma scale_pos [simp]: "0 < scale e"
  by (simp add: scale_def)

lemma scale_add: "scale (a + b) = scale a * scale b"
  by (simp add: scale_def power_int_add)

lemma scale_nat: "scale (int n) = 2 ^ n"
  by (simp add: scale_def)

lemma scale_mono: "a \<le> b \<Longrightarrow> scale a \<le> scale b"
  by (simp add: scale_def power_int_increasing)

lemma scale_diff: "scale (a - b) = scale a / scale b"
  by (simp add: scale_def power_int_diff)

lemma scale_minus: "scale (- a) = 1 / scale a"
  by (simp add: scale_def power_int_minus divide_inverse)

lemma scale_up: "0 \<le> e \<Longrightarrow> scale e = 2 ^ nat e"
  using scale_nat [of "nat e"] by simp

lemma scale_down: "e \<le> 0 \<Longrightarrow> scale e = 1 / 2 ^ nat (- e)"
  using scale_up [of "- e"] scale_minus [of "- e"] by simp

lemma bitlen_bounds_real:
  assumes "0 < n"
  shows "2 ^ bitlen n \<le> 2 * real n" and "real n < 2 ^ bitlen n"
proof -
  have "real (2 ^ bitlen n) \<le> real (2 * n)" and "real n < real (2 ^ bitlen n)"
    using bitlen_bounds [OF assms] by (simp_all only: of_nat_le_iff of_nat_less_iff)
  then show "2 ^ bitlen n \<le> 2 * real n" and "real n < 2 ^ bitlen n" by simp_all
qed

lemma scale_one [simp]: "scale 1 = 2"
  by (simp add: scale_def)

lemma quotient_less:
  fixes a b n d :: real
  shows "n * b < a * (2 * d) \<Longrightarrow> 0 < b \<Longrightarrow> 0 < d \<Longrightarrow> n / d < a / b * scale 1"
  by (simp add: field_simps)

lemma quotient_le:
  fixes a b n d :: real
  shows "a * d \<le> 2 * n * b \<Longrightarrow> 0 < b \<Longrightarrow> 0 < d \<Longrightarrow> a / b / scale 1 \<le> n / d"
  by (simp add: field_simps)

lemma at_least_up:
  assumes "0 < d" and "0 \<le> e"
  shows "d * 2 ^ nat e \<le> n \<longleftrightarrow> scale e \<le> real n / real d"
proof -
  have "d * 2 ^ nat e \<le> n \<longleftrightarrow> real (d * 2 ^ nat e) \<le> real n" by (simp only: of_nat_le_iff)
  also have "\<dots> \<longleftrightarrow> scale e \<le> real n / real d"
    using assms by (simp add: scale_up pos_le_divide_eq mult.commute)
  finally show ?thesis .
qed

lemma at_least_down:
  assumes "0 < d" and "e < 0"
  shows "d \<le> n * 2 ^ nat (- e) \<longleftrightarrow> scale e \<le> real n / real d"
proof -
  have "d \<le> n * 2 ^ nat (- e) \<longleftrightarrow> real d \<le> real (n * 2 ^ nat (- e))" by (simp only: of_nat_le_iff)
  also have "\<dots> \<longleftrightarrow> scale e \<le> real n / real d"
    using assms by (simp add: scale_down field_simps)
  finally show ?thesis .
qed

text \<open>The binary exponent \<open>E\<close> of a positive quotient, and what \<open>ulp_exp\<close> makes of it.\<close>

lemma ulp_exp_spec:
  assumes "0 < n" and "0 < d"
  obtains E where "scale E \<le> real n / real d" and "real n / real d < scale (E + 1)"
    and "ulp_exp n d = max (- 1074) (E - 52)"
proof -
  let ?a = "bitlen n" and ?b = "bitlen d"
  let ?e = "int ?a - int ?b"
  let ?x = "real n / real d"
  note n = bitlen_bounds_real [OF assms(1)] and d = bitlen_bounds_real [OF assms(2)]
  have pos: "0 < real d" using assms by simp
  have e: "scale ?e = 2 ^ ?a / 2 ^ ?b" by (simp add: scale_diff scale_nat)
  have up: "?x < scale (?e + 1)"
  proof -
    have "real n * 2 ^ ?b < 2 ^ ?a * (2 * real d)"
      by (rule mult_less_le_imp_less) (use n d pos in simp_all)
    then show ?thesis
      unfolding scale_add e by (rule quotient_less) (use pos in simp_all)
  qed
  have low: "scale (?e - 1) \<le> ?x"
  proof -
    have "2 ^ ?a * real d \<le> (2 * real n) * 2 ^ ?b"
      by (rule mult_mono) (use n d pos in simp_all)
    then show ?thesis
      unfolding scale_diff [of _ 1] e by (rule quotient_le) (use pos in simp_all)
  qed
  let ?al = "if 0 \<le> ?e then d * 2 ^ nat ?e \<le> n else d \<le> n * 2 ^ nat (- ?e)"
  have al: "?al \<longleftrightarrow> scale ?e \<le> ?x"
  proof (cases "0 \<le> ?e")
    case True
    then show ?thesis using at_least_up [OF assms(2) True, of n] by simp
  next
    case False
    then show ?thesis using at_least_down [OF assms(2), of ?e n] by simp
  qed
  let ?E = "if scale ?e \<le> ?x then ?e else ?e - 1"
  have "ulp_exp n d = max (- 1074) (?E - 52)"
    unfolding ulp_exp_def Let_def al ..
  moreover have "scale ?E \<le> ?x" and "?x < scale (?E + 1)"
    using up low by auto
  ultimately show ?thesis using that by blast
qed

section \<open>Rounding to an integer\<close>

definition near :: "real \<Rightarrow> nat \<Rightarrow> bool" where
  "near x m \<longleftrightarrow> 2 * \<bar>real m - x\<bar> \<le> 1 \<and> (2 * \<bar>real m - x\<bar> = 1 \<longrightarrow> even m)"

lemma round_half_even_near:
  assumes "0 < d"
  shows "near (real n / real d) (round_half_even n d)"
proof -
  let ?q = "n div d" and ?r = "n mod d"
  have "real n = real ?q * real d + real ?r"
    by (metis div_mult_mod_eq of_nat_add of_nat_mult)
  then have x: "real n / real d = real ?q + real ?r / real d"
    using assms by (simp add: add_divide_distrib)
  have r: "0 \<le> real ?r / real d" "real ?r / real d < 1"
    using assms by simp_all
  have tie: "2 * ?r < d \<longleftrightarrow> 2 * (real ?r / real d) < 1" "2 * ?r = d \<longleftrightarrow> 2 * (real ?r / real d) = 1"
    using assms by (simp_all add: divide_simps) linarith+
  show ?thesis
    unfolding near_def round_half_even_def Let_def tie x using r by auto
qed

lemma near_mono:
  assumes "near x m" and "near y k" and "x \<le> y"
  shows "m \<le> k"
proof (rule ccontr)
  assume "\<not> m \<le> k"
  then have mk: "real k + 1 \<le> real m" by simp
  have "\<bar>real m - x\<bar> \<le> 1 / 2" and "\<bar>real k - y\<bar> \<le> 1 / 2"
    using assms(1,2) by (simp_all add: near_def)
  then have "real m \<le> x + 1 / 2" and "y \<le> real k + 1 / 2" by linarith+
  with mk assms(3) have e: "real m = real k + 1" "real m - x = 1 / 2" "real k - y = - 1 / 2" by linarith+
  then have "even m" and "even k" using assms(1,2) by (simp_all add: near_def)
  moreover have "m = k + 1" using e(1) by linarith
  ultimately show False by simp
qed

lemma near_le: "near x m \<Longrightarrow> x \<le> real b \<Longrightarrow> m \<le> b"
  using near_mono [of x m "real b" b] by (simp add: near_def)

lemma near_ge: "near x m \<Longrightarrow> real b \<le> x \<Longrightarrow> b \<le> m"
  using near_mono [of "real b" b x m] by (simp add: near_def)

section \<open>Rounding a quotient\<close>

definition round_mag :: "nat \<Rightarrow> nat \<Rightarrow> nat" where
  "round_mag n d =
     (if n = 0 then 0
      else let e = ulp_exp n d;
               m = (if 0 \<le> e then round_half_even n (d * 2 ^ nat e) else round_half_even (n * 2 ^ nat (- e)) d)
           in min f64_inf_mag (nat (e + 1074) * 2 ^ 52 + m))"

lemma f64_round_mag: "f64_round s n d = f64_make s (round_mag n d)"
  by (simp add: f64_round_def round_mag_def Let_def)

lemma scale_less_cancel: "scale a < scale b \<Longrightarrow> a < b"
  using scale_mono [of b a] by (cases "a < b") auto

lemma quot_up: "(x :: real) < s * k \<Longrightarrow> 0 < s \<Longrightarrow> x / s \<le> k"
  by (simp add: pos_divide_le_eq mult.commute)

lemma quot_low: "s * k \<le> (x :: real) \<Longrightarrow> 0 < s \<Longrightarrow> k \<le> x / s"
  by (simp add: pos_le_divide_eq mult.commute)

text \<open>A rounded positive quotient: its exponent, its significand and their bounds.\<close>

lemma round_mag_spec:
  assumes "0 < n" and "0 < d"
  obtains e m where "round_mag n d = min f64_inf_mag (nat (e + 1074) * 2 ^ 52 + m)" and "- 1074 \<le> e"
    and "near (real n / real d / scale e) m" and "m \<le> 2 ^ 53" and "- 1074 < e \<Longrightarrow> 2 ^ 52 \<le> m"
    and "real n / real d < scale (e + 53)" and "- 1074 < e \<Longrightarrow> scale (e + 52) \<le> real n / real d"
proof -
  let ?x = "real n / real d"
  obtain E where E: "scale E \<le> ?x" "?x < scale (E + 1)" and e: "ulp_exp n d = max (- 1074) (E - 52)"
    using ulp_exp_spec [OF assms] .
  let ?e = "ulp_exp n d"
  let ?m = "if 0 \<le> ?e then round_half_even n (d * 2 ^ nat ?e) else round_half_even (n * 2 ^ nat (- ?e)) d"
  have near: "near (?x / scale ?e) ?m"
  proof (cases "0 \<le> ?e")
    case True
    then show ?thesis
      using round_half_even_near [of "d * 2 ^ nat ?e" n] assms by (simp add: scale_up)
  next
    case False
    then show ?thesis
      using round_half_even_near [of d "n * 2 ^ nat (- ?e)"] assms by (simp add: scale_down)
  qed
  have "scale (E + 1) \<le> scale (?e + 53)" by (rule scale_mono) (simp add: e)
  with E have up: "?x < scale (?e + 53)" by linarith
  have low: "scale (?e + 52) \<le> ?x" if "- 1074 < ?e"
    using that E e by (simp add: max_def split: if_splits)
  have s53: "scale (?e + 53) = scale ?e * 2 ^ 53" and s52: "scale (?e + 52) = scale ?e * 2 ^ 52"
    using scale_nat [of 53] scale_nat [of 52] by (simp_all add: scale_add)
  have "?x / scale ?e \<le> real (2 ^ 53)"
    using quot_up [OF up [unfolded s53]] by simp
  then have hi: "?m \<le> 2 ^ 53" using near_le [OF near] by simp
  have lo: "2 ^ 52 \<le> ?m" if "- 1074 < ?e"
  proof -
    have "real (2 ^ 52) \<le> ?x / scale ?e"
      using quot_low [OF low [OF that, unfolded s52]] by simp
    then show ?thesis using near_ge [OF near] by simp
  qed
  have eq: "round_mag n d = min f64_inf_mag (nat (?e + 1074) * 2 ^ 52 + ?m)"
    unfolding round_mag_def Let_def using assms by (simp only: if_False less_not_refl3 split: if_split) simp
  have ge: "- 1074 \<le> ?e" by (simp add: e)
  show ?thesis by (rule that [OF eq ge near hi lo up low])
qed

lemma round_mag_mono_pos:
  assumes "0 < n" and "0 < d" and "0 < k" and "0 < c" and le: "real n / real d \<le> real k / real c"
  shows "round_mag n d \<le> round_mag k c"
proof -
  obtain e m where 1: "round_mag n d = min f64_inf_mag (nat (e + 1074) * 2 ^ 52 + m)" "- 1074 \<le> e"
    "near (real n / real d / scale e) m" "m \<le> 2 ^ 53" "- 1074 < e \<Longrightarrow> scale (e + 52) \<le> real n / real d"
    using round_mag_spec [OF assms(1,2)] by metis
  obtain f p where 2: "round_mag k c = min f64_inf_mag (nat (f + 1074) * 2 ^ 52 + p)" "- 1074 \<le> f"
    "near (real k / real c / scale f) p" "- 1074 < f \<Longrightarrow> 2 ^ 52 \<le> p" "real k / real c < scale (f + 53)"
    using round_mag_spec [OF assms(3,4)] by metis
  have ef: "e \<le> f"
  proof (cases "- 1074 < e")
    case True
    then have "scale (e + 52) < scale (f + 53)" using 1(5) 2(5) le by linarith
    then show ?thesis using scale_less_cancel by fastforce
  qed (use 2(2) in simp)
  have "nat (e + 1074) * 2 ^ 52 + m \<le> nat (f + 1074) * 2 ^ 52 + p"
  proof (cases "e = f")
    case True
    have "real n / real d / scale e \<le> real k / real c / scale f"
      unfolding True by (rule divide_right_mono [OF le]) (simp add: less_imp_le)
    then show ?thesis using near_mono [OF 1(3) 2(3)] True by simp
  next
    case False
    with ef 1(2) have "nat (e + 1074) + 1 \<le> nat (f + 1074)" and "- 1074 < f" by simp_all
    then have "(nat (e + 1074) + 1) * 2 ^ 52 \<le> nat (f + 1074) * 2 ^ 52"
      by (intro mult_right_mono) simp_all
    moreover have "2 ^ 52 \<le> p" using 2(4) \<open>- 1074 < f\<close> .
    ultimately show ?thesis using 1(4) by simp
  qed
  then show ?thesis using 1(1) 2(1) by simp
qed

lemma round_mag_mono:
  assumes "0 < d" and "0 < c" and "real n / real d \<le> real k / real c"
  shows "round_mag n d \<le> round_mag k c"
proof (cases "n = 0")
  case False
  then have "0 < real n / real d" using assms by simp
  then have "0 < real k / real c" using assms(3) by linarith
  then have "0 < k" by (simp add: zero_less_divide_iff)
  with False assms show ?thesis by (intro round_mag_mono_pos) simp_all
qed (simp add: round_mag_def)

lemma round_mag_le: "round_mag n d \<le> f64_inf_mag"
  by (simp add: round_mag_def Let_def)

section \<open>Values\<close>

text \<open>The value of a finite magnitude.\<close>

definition mag_value :: "nat \<Rightarrow> real" where
  "mag_value k =
     (if k div 2 ^ 52 = 0 then real (k mod 2 ^ 52) * scale (- 1074)
      else real (2 ^ 52 + k mod 2 ^ 52) * scale (int (k div 2 ^ 52) - 1075))"

lemma mag_value_Suc: "mag_value k \<le> mag_value (Suc k)"
proof -
  let ?e = "k div 2 ^ 52" and ?f = "k mod 2 ^ 52"
  show ?thesis
  proof (cases "?f + 1 < 2 ^ 52")
    case True
    then have "Suc k div 2 ^ 52 = ?e" and "Suc k mod 2 ^ 52 = ?f + 1"
      by (simp_all add: div_Suc mod_Suc)
    then show ?thesis by (simp add: mag_value_def mult_right_mono)
  next
    case False
    then have f: "?f = 2 ^ 52 - 1" using mod_less_divisor [of "2 ^ 52" k] by simp
    then have "Suc k div 2 ^ 52 = ?e + 1" and "Suc k mod 2 ^ 52 = 0"
      by (simp_all add: div_Suc mod_Suc)
    moreover have "scale (int (?e + 1) - 1075) = 2 * scale (int ?e - 1075)"
      using scale_add [of "int ?e - 1075" 1] by (simp add: algebra_simps)
    ultimately show ?thesis
      using f by (auto simp: mag_value_def)
  qed
qed

lemma mag_value_mono: "j \<le> k \<Longrightarrow> mag_value j \<le> mag_value k"
  by (rule lift_Suc_mono_le [of mag_value]) (rule mag_value_Suc)

lemma mag_value_nonneg [simp]: "0 \<le> mag_value k"
  using mag_value_mono [of 0 k] by (simp add: mag_value_def)

section \<open>Non-negative finite doubles\<close>

lemma unat_of_nat_u64: "n < 2 ^ 64 \<Longrightarrow> unat (of_nat n :: u64) = n"
  by (simp add: unat_of_nat)

lemma f64_make_sign_mag:
  assumes "k < 2 ^ 63"
  shows "f64_mag (f64_make s k) = k" and "f64_sign (f64_make s k) = s"
proof -
  have "unat (f64_make s k) = (if s then 2 ^ 63 else 0) + k"
    unfolding f64_make_def by (rule unat_of_nat_u64) (use assms in simp)
  then show "f64_mag (f64_make s k) = k" and "f64_sign (f64_make s k) = s"
    using assms by (simp_all add: f64_mag_def f64_sign_def)
qed

lemma round_mag_less: "round_mag n d < 2 ^ 63"
  using round_mag_le [of n d] by (simp add: f64_inf_mag_def)

definition f64_nonneg :: "f64 \<Rightarrow> bool" where
  "f64_nonneg b \<longleftrightarrow> \<not> f64_sign b \<and> f64_mag b < f64_inf_mag"

definition f64_value :: "f64 \<Rightarrow> real" where
  "f64_value b = mag_value (f64_mag b)"

lemma f64_nonneg_unpack:
  assumes "f64_nonneg b"
  obtains m e where "f64_unpack b = FNum False m e" and "f64_value b = real m * scale e"
proof -
  have "f64_mag b div 2 ^ 52 \<noteq> 2047"
  proof
    assume "f64_mag b div 2 ^ 52 = 2047"
    then have "2047 * 2 ^ 52 \<le> f64_mag b" by (metis div_times_less_eq_dividend)
    then show False using assms by (simp add: f64_nonneg_def f64_inf_mag_def)
  qed
  then show ?thesis
    using that assms by (cases "f64_mag b div 2 ^ 52 = 0") (auto simp: f64_unpack_def f64_value_def mag_value_def f64_nonneg_def Let_def)
qed

lemma f64_scaled_round:
  assumes "0 < c"
  obtains n d where "f64_scaled s m e c = f64_make s (round_mag n d)" and "0 < d"
    and "real n / real d = real m * scale e / real c"
proof (cases "0 \<le> e")
  case True
  then show ?thesis using that [of "m * 2 ^ nat e" c] assms by (simp add: f64_scaled_def f64_round_mag scale_up)
next
  case False
  then show ?thesis
    using that [of m "c * 2 ^ nat (- e)"] assms by (simp add: f64_scaled_def f64_round_mag scale_down mult.commute)
qed

text \<open>Products and quotients of non-negative finite doubles are rounded products and quotients.\<close>

lemma f64_mul_round:
  assumes "f64_nonneg a" and "f64_nonneg b"
  obtains n d where "f64_mul a b = f64_make False (round_mag n d)" and "0 < d"
    and "real n / real d = f64_value a * f64_value b"
proof -
  obtain m e where a: "f64_unpack a = FNum False m e" "f64_value a = real m * scale e"
    using f64_nonneg_unpack [OF assms(1)] .
  obtain k f where b: "f64_unpack b = FNum False k f" "f64_value b = real k * scale f"
    using f64_nonneg_unpack [OF assms(2)] .
  obtain n d where nd: "f64_scaled False (m * k) (e + f) 1 = f64_make False (round_mag n d)" "0 < d"
    "real n / real d = real (m * k) * scale (e + f) / real 1"
    by (rule f64_scaled_round [of 1 False "m * k" "e + f"]) simp
  have "real n / real d = f64_value a * f64_value b"
    using nd(3) by (simp add: a(2) b(2) scale_add)
  moreover have "f64_mul a b = f64_make False (round_mag n d)"
    using nd(1) by (simp add: f64_mul_def a(1) b(1))
  ultimately show ?thesis using that nd(2) by blast
qed

lemma f64_div_round:
  assumes "f64_nonneg a" and "f64_nonneg b" and "0 < f64_value b"
  obtains n d where "f64_div a b = f64_make False (round_mag n d)" and "0 < d"
    and "real n / real d = f64_value a / f64_value b"
proof -
  obtain m e where a: "f64_unpack a = FNum False m e" "f64_value a = real m * scale e"
    using f64_nonneg_unpack [OF assms(1)] .
  obtain k f where b: "f64_unpack b = FNum False k f" "f64_value b = real k * scale f"
    using f64_nonneg_unpack [OF assms(2)] .
  have k: "0 < k" using assms(3) b(2) by (cases k) simp_all
  obtain n d where nd: "f64_scaled False m (e - f) k = f64_make False (round_mag n d)" "0 < d"
    "real n / real d = real m * scale (e - f) / real k"
    using f64_scaled_round [OF k] .
  have "real n / real d = f64_value a / f64_value b"
    using nd(3) by (simp add: a(2) b(2) scale_diff mult.commute)
  moreover have "f64_div a b = f64_make False (round_mag n d)"
    using nd(1) k by (simp add: f64_div_def a(1) b(1))
  ultimately show ?thesis using that nd(2) by blast
qed

lemma f64_trunc_nonneg: "f64_nonneg b \<Longrightarrow> f64_trunc b = Some \<lfloor>f64_value b\<rfloor>"
proof -
  assume "f64_nonneg b"
  then obtain m e where b: "f64_unpack b = FNum False m e" "f64_value b = real m * scale e"
    by (rule f64_nonneg_unpack)
  show ?thesis
  proof (cases "0 \<le> e")
    case True
    then have "f64_value b = of_int (int m * 2 ^ nat e)" by (simp add: b(2) scale_up)
    then have "\<lfloor>f64_value b\<rfloor> = int m * 2 ^ nat e" by (simp only: floor_of_int)
    then show ?thesis using True by (simp add: f64_trunc_def b(1))
  next
    case False
    then have "f64_value b = real m / real (2 ^ nat (- e))" by (simp add: b(2) scale_down)
    then have "\<lfloor>f64_value b\<rfloor> = int (m div 2 ^ nat (- e))" by (simp only: floor_divide_of_nat_eq)
    then show ?thesis using False by (simp add: f64_trunc_def b(1))
  qed
qed

text \<open>A product is monotone in each factor, a quotient in its numerator, and truncation in its argument.\<close>

lemma f64_mul_mono:
  assumes "f64_nonneg a" and "f64_nonneg b" and "f64_nonneg c" and "f64_mag a \<le> f64_mag b"
  shows "f64_mag (f64_mul a c) \<le> f64_mag (f64_mul b c)" and "\<not> f64_sign (f64_mul a c)"
proof -
  obtain n d where 1: "f64_mul a c = f64_make False (round_mag n d)" "0 < d" "real n / real d = f64_value a * f64_value c"
    using f64_mul_round [OF assms(1,3)] .
  obtain k p where 2: "f64_mul b c = f64_make False (round_mag k p)" "0 < p" "real k / real p = f64_value b * f64_value c"
    using f64_mul_round [OF assms(2,3)] .
  have "real n / real d \<le> real k / real p"
    unfolding 1(3) 2(3) using mag_value_mono [OF assms(4)] by (simp add: f64_value_def mult_right_mono)
  then show "f64_mag (f64_mul a c) \<le> f64_mag (f64_mul b c)" and "\<not> f64_sign (f64_mul a c)"
    using round_mag_mono [OF 1(2) 2(2)] by (simp_all add: 1(1) 2(1) f64_make_sign_mag [OF round_mag_less])
qed

lemma f64_trunc_mono:
  assumes "f64_nonneg a" and "f64_nonneg b" and "f64_mag a \<le> f64_mag b"
    and "f64_trunc a = Some x" and "f64_trunc b = Some y"
  shows "x \<le> y"
  using assms mag_value_mono [OF assms(3)] by (auto simp: f64_trunc_nonneg f64_value_def intro: floor_mono)

lemma f64_nonneg_key: "\<not> f64_sign b \<Longrightarrow> f64_key b = int (f64_mag b)"
  by (simp add: f64_key_def)

text \<open>Sums of non-negative finite doubles are rounded sums.\<close>

lemma f64_add_round:
  assumes "f64_nonneg a" and "f64_nonneg b"
  obtains n d where "f64_add a b = f64_make False (round_mag n d)" and "0 < d"
    and "real n / real d = f64_value a + f64_value b"
proof -
  obtain m e where a: "f64_unpack a = FNum False m e" "f64_value a = real m * scale e"
    using f64_nonneg_unpack [OF assms(1)] .
  obtain k f where b: "f64_unpack b = FNum False k f" "f64_value b = real k * scale f"
    using f64_nonneg_unpack [OF assms(2)] .
  define g where "g = min e f"
  define v where "v = m * 2 ^ nat (e - g) + k * 2 ^ nat (f - g)"
  have "scale e = 2 ^ nat (e - g) * scale g" and "scale f = 2 ^ nat (f - g) * scale g"
    using scale_add [of "e - g" g] scale_add [of "f - g" g] by (simp_all add: g_def scale_up)
  then have val: "real v * scale g = f64_value a + f64_value b"
    by (simp add: v_def a(2) b(2) algebra_simps)
  have v: "int m * 2 ^ nat (e - g) + int k * 2 ^ nat (f - g) = int v"
    by (simp add: v_def)
  obtain n d where nd: "f64_scaled False v g 1 = f64_make False (round_mag n d)" "0 < d"
    "real n / real d = real v * scale g / real 1"
    by (rule f64_scaled_round [of 1 False v g]) simp
  have "f64_add a b = (if v = 0 then f64_make False 0 else f64_scaled False v g 1)"
    by (simp add: f64_add_def a(1) b(1) g_def [symmetric] v Let_def)
  also have "f64_make False 0 = f64_scaled False 0 g 1" by (simp add: f64_scaled_def f64_round_def)
  finally have "f64_add a b = f64_make False (round_mag n d)" using nd(1) by (cases "v = 0") simp_all
  then show ?thesis using that nd val by simp
qed

lemma f64_add_mono:
  assumes "f64_nonneg a" and "f64_nonneg b" and "f64_nonneg c" and "f64_nonneg d"
    and "f64_mag a \<le> f64_mag c" and "f64_mag b \<le> f64_mag d"
  shows "f64_mag (f64_add a b) \<le> f64_mag (f64_add c d)" and "\<not> f64_sign (f64_add a b)"
proof -
  obtain n p where 1: "f64_add a b = f64_make False (round_mag n p)" "0 < p" "real n / real p = f64_value a + f64_value b"
    using f64_add_round [OF assms(1,2)] .
  obtain k q where 2: "f64_add c d = f64_make False (round_mag k q)" "0 < q" "real k / real q = f64_value c + f64_value d"
    using f64_add_round [OF assms(3,4)] .
  have "real n / real p \<le> real k / real q"
    unfolding 1(3) 2(3) using mag_value_mono [OF assms(5)] mag_value_mono [OF assms(6)] by (simp add: f64_value_def)
  then show "f64_mag (f64_add a b) \<le> f64_mag (f64_add c d)" and "\<not> f64_sign (f64_add a b)"
    using round_mag_mono [OF 1(2) 2(2)] by (simp_all add: 1(1) 2(1) f64_make_sign_mag [OF round_mag_less])
qed

lemma bool_neq_swap: "(x \<longleftrightarrow> \<not> y) = (y \<longleftrightarrow> \<not> x)"
  by auto

lemma f64_mul_commute: "f64_mul a b = f64_mul b a"
  by (auto simp: f64_mul_def add.commute mult.commute split: fval.split) (subst bool_neq_swap, rule refl)+

section \<open>Ranges\<close>

definition f64_between :: "f64 \<Rightarrow> f64 \<Rightarrow> f64 \<Rightarrow> bool" where
  "f64_between lo hi x \<longleftrightarrow> f64_nonneg x \<and> f64_mag lo \<le> f64_mag x \<and> f64_mag x \<le> f64_mag hi"

lemma f64_nonneg_not_nan: "f64_nonneg x \<Longrightarrow> \<not> f64_is_nan x"
  by (simp add: f64_nonneg_def f64_is_nan_def)

text \<open>\<open>std::min(hi, std::max(lo, x))\<close> is in the range for every double \<open>x\<close>, the NaNs and infinities included.\<close>

lemma f64_clamp_between:
  assumes "f64_nonneg lo" and "f64_nonneg hi" and "f64_mag lo \<le> f64_mag hi"
  shows "f64_between lo hi (f64_min hi (f64_max lo x))"
proof -
  let ?y = "f64_max lo x"
  have y: "\<not> f64_sign ?y \<and> f64_mag lo \<le> f64_mag ?y"
    using assms(1) by (auto simp: f64_max_def f64_lt_def f64_key_def f64_nonneg_def split: if_splits)
  show ?thesis
  proof (cases "f64_lt ?y hi")
    case True
    then have "f64_mag ?y < f64_mag hi"
      using y assms(2) by (simp add: f64_lt_def f64_key_def f64_nonneg_def)
    with True y assms show ?thesis by (simp add: f64_min_def f64_between_def f64_nonneg_def)
  next
    case False
    with assms show ?thesis by (simp add: f64_min_def f64_between_def)
  qed
qed

lemma f64_mul_between:
  assumes "f64_between lo hi x" and "f64_nonneg lo" and "f64_nonneg hi" and "f64_nonneg c"
    and "f64_nonneg (f64_mul c hi)"
  shows "f64_between (f64_mul c lo) (f64_mul c hi) (f64_mul c x)"
proof -
  have x: "f64_nonneg x" "f64_mag lo \<le> f64_mag x" "f64_mag x \<le> f64_mag hi"
    using assms(1) by (simp_all add: f64_between_def)
  show ?thesis
    using f64_mul_mono [OF assms(2) x(1) assms(4) x(2)] f64_mul_mono [OF x(1) assms(3,4) x(3)] assms(5)
    by (simp add: f64_between_def f64_nonneg_def f64_mul_commute [of c])
qed

lemma f64_add_between:
  assumes "f64_between lo hi x" and "f64_between lo' hi' y" and "f64_nonneg lo" and "f64_nonneg hi"
    and "f64_nonneg lo'" and "f64_nonneg hi'" and "f64_nonneg (f64_add hi hi')"
  shows "f64_between (f64_add lo lo') (f64_add hi hi') (f64_add x y)"
proof -
  have x: "f64_nonneg x" "f64_mag lo \<le> f64_mag x" "f64_mag x \<le> f64_mag hi"
    and y: "f64_nonneg y" "f64_mag lo' \<le> f64_mag y" "f64_mag y \<le> f64_mag hi'"
    using assms(1,2) by (simp_all add: f64_between_def)
  show ?thesis
    using f64_add_mono [OF assms(3,5) x(1) y(1) x(2) y(2)] f64_add_mono [OF x(1) y(1) assms(4,6) x(3) y(3)] assms(7)
    by (simp add: f64_between_def f64_nonneg_def)
qed

text \<open>Truncation of a value in a range.\<close>

lemma f64_trunc_between:
  assumes "f64_between lo hi x" and "f64_nonneg lo" and "f64_nonneg hi"
    and "f64_trunc lo = Some a" and "f64_trunc hi = Some b"
  obtains v where "f64_trunc x = Some v" and "a \<le> v" and "v \<le> b"
proof -
  have x: "f64_nonneg x" using assms(1) by (simp add: f64_between_def)
  then have t: "f64_trunc x = Some \<lfloor>f64_value x\<rfloor>" by (rule f64_trunc_nonneg)
  then show ?thesis
    using that [OF t] assms f64_trunc_mono [OF assms(2) x _ assms(4) t] f64_trunc_mono [OF x assms(3) _ t assms(5)]
    by (simp add: f64_between_def)
qed

section \<open>Evaluation\<close>

lemma bitlen_numeral [simp]:
  "bitlen 0 = 0"
  "bitlen (Suc 0) = 1"
  "bitlen 1 = 1"
  "bitlen (numeral (num.Bit0 k)) = Suc (bitlen (numeral k))"
  "bitlen (numeral (num.Bit1 k)) = Suc (bitlen (numeral k))"
  by (simp_all add: bitlen.simps [of 0] bitlen.simps [of "Suc 0"] bitlen.simps [of 1]
      bitlen.simps [of "numeral (num.Bit0 k)"] bitlen.simps [of "numeral (num.Bit1 k)"])

text \<open>Double expressions over literals compute by simplification with these.\<close>

lemmas f64_eval = f64_lit_def f64_nat_def f64_mul_def f64_add_def f64_sub_def f64_div_def f64_round_def
  f64_scaled_def f64_make_def f64_mag_def f64_sign_def f64_neg_def f64_inf_mag_def f64_unpack_def
  f64_is_nan_def f64_key_def f64_lt_def f64_le_def round_half_even_def ulp_exp_def Let_def f64_nan_def
  f64_of_u64_def f64_of_i64_def f64_trunc_def f64_is_finite_def f64_zero_def

lemma unat_of_int_u64: "0 \<le> k \<Longrightarrow> k < 2 ^ 64 \<Longrightarrow> unat (of_int k :: u64) = nat k"
  by (simp add: unat_eq_nat_uint uint_word_of_int)

end
