(* ===== verification/Prediction.thy ===== *)
theory Prediction
  imports Observation Doubles_Order
begin

text \<open>
  \<open>prediction.hpp\<close>: the predictor. Profiles are configured evidence, learned states are what
  observations left behind; both are \<open>std::map\<close>s from a key string. Memory amounts are unsigned 64-bit
  with the wrap-around of the source, durations are signed 64-bit nanoseconds, rates and confidences
  are doubles.
\<close>

section \<open>Data\<close>

datatype (plugins only: code size) PredictionProvenance =
    PredictionProvenance_ModelProfile | PredictionProvenance_Historical | PredictionProvenance_Hybrid
  | PredictionProvenance_Fallback | PredictionProvenance_Unavailable | PredictionProvenance_Raw u8

primrec prediction_provenance_name :: "PredictionProvenance \<Rightarrow> string" where
  "prediction_provenance_name PredictionProvenance_ModelProfile = ''model_profile''"
| "prediction_provenance_name PredictionProvenance_Historical = ''historical''"
| "prediction_provenance_name PredictionProvenance_Hybrid = ''hybrid''"
| "prediction_provenance_name PredictionProvenance_Fallback = ''fallback''"
| "prediction_provenance_name PredictionProvenance_Unavailable = ''unavailable''"
| "prediction_provenance_name (PredictionProvenance_Raw b) = ''unknown''"

record MemoryFootprint =
  fp_fixed_model :: u64
  fp_request_local :: u64
  fp_kv_growth :: u64
  fp_tensor_state :: u64
  fp_workspace :: u64
  fp_staging :: u64
  fp_pinned_staging :: u64
  fp_safety_margin :: u64
  fp_fragmentation_allowance :: u64

definition default_footprint :: MemoryFootprint where
  "default_footprint = \<lparr>fp_fixed_model = 0, fp_request_local = 0, fp_kv_growth = 0, fp_tensor_state = 0,
     fp_workspace = 0, fp_staging = 0, fp_pinned_staging = 0, fp_safety_margin = 0, fp_fragmentation_allowance = 0\<rparr>"

definition fp_base :: "MemoryFootprint \<Rightarrow> u64" where
  "fp_base f = fp_fixed_model f + fp_request_local f + fp_kv_growth f + fp_tensor_state f + fp_workspace f
     + fp_staging f"

definition fp_peak :: "MemoryFootprint \<Rightarrow> u64" where
  "fp_peak f = fp_base f + fp_safety_margin f + fp_fragmentation_allowance f"

definition fp_sustained :: "MemoryFootprint \<Rightarrow> u64" where
  "fp_sustained f = fp_fixed_model f + fp_tensor_state f + fp_staging f"

record MemoryFootprintPrediction =
  mp_footprint :: MemoryFootprint
  mp_confidence :: f64
  mp_evidence_count :: u32
  mp_predictor_generation :: u64
  mp_provenance :: PredictionProvenance
  mp_fallback :: bool

record DurationPrediction =
  dp_expected :: i64
  dp_confidence :: f64
  dp_prefill :: i64
  dp_decode :: i64
  dp_transfer :: i64
  dp_decode_rate_tps :: f64
  dp_evidence_count :: u32
  dp_predictor_generation :: u64
  dp_provenance :: PredictionProvenance
  dp_fallback :: bool

record PredictionProfile =
  pp_model_id :: ModelId
  pp_revision :: ModelRevision
  pp_backend :: string
  pp_dtype :: string
  pp_quantization :: string
  pp_generation :: u64
  pp_fixed_base_memory :: u64
  pp_per_token_kv_bytes :: u64
  pp_per_token_tensor_bytes :: u64
  pp_per_request_overhead :: u64
  pp_workspace_bytes :: u64
  pp_staging_bytes :: u64
  pp_pinned_staging_bytes :: u64
  pp_safety_margin_ratio :: f64
  pp_fragmentation_ratio :: f64
  pp_prefill_tokens_per_sec :: f64
  pp_decode_tokens_per_sec :: f64
  pp_transfer_bytes_per_sequence :: u64
  pp_transfer_bytes_per_sec :: f64
  pp_host_memory_bytes :: u64
  pp_pinned_host_memory_bytes :: u64
  pp_execution_slots_required :: u32
  pp_sequence_slots_required :: u32

record LearnedState =
  ls_seen :: bool
  ls_count :: u32
  ls_last_duration_ns :: f64
  ls_last_output_tokens :: u64
  ls_last_peak_vram :: u64
  ls_last_kv :: u64
  ls_max_observed_peak :: u64
  ls_decode_ema :: f64

definition default_learned :: LearnedState where
  "default_learned = \<lparr>ls_seen = False, ls_count = 0, ls_last_duration_ns = f64_zero, ls_last_output_tokens = 0,
     ls_last_peak_vram = 0, ls_last_kv = 0, ls_max_observed_peak = 0, ls_decode_ema = f64_zero\<rparr>"

record WorkloadPredictor =
  wp_profs :: "(string, PredictionProfile) omap"
  wp_seen :: "(string, bool) omap"
  wp_learn :: "(string, LearnedState) omap"
  wp_generation :: u64

definition predictor_empty :: WorkloadPredictor where
  "predictor_empty = \<lparr>wp_profs = [], wp_seen = [], wp_learn = [], wp_generation = 1\<rparr>"

definition kMaxProfiles :: nat where
  "kMaxProfiles = 256"

definition kMaxSamplesPerKey :: u32 where
  "kMaxSamplesPerKey = 4096"

section \<open>Keys\<close>

definition make_key :: "ModelId \<Rightarrow> ModelRevision \<Rightarrow> string \<Rightarrow> string \<Rightarrow> string \<Rightarrow> string" where
  "make_key mid mrev be dt q =
     ''model='' @ to_string_u64 (id_value mid) @ '';rev='' @ to_string_u64 (id_value mrev)
     @ '';be='' @ be @ '';dt='' @ dt @ '';q='' @ q"

definition profile_key :: "PredictionProfile \<Rightarrow> string" where
  "profile_key p = make_key (pp_model_id p) (pp_revision p) (pp_backend p) (pp_dtype p) (pp_quantization p)"

definition descriptor_key :: "AdmissionDescriptor \<Rightarrow> string" where
  "descriptor_key d = make_key (d_model_id d) (d_model_revision d) (d_backend d) (d_dtype d) (d_quantization d)"

definition observation_key :: "Observation \<Rightarrow> string" where
  "observation_key ob = make_key (o_model_id ob) (o_model_revision ob) (o_backend ob) (o_dtype ob) (o_quantization ob)"

definition model_rev_prefix :: "ModelId \<Rightarrow> ModelRevision \<Rightarrow> string" where
  "model_rev_prefix mid mrev =
     ''model='' @ to_string_u64 (id_value mid) @ '';rev='' @ to_string_u64 (id_value mrev) @ '';''"

definition resolve_key :: "WorkloadPredictor \<Rightarrow> string \<Rightarrow> string \<Rightarrow> string" where
  "resolve_key wp candidate pre =
     (if om_find (wp_profs wp) candidate \<noteq> None then candidate
      else case om_lower_bound pre (wp_profs wp) of
             None \<Rightarrow> candidate
           | Some (k, p) \<Rightarrow> if starts_with pre k then k else candidate)"

definition profile_for_descriptor :: "WorkloadPredictor \<Rightarrow> AdmissionDescriptor \<Rightarrow> PredictionProfile option" where
  "profile_for_descriptor wp d =
     (case om_find (wp_profs wp) (descriptor_key d) of
        Some p \<Rightarrow> Some p
      | None \<Rightarrow>
          (let pre = model_rev_prefix (d_model_id d) (d_model_revision d) in
           case om_lower_bound pre (wp_profs wp) of
             None \<Rightarrow> None
           | Some (k, p) \<Rightarrow> if starts_with pre k then Some p else None))"

text \<open>The profile the prediction branches on: present and with a backend name.\<close>

definition bound_profile :: "WorkloadPredictor \<Rightarrow> AdmissionDescriptor \<Rightarrow> PredictionProfile option" where
  "bound_profile wp d =
     (case profile_for_descriptor wp d of
        None \<Rightarrow> None
      | Some p \<Rightarrow> if pp_backend p \<noteq> [] then Some p else None)"

section \<open>Registration\<close>

definition predictor_next_generation :: "u64 \<Rightarrow> u64" where
  "predictor_next_generation g = (if g = u64_max then 1 else g + 1)"

text \<open>Reading \<open>seen_[key]\<close> inserts \<open>false\<close> for an unknown key.\<close>

definition register_profile :: "PredictionProfile \<Rightarrow> WorkloadPredictor \<Rightarrow> bool \<times> WorkloadPredictor" where
  "register_profile prof wp =
     (let key = profile_key prof;
          seen0 = (if om_find (wp_seen wp) key = None then om_put key False (wp_seen wp) else wp_seen wp) in
      if om_find seen0 key \<noteq> Some True \<and> length (wp_profs wp) \<ge> kMaxProfiles
      then (False, wp\<lparr>wp_seen := seen0\<rparr>)
      else let g = predictor_next_generation (wp_generation wp) in
           (True, wp\<lparr>wp_seen := om_put key True seen0,
                     wp_profs := om_put key (prof\<lparr>pp_generation := g\<rparr>) (wp_profs wp),
                     wp_generation := g\<rparr>))"

section \<open>Arithmetic helpers\<close>

definition multiply_checked :: "u64 \<Rightarrow> u64 \<Rightarrow> u64" where
  "multiply_checked a b = (case checked_mul a b of None \<Rightarrow> u64_max | Some x \<Rightarrow> x)"

definition rat_of :: "platform \<Rightarrow> u64 \<Rightarrow> f64 \<Rightarrow> u64" where
  "rat_of pf base ratio =
     (if base = 0 \<or> f64_le ratio f64_zero then 0
      else case checked_mul base (f64_to_u64 pf (f64_mul ratio (f64_nat 1000))) of
             None \<Rightarrow> u64_max
           | Some x \<Rightarrow> x div 1000)"

definition from_seconds :: "platform \<Rightarrow> f64 \<Rightarrow> i64" where
  "from_seconds pf s =
     (if \<not> f64_le f64_zero s \<or> \<not> f64_is_finite s then 0
      else let t = (if f64_lt (f64_nat 1000000000000) s then f64_nat 1000000000000 else s)
           in f64_to_i64 pf (f64_mul t (f64_nat 1000000000)))"

definition f64_of_u32 :: "u32 \<Rightarrow> f64" where
  "f64_of_u32 x = f64_round False (unat x) 1"

text \<open>\<open>a + b * (1 - exp(-count / k))\<close>, the growth of confidence with evidence.\<close>

definition evidence_curve :: "platform \<Rightarrow> f64 \<Rightarrow> f64 \<Rightarrow> f64 \<Rightarrow> u32 \<Rightarrow> f64" where
  "evidence_curve pf a b k count =
     f64_add a (f64_mul b (f64_sub (f64_nat 1) (libm_exp pf (f64_div (f64_neg (f64_of_u32 count)) k))))"

section \<open>Evidence\<close>

definition p_provenance_snapshot :: "platform \<Rightarrow> WorkloadPredictor \<Rightarrow> string
    \<Rightarrow> PredictionProvenance \<times> f64 \<times> u32 \<times> bool" where
  "p_provenance_snapshot pf wp key =
     (case om_find (wp_profs wp) key of
        Some p \<Rightarrow>
          if pp_backend p \<noteq> []
          then (case om_find (wp_learn wp) key of
                  Some st \<Rightarrow>
                    if ls_count st > 0
                    then (PredictionProvenance_Hybrid,
                          f64_min (f64_lit 95 100)
                            (evidence_curve pf (f64_lit 6 10) (f64_lit 35 100) (f64_nat 8) (ls_count st)),
                          ls_count st, False)
                    else (PredictionProvenance_ModelProfile, f64_lit 6 10, 0, False)
                | None \<Rightarrow> (PredictionProvenance_ModelProfile, f64_lit 6 10, 0, False))
          else (PredictionProvenance_Unavailable, f64_zero, 0, True)
      | None \<Rightarrow> (PredictionProvenance_Unavailable, f64_zero, 0, True))"

definition record_evidence_for_profile :: "platform \<Rightarrow> WorkloadPredictor \<Rightarrow> string \<Rightarrow> u32 \<Rightarrow> f64 \<Rightarrow> u32 \<times> f64" where
  "record_evidence_for_profile pf wp key ev conf =
     (case om_find (wp_learn wp) key of
        None \<Rightarrow> (ev, conf)
      | Some st \<Rightarrow>
          if ls_count st = 0 then (ev, conf)
          else (max ev (ls_count st),
                f64_max conf (f64_min (f64_lit 98 100)
                  (evidence_curve pf (f64_lit 6 10) (f64_lit 38 100) (f64_nat 6) (ls_count st)))))"

text \<open>The observed peak over the predicted one, clamped to \<open>[0.8, 2.0]\<close>.\<close>

definition adjustment_ratio :: "u64 \<Rightarrow> u64 \<Rightarrow> f64" where
  "adjustment_ratio observed predicted =
     f64_min (f64_nat 2) (f64_max (f64_lit 8 10) (f64_div (f64_of_u64 observed) (f64_of_u64 predicted)))"

definition apply_learned_adjustment :: "platform \<Rightarrow> WorkloadPredictor \<Rightarrow> string \<Rightarrow> MemoryFootprint \<Rightarrow> MemoryFootprint" where
  "apply_learned_adjustment pf wp key f =
     (case om_find (wp_learn wp) key of
        None \<Rightarrow> f
      | Some st \<Rightarrow>
          if ls_count st = 0 \<or> ls_last_peak_vram st = 0 then f
          else let predicted_before = fp_base f + fp_safety_margin f + fp_fragmentation_allowance f in
            if predicted_before = 0 then f
            else let cl = adjustment_ratio (ls_last_peak_vram st) predicted_before;
                     g = f\<lparr>fp_kv_growth := rat_of pf (fp_kv_growth f) cl,
                           fp_tensor_state := rat_of pf (fp_tensor_state f) cl,
                           fp_staging := rat_of pf (fp_staging f) cl\<rparr>
                 in g\<lparr>fp_safety_margin := rat_of pf (fp_base g) (f64_lit 10 100),
                      fp_fragmentation_allowance := rat_of pf (fp_base g) (f64_lit 5 100)\<rparr>)"

definition effective_decode_rate :: "WorkloadPredictor \<Rightarrow> string \<Rightarrow> f64 \<Rightarrow> f64" where
  "effective_decode_rate wp key profile_rate =
     (case om_find (wp_learn wp) key of
        None \<Rightarrow> profile_rate
      | Some st \<Rightarrow>
          if f64_le (ls_decode_ema st) f64_zero then profile_rate
          else if f64_lt f64_zero profile_rate then f64_mul profile_rate (ls_decode_ema st)
          else ls_decode_ema st)"

section \<open>Predictions\<close>

definition descriptor_resolved :: "WorkloadPredictor \<Rightarrow> AdmissionDescriptor \<Rightarrow> string" where
  "descriptor_resolved wp d =
     resolve_key wp (descriptor_key d) (model_rev_prefix (d_model_id d) (d_model_revision d))"

text \<open>The output budget, with the expected output standing in for an undeclared maximum.\<close>

definition output_budget :: "AdmissionDescriptor \<Rightarrow> u64" where
  "output_budget d = (if d_max_output_tokens d \<noteq> 0 then d_max_output_tokens d else d_expected_output_tokens d)"

definition profile_footprint :: "platform \<Rightarrow> PredictionProfile \<Rightarrow> AdmissionDescriptor \<Rightarrow> MemoryFootprint" where
  "profile_footprint pf p d =
     (let f = default_footprint\<lparr>fp_fixed_model := pp_fixed_base_memory p,
            fp_request_local := pp_per_request_overhead p,
            fp_kv_growth := multiply_checked (pp_per_token_kv_bytes p) (d_input_tokens d + d_expected_output_tokens d),
            fp_tensor_state := multiply_checked (pp_per_token_tensor_bytes p) (d_input_tokens d + output_budget d),
            fp_workspace := pp_workspace_bytes p, fp_staging := pp_staging_bytes p,
            fp_pinned_staging := pp_pinned_staging_bytes p\<rparr>;
          base = fp_base f
      in f\<lparr>fp_safety_margin := rat_of pf base (pp_safety_margin_ratio p),
           fp_fragmentation_allowance := rat_of pf base (pp_fragmentation_ratio p)\<rparr>)"

text \<open>Cold start: 256 MiB, 64 MiB of staging, eight bytes per token twice, 15 and 8 percent on top. The
  margins are computed one after the other; \<open>base\<close> does not depend on them.\<close>

definition fallback_footprint :: "platform \<Rightarrow> AdmissionDescriptor \<Rightarrow> MemoryFootprint" where
  "fallback_footprint pf d =
     (let total0 = d_input_tokens d + output_budget d;
          total = (if total0 = 0 then 1 else total0);
          f = default_footprint\<lparr>fp_fixed_model := 256 * 1024 * 1024, fp_kv_growth := multiply_checked 8 total,
            fp_tensor_state := multiply_checked 8 total, fp_staging := 64 * 1024 * 1024\<rparr>
      in f\<lparr>fp_safety_margin := rat_of pf (fp_base f) (f64_lit 15 100),
           fp_fragmentation_allowance := rat_of pf (fp_base f) (f64_lit 8 100)\<rparr>)"

definition predict_memory :: "platform \<Rightarrow> WorkloadPredictor \<Rightarrow> AdmissionDescriptor \<Rightarrow> MemoryFootprintPrediction" where
  "predict_memory pf wp d =
     (let key = descriptor_resolved wp d;
          (prov, conf, ev, fb) = p_provenance_snapshot pf wp key in
      case bound_profile wp d of
        Some p \<Rightarrow>
          let (ev', conf') = record_evidence_for_profile pf wp key ev conf in
          \<lparr>mp_footprint = apply_learned_adjustment pf wp key (profile_footprint pf p d),
           mp_confidence = conf', mp_evidence_count = ev', mp_predictor_generation = wp_generation wp,
           mp_provenance = prov, mp_fallback = fb\<rparr>
      | None \<Rightarrow>
          \<lparr>mp_footprint = fallback_footprint pf d,
           mp_confidence = f64_min (f64_lit 30 100)
             (f64_add (f64_lit 10 100) (f64_mul (f64_lit 20 100) (if ev > 0 then f64_nat 1 else f64_zero))),
           mp_evidence_count = ev, mp_predictor_generation = wp_generation wp,
           mp_provenance = (if prov = PredictionProvenance_Unavailable then PredictionProvenance_Fallback else prov),
           mp_fallback = True\<rparr>)"

text \<open>\<open>amount / rate\<close> when both are positive, zero otherwise.\<close>

definition seconds_at_rate :: "u64 \<Rightarrow> f64 \<Rightarrow> f64" where
  "seconds_at_rate amount rate =
     (if amount > 0 \<and> f64_lt f64_zero rate then f64_div (f64_of_u64 amount) rate else f64_zero)"

definition predict_duration :: "platform \<Rightarrow> WorkloadPredictor \<Rightarrow> AdmissionDescriptor \<Rightarrow> DurationPrediction" where
  "predict_duration pf wp d =
     (let key = descriptor_resolved wp d;
          (prov, conf, ev, fb) = p_provenance_snapshot pf wp key in
      case bound_profile wp d of
        Some p \<Rightarrow>
          let decode_eff = effective_decode_rate wp key (pp_decode_tokens_per_sec p);
              prefill = from_seconds pf (seconds_at_rate (d_input_tokens d) (pp_prefill_tokens_per_sec p));
              dec = from_seconds pf (seconds_at_rate (d_expected_output_tokens d) decode_eff);
              transfer = from_seconds pf
                (seconds_at_rate (pp_transfer_bytes_per_sequence p) (pp_transfer_bytes_per_sec p));
              (ev', conf') = record_evidence_for_profile pf wp key ev conf in
          \<lparr>dp_expected = prefill + dec + transfer, dp_confidence = conf', dp_prefill = prefill, dp_decode = dec,
           dp_transfer = transfer, dp_decode_rate_tps = decode_eff, dp_evidence_count = ev',
           dp_predictor_generation = wp_generation wp, dp_provenance = prov, dp_fallback = fb\<rparr>
      | None \<Rightarrow>
          let prefill = from_seconds pf (if d_input_tokens d > 0
                then f64_div (f64_of_u64 (d_input_tokens d)) (f64_nat 1000) else f64_zero);
              dec = from_seconds pf (if d_expected_output_tokens d > 0
                then f64_div (f64_of_u64 (d_expected_output_tokens d)) (f64_nat 40) else f64_zero) in
          \<lparr>dp_expected = prefill + dec, dp_confidence = f64_lit 15 100, dp_prefill = prefill, dp_decode = dec,
           dp_transfer = 0, dp_decode_rate_tps = f64_zero, dp_evidence_count = ev,
           dp_predictor_generation = wp_generation wp, dp_provenance = prov, dp_fallback = True\<rparr>)"

definition predict_demand :: "platform \<Rightarrow> WorkloadPredictor \<Rightarrow> AdmissionDescriptor \<Rightarrow> ResourceVector" where
  "predict_demand pf wp d =
     (let f = mp_footprint (predict_memory pf wp d);
          r = rv_zero(AcceleratorMemory := fp_peak f, HostMemory := fp_sustained f,
                PinnedHostMemory := fp_pinned_staging f, KvCapacity := fp_kv_growth f,
                TensorState := fp_tensor_state f) in
      case bound_profile wp d of
        Some p \<Rightarrow>
          let r2 = r(ExecutionSlots := ucast (pp_execution_slots_required p),
                     SequenceSlots := ucast (pp_sequence_slots_required p),
                     PersistentCache := multiply_checked (pp_transfer_bytes_per_sequence p) 1)
          in if pp_host_memory_bytes p \<noteq> 0
             then r2(HostMemory := max (r2 HostMemory) (pp_host_memory_bytes p)) else r2
      | None \<Rightarrow> r(ExecutionSlots := 1, SequenceSlots := 1))"

section \<open>Learning\<close>

definition observe_completed :: "WorkloadPredictor \<Rightarrow> string \<Rightarrow> Observation \<Rightarrow> LearnedState \<Rightarrow> LearnedState" where
  "observe_completed wp key ob st =
     (let st2 = st\<lparr>ls_last_duration_ns := f64_of_i64 (o_execution_duration ob),
            ls_last_output_tokens := o_output_tokens ob, ls_last_peak_vram := o_peak_vram ob,
            ls_last_kv := o_kv_growth ob,
            ls_max_observed_peak := max (ls_max_observed_peak st) (o_peak_vram ob)\<rparr>;
          tps = observed_tokens_per_sec ob in
      if 0 <s o_execution_duration ob \<and> o_output_tokens ob > 0 \<and> f64_lt f64_zero tps
      then (case om_find (wp_profs wp) key of
              None \<Rightarrow> st2
            | Some p \<Rightarrow>
                let ratio = (if f64_lt f64_zero (pp_decode_tokens_per_sec p)
                             then f64_div tps (pp_decode_tokens_per_sec p) else f64_zero);
                    cl = f64_min (f64_nat 5) (f64_max (f64_lit 2 10) ratio)
                in st2\<lparr>ls_decode_ema :=
                     (if f64_le (ls_decode_ema st2) f64_zero then cl
                      else f64_add (f64_mul (f64_lit 6 10) (ls_decode_ema st2)) (f64_mul (f64_lit 4 10) cl))\<rparr>)
      else st2)"

definition predictor_observe :: "Observation \<Rightarrow> WorkloadPredictor \<Rightarrow> WorkloadPredictor" where
  "predictor_observe ob wp =
     (if \<not> status_ok (observation_validate ob) then wp
      else let key = resolve_key wp (observation_key ob) (model_rev_prefix (o_model_id ob) (o_model_revision ob));
               st0 = (case om_find (wp_learn wp) key of None \<Rightarrow> default_learned | Some st \<Rightarrow> st);
               st = st0\<lparr>ls_seen := True,
                        ls_count := (if ls_count st0 \<ge> kMaxSamplesPerKey then kMaxSamplesPerKey else ls_count st0 + 1)\<rparr>;
               st' = (if o_kind ob \<noteq> ObservationKind_Completed then st else observe_completed wp key ob st)
           in wp\<lparr>wp_learn := om_put key st' (wp_learn wp)\<rparr>)"

section \<open>Accessors\<close>

definition evidence_for :: "WorkloadPredictor \<Rightarrow> string \<Rightarrow> u32" where
  "evidence_for wp key = (case om_find (wp_learn wp) key of None \<Rightarrow> 0 | Some st \<Rightarrow> ls_count st)"

text \<open>\<open>k.find(part) != npos\<close>.\<close>

fun str_contains :: "string \<Rightarrow> string \<Rightarrow> bool" where
  "str_contains part [] = (part = [])"
| "str_contains part (c # s) = (starts_with part (c # s) \<or> str_contains part s)"

definition evidence_for_model :: "WorkloadPredictor \<Rightarrow> ModelId \<Rightarrow> u64" where
  "evidence_for_model wp mid =
     fold (\<lambda>(k, st) n. if str_contains (''model='' @ to_string_u64 (id_value mid)) k
                       then n + ucast (ls_count st) else n) (wp_learn wp) 0"

definition kv_bytes_per_token :: "WorkloadPredictor \<Rightarrow> string \<Rightarrow> u64" where
  "kv_bytes_per_token wp key =
     (case om_find (wp_learn wp) key of
        None \<Rightarrow> 0
      | Some st \<Rightarrow> if ls_last_kv st = 0 then 0 else ls_last_kv st)"

end
