(* ===== verification/Quota_Slo.thy ===== *)
theory Quota_Slo
  imports Resource Doubles
begin

text \<open>
  \<open>quota.hpp\<close> and \<open>slo.hpp\<close>: the quota snapshot the engine consults and the verdict about it, and the
  verdict about a deadline.
\<close>

section \<open>Quota\<close>

record QuotaSnapshot =
  q_present :: bool
  q_generation :: u64
  q_source_authority :: string
  q_timestamp :: i64
  q_stale :: bool
  q_limits :: ResourceVector
  q_used :: ResourceVector
  q_reserved :: ResourceVector
  q_token_budget :: u64
  q_max_concurrent_requests :: u32
  q_max_sequences :: u32
  q_compute_time_allowance :: i64

definition default_quota :: "bool \<Rightarrow> QuotaSnapshot" where
  "default_quota present = \<lparr>q_present = present, q_generation = 0, q_source_authority = [], q_timestamp = 0,
     q_stale = False, q_limits = rv_zero, q_used = rv_zero, q_reserved = rv_zero, q_token_budget = 0,
     q_max_concurrent_requests = 0, q_max_sequences = 0, q_compute_time_allowance = 0\<rparr>"

definition quota_constrained :: "QuotaSnapshot \<Rightarrow> ResourceId \<Rightarrow> bool" where
  "quota_constrained q i \<longleftrightarrow> q_limits q i \<noteq> 0"

definition quota_remaining :: "QuotaSnapshot \<Rightarrow> ResourceVector" where
  "quota_remaining q = rv_sat_sub (q_limits q) (rv_sat_add (q_used q) (q_reserved q))"

record QuotaEvaluation =
  qe_passed :: bool
  qe_committed_remaining :: ResourceVector
  qe_limiting_resource :: "ResourceId option"
  qe_limiting_name :: string
  qe_token_remaining :: u64
  qe_token_violation :: bool
  qe_explanation :: string

definition default_quota_evaluation :: QuotaEvaluation where
  "default_quota_evaluation = \<lparr>qe_passed = False, qe_committed_remaining = rv_zero, qe_limiting_resource = None,
     qe_limiting_name = [], qe_token_remaining = 0, qe_token_violation = False, qe_explanation = []\<rparr>"

section \<open>Service level\<close>

datatype (plugins only: code size) SloVerdict =
    SloVerdict_Feasible | SloVerdict_FeasibleWithRisk | SloVerdict_Infeasible | SloVerdict_Unknown | SloVerdict_Raw u8

primrec slo_verdict_name :: "SloVerdict \<Rightarrow> string" where
  "slo_verdict_name SloVerdict_Feasible = ''feasible''"
| "slo_verdict_name SloVerdict_FeasibleWithRisk = ''feasible_with_risk''"
| "slo_verdict_name SloVerdict_Infeasible = ''infeasible''"
| "slo_verdict_name SloVerdict_Unknown = ''unknown''"
| "slo_verdict_name (SloVerdict_Raw b) = ''unknown''"

record SloFeasibility =
  slo_verdict :: SloVerdict
  slo_predicted_queue_delay :: i64
  slo_predicted_transfer_delay :: i64
  slo_predicted_execution_duration :: i64
  slo_predicted_reservation_delay :: i64
  slo_deadline_remaining :: "i64 option"
  slo_uncertainty :: f64
  slo_explanation :: string

definition default_slo :: SloFeasibility where
  "default_slo = \<lparr>slo_verdict = SloVerdict_Unknown, slo_predicted_queue_delay = 0, slo_predicted_transfer_delay = 0,
     slo_predicted_execution_duration = 0, slo_predicted_reservation_delay = 0, slo_deadline_remaining = None,
     slo_uncertainty = f64_zero, slo_explanation = []\<rparr>"

definition slo_predicted_total :: "SloFeasibility \<Rightarrow> i64" where
  "slo_predicted_total s =
     slo_predicted_queue_delay s + slo_predicted_transfer_delay s + slo_predicted_execution_duration s
     + slo_predicted_reservation_delay s"

definition slo_passes :: "SloFeasibility \<Rightarrow> bool" where
  "slo_passes s \<longleftrightarrow> slo_verdict s = SloVerdict_Feasible \<or> slo_verdict s = SloVerdict_FeasibleWithRisk"

end
