(* ===== verification/Decision.thy ===== *)
theory Decision
  imports Prediction Quota_Slo
begin

text \<open>
  \<open>decision.hpp\<close>: outcomes, reason codes and the decision record the engine returns.
\<close>

datatype (plugins only: code size) AdmissionOutcome =
    AdmissionOutcome_Admit | AdmissionOutcome_Defer | AdmissionOutcome_Reject | AdmissionOutcome_Raw u8

primrec outcome_name :: "AdmissionOutcome \<Rightarrow> string" where
  "outcome_name AdmissionOutcome_Admit = ''admit''"
| "outcome_name AdmissionOutcome_Defer = ''defer''"
| "outcome_name AdmissionOutcome_Reject = ''reject''"
| "outcome_name (AdmissionOutcome_Raw b) = ''unknown''"

datatype (plugins only: code size) ReasonCode =
    ReasonCode_Admit | ReasonCode_AdmitWithReservation | ReasonCode_AdmitWithRisk | ReasonCode_DeferCapacity
  | ReasonCode_DeferQuota | ReasonCode_DeferSlo | ReasonCode_DeferCapability | ReasonCode_RejectInfeasible
  | ReasonCode_RejectPolicy | ReasonCode_RejectCapability | ReasonCode_RejectQuota | ReasonCode_RejectExpired
  | ReasonCode_RejectMalformed | ReasonCode_RejectUnsupported | ReasonCode_RejectStale | ReasonCode_Raw u32

primrec reason_value :: "ReasonCode \<Rightarrow> u32" where
  "reason_value ReasonCode_Admit = 0"
| "reason_value ReasonCode_AdmitWithReservation = 1"
| "reason_value ReasonCode_AdmitWithRisk = 2"
| "reason_value ReasonCode_DeferCapacity = 3"
| "reason_value ReasonCode_DeferQuota = 4"
| "reason_value ReasonCode_DeferSlo = 5"
| "reason_value ReasonCode_DeferCapability = 6"
| "reason_value ReasonCode_RejectInfeasible = 7"
| "reason_value ReasonCode_RejectPolicy = 8"
| "reason_value ReasonCode_RejectCapability = 9"
| "reason_value ReasonCode_RejectQuota = 10"
| "reason_value ReasonCode_RejectExpired = 11"
| "reason_value ReasonCode_RejectMalformed = 12"
| "reason_value ReasonCode_RejectUnsupported = 13"
| "reason_value ReasonCode_RejectStale = 14"
| "reason_value (ReasonCode_Raw v) = v"

primrec reason_code_name :: "ReasonCode \<Rightarrow> string" where
  "reason_code_name ReasonCode_Admit = ''ADMIT''"
| "reason_code_name ReasonCode_AdmitWithReservation = ''ADMIT_WITH_RESERVATION''"
| "reason_code_name ReasonCode_AdmitWithRisk = ''ADMIT_WITH_RISK''"
| "reason_code_name ReasonCode_DeferCapacity = ''DEFER_CAPACITY''"
| "reason_code_name ReasonCode_DeferQuota = ''DEFER_QUOTA''"
| "reason_code_name ReasonCode_DeferSlo = ''DEFER_SLO''"
| "reason_code_name ReasonCode_DeferCapability = ''DEFER_CAPABILITY''"
| "reason_code_name ReasonCode_RejectInfeasible = ''REJECT_INFEASIBLE''"
| "reason_code_name ReasonCode_RejectPolicy = ''REJECT_POLICY''"
| "reason_code_name ReasonCode_RejectCapability = ''REJECT_CAPABILITY''"
| "reason_code_name ReasonCode_RejectQuota = ''REJECT_QUOTA''"
| "reason_code_name ReasonCode_RejectExpired = ''REJECT_EXPIRED''"
| "reason_code_name ReasonCode_RejectMalformed = ''REJECT_MALFORMED''"
| "reason_code_name ReasonCode_RejectUnsupported = ''REJECT_UNSUPPORTED''"
| "reason_code_name ReasonCode_RejectStale = ''REJECT_STALE''"
| "reason_code_name (ReasonCode_Raw v) = ''UNKNOWN''"

definition primary_outcome_of :: "ReasonCode \<Rightarrow> AdmissionOutcome" where
  "primary_outcome_of c =
     (if c \<in> {ReasonCode_Admit, ReasonCode_AdmitWithReservation, ReasonCode_AdmitWithRisk} then AdmissionOutcome_Admit
      else if c \<in> {ReasonCode_DeferCapacity, ReasonCode_DeferQuota, ReasonCode_DeferSlo, ReasonCode_DeferCapability}
      then AdmissionOutcome_Defer
      else AdmissionOutcome_Reject)"

record DeferHint =
  dh_reason :: ReasonCode
  dh_earliest_reevaluation :: i64
  dh_required_resource_change :: string
  dh_quota_change_required :: string
  dh_explanation :: string

record AdmissionDecision =
  dec_admission_request_id :: AdmissionRequestId
  dec_request_id :: RequestId
  dec_attempt_id :: AttemptId
  dec_tenant_id :: TenantId
  dec_model_id :: ModelId
  dec_model_revision :: ModelRevision
  dec_outcome :: AdmissionOutcome
  dec_reason :: ReasonCode
  dec_policy_generation :: PolicyGeneration
  dec_snapshot_generation :: ResourceSnapshotGeneration
  dec_admission_generation :: AdmissionGeneration
  dec_epoch :: CoordinatorEpoch
  dec_predicted_requirement :: ResourceRequirement
  dec_memory_prediction :: MemoryFootprintPrediction
  dec_duration_prediction :: DurationPrediction
  dec_slo :: SloFeasibility
  dec_quota :: QuotaEvaluation
  dec_reservation_id :: "ReservationId option"
  dec_confidence :: f64
  dec_decision_time :: i64
  dec_expires_at :: "i64 option"
  dec_explanation :: string
  dec_defer_hint :: "DeferHint option"

definition default_memory_prediction :: MemoryFootprintPrediction where
  "default_memory_prediction = \<lparr>mp_footprint = default_footprint, mp_confidence = f64_zero, mp_evidence_count = 0,
     mp_predictor_generation = 0, mp_provenance = PredictionProvenance_Unavailable, mp_fallback = False\<rparr>"

definition default_duration_prediction :: DurationPrediction where
  "default_duration_prediction = \<lparr>dp_expected = 0, dp_confidence = f64_zero, dp_prefill = 0, dp_decode = 0,
     dp_transfer = 0, dp_decode_rate_tps = f64_zero, dp_evidence_count = 0, dp_predictor_generation = 0,
     dp_provenance = PredictionProvenance_Unavailable, dp_fallback = False\<rparr>"

text \<open>A default-constructed decision.\<close>

definition default_decision :: AdmissionDecision where
  "default_decision = \<lparr>dec_admission_request_id = Id 0, dec_request_id = Id 0, dec_attempt_id = Id 0,
     dec_tenant_id = Id 0, dec_model_id = Id 0, dec_model_revision = Id 0,
     dec_outcome = AdmissionOutcome_Reject, dec_reason = ReasonCode_RejectInfeasible,
     dec_policy_generation = Id 0, dec_snapshot_generation = Id 0, dec_admission_generation = Id 0, dec_epoch = Id 0,
     dec_predicted_requirement = \<lparr>req_demand = rv_zero\<rparr>, dec_memory_prediction = default_memory_prediction,
     dec_duration_prediction = default_duration_prediction, dec_slo = default_slo, dec_quota = default_quota_evaluation,
     dec_reservation_id = None, dec_confidence = f64_zero, dec_decision_time = 0, dec_expires_at = None,
     dec_explanation = [], dec_defer_hint = None\<rparr>"

definition is_admit :: "AdmissionDecision \<Rightarrow> bool" where
  "is_admit d \<longleftrightarrow> dec_outcome d = AdmissionOutcome_Admit"

definition is_defer :: "AdmissionDecision \<Rightarrow> bool" where
  "is_defer d \<longleftrightarrow> dec_outcome d = AdmissionOutcome_Defer"

definition is_reject :: "AdmissionDecision \<Rightarrow> bool" where
  "is_reject d \<longleftrightarrow> dec_outcome d = AdmissionOutcome_Reject"

end
