(* ===== verification/Reservation.thy ===== *)
theory Reservation
  imports Resource
begin

text \<open>
  \<open>reservation.hpp\<close>: the reservation manager. Its table is a \<open>std::map\<close> from reservation ids to
  reservations, next to two running sums (reserved and used) that every operation keeps in step
  with the table. \<open>SystemClock::now()\<close> is the parameter \<open>now\<close>; time points and lifetimes are
  signed 64-bit nanosecond counts.
\<close>

section \<open>Data\<close>

datatype (plugins only: code size) OvercommitMode =
    OvercommitMode_None | OvercommitMode_Bounded | OvercommitMode_PredictionAware | OvercommitMode_Raw u8

primrec overcommit_mode_name :: "OvercommitMode \<Rightarrow> string" where
  "overcommit_mode_name OvercommitMode_None = ''none''"
| "overcommit_mode_name OvercommitMode_Bounded = ''bounded''"
| "overcommit_mode_name OvercommitMode_PredictionAware = ''prediction_aware''"
| "overcommit_mode_name (OvercommitMode_Raw b) = ''unknown''"

datatype (plugins only: code size) ReservationStatus =
    ReservationStatus_Reserved | ReservationStatus_Committed | ReservationStatus_Released
  | ReservationStatus_Expired | ReservationStatus_RolledBack | ReservationStatus_Raw u8

primrec reservation_status_name :: "ReservationStatus \<Rightarrow> string" where
  "reservation_status_name ReservationStatus_Reserved = ''reserved''"
| "reservation_status_name ReservationStatus_Committed = ''committed''"
| "reservation_status_name ReservationStatus_Released = ''released''"
| "reservation_status_name ReservationStatus_Expired = ''expired''"
| "reservation_status_name ReservationStatus_RolledBack = ''rolled_back''"
| "reservation_status_name (ReservationStatus_Raw b) = ''unknown''"

record ResourceReservation =
  rsv_id :: ReservationId
  rsv_owner :: TenantId
  rsv_demand :: ResourceVector
  rsv_created_at :: i64
  rsv_expires_at :: i64
  rsv_admission_request_id :: "AdmissionRequestId option"
  rsv_admission_generation :: "AdmissionGeneration option"
  rsv_status :: ReservationStatus
  rsv_generation :: u64

record ReservationManager =
  rm_total :: ResourceVector
  rm_overcommit_allowance :: ResourceVector
  rm_reserved_sum :: ResourceVector
  rm_used_sum :: ResourceVector
  rm_overcommit_mode :: OvercommitMode
  rm_reservations :: "(ReservationId, ResourceReservation) omap"
  rm_generation :: u64

definition rm_empty :: ReservationManager where
  "rm_empty = \<lparr>rm_total = rv_zero, rm_overcommit_allowance = rv_zero, rm_reserved_sum = rv_zero,
     rm_used_sum = rv_zero, rm_overcommit_mode = OvercommitMode_None, rm_reservations = [], rm_generation = 1\<rparr>"

section \<open>Capacity\<close>

definition rm_set_total :: "ReservationManager \<Rightarrow> ResourceVector \<Rightarrow> ReservationManager" where
  "rm_set_total m t = m\<lparr>rm_total := t\<rparr>"

definition rm_set_overcommit_mode :: "ReservationManager \<Rightarrow> OvercommitMode \<Rightarrow> ReservationManager" where
  "rm_set_overcommit_mode m mode = m\<lparr>rm_overcommit_mode := mode\<rparr>"

definition rm_set_overcommit_allowance :: "ReservationManager \<Rightarrow> ResourceVector \<Rightarrow> ReservationManager" where
  "rm_set_overcommit_allowance m allowance = m\<lparr>rm_overcommit_allowance := allowance\<rparr>"

text \<open>A dimension with a total of zero is unconstrained: its ceiling is a quarter of the range.\<close>

definition kUnbounded :: u64 where
  "kUnbounded = u64_max div 4"

definition dim_ceiling :: "ReservationManager \<Rightarrow> ResourceId \<Rightarrow> u64" where
  "dim_ceiling m i =
     (let t = rm_total m i in
      if t = 0 then kUnbounded
      else let allowance = (if rm_overcommit_mode m \<noteq> OvercommitMode_None then rm_overcommit_allowance m i else 0)
           in sat_add t allowance)"

definition rm_ceiling :: "ReservationManager \<Rightarrow> ResourceVector" where
  "rm_ceiling m = (\<lambda>i. dim_ceiling m i)"

definition overcommit_headroom :: "ReservationManager \<Rightarrow> ResourceVector" where
  "overcommit_headroom m =
     (if rm_overcommit_mode m = OvercommitMode_None then rv_zero else rm_overcommit_allowance m)"

definition overcommitted :: "ReservationManager \<Rightarrow> bool" where
  "overcommitted m =
     (let s = rv_sat_add (rm_reserved_sum m) (rm_used_sum m)
      in list_ex (\<lambda>i. rm_total m i \<noteq> 0 \<and> s i > rm_total m i) resource_ids)"

definition rm_availability :: "ReservationManager \<Rightarrow> ResourceVector" where
  "rm_availability m =
     (\<lambda>i. sat_sub (dim_ceiling m i) (sat_add (rm_reserved_sum m i) (rm_used_sum m i)))"

section \<open>Operations\<close>

definition next_generation :: "u64 \<Rightarrow> u64" where
  "next_generation g = (if g = u64_max then 1 else g + 1)"

text \<open>The first dimension in which the request does not fit.\<close>

fun limiting_dimension :: "ResourceId list \<Rightarrow> ResourceVector \<Rightarrow> ReservationManager \<Rightarrow> ResourceId option" where
  "limiting_dimension [] v m = None"
| "limiting_dimension (i # is) v m = (if v i > dim_ceiling m i then Some i else limiting_dimension is v m)"

definition rm_reserve :: "i64 \<Rightarrow> ReservationId \<Rightarrow> TenantId \<Rightarrow> ResourceVector \<Rightarrow> i64 \<Rightarrow> ReservationManager
    \<Rightarrow> ReservationId Result \<times> ReservationManager" where
  "rm_reserve now rid owner demand ttl m =
     (if om_find (rm_reservations m) rid \<noteq> None
      then (result_fail ErrorCode_ReservationIdentityCollision ''reservation id already exists'', m)
      else if rv_is_zero demand
      then (result_fail ErrorCode_InvalidArgument ''reservation demand is all-zero'', m)
      else case try_add (rm_reserved_sum m) demand of
        None \<Rightarrow> (result_fail ErrorCode_ReservationOverflow ''reserved+demand overflow'', m)
      | Some nxt \<Rightarrow>
          (case try_add (rm_used_sum m) nxt of
             None \<Rightarrow> (result_fail ErrorCode_ReservationOverflow ''used+reserved overflow'', m)
           | Some used_plus_reserved \<Rightarrow>
               (case limiting_dimension resource_ids used_plus_reserved m of
                  Some dim \<Rightarrow> (result_fail ErrorCode_InsufficientCapacity (''insufficient '' @ resource_name dim), m)
                | None \<Rightarrow>
                    let g = next_generation (rm_generation m);
                        r = \<lparr>rsv_id = rid, rsv_owner = owner, rsv_demand = demand, rsv_created_at = now,
                             rsv_expires_at = now + ttl, rsv_admission_request_id = None,
                             rsv_admission_generation = None, rsv_status = ReservationStatus_Reserved,
                             rsv_generation = g\<rparr>
                    in (result_ok rid,
                        m\<lparr>rm_reserved_sum := nxt, rm_generation := g,
                          rm_reservations := om_put rid r (rm_reservations m)\<rparr>))))"

text \<open>Writing through the iterator \<open>it->second\<close>.\<close>

definition rm_update :: "ReservationId \<Rightarrow> ResourceReservation \<Rightarrow> ReservationManager \<Rightarrow> ReservationManager" where
  "rm_update rid r m = m\<lparr>rm_reservations := om_put rid r (rm_reservations m)\<rparr>"

definition expire_unsafe :: "ReservationId \<Rightarrow> ResourceReservation \<Rightarrow> ReservationManager \<Rightarrow> ReservationManager" where
  "expire_unsafe rid r m =
     (case try_sub (rm_reserved_sum m) (rsv_demand r) of
        None \<Rightarrow> m
      | Some r2 \<Rightarrow> rm_update rid (r\<lparr>rsv_status := ReservationStatus_Expired\<rparr>) (m\<lparr>rm_reserved_sum := r2\<rparr>))"

definition rm_commit :: "i64 \<Rightarrow> ReservationId \<Rightarrow> AdmissionRequestId \<Rightarrow> AdmissionGeneration \<Rightarrow> ReservationManager
    \<Rightarrow> Status \<times> ReservationManager" where
  "rm_commit now rid ar gen m =
     (case om_find (rm_reservations m) rid of
        None \<Rightarrow> (status_failure ErrorCode_StaleReservation ''unknown reservation id'', m)
      | Some r \<Rightarrow>
          if rsv_status r = ReservationStatus_Committed
          then (status_failure ErrorCode_DoubleReservation ''reservation already committed'', m)
          else if rsv_status r \<noteq> ReservationStatus_Reserved
          then (status_failure ErrorCode_OperationNotPermitted ''reservation not in reserved state'', m)
          else if rsv_expires_at r <s now
          then (status_failure ErrorCode_ReservationExpired ''reservation expired before commit'',
                expire_unsafe rid r m)
          else case try_sub (rm_reserved_sum m) (rsv_demand r) of
            None \<Rightarrow> (status_failure ErrorCode_ReservationRollbackError ''reserved-commit underflow'', m)
          | Some r2 \<Rightarrow>
              (case try_add (rm_used_sum m) (rsv_demand r) of
                 None \<Rightarrow> (status_failure ErrorCode_ReservationOverflow ''used-commit overflow'', m)
               | Some u2 \<Rightarrow>
                   (status_success,
                    rm_update rid
                      (r\<lparr>rsv_status := ReservationStatus_Committed, rsv_admission_request_id := Some ar,
                         rsv_admission_generation := Some gen\<rparr>)
                      (m\<lparr>rm_reserved_sum := r2, rm_used_sum := u2\<rparr>))))"

definition rm_rollback :: "ReservationId \<Rightarrow> ReservationManager \<Rightarrow> Status \<times> ReservationManager" where
  "rm_rollback rid m =
     (case om_find (rm_reservations m) rid of
        None \<Rightarrow> (status_failure ErrorCode_StaleReservation ''unknown reservation id'', m)
      | Some r \<Rightarrow>
          if rsv_status r = ReservationStatus_RolledBack \<or> rsv_status r = ReservationStatus_Released
          then (status_success, m)
          else if rsv_status r \<noteq> ReservationStatus_Reserved
          then (status_failure ErrorCode_OperationNotPermitted
                  ''only provisional reservations can be rolled back'', m)
          else case try_sub (rm_reserved_sum m) (rsv_demand r) of
            None \<Rightarrow> (status_failure ErrorCode_ReservationRollbackError ''rollback underflow'', m)
          | Some r2 \<Rightarrow>
              (status_success,
               rm_update rid (r\<lparr>rsv_status := ReservationStatus_RolledBack\<rparr>) (m\<lparr>rm_reserved_sum := r2\<rparr>)))"

definition rm_release :: "ReservationId \<Rightarrow> ReservationManager \<Rightarrow> Status \<times> ReservationManager" where
  "rm_release rid m =
     (case om_find (rm_reservations m) rid of
        None \<Rightarrow> (status_failure ErrorCode_StaleReservation ''unknown reservation id'', m)
      | Some r \<Rightarrow>
          if rsv_status r = ReservationStatus_Released \<or> rsv_status r = ReservationStatus_RolledBack
          then (status_success, m)
          else let released = rm_update rid (r\<lparr>rsv_status := ReservationStatus_Released\<rparr>)
          in if rsv_status r = ReservationStatus_Reserved
             then (case try_sub (rm_reserved_sum m) (rsv_demand r) of
                     None \<Rightarrow> (status_failure ErrorCode_ReservationRollbackError ''release-rollback underflow'', m)
                   | Some r2 \<Rightarrow> (status_success, released (m\<lparr>rm_reserved_sum := r2\<rparr>)))
             else if rsv_status r = ReservationStatus_Committed
             then (case try_sub (rm_used_sum m) (rsv_demand r) of
                     None \<Rightarrow> (status_failure ErrorCode_DoubleRelease
                               ''used-release underflow (already released)'', m)
                   | Some u2 \<Rightarrow> (status_success, released (m\<lparr>rm_used_sum := u2\<rparr>)))
             else (status_success, released m))"

text \<open>The sweep visits every entry once, in key order; it writes entries and the reserved sum only.\<close>

definition expire_entry :: "i64 \<Rightarrow> ReservationId \<times> ResourceReservation \<Rightarrow> ReservationManager \<Rightarrow> ReservationManager" where
  "expire_entry now e m =
     (if rsv_status (snd e) = ReservationStatus_Reserved \<and> rsv_expires_at (snd e) <s now
      then expire_unsafe (fst e) (snd e) m else m)"

definition rm_expire_stale :: "i64 \<Rightarrow> ReservationManager \<Rightarrow> ReservationManager" where
  "rm_expire_stale now m = fold (expire_entry now) (rm_reservations m) m"

text \<open>The recovery check: sums by status, no duplicate ids, no demand on terminal reservations.\<close>

fun restore_loop :: "ResourceReservation list \<Rightarrow> ReservationId list \<Rightarrow> ResourceVector \<Rightarrow> ResourceVector
    \<Rightarrow> Status + ResourceVector \<times> ResourceVector" where
  "restore_loop [] seen rsum usum = Inr (rsum, usum)"
| "restore_loop (r # rs) seen rsum usum =
     (if rsv_id r \<in> set seen
      then Inl (status_failure ErrorCode_PersistenceDuplicateId ''duplicate reservation id'')
      else if rsv_status r = ReservationStatus_Reserved
      then (case try_add rsum (rsv_demand r) of
              None \<Rightarrow> Inl (status_failure ErrorCode_PersistenceInconsistentAccounting ''reserved sum overflow'')
            | Some n \<Rightarrow> restore_loop rs (rsv_id r # seen) n usum)
      else if rsv_status r = ReservationStatus_Committed
      then (case try_add usum (rsv_demand r) of
              None \<Rightarrow> Inl (status_failure ErrorCode_PersistenceInconsistentAccounting ''used sum overflow'')
            | Some n \<Rightarrow> restore_loop rs (rsv_id r # seen) rsum n)
      else if \<not> rv_is_zero (rsv_demand r)
      then Inl (status_failure ErrorCode_PersistenceInconsistentAccounting
                  ''terminal reservation carries demand'')
      else restore_loop rs (rsv_id r # seen) rsum usum)"

definition rm_restore :: "ResourceReservation list \<Rightarrow> ResourceVector \<Rightarrow> ResourceVector \<Rightarrow> ReservationManager
    \<Rightarrow> Status \<times> ReservationManager" where
  "rm_restore rs reserved used m =
     (case restore_loop rs [] rv_zero rv_zero of
        Inl e \<Rightarrow> (e, m)
      | Inr (rsum, usum) \<Rightarrow>
          if rsum \<noteq> reserved
          then (status_failure ErrorCode_PersistenceInconsistentAccounting ''reserved accounting mismatch'', m)
          else if usum \<noteq> used
          then (status_failure ErrorCode_PersistenceInconsistentAccounting ''used accounting mismatch'', m)
          else (status_success,
                m\<lparr>rm_reservations := fold (\<lambda>r t. om_put (rsv_id r) r t) rs [],
                  rm_reserved_sum := reserved, rm_used_sum := used\<rparr>))"

text \<open>The recomputation of both sums from the table, \<open>None\<close> on overflow.\<close>

fun accounting_loop :: "(ReservationId \<times> ResourceReservation) list \<Rightarrow> ResourceVector \<Rightarrow> ResourceVector
    \<Rightarrow> (ResourceVector \<times> ResourceVector) option" where
  "accounting_loop [] rsum usum = Some (rsum, usum)"
| "accounting_loop ((k, r) # es) rsum usum =
     (if rsv_status r = ReservationStatus_Reserved
      then (case try_add rsum (rsv_demand r) of None \<Rightarrow> None | Some n \<Rightarrow> accounting_loop es n usum)
      else if rsv_status r = ReservationStatus_Committed
      then (case try_add usum (rsv_demand r) of None \<Rightarrow> None | Some n \<Rightarrow> accounting_loop es rsum n)
      else accounting_loop es rsum usum)"

definition verify_accounting :: "ReservationManager \<Rightarrow> bool" where
  "verify_accounting m =
     (case accounting_loop (rm_reservations m) rv_zero rv_zero of
        None \<Rightarrow> False
      | Some (rsum, usum) \<Rightarrow>
          rsum = rm_reserved_sum m \<and> usum = rm_used_sum m
          \<and> fits_in (rv_sat_add rsum usum) (rm_ceiling m))"

section \<open>The accounting invariant\<close>

text \<open>What an entry contributes to the sum of the reservations with status \<open>st\<close>.\<close>

definition contrib :: "ReservationStatus \<Rightarrow> ResourceId \<Rightarrow> ResourceReservation \<Rightarrow> nat" where
  "contrib st i r = (if rsv_status r = st then unat (rsv_demand r i) else 0)"

definition tally :: "ReservationStatus \<Rightarrow> ResourceId \<Rightarrow> (ReservationId, ResourceReservation) omap \<Rightarrow> nat" where
  "tally st i t = (\<Sum>(k, r) \<leftarrow> t. contrib st i r)"

text \<open>The table is a well-formed map whose entries carry their own key and a non-zero demand, and
  the running sums are the sums of the table; together they do not overflow.\<close>

definition table_wf :: "(ReservationId, ResourceReservation) omap \<Rightarrow> ResourceVector \<Rightarrow> ResourceVector \<Rightarrow> bool" where
  "table_wf t reserved used \<longleftrightarrow>
     om_ok t
     \<and> (\<forall>(k, r) \<in> set t. rsv_id r = k \<and> \<not> rv_is_zero (rsv_demand r))
     \<and> (\<forall>i. tally ReservationStatus_Reserved i t = unat (reserved i))
     \<and> (\<forall>i. tally ReservationStatus_Committed i t = unat (used i))
     \<and> (\<forall>i. unat (reserved i) + unat (used i) < 2 ^ 64)"

definition rm_wf :: "ReservationManager \<Rightarrow> bool" where
  "rm_wf m \<longleftrightarrow> table_wf (rm_reservations m) (rm_reserved_sum m) (rm_used_sum m)"

text \<open>A restore checks less than \<open>rm_wf\<close>: entries may carry no demand, and the two sums are checked one by
  one. The invariant is therefore graded: \<open>nz\<close> asks for demands that are not zero, \<open>fit\<close> for sums
  that fit together; the sums match the table in every grade.\<close>

definition table_inv :: "bool \<Rightarrow> bool \<Rightarrow> (ReservationId, ResourceReservation) omap \<Rightarrow> ResourceVector \<Rightarrow> ResourceVector
    \<Rightarrow> bool" where
  "table_inv nz fit t reserved used \<longleftrightarrow>
     om_ok t
     \<and> (\<forall>(k, r) \<in> set t. rsv_id r = k \<and> (nz \<longrightarrow> \<not> rv_is_zero (rsv_demand r)))
     \<and> (\<forall>i. tally ReservationStatus_Reserved i t = unat (reserved i))
     \<and> (\<forall>i. tally ReservationStatus_Committed i t = unat (used i))
     \<and> (fit \<longrightarrow> (\<forall>i. unat (reserved i) + unat (used i) < 2 ^ 64))"

definition rm_inv :: "bool \<Rightarrow> bool \<Rightarrow> ReservationManager \<Rightarrow> bool" where
  "rm_inv nz fit m \<longleftrightarrow> table_inv nz fit (rm_reservations m) (rm_reserved_sum m) (rm_used_sum m)"

lemma rm_wf_inv: "rm_wf m \<longleftrightarrow> rm_inv True True m"
  by (simp add: rm_wf_def rm_inv_def table_wf_def table_inv_def)

lemma rm_inv_weaken: "rm_inv nz fit m \<Longrightarrow> rm_inv False False m"
  by (auto simp: rm_inv_def table_inv_def)

lemma rm_inv_fits: "rm_inv False False m \<Longrightarrow> \<forall>i. unat (rm_reserved_sum m i) + unat (rm_used_sum m i) < 2 ^ 64
    \<Longrightarrow> rm_inv False True m"
  by (simp add: rm_inv_def table_inv_def)

definition rm_within :: "ReservationManager \<Rightarrow> bool" where
  "rm_within m \<longleftrightarrow> (\<forall>i. unat (rm_reserved_sum m i) + unat (rm_used_sum m i) \<le> unat (dim_ceiling m i))"

lemma tally_put:
  assumes "om_ok t"
  shows "tally st i (om_put k r t) + (case om_find t k of None \<Rightarrow> 0 | Some w \<Rightarrow> contrib st i w)
       = tally st i t + contrib st i r"
  using om.sum_entries_put [OF assms, of "contrib st i" k r] by (simp add: tally_def)

lemma table_inv_put:
  assumes wf: "table_inv nz fit t R U"
    and r: "rsv_id r = k" "nz \<longrightarrow> \<not> rv_is_zero (rsv_demand r)"
    and reserved: "\<And>i. unat (R' i) + (case om_find t k of None \<Rightarrow> 0 | Some w \<Rightarrow> contrib ReservationStatus_Reserved i w)
      = unat (R i) + contrib ReservationStatus_Reserved i r"
    and used: "\<And>i. unat (U' i) + (case om_find t k of None \<Rightarrow> 0 | Some w \<Rightarrow> contrib ReservationStatus_Committed i w)
      = unat (U i) + contrib ReservationStatus_Committed i r"
    and bound: "fit \<longrightarrow> (\<forall>i. unat (R' i) + unat (U' i) < 2 ^ 64)"
  shows "table_inv nz fit (om_put k r t) R' U'"
proof -
  have ok: "om_ok t" using wf by (simp add: table_inv_def)
  have "tally ReservationStatus_Reserved i (om_put k r t) = unat (R' i)" for i
    using tally_put [OF ok, of ReservationStatus_Reserved i k r] reserved [of i] wf
    by (simp add: table_inv_def)
  moreover have "tally ReservationStatus_Committed i (om_put k r t) = unat (U' i)" for i
    using tally_put [OF ok, of ReservationStatus_Committed i k r] used [of i] wf
    by (simp add: table_inv_def)
  moreover have "\<forall>(j, w) \<in> set (om_put k r t). rsv_id w = j \<and> (nz \<longrightarrow> \<not> rv_is_zero (rsv_demand w))"
    using wf r by (auto simp: om.entries_put [OF ok] table_inv_def)
  ultimately show ?thesis
    using bound ok by (simp add: table_inv_def om_ok_put)
qed

text \<open>An entry's demand is part of the sum its status belongs to.\<close>

lemma contrib_le_tally:
  assumes "om_ok t" and "om_find t k = Some r"
  shows "contrib st i r \<le> tally st i t"
proof -
  have "(k, r) \<in> set t" using assms by (simp add: om_find_in_set)
  then have "contrib st i r \<in> set (map (\<lambda>(k, r). contrib st i r) t)"
    by force
  then show ?thesis
    unfolding tally_def by (rule member_le_sum_list) simp_all
qed

lemma rm_inv_entry:
  assumes "rm_inv nz fit m" and "om_find (rm_reservations m) k = Some r"
  shows "rsv_id r = k" and "nz \<longrightarrow> \<not> rv_is_zero (rsv_demand r)"
    and "rsv_status r = ReservationStatus_Reserved \<Longrightarrow> unat (rsv_demand r i) \<le> unat (rm_reserved_sum m i)"
    and "rsv_status r = ReservationStatus_Committed \<Longrightarrow> unat (rsv_demand r i) \<le> unat (rm_used_sum m i)"
proof -
  have wf: "table_inv nz fit (rm_reservations m) (rm_reserved_sum m) (rm_used_sum m)"
    using assms(1) by (simp add: rm_inv_def)
  then have ok: "om_ok (rm_reservations m)" by (simp add: table_inv_def)
  then have "(k, r) \<in> set (rm_reservations m)"
    using assms(2) by (simp add: om_find_in_set)
  then show "rsv_id r = k" and "nz \<longrightarrow> \<not> rv_is_zero (rsv_demand r)"
    using wf by (auto simp: table_inv_def)
  show "rsv_status r = ReservationStatus_Reserved \<Longrightarrow> unat (rsv_demand r i) \<le> unat (rm_reserved_sum m i)"
    using contrib_le_tally [OF ok assms(2), of ReservationStatus_Reserved i] wf
    by (simp add: contrib_def table_inv_def)
  show "rsv_status r = ReservationStatus_Committed \<Longrightarrow> unat (rsv_demand r i) \<le> unat (rm_used_sum m i)"
    using contrib_le_tally [OF ok assms(2), of ReservationStatus_Committed i] wf
    by (simp add: contrib_def table_inv_def)
qed

lemma rm_inv_reserved_sub:
  assumes "rm_inv nz fit m" and "om_find (rm_reservations m) k = Some r" and "rsv_status r = ReservationStatus_Reserved"
  obtains r2 where "try_sub (rm_reserved_sum m) (rsv_demand r) = Some r2"
  using try_sub_total [of "rsv_demand r" "rm_reserved_sum m"] rm_inv_entry(3) [OF assms]
  by (auto simp: fits_in_iff word_le_nat_alt)

lemma rm_inv_used_sub:
  assumes "rm_inv nz fit m" and "om_find (rm_reservations m) k = Some r" and "rsv_status r = ReservationStatus_Committed"
  obtains u2 where "try_sub (rm_used_sum m) (rsv_demand r) = Some u2"
  using try_sub_total [of "rsv_demand r" "rm_used_sum m"] rm_inv_entry(4) [OF assms]
  by (auto simp: fits_in_iff word_le_nat_alt)

lemma rm_inv_used_add:
  assumes "rm_inv nz True m" and "om_find (rm_reservations m) k = Some r" and "rsv_status r = ReservationStatus_Reserved"
  obtains u2 where "try_add (rm_used_sum m) (rsv_demand r) = Some u2"
proof -
  have "unat (rm_used_sum m i) + unat (rsv_demand r i) < 2 ^ 64" for i
    using rm_inv_entry(3) [OF assms, of i] assms(1)
    by (auto simp: rm_inv_def table_inv_def elim!: allE [of _ i])
  then show ?thesis
    using that try_add_None [of "rm_used_sum m" "rsv_demand r"] by (metis not_None_eq not_le)
qed

text \<open>Rewriting an entry that keeps its id and demand: the sums move by the entry's contributions.\<close>

lemma rm_inv_update:
  assumes wf: "rm_inv nz fit m" and find: "om_find (rm_reservations m) k = Some r"
    and same: "rsv_id r' = rsv_id r" "rsv_demand r' = rsv_demand r"
    and table: "rm_reservations m' = om_put k r' (rm_reservations m)"
    and reserved: "\<And>i. unat (rm_reserved_sum m' i) + contrib ReservationStatus_Reserved i r
      = unat (rm_reserved_sum m i) + contrib ReservationStatus_Reserved i r'"
    and used: "\<And>i. unat (rm_used_sum m' i) + contrib ReservationStatus_Committed i r
      = unat (rm_used_sum m i) + contrib ReservationStatus_Committed i r'"
    and less: "\<And>i. unat (rm_reserved_sum m' i) + unat (rm_used_sum m' i)
      \<le> unat (rm_reserved_sum m i) + unat (rm_used_sum m i)"
  shows "rm_inv nz fit m'"
  unfolding rm_inv_def table
proof (rule table_inv_put)
  show wft: "table_inv nz fit (rm_reservations m) (rm_reserved_sum m) (rm_used_sum m)"
    using wf by (simp add: rm_inv_def)
  show "rsv_id r' = k" and "nz \<longrightarrow> \<not> rv_is_zero (rsv_demand r')"
    using rm_inv_entry(1,2) [OF wf find] same by simp_all
  show "fit \<longrightarrow> (\<forall>i. unat (rm_reserved_sum m' i) + unat (rm_used_sum m' i) < 2 ^ 64)"
    using wft by (auto simp: table_inv_def intro!: le_less_trans [OF less])
qed (use reserved used find in simp_all)

lemma rm_update_fields [simp]:
  "rm_reservations (rm_update k r m) = om_put k r (rm_reservations m)"
  "rm_reserved_sum (rm_update k r m) = rm_reserved_sum m"
  "rm_used_sum (rm_update k r m) = rm_used_sum m"
  "rm_total (rm_update k r m) = rm_total m"
  "rm_overcommit_mode (rm_update k r m) = rm_overcommit_mode m"
  "rm_overcommit_allowance (rm_update k r m) = rm_overcommit_allowance m"
  "rm_generation (rm_update k r m) = rm_generation m"
  by (simp_all add: rm_update_def)

section \<open>Every operation keeps the invariant\<close>

lemma limiting_dimension_None:
  "limiting_dimension is v m = None \<longleftrightarrow> (\<forall>i \<in> set is. v i \<le> dim_ceiling m i)"
  by (induction "is") auto

lemma limiting_dimension_None_iff:
  "limiting_dimension resource_ids v m = None \<longleftrightarrow> (\<forall>i. v i \<le> dim_ceiling m i)"
  by (simp add: limiting_dimension_None)

text \<open>Reserve, completely: it succeeds exactly for a fresh id and a non-zero demand that fits.\<close>

lemma rm_reserve_Inr:
  "rm_reserve now rid owner demand ttl m = (Inr x, m') \<longleftrightarrow>
     om_find (rm_reservations m) rid = None \<and> \<not> rv_is_zero demand \<and> x = rid
     \<and> (\<exists>nxt total. try_add (rm_reserved_sum m) demand = Some nxt \<and> try_add (rm_used_sum m) nxt = Some total
          \<and> (\<forall>i. total i \<le> dim_ceiling m i)
          \<and> m' = m\<lparr>rm_reserved_sum := nxt, rm_generation := next_generation (rm_generation m),
              rm_reservations := om_put rid
                \<lparr>rsv_id = rid, rsv_owner = owner, rsv_demand = demand, rsv_created_at = now,
                 rsv_expires_at = now + ttl, rsv_admission_request_id = None, rsv_admission_generation = None,
                 rsv_status = ReservationStatus_Reserved,
                 rsv_generation = next_generation (rm_generation m)\<rparr> (rm_reservations m)\<rparr>)"
  by (auto simp: rm_reserve_def result_fail_def result_ok_def Let_def limiting_dimension_None_iff [symmetric]
      split: option.splits if_splits)

lemma rm_reserve_Inl: "rm_reserve now rid owner demand ttl m = (Inl e, m') \<Longrightarrow> m' = m"
  by (auto simp: rm_reserve_def result_fail_def result_ok_def Let_def split: option.splits if_splits)

lemma rm_inv_reserve:
  assumes "rm_inv nz fit m" and "rm_reserve now rid owner demand ttl m = (x, m')"
  shows "rm_inv nz fit m'"
proof (cases x)
  case (Inl e)
  with assms show ?thesis using rm_reserve_Inl by blast
next
  case (Inr y)
  with assms(2) obtain nxt total where fresh: "om_find (rm_reservations m) rid = None"
    and nz: "\<not> rv_is_zero demand"
    and nxt: "try_add (rm_reserved_sum m) demand = Some nxt" and total: "try_add (rm_used_sum m) nxt = Some total"
    and m': "rm_reserved_sum m' = nxt" "rm_used_sum m' = rm_used_sum m"
      "\<exists>r. rm_reservations m' = om_put rid r (rm_reservations m) \<and> rsv_id r = rid \<and> rsv_demand r = demand
        \<and> rsv_status r = ReservationStatus_Reserved"
    by (fastforce simp: rm_reserve_Inr)
  from m'(3) obtain r where r: "rm_reservations m' = om_put rid r (rm_reservations m)" "rsv_id r = rid"
    "rsv_demand r = demand" "rsv_status r = ReservationStatus_Reserved" by blast
  show ?thesis
    unfolding rm_inv_def r(1) m'(1,2)
  proof (rule table_inv_put)
    show "table_inv nz fit (rm_reservations m) (rm_reserved_sum m) (rm_used_sum m)"
      using assms(1) by (simp add: rm_inv_def)
    show "fit \<longrightarrow> (\<forall>i. unat (nxt i) + unat (rm_used_sum m i) < 2 ^ 64)"
      using total by (simp add: try_add_Some add.commute)
  qed (use fresh nz nxt r in \<open>simp_all add: contrib_def try_add_Some\<close>)
qed

lemma rm_inv_expire_unsafe:
  assumes wf: "rm_inv nz fit m" and find: "om_find (rm_reservations m) k = Some r"
    and st: "rsv_status r = ReservationStatus_Reserved"
  shows "rm_inv nz fit (expire_unsafe k r m)"
proof -
  obtain r2 where r2: "try_sub (rm_reserved_sum m) (rsv_demand r) = Some r2"
    using rm_inv_reserved_sub [OF assms] .
  then have e: "unat (r2 i) + unat (rsv_demand r i) = unat (rm_reserved_sum m i)" for i
    by (simp add: try_sub_Some)
  have le: "unat (r2 i) \<le> unat (rm_reserved_sum m i)" for i
    using e [of i] by linarith
  show ?thesis
    by (rule rm_inv_update [OF wf find]) (use r2 st e le in \<open>auto simp: expire_unsafe_def contrib_def\<close>)
qed

lemma rm_inv_commit_effect:
  assumes wf: "rm_inv nz True m" and find: "om_find (rm_reservations m) rid = Some r"
    and st: "rsv_status r = ReservationStatus_Reserved" and live: "\<not> rsv_expires_at r <s now"
  obtains r2 u2 where "try_sub (rm_reserved_sum m) (rsv_demand r) = Some r2"
    and "try_add (rm_used_sum m) (rsv_demand r) = Some u2"
    and "rm_commit now rid ar gen m = (status_success,
      rm_update rid (r\<lparr>rsv_status := ReservationStatus_Committed, rsv_admission_request_id := Some ar,
                       rsv_admission_generation := Some gen\<rparr>) (m\<lparr>rm_reserved_sum := r2, rm_used_sum := u2\<rparr>))"
proof -
  obtain r2 where "try_sub (rm_reserved_sum m) (rsv_demand r) = Some r2"
    using rm_inv_reserved_sub [OF wf find st] .
  moreover obtain u2 where "try_add (rm_used_sum m) (rsv_demand r) = Some u2"
    using rm_inv_used_add [OF wf find st] .
  ultimately show ?thesis
    using that find st live by (simp add: rm_commit_def)
qed

lemma rm_inv_commit:
  assumes wf: "rm_inv nz fit m" and c: "rm_commit now rid ar gen m = (s, m')"
  shows "rm_inv nz fit m'"
proof (cases "\<exists>r. om_find (rm_reservations m) rid = Some r \<and> rsv_status r = ReservationStatus_Reserved")
  case False
  with wf c show ?thesis
    by (auto simp: rm_commit_def split: option.splits if_splits)
next
  case True
  then obtain r where find: "om_find (rm_reservations m) rid = Some r"
    and st: "rsv_status r = ReservationStatus_Reserved" by blast
  show ?thesis
  proof (cases "rsv_expires_at r <s now")
    case True
    with find st c have "m' = expire_unsafe rid r m" by (simp add: rm_commit_def)
    then show ?thesis using rm_inv_expire_unsafe [OF wf find st] by simp
  next
    case False
    obtain r2 where r2: "try_sub (rm_reserved_sum m) (rsv_demand r) = Some r2"
      by (rule rm_inv_reserved_sub [OF wf find st])
    show ?thesis
    proof (cases "try_add (rm_used_sum m) (rsv_demand r)")
      case None
      then show ?thesis using wf c find st False r2 by (simp add: rm_commit_def)
    next
      case u2: (Some u2)
      have m': "m' = rm_update rid (r\<lparr>rsv_status := ReservationStatus_Committed, rsv_admission_request_id := Some ar,
           rsv_admission_generation := Some gen\<rparr>) (m\<lparr>rm_reserved_sum := r2, rm_used_sum := u2\<rparr>)"
        using c find st False r2 u2 by (simp add: rm_commit_def)
      have e: "unat (r2 i) + unat (rsv_demand r i) = unat (rm_reserved_sum m i)"
        and f: "unat (u2 i) = unat (rm_used_sum m i) + unat (rsv_demand r i)" for i
        using r2 u2 by (simp_all add: try_sub_Some try_add_Some)
      have le: "unat (r2 i) + unat (u2 i) \<le> unat (rm_reserved_sum m i) + unat (rm_used_sum m i)" for i
        using e [of i] f [of i] by linarith
      show ?thesis
        by (rule rm_inv_update [OF wf find]) (use m' st e f le in \<open>auto simp: contrib_def\<close>)
    qed
  qed
qed

lemma rm_inv_rollback_effect:
  assumes wf: "rm_inv nz fit m" and find: "om_find (rm_reservations m) rid = Some r"
    and st: "rsv_status r = ReservationStatus_Reserved"
  obtains r2 where "try_sub (rm_reserved_sum m) (rsv_demand r) = Some r2"
    and "rm_rollback rid m = (status_success,
      rm_update rid (r\<lparr>rsv_status := ReservationStatus_RolledBack\<rparr>) (m\<lparr>rm_reserved_sum := r2\<rparr>))"
proof -
  obtain r2 where "try_sub (rm_reserved_sum m) (rsv_demand r) = Some r2"
    using rm_inv_reserved_sub [OF assms] .
  then show ?thesis
    using that find st by (simp add: rm_rollback_def)
qed

lemma rm_inv_rollback:
  assumes wf: "rm_inv nz fit m" and c: "rm_rollback rid m = (s, m')"
  shows "rm_inv nz fit m'"
proof (cases "\<exists>r. om_find (rm_reservations m) rid = Some r \<and> rsv_status r = ReservationStatus_Reserved")
  case False
  with wf c show ?thesis
    by (auto simp: rm_rollback_def split: option.splits if_splits)
next
  case True
  then obtain r where find: "om_find (rm_reservations m) rid = Some r"
    and st: "rsv_status r = ReservationStatus_Reserved" by blast
  obtain r2 where r2: "try_sub (rm_reserved_sum m) (rsv_demand r) = Some r2"
    and eq: "rm_rollback rid m = (status_success,
      rm_update rid (r\<lparr>rsv_status := ReservationStatus_RolledBack\<rparr>) (m\<lparr>rm_reserved_sum := r2\<rparr>))"
    by (rule rm_inv_rollback_effect [OF wf find st])
  from eq c have m': "m' = rm_update rid (r\<lparr>rsv_status := ReservationStatus_RolledBack\<rparr>) (m\<lparr>rm_reserved_sum := r2\<rparr>)"
    by simp
  have e: "unat (r2 i) + unat (rsv_demand r i) = unat (rm_reserved_sum m i)" for i
    using r2 by (simp add: try_sub_Some)
  have le: "unat (r2 i) \<le> unat (rm_reserved_sum m i)" for i
    using e [of i] by linarith
  show ?thesis
    by (rule rm_inv_update [OF wf find]) (use m' st e le in \<open>auto simp: contrib_def\<close>)
qed

lemma rm_inv_release_effect:
  assumes wf: "rm_inv nz fit m" and find: "om_find (rm_reservations m) rid = Some r"
    and st: "rsv_status r = ReservationStatus_Committed"
  obtains u2 where "try_sub (rm_used_sum m) (rsv_demand r) = Some u2"
    and "rm_release rid m = (status_success,
      rm_update rid (r\<lparr>rsv_status := ReservationStatus_Released\<rparr>) (m\<lparr>rm_used_sum := u2\<rparr>))"
proof -
  obtain u2 where "try_sub (rm_used_sum m) (rsv_demand r) = Some u2"
    using rm_inv_used_sub [OF assms] .
  then show ?thesis
    using that find st by (simp add: rm_release_def Let_def)
qed

lemma rm_inv_release:
  assumes wf: "rm_inv nz fit m" and c: "rm_release rid m = (s, m')"
  shows "rm_inv nz fit m'"
proof (cases "om_find (rm_reservations m) rid")
  case None
  with wf c show ?thesis by (simp add: rm_release_def)
next
  case find: (Some r)
  consider (idle) "rsv_status r = ReservationStatus_Released \<or> rsv_status r = ReservationStatus_RolledBack"
    | (reserved) "rsv_status r = ReservationStatus_Reserved"
    | (committed) "rsv_status r = ReservationStatus_Committed"
    | (other) "rsv_status r \<notin> {ReservationStatus_Released, ReservationStatus_RolledBack,
        ReservationStatus_Reserved, ReservationStatus_Committed}"
    by blast
  then show ?thesis
  proof cases
    case idle
    with wf c find show ?thesis by (auto simp: rm_release_def)
  next
    case reserved
    obtain r2 where r2: "try_sub (rm_reserved_sum m) (rsv_demand r) = Some r2"
      using rm_inv_reserved_sub [OF wf find reserved] .
    have m': "m' = rm_update rid (r\<lparr>rsv_status := ReservationStatus_Released\<rparr>) (m\<lparr>rm_reserved_sum := r2\<rparr>)"
      using c find reserved r2 by (simp add: rm_release_def Let_def)
    have e: "unat (r2 i) + unat (rsv_demand r i) = unat (rm_reserved_sum m i)" for i
      using r2 by (simp add: try_sub_Some)
    have le: "unat (r2 i) \<le> unat (rm_reserved_sum m i)" for i
      using e [of i] by linarith
    show ?thesis
      by (rule rm_inv_update [OF wf find]) (use m' reserved e le in \<open>auto simp: contrib_def\<close>)
  next
    case committed
    obtain u2 where u2: "try_sub (rm_used_sum m) (rsv_demand r) = Some u2"
      and eq: "rm_release rid m = (status_success,
        rm_update rid (r\<lparr>rsv_status := ReservationStatus_Released\<rparr>) (m\<lparr>rm_used_sum := u2\<rparr>))"
      by (rule rm_inv_release_effect [OF wf find committed])
    from eq c have m': "m' = rm_update rid (r\<lparr>rsv_status := ReservationStatus_Released\<rparr>) (m\<lparr>rm_used_sum := u2\<rparr>)"
      by simp
    have e: "unat (u2 i) + unat (rsv_demand r i) = unat (rm_used_sum m i)" for i
      using u2 by (simp add: try_sub_Some)
    have le: "unat (u2 i) \<le> unat (rm_used_sum m i)" for i
      using e [of i] by linarith
    show ?thesis
      by (rule rm_inv_update [OF wf find]) (use m' committed e le in \<open>auto simp: contrib_def\<close>)
  next
    case other
    with find c have m': "m' = rm_update rid (r\<lparr>rsv_status := ReservationStatus_Released\<rparr>) m"
      by (simp add: rm_release_def Let_def)
    show ?thesis
      by (rule rm_inv_update [OF wf find]) (use m' other in \<open>auto simp: contrib_def\<close>)
  qed
qed

text \<open>The same for the full invariant.\<close>

lemmas reserved_sub_total = rm_inv_reserved_sub [of True True, folded rm_wf_inv]
lemmas rm_commit_effect = rm_inv_commit_effect [of True, folded rm_wf_inv]
lemmas rm_rollback_effect = rm_inv_rollback_effect [of True True, folded rm_wf_inv]
lemmas rm_release_effect = rm_inv_release_effect [of True True, folded rm_wf_inv]
lemmas rm_wf_reserve = rm_inv_reserve [of True True, folded rm_wf_inv]
lemmas rm_wf_commit = rm_inv_commit [of True True, folded rm_wf_inv]
lemmas rm_wf_rollback = rm_inv_rollback [of True True, folded rm_wf_inv]
lemmas rm_wf_release = rm_inv_release [of True True, folded rm_wf_inv]

end
