(* ===== verification/Policy.thy ===== *)
theory Policy
  imports Descriptor Reservation
begin

text \<open>
  \<open>policy.hpp\<close>: policies, the versioned policy library and the overrides that apply to a descriptor.
\<close>

section \<open>Data\<close>

record PolicyOverride =
  po_key :: string
  po_safety_headroom_ratio :: "f64 option"
  po_overcommit_mode :: "OvercommitMode option"
  po_overcommit_allowance :: "ResourceVector option"
  po_min_predictor_confidence :: "f64 option"
  po_admit_slo_risk :: "bool option"
  po_require_reservation :: "bool option"
  po_small_request_boost :: "f64 option"

record AdmissionPolicy =
  p_generation :: PolicyGeneration
  p_name :: string
  p_safety_headroom_ratio :: f64
  p_absolute_safety_margin :: ResourceVector
  p_overcommit :: OvercommitMode
  p_overcommit_allowance :: ResourceVector
  p_overcommit_confidence_min :: f64
  p_min_predictor_confidence :: f64
  p_max_snapshot_age :: i64
  p_accept_stale_snapshot :: bool
  p_quota_fail_closed :: bool
  p_admit_slo_feasible_with_risk :: bool
  p_require_reservation :: bool
  p_max_reservation_lifetime :: i64
  p_default_admission_ttl :: i64
  p_max_deferrals :: u32
  p_defer_min_backoff :: i64
  p_defer_max_wait :: i64
  p_small_request_priority_boost :: f64
  p_large_request_starvation_boost :: f64
  p_fairness_window :: u32
  p_overrides :: "PolicyOverride list"

text \<open>A default-constructed policy.\<close>

definition default_policy :: AdmissionPolicy where
  "default_policy = \<lparr>p_generation = Id 0, p_name = [], p_safety_headroom_ratio = f64_lit 10 100,
     p_absolute_safety_margin = rv_zero, p_overcommit = OvercommitMode_None, p_overcommit_allowance = rv_zero,
     p_overcommit_confidence_min = f64_lit 85 100, p_min_predictor_confidence = f64_lit 20 100,
     p_max_snapshot_age = seconds 5, p_accept_stale_snapshot = False, p_quota_fail_closed = True,
     p_admit_slo_feasible_with_risk = True, p_require_reservation = True,
     p_max_reservation_lifetime = seconds 120, p_default_admission_ttl = seconds 30, p_max_deferrals = 2,
     p_defer_min_backoff = seconds 1, p_defer_max_wait = seconds 60, p_small_request_priority_boost = f64_zero,
     p_large_request_starvation_boost = f64_zero, p_fairness_window = 256, p_overrides = []\<rparr>"

record PolicyEngine =
  pe_policies :: "(PolicyGeneration, AdmissionPolicy) omap"
  pe_latest :: PolicyGeneration
  pe_counter :: u64

definition policy_engine_empty :: PolicyEngine where
  "policy_engine_empty = \<lparr>pe_policies = [], pe_latest = Id 0, pe_counter = 1\<rparr>"

definition kMaxGenerations :: nat where
  "kMaxGenerations = 128"

section \<open>Validation\<close>

definition in_unit_interval :: "f64 \<Rightarrow> bool" where
  "in_unit_interval x \<longleftrightarrow> f64_le f64_zero x \<and> f64_le x (f64_nat 1)"

definition in_half_open_unit :: "f64 \<Rightarrow> bool" where
  "in_half_open_unit x \<longleftrightarrow> f64_le f64_zero x \<and> f64_lt x (f64_nat 1)"

fun validate_overrides :: "PolicyOverride list \<Rightarrow> Status" where
  "validate_overrides [] = status_success"
| "validate_overrides (ov # ovs) =
     (case po_safety_headroom_ratio ov of
        Some x \<Rightarrow>
          if \<not> in_half_open_unit x
          then status_failure ErrorCode_PolicyValidationError ''override safety_headroom_ratio out of range''
          else validate_overrides ovs
      | None \<Rightarrow> validate_overrides ovs)"

definition policy_validate :: "AdmissionPolicy \<Rightarrow> Status" where
  "policy_validate p =
     (if \<not> in_half_open_unit (p_safety_headroom_ratio p)
      then status_failure ErrorCode_PolicyValidationError ''safety_headroom_ratio out of range''
      else if \<not> in_unit_interval (p_min_predictor_confidence p)
      then status_failure ErrorCode_PolicyValidationError ''min_predictor_confidence out of range''
      else if \<not> in_unit_interval (p_overcommit_confidence_min p)
      then status_failure ErrorCode_PolicyValidationError ''overcommit_confidence_min out of range''
      else if p_overcommit p = OvercommitMode_None \<and> rv_any_nonzero (p_overcommit_allowance p)
      then status_failure ErrorCode_PolicyValidationError ''overcommit_allowance set but overcommit mode is None''
      else if p_max_snapshot_age p <s 0
      then status_failure ErrorCode_PolicyValidationError ''max_snapshot_age negative''
      else if p_max_reservation_lifetime p \<le>s 0
      then status_failure ErrorCode_PolicyValidationError ''max_reservation_lifetime non-positive''
      else if p_default_admission_ttl p \<le>s 0
      then status_failure ErrorCode_PolicyValidationError ''default_admission_ttl non-positive''
      else if p_max_deferrals p > 1024
      then status_failure ErrorCode_PolicyValidationError ''max_deferrals absurd''
      else validate_overrides (p_overrides p))"

section \<open>The policy library\<close>

definition policy_install :: "AdmissionPolicy \<Rightarrow> PolicyEngine \<Rightarrow> Status \<times> PolicyEngine" where
  "policy_install p0 pe =
     (let v = policy_validate p0 in
      if \<not> status_ok v then (v, pe)
      else let gen = Id (pe_counter pe);
               pe1 = pe\<lparr>pe_counter := (if pe_counter pe = u64_max then 1 else pe_counter pe + 1)\<rparr>;
               p = p0\<lparr>p_generation := gen\<rparr> in
        if length (pe_policies pe1) \<ge> kMaxGenerations \<and> om_find (pe_policies pe1) gen = None
        then (status_failure ErrorCode_PolicyConflict ''policy generation history full'', pe1)
        else (status_success,
              pe1\<lparr>pe_policies := om_put gen p (om_erase gen (pe_policies pe1)), pe_latest := gen\<rparr>))"

definition install_at_generation :: "AdmissionPolicy \<Rightarrow> PolicyGeneration \<Rightarrow> PolicyEngine \<Rightarrow> Status \<times> PolicyEngine" where
  "install_at_generation p0 gen pe =
     (let v = policy_validate p0 in
      if \<not> status_ok v then (v, pe)
      else if om_find (pe_policies pe) gen \<noteq> None
      then (status_failure ErrorCode_PolicyConflict ''policy generation already installed'', pe)
      else (status_success,
            pe\<lparr>pe_policies := om_put gen (p0\<lparr>p_generation := gen\<rparr>) (pe_policies pe),
               pe_latest := (if id_value gen \<ge> id_value (pe_latest pe) then gen else pe_latest pe)\<rparr>))"

definition policy_by_generation :: "PolicyEngine \<Rightarrow> PolicyGeneration \<Rightarrow> AdmissionPolicy option" where
  "policy_by_generation pe gen = om_find (pe_policies pe) gen"

definition policy_latest :: "PolicyEngine \<Rightarrow> AdmissionPolicy option" where
  "policy_latest pe = om_find (pe_policies pe) (pe_latest pe)"

section \<open>Overrides\<close>

definition override_matches :: "string \<Rightarrow> AdmissionDescriptor \<Rightarrow> bool" where
  "override_matches key d =
     (if starts_with ''model='' key then to_string_u64 (id_value (d_model_id d)) = drop 6 key
      else if starts_with ''tenant='' key then to_string_u64 (id_value (d_tenant_id d)) = drop 7 key
      else if starts_with ''backend='' key then d_backend d = drop 8 key
      else if starts_with ''class='' key then d_workload_class d = drop 6 key
      else False)"

text \<open>\<open>if (o.field) p.field = *o.field\<close>.\<close>

definition override_or :: "'a \<Rightarrow> 'a option \<Rightarrow> 'a" where
  "override_or x ov = (case ov of None \<Rightarrow> x | Some y \<Rightarrow> y)"

definition apply_override :: "AdmissionDescriptor \<Rightarrow> PolicyOverride \<Rightarrow> AdmissionPolicy \<Rightarrow> AdmissionPolicy" where
  "apply_override d ov p =
     (if \<not> override_matches (po_key ov) d then p
      else p\<lparr>p_safety_headroom_ratio := override_or (p_safety_headroom_ratio p) (po_safety_headroom_ratio ov),
             p_overcommit := override_or (p_overcommit p) (po_overcommit_mode ov),
             p_overcommit_allowance := override_or (p_overcommit_allowance p) (po_overcommit_allowance ov),
             p_min_predictor_confidence := override_or (p_min_predictor_confidence p) (po_min_predictor_confidence ov),
             p_admit_slo_feasible_with_risk := override_or (p_admit_slo_feasible_with_risk p) (po_admit_slo_risk ov),
             p_require_reservation := override_or (p_require_reservation p) (po_require_reservation ov),
             p_small_request_priority_boost := override_or (p_small_request_priority_boost p) (po_small_request_boost ov)\<rparr>)"

definition policy_effective :: "AdmissionDescriptor \<Rightarrow> AdmissionPolicy \<Rightarrow> AdmissionPolicy" where
  "policy_effective d base = fold (apply_override d) (p_overrides base) base"

end
