(* ===== verification/Fairness.thy ===== *)
theory Fairness
  imports Policy
begin

text \<open>
  \<open>fairness.hpp\<close>: per-tenant counters, the starvation age and the advice to hold back a large request.
  \<open>now\<close> is the clock reading of the call.
\<close>

record TenantState =
  ts_weight :: f64
  ts_active :: u32
  ts_recent_admissions :: u64
  ts_recent_deferrals :: u64
  ts_recent_rejections :: u64
  ts_accounted_demand :: ResourceVector
  ts_last_admit :: "i64 option"
  ts_first_wait :: "i64 option"

definition default_tenant :: TenantState where
  "default_tenant = \<lparr>ts_weight = f64_nat 1, ts_active = 0, ts_recent_admissions = 0, ts_recent_deferrals = 0,
     ts_recent_rejections = 0, ts_accounted_demand = rv_zero, ts_last_admit = None, ts_first_wait = None\<rparr>"

type_synonym FairnessController = "(TenantId, TenantState) omap"

definition kMaxTenants :: nat where
  "kMaxTenants = 512"

text \<open>\<open>state(t)\<close>: find or create; a full table loses its first entry, since \<open>evict_lru\<close> returns false.\<close>

definition tenant_state :: "TenantId \<Rightarrow> FairnessController \<Rightarrow> TenantState \<times> FairnessController" where
  "tenant_state t fc =
     (case om_find fc t of
        Some st \<Rightarrow> (st, fc)
      | None \<Rightarrow>
          let fc1 = (if length fc \<ge> kMaxTenants then drop 1 fc else fc)
          in (default_tenant, om_put t default_tenant fc1))"

definition update_tenant :: "TenantId \<Rightarrow> (TenantState \<Rightarrow> TenantState) \<Rightarrow> FairnessController \<Rightarrow> FairnessController" where
  "update_tenant t f fc = (case tenant_state t fc of (st, fc1) \<Rightarrow> om_put t (f st) fc1)"

definition set_tenant_weight :: "TenantId \<Rightarrow> f64 \<Rightarrow> FairnessController \<Rightarrow> FairnessController" where
  "set_tenant_weight t w = update_tenant t (\<lambda>st. st\<lparr>ts_weight := w\<rparr>)"

definition note_admission :: "i64 \<Rightarrow> TenantId \<Rightarrow> FairnessController \<Rightarrow> FairnessController" where
  "note_admission now t = update_tenant t (\<lambda>st. st\<lparr>ts_active := ts_active st + 1,
     ts_recent_admissions := ts_recent_admissions st + 1, ts_last_admit := Some now\<rparr>)"

definition note_deferral :: "TenantId \<Rightarrow> FairnessController \<Rightarrow> FairnessController" where
  "note_deferral t = update_tenant t (\<lambda>st. st\<lparr>ts_recent_deferrals := ts_recent_deferrals st + 1\<rparr>)"

definition note_rejection :: "TenantId \<Rightarrow> FairnessController \<Rightarrow> FairnessController" where
  "note_rejection t = update_tenant t (\<lambda>st. st\<lparr>ts_recent_rejections := ts_recent_rejections st + 1\<rparr>)"

definition note_completion :: "TenantId \<Rightarrow> FairnessController \<Rightarrow> FairnessController" where
  "note_completion t = update_tenant t (\<lambda>st. if ts_active st > 0 then st\<lparr>ts_active := ts_active st - 1\<rparr> else st)"

definition note_admission_started :: "TenantId \<Rightarrow> FairnessController \<Rightarrow> FairnessController" where
  "note_admission_started t = update_tenant t (\<lambda>st. st\<lparr>ts_active := ts_active st + 1\<rparr>)"

definition active_admitted :: "FairnessController \<Rightarrow> TenantId \<Rightarrow> u32" where
  "active_admitted fc t = (case om_find fc t of None \<Rightarrow> 0 | Some st \<Rightarrow> ts_active st)"

definition starvation_age :: "i64 \<Rightarrow> FairnessController \<Rightarrow> TenantId \<Rightarrow> i64" where
  "starvation_age now fc t =
     (case om_find fc t of
        None \<Rightarrow> 0
      | Some st \<Rightarrow> (case ts_last_admit st of None \<Rightarrow> 0 | Some l \<Rightarrow> now - l))"

definition tenant_weight :: "FairnessController \<Rightarrow> TenantId \<Rightarrow> f64" where
  "tenant_weight fc t = (case om_find fc t of None \<Rightarrow> f64_nat 1 | Some st \<Rightarrow> ts_weight st)"

definition effective_priority :: "i64 \<Rightarrow> FairnessController \<Rightarrow> AdmissionDescriptor \<Rightarrow> AdmissionPolicy \<Rightarrow> f64" where
  "effective_priority now fc d p =
     (let boost0 = (if d_expected_output_tokens d < 512
                    then f64_add f64_zero (p_small_request_priority_boost p) else f64_zero);
          age_s = f64_div (f64_of_i64 (starvation_age now fc (d_tenant_id d))) (f64_nat 1000000000);
          boost = f64_add boost0 (f64_min (p_large_request_starvation_boost p) (f64_mul age_s (f64_lit 2 100)))
      in f64_add (f64_round False (unat (d_priority d)) 1) boost)"

definition should_defer_large :: "AdmissionPolicy \<Rightarrow> u32 \<Rightarrow> f64 \<Rightarrow> bool \<Rightarrow> bool" where
  "should_defer_large p pending_small capacity_fraction large_starving =
     (if pending_small = 0 then False
      else if large_starving then False
      else if f64_lt (f64_lit 60 100) capacity_fraction \<and> pending_small \<ge> p_fairness_window p div 4 then True
      else False)"

definition less_when_tie :: "AdmissionRequestId \<Rightarrow> AdmissionRequestId \<Rightarrow> bool" where
  "less_when_tie a b \<longleftrightarrow> id_value a < id_value b"

end
