(* ===== verification/Engine.thy ===== *)
theory Engine
  imports Decision Fairness
begin

text \<open>
  \<open>engine.hpp\<close> and \<open>engine.cpp\<close>: the admission engine. Its state is a record with one field per member
  of \<open>AdmissionFabric\<close>; an operation takes the state and returns its result with the new state. One
  reading \<open>now\<close> of the clock stands for all readings within one call. \<open>evaluate\<close> is cut at its numbered
  steps into definitions that call each other in the order of the source.
\<close>

section \<open>State\<close>

datatype (plugins only: code size) RequestLifecycle =
    RequestLifecycle_Unknown | RequestLifecycle_Proposed | RequestLifecycle_Evaluating | RequestLifecycle_Deferred
  | RequestLifecycle_Reserved | RequestLifecycle_Admitted | RequestLifecycle_Released | RequestLifecycle_Rejected
  | RequestLifecycle_Expired | RequestLifecycle_Cancelled

primrec lifecycle_name :: "RequestLifecycle \<Rightarrow> string" where
  "lifecycle_name RequestLifecycle_Unknown = ''unknown''"
| "lifecycle_name RequestLifecycle_Proposed = ''proposed''"
| "lifecycle_name RequestLifecycle_Evaluating = ''evaluating''"
| "lifecycle_name RequestLifecycle_Deferred = ''deferred''"
| "lifecycle_name RequestLifecycle_Reserved = ''reserved''"
| "lifecycle_name RequestLifecycle_Admitted = ''admitted''"
| "lifecycle_name RequestLifecycle_Released = ''released''"
| "lifecycle_name RequestLifecycle_Rejected = ''rejected''"
| "lifecycle_name RequestLifecycle_Expired = ''expired''"
| "lifecycle_name RequestLifecycle_Cancelled = ''cancelled''"

record RequestRecord =
  rr_id :: AdmissionRequestId
  rr_lifecycle :: RequestLifecycle
  rr_descriptor :: AdmissionDescriptor
  rr_last_decision :: "AdmissionDecision option"
  rr_created_at :: i64
  rr_updated_at :: i64
  rr_evaluation_count :: u64

definition default_request_record :: RequestRecord where
  "default_request_record = \<lparr>rr_id = Id 0, rr_lifecycle = RequestLifecycle_Proposed, rr_descriptor = default_descriptor,
     rr_last_decision = None, rr_created_at = 0, rr_updated_at = 0, rr_evaluation_count = 0\<rparr>"

record Metrics =
  mt_evaluations :: u64
  mt_admissions :: u64
  mt_deferrals :: u64
  mt_rejections :: u64
  mt_by_reason :: "(u32, u64) omap"
  mt_active_reservations :: u64
  mt_reservation_leaks :: u64
  mt_stale_authority_rejections :: u64
  mt_quota_failures :: u64
  mt_capability_failures :: u64
  mt_slo_infeasibility :: u64

definition metrics_empty :: Metrics where
  "metrics_empty = \<lparr>mt_evaluations = 0, mt_admissions = 0, mt_deferrals = 0, mt_rejections = 0, mt_by_reason = [],
     mt_active_reservations = 0, mt_reservation_leaks = 0, mt_stale_authority_rejections = 0,
     mt_quota_failures = 0, mt_capability_failures = 0, mt_slo_infeasibility = 0\<rparr>"

definition count_reason :: "ReasonCode \<Rightarrow> Metrics \<Rightarrow> Metrics" where
  "count_reason c m =
     m\<lparr>mt_by_reason := om_put (reason_value c)
         ((case om_find (mt_by_reason m) (reason_value c) of None \<Rightarrow> 0 | Some n \<Rightarrow> n) + 1) (mt_by_reason m)\<rparr>"

definition reason_count :: "Metrics \<Rightarrow> ReasonCode \<Rightarrow> u64" where
  "reason_count m c = (case om_find (mt_by_reason m) (reason_value c) of None \<Rightarrow> 0 | Some n \<Rightarrow> n)"

record AdmissionFabric =
  af_policy :: PolicyEngine
  af_predictor :: WorkloadPredictor
  af_reservations :: ReservationManager
  af_snapshot :: ResourceSnapshot
  af_has_snapshot :: bool
  af_quota :: QuotaSnapshot
  af_fairness :: FairnessController
  af_metrics :: Metrics
  af_requests :: "(AdmissionRequestId, RequestRecord) omap"
  af_admission_generation :: AdmissionGeneration
  af_reservation_counter :: u64

definition fabric_empty :: AdmissionFabric where
  "fabric_empty = \<lparr>af_policy = policy_engine_empty, af_predictor = predictor_empty, af_reservations = rm_empty,
     af_snapshot = default_snapshot, af_has_snapshot = False, af_quota = default_quota False, af_fairness = [],
     af_metrics = metrics_empty, af_requests = [], af_admission_generation = Id 1, af_reservation_counter = 1\<rparr>"

definition on_metrics :: "(Metrics \<Rightarrow> Metrics) \<Rightarrow> AdmissionFabric \<Rightarrow> AdmissionFabric" where
  "on_metrics f s = s\<lparr>af_metrics := f (af_metrics s)\<rparr>"

section \<open>Configuration\<close>

text \<open>The manager takes over the overcommit mode and allowance of a policy.\<close>

definition bind_overcommit :: "AdmissionPolicy \<Rightarrow> ReservationManager \<Rightarrow> ReservationManager" where
  "bind_overcommit p m =
     rm_set_overcommit_allowance (rm_set_overcommit_mode m (p_overcommit p))
       (if p_overcommit p = OvercommitMode_None then rv_zero else p_overcommit_allowance p)"

definition install_policy :: "AdmissionPolicy \<Rightarrow> AdmissionFabric \<Rightarrow> Status \<times> AdmissionFabric" where
  "install_policy p s =
     (case policy_install p (af_policy s) of
        (st, pe) \<Rightarrow>
          let s1 = s\<lparr>af_policy := pe\<rparr> in
          if \<not> status_ok st then (st, s1)
          else case policy_latest pe of
                 None \<Rightarrow> (status_success, s1)
               | Some q \<Rightarrow> (status_success, s1\<lparr>af_reservations := bind_overcommit q (af_reservations s1)\<rparr>))"

definition fabric_register_profile :: "PredictionProfile \<Rightarrow> AdmissionFabric \<Rightarrow> bool \<times> AdmissionFabric" where
  "fabric_register_profile p s =
     (case register_profile p (af_predictor s) of (b, wp) \<Rightarrow> (b, s\<lparr>af_predictor := wp\<rparr>))"

definition set_snapshot :: "ResourceSnapshot \<Rightarrow> AdmissionFabric \<Rightarrow> AdmissionFabric" where
  "set_snapshot snap s =
     s\<lparr>af_snapshot := snap, af_has_snapshot := True,
       af_reservations := rm_set_total (af_reservations s) (snap_total snap)\<rparr>"

definition set_quota :: "QuotaSnapshot \<Rightarrow> AdmissionFabric \<Rightarrow> AdmissionFabric" where
  "set_quota q s = s\<lparr>af_quota := q\<rparr>"

definition fabric_observe :: "Observation \<Rightarrow> AdmissionFabric \<Rightarrow> AdmissionFabric" where
  "fabric_observe ob s = s\<lparr>af_predictor := predictor_observe ob (af_predictor s)\<rparr>"

definition fabric_policy :: "AdmissionFabric \<Rightarrow> AdmissionPolicy option" where
  "fabric_policy s = policy_latest (af_policy s)"

definition fabric_request :: "AdmissionFabric \<Rightarrow> AdmissionRequestId \<Rightarrow> RequestRecord option" where
  "fabric_request s rid = om_find (af_requests s) rid"

definition next_admission_generation :: "AdmissionFabric \<Rightarrow> AdmissionGeneration \<times> AdmissionFabric" where
  "next_admission_generation s =
     (af_admission_generation s, s\<lparr>af_admission_generation := id_next (af_admission_generation s)\<rparr>)"

definition next_reservation_id :: "AdmissionFabric \<Rightarrow> ReservationId \<times> AdmissionFabric" where
  "next_reservation_id s =
     (Id (af_reservation_counter s),
      s\<lparr>af_reservation_counter := (if af_reservation_counter s = u64_max then 1 else af_reservation_counter s + 1)\<rparr>)"

section \<open>Building a decision\<close>

definition build_decision :: "i64 \<Rightarrow> AdmissionFabric \<Rightarrow> AdmissionDescriptor \<Rightarrow> ReasonCode \<Rightarrow> AdmissionDecision" where
  "build_decision now s d reason =
     default_decision\<lparr>dec_admission_request_id := d_admission_request_id d, dec_request_id := d_request_id d,
       dec_attempt_id := d_attempt_id d, dec_tenant_id := d_tenant_id d, dec_model_id := d_model_id d,
       dec_model_revision := d_model_revision d, dec_reason := reason, dec_outcome := primary_outcome_of reason,
       dec_policy_generation := d_policy_generation d, dec_snapshot_generation := snap_generation (af_snapshot s),
       dec_admission_generation := Id 0, dec_epoch := Id 0, dec_decision_time := now\<rparr>"

definition transition :: "i64 \<Rightarrow> AdmissionRequestId \<Rightarrow> RequestLifecycle \<Rightarrow> RequestLifecycle \<Rightarrow> AdmissionDescriptor
    \<Rightarrow> AdmissionFabric \<Rightarrow> Status \<times> AdmissionFabric" where
  "transition now rid from_life to_life d s =
     (let rec = (case om_find (af_requests s) rid of
                   Some r \<Rightarrow> r
                 | None \<Rightarrow> default_request_record\<lparr>rr_id := rid, rr_descriptor := d, rr_created_at := now,
                             rr_updated_at := now, rr_lifecycle := from_life\<rparr>) in
      if rr_lifecycle rec = from_life
      then (status_success,
            s\<lparr>af_requests := om_put rid (rec\<lparr>rr_lifecycle := to_life, rr_updated_at := now\<rparr>) (af_requests s)\<rparr>)
      else (status_failure ErrorCode_OperationNotPermitted ''illegal lifecycle transition'',
            s\<lparr>af_requests := om_put rid rec (af_requests s)\<rparr>))"

text \<open>\<open>emit\<close>: store the decision, creating the record if there is none, move the lifecycle, count the reason.\<close>

definition emit :: "i64 \<Rightarrow> AdmissionDescriptor \<Rightarrow> RequestLifecycle \<Rightarrow> AdmissionDecision \<Rightarrow> bool \<Rightarrow> AdmissionFabric
    \<Rightarrow> AdmissionFabric" where
  "emit now d to_life dec admit_metric s =
     (let rid = d_admission_request_id d;
          rec = (case om_find (af_requests s) rid of Some r \<Rightarrow> r | None \<Rightarrow> default_request_record);
          s1 = s\<lparr>af_requests := om_put rid (rec\<lparr>rr_last_decision := Some dec\<rparr>) (af_requests s)\<rparr>;
          s2 = snd (transition now rid RequestLifecycle_Proposed RequestLifecycle_Evaluating d s1);
          s3 = snd (transition now rid RequestLifecycle_Evaluating to_life d s2);
          s4 = (if admit_metric then on_metrics (\<lambda>m. m\<lparr>mt_admissions := mt_admissions m + 1\<rparr>) s3 else s3)
      in on_metrics (count_reason (dec_reason dec)) s4)"

definition finish_reject :: "i64 \<Rightarrow> AdmissionDescriptor \<Rightarrow> AdmissionDecision \<Rightarrow> AdmissionFabric
    \<Rightarrow> AdmissionDecision Result \<times> AdmissionFabric" where
  "finish_reject now d dec s =
     (result_ok dec,
      on_metrics (\<lambda>m. m\<lparr>mt_rejections := mt_rejections m + 1\<rparr>) (emit now d RequestLifecycle_Rejected dec False s))"

definition finish_defer :: "i64 \<Rightarrow> AdmissionDescriptor \<Rightarrow> AdmissionDecision \<Rightarrow> AdmissionFabric
    \<Rightarrow> AdmissionDecision Result \<times> AdmissionFabric" where
  "finish_defer now d dec s =
     (result_ok dec,
      on_metrics (\<lambda>m. m\<lparr>mt_deferrals := mt_deferrals m + 1\<rparr>) (emit now d RequestLifecycle_Deferred dec False s))"

text \<open>A further counter of the failing branch.\<close>

definition and_count :: "(Metrics \<Rightarrow> Metrics) \<Rightarrow> 'r \<times> AdmissionFabric \<Rightarrow> 'r \<times> AdmissionFabric" where
  "and_count f rs = (fst rs, on_metrics f (snd rs))"

section \<open>Classification\<close>

definition classify_capability :: "AdmissionFabric \<Rightarrow> AdmissionDescriptor \<Rightarrow> ReasonCode" where
  "classify_capability s d =
     (if d_backend d = [] then ReasonCode_Admit
      else let r1 = cap_add (cap_backend (d_backend d)) [];
               r2 = (if d_dtype d \<noteq> [] then cap_add (cap_dtype (d_dtype d)) r1 else r1);
               r3 = (if d_quantization d \<noteq> [] then cap_add (cap_quantization (d_quantization d)) r2 else r2)
           in if cap_contains_all (snap_capabilities (af_snapshot s)) r3 then ReasonCode_Admit
              else ReasonCode_RejectCapability)"

text \<open>The first constrained dimension in which the demand exceeds what remains.\<close>

fun quota_violation :: "ResourceId list \<Rightarrow> QuotaSnapshot \<Rightarrow> ResourceVector \<Rightarrow> ResourceVector \<Rightarrow> ResourceId option" where
  "quota_violation [] q rem demand = None"
| "quota_violation (i # is) q rem demand =
     (if \<not> quota_constrained q i then quota_violation is q rem demand
      else if demand i > rem i then Some i
      else quota_violation is q rem demand)"

definition classify_quota :: "AdmissionFabric \<Rightarrow> AdmissionDescriptor \<Rightarrow> ResourceVector
    \<Rightarrow> ReasonCode \<times> ResourceVector \<times> string" where
  "classify_quota s d demand =
     (let q = af_quota s in
      if \<not> q_present q then (ReasonCode_Admit, rv_zero, [])
      else let rem = quota_remaining q;
               tokens = d_input_tokens d + d_expected_output_tokens d in
        if q_token_budget q \<noteq> 0 \<and> tokens > q_token_budget q then (ReasonCode_RejectQuota, rem, ''token_budget'')
        else case quota_violation resource_ids q rem demand of
               Some i \<Rightarrow> (ReasonCode_DeferQuota, rem, resource_name i)
             | None \<Rightarrow> (ReasonCode_Admit, rv_sat_sub rem demand, []))"

definition milliseconds :: "nat \<Rightarrow> i64" where
  "milliseconds n = of_nat (n * 1000000)"

definition queue_delay :: "PressureLevel \<Rightarrow> i64" where
  "queue_delay p =
     (if p = PressureLevel_Critical then milliseconds 200
      else if p = PressureLevel_High then milliseconds 80
      else if p = PressureLevel_Normal then milliseconds 20
      else if p = PressureLevel_Low then milliseconds 5
      else milliseconds 0)"

text \<open>\<open>std::clamp\<close>.\<close>

definition f64_clamp :: "f64 \<Rightarrow> f64 \<Rightarrow> f64 \<Rightarrow> f64" where
  "f64_clamp x lo hi = (if f64_lt x lo then lo else if f64_lt hi x then hi else x)"

definition evaluate_slo :: "AdmissionFabric \<Rightarrow> AdmissionDescriptor \<Rightarrow> DurationPrediction \<Rightarrow> SloFeasibility" where
  "evaluate_slo s d dur =
     (let slo = default_slo\<lparr>slo_predicted_execution_duration := dp_expected dur,
            slo_predicted_transfer_delay := dp_transfer dur,
            slo_predicted_reservation_delay := milliseconds 1,
            slo_predicted_queue_delay := queue_delay (snap_pressure (af_snapshot s) AcceleratorMemory),
            slo_uncertainty := f64_sub (f64_nat 1) (f64_clamp (dp_confidence dur) f64_zero (f64_nat 1))\<rparr>;
          total = slo_predicted_total slo in
      case d_deadline d of
        None \<Rightarrow>
          slo\<lparr>slo_verdict := (if d_latency_class d = LatencyClass_BestEffort then SloVerdict_Feasible
                else if d_latency_class d = LatencyClass_FixedDeadline then SloVerdict_Unknown
                else SloVerdict_FeasibleWithRisk),
              slo_explanation := ''no absolute deadline enforced''\<rparr>
      | Some budget \<Rightarrow>
          let remaining = budget - total;
              slo2 = slo\<lparr>slo_deadline_remaining := Some remaining\<rparr> in
          if remaining \<le>s 0
          then slo2\<lparr>slo_verdict := SloVerdict_Infeasible, slo_explanation := ''predicted time exceeds deadline''\<rparr>
          else if f64_lt (f64_div (f64_of_i64 remaining) (f64_of_i64 budget)) (f64_lit 10 100)
          then slo2\<lparr>slo_verdict := SloVerdict_FeasibleWithRisk,
                 slo_explanation := ''deadline met but with thin margin''\<rparr>
          else slo2\<lparr>slo_verdict := SloVerdict_Feasible, slo_explanation := ''deadline comfortably met''\<rparr>)"

section \<open>Evaluation\<close>

text \<open>What steps 4 to 8 computed, carried to the last steps.\<close>

record Assessment =
  as_memory :: MemoryFootprintPrediction
  as_duration :: DurationPrediction
  as_demand :: ResourceVector
  as_quota :: QuotaEvaluation
  as_slo :: SloFeasibility

text \<open>Step 10: the reservation, and the admission it backs.\<close>

definition evaluate_reserve :: "i64 \<Rightarrow> AdmissionDescriptor \<Rightarrow> AdmissionPolicy \<Rightarrow> Assessment \<Rightarrow> AdmissionFabric
    \<Rightarrow> AdmissionDecision Result \<times> AdmissionFabric" where
  "evaluate_reserve now d pol a s =
     (let (rid, s1) = next_reservation_id s;
          (rr, m) = rm_reserve now rid (d_tenant_id d) (as_demand a) (p_max_reservation_lifetime pol) (af_reservations s1);
          s2 = s1\<lparr>af_reservations := m\<rparr> in
      case rr of
        Inl e \<Rightarrow>
          finish_defer now d
            ((build_decision now s2 d ReasonCode_DeferCapacity)
              \<lparr>dec_predicted_requirement := \<lparr>req_demand = as_demand a\<rparr>, dec_memory_prediction := as_memory a,
               dec_duration_prediction := as_duration a, dec_slo := as_slo a,
               dec_explanation := ''reservation failed: '' @ err_message e,
               dec_defer_hint := Some \<lparr>dh_reason = ReasonCode_DeferCapacity, dh_earliest_reevaluation = seconds 3,
                 dh_required_resource_change = [], dh_quota_change_required = [], dh_explanation = err_message e\<rparr>\<rparr>) s2
      | Inr _ \<Rightarrow>
          let (gen, s3) = next_admission_generation s2;
              risky = (f64_lt (mp_confidence (as_memory a)) (p_min_predictor_confidence pol)
                       \<or> slo_verdict (as_slo a) = SloVerdict_FeasibleWithRisk);
              reason = (if risky then ReasonCode_AdmitWithRisk else ReasonCode_AdmitWithReservation);
              dec = (build_decision now s3 d ReasonCode_AdmitWithReservation)
                \<lparr>dec_predicted_requirement := \<lparr>req_demand = as_demand a\<rparr>, dec_memory_prediction := as_memory a,
                 dec_duration_prediction := as_duration a, dec_slo := as_slo a, dec_quota := as_quota a,
                 dec_reservation_id := Some rid, dec_admission_generation := gen,
                 dec_confidence := mp_confidence (as_memory a), dec_reason := reason,
                 dec_outcome := primary_outcome_of reason,
                 dec_explanation := (if risky
                   then ''admitted with reservation; confidence/SLO margin below strict threshold''
                   else ''admitted with reservation; capacity, quota and SLO all feasible'')\<rparr>;
              s4 = emit now d RequestLifecycle_Reserved dec True s3
          in (result_ok dec,
              on_metrics (\<lambda>mt. mt\<lparr>mt_active_reservations := of_nat (length (rm_reservations (af_reservations s4)))\<rparr>) s4))"

text \<open>Step 9: what is kept back from the availability of a dimension.\<close>

definition safety_margin :: "platform \<Rightarrow> AdmissionPolicy \<Rightarrow> ResourceVector \<Rightarrow> ResourceVector" where
  "safety_margin pf pol avail =
     (\<lambda>i. sat_add (f64_to_u64 pf (f64_mul (f64_of_u64 (avail i)) (p_safety_headroom_ratio pol)))
                  (p_absolute_safety_margin pol i))"

definition pending_small :: "AdmissionFabric \<Rightarrow> u32" where
  "pending_small s =
     fold (\<lambda>(k, r) n. if rr_lifecycle r = RequestLifecycle_Deferred \<and> d_expected_output_tokens (rr_descriptor r) < 512
                      then n + 1 else n) (af_requests s) 0"

definition capacity_fraction :: "ResourceVector \<Rightarrow> ResourceVector \<Rightarrow> f64" where
  "capacity_fraction avail demand =
     (if avail AcceleratorMemory > 0 \<and> demand AcceleratorMemory > 0
      then f64_div (f64_of_u64 (demand AcceleratorMemory)) (f64_of_u64 (avail AcceleratorMemory))
      else f64_zero)"

fun limited_dimension :: "ResourceId list \<Rightarrow> ResourceVector \<Rightarrow> ResourceVector \<Rightarrow> string" where
  "limited_dimension [] demand eff = []"
| "limited_dimension (i # is) demand eff =
     (if demand i > eff i then resource_name i else limited_dimension is demand eff)"

definition evaluate_capacity :: "platform \<Rightarrow> i64 \<Rightarrow> AdmissionDescriptor \<Rightarrow> AdmissionPolicy \<Rightarrow> Assessment
    \<Rightarrow> AdmissionFabric \<Rightarrow> AdmissionDecision Result \<times> AdmissionFabric" where
  "evaluate_capacity pf now d pol a s =
     (let avail = rm_availability (af_reservations s);
          eff = rv_sat_sub avail (safety_margin pf pol avail);
          large_starving = f64_lt (f64_nat 10000000000) (f64_of_i64 (starvation_age now (af_fairness s) (d_tenant_id d)));
          defer_for_fairness = should_defer_large pol (pending_small s) (capacity_fraction avail (as_demand a)) large_starving;
          dec = (build_decision now s d ReasonCode_DeferCapacity)
            \<lparr>dec_predicted_requirement := \<lparr>req_demand = as_demand a\<rparr>, dec_memory_prediction := as_memory a,
             dec_duration_prediction := as_duration a, dec_slo := as_slo a\<rparr> in
      if \<not> fits_in (as_demand a) eff
      then let limited = limited_dimension resource_ids (as_demand a) eff;
               shown = (if limited = [] then ''capacity'' else limited) in
           finish_defer now d
             (dec\<lparr>dec_explanation := ''insufficient headroom (limiting: '' @ shown @ '')'',
                  dec_defer_hint := Some \<lparr>dh_reason = ReasonCode_DeferCapacity, dh_earliest_reevaluation = seconds 3,
                    dh_required_resource_change = ''['' @ shown @ ''] +headroom'', dh_quota_change_required = [],
                    dh_explanation = ''wait or release capacity''\<rparr>\<rparr>) s
      else if defer_for_fairness
      then finish_defer now d
             (dec\<lparr>dec_explanation := ''deferred by fairness to protect smaller pending requests'',
                  dec_defer_hint := Some \<lparr>dh_reason = ReasonCode_DeferCapacity, dh_earliest_reevaluation = milliseconds 50,
                    dh_required_resource_change = [], dh_quota_change_required = [],
                    dh_explanation = ''smaller requests ahead''\<rparr>\<rparr>) s
      else evaluate_reserve now d pol a s)"

text \<open>Step 8: the service level.\<close>

definition evaluate_deadline :: "platform \<Rightarrow> i64 \<Rightarrow> AdmissionDescriptor \<Rightarrow> AdmissionPolicy
    \<Rightarrow> MemoryFootprintPrediction \<Rightarrow> DurationPrediction \<Rightarrow> ResourceVector \<Rightarrow> QuotaEvaluation
    \<Rightarrow> AdmissionFabric \<Rightarrow> AdmissionDecision Result \<times> AdmissionFabric" where
  "evaluate_deadline pf now d pol mem dur demand qe s =
     (let slo = evaluate_slo s d dur in
      if slo_verdict slo = SloVerdict_Infeasible
      then and_count (\<lambda>m. m\<lparr>mt_slo_infeasibility := mt_slo_infeasibility m + 1\<rparr>)
             (finish_reject now d
               ((build_decision now s d ReasonCode_RejectInfeasible)
                 \<lparr>dec_predicted_requirement := \<lparr>req_demand = demand\<rparr>, dec_duration_prediction := dur, dec_slo := slo,
                  dec_explanation := ''SLO infeasible: '' @ slo_explanation slo\<rparr>) s)
      else if slo_verdict slo = SloVerdict_Unknown
      then finish_defer now d
             ((build_decision now s d ReasonCode_DeferSlo)
               \<lparr>dec_predicted_requirement := \<lparr>req_demand = demand\<rparr>, dec_duration_prediction := dur, dec_slo := slo,
                dec_explanation := ''SLO unknown for fixed-deadline class without budget; deferring'',
                dec_defer_hint := Some \<lparr>dh_reason = ReasonCode_DeferSlo, dh_earliest_reevaluation = milliseconds 100,
                  dh_required_resource_change = [], dh_quota_change_required = [],
                  dh_explanation = ''supply a deadline budget''\<rparr>\<rparr>) s
      else evaluate_capacity pf now d pol
             \<lparr>as_memory = mem, as_duration = dur, as_demand = demand, as_quota = qe, as_slo = slo\<rparr> s)"

text \<open>Step 7: the quota.\<close>

definition evaluate_quota :: "platform \<Rightarrow> i64 \<Rightarrow> AdmissionDescriptor \<Rightarrow> AdmissionPolicy
    \<Rightarrow> MemoryFootprintPrediction \<Rightarrow> DurationPrediction \<Rightarrow> ResourceVector
    \<Rightarrow> AdmissionFabric \<Rightarrow> AdmissionDecision Result \<times> AdmissionFabric" where
  "evaluate_quota pf now d pol mem dur demand s =
     (let (qc, remaining, what) = classify_quota s d demand;
          dec = (build_decision now s d qc)
            \<lparr>dec_predicted_requirement := \<lparr>req_demand = demand\<rparr>, dec_memory_prediction := mem,
             dec_duration_prediction := dur\<rparr>;
          failed = default_quota_evaluation\<lparr>qe_passed := False, qe_limiting_name := what\<rparr> in
      if qc = ReasonCode_RejectQuota
      then and_count (\<lambda>m. m\<lparr>mt_quota_failures := mt_quota_failures m + 1\<rparr>)
             (finish_reject now d
               (dec\<lparr>dec_quota := failed\<lparr>qe_token_violation := True\<rparr>,
                    dec_explanation := ''request violates hard quota limit: '' @ what\<rparr>) s)
      else if qc = ReasonCode_DeferQuota
      then and_count (\<lambda>m. m\<lparr>mt_quota_failures := mt_quota_failures m + 1\<rparr>)
             (finish_defer now d
               (dec\<lparr>dec_quota := failed,
                    dec_explanation := ''quota headroom insufficient for: '' @ what,
                    dec_defer_hint := Some \<lparr>dh_reason = qc, dh_earliest_reevaluation = seconds 5,
                      dh_required_resource_change = ''quota '' @ what @ '' headroom'', dh_quota_change_required = [],
                      dh_explanation = ''release quota capacity then retry''\<rparr>\<rparr>) s)
      else evaluate_deadline pf now d pol mem dur demand (default_quota_evaluation\<lparr>qe_passed := True\<rparr>) s)"

text \<open>Steps 5 and 6: the capabilities, then the snapshot.\<close>

definition evaluate_snapshot :: "platform \<Rightarrow> i64 \<Rightarrow> AdmissionDescriptor \<Rightarrow> AdmissionPolicy
    \<Rightarrow> AdmissionFabric \<Rightarrow> AdmissionDecision Result \<times> AdmissionFabric" where
  "evaluate_snapshot pf now d pol s =
     (let mem = predict_memory pf (af_predictor s) d;
          dur = predict_duration pf (af_predictor s) d;
          demand = predict_demand pf (af_predictor s) d;
          dec = (\<lambda>reason. (build_decision now s d reason)\<lparr>dec_predicted_requirement := \<lparr>req_demand = demand\<rparr>\<rparr>) in
      if classify_capability s d = ReasonCode_RejectCapability
      then and_count (\<lambda>m. m\<lparr>mt_capability_failures := mt_capability_failures m + 1\<rparr>)
             (finish_reject now d
               ((dec ReasonCode_RejectCapability)\<lparr>dec_memory_prediction := mem, dec_duration_prediction := dur,
                  dec_explanation := ''required capability not present on available capacity''\<rparr>) s)
      else if af_has_snapshot s
      then (if is_stale_as_of (af_snapshot s) now (p_max_snapshot_age pol) \<and> \<not> p_accept_stale_snapshot pol
            then and_count (\<lambda>m. m\<lparr>mt_stale_authority_rejections := mt_stale_authority_rejections m + 1\<rparr>)
                   (finish_reject now d
                     ((dec ReasonCode_RejectStale)
                        \<lparr>dec_explanation := ''resource snapshot is stale beyond policy tolerance''\<rparr>) s)
            else if has_unavailable_dimension (af_snapshot s)
            then finish_defer now d
                   ((dec ReasonCode_DeferCapacity)
                      \<lparr>dec_explanation := ''some capacity dimension unavailable; deferring''\<rparr>) s
            else evaluate_quota pf now d pol mem dur demand s)
      else if p_require_reservation pol
      then finish_defer now d
             ((dec ReasonCode_DeferCapacity)
                \<lparr>dec_explanation := ''no capacity snapshot; deferring until capacity known''\<rparr>) s
      else evaluate_quota pf now d pol mem dur demand s)"

text \<open>Steps 2 to 4: enter the lifecycle, bind the policy. The prediction only reads the predictor.\<close>

definition evaluate_policy :: "platform \<Rightarrow> i64 \<Rightarrow> AdmissionDescriptor \<Rightarrow> AdmissionFabric
    \<Rightarrow> AdmissionDecision Result \<times> AdmissionFabric" where
  "evaluate_policy pf now d s0 =
     (let s = snd (transition now (d_admission_request_id d) RequestLifecycle_Proposed RequestLifecycle_Evaluating d s0) in
      case policy_latest (af_policy s) of
        None \<Rightarrow>
          finish_reject now d
            ((build_decision now s d ReasonCode_RejectPolicy)\<lparr>dec_explanation := ''no policy installed''\<rparr>) s
      | Some base \<Rightarrow>
          let pol = policy_effective d base in
          evaluate_snapshot pf now d pol (s\<lparr>af_reservations := bind_overcommit pol (af_reservations s)\<rparr>))"

definition evaluation_open :: "RequestLifecycle \<Rightarrow> bool" where
  "evaluation_open l \<longleftrightarrow>
     \<not> (l \<noteq> RequestLifecycle_Proposed \<and> l \<noteq> RequestLifecycle_Deferred \<and> l \<noteq> RequestLifecycle_Evaluating)"

definition fabric_evaluate :: "platform \<Rightarrow> i64 \<Rightarrow> AdmissionDescriptor \<Rightarrow> AdmissionFabric
    \<Rightarrow> AdmissionDecision Result \<times> AdmissionFabric" where
  "fabric_evaluate pf now d s0 =
     (let s = on_metrics (\<lambda>m. m\<lparr>mt_evaluations := mt_evaluations m + 1\<rparr>) s0;
          v = descriptor_validate d in
      if \<not> status_ok v
      then finish_reject now d ((build_decision now s d ReasonCode_RejectMalformed)\<lparr>dec_explanation := err_message v\<rparr>) s
      else case om_find (af_requests s) (d_admission_request_id d) of
             Some r \<Rightarrow>
               if \<not> evaluation_open (rr_lifecycle r)
               then finish_reject now d
                      ((build_decision now s d ReasonCode_RejectMalformed)
                        \<lparr>dec_explanation := ''duplicate admission request id (already '' @ lifecycle_name (rr_lifecycle r) @ '')''\<rparr>) s
               else evaluate_policy pf now d s
           | None \<Rightarrow> evaluate_policy pf now d s)"

section \<open>Authoritative transitions\<close>

definition commit_admission :: "i64 \<Rightarrow> AdmissionRequestId \<Rightarrow> AdmissionGeneration \<Rightarrow> AdmissionFabric
    \<Rightarrow> Status \<times> AdmissionFabric" where
  "commit_admission now rid gen s =
     (case om_find (af_requests s) rid of
        None \<Rightarrow> (status_failure ErrorCode_StaleAdmissionGeneration ''unknown request id'', s)
      | Some rec \<Rightarrow>
          (case rr_last_decision rec of
             None \<Rightarrow> (status_failure ErrorCode_OperationNotPermitted ''no decision to commit'', s)
           | Some dec \<Rightarrow>
               if dec_admission_generation dec \<noteq> gen
               then (status_failure ErrorCode_StaleAdmissionGeneration ''stale admission generation'', s)
               else (case dec_reservation_id dec of
                       None \<Rightarrow> (status_failure ErrorCode_AdmissionWithoutReservation ''decision has no reservation'', s)
                     | Some rsv \<Rightarrow>
                         (case rm_commit now rsv rid gen (af_reservations s) of
                            (st, m) \<Rightarrow>
                              let s1 = s\<lparr>af_reservations := m\<rparr> in
                              if \<not> status_ok st then (st, s1)
                              else (status_success,
                                    s1\<lparr>af_requests := om_put rid
                                      (rec\<lparr>rr_lifecycle := RequestLifecycle_Admitted, rr_updated_at := now\<rparr>)
                                      (af_requests s1)\<rparr>)))))"

definition mark_released :: "i64 \<Rightarrow> ReservationId \<Rightarrow> RequestRecord \<Rightarrow> RequestRecord" where
  "mark_released now rsv rec =
     (case rr_last_decision rec of
        None \<Rightarrow> rec
      | Some dec \<Rightarrow>
          if dec_reservation_id dec = Some rsv
             \<and> (rr_lifecycle rec = RequestLifecycle_Admitted \<or> rr_lifecycle rec = RequestLifecycle_Reserved)
          then rec\<lparr>rr_lifecycle := RequestLifecycle_Released, rr_updated_at := now\<rparr> else rec)"

definition release_reservation :: "i64 \<Rightarrow> ReservationId \<Rightarrow> AdmissionFabric \<Rightarrow> Status \<times> AdmissionFabric" where
  "release_reservation now rsv s =
     (case rm_release rsv (af_reservations s) of
        (st, m) \<Rightarrow>
          let s1 = s\<lparr>af_reservations := m\<rparr> in
          if \<not> status_ok st then (st, s1)
          else (status_success,
                on_metrics (\<lambda>mt. mt\<lparr>mt_active_reservations := of_nat (length (rm_reservations m))\<rparr>)
                  (s1\<lparr>af_requests := om_map (mark_released now rsv) (af_requests s1)\<rparr>)))"

definition cancel_request :: "i64 \<Rightarrow> AdmissionRequestId \<Rightarrow> AdmissionFabric \<Rightarrow> Status \<times> AdmissionFabric" where
  "cancel_request now rid s =
     (case om_find (af_requests s) rid of
        None \<Rightarrow> (status_failure ErrorCode_StaleAdmissionGeneration ''unknown request id'', s)
      | Some rec \<Rightarrow>
          let cancelled = om_put rid (rec\<lparr>rr_lifecycle := RequestLifecycle_Cancelled, rr_updated_at := now\<rparr>) in
          if rr_lifecycle rec = RequestLifecycle_Proposed \<or> rr_lifecycle rec = RequestLifecycle_Evaluating
             \<or> rr_lifecycle rec = RequestLifecycle_Deferred
          then (status_success, s\<lparr>af_requests := cancelled (af_requests s)\<rparr>)
          else if rr_lifecycle rec = RequestLifecycle_Reserved
          then let m = (case rr_last_decision rec of
                          None \<Rightarrow> af_reservations s
                        | Some dec \<Rightarrow> (case dec_reservation_id dec of
                                        None \<Rightarrow> af_reservations s
                                      | Some rsv \<Rightarrow> snd (rm_rollback rsv (af_reservations s))))
               in (status_success, s\<lparr>af_reservations := m, af_requests := cancelled (af_requests s)\<rparr>)
          else if rr_lifecycle rec = RequestLifecycle_Admitted
          then (status_failure ErrorCode_OperationNotPermitted ''admitted request must be released, not cancelled'', s)
          else (status_failure ErrorCode_OperationNotPermitted ''terminal request cannot mutate'', s))"

end
