(* ===== verification/Reservation_Spec.thy ===== *)
theory Reservation_Spec
  imports Reservation
begin

text \<open>
  What the reservation manager guarantees: its running sums are the sums of its table after every
  sequence of operations and restores, admissions never pass the ceiling, every reservation follows the status
  machine, and each dimension is a refinement of the two-phase account of \<open>resource.hpp\<close>.
\<close>

section \<open>The sweep of expired reservations\<close>

lemma expire_unsafe_effect:
  assumes "rm_inv nz fit m" and "om_find (rm_reservations m) k = Some r" and "rsv_status r = ReservationStatus_Reserved"
  obtains r2 where "try_sub (rm_reserved_sum m) (rsv_demand r) = Some r2"
    and "expire_unsafe k r m = rm_update k (r\<lparr>rsv_status := ReservationStatus_Expired\<rparr>) (m\<lparr>rm_reserved_sum := r2\<rparr>)"
proof -
  obtain r2 where "try_sub (rm_reserved_sum m) (rsv_demand r) = Some r2"
    using rm_inv_reserved_sub [OF assms] .
  then show ?thesis using that by (simp add: expire_unsafe_def)
qed

definition expired_entry :: "i64 \<Rightarrow> ResourceReservation \<Rightarrow> ResourceReservation" where
  "expired_entry now r =
     (if rsv_status r = ReservationStatus_Reserved \<and> rsv_expires_at r <s now
      then r\<lparr>rsv_status := ReservationStatus_Expired\<rparr> else r)"

lemma rm_inv_om_ok: "rm_inv nz fit m \<Longrightarrow> om_ok (rm_reservations m)"
  by (simp add: rm_inv_def table_inv_def)

lemmas rm_wf_om_ok = rm_inv_om_ok [of True True, folded rm_wf_inv]

lemma expire_entry_effect:
  assumes wf: "rm_inv nz fit m" and find: "om_find (rm_reservations m) k = Some r"
  shows "rm_inv nz fit (expire_entry now (k, r) m)"
    and "om_find (rm_reservations (expire_entry now (k, r) m)) j =
      (if j = k then Some (expired_entry now r) else om_find (rm_reservations m) j)"
    and "rm_used_sum (expire_entry now (k, r) m) = rm_used_sum m"
    and "fits_in (rm_reserved_sum (expire_entry now (k, r) m)) (rm_reserved_sum m)"
    and "rm_total (expire_entry now (k, r) m) = rm_total m"
    and "rm_overcommit_mode (expire_entry now (k, r) m) = rm_overcommit_mode m"
    and "rm_overcommit_allowance (expire_entry now (k, r) m) = rm_overcommit_allowance m"
proof -
  let ?m = "expire_entry now (k, r) m"
  have "rm_inv nz fit ?m \<and> om_find (rm_reservations ?m) j = (if j = k then Some (expired_entry now r) else om_find (rm_reservations m) j)
    \<and> rm_used_sum ?m = rm_used_sum m \<and> fits_in (rm_reserved_sum ?m) (rm_reserved_sum m)
    \<and> rm_total ?m = rm_total m \<and> rm_overcommit_mode ?m = rm_overcommit_mode m
    \<and> rm_overcommit_allowance ?m = rm_overcommit_allowance m"
  proof (cases "rsv_status r = ReservationStatus_Reserved \<and> rsv_expires_at r <s now")
    case True
    then have st: "rsv_status r = ReservationStatus_Reserved" by simp
    obtain r2 where r2: "try_sub (rm_reserved_sum m) (rsv_demand r) = Some r2"
      and eq: "expire_unsafe k r m
        = rm_update k (r\<lparr>rsv_status := ReservationStatus_Expired\<rparr>) (m\<lparr>rm_reserved_sum := r2\<rparr>)"
      by (rule expire_unsafe_effect [OF wf find st])
    show ?thesis
      using True rm_inv_expire_unsafe [OF wf find st] eq try_sub_fits [OF r2] rm_inv_om_ok [OF wf]
      by (simp add: expire_entry_def expired_entry_def om_find_put)
  next
    case False
    then show ?thesis using wf find by (auto simp: expire_entry_def expired_entry_def)
  qed
  then show "rm_inv nz fit ?m" and "om_find (rm_reservations ?m) j = (if j = k then Some (expired_entry now r) else om_find (rm_reservations m) j)"
    and "rm_used_sum ?m = rm_used_sum m" and "fits_in (rm_reserved_sum ?m) (rm_reserved_sum m)"
    and "rm_total ?m = rm_total m" and "rm_overcommit_mode ?m = rm_overcommit_mode m"
    and "rm_overcommit_allowance ?m = rm_overcommit_allowance m"
    by auto
qed

lemma fits_in_trans: "fits_in a b \<Longrightarrow> fits_in b c \<Longrightarrow> fits_in a c"
  by (auto simp: fits_in_iff intro: order.trans)

lemma rm_ceiling_cong:
  "rm_total a = rm_total b \<Longrightarrow> rm_overcommit_mode a = rm_overcommit_mode b
    \<Longrightarrow> rm_overcommit_allowance a = rm_overcommit_allowance b \<Longrightarrow> rm_ceiling a = rm_ceiling b"
  by (simp add: rm_ceiling_def dim_ceiling_def Let_def cong: if_cong)

lemma rm_ceiling_sums [simp]:
  "rm_ceiling (m\<lparr>rm_reserved_sum := r\<rparr>) = rm_ceiling m"
  "rm_ceiling (m\<lparr>rm_used_sum := u\<rparr>) = rm_ceiling m"
  "rm_ceiling (m\<lparr>rm_generation := g\<rparr>) = rm_ceiling m"
  "rm_ceiling (m\<lparr>rm_reservations := t\<rparr>) = rm_ceiling m"
  by (rule rm_ceiling_cong; simp)+

text \<open>The loop invariant of the sweep: the entries still to visit are unchanged in the table.\<close>

lemma expire_fold:
  assumes "rm_inv nz fit m" and "distinct (map fst es)"
    and "\<forall>(k, r) \<in> set es. om_find (rm_reservations m) k = Some r"
  shows "rm_inv nz fit (fold (expire_entry now) es m)
    \<and> (\<forall>j. om_find (rm_reservations (fold (expire_entry now) es m)) j =
         (if j \<in> fst ` set es then map_option (expired_entry now) (om_find (rm_reservations m) j)
          else om_find (rm_reservations m) j))
    \<and> rm_used_sum (fold (expire_entry now) es m) = rm_used_sum m
    \<and> fits_in (rm_reserved_sum (fold (expire_entry now) es m)) (rm_reserved_sum m)
    \<and> rm_ceiling (fold (expire_entry now) es m) = rm_ceiling m"
  using assms
proof (induction es arbitrary: m)
  case (Cons e es)
  obtain k r where e: "e = (k, r)" by (cases e)
  let ?m = "expire_entry now (k, r) m"
  have find: "om_find (rm_reservations m) k = Some r" using Cons.prems(3) e by auto
  note eff = expire_entry_effect [OF Cons.prems(1) find, of now]
  have c: "rm_ceiling ?m = rm_ceiling m"
    using eff(5-7) by (rule rm_ceiling_cong)
  have rest: "\<forall>(j, w) \<in> set es. om_find (rm_reservations ?m) j = Some w"
  proof clarify
    fix j w assume jw: "(j, w) \<in> set es"
    then have "j \<noteq> k" using Cons.prems(2) e by force
    then show "om_find (rm_reservations ?m) j = Some w"
      using Cons.prems(3) jw eff(2) by auto
  qed
  have "k \<notin> fst ` set es" using Cons.prems(2) e by simp
  moreover have "distinct (map fst es)" using Cons.prems(2) by simp
  ultimately show ?case
    using Cons.IH [OF eff(1) _ rest] eff(2-4) c find by (auto simp: e intro: fits_in_trans)
qed simp

lemma rm_inv_expire_stale:
  assumes "rm_inv nz fit m"
  shows "rm_inv nz fit (rm_expire_stale now m)"
    and "om_find (rm_reservations (rm_expire_stale now m)) j
      = map_option (expired_entry now) (om_find (rm_reservations m) j)"
    and "rm_used_sum (rm_expire_stale now m) = rm_used_sum m"
    and "fits_in (rm_reserved_sum (rm_expire_stale now m)) (rm_reserved_sum m)"
    and "rm_ceiling (rm_expire_stale now m) = rm_ceiling m"
proof -
  note ok = rm_inv_om_ok [OF assms]
  have all: "\<forall>(k, r) \<in> set (rm_reservations m). om_find (rm_reservations m) k = Some r"
    using ok by (auto simp: om_find_in_set)
  note * = expire_fold [OF assms om_ok_distinct [OF ok] all, of now]
  show "rm_inv nz fit (rm_expire_stale now m)" and "rm_used_sum (rm_expire_stale now m) = rm_used_sum m"
    and "fits_in (rm_reserved_sum (rm_expire_stale now m)) (rm_reserved_sum m)"
    and "rm_ceiling (rm_expire_stale now m) = rm_ceiling m"
    using * by (simp_all add: rm_expire_stale_def)
  show "om_find (rm_reservations (rm_expire_stale now m)) j
      = map_option (expired_entry now) (om_find (rm_reservations m) j)"
    using * by (auto simp: rm_expire_stale_def om_find_None [symmetric])
qed

lemmas rm_expire_stale_effect = rm_inv_expire_stale [of True True, folded rm_wf_inv]

section \<open>Sequences of operations\<close>

datatype rm_op =
    OpReserve i64 ReservationId TenantId ResourceVector i64
  | OpCommit i64 ReservationId AdmissionRequestId AdmissionGeneration
  | OpRollback ReservationId
  | OpRelease ReservationId
  | OpExpireStale i64
  | OpSetTotal ResourceVector
  | OpSetMode OvercommitMode
  | OpSetAllowance ResourceVector

primrec rm_exec :: "rm_op \<Rightarrow> ReservationManager \<Rightarrow> ReservationManager" where
  "rm_exec (OpReserve now rid owner demand ttl) m = snd (rm_reserve now rid owner demand ttl m)"
| "rm_exec (OpCommit now rid ar gen) m = snd (rm_commit now rid ar gen m)"
| "rm_exec (OpRollback rid) m = snd (rm_rollback rid m)"
| "rm_exec (OpRelease rid) m = snd (rm_release rid m)"
| "rm_exec (OpExpireStale now) m = rm_expire_stale now m"
| "rm_exec (OpSetTotal t) m = rm_set_total m t"
| "rm_exec (OpSetMode mode) m = rm_set_overcommit_mode m mode"
| "rm_exec (OpSetAllowance a) m = rm_set_overcommit_allowance m a"

definition rm_run :: "rm_op list \<Rightarrow> ReservationManager \<Rightarrow> ReservationManager" where
  "rm_run ops m = fold rm_exec ops m"

primrec is_config :: "rm_op \<Rightarrow> bool" where
  "is_config (OpReserve now rid owner demand ttl) = False"
| "is_config (OpCommit now rid ar gen) = False"
| "is_config (OpRollback rid) = False"
| "is_config (OpRelease rid) = False"
| "is_config (OpExpireStale now) = False"
| "is_config (OpSetTotal t) = True"
| "is_config (OpSetMode mode) = True"
| "is_config (OpSetAllowance a) = True"

lemma rm_wf_setters [simp]:
  "rm_wf (rm_set_total m t) = rm_wf m"
  "rm_wf (rm_set_overcommit_mode m mode) = rm_wf m"
  "rm_wf (rm_set_overcommit_allowance m a) = rm_wf m"
  by (simp_all add: rm_wf_def rm_set_total_def rm_set_overcommit_mode_def rm_set_overcommit_allowance_def)

lemma rm_wf_empty [simp]: "rm_wf rm_empty"
  by (simp add: rm_wf_def table_wf_def rm_empty_def tally_def)

lemma rm_wf_exec: "rm_wf m \<Longrightarrow> rm_wf (rm_exec op m)"
  by (cases op)
    (auto intro: rm_wf_reserve rm_wf_commit rm_wf_rollback rm_wf_release rm_expire_stale_effect(1)
      simp: prod_eq_iff)

lemma rm_wf_run: "rm_wf m \<Longrightarrow> rm_wf (rm_run ops m)"
  by (induction ops arbitrary: m) (simp_all add: rm_run_def rm_wf_exec)

text \<open>Every operation keeps every grade of the invariant.\<close>

lemma rm_inv_setters [simp]:
  "rm_inv nz fit (rm_set_total m t) = rm_inv nz fit m"
  "rm_inv nz fit (rm_set_overcommit_mode m mode) = rm_inv nz fit m"
  "rm_inv nz fit (rm_set_overcommit_allowance m a) = rm_inv nz fit m"
  by (simp_all add: rm_inv_def rm_set_total_def rm_set_overcommit_mode_def rm_set_overcommit_allowance_def)

lemma rm_inv_exec: "rm_inv nz fit m \<Longrightarrow> rm_inv nz fit (rm_exec op m)"
  by (cases op)
    (auto intro: rm_inv_reserve rm_inv_commit rm_inv_rollback rm_inv_release rm_inv_expire_stale(1)
      simp: prod_eq_iff)

lemma rm_inv_run: "rm_inv nz fit m \<Longrightarrow> rm_inv nz fit (rm_run ops m)"
  by (induction ops arbitrary: m) (simp_all add: rm_run_def rm_inv_exec)

section \<open>Sequences of operations and restores\<close>

text \<open>The call \<open>ReservationManager::restore\<close> of recovery, on any list and any sums, beside the operations.\<close>

datatype rm_call = CallOp rm_op | CallRestore "ResourceReservation list" ResourceVector ResourceVector

primrec rm_call_exec :: "rm_call \<Rightarrow> ReservationManager \<Rightarrow> ReservationManager" where
  "rm_call_exec (CallOp op) m = rm_exec op m"
| "rm_call_exec (CallRestore rs reserved used) m = snd (rm_restore rs reserved used m)"

definition rm_calls :: "rm_call list \<Rightarrow> ReservationManager \<Rightarrow> ReservationManager" where
  "rm_calls cs m = fold rm_call_exec cs m"

text \<open>What the loop of a restore has added up belongs to the table that it builds.\<close>

lemma restore_loop_rebuilds:
  assumes "restore_loop rs seen a b = Inr (R, U)" and "table_inv False False t a b" and "fst ` set t = set seen"
  shows "table_inv False False (fold (\<lambda>r t. om_put (rsv_id r) r t) rs t) R U"
  using assms
proof (induction rs seen a b arbitrary: t rule: restore_loop.induct)
  case (2 r rs seen a b)
  have ok: "om_ok t" using "2.prems"(2) by (simp add: table_inv_def)
  have new: "rsv_id r \<notin> set seen" using "2.prems"(1) by (auto split: if_splits)
  then have none: "om_find t (rsv_id r) = None" using "2.prems"(3) by (metis om_find_None)
  let ?t = "om_put (rsv_id r) r t"
  have keys: "fst ` set ?t = set (rsv_id r # seen)"
  proof -
    have "{e \<in> set t. fst e \<noteq> rsv_id r} = set t" using new [folded "2.prems"(3)] by (auto simp: image_iff)
    then have "set ?t = insert (rsv_id r, r) (set t)" using om.entries_put [OF ok, of "rsv_id r" r] by simp
    then show ?thesis using "2.prems"(3) by simp
  qed
  have step: "table_inv False False ?t a' b'"
    if "\<And>i. unat (a' i) = unat (a i) + contrib ReservationStatus_Reserved i r"
      and "\<And>i. unat (b' i) = unat (b i) + contrib ReservationStatus_Committed i r" for a' b'
    by (rule table_inv_put [OF "2.prems"(2)]) (simp_all add: none that)
  consider (reserved) n where "rsv_status r = ReservationStatus_Reserved" "try_add a (rsv_demand r) = Some n"
      "restore_loop rs (rsv_id r # seen) n b = Inr (R, U)"
    | (committed) n where "rsv_status r = ReservationStatus_Committed" "try_add b (rsv_demand r) = Some n"
      "restore_loop rs (rsv_id r # seen) a n = Inr (R, U)"
    | (settled) "rsv_status r \<noteq> ReservationStatus_Reserved" "rsv_status r \<noteq> ReservationStatus_Committed"
      "rv_is_zero (rsv_demand r)" "restore_loop rs (rsv_id r # seen) a b = Inr (R, U)"
  proof -
    show ?thesis
    proof (cases "rsv_status r = ReservationStatus_Reserved")
      case True
      then show ?thesis
        using "2.prems"(1) new reserved by (cases "try_add a (rsv_demand r)") simp_all
    next
      case False
      show ?thesis
      proof (cases "rsv_status r = ReservationStatus_Committed")
        case True
        then show ?thesis
          using "2.prems"(1) new committed by (cases "try_add b (rsv_demand r)") simp_all
      next
        case neither: False
        then show ?thesis
          using "2.prems"(1) new settled False by (cases "rv_is_zero (rsv_demand r)") simp_all
      qed
    qed
  qed
  then show ?case
  proof cases
    case reserved
    then have "table_inv False False ?t n b" by (intro step) (simp_all add: contrib_def try_add_Some)
    then show ?thesis using "2.IH"(1) [OF new reserved(1,2,3)] keys by simp
  next
    case committed
    then have "table_inv False False ?t a n" by (intro step) (simp_all add: contrib_def try_add_Some)
    moreover have "rsv_status r \<noteq> ReservationStatus_Reserved" using committed(1) by simp
    ultimately show ?thesis using "2.IH"(2) [OF new _ committed(1,2,3)] keys by simp
  next
    case settled
    then have "table_inv False False ?t a b" by (intro step) (simp_all add: contrib_def)
    then show ?thesis using "2.IH"(3) [OF new settled(1,2) _ settled(4)] settled(3) keys by simp
  qed
qed simp

lemma rm_inv_restore:
  assumes "rm_inv False False m"
  shows "rm_inv False False (snd (rm_restore rs reserved used m))"
proof (cases "restore_loop rs [] rv_zero rv_zero")
  case (Inl e)
  then show ?thesis using assms by (simp add: rm_restore_def)
next
  case (Inr p)
  obtain R U where p: "p = (R, U)" by (cases p)
  have "table_inv False False [] rv_zero rv_zero" by (simp add: table_inv_def tally_def)
  from restore_loop_rebuilds [OF Inr [unfolded p] this]
  have "table_inv False False (fold (\<lambda>r t. om_put (rsv_id r) r t) rs []) R U" by simp
  then show ?thesis
    using assms Inr by (auto simp: rm_restore_def rm_inv_def p)
qed

lemma rm_inv_empty [simp]: "rm_inv nz fit rm_empty"
  by (simp add: rm_inv_def table_inv_def rm_empty_def tally_def)

lemma rm_inv_calls: "rm_inv False False m \<Longrightarrow> rm_inv False False (rm_calls cs m)"
proof (induction cs arbitrary: m)
  case (Cons c cs)
  have "rm_inv False False (rm_call_exec c m)"
    using Cons.prems by (cases c) (simp_all add: rm_inv_exec rm_inv_restore)
  then show ?case using Cons.IH by (simp add: rm_calls_def)
qed (simp add: rm_calls_def)

lemmas restored_inv = rm_inv_calls [OF rm_inv_empty]

lemma restored_sums_match:
  "tally ReservationStatus_Reserved i (rm_reservations (rm_calls cs rm_empty)) = unat (rm_reserved_sum (rm_calls cs rm_empty) i)"
  "tally ReservationStatus_Committed i (rm_reservations (rm_calls cs rm_empty)) = unat (rm_used_sum (rm_calls cs rm_empty) i)"
  using restored_inv [of cs] by (simp_all add: rm_inv_def table_inv_def)

text \<open>C8: after every sequence of operations and restores on a fresh manager, whatever fails on the way, the
  reserved sum is the sum of the demands of the table's reserved entries and the used sum that of its committed
  entries, in every dimension. A restore checks the two sums one by one, so they need not fit together after it
  (\<open>restore_overflows\<close>); where they do, and so on a manager that was never restored, they still do after
  every further sequence of operations.\<close>

theorem rm_run_sums_match_table:
  "tally ReservationStatus_Reserved i (rm_reservations (rm_calls cs rm_empty)) = unat (rm_reserved_sum (rm_calls cs rm_empty) i)
   \<and> tally ReservationStatus_Committed i (rm_reservations (rm_calls cs rm_empty)) = unat (rm_used_sum (rm_calls cs rm_empty) i)
   \<and> ((\<forall>j. unat (rm_reserved_sum (rm_calls cs rm_empty) j) + unat (rm_used_sum (rm_calls cs rm_empty) j) < 2 ^ 64) \<longrightarrow>
        unat (rm_reserved_sum (rm_run ops (rm_calls cs rm_empty)) i) + unat (rm_used_sum (rm_run ops (rm_calls cs rm_empty)) i)
          < 2 ^ 64)"
proof (intro conjI restored_sums_match impI)
  assume "\<forall>j. unat (rm_reserved_sum (rm_calls cs rm_empty) j) + unat (rm_used_sum (rm_calls cs rm_empty) j) < 2 ^ 64"
  from rm_inv_run [OF rm_inv_fits [OF restored_inv this]]
  show "unat (rm_reserved_sum (rm_run ops (rm_calls cs rm_empty)) i) + unat (rm_used_sum (rm_run ops (rm_calls cs rm_empty)) i)
      < 2 ^ 64"
    by (simp add: rm_inv_def table_inv_def)
qed

text \<open>A manager restored with one reservation, on which the operations then go on.\<close>

definition half_range :: ResourceVector where
  "half_range = rv_zero(AcceleratorMemory := 2 ^ 63)"

definition demo_entry :: "ReservationId \<Rightarrow> ReservationStatus \<Rightarrow> ResourceReservation" where
  "demo_entry rid st = \<lparr>rsv_id = rid, rsv_owner = Id 7, rsv_demand = half_range, rsv_created_at = 0, rsv_expires_at = 10,
     rsv_admission_request_id = None, rsv_admission_generation = None, rsv_status = st, rsv_generation = 1\<rparr>"

lemma try_add_zero: "try_add rv_zero v = Some v"
proof (cases "try_add rv_zero v")
  case None
  then show ?thesis using unat_u64_less by (auto simp: try_add_None rv_zero_def simp flip: not_less)
next
  case (Some w)
  then show ?thesis by (auto simp: try_add_Some rv_zero_def intro!: rv_eqI)
qed

lemma demo_restore:
  "rm_restore [demo_entry (Id 1) ReservationStatus_Reserved] half_range rv_zero rm_empty
    = (status_success, rm_empty\<lparr>rm_reservations := [(Id 1, demo_entry (Id 1) ReservationStatus_Reserved)],
         rm_reserved_sum := half_range, rm_used_sum := rv_zero\<rparr>)"
  by (simp add: rm_restore_def demo_entry_def try_add_zero)

text \<open>Two halves of the range, one reserved and one committed, are accepted although they do not fit together.\<close>

lemma restore_overflows:
  "status_ok (fst (rm_restore [demo_entry (Id 1) ReservationStatus_Reserved, demo_entry (Id 2) ReservationStatus_Committed]
       half_range half_range m))
   \<and> (let m' = snd (rm_restore [demo_entry (Id 1) ReservationStatus_Reserved, demo_entry (Id 2) ReservationStatus_Committed]
             half_range half_range m)
      in unat (rm_reserved_sum m' AcceleratorMemory) + unat (rm_used_sum m' AcceleratorMemory) = 2 ^ 64)"
  by (simp add: rm_restore_def demo_entry_def try_add_zero half_range_def)

lemma rm_run_sums_match_table_witness:
  "let m = rm_calls [CallRestore [demo_entry (Id 1) ReservationStatus_Reserved] half_range rv_zero] rm_empty
   in rm_reserved_sum m AcceleratorMemory = 2 ^ 63
     \<and> unat (rm_reserved_sum (rm_run [OpCommit 5 (Id 1) (Id 9) (Id 1)] m) AcceleratorMemory)
       + unat (rm_used_sum (rm_run [OpCommit 5 (Id 1) (Id 9) (Id 1)] m) AcceleratorMemory) < 2 ^ 64"
proof -
  let ?cs = "[CallRestore [demo_entry (Id 1) ReservationStatus_Reserved] half_range rv_zero]"
  have m: "rm_reserved_sum (rm_calls ?cs rm_empty) = half_range" "rm_used_sum (rm_calls ?cs rm_empty) = rv_zero"
    by (simp_all add: rm_calls_def demo_restore)
  have "\<forall>j. unat (rm_reserved_sum (rm_calls ?cs rm_empty) j) + unat (rm_used_sum (rm_calls ?cs rm_empty) j) < 2 ^ 64"
    unfolding m by (simp add: rv_zero_def half_range_def)
  then show ?thesis
    using rm_run_sums_match_table [of AcceleratorMemory ?cs "[OpCommit 5 (Id 1) (Id 9) (Id 1)]"] m
    by (simp add: Let_def half_range_def)
qed

section \<open>Admissions stay within the ceiling\<close>

lemma rm_within_ceiling: "rm_within m \<longleftrightarrow>
    (\<forall>i. unat (rm_reserved_sum m i) + unat (rm_used_sum m i) \<le> unat (rm_ceiling m i))"
  by (simp add: rm_within_def rm_ceiling_def)

lemma rm_within_shrink:
  assumes "rm_within m" and "rm_ceiling m' = rm_ceiling m"
    and "\<And>i. unat (rm_reserved_sum m' i) + unat (rm_used_sum m' i) \<le> unat (rm_reserved_sum m i) + unat (rm_used_sum m i)"
  shows "rm_within m'"
  using assms by (auto simp: rm_within_ceiling intro: order.trans)

lemma rm_reserve_sums:
  assumes "rm_reserve now rid owner demand ttl m = (Inr x, m')"
  shows "\<exists>nxt total. try_add (rm_reserved_sum m) demand = Some nxt \<and> try_add (rm_used_sum m) nxt = Some total
    \<and> (\<forall>i. total i \<le> dim_ceiling m i) \<and> rm_reserved_sum m' = nxt \<and> rm_used_sum m' = rm_used_sum m
    \<and> rm_ceiling m' = rm_ceiling m"
  using assms by (auto simp: rm_reserve_Inr)

lemma rm_within_reserve:
  assumes "rm_reserve now rid owner demand ttl m = (x, m')" and "rm_within m"
  shows "rm_within m'"
proof (cases x)
  case (Inl e)
  with assms show ?thesis using rm_reserve_Inl by blast
next
  case (Inr y)
  with assms(1) have "rm_reserve now rid owner demand ttl m = (Inr y, m')" by simp
  from rm_reserve_sums [OF this] obtain nxt total where total: "try_add (rm_used_sum m) nxt = Some total"
    and le: "\<forall>i. total i \<le> dim_ceiling m i"
    and m': "rm_reserved_sum m' = nxt" "rm_used_sum m' = rm_used_sum m" "rm_ceiling m' = rm_ceiling m"
    by blast
  with total le m'(1,2) show ?thesis
    by (simp add: rm_within_ceiling try_add_Some word_le_nat_alt rm_ceiling_def add.commute)
qed

text \<open>The three ways an operation other than reserve can move the sums.\<close>

lemma try_sub_le: "try_sub a b = Some c \<Longrightarrow> unat (c i) \<le> unat (a i)"
  by (auto simp: try_sub_Some) (metis le_add1)

lemma rm_within_other:
  assumes "rm_within m" and "rm_ceiling m' = rm_ceiling m"
    and "rm_reserved_sum m' = rm_reserved_sum m \<and> rm_used_sum m' = rm_used_sum m
      \<or> (\<exists>d. try_sub (rm_reserved_sum m) d = Some (rm_reserved_sum m') \<and> rm_used_sum m' = rm_used_sum m)
      \<or> (\<exists>d. try_sub (rm_used_sum m) d = Some (rm_used_sum m') \<and> rm_reserved_sum m' = rm_reserved_sum m)
      \<or> (\<exists>d. try_sub (rm_reserved_sum m) d = Some (rm_reserved_sum m')
           \<and> try_add (rm_used_sum m) d = Some (rm_used_sum m'))"
  shows "rm_within m'"
proof (rule rm_within_shrink [OF assms(1,2)])
  fix i
  from assms(3) show "unat (rm_reserved_sum m' i) + unat (rm_used_sum m' i)
      \<le> unat (rm_reserved_sum m i) + unat (rm_used_sum m i)"
  proof (elim disjE exE conjE)
    fix d
    assume "try_sub (rm_reserved_sum m) d = Some (rm_reserved_sum m')"
      and "try_add (rm_used_sum m) d = Some (rm_used_sum m')"
    then have "unat (rm_reserved_sum m' i) + unat (d i) = unat (rm_reserved_sum m i)"
      and "unat (rm_used_sum m' i) = unat (rm_used_sum m i) + unat (d i)"
      by (simp_all add: try_sub_Some try_add_Some)
    then show ?thesis by linarith
  qed (auto dest: try_sub_le [of _ _ _ i])
qed

lemma rm_update_ceiling [simp]: "rm_ceiling (rm_update k r m) = rm_ceiling m"
  by (rule rm_ceiling_cong) simp_all

lemma rm_within_expire_unsafe: "rm_within m \<Longrightarrow> rm_within (expire_unsafe k r m)"
  by (cases "try_sub (rm_reserved_sum m) (rsv_demand r)") (auto simp: expire_unsafe_def intro: rm_within_other)

lemma rm_within_commit: "rm_within m \<Longrightarrow> rm_within (snd (rm_commit now rid ar gen m))"
  unfolding rm_commit_def
  by (auto intro: rm_within_expire_unsafe rm_within_other split: option.split)

lemma rm_within_rollback: "rm_within m \<Longrightarrow> rm_within (snd (rm_rollback rid m))"
  unfolding rm_rollback_def by (auto intro: rm_within_other split: option.split)

lemma rm_within_release: "rm_within m \<Longrightarrow> rm_within (snd (rm_release rid m))"
  unfolding rm_release_def Let_def by (auto intro: rm_within_other split: option.split)

lemma rm_within_expire_stale:
  assumes "rm_wf m" and "rm_within m"
  shows "rm_within (rm_expire_stale now m)"
  by (rule rm_within_shrink [OF assms(2)])
    (use rm_expire_stale_effect [OF assms(1), of now] in \<open>simp_all add: fits_in_iff word_le_nat_alt\<close>)

lemma rm_within_exec:
  assumes "rm_wf m" and "rm_within m" and "\<not> is_config op"
  shows "rm_within (rm_exec op m)"
  using assms
  by (cases op) (auto intro: rm_within_commit rm_within_rollback rm_within_release rm_within_expire_stale
      rm_within_reserve simp: prod_eq_iff)

lemma rm_within_run:
  "rm_wf m \<Longrightarrow> rm_within m \<Longrightarrow> \<forall>op \<in> set ops. \<not> is_config op \<Longrightarrow> rm_within (rm_run ops m)"
  by (induction ops arbitrary: m) (simp_all add: rm_run_def rm_wf_exec rm_within_exec)

section \<open>The recomputation of the sums\<close>

lemma tally_Cons: "tally st i ((k, r) # es) = contrib st i r + tally st i es"
  by (simp add: tally_def)

lemma accounting_loop_Some:
  "accounting_loop es r u = Some (r', u') \<Longrightarrow>
     (\<forall>i. unat (r' i) = unat (r i) + tally ReservationStatus_Reserved i es)
     \<and> (\<forall>i. unat (u' i) = unat (u i) + tally ReservationStatus_Committed i es)"
  by (induction es r u rule: accounting_loop.induct)
    (auto simp: tally_Cons contrib_def try_add_Some all_conj_distrib add.assoc tally_def [of _ _ "[]"]
      split: if_splits option.splits)

lemma accounting_loop_total:
  "\<lbrakk>\<forall>i. unat (r i) + tally ReservationStatus_Reserved i es < 2 ^ 64;
    \<forall>i. unat (u i) + tally ReservationStatus_Committed i es < 2 ^ 64\<rbrakk>
   \<Longrightarrow> accounting_loop es r u \<noteq> None"
proof (induction es r u rule: accounting_loop.induct)
  case (2 k x es r u)
  show ?case
  proof (cases "rsv_status x = ReservationStatus_Reserved")
    case True
    have "unat (r i) + unat (rsv_demand x i) < 2 ^ 64" for i
      using "2.prems"(1) True by (auto simp: tally_Cons contrib_def elim!: allE [of _ i])
    from this obtain n where n: "try_add r (rsv_demand x) = Some n"
      by (cases "try_add r (rsv_demand x)") (auto simp: try_add_None simp flip: not_less)
    moreover have "unat (n i) = unat (r i) + unat (rsv_demand x i)" for i
      using n by (simp add: try_add_Some)
    ultimately show ?thesis
      using "2.IH"(1) [OF True n] "2.prems" True
      by (simp add: tally_Cons contrib_def add.assoc)
  next
    case reserved: False
    show ?thesis
    proof (cases "rsv_status x = ReservationStatus_Committed")
      case True
      have "unat (u i) + unat (rsv_demand x i) < 2 ^ 64" for i
        using "2.prems"(2) True by (auto simp: tally_Cons contrib_def elim!: allE [of _ i])
      from this obtain n where n: "try_add u (rsv_demand x) = Some n"
        by (cases "try_add u (rsv_demand x)") (auto simp: try_add_None simp flip: not_less)
      moreover have "unat (n i) = unat (u i) + unat (rsv_demand x i)" for i
        using n by (simp add: try_add_Some)
      ultimately show ?thesis
        using "2.IH"(2) [OF reserved True n] "2.prems" True
        by (simp add: tally_Cons contrib_def add.assoc)
    next
      case False
      then show ?thesis
        using "2.IH"(3) [OF reserved False] "2.prems" reserved by (simp add: tally_Cons contrib_def)
    qed
  qed
qed simp

lemma accounting_loop_table:
  assumes "rm_wf m"
  shows "accounting_loop (rm_reservations m) rv_zero rv_zero = Some (rm_reserved_sum m, rm_used_sum m)"
proof -
  have t: "tally ReservationStatus_Reserved i (rm_reservations m) = unat (rm_reserved_sum m i)"
    "tally ReservationStatus_Committed i (rm_reservations m) = unat (rm_used_sum m i)" for i
    using assms by (simp_all add: rm_wf_def table_wf_def)
  have "accounting_loop (rm_reservations m) rv_zero rv_zero \<noteq> None"
    by (rule accounting_loop_total) (use unat_u64_less in \<open>simp_all add: t\<close>)
  then obtain r u where ru: "accounting_loop (rm_reservations m) rv_zero rv_zero = Some (r, u)"
    by auto
  from accounting_loop_Some [OF this] have "r = rm_reserved_sum m" and "u = rm_used_sum m"
    by (simp_all add: t rv_eqI)
  with ru show ?thesis by simp
qed

lemma verify_accounting_iff:
  assumes "rm_wf m"
  shows "verify_accounting m \<longleftrightarrow> rm_within m"
proof -
  have less: "unat (rm_reserved_sum m i) + unat (rm_used_sum m i) < 2 ^ 64" for i
    using assms by (simp add: rm_wf_def table_wf_def)
  have "unat (rv_sat_add (rm_reserved_sum m) (rm_used_sum m) i)
      = unat (rm_reserved_sum m i) + unat (rm_used_sum m i)" for i
    using less [of i] by (simp add: rv_sat_add_def checked_nat)
  then show ?thesis
    using accounting_loop_table [OF assms]
    by (simp add: verify_accounting_def fits_in_iff word_le_nat_alt rm_within_ceiling)
qed

text \<open>C18: once the totals, the overcommit mode and the allowance are configured, the manager's own
  recomputation \<open>verify_accounting\<close> returns true after every sequence of reserve, commit,
  rollback, release and expiry calls: no such sequence passes the ceiling in any dimension.\<close>

theorem rm_run_verifies:
  assumes "\<forall>op \<in> set ops. \<not> is_config op"
  shows "verify_accounting (rm_run ops (rm_set_overcommit_allowance
           (rm_set_overcommit_mode (rm_set_total rm_empty t) mode) a))"
proof -
  let ?m = "rm_set_overcommit_allowance (rm_set_overcommit_mode (rm_set_total rm_empty t) mode) a"
  have "rm_wf ?m" by simp
  moreover have "rm_within ?m"
    by (simp add: rm_within_def rm_empty_def rm_set_total_def rm_set_overcommit_mode_def rm_set_overcommit_allowance_def)
  ultimately show ?thesis
    using verify_accounting_iff rm_wf_run rm_within_run assms by blast
qed

text \<open>A manager whose operations exercise the property: two dimensions, a failing reservation.\<close>

definition demo_total :: ResourceVector where
  "demo_total = rv_zero(AcceleratorMemory := 100, HostMemory := 50)"

definition demo_demand :: ResourceVector where
  "demo_demand = rv_zero(AcceleratorMemory := 60, HostMemory := 10)"

definition demo_ops :: "rm_op list" where
  "demo_ops = [OpReserve 0 (Id 1) (Id 7) demo_demand 10, OpReserve 0 (Id 2) (Id 7) demo_demand 10,
     OpCommit 5 (Id 1) (Id 9) (Id 1), OpRollback (Id 1), OpRelease (Id 1)]"

lemma rm_run_verifies_witness:
  "verify_accounting (rm_run demo_ops (rm_set_overcommit_allowance
     (rm_set_overcommit_mode (rm_set_total rm_empty demo_total) OvercommitMode_None) rv_zero))"
  by (rule rm_run_verifies) (simp add: demo_ops_def)

section \<open>Reserve decides by the ceiling alone\<close>

lemma dim_ceiling_add_fits:
  assumes "\<And>i. unat (a i) + unat (b i) + unat (c i) \<le> unat (dim_ceiling m i)"
  obtains n t where "try_add a b = Some n" and "try_add c n = Some t" and "\<And>i. t i \<le> dim_ceiling m i"
proof -
  have lt: "unat (a i) + unat (b i) + unat (c i) < 2 ^ 64" for i
    using assms [of i] unat_u64_less [of "dim_ceiling m i"] by linarith
  have "unat (a i) + unat (b i) < 2 ^ 64" for i
    using lt [of i] by linarith
  from this obtain n where n: "try_add a b = Some n"
    by (cases "try_add a b") (auto simp: try_add_None simp flip: not_less)
  then have e: "unat (n i) = unat (a i) + unat (b i)" for i
    by (simp add: try_add_Some)
  have "unat (c i) + unat (n i) < 2 ^ 64" for i
    using lt [of i] e [of i] by linarith
  from this obtain t where t: "try_add c n = Some t"
    by (cases "try_add c n") (auto simp: try_add_None simp flip: not_less)
  have "t i \<le> dim_ceiling m i" for i
    using t assms [of i] e [of i] by (simp add: try_add_Some word_le_nat_alt)
  with n t show ?thesis by (rule that)
qed

lemma rm_reserve_total:
  assumes "om_find (rm_reservations m) rid = None" and "\<not> rv_is_zero demand"
    and "\<And>i. unat (rm_reserved_sum m i) + unat (demand i) + unat (rm_used_sum m i) \<le> unat (dim_ceiling m i)"
  shows "\<exists>y t. rm_reserve now rid owner demand ttl m = (Inr y, t)"
proof -
  obtain n t where "try_add (rm_reserved_sum m) demand = Some n" and "try_add (rm_used_sum m) n = Some t"
    and "\<And>i. t i \<le> dim_ceiling m i"
    using dim_ceiling_add_fits [of "rm_reserved_sum m" demand "rm_used_sum m" m] assms(3) by blast
  then show ?thesis using assms(1,2) by (simp add: rm_reserve_Inr)
qed

text \<open>C19: reserve succeeds exactly when the id is new, the demand is not all-zero and in every
  dimension reserved + demand + used is within the ceiling, computed without overflow; on every
  failure the manager is unchanged, and on success exactly the demand is added to the reserved sum.\<close>

theorem rm_reserve_exact:
  "((\<exists>x. fst (rm_reserve now rid owner demand ttl m) = Inr x) \<longleftrightarrow>
      om_find (rm_reservations m) rid = None \<and> \<not> rv_is_zero demand
      \<and> (\<forall>i. unat (rm_reserved_sum m i) + unat (demand i) + unat (rm_used_sum m i) \<le> unat (dim_ceiling m i)))
   \<and> (case rm_reserve now rid owner demand ttl m of
        (Inl e, m') \<Rightarrow> m' = m
      | (Inr x, m') \<Rightarrow> x = rid \<and> rm_used_sum m' = rm_used_sum m
          \<and> (\<forall>i. unat (rm_reserved_sum m' i) = unat (rm_reserved_sum m i) + unat (demand i)))"
proof -
  obtain x m' where c: "rm_reserve now rid owner demand ttl m = (x, m')" by (cases "rm_reserve now rid owner demand ttl m")
  let ?fits = "\<forall>i. unat (rm_reserved_sum m i) + unat (demand i) + unat (rm_used_sum m i) \<le> unat (dim_ceiling m i)"
  show ?thesis
  proof (cases x)
    case (Inr y)
    with c have s: "rm_reserve now rid owner demand ttl m = (Inr y, m')" by simp
    from rm_reserve_sums [OF s] obtain n t where nt: "try_add (rm_reserved_sum m) demand = Some n"
      "try_add (rm_used_sum m) n = Some t" "\<forall>i. t i \<le> dim_ceiling m i"
      and m': "rm_reserved_sum m' = n" "rm_used_sum m' = rm_used_sum m" by blast
    have fits: ?fits using nt by (simp add: try_add_Some word_le_nat_alt add.commute)
    have new: "om_find (rm_reservations m) rid = None \<and> \<not> rv_is_zero demand \<and> y = rid"
      using s by (simp add: rm_reserve_Inr)
    have "\<forall>i. unat (rm_reserved_sum m' i) = unat (rm_reserved_sum m i) + unat (demand i)"
      using nt(1) m'(1) by (simp add: try_add_Some)
    with s m'(2) fits new show ?thesis by simp
  next
    case (Inl e)
    have False if fresh: "om_find (rm_reservations m) rid = None" "\<not> rv_is_zero demand" and fits: ?fits
      using rm_reserve_total [OF fresh, of now owner ttl] fits c Inl by simp
    then show ?thesis using c Inl rm_reserve_Inl [of now rid owner demand ttl m e m'] by auto
  qed
qed

section \<open>The status machine\<close>

inductive status_step :: "ReservationStatus \<Rightarrow> ReservationStatus \<Rightarrow> bool" where
  commit: "status_step ReservationStatus_Reserved ReservationStatus_Committed"
| rollback: "status_step ReservationStatus_Reserved ReservationStatus_RolledBack"
| expire: "status_step ReservationStatus_Reserved ReservationStatus_Expired"
| release_reserved: "status_step ReservationStatus_Reserved ReservationStatus_Released"
| release_committed: "status_step ReservationStatus_Committed ReservationStatus_Released"
| release_expired: "status_step ReservationStatus_Expired ReservationStatus_Released"
| release_raw: "status_step (ReservationStatus_Raw b) ReservationStatus_Released"

inductive_simps status_step_Released: "status_step ReservationStatus_Released t"
inductive_simps status_step_RolledBack: "status_step ReservationStatus_RolledBack t"
inductive_simps status_step_Expired: "status_step ReservationStatus_Expired t"
inductive_simps status_step_Committed: "status_step ReservationStatus_Committed t"

lemmas status_step_inv = status_step_Released status_step_RolledBack status_step_Expired
  status_step_Committed

text \<open>What stays of an entry, and how its status may have moved.\<close>

definition same_grant :: "ResourceReservation \<Rightarrow> ResourceReservation \<Rightarrow> bool" where
  "same_grant r r' \<longleftrightarrow> rsv_id r' = rsv_id r \<and> rsv_owner r' = rsv_owner r \<and> rsv_demand r' = rsv_demand r
     \<and> rsv_created_at r' = rsv_created_at r \<and> rsv_expires_at r' = rsv_expires_at r
     \<and> rsv_generation r' = rsv_generation r"

lemma same_grant_refl [simp]: "same_grant r r"
  by (simp add: same_grant_def)

lemma same_grant_trans: "same_grant a b \<Longrightarrow> same_grant b c \<Longrightarrow> same_grant a c"
  by (simp add: same_grant_def)

lemma same_grant_status [simp]: "same_grant r (r\<lparr>rsv_status := s\<rparr>)"
  "same_grant r (r\<lparr>rsv_status := s, rsv_admission_request_id := a, rsv_admission_generation := g\<rparr>)"
  by (simp_all add: same_grant_def)

definition moves :: "ResourceReservation \<Rightarrow> ResourceReservation \<Rightarrow> bool" where
  "moves r r' \<longleftrightarrow> same_grant r r' \<and> (rsv_status r' = rsv_status r \<or> status_step (rsv_status r) (rsv_status r'))"

lemma moves_refl [simp]: "moves r r"
  by (simp add: moves_def)

lemma moves_lookup_update:
  assumes "om_ok (rm_reservations m)" and "om_find (rm_reservations m) k = Some r" and "moves r r'"
    and "om_find (rm_reservations m) j = Some w"
  shows "\<exists>w'. om_find (om_put k r' (rm_reservations m)) j = Some w' \<and> moves w w'"
  using assms by (auto simp: om_find_put)

lemma moves_status:
  "status_step (rsv_status r) s \<Longrightarrow> moves r (r\<lparr>rsv_status := s\<rparr>)"
  by (simp add: moves_def)

lemma moves_expired_entry: "moves r (expired_entry now r)"
  by (simp add: expired_entry_def moves_status expire)

lemma moves_expire_unsafe:
  assumes "rm_wf m" and "om_find (rm_reservations m) k = Some r" and "rsv_status r = ReservationStatus_Reserved"
    and "om_find (rm_reservations m) j = Some w"
  shows "\<exists>w'. om_find (rm_reservations (expire_unsafe k r m)) j = Some w' \<and> moves w w'"
  using moves_lookup_update [OF rm_wf_om_ok [OF assms(1)] assms(2) moves_status assms(4)] assms(3,4)
  by (auto simp: expire_unsafe_def status_step.simps split: option.split)

lemma moves_commit:
  assumes wf: "rm_wf m" and find: "om_find (rm_reservations m) j = Some w"
  shows "\<exists>w'. om_find (rm_reservations (snd (rm_commit now k ar gen m))) j = Some w' \<and> moves w w'"
proof (cases "om_find (rm_reservations m) k")
  case (Some r)
  have mv: "moves r (r\<lparr>rsv_status := ReservationStatus_Committed, rsv_admission_request_id := Some ar,
      rsv_admission_generation := Some gen\<rparr>)" if "rsv_status r = ReservationStatus_Reserved"
    using that by (simp add: moves_def commit)
  show ?thesis
    using moves_lookup_update [OF rm_wf_om_ok [OF wf] Some mv find] moves_expire_unsafe [OF wf Some _ find] Some find
    by (auto simp: rm_commit_def split: option.split)
qed (use find in \<open>simp add: rm_commit_def\<close>)

lemma moves_rollback:
  assumes wf: "rm_wf m" and find: "om_find (rm_reservations m) j = Some w"
  shows "\<exists>w'. om_find (rm_reservations (snd (rm_rollback k m))) j = Some w' \<and> moves w w'"
proof (cases "om_find (rm_reservations m) k")
  case (Some r)
  have mv: "moves r (r\<lparr>rsv_status := ReservationStatus_RolledBack\<rparr>)" if "rsv_status r = ReservationStatus_Reserved"
    using that by (simp add: moves_status rollback)
  show ?thesis
    using moves_lookup_update [OF rm_wf_om_ok [OF wf] Some mv find] Some find
    by (auto simp: rm_rollback_def split: option.split)
qed (use find in \<open>simp add: rm_rollback_def\<close>)

lemma moves_release:
  assumes wf: "rm_wf m" and find: "om_find (rm_reservations m) j = Some w"
  shows "\<exists>w'. om_find (rm_reservations (snd (rm_release k m))) j = Some w' \<and> moves w w'"
proof (cases "om_find (rm_reservations m) k")
  case (Some r)
  have mv: "moves r (r\<lparr>rsv_status := ReservationStatus_Released\<rparr>)"
    if "rsv_status r \<noteq> ReservationStatus_Released" "rsv_status r \<noteq> ReservationStatus_RolledBack"
    using that by (cases "rsv_status r") (simp_all add: moves_def status_step.intros)
  show ?thesis
    using moves_lookup_update [OF rm_wf_om_ok [OF wf] Some mv find] Some find
    by (auto simp: rm_release_def Let_def split: option.split)
qed (use find in \<open>simp add: rm_release_def\<close>)

lemma moves_reserve:
  assumes wf: "rm_wf m" and find: "om_find (rm_reservations m) j = Some w"
  shows "om_find (rm_reservations (snd (rm_reserve now k owner d ttl m))) j = Some w"
proof (cases "om_find (rm_reservations m) k")
  case None
  with find have "j \<noteq> k" by auto
  then show ?thesis
    using find rm_wf_om_ok [OF wf] None
    by (simp add: rm_reserve_def Let_def om_find_put split: option.split)
next
  case (Some r)
  then show ?thesis using find by (simp add: rm_reserve_def)
qed

lemma moves_exec:
  assumes wf: "rm_wf m" and find: "om_find (rm_reservations m) j = Some w"
  shows "\<exists>w'. om_find (rm_reservations (rm_exec op m)) j = Some w' \<and> moves w w'"
proof (cases op)
  case (OpExpireStale now)
  then show ?thesis
    using rm_expire_stale_effect(2) [OF wf, of now j] find moves_expired_entry by simp
qed (use moves_reserve [OF assms] moves_commit [OF assms] moves_rollback [OF assms] moves_release [OF assms] find
    in \<open>auto simp: rm_set_total_def rm_set_overcommit_mode_def rm_set_overcommit_allowance_def\<close>)

lemma moves_run:
  assumes "rm_wf m" and "om_find (rm_reservations m) j = Some w"
  shows "\<exists>w'. om_find (rm_reservations (rm_run ops m)) j = Some w' \<and> same_grant w w'
    \<and> status_step\<^sup>*\<^sup>* (rsv_status w) (rsv_status w')"
  using assms
proof (induction ops arbitrary: m w)
  case (Cons op ops)
  obtain v where v: "om_find (rm_reservations (rm_exec op m)) j = Some v" and m: "moves w v"
    using moves_exec [OF Cons.prems] by blast
  from Cons.IH [OF rm_wf_exec [OF Cons.prems(1)] v] obtain w' where
    w': "om_find (rm_reservations (rm_run ops (rm_exec op m))) j = Some w'" and g: "same_grant v w'"
    and st: "status_step\<^sup>*\<^sup>* (rsv_status v) (rsv_status w')" by blast
  have "same_grant w w'" using m g by (auto simp: moves_def intro: same_grant_trans)
  moreover have "status_step\<^sup>*\<^sup>* (rsv_status w) (rsv_status w')"
    using m st by (auto simp: moves_def intro: converse_rtranclp_into_rtranclp)
  ultimately show ?case using w' by (simp add: rm_run_def)
qed (auto simp: rm_run_def)

text \<open>A reservation once in the table stays there with the same id, owner, demand, lifetime and
  generation, and its status only moves along the machine: Reserved to Committed, Released, RolledBack
  or Expired, then Committed or Expired to Released, whatever operations follow.\<close>

theorem reservation_lifecycle:
  assumes "om_find (rm_reservations (rm_run before rm_empty)) rid = Some r"
  shows "\<exists>r'. om_find (rm_reservations (rm_run (before @ after) rm_empty)) rid = Some r'
    \<and> rsv_id r' = rsv_id r \<and> rsv_owner r' = rsv_owner r \<and> rsv_demand r' = rsv_demand r
    \<and> rsv_created_at r' = rsv_created_at r \<and> rsv_expires_at r' = rsv_expires_at r
    \<and> rsv_generation r' = rsv_generation r
    \<and> status_step\<^sup>*\<^sup>* (rsv_status r) (rsv_status r')"
  using moves_run [OF rm_wf_run [OF rm_wf_empty] assms, of after]
  by (auto simp: rm_run_def same_grant_def)

lemma status_step_terminal:
  "status_step\<^sup>*\<^sup>* s t \<Longrightarrow> s = ReservationStatus_Released \<or> s = ReservationStatus_RolledBack \<Longrightarrow> t = s"
  by (induction rule: converse_rtranclp_induct) (auto simp: status_step_inv)

text \<open>A released or rolled back reservation is never live again: every later commit is refused,
  every later release and rollback succeeds without changing anything, and its id is never granted again.\<close>

theorem terminal_reservation_is_final:
  assumes "om_find (rm_reservations (rm_run before rm_empty)) rid = Some r"
    and "rsv_status r = ReservationStatus_Released \<or> rsv_status r = ReservationStatus_RolledBack"
  shows "rm_commit now rid ar gen (rm_run (before @ after) rm_empty)
      = (status_failure ErrorCode_OperationNotPermitted ''reservation not in reserved state'',
         rm_run (before @ after) rm_empty)
    \<and> rm_release rid (rm_run (before @ after) rm_empty) = (status_success, rm_run (before @ after) rm_empty)
    \<and> rm_rollback rid (rm_run (before @ after) rm_empty) = (status_success, rm_run (before @ after) rm_empty)
    \<and> rm_reserve now rid owner demand ttl (rm_run (before @ after) rm_empty)
      = (result_fail ErrorCode_ReservationIdentityCollision ''reservation id already exists'',
         rm_run (before @ after) rm_empty)"
proof -
  obtain r' where find: "om_find (rm_reservations (rm_run (before @ after) rm_empty)) rid = Some r'"
    and "status_step\<^sup>*\<^sup>* (rsv_status r) (rsv_status r')"
    using moves_run [OF rm_wf_run [OF rm_wf_empty] assms(1), of after] by (auto simp: rm_run_def)
  then have "rsv_status r' = rsv_status r" using status_step_terminal assms(2) by blast
  with find assms(2) show ?thesis
    by (auto simp: rm_commit_def rm_release_def rm_rollback_def rm_reserve_def)
qed

lemma rm_empty_fields [simp]:
  "rm_reservations rm_empty = []" "rm_reserved_sum rm_empty = rv_zero" "rm_used_sum rm_empty = rv_zero"
  by (simp_all add: rm_empty_def)

lemma demo_fits:
  shows "unat (demo_demand i) \<le> unat (dim_ceiling rm_empty i)" and "\<not> rv_is_zero demo_demand"
proof -
  show "unat (demo_demand i) \<le> unat (dim_ceiling rm_empty i)"
    by (simp add: demo_demand_def rm_empty_def dim_ceiling_def kUnbounded_def u64_max_numeral)
  show "\<not> rv_is_zero demo_demand"
    by (auto simp: rv_is_zero_iff demo_demand_def intro!: exI [of _ HostMemory])
qed

lemma demo_reserved:
  "\<exists>r. om_find (rm_reservations (rm_run [OpReserve 0 (Id 1) (Id 7) demo_demand 10] rm_empty)) (Id 1) = Some r
     \<and> rsv_status r = ReservationStatus_Reserved"
proof -
  have "\<exists>y t. rm_reserve 0 (Id 1) (Id 7) demo_demand 10 rm_empty = (Inr y, t)"
    by (rule rm_reserve_total) (simp_all add: demo_fits)
  then obtain y t where e: "rm_reserve 0 (Id 1) (Id 7) demo_demand 10 rm_empty = (Inr y, t)" by blast
  from this [unfolded rm_reserve_Inr] have "om_find (rm_reservations t) (Id 1) \<noteq> None"
    and "\<And>r. om_find (rm_reservations t) (Id 1) = Some r \<Longrightarrow> rsv_status r = ReservationStatus_Reserved"
    by auto
  with e show ?thesis by (auto simp: rm_run_def)
qed

lemma reservation_lifecycle_witness:
  "\<exists>r'. om_find (rm_reservations (rm_run ([OpReserve 0 (Id 1) (Id 7) demo_demand 10]
      @ [OpCommit 5 (Id 1) (Id 9) (Id 1), OpRelease (Id 1)]) rm_empty)) (Id 1) = Some r'
    \<and> status_step\<^sup>*\<^sup>* ReservationStatus_Reserved (rsv_status r')"
  using demo_reserved reservation_lifecycle [of "[OpReserve 0 (Id 1) (Id 7) demo_demand 10]" "Id 1" _
      "[OpCommit 5 (Id 1) (Id 9) (Id 1), OpRelease (Id 1)]"]
  by fastforce

lemma demo_released:
  "\<exists>r. om_find (rm_reservations (rm_run [OpReserve 0 (Id 1) (Id 7) demo_demand 10, OpRelease (Id 1)] rm_empty)) (Id 1)
     = Some r \<and> rsv_status r = ReservationStatus_Released"
proof -
  let ?m = "rm_run [OpReserve 0 (Id 1) (Id 7) demo_demand 10] rm_empty"
  obtain r where find: "om_find (rm_reservations ?m) (Id 1) = Some r" and st: "rsv_status r = ReservationStatus_Reserved"
    using demo_reserved by blast
  have wf: "rm_wf ?m" by (rule rm_wf_run) simp
  obtain r2 where "try_sub (rm_reserved_sum ?m) (rsv_demand r) = Some r2"
    by (rule reserved_sub_total [OF wf find st])
  then have "om_find (rm_reservations (rm_exec (OpRelease (Id 1)) ?m)) (Id 1)
      = Some (r\<lparr>rsv_status := ReservationStatus_Released\<rparr>)"
    using find st rm_wf_om_ok [OF wf] by (simp add: rm_release_def Let_def om_find_put)
  then show ?thesis by (simp add: rm_run_def)
qed

lemma terminal_reservation_is_final_witness:
  "rm_release (Id 1) (rm_run ([OpReserve 0 (Id 1) (Id 7) demo_demand 10, OpRelease (Id 1)] @ [OpExpireStale 99]) rm_empty)
    = (status_success,
       rm_run ([OpReserve 0 (Id 1) (Id 7) demo_demand 10, OpRelease (Id 1)] @ [OpExpireStale 99]) rm_empty)"
  using demo_released terminal_reservation_is_final [of "[OpReserve 0 (Id 1) (Id 7) demo_demand 10, OpRelease (Id 1)]"
      "Id 1" _ _ _ _ "[OpExpireStale 99]"]
  by blast

section \<open>Refinement of the two-phase account\<close>

text \<open>A call of the manager on behalf of one reservation.\<close>

record rm_handle =
  h_now :: i64
  h_id :: ReservationId
  h_owner :: TenantId
  h_demand :: ResourceVector
  h_ttl :: i64
  h_commit_now :: i64
  h_request :: AdmissionRequestId
  h_generation :: AdmissionGeneration

definition hold_of :: "rm_handle \<Rightarrow> ReservationManager \<Rightarrow> bool \<times> ReservationManager" where
  "hold_of h m = (case rm_reserve (h_now h) (h_id h) (h_owner h) (h_demand h) (h_ttl h) m of
     (Inl e, m') \<Rightarrow> (False, m') | (Inr x, m') \<Rightarrow> (True, m'))"

definition settle_of :: "rm_handle \<Rightarrow> ReservationManager \<Rightarrow> bool \<times> ReservationManager" where
  "settle_of h m = (case rm_commit (h_commit_now h) (h_id h) (h_request h) (h_generation h) m of
     (s, m') \<Rightarrow> (status_ok s, m'))"

definition undo_of :: "rm_handle \<Rightarrow> ReservationManager \<Rightarrow> bool \<times> ReservationManager" where
  "undo_of h m = (case rm_rollback (h_id h) m of (s, m') \<Rightarrow> (status_ok s, m'))"

definition free_of :: "rm_handle \<Rightarrow> ReservationManager \<Rightarrow> bool \<times> ReservationManager" where
  "free_of h m = (case rm_release (h_id h) m of (s, m') \<Rightarrow> (status_ok s, m'))"

definition entry_is :: "ReservationStatus \<Rightarrow> ReservationManager \<Rightarrow> rm_handle \<Rightarrow> bool" where
  "entry_is st m h \<longleftrightarrow> (case om_find (rm_reservations m) (h_id h) of
     None \<Rightarrow> False | Some r \<Rightarrow> rsv_status r = st \<and> rsv_demand r = h_demand h)"

lemma entry_isE:
  assumes "entry_is st m h"
  obtains r where "om_find (rm_reservations m) (h_id h) = Some r" and "rsv_status r = st" and "rsv_demand r = h_demand h"
  using assms by (auto simp: entry_is_def split: option.splits)

lemma settle_effect_rm:
  assumes wf: "rm_wf m" and p: "entry_is ReservationStatus_Reserved m h" and s: "settle_of h m = (True, m')"
  shows "rm_wf m'" and "try_sub (rm_reserved_sum m) (h_demand h) = Some (rm_reserved_sum m')"
    and "try_add (rm_used_sum m) (h_demand h) = Some (rm_used_sum m')"
    and "entry_is ReservationStatus_Committed m' h"
proof -
  obtain r where r: "om_find (rm_reservations m) (h_id h) = Some r" "rsv_status r = ReservationStatus_Reserved"
    "rsv_demand r = h_demand h" using p by (rule entry_isE)
  have live: "\<not> rsv_expires_at r <s h_commit_now h"
    using r s by (auto simp: settle_of_def rm_commit_def)
  obtain r2 u2 where e: "try_sub (rm_reserved_sum m) (rsv_demand r) = Some r2"
    "try_add (rm_used_sum m) (rsv_demand r) = Some u2"
    "rm_commit (h_commit_now h) (h_id h) (h_request h) (h_generation h) m = (status_success,
      rm_update (h_id h) (r\<lparr>rsv_status := ReservationStatus_Committed, rsv_admission_request_id := Some (h_request h),
        rsv_admission_generation := Some (h_generation h)\<rparr>) (m\<lparr>rm_reserved_sum := r2, rm_used_sum := u2\<rparr>))"
    by (rule rm_commit_effect [OF wf r(1,2) live])
  with s have m': "m' = rm_update (h_id h) (r\<lparr>rsv_status := ReservationStatus_Committed,
        rsv_admission_request_id := Some (h_request h), rsv_admission_generation := Some (h_generation h)\<rparr>)
        (m\<lparr>rm_reserved_sum := r2, rm_used_sum := u2\<rparr>)"
    by (simp add: settle_of_def)
  show "rm_wf m'" using rm_wf_commit [OF wf e(3)] m' by simp
  show "try_sub (rm_reserved_sum m) (h_demand h) = Some (rm_reserved_sum m')"
    and "try_add (rm_used_sum m) (h_demand h) = Some (rm_used_sum m')"
    using e(1,2) r(3) m' by simp_all
  show "entry_is ReservationStatus_Committed m' h"
    using r(3) m' rm_wf_om_ok [OF wf] by (simp add: entry_is_def om_find_put)
qed

interpretation manager: two_phase_account rm_reserved_sum rm_used_sum hold_of settle_of undo_of free_of
  h_demand "entry_is ReservationStatus_Reserved" "entry_is ReservationStatus_Committed" rm_wf
proof unfold_locales
  fix s t h
  show "rm_wf s \<Longrightarrow> hold_of h s = (True, t) \<Longrightarrow> rm_wf t"
    by (auto simp: hold_of_def intro: rm_wf_reserve split: prod.splits sum.splits)
  show "rm_wf s \<Longrightarrow> hold_of h s = (True, t) \<Longrightarrow> try_add (rm_reserved_sum s) (h_demand h) = Some (rm_reserved_sum t)
      \<and> rm_used_sum t = rm_used_sum s \<and> entry_is ReservationStatus_Reserved t h"
    by (auto simp: hold_of_def rm_reserve_Inr entry_is_def om_find_put rm_wf_om_ok split: prod.splits sum.splits)
  show "rm_wf s \<Longrightarrow> entry_is ReservationStatus_Reserved s h \<Longrightarrow> settle_of h s = (True, t) \<Longrightarrow> rm_wf t"
    by (rule settle_effect_rm(1))
  show "rm_wf s \<Longrightarrow> entry_is ReservationStatus_Reserved s h \<Longrightarrow> settle_of h s = (True, t) \<Longrightarrow>
      try_sub (rm_reserved_sum s) (h_demand h) = Some (rm_reserved_sum t)
      \<and> try_add (rm_used_sum s) (h_demand h) = Some (rm_used_sum t) \<and> entry_is ReservationStatus_Committed t h"
    using settle_effect_rm(2-4) by blast
  show "rm_wf s \<Longrightarrow> entry_is ReservationStatus_Reserved s h \<Longrightarrow> \<exists>t. undo_of h s = (True, t)
      \<and> try_sub (rm_reserved_sum s) (h_demand h) = Some (rm_reserved_sum t) \<and> rm_used_sum t = rm_used_sum s"
    by (elim entry_isE, rule rm_rollback_effect, assumption+) (simp add: undo_of_def)
  show "rm_wf s \<Longrightarrow> entry_is ReservationStatus_Committed s h \<Longrightarrow> \<exists>t. free_of h s = (True, t)
      \<and> try_sub (rm_used_sum s) (h_demand h) = Some (rm_used_sum t) \<and> rm_reserved_sum t = rm_reserved_sum s"
    by (elim entry_isE, rule rm_release_effect, assumption+) (simp add: free_of_def)
qed

lemmas handle_ops = hold_of_def settle_of_def undo_of_def free_of_def case_prod_beta

text \<open>A successful reserve followed by a rollback restores both sums exactly; reserve, commit and
  release in this order move the demand from reserved to used and back to nothing, for every commit
  time, request and generation the commit accepts.\<close>

theorem reserve_settle_roundtrip:
  assumes "rm_reserve now rid owner demand ttl (rm_run ops rm_empty) = (Inr x, t)"
  shows "(status_ok (fst (rm_rollback rid t))
      \<and> rm_reserved_sum (snd (rm_rollback rid t)) = rm_reserved_sum (rm_run ops rm_empty)
      \<and> rm_used_sum (snd (rm_rollback rid t)) = rm_used_sum (rm_run ops rm_empty))
    \<and> (status_ok (fst (rm_commit later rid ar gen t)) \<longrightarrow>
        (let u = snd (rm_commit later rid ar gen t); v = snd (rm_release rid u) in
           rm_reserved_sum u = rm_reserved_sum (rm_run ops rm_empty)
           \<and> try_add (rm_used_sum (rm_run ops rm_empty)) demand = Some (rm_used_sum u)
           \<and> status_ok (fst (rm_release rid u))
           \<and> rm_reserved_sum v = rm_reserved_sum (rm_run ops rm_empty)
           \<and> rm_used_sum v = rm_used_sum (rm_run ops rm_empty)))"
proof -
  let ?s = "rm_run ops rm_empty"
  let ?h = "\<lparr>h_now = now, h_id = rid, h_owner = owner, h_demand = demand, h_ttl = ttl, h_commit_now = later,
    h_request = ar, h_generation = gen\<rparr>"
  have wf: "rm_wf ?s" by (rule rm_wf_run) simp
  have hold: "hold_of ?h ?s = (True, t)" using assms by (simp add: hold_of_def)
  have settle: "settle_of ?h t = (True, snd (rm_commit later rid ar gen t))"
    if "status_ok (fst (rm_commit later rid ar gen t))"
    using that by (simp add: handle_ops)
  show ?thesis
    using manager.hold_undo [OF wf hold] manager.hold_settle_free [OF wf hold settle]
    by (simp add: handle_ops Let_def)
qed

lemma reserve_settle_roundtrip_witness:
  "\<exists>t. rm_reserve 0 (Id 1) (Id 7) demo_demand 10 (rm_run [] rm_empty) = (Inr (Id 1), t)
     \<and> rm_reserved_sum (snd (rm_rollback (Id 1) t)) = rm_reserved_sum (rm_run [] rm_empty)"
proof -
  have "\<exists>x t. rm_reserve 0 (Id 1) (Id 7) demo_demand 10 rm_empty = (Inr x, t)"
    by (rule rm_reserve_total) (simp_all add: demo_fits)
  then obtain x t where e: "rm_reserve 0 (Id 1) (Id 7) demo_demand 10 (rm_run [] rm_empty) = (Inr x, t)"
    by (auto simp: rm_run_def)
  moreover from e have "x = Id 1" by (simp add: rm_reserve_Inr)
  ultimately show ?thesis using reserve_settle_roundtrip [OF e] by blast
qed

text \<open>The manager seen as one account whose total is its ceiling.\<close>

definition account_of :: "ReservationManager \<Rightarrow> ResourceAccount" where
  "account_of m = \<lparr>acct_total = rm_ceiling m, acct_used = rm_used_sum m, acct_reserved = rm_reserved_sum m\<rparr>"

lemma account_of_reserve:
  assumes "om_find (rm_reservations m) rid = None" and "\<not> rv_is_zero demand"
  shows "account_reserve (account_of m) demand
    = (\<exists>x. fst (rm_reserve now rid owner demand ttl m) = Inr x, account_of (snd (rm_reserve now rid owner demand ttl m)))"
proof -
  have fits: "fits_in t (rm_ceiling m) \<longleftrightarrow> limiting_dimension resource_ids t m = None" for t
    by (simp add: limiting_dimension_None_iff fits_in_iff rm_ceiling_def)
  show ?thesis
    using assms
    by (auto simp: account_reserve_def account_of_def rm_reserve_def fits Let_def result_fail_def result_ok_def
        split: option.split)
qed

text \<open>For a new id and a demand that is not all-zero, reserving through the manager is reserving
  in one account whose total is the manager's ceiling: same verdict, same sums.\<close>

theorem reserve_refines_account:
  assumes "om_find (rm_reservations m) rid = None" and "\<not> rv_is_zero demand"
  shows "account_reserve (account_of m) demand
    = (isl (fst (rm_reserve now rid owner demand ttl m)) = False,
       account_of (snd (rm_reserve now rid owner demand ttl m)))"
  using account_of_reserve [OF assms, of now owner ttl]
  by (cases "fst (rm_reserve now rid owner demand ttl m)") simp_all

lemma reserve_refines_account_witness:
  "account_reserve (account_of rm_empty) demo_demand
    = (isl (fst (rm_reserve 0 (Id 1) (Id 7) demo_demand 10 rm_empty)) = False,
       account_of (snd (rm_reserve 0 (Id 1) (Id 7) demo_demand 10 rm_empty)))"
  by (rule reserve_refines_account) (simp_all add: demo_fits)

text \<open>C34: in every manager that operations and restores can produce, rolling a Reserved reservation back and
  releasing it succeed and are the account's rollback of its demand; releasing a Committed one succeeds and is
  the account's release; committing a Reserved one that has not expired is the account's commit, with the same
  verdict, and succeeds where the two sums fit together (so always, unless a restore has put in sums that do
  not).\<close>

theorem settlement_refines_account:
  assumes "om_find (rm_reservations (rm_calls cs rm_empty)) rid = Some r"
  shows "let m = rm_calls cs rm_empty in
    (rsv_status r = ReservationStatus_Reserved \<longrightarrow>
        status_ok (fst (rm_rollback rid m)) \<and> status_ok (fst (rm_release rid m))
        \<and> account_rollback (account_of m) (rsv_demand r) = (True, account_of (snd (rm_rollback rid m)))
        \<and> account_rollback (account_of m) (rsv_demand r) = (True, account_of (snd (rm_release rid m))))
    \<and> (rsv_status r = ReservationStatus_Committed \<longrightarrow>
        status_ok (fst (rm_release rid m))
        \<and> account_release (account_of m) (rsv_demand r) = (True, account_of (snd (rm_release rid m))))
    \<and> (rsv_status r = ReservationStatus_Reserved \<and> \<not> rsv_expires_at r <s now \<longrightarrow>
        account_commit (account_of m) (rsv_demand r)
          = (status_ok (fst (rm_commit now rid ar gen m)), account_of (snd (rm_commit now rid ar gen m)))
        \<and> ((\<forall>i. unat (rm_reserved_sum m i) + unat (rm_used_sum m i) < 2 ^ 64) \<longrightarrow>
             status_ok (fst (rm_commit now rid ar gen m))))"
proof -
  let ?m = "rm_calls cs rm_empty"
  note wf = restored_inv [of cs]
  have settled: "status_ok (fst (rm_rollback rid ?m)) \<and> status_ok (fst (rm_release rid ?m))
      \<and> account_rollback (account_of ?m) (rsv_demand r) = (True, account_of (snd (rm_rollback rid ?m)))
      \<and> account_rollback (account_of ?m) (rsv_demand r) = (True, account_of (snd (rm_release rid ?m)))"
    if c: "rsv_status r = ReservationStatus_Reserved"
  proof -
    obtain r2 where r2: "try_sub (rm_reserved_sum ?m) (rsv_demand r) = Some r2"
      by (rule rm_inv_reserved_sub [OF wf assms c])
    show ?thesis
      using assms c r2 try_sub_fits_in [OF r2]
      by (auto simp: account_rollback_def account_of_def rm_rollback_def rm_release_def Let_def)
  qed
  have released: "status_ok (fst (rm_release rid ?m))
      \<and> account_release (account_of ?m) (rsv_demand r) = (True, account_of (snd (rm_release rid ?m)))"
    if c: "rsv_status r = ReservationStatus_Committed"
  proof -
    obtain u2 where u2: "try_sub (rm_used_sum ?m) (rsv_demand r) = Some u2"
      by (rule rm_inv_used_sub [OF wf assms c])
    show ?thesis
      using assms c u2 try_sub_fits_in [OF u2] by (auto simp: account_release_def account_of_def rm_release_def Let_def)
  qed
  have committed: "account_commit (account_of ?m) (rsv_demand r)
        = (status_ok (fst (rm_commit now rid ar gen ?m)), account_of (snd (rm_commit now rid ar gen ?m)))
      \<and> ((\<forall>i. unat (rm_reserved_sum ?m i) + unat (rm_used_sum ?m i) < 2 ^ 64) \<longrightarrow>
           status_ok (fst (rm_commit now rid ar gen ?m)))"
    if c: "rsv_status r = ReservationStatus_Reserved" "\<not> rsv_expires_at r <s now"
  proof -
    obtain r2 where r2: "try_sub (rm_reserved_sum ?m) (rsv_demand r) = Some r2"
      by (rule rm_inv_reserved_sub [OF wf assms c(1)])
    have "status_ok (fst (rm_commit now rid ar gen ?m))"
      if "\<forall>i. unat (rm_reserved_sum ?m i) + unat (rm_used_sum ?m i) < 2 ^ 64"
      by (rule rm_inv_commit_effect [OF rm_inv_fits [OF wf that] assms c, of ar gen]) simp
    moreover have "account_commit (account_of ?m) (rsv_demand r)
        = (status_ok (fst (rm_commit now rid ar gen ?m)), account_of (snd (rm_commit now rid ar gen ?m)))"
      using assms c r2 try_sub_fits_in [OF r2]
      by (auto simp: account_commit_def account_of_def rm_commit_def split: option.split)
    ultimately show ?thesis by blast
  qed
  show ?thesis
    unfolding Let_def using settled released committed by blast
qed

lemma settlement_refines_account_witness:
  "\<exists>r m. m = rm_calls [CallOp (OpReserve 0 (Id 1) (Id 7) demo_demand 10)] rm_empty
    \<and> om_find (rm_reservations m) (Id 1) = Some r
    \<and> status_ok (fst (rm_rollback (Id 1) m))
    \<and> account_rollback (account_of m) (rsv_demand r) = (True, account_of (snd (rm_rollback (Id 1) m)))"
proof -
  have m: "rm_calls [CallOp (OpReserve 0 (Id 1) (Id 7) demo_demand 10)] rm_empty
      = rm_run [OpReserve 0 (Id 1) (Id 7) demo_demand 10] rm_empty"
    by (simp add: rm_calls_def rm_run_def)
  obtain r where r: "om_find (rm_reservations (rm_calls [CallOp (OpReserve 0 (Id 1) (Id 7) demo_demand 10)] rm_empty)) (Id 1) = Some r"
    "rsv_status r = ReservationStatus_Reserved"
    using demo_reserved unfolding m by blast
  show ?thesis using settlement_refines_account [OF r(1)] r unfolding Let_def by blast
qed

section \<open>Recovery\<close>

text \<open>On a list of distinct ids the loop of \<open>restore\<close> accepts exactly the lists whose entries are
  all reserved or committed or carry no demand, and whose sums do not overflow.\<close>

lemma restore_loop_terminal:
  "(k, r) \<in> set t \<Longrightarrow> \<not> rv_is_zero (rsv_demand r)
   \<Longrightarrow> rsv_status r \<noteq> ReservationStatus_Reserved \<Longrightarrow> rsv_status r \<noteq> ReservationStatus_Committed
   \<Longrightarrow> \<exists>e. restore_loop (map snd t) seen a b = Inl e \<and> \<not> status_ok e"
  by (induction "map snd t" seen a b arbitrary: t rule: restore_loop.induct) (force split: option.split)+

lemma restore_loop_accounting:
  assumes "distinct (map rsv_id (map snd t))" and "set seen \<inter> set (map rsv_id (map snd t)) = {}"
    and "\<forall>(k, r) \<in> set t. rsv_status r \<in> {ReservationStatus_Reserved, ReservationStatus_Committed}"
  shows "restore_loop (map snd t) seen a b = Inr s \<longleftrightarrow> accounting_loop t a b = Some s"
  using assms
proof (induction t a b arbitrary: seen rule: accounting_loop.induct)
  case (1 a b)
  show ?case by (cases s) auto
next
  case (2 k r es a b)
  then show ?case by (force split: option.split)
qed

lemma fold_om_put_sorted:
  fixes t :: "(ReservationId, ResourceReservation) omap"
  assumes "om_ok t" and "\<forall>(k, r) \<in> set t. rsv_id r = k"
  shows "fold (\<lambda>r u. om_put (rsv_id r) r u) (map snd t) [] = t"
proof -
  have "om_ok (s @ t) \<Longrightarrow> fold (\<lambda>r u. om_put (rsv_id r) r u) (map snd t) s = s @ t" for s
    using assms(2)
  proof (induction t arbitrary: s)
    case (Cons e t)
    obtain k r where e: "e = (k, r)" by (cases e)
    have "om_put k r s = s @ [(k, r)]" if "\<forall>j \<in> fst ` set s. j < k" for s
      using that by (induction s) auto
    moreover have "\<forall>j \<in> fst ` set s. j < k"
      using Cons.prems(1) by (auto simp: om_ok_def e sorted_wrt_append)
    ultimately show ?case
      using Cons.IH [of "s @ [(k, r)]"] Cons.prems by (simp add: e)
  qed simp
  from this [of "[]"] assms(1) show ?thesis by simp
qed

text \<open>Feeding a manager's own table and sums back to \<open>restore\<close>, as recovery does, succeeds exactly
  when no reservation of the table is terminal, and then the restored manager has the same table and
  sums. A released, rolled back or expired reservation keeps its demand, so its presence makes the
  recovery of a correctly saved state fail.\<close>

theorem restore_own_state_iff:
  "(status_ok (fst (rm_restore (map snd (rm_reservations (rm_run ops rm_empty)))
       (rm_reserved_sum (rm_run ops rm_empty)) (rm_used_sum (rm_run ops rm_empty)) m0)) \<longleftrightarrow>
     list_all (\<lambda>(k, r). rsv_status r = ReservationStatus_Reserved \<or> rsv_status r = ReservationStatus_Committed)
       (rm_reservations (rm_run ops rm_empty)))
   \<and> (let (s, m') = rm_restore (map snd (rm_reservations (rm_run ops rm_empty)))
          (rm_reserved_sum (rm_run ops rm_empty)) (rm_used_sum (rm_run ops rm_empty)) m0
      in if status_ok s then rm_reservations m' = rm_reservations (rm_run ops rm_empty)
           \<and> rm_reserved_sum m' = rm_reserved_sum (rm_run ops rm_empty)
           \<and> rm_used_sum m' = rm_used_sum (rm_run ops rm_empty)
         else m' = m0)"
proof -
  let ?m = "rm_run ops rm_empty"
  let ?t = "rm_reservations ?m"
  have wf: "rm_wf ?m" by (rule rm_wf_run) simp
  then have ids: "\<forall>(k, r) \<in> set ?t. rsv_id r = k" and nz: "\<forall>(k, r) \<in> set ?t. \<not> rv_is_zero (rsv_demand r)"
    and ok: "om_ok ?t"
    by (auto simp: rm_wf_def table_wf_def)
  have "map rsv_id (map snd ?t) = map fst ?t" using ids by auto
  then have dist: "distinct (map rsv_id (map snd ?t))" using om_ok_distinct [OF ok] by metis
  show ?thesis
  proof (cases "\<forall>(k, r) \<in> set ?t. rsv_status r \<in> {ReservationStatus_Reserved, ReservationStatus_Committed}")
    case True
    then have "restore_loop (map snd ?t) [] rv_zero rv_zero = Inr (rm_reserved_sum ?m, rm_used_sum ?m)"
      using restore_loop_accounting [OF dist, of "[]"] accounting_loop_table [OF wf] by simp
    then show ?thesis
      using True fold_om_put_sorted [OF ok ids] by (auto simp: rm_restore_def list_all_iff)
  next
    case False
    then obtain k r where "(k, r) \<in> set ?t" and "rsv_status r \<noteq> ReservationStatus_Reserved"
      and "rsv_status r \<noteq> ReservationStatus_Committed" by auto
    then have "\<exists>e. restore_loop (map snd ?t) [] rv_zero rv_zero = Inl e \<and> \<not> status_ok e"
      using nz by (intro restore_loop_terminal) auto
    then show ?thesis
      using False by (auto simp: rm_restore_def list_all_iff)
  qed
qed

end
