(* ===== verification/Prediction_Spec.thy ===== *)
theory Prediction_Spec
  imports Prediction
begin

text \<open>
  What the predictor guarantees: the profile table and its keys, the exact cold-start estimate, the
  bounds of what observations can change; and the inputs for which its arithmetic leaves its range.
\<close>

section \<open>Constant ratios\<close>

lemma lit_bits [simp]:
  "f64_lit 10 100 = 0x3FB999999999999A"
  "f64_lit 5 100 = 0x3FA999999999999A"
  "f64_lit 15 100 = 0x3FC3333333333333"
  "f64_lit 8 100 = 0x3FB47AE147AE147B"
  "f64_lit 8 10 = 0x3FE999999999999A"
  "f64_nat 2 = 0x4000000000000000"
  "f64_lit 2 10 = 0x3FC999999999999A"
  "f64_nat 5 = 0x4014000000000000"
  "f64_lit 6 10 = 0x3FE3333333333333"
  "f64_lit 4 10 = 0x3FD999999999999A"
  "f64_nat 1000 = 0x408F400000000000"
  by (simp_all add: f64_eval cong: let_weak_cong)

lemma milli_eval:
  "f64_trunc (f64_mul 0x3FB999999999999A 0x408F400000000000) = Some 100"
  "f64_trunc (f64_mul 0x3FA999999999999A 0x408F400000000000) = Some 50"
  "f64_trunc (f64_mul 0x3FC3333333333333 0x408F400000000000) = Some 150"
  "f64_trunc (f64_mul 0x3FB47AE147AE147B 0x408F400000000000) = Some 80"
  "f64_trunc (f64_mul 0x3FE999999999999A 0x408F400000000000) = Some 800"
  "f64_trunc (f64_mul 0x4000000000000000 0x408F400000000000) = Some 2000"
  by (simp_all add: f64_eval cong: let_weak_cong)

lemma ratio_positive:
  "\<not> f64_le 0x3FB999999999999A f64_zero" "\<not> f64_le 0x3FA999999999999A f64_zero"
  "\<not> f64_le 0x3FC3333333333333 f64_zero" "\<not> f64_le 0x3FB47AE147AE147B f64_zero"
  by (simp_all add: f64_eval cong: let_weak_cong)

text \<open>\<open>rat_of\<close> multiplies by a number of thousandths and saturates.\<close>

lemma rat_of_milli:
  assumes "f64_trunc (f64_mul ratio (f64_nat 1000)) = Some k" and "0 \<le> k" and "k < 2 ^ 64"
    and "\<not> f64_le ratio f64_zero"
  shows "unat (rat_of pf b ratio) =
    (if unat b * nat k < 2 ^ 64 then unat b * nat k div 1000 else 2 ^ 64 - 1)"
proof (cases "b = 0")
  case True
  then show ?thesis by (simp add: rat_of_def)
next
  case False
  have k: "unat (f64_to_u64 pf (f64_mul ratio (f64_nat 1000))) = nat k"
    using assms(1-3) unat_of_int_u64 [OF assms(2,3)] by (simp add: f64_to_u64_def)
  show ?thesis
    using False assms(4) k by (auto simp: rat_of_def checked_nat unat_div split: option.split)
qed

section \<open>The cold-start estimate\<close>

lemma rat_of_15_8:
  "unat (rat_of pf b (f64_lit 15 100)) = (if unat b * 150 < 2 ^ 64 then unat b * 150 div 1000 else 2 ^ 64 - 1)"
  "unat (rat_of pf b (f64_lit 8 100)) = (if unat b * 80 < 2 ^ 64 then unat b * 80 div 1000 else 2 ^ 64 - 1)"
  "unat (rat_of pf b (f64_lit 10 100)) = (if unat b * 100 < 2 ^ 64 then unat b * 100 div 1000 else 2 ^ 64 - 1)"
  "unat (rat_of pf b (f64_lit 5 100)) = (if unat b * 50 < 2 ^ 64 then unat b * 50 div 1000 else 2 ^ 64 - 1)"
proof -
  show "unat (rat_of pf b (f64_lit 15 100)) = (if unat b * 150 < 2 ^ 64 then unat b * 150 div 1000 else 2 ^ 64 - 1)"
    using rat_of_milli [of "f64_lit 15 100" 150 pf b] by (simp add: milli_eval ratio_positive)
  show "unat (rat_of pf b (f64_lit 8 100)) = (if unat b * 80 < 2 ^ 64 then unat b * 80 div 1000 else 2 ^ 64 - 1)"
    using rat_of_milli [of "f64_lit 8 100" 80 pf b] by (simp add: milli_eval ratio_positive)
  show "unat (rat_of pf b (f64_lit 10 100)) = (if unat b * 100 < 2 ^ 64 then unat b * 100 div 1000 else 2 ^ 64 - 1)"
    using rat_of_milli [of "f64_lit 10 100" 100 pf b] by (simp add: milli_eval ratio_positive)
  show "unat (rat_of pf b (f64_lit 5 100)) = (if unat b * 50 < 2 ^ 64 then unat b * 50 div 1000 else 2 ^ 64 - 1)"
    using rat_of_milli [of "f64_lit 5 100" 50 pf b] by (simp add: milli_eval ratio_positive)
qed

lemma unat_add_bounded: "unat (a :: u64) + unat b < 2 ^ 64 \<Longrightarrow> unat (a + b) = unat a + unat b"
  by (simp add: unat_word_ariths)

lemma unat_multiply_checked:
  "unat (multiply_checked a b) = (if unat a * unat b < 2 ^ 64 then unat a * unat b else 2 ^ 64 - 1)"
  by (auto simp: multiply_checked_def checked_nat split: option.split)

text \<open>The token count the cold-start estimate uses.\<close>

definition cold_tokens :: "AdmissionDescriptor \<Rightarrow> nat" where
  "cold_tokens d = (let t = unat (d_input_tokens d) + unat (output_budget d) in if t = 0 then 1 else t)"

lemma cold_tokens_bound:
  assumes "status_ok (descriptor_validate d)"
  shows "0 < cold_tokens d" and "cold_tokens d \<le> 2 ^ 41"
    and "unat (if d_input_tokens d + output_budget d = 0 then 1 else d_input_tokens d + output_budget d) = cold_tokens d"
proof -
  have b: "unat (d_input_tokens d) \<le> 2 ^ 40" "unat (output_budget d) \<le> 2 ^ 40"
    using descriptor_valid_tokens [OF assms] by (auto simp: output_budget_def word_le_nat_alt token_limit_numeral)
  then have s: "unat (d_input_tokens d + output_budget d) = unat (d_input_tokens d) + unat (output_budget d)"
    by (intro unat_add_bounded) simp
  show "0 < cold_tokens d" and "cold_tokens d \<le> 2 ^ 41" using b by (auto simp: cold_tokens_def Let_def)
  show "unat (if d_input_tokens d + output_budget d = 0 then 1 else d_input_tokens d + output_budget d) = cold_tokens d"
    using s by (auto simp: cold_tokens_def Let_def unat_eq_0 [symmetric])
qed

lemma fallback_footprint_exact:
  assumes "status_ok (descriptor_validate d)"
  shows "fp_request_local (fallback_footprint pf d) = 0 \<and> fp_workspace (fallback_footprint pf d) = 0
      \<and> fp_pinned_staging (fallback_footprint pf d) = 0
      \<and> fp_fixed_model (fallback_footprint pf d) = 268435456 \<and> fp_staging (fallback_footprint pf d) = 67108864
      \<and> unat (fp_kv_growth (fallback_footprint pf d)) = 8 * cold_tokens d
      \<and> unat (fp_tensor_state (fallback_footprint pf d)) = 8 * cold_tokens d"
    and "unat (fp_base (fallback_footprint pf d)) = 335544320 + 16 * cold_tokens d"
    and "unat (fp_safety_margin (fallback_footprint pf d)) = (335544320 + 16 * cold_tokens d) * 150 div 1000"
    and "unat (fp_fragmentation_allowance (fallback_footprint pf d)) = (335544320 + 16 * cold_tokens d) * 80 div 1000"
proof -
  note t = cold_tokens_bound [OF assms]
  let ?total = "if d_input_tokens d + output_budget d = 0 then 1 else d_input_tokens d + output_budget d"
  define f where "f = default_footprint\<lparr>fp_fixed_model := 256 * 1024 * 1024, fp_kv_growth := multiply_checked 8 ?total,
            fp_tensor_state := multiply_checked 8 ?total, fp_staging := 64 * 1024 * 1024\<rparr>"
  have ff: "fallback_footprint pf d = f\<lparr>fp_safety_margin := rat_of pf (fp_base f) (f64_lit 15 100),
           fp_fragmentation_allowance := rat_of pf (fp_base f) (f64_lit 8 100)\<rparr>"
    by (simp only: fallback_footprint_def Let_def f_def)
  have kv: "unat (multiply_checked 8 ?total) = 8 * cold_tokens d"
    using t(2) by (simp only: unat_multiply_checked t(3)) simp
  have base: "unat (fp_base f) = 335544320 + 16 * cold_tokens d"
    using t(2) kv by (simp add: fp_base_def f_def default_footprint_def unat_word_ariths)
  then show "unat (fp_base (fallback_footprint pf d)) = 335544320 + 16 * cold_tokens d"
    by (simp add: ff fp_base_def)
  show "unat (fp_safety_margin (fallback_footprint pf d)) = (335544320 + 16 * cold_tokens d) * 150 div 1000"
    and "unat (fp_fragmentation_allowance (fallback_footprint pf d)) = (335544320 + 16 * cold_tokens d) * 80 div 1000"
    using t(2) unfolding ff by (simp_all add: rat_of_15_8 base del: lit_bits)
  show "fp_request_local (fallback_footprint pf d) = 0 \<and> fp_workspace (fallback_footprint pf d) = 0
      \<and> fp_pinned_staging (fallback_footprint pf d) = 0
      \<and> fp_fixed_model (fallback_footprint pf d) = 268435456 \<and> fp_staging (fallback_footprint pf d) = 67108864
      \<and> unat (fp_kv_growth (fallback_footprint pf d)) = 8 * cold_tokens d
      \<and> unat (fp_tensor_state (fallback_footprint pf d)) = 8 * cold_tokens d"
    using kv unfolding ff by (simp add: f_def default_footprint_def)
qed

lemma cold_demand:
  assumes "status_ok (descriptor_validate d)" and "bound_profile wp d = None"
  shows "unat (predict_demand pf wp d AcceleratorMemory)
      = 335544320 + 16 * cold_tokens d + (335544320 + 16 * cold_tokens d) * 150 div 1000
        + (335544320 + 16 * cold_tokens d) * 80 div 1000
    \<and> unat (predict_demand pf wp d HostMemory) = 335544320 + 8 * cold_tokens d
    \<and> unat (predict_demand pf wp d KvCapacity) = 8 * cold_tokens d
    \<and> unat (predict_demand pf wp d TensorState) = 8 * cold_tokens d
    \<and> predict_demand pf wp d ExecutionSlots = 1 \<and> predict_demand pf wp d SequenceSlots = 1
    \<and> predict_demand pf wp d PinnedHostMemory = 0
    \<and> mp_fallback (predict_memory pf wp d)
    \<and> \<not> rv_is_zero (predict_demand pf wp d)"
proof -
  let ?f = "fallback_footprint pf d"
  note t = cold_tokens_bound [OF assms(1)]
  note e = fallback_footprint_exact [OF assms(1), of pf]
  have mp: "mp_footprint (predict_memory pf wp d) = ?f" and fb: "mp_fallback (predict_memory pf wp d)"
    using assms(2) by (simp_all add: predict_memory_def Let_def case_prod_beta)
  have peak: "unat (fp_peak ?f) = 335544320 + 16 * cold_tokens d + (335544320 + 16 * cold_tokens d) * 150 div 1000
        + (335544320 + 16 * cold_tokens d) * 80 div 1000"
    unfolding fp_peak_def using e(2-4) t(2) by (simp add: unat_word_ariths)
  have sus: "unat (fp_sustained ?f) = 335544320 + 8 * cold_tokens d"
    unfolding fp_sustained_def using e(1) t(2) by (simp add: unat_word_ariths)
  have slot: "predict_demand pf wp d ExecutionSlots = 1"
    using assms(2) by (simp add: predict_demand_def Let_def)
  then have "\<not> rv_is_zero (predict_demand pf wp d)" by (auto simp: rv_is_zero_iff intro!: exI [of _ ExecutionSlots])
  then show ?thesis
    using assms(2) peak sus e(1) mp fb by (simp add: predict_demand_def Let_def)
qed

text \<open>For a valid descriptor with no bound profile the predicted demand is exact and free of
  wrap-around on every platform: 8 bytes per token of KV and of tensor state, 256 MiB fixed, 64 MiB
  staging, plus 15 and 8 percent rounded down, one execution and one sequence slot; it is marked as a
  fallback with at most 0.30 confidence computed from 0.10 and 0.20.\<close>

theorem cold_start_demand_exact:
  assumes "status_ok (descriptor_validate d)" and "bound_profile wp d = None"
  shows "unat (predict_demand pf wp d AcceleratorMemory)
      = 335544320 + 16 * cold_tokens d + (335544320 + 16 * cold_tokens d) * 150 div 1000
        + (335544320 + 16 * cold_tokens d) * 80 div 1000
    \<and> unat (predict_demand pf wp d HostMemory) = 335544320 + 8 * cold_tokens d
    \<and> unat (predict_demand pf wp d KvCapacity) = 8 * cold_tokens d
    \<and> unat (predict_demand pf wp d TensorState) = 8 * cold_tokens d
    \<and> predict_demand pf wp d ExecutionSlots = 1 \<and> predict_demand pf wp d SequenceSlots = 1
    \<and> predict_demand pf wp d PinnedHostMemory = 0
    \<and> mp_fallback (predict_memory pf wp d)
    \<and> \<not> rv_is_zero (predict_demand pf wp d)"
  by (rule cold_demand [OF assms])

text \<open>Some platform, for examples.\<close>

definition demo_platform :: platform where
  "demo_platform = \<lparr>libm_exp = (\<lambda>_. f64_zero), oob_u64 = (\<lambda>_. 0), oob_i64 = (\<lambda>_. 0)\<rparr>"

lemma cold_start_demand_exact_witness:
  "unat (predict_demand demo_platform predictor_empty demo_descriptor KvCapacity) = 8 * cold_tokens demo_descriptor
   \<and> cold_tokens demo_descriptor = 150"
proof -
  have "bound_profile predictor_empty demo_descriptor = None"
    by (simp add: bound_profile_def profile_for_descriptor_def predictor_empty_def Let_def)
  then have "unat (predict_demand demo_platform predictor_empty demo_descriptor KvCapacity) = 8 * cold_tokens demo_descriptor"
    using cold_start_demand_exact [OF demo_descriptor_valid] by simp
  moreover have "cold_tokens demo_descriptor = 150"
    by (simp add: cold_tokens_def demo_descriptor_def default_descriptor_def output_budget_def)
  ultimately show ?thesis ..
qed

section \<open>The profile table\<close>

definition profiles_ok :: "WorkloadPredictor \<Rightarrow> bool" where
  "profiles_ok wp \<longleftrightarrow> om_ok (wp_profs wp) \<and> om_ok (wp_seen wp) \<and> om_ok (wp_learn wp)
     \<and> length (wp_profs wp) \<le> kMaxProfiles
     \<and> (\<forall>k. om_find (wp_seen wp) k = Some True \<longleftrightarrow> om_find (wp_profs wp) k \<noteq> None)"

lemma om_put_length: "om_ok m \<Longrightarrow> length (om_put k v m) = (if om_find m k = None then Suc (length m) else length m)"
proof (induction k v m rule: om_put.induct)
  case (2 k v j w m)
  have "om_find m k = None" if "k < j"
    using that "2.prems" by (auto simp: om_find_None)
  with 2 show ?case by auto
qed simp

lemma register_profile_cases:
  assumes ok: "profiles_ok wp"
  obtains (stored) wp' where "register_profile p wp = (True, wp')" and "profiles_ok wp'"
      and "wp_profs wp' = om_put (profile_key p) (p\<lparr>pp_generation := predictor_next_generation (wp_generation wp)\<rparr>) (wp_profs wp)"
      and "om_find (wp_profs wp) (profile_key p) \<noteq> None \<or> length (wp_profs wp) < kMaxProfiles"
      and "wp_learn wp' = wp_learn wp" and "wp_generation wp' = predictor_next_generation (wp_generation wp)"
    | (full) wp' where "register_profile p wp = (False, wp')" and "profiles_ok wp'" and "wp_profs wp' = wp_profs wp"
      and "om_find (wp_profs wp) (profile_key p) = None" and "length (wp_profs wp) = kMaxProfiles"
      and "wp_learn wp' = wp_learn wp" and "wp_generation wp' = wp_generation wp"
proof -
  let ?k = "profile_key p"
  define seen0 where "seen0 = (if om_find (wp_seen wp) ?k = None then om_put ?k False (wp_seen wp) else wp_seen wp)"
  have s_ok: "om_ok seen0" using ok by (simp add: seen0_def profiles_ok_def om_ok_put)
  have s_find: "om_find seen0 j = Some True \<longleftrightarrow> om_find (wp_profs wp) j \<noteq> None" for j
  proof -
    have sp: "om_find (wp_seen wp) j = Some True \<longleftrightarrow> om_find (wp_profs wp) j \<noteq> None" for j
      using ok by (simp add: profiles_ok_def)
    have "om_ok (wp_seen wp)" using ok by (simp add: profiles_ok_def)
    then show ?thesis using sp [of j] by (auto simp: seen0_def om_find_put simp del: not_None_eq)
  qed
  show ?thesis
  proof (cases "om_find seen0 ?k \<noteq> Some True \<and> length (wp_profs wp) \<ge> kMaxProfiles")
    case True
    then have "register_profile p wp = (False, wp\<lparr>wp_seen := seen0\<rparr>)"
      by (simp add: register_profile_def Let_def seen0_def)
    moreover have "profiles_ok (wp\<lparr>wp_seen := seen0\<rparr>)"
      using ok s_ok s_find by (simp add: profiles_ok_def)
    ultimately show ?thesis
      using full [of "wp\<lparr>wp_seen := seen0\<rparr>"] True s_find [of ?k] ok by (simp add: profiles_ok_def)
  next
    case False
    let ?g = "predictor_next_generation (wp_generation wp)"
    let ?wp = "wp\<lparr>wp_seen := om_put ?k True seen0, wp_profs := om_put ?k (p\<lparr>pp_generation := ?g\<rparr>) (wp_profs wp),
      wp_generation := ?g\<rparr>"
    have r: "register_profile p wp = (True, ?wp)"
      using False unfolding register_profile_def Let_def seen0_def [symmetric] by (simp only: if_False)
    have fit: "om_find (wp_profs wp) ?k \<noteq> None \<or> length (wp_profs wp) < kMaxProfiles"
      using False s_find [of ?k] by auto
    then have "profiles_ok ?wp"
      using ok s_ok s_find by (auto simp: profiles_ok_def om_ok_put om_find_put om_put_length)
    then show ?thesis using stored [OF r] fit by simp
  qed
qed

lemma profiles_ok_observe: "profiles_ok wp \<Longrightarrow> profiles_ok (predictor_observe ob wp)"
  by (simp add: profiles_ok_def predictor_observe_def Let_def om_ok_put)

text \<open>What a client can do to the predictor.\<close>

datatype predictor_op = PRegister PredictionProfile | PObserve Observation

primrec predictor_exec :: "predictor_op \<Rightarrow> WorkloadPredictor \<Rightarrow> WorkloadPredictor" where
  "predictor_exec (PRegister p) wp = snd (register_profile p wp)"
| "predictor_exec (PObserve ob) wp = predictor_observe ob wp"

definition predictor_run :: "predictor_op list \<Rightarrow> WorkloadPredictor" where
  "predictor_run ops = fold predictor_exec ops predictor_empty"

lemma profiles_ok_run: "profiles_ok (predictor_run ops)"
proof -
  have step: "profiles_ok wp \<Longrightarrow> profiles_ok (predictor_exec op wp)" for op wp
    by (cases op) (auto intro: profiles_ok_observe, metis register_profile_cases snd_conv)
  have "profiles_ok wp \<Longrightarrow> profiles_ok (fold predictor_exec ops wp)" for wp
    by (induction ops arbitrary: wp) (simp_all add: step)
  moreover have "profiles_ok predictor_empty"
    by (simp add: profiles_ok_def predictor_empty_def)
  ultimately show ?thesis by (simp add: predictor_run_def)
qed

text \<open>After any sequence of registrations and observations the table holds at most 256 profiles, and a
  further registration either stores the profile under its key with a fresh generation, so that the
  lookup of a descriptor with this key finds it, or is refused, exactly when the table is full and the
  key is new, and then changes no profile.\<close>

theorem register_profile_bounded:
  "length (wp_profs (predictor_run ops)) \<le> kMaxProfiles
   \<and> (case register_profile p (predictor_run ops) of
        (True, wp') \<Rightarrow>
          profile_for_descriptor wp' (d\<lparr>d_model_id := pp_model_id p, d_model_revision := pp_revision p,
            d_backend := pp_backend p, d_dtype := pp_dtype p, d_quantization := pp_quantization p\<rparr>)
          = Some (p\<lparr>pp_generation := wp_generation wp'\<rparr>)
          \<and> ((\<exists>q. om_find (wp_profs (predictor_run ops)) (profile_key p) = Some q)
             \<or> length (wp_profs (predictor_run ops)) < kMaxProfiles)
      | (False, wp') \<Rightarrow>
          wp_profs wp' = wp_profs (predictor_run ops)
          \<and> om_find (wp_profs (predictor_run ops)) (profile_key p) = None
          \<and> length (wp_profs (predictor_run ops)) = kMaxProfiles)"
  using profiles_ok_run [of ops]
proof (cases rule: register_profile_cases [of _ p])
  case (stored wp')
  have ok: "om_ok (wp_profs (predictor_run ops))" and "length (wp_profs (predictor_run ops)) \<le> kMaxProfiles"
    using profiles_ok_run [of ops] by (simp_all add: profiles_ok_def)
  then show ?thesis
    using stored(1,3,4,6)
    by (simp add: profile_for_descriptor_def descriptor_key_def profile_key_def om_find_put [OF ok])
next
  case (full wp')
  then show ?thesis using profiles_ok_run [of ops] by (simp add: profiles_ok_def)
qed

section \<open>Keys\<close>

lemma split_at_semicolon:
  assumes "CHR '';'' \<notin> set a" and "CHR '';'' \<notin> set b" and "a @ CHR '';'' # x = b @ CHR '';'' # y"
  shows "a = b \<and> x = y"
  using assms
proof (induction a arbitrary: b)
  case Nil
  then show ?case by (cases b) auto
next
  case (Cons c a)
  then show ?case by (cases b) auto
qed

lemma to_string_no_semicolon: "CHR '';'' \<notin> set (to_string_u64 x)"
  using nat_to_string_digits [of "CHR '';''" "unat x"] by (auto simp: to_string_u64_def)

lemma make_key_inj:
  assumes "CHR '';'' \<notin> set be" "CHR '';'' \<notin> set be'" "CHR '';'' \<notin> set dt" "CHR '';'' \<notin> set dt'"
    and "make_key m r be dt q = make_key m' r' be' dt' q'"
  shows "m = m' \<and> r = r' \<and> be = be' \<and> dt = dt' \<and> q = q'"
proof -
  from assms(5) have "to_string_u64 (id_value m) @ CHR '';'' # (''rev='' @ to_string_u64 (id_value r) @ '';be='' @ be @ '';dt='' @ dt @ '';q='' @ q)
     = to_string_u64 (id_value m') @ CHR '';'' # (''rev='' @ to_string_u64 (id_value r') @ '';be='' @ be' @ '';dt='' @ dt' @ '';q='' @ q')"
    by (simp add: make_key_def)
  from split_at_semicolon [OF to_string_no_semicolon to_string_no_semicolon this]
  have m: "m = m'" and "to_string_u64 (id_value r) @ CHR '';'' # (''be='' @ be @ '';dt='' @ dt @ '';q='' @ q)
     = to_string_u64 (id_value r') @ CHR '';'' # (''be='' @ be' @ '';dt='' @ dt' @ '';q='' @ q')"
    by (auto simp: to_string_u64_inj intro: Id.expand)
  from split_at_semicolon [OF to_string_no_semicolon to_string_no_semicolon this(2)]
  have r: "r = r'" and "be @ CHR '';'' # (''dt='' @ dt @ '';q='' @ q) = be' @ CHR '';'' # (''dt='' @ dt' @ '';q='' @ q')"
    by (auto simp: to_string_u64_inj intro: Id.expand)
  from split_at_semicolon [OF assms(1,2) this(2)]
  have be: "be = be'" and "dt @ CHR '';'' # (''q='' @ q) = dt' @ CHR '';'' # (''q='' @ q')" by auto
  from split_at_semicolon [OF assms(3,4) this(2)] m r be show ?thesis by simp
qed

text \<open>Profile keys identify the model, revision, backend, dtype and quantization as long as backend and
  dtype contain no semicolon; with a semicolon two different profiles get the same key, and registering
  the second one replaces the first.\<close>

theorem profile_key_identifies:
  "(CHR '';'' \<notin> set (pp_backend p) \<and> CHR '';'' \<notin> set (pp_backend p')
      \<and> CHR '';'' \<notin> set (pp_dtype p) \<and> CHR '';'' \<notin> set (pp_dtype p')
    \<longrightarrow> (profile_key p = profile_key p' \<longleftrightarrow>
          pp_model_id p = pp_model_id p' \<and> pp_revision p = pp_revision p' \<and> pp_backend p = pp_backend p'
          \<and> pp_dtype p = pp_dtype p' \<and> pp_quantization p = pp_quantization p'))
   \<and> (let a = p\<lparr>pp_backend := ''cuda'', pp_dtype := ''x;dt=y''\<rparr>; b = p\<lparr>pp_backend := ''cuda;dt=x'', pp_dtype := ''y''\<rparr> in
        pp_backend a \<noteq> pp_backend b \<and> profile_key a = profile_key b)"
proof (intro conjI impI)
  assume "CHR '';'' \<notin> set (pp_backend p) \<and> CHR '';'' \<notin> set (pp_backend p')
      \<and> CHR '';'' \<notin> set (pp_dtype p) \<and> CHR '';'' \<notin> set (pp_dtype p')"
  then show "profile_key p = profile_key p' \<longleftrightarrow>
          pp_model_id p = pp_model_id p' \<and> pp_revision p = pp_revision p' \<and> pp_backend p = pp_backend p'
          \<and> pp_dtype p = pp_dtype p' \<and> pp_quantization p = pp_quantization p'"
    using make_key_inj [of "pp_backend p" "pp_backend p'" "pp_dtype p" "pp_dtype p'"] unfolding profile_key_def by metis
qed (simp add: profile_key_def make_key_def Let_def)

lemma profile_key_identifies_witness:
  "\<forall>p :: PredictionProfile. profile_key (p\<lparr>pp_model_id := Id 1, pp_backend := ''cuda'', pp_dtype := ''fp16''\<rparr>)
     \<noteq> profile_key (p\<lparr>pp_model_id := Id 12, pp_backend := ''cuda'', pp_dtype := ''fp16''\<rparr>)"
proof
  fix p :: PredictionProfile
  show "profile_key (p\<lparr>pp_model_id := Id 1, pp_backend := ''cuda'', pp_dtype := ''fp16''\<rparr>)
     \<noteq> profile_key (p\<lparr>pp_model_id := Id 12, pp_backend := ''cuda'', pp_dtype := ''fp16''\<rparr>)"
    using profile_key_identifies [of "p\<lparr>pp_model_id := Id 1, pp_backend := ''cuda'', pp_dtype := ''fp16''\<rparr>"
        "p\<lparr>pp_model_id := Id 12, pp_backend := ''cuda'', pp_dtype := ''fp16''\<rparr>"]
    by simp
qed

section \<open>What an observation can change\<close>

lemma nonneg_eval:
  "f64_nonneg 0x3FE999999999999A" "f64_nonneg 0x4000000000000000" "f64_nonneg 0x3FC999999999999A"
  "f64_nonneg 0x4014000000000000" "f64_nonneg 0x3FE3333333333333" "f64_nonneg 0x3FD999999999999A"
  "f64_nonneg 0x408F400000000000"
  by (simp_all add: f64_nonneg_def f64_sign_def f64_mag_def f64_inf_mag_def)

lemma adjustment_ratio_between: "f64_between (f64_lit 8 10) (f64_nat 2) (adjustment_ratio observed predicted)"
  unfolding adjustment_ratio_def
  by (rule f64_clamp_between) (simp_all add: nonneg_eval f64_mag_def)

lemma adjustment_ratio_milli:
  obtains k where "f64_trunc (f64_mul (adjustment_ratio observed predicted) (f64_nat 1000)) = Some k"
    and "800 \<le> k" and "k \<le> 2000"
proof -
  let ?x = "adjustment_ratio observed predicted"
  have "f64_nonneg (f64_mul 0x408F400000000000 0x4000000000000000)"
    by (simp add: f64_eval f64_nonneg_def cong: let_weak_cong)
  then have b: "f64_between (f64_mul (f64_nat 1000) (f64_lit 8 10)) (f64_mul (f64_nat 1000) (f64_nat 2)) (f64_mul (f64_nat 1000) ?x)"
    by (intro f64_mul_between adjustment_ratio_between) (simp_all add: nonneg_eval)
  have "f64_nonneg (f64_mul 0x408F400000000000 0x3FE999999999999A)"
    by (simp add: f64_eval f64_nonneg_def cong: let_weak_cong)
  then obtain k where "f64_trunc (f64_mul (f64_nat 1000) ?x) = Some k" and "800 \<le> k" and "k \<le> 2000"
    using f64_trunc_between [OF b, of 800 2000] milli_eval(5,6) \<open>f64_nonneg (f64_mul 0x408F400000000000 0x4000000000000000)\<close>
    by (auto simp: f64_mul_commute [of "0x408F400000000000"])
  then show ?thesis using that by (simp add: f64_mul_commute)
qed

lemma adjustment_ratio_positive: "\<not> f64_le (adjustment_ratio observed predicted) f64_zero"
  using adjustment_ratio_between [of observed predicted]
  by (simp add: f64_between_def f64_nonneg_def f64_le_def f64_key_def f64_mag_def [of "0x3FE999999999999A"] f64_zero_def
      f64_sign_def [of 0] f64_mag_def [of 0])

lemma rat_of_adjustment:
  obtains k where "800 \<le> k" and "k \<le> 2000"
    and "\<And>b pf. unat (rat_of pf b (adjustment_ratio observed predicted))
      = (if unat b * k < 2 ^ 64 then unat b * k div 1000 else 2 ^ 64 - 1)"
proof -
  obtain k where k: "f64_trunc (f64_mul (adjustment_ratio observed predicted) (f64_nat 1000)) = Some k" "800 \<le> k" "k \<le> 2000"
    by (rule adjustment_ratio_milli)
  have "unat (rat_of pf b (adjustment_ratio observed predicted))
      = (if unat b * nat k < 2 ^ 64 then unat b * nat k div 1000 else 2 ^ 64 - 1)" for b pf
    by (rule rat_of_milli [OF k(1)]) (use k(2,3) adjustment_ratio_positive in simp_all)
  then show ?thesis using that [of "nat k"] k(2,3) by (simp add: nat_le_iff)
qed

text \<open>An amount scaled by a learned adjustment.\<close>

definition scaled_within :: "u64 \<Rightarrow> u64 \<Rightarrow> bool" where
  "scaled_within x y \<longleftrightarrow> (unat x * 2000 < 2 ^ 64 \<longrightarrow> unat x * 800 div 1000 \<le> unat y \<and> unat y \<le> 2 * unat x)"

lemma scaled_within_refl [simp]: "scaled_within x x"
proof -
  have "unat x * 800 div 1000 \<le> unat x * 1000 div 1000" by (rule div_le_mono) simp
  then show ?thesis by (simp add: scaled_within_def)
qed

lemma scaled_within_adjustment: "scaled_within x (rat_of pf x (adjustment_ratio observed predicted))"
proof -
  obtain k where k: "800 \<le> k" "k \<le> 2000"
    "unat (rat_of pf x (adjustment_ratio observed predicted))
      = (if unat x * k < 2 ^ 64 then unat x * k div 1000 else 2 ^ 64 - 1)"
    using rat_of_adjustment [of observed predicted] by metis
  show ?thesis
    unfolding scaled_within_def
  proof
    assume b: "unat x * 2000 < 2 ^ 64"
    have lo: "unat x * 800 \<le> unat x * k" and hi: "unat x * k \<le> unat x * 2000" using k(1,2) by simp_all
    have "unat x * 800 div 1000 \<le> unat x * k div 1000" and "unat x * k div 1000 \<le> unat x * 2000 div 1000"
      using div_le_mono [OF lo] div_le_mono [OF hi] by blast+
    moreover have "unat x * 2000 div 1000 = 2 * unat x" by simp
    moreover have "unat x * k < 2 ^ 64" using hi b by linarith
    ultimately show "unat x * 800 div 1000 \<le> unat (rat_of pf x (adjustment_ratio observed predicted))
        \<and> unat (rat_of pf x (adjustment_ratio observed predicted)) \<le> 2 * unat x"
      using k(3) by simp
  qed
qed

text \<open>Whatever was observed and on every platform, the learned adjustment leaves the fixed model memory
  and the request overhead alone and scales KV growth, tensor state and staging by a factor between 0.8
  and 2 (rounded down), wherever doubling them is representable.\<close>

theorem learned_adjustment_bounded:
  "fp_fixed_model (apply_learned_adjustment pf wp key f) = fp_fixed_model f
   \<and> fp_request_local (apply_learned_adjustment pf wp key f) = fp_request_local f
   \<and> fp_workspace (apply_learned_adjustment pf wp key f) = fp_workspace f
   \<and> fp_pinned_staging (apply_learned_adjustment pf wp key f) = fp_pinned_staging f
   \<and> scaled_within (fp_kv_growth f) (fp_kv_growth (apply_learned_adjustment pf wp key f))
   \<and> scaled_within (fp_tensor_state f) (fp_tensor_state (apply_learned_adjustment pf wp key f))
   \<and> scaled_within (fp_staging f) (fp_staging (apply_learned_adjustment pf wp key f))"
  by (simp add: apply_learned_adjustment_def Let_def scaled_within_adjustment split: option.split)

section \<open>The learned decode rate\<close>

definition learned_ok :: "LearnedState \<Rightarrow> bool" where
  "learned_ok st \<longleftrightarrow> ls_count st \<le> kMaxSamplesPerKey
     \<and> (ls_decode_ema st = f64_zero \<or> f64_between (f64_lit 2 10) (f64_nat 5) (ls_decode_ema st))"

lemma ema_step_eval:
  "f64_mag (f64_add (f64_mul 0x3FE3333333333333 0x3FC999999999999A) (f64_mul 0x3FD999999999999A 0x3FC999999999999A))
     = f64_mag 0x3FC999999999999A"
  "f64_mag (f64_add (f64_mul 0x3FE3333333333333 0x4014000000000000) (f64_mul 0x3FD999999999999A 0x4014000000000000))
     = f64_mag 0x4014000000000000"
  "f64_nonneg (f64_mul 0x3FE3333333333333 0x3FC999999999999A)" "f64_nonneg (f64_mul 0x3FD999999999999A 0x3FC999999999999A)"
  "f64_nonneg (f64_mul 0x3FE3333333333333 0x4014000000000000)" "f64_nonneg (f64_mul 0x3FD999999999999A 0x4014000000000000)"
  "f64_nonneg (f64_add (f64_mul 0x3FE3333333333333 0x4014000000000000) (f64_mul 0x3FD999999999999A 0x4014000000000000))"
  by (simp_all add: f64_eval f64_nonneg_def cong: let_weak_cong)

lemma ema_step_between:
  assumes "f64_between (f64_lit 2 10) (f64_nat 5) x" and "f64_between (f64_lit 2 10) (f64_nat 5) y"
  shows "f64_between (f64_lit 2 10) (f64_nat 5) (f64_add (f64_mul (f64_lit 6 10) x) (f64_mul (f64_lit 4 10) y))"
proof -
  have "f64_between (f64_mul (f64_lit 6 10) (f64_lit 2 10)) (f64_mul (f64_lit 6 10) (f64_nat 5)) (f64_mul (f64_lit 6 10) x)"
    by (rule f64_mul_between [OF assms(1)]) (simp_all add: nonneg_eval ema_step_eval)
  moreover have "f64_between (f64_mul (f64_lit 4 10) (f64_lit 2 10)) (f64_mul (f64_lit 4 10) (f64_nat 5)) (f64_mul (f64_lit 4 10) y)"
    by (rule f64_mul_between [OF assms(2)]) (simp_all add: nonneg_eval ema_step_eval)
  ultimately have "f64_between
      (f64_add (f64_mul (f64_lit 6 10) (f64_lit 2 10)) (f64_mul (f64_lit 4 10) (f64_lit 2 10)))
      (f64_add (f64_mul (f64_lit 6 10) (f64_nat 5)) (f64_mul (f64_lit 4 10) (f64_nat 5)))
      (f64_add (f64_mul (f64_lit 6 10) x) (f64_mul (f64_lit 4 10) y))"
    by (rule f64_add_between) (simp_all add: ema_step_eval)
  then show ?thesis by (simp add: f64_between_def ema_step_eval)
qed

lemma ema_clamp_between: "f64_between (f64_lit 2 10) (f64_nat 5) (f64_min (f64_nat 5) (f64_max (f64_lit 2 10) ratio))"
  by (rule f64_clamp_between) (simp_all add: nonneg_eval f64_mag_def)

lemma learned_ok_completed:
  assumes "learned_ok st"
  shows "learned_ok (observe_completed wp key ob st)"
proof -
  have "f64_le f64_zero f64_zero" by (simp add: f64_eval)
  then show ?thesis
    using assms ema_clamp_between ema_step_between [OF _ ema_clamp_between]
    by (auto simp: learned_ok_def observe_completed_def Let_def simp del: lit_bits split: option.split)
qed

lemma learned_ok_observe:
  assumes "om_ok (wp_learn wp)" and "\<forall>k st. om_find (wp_learn wp) k = Some st \<longrightarrow> learned_ok st"
  shows "\<forall>k st. om_find (wp_learn (predictor_observe ob wp)) k = Some st \<longrightarrow> learned_ok st"
proof -
  have def_ok: "learned_ok default_learned" by (simp add: learned_ok_def default_learned_def kMaxSamplesPerKey_def)
  have bump: "learned_ok (st\<lparr>ls_seen := True, ls_count := (if ls_count st \<ge> kMaxSamplesPerKey then kMaxSamplesPerKey
      else ls_count st + 1)\<rparr>)" if "learned_ok st" for st :: LearnedState
  proof -
    have "ls_count st + 1 \<le> kMaxSamplesPerKey" if "\<not> ls_count st \<ge> kMaxSamplesPerKey"
      using that by (simp add: not_le inc_le)
    with that show ?thesis by (simp add: learned_ok_def)
  qed
  let ?key = "resolve_key wp (observation_key ob) (model_rev_prefix (o_model_id ob) (o_model_revision ob))"
  define st0 where "st0 = (case om_find (wp_learn wp) ?key of None \<Rightarrow> default_learned | Some st \<Rightarrow> st)"
  define st where "st = st0\<lparr>ls_seen := True, ls_count := (if ls_count st0 \<ge> kMaxSamplesPerKey then kMaxSamplesPerKey
      else ls_count st0 + 1)\<rparr>"
  have "learned_ok st0" using assms(2) def_ok by (simp add: st0_def split: option.split)
  then have st: "learned_ok st" unfolding st_def by (rule bump)
  define st' where "st' = (if o_kind ob \<noteq> ObservationKind_Completed then st else observe_completed wp ?key ob st)"
  have "learned_ok st'"
    using st learned_ok_completed [OF st] by (simp add: st'_def)
  moreover have "predictor_observe ob wp = (if \<not> status_ok (observation_validate ob) then wp
      else wp\<lparr>wp_learn := om_put ?key st' (wp_learn wp)\<rparr>)"
    by (simp only: predictor_observe_def Let_def st'_def st_def st0_def)
  ultimately show ?thesis using assms by (simp add: om_find_put [OF assms(1)])
qed

definition predictor_wf :: "WorkloadPredictor \<Rightarrow> bool" where
  "predictor_wf wp \<longleftrightarrow> profiles_ok wp \<and> (\<forall>k st. om_find (wp_learn wp) k = Some st \<longrightarrow> learned_ok st)"

lemma predictor_wf_exec:
  assumes "predictor_wf wp"
  shows "predictor_wf (predictor_exec op wp)"
proof (cases op)
  case (PRegister p)
  have "profiles_ok wp" using assms by (simp add: predictor_wf_def)
  then show ?thesis
  proof (cases rule: register_profile_cases [of wp p])
    case (stored wp')
    then show ?thesis using assms PRegister by (simp add: predictor_wf_def)
  next
    case (full wp')
    then show ?thesis using assms PRegister by (simp add: predictor_wf_def)
  qed
next
  case (PObserve ob)
  have "om_ok (wp_learn wp)" using assms by (simp add: predictor_wf_def profiles_ok_def)
  then show ?thesis
    using assms PObserve learned_ok_observe [of wp ob] profiles_ok_observe [of wp ob] unfolding predictor_wf_def by simp
qed

lemma predictor_wf_empty: "predictor_wf predictor_empty"
  by (simp add: predictor_wf_def profiles_ok_def predictor_empty_def)

lemma predictor_wf_run: "predictor_wf (predictor_run ops)"
proof -
  have "predictor_wf wp \<Longrightarrow> predictor_wf (fold predictor_exec ops wp)" for wp
    by (induction ops arbitrary: wp) (simp_all add: predictor_wf_exec)
  then show ?thesis using predictor_wf_empty by (simp add: predictor_run_def)
qed

lemma learned_ok_run: "om_find (wp_learn (predictor_run ops)) k = Some st \<Longrightarrow> learned_ok st"
  using predictor_wf_run [of ops] unfolding predictor_wf_def by blast

text \<open>After any sequence of registrations and observations, every learned state counts at most 4096
  samples, and its decode-rate multiplier is either unset (zero) or a double in \<open>[0.2, 5.0]\<close>: no observation,
  however extreme, moves it outside, the rounding of every step included.\<close>

theorem decode_multiplier_bounded:
  "case om_find (wp_learn (predictor_run ops)) key of
     None \<Rightarrow> True
   | Some st \<Rightarrow> ls_count st \<le> kMaxSamplesPerKey
       \<and> (ls_decode_ema st = f64_zero
          \<or> f64_le (f64_lit 2 10) (ls_decode_ema st) \<and> f64_le (ls_decode_ema st) (f64_nat 5))"
  using learned_ok_run [of ops key]
  by (auto simp: learned_ok_def f64_between_def f64_le_def f64_key_def f64_nonneg_not_nan nonneg_eval
      f64_nonneg_def [of "ls_decode_ema _"] f64_sign_def [of "0x3FC999999999999A"] f64_sign_def [of "0x4014000000000000"]
      split: option.split)

section \<open>Inputs that leave the range\<close>

definition long_descriptor :: AdmissionDescriptor where
  "long_descriptor = demo_descriptor\<lparr>d_expected_output_tokens := 1099511627776\<rparr>"

lemma long_descriptor_valid: "status_ok (descriptor_validate long_descriptor)"
  using demo_descriptor_valid
  by (simp add: long_descriptor_def descriptor_validate_def demo_descriptor_def default_descriptor_def token_limit_numeral
      split: if_split_asm)

text \<open>The clamp of \<open>from_seconds\<close> at \<open>1e12\<close> seconds does not protect the conversion to 64-bit nanoseconds:
  the cold-start decode time of a descriptor that passes validation, with \<open>2^40\<close> expected tokens at 40
  tokens per second, converts a double above the range, so its value is whatever the platform gives.\<close>

theorem cold_start_duration_out_of_range:
  "status_ok (descriptor_validate long_descriptor)
   \<and> dp_decode (predict_duration pf predictor_empty long_descriptor) = oob_i64 pf 0x43F7D78400000000
   \<and> f64_trunc 0x43F7D78400000000 = Some 27487790694400000000"
proof (intro conjI)
  show "f64_trunc 0x43F7D78400000000 = Some 27487790694400000000"
    by (simp add: f64_eval cong: let_weak_cong)
  then have conv: "f64_to_i64 pf 0x43F7D78400000000 = oob_i64 pf 0x43F7D78400000000"
    by (simp add: f64_to_i64_def)
  have s: "f64_div (f64_of_u64 1099511627776) (f64_nat 40) = 0x421999999999999A"
    by (simp add: f64_eval cong: let_weak_cong)
  have c: "f64_le f64_zero 0x421999999999999A" "f64_is_finite 0x421999999999999A"
    "\<not> f64_lt (f64_nat 1000000000000) 0x421999999999999A"
    "f64_mul 0x421999999999999A (f64_nat 1000000000) = 0x43F7D78400000000"
    by (simp_all add: f64_eval cong: let_weak_cong)
  have "bound_profile predictor_empty long_descriptor = None"
    by (simp add: bound_profile_def profile_for_descriptor_def predictor_empty_def Let_def)
  then show "dp_decode (predict_duration pf predictor_empty long_descriptor) = oob_i64 pf 0x43F7D78400000000"
    by (simp add: predict_duration_def Let_def case_prod_beta long_descriptor_def s from_seconds_def c conv)
qed (rule long_descriptor_valid)

definition demo_observation :: Observation where
  "demo_observation = \<lparr>o_id = Id 1, o_admission_request_id = Id 1, o_tenant_id = Id 4, o_model_id = Id 12,
     o_model_revision = Id 1, o_backend = ''cuda'', o_dtype = [], o_quantization = [],
     o_workload_type = WorkloadType_Inference, o_peak_vram = 2000000, o_host_memory = 0, o_pinned_memory = 0,
     o_kv_growth = 0, o_transfer_bytes = 0, o_execution_duration = 0, o_input_tokens = 0, o_output_tokens = 0,
     o_completed_at = 0, o_kind = ObservationKind_Completed\<rparr>"

lemma demo_observation_fields:
  "o_kind demo_observation = ObservationKind_Completed" "o_peak_vram demo_observation = 2000000"
  "o_output_tokens demo_observation = 0" "o_execution_duration demo_observation = 0"
  by (simp_all add: demo_observation_def)

lemma demo_observation_valid: "status_ok (observation_validate demo_observation)"
  by (simp add: observation_validate_def demo_observation_def is_nil_def)

text \<open>The evidence count of a model includes the samples of every model whose decimal id starts with the
  same digits: after one observation of model 12, model 1 has evidence too.\<close>

theorem evidence_for_model_prefix_confusion:
  "evidence_for_model (predictor_observe demo_observation predictor_empty) (Id 1) = 1
   \<and> o_model_id demo_observation = Id 12"
  using demo_observation_valid
  by (simp add: predictor_observe_def resolve_key_def predictor_empty_def Let_def evidence_for_model_def
      observation_key_def make_key_def to_string_u64_def nat_to_string.simps starts_with_def digit_char_def
      demo_observation_def observe_completed_def default_learned_def kMaxSamplesPerKey_def)

definition demo_profile :: PredictionProfile where
  "demo_profile = \<lparr>pp_model_id = Id 12, pp_revision = Id 1, pp_backend = ''cuda'', pp_dtype = [], pp_quantization = [],
     pp_generation = 0, pp_fixed_base_memory = 1000000, pp_per_token_kv_bytes = 0, pp_per_token_tensor_bytes = 0,
     pp_per_request_overhead = 0, pp_workspace_bytes = 0, pp_staging_bytes = 0, pp_pinned_staging_bytes = 0,
     pp_safety_margin_ratio = f64_lit 5 10, pp_fragmentation_ratio = f64_lit 5 100, pp_prefill_tokens_per_sec = f64_zero,
     pp_decode_tokens_per_sec = f64_zero, pp_transfer_bytes_per_sequence = 0, pp_transfer_bytes_per_sec = f64_zero,
     pp_host_memory_bytes = 0, pp_pinned_host_memory_bytes = 0, pp_execution_slots_required = 1,
     pp_sequence_slots_required = 1\<rparr>"

definition profiled_predictor :: WorkloadPredictor where
  "profiled_predictor = snd (register_profile demo_profile predictor_empty)"

definition profiled_descriptor :: AdmissionDescriptor where
  "profiled_descriptor = demo_descriptor\<lparr>d_model_id := Id 12, d_model_revision := Id 1, d_backend := ''cuda''\<rparr>"

definition demo_key :: string where
  "demo_key = make_key (Id 12) (Id 1) ''cuda'' [] []"

lemma demo_keys:
  "profile_key demo_profile = demo_key" "observation_key demo_observation = demo_key"
  "descriptor_key profiled_descriptor = demo_key"
  by (simp_all add: demo_key_def profile_key_def observation_key_def descriptor_key_def demo_profile_def
      demo_observation_def profiled_descriptor_def demo_descriptor_def default_descriptor_def)

lemma profiled_tables:
  "wp_profs profiled_predictor = [(demo_key, demo_profile\<lparr>pp_generation := 2\<rparr>)]"
  "wp_learn profiled_predictor = []"
  by (simp_all add: profiled_predictor_def register_profile_def predictor_empty_def demo_keys Let_def kMaxProfiles_def
      predictor_next_generation_def u64_max_numeral)

lemma observed_tables:
  "wp_profs (predictor_observe demo_observation profiled_predictor) = [(demo_key, demo_profile\<lparr>pp_generation := 2\<rparr>)]"
  "\<exists>st. wp_learn (predictor_observe demo_observation profiled_predictor) = [(demo_key, st)] \<and> ls_count st = 1
     \<and> ls_last_peak_vram st = 2000000"
  using demo_observation_valid
  by (simp_all add: predictor_observe_def Let_def resolve_key_def profiled_tables demo_keys observe_completed_def
      demo_observation_fields default_learned_def kMaxSamplesPerKey_def)

lemma profiled_footprint:
  "profile_footprint pf (demo_profile\<lparr>pp_generation := g\<rparr>) profiled_descriptor
     = default_footprint\<lparr>fp_fixed_model := 1000000, fp_safety_margin := 500000, fp_fragmentation_allowance := 50000\<rparr>"
proof -
  have half: "f64_trunc (f64_mul (f64_lit 5 10) (f64_nat 1000)) = Some 500" "\<not> f64_le (f64_lit 5 10) f64_zero"
    by (simp_all add: f64_eval cong: let_weak_cong)
  have a: "rat_of pf 1000000 (f64_lit 5 10) = 500000"
    using rat_of_milli [OF half(1), of pf 1000000] half(2) by (simp add: word_unat_eq_iff)
  have b: "rat_of pf 1000000 (f64_lit 5 100) = 50000"
    using rat_of_15_8(4) [of pf 1000000] by (simp add: word_unat_eq_iff)
  have z: "multiply_checked 0 x = 0" for x by (simp add: word_unat_eq_iff unat_multiply_checked)
  show ?thesis
    using a b by (simp add: profile_footprint_def demo_profile_def fp_base_def default_footprint_def z Let_def)
qed

text \<open>An observation that exceeds the prediction can lower the reserved amount: with a configured safety
  margin of one half, a predicted peak of 1550000 and an observed peak of 2000000, the next prediction for
  the same work is 1150000, because the learned adjustment replaces the configured margins by 10 and 5
  percent.\<close>

theorem under_prediction_lowers_reserve:
  "fp_peak (mp_footprint (predict_memory pf profiled_predictor profiled_descriptor)) = 1550000
   \<and> o_peak_vram demo_observation = 2000000
   \<and> fp_peak (mp_footprint (predict_memory pf (predictor_observe demo_observation profiled_predictor) profiled_descriptor))
       = 1150000"
proof -
  have bound: "bound_profile wp profiled_descriptor = Some (demo_profile\<lparr>pp_generation := 2\<rparr>)
      \<and> descriptor_resolved wp profiled_descriptor = demo_key"
    if "wp_profs wp = [(demo_key, demo_profile\<lparr>pp_generation := 2\<rparr>)]" for wp
    using that by (simp add: bound_profile_def profile_for_descriptor_def descriptor_resolved_def resolve_key_def demo_keys
        demo_profile_def)
  obtain st where st: "wp_learn (predictor_observe demo_observation profiled_predictor) = [(demo_key, st)]"
    "ls_count st = 1" "ls_last_peak_vram st = 2000000"
    using observed_tables(2) by blast
  have m: "rat_of pf 1000000 (f64_lit 10 100) = 100000" "rat_of pf 1000000 (f64_lit 5 100) = 50000"
    using rat_of_15_8(3,4) [of pf 1000000] by (simp_all add: word_unat_eq_iff)
  have z: "rat_of pf 0 x = 0" for x by (simp add: rat_of_def)
  show ?thesis
    using m bound [OF profiled_tables(1)] bound [OF observed_tables(1)]
    by (simp add: predict_memory_def Let_def case_prod_beta apply_learned_adjustment_def profiled_tables st z
        profiled_footprint fp_peak_def fp_base_def default_footprint_def demo_observation_fields)
qed

end
