(* ===== verification/Policy_Spec.thy ===== *)
theory Policy_Spec
  imports Policy Doubles_Order
begin

text \<open>
  What the policy library guarantees: generations only grow and are never rewritten as long as policies are
  installed normally, overrides keep the validated range of the safety ratio; and what happens to the
  recovered generations when a policy is installed after a recovery.
\<close>

section \<open>Generations\<close>

definition policy_run :: "AdmissionPolicy list \<Rightarrow> PolicyEngine" where
  "policy_run ps = fold (\<lambda>p pe. snd (policy_install p pe)) ps policy_engine_empty"

text \<open>Every installed generation is below the counter.\<close>

definition policies_ok :: "nat \<Rightarrow> PolicyEngine \<Rightarrow> bool" where
  "policies_ok n pe \<longleftrightarrow> om_ok (pe_policies pe) \<and> length (pe_policies pe) \<le> kMaxGenerations
     \<and> unat (pe_counter pe) \<le> n + 1
     \<and> (\<forall>g p. om_find (pe_policies pe) g = Some p \<longrightarrow> id_value g < pe_counter pe \<and> p_generation p = g)"

lemma om_erase_absent: "om_find m k = None \<Longrightarrow> om_erase k m = m"
  by (induction k m rule: om_erase.induct) (auto split: if_splits)

lemma policy_install_cases:
  assumes ok: "policies_ok n pe" and n: "n < 2 ^ 64 - 2"
  obtains (invalid) "\<not> status_ok (policy_validate p)" and "policy_install p pe = (policy_validate p, pe)"
    | (full) pe' e where "policy_install p pe = (status_failure ErrorCode_PolicyConflict e, pe')"
        and "pe_policies pe' = pe_policies pe" and "pe_latest pe' = pe_latest pe" and "policies_ok (Suc n) pe'"
    | (installed) pe' where "policy_install p pe = (status_success, pe')" and "policies_ok (Suc n) pe'"
        and "pe_latest pe' = Id (pe_counter pe)" and "om_find (pe_policies pe) (Id (pe_counter pe)) = None"
        and "pe_policies pe' = om_put (Id (pe_counter pe)) (p\<lparr>p_generation := Id (pe_counter pe)\<rparr>) (pe_policies pe)"
proof (cases "status_ok (policy_validate p)")
  case False
  then show ?thesis using invalid by (simp add: policy_install_def)
next
  case True
  let ?c = "pe_counter pe"
  have c: "?c \<noteq> u64_max" and c1: "unat (?c + 1) = unat ?c + 1"
  proof -
    have small: "unat ?c < 2 ^ 64 - 1" using ok n by (simp add: policies_ok_def)
    then show "?c \<noteq> u64_max" by auto
    show "unat (?c + 1) = unat ?c + 1" using small by (simp add: unat_word_ariths)
  qed
  have fresh: "om_find (pe_policies pe) (Id ?c) = None"
  proof (cases "om_find (pe_policies pe) (Id ?c)")
    case (Some q)
    then have "id_value (Id ?c :: PolicyGeneration) < ?c" using ok unfolding policies_ok_def by metis
    then show ?thesis by simp
  qed
  let ?pe1 = "pe\<lparr>pe_counter := ?c + 1\<rparr>"
  have up: "id_value g < ?c + 1" if "id_value g < ?c" for g :: PolicyGeneration
    using that c1 by (simp add: word_less_nat_alt)
  show ?thesis
  proof (cases "length (pe_policies pe) \<ge> kMaxGenerations")
    case True
    with \<open>status_ok (policy_validate p)\<close> fresh c
    have "policy_install p pe = (status_failure ErrorCode_PolicyConflict ''policy generation history full'', ?pe1)"
      by (simp add: policy_install_def Let_def)
    moreover have "policies_ok (Suc n) ?pe1"
      using ok c1 up by (auto simp: policies_ok_def)
    ultimately show ?thesis using full [of _ ?pe1] by simp
  next
    case False
    let ?pe2 = "?pe1\<lparr>pe_policies := om_put (Id ?c) (p\<lparr>p_generation := Id ?c\<rparr>) (pe_policies pe), pe_latest := Id ?c\<rparr>"
    have ins: "policy_install p pe = (status_success, ?pe2)"
      using False \<open>status_ok (policy_validate p)\<close> fresh c om_erase_absent [OF fresh]
      by (simp add: policy_install_def Let_def)
    have "om_ok (pe_policies pe)" using ok by (simp add: policies_ok_def)
    moreover have "?c < ?c + 1" using c1 by (simp add: word_less_nat_alt)
    ultimately have "policies_ok (Suc n) ?pe2"
      using ok False c1 up om_put_length_le [of "Id ?c" "p\<lparr>p_generation := Id ?c\<rparr>" "pe_policies pe"]
      by (auto simp: policies_ok_def om_ok_put om_find_put split: if_splits)
    then show ?thesis using installed [OF ins] fresh by simp
  qed
qed

lemma policies_ok_mono: "policies_ok n pe \<Longrightarrow> n \<le> m \<Longrightarrow> policies_ok m pe"
  by (simp add: policies_ok_def)

lemma policies_ok_run: "length ps \<le> 2 ^ 64 - 2 \<Longrightarrow> policies_ok (length ps) (policy_run ps)"
proof (induction ps rule: rev_induct)
  case Nil
  show ?case by (simp add: policy_run_def policies_ok_def policy_engine_empty_def)
next
  case (snoc p ps)
  then have ok: "policies_ok (length ps) (policy_run ps)" and n: "length ps < 2 ^ 64 - 2" by simp_all
  have "policies_ok (Suc (length ps)) (snd (policy_install p (policy_run ps)))"
    using ok n policies_ok_mono [OF ok, of "Suc (length ps)"]
    by (cases rule: policy_install_cases [of _ _ p]) auto
  then show ?case by (simp add: policy_run_def)
qed

text \<open>As long as fewer than \<open>2^64 - 2\<close> policies have been installed on a fresh library, an accepted policy
  gets a generation above every earlier one and becomes the latest, every earlier generation keeps its
  policy, and at most 128 generations exist; a refused policy changes neither the policies nor the latest.\<close>

theorem policy_install_monotone:
  assumes "length ps < 2 ^ 64 - 2"
  shows "case policy_install p (policy_run ps) of (st, pe') \<Rightarrow>
    (if status_ok st
     then policy_latest pe' = Some (p\<lparr>p_generation := pe_latest pe'\<rparr>)
       \<and> (\<forall>g q. policy_by_generation (policy_run ps) g = Some q \<longrightarrow>
             g < pe_latest pe' \<and> policy_by_generation pe' g = Some q)
       \<and> length (pe_policies pe') \<le> kMaxGenerations
     else pe_policies pe' = pe_policies (policy_run ps) \<and> pe_latest pe' = pe_latest (policy_run ps))"
proof -
  have ok: "policies_ok (length ps) (policy_run ps)" using assms policies_ok_run by simp
  then have om: "om_ok (pe_policies (policy_run ps))" by (simp add: policies_ok_def)
  from ok assms show ?thesis
  proof (cases rule: policy_install_cases [of _ _ p])
    case (installed pe')
    have "g < Id (pe_counter (policy_run ps))" if "om_find (pe_policies (policy_run ps)) g = Some q" for g q
      using ok that unfolding policies_ok_def less_Id_def by (metis Id.sel)
    then show ?thesis
      using installed om
      by (auto simp: policy_latest_def policy_by_generation_def om_find_put policies_ok_def)
  qed auto
qed

lemma default_policy_valid: "status_ok (policy_validate default_policy)"
proof -
  have r: "in_half_open_unit (f64_lit 10 100)" "in_unit_interval (f64_lit 20 100)" "in_unit_interval (f64_lit 85 100)"
    by (simp_all add: in_half_open_unit_def in_unit_interval_def f64_eval cong: let_weak_cong)
  show ?thesis
    using r by (simp add: policy_validate_def default_policy_def seconds_def word_sless_alt word_sle_eq rv_any_nonzero_def
        rv_is_zero_iff)
qed

lemma policy_install_monotone_witness:
  "policy_latest (snd (policy_install default_policy (policy_run [default_policy])))
     = Some (default_policy\<lparr>p_generation := Id 2\<rparr>)"
proof -
  have run: "policy_run [default_policy] = \<lparr>pe_policies = [(Id 1, default_policy\<lparr>p_generation := Id 1\<rparr>)], pe_latest = Id 1,
      pe_counter = 2\<rparr>"
    using default_policy_valid
    by (simp add: policy_run_def policy_install_def policy_engine_empty_def u64_max_numeral kMaxGenerations_def Let_def)
  then have "status_ok (fst (policy_install default_policy (policy_run [default_policy])))"
    and "pe_latest (snd (policy_install default_policy (policy_run [default_policy]))) = Id 2"
    using default_policy_valid
    by (simp_all add: policy_install_def u64_max_numeral kMaxGenerations_def Let_def)
  then show ?thesis
    using policy_install_monotone [of "[default_policy]" default_policy] by (auto simp: case_prod_beta split: if_splits)
qed

text \<open>C37: after a recovery the counter still stands at 1: installing a policy on a library that recovered
  generations 1 and 2 replaces the recovered generation 1 and moves the latest generation back from 2 to 1.\<close>

theorem install_after_recovery_overwrites:
  assumes "status_ok (policy_validate a)" and "status_ok (policy_validate b)" and "status_ok (policy_validate c)"
  shows "let recovered = snd (install_at_generation b (Id 2) (snd (install_at_generation a (Id 1) policy_engine_empty)));
             pe = snd (policy_install c recovered)
         in pe_latest recovered = Id 2 \<and> policy_by_generation recovered (Id 1) = Some (a\<lparr>p_generation := Id 1\<rparr>)
            \<and> pe_latest pe = Id 1 \<and> policy_by_generation pe (Id 1) = Some (c\<lparr>p_generation := Id 1\<rparr>)"
  using assms
  by (simp add: install_at_generation_def policy_engine_empty_def policy_by_generation_def policy_install_def
      kMaxGenerations_def u64_max_numeral Let_def less_Id_def)

lemma install_after_recovery_overwrites_witness:
  "pe_latest (snd (policy_install default_policy (snd (install_at_generation default_policy (Id 2)
     (snd (install_at_generation default_policy (Id 1) policy_engine_empty)))))) = Id 1"
  using install_after_recovery_overwrites [OF default_policy_valid default_policy_valid default_policy_valid]
  by (simp add: Let_def)

section \<open>Overrides\<close>

lemma validate_overrides_ok:
  "status_ok (validate_overrides ovs) \<Longrightarrow> ov \<in> set ovs \<Longrightarrow> po_safety_headroom_ratio ov = Some x \<Longrightarrow> in_half_open_unit x"
  by (induction ovs rule: validate_overrides.induct) (auto split: option.splits if_splits)

lemma policy_valid_parts:
  assumes "status_ok (policy_validate p)"
  shows "in_half_open_unit (p_safety_headroom_ratio p)" and "status_ok (validate_overrides (p_overrides p))"
    and "0 <s p_max_reservation_lifetime p"
  using assms by (auto simp: policy_validate_def word_sless_alt word_sle_eq not_le split: if_split_asm)

text \<open>The fields no override can change.\<close>

definition same_frame :: "AdmissionPolicy \<Rightarrow> AdmissionPolicy \<Rightarrow> bool" where
  "same_frame p q \<longleftrightarrow> p_generation q = p_generation p \<and> p_absolute_safety_margin q = p_absolute_safety_margin p
     \<and> p_max_snapshot_age q = p_max_snapshot_age p \<and> p_accept_stale_snapshot q = p_accept_stale_snapshot p
     \<and> p_max_reservation_lifetime q = p_max_reservation_lifetime p \<and> p_fairness_window q = p_fairness_window p"

lemma fold_override:
  assumes "\<forall>ov \<in> set ovs. \<forall>x. po_safety_headroom_ratio ov = Some x \<longrightarrow> in_half_open_unit x"
    and "in_half_open_unit (p_safety_headroom_ratio p)"
  shows "in_half_open_unit (p_safety_headroom_ratio (fold (apply_override d) ovs p)) \<and> same_frame p (fold (apply_override d) ovs p)"
  using assms
proof (induction ovs arbitrary: p)
  case (Cons ov ovs)
  have "in_half_open_unit (p_safety_headroom_ratio (apply_override d ov p))" and "same_frame p (apply_override d ov p)"
    using Cons.prems by (auto simp: apply_override_def override_or_def same_frame_def split: option.split)
  with Cons show ?case by (auto simp: same_frame_def)
qed (simp add: same_frame_def)

text \<open>Whatever overrides of a validated policy match a descriptor, the effective policy keeps the
  generation, the absolute margins, the snapshot tolerance, the reservation lifetime and the fairness
  window of the base, and its safety ratio stays in \<open>[0, 1)\<close>.\<close>

theorem effective_policy_keeps_range:
  assumes "status_ok (policy_validate base)"
  shows "in_half_open_unit (p_safety_headroom_ratio (policy_effective d base))
    \<and> p_generation (policy_effective d base) = p_generation base
    \<and> p_absolute_safety_margin (policy_effective d base) = p_absolute_safety_margin base
    \<and> p_max_snapshot_age (policy_effective d base) = p_max_snapshot_age base
    \<and> p_accept_stale_snapshot (policy_effective d base) = p_accept_stale_snapshot base
    \<and> p_max_reservation_lifetime (policy_effective d base) = p_max_reservation_lifetime base
    \<and> p_fairness_window (policy_effective d base) = p_fairness_window base"
  using fold_override [of "p_overrides base" base d] policy_valid_parts [OF assms] validate_overrides_ok
  by (auto simp: policy_effective_def same_frame_def)

lemma effective_policy_keeps_range_witness:
  "in_half_open_unit (p_safety_headroom_ratio (policy_effective demo_descriptor default_policy))"
  using effective_policy_keeps_range [OF default_policy_valid] by blast

end
