(* ===== verification/Engine_Spec.thy ===== *)
theory Engine_Spec
  imports Engine Reservation_Spec Prediction_Spec Policy_Spec
begin

text \<open>
  What the engine guarantees: which fields an evaluation may touch, when it admits and what stands behind
  an admission, the balance of the counters, the uniqueness of the grants, and the life of a grant from
  admission through commit to release.
\<close>

section \<open>Frames\<close>

lemma on_metrics_fields [simp]:
  "af_policy (on_metrics f s) = af_policy s" "af_predictor (on_metrics f s) = af_predictor s"
  "af_reservations (on_metrics f s) = af_reservations s" "af_snapshot (on_metrics f s) = af_snapshot s"
  "af_has_snapshot (on_metrics f s) = af_has_snapshot s" "af_quota (on_metrics f s) = af_quota s"
  "af_fairness (on_metrics f s) = af_fairness s" "af_metrics (on_metrics f s) = f (af_metrics s)"
  "af_requests (on_metrics f s) = af_requests s"
  "af_admission_generation (on_metrics f s) = af_admission_generation s"
  "af_reservation_counter (on_metrics f s) = af_reservation_counter s"
  by (simp_all add: on_metrics_def)

lemma transition_fields [simp]:
  "af_policy (snd (transition now rid a b d s)) = af_policy s"
  "af_predictor (snd (transition now rid a b d s)) = af_predictor s"
  "af_reservations (snd (transition now rid a b d s)) = af_reservations s"
  "af_snapshot (snd (transition now rid a b d s)) = af_snapshot s"
  "af_has_snapshot (snd (transition now rid a b d s)) = af_has_snapshot s"
  "af_quota (snd (transition now rid a b d s)) = af_quota s"
  "af_fairness (snd (transition now rid a b d s)) = af_fairness s"
  "af_metrics (snd (transition now rid a b d s)) = af_metrics s"
  "af_admission_generation (snd (transition now rid a b d s)) = af_admission_generation s"
  "af_reservation_counter (snd (transition now rid a b d s)) = af_reservation_counter s"
  by (simp_all add: transition_def Let_def)

text \<open>A lifecycle move of one record, and the record a decision leaves behind.\<close>

definition advance :: "i64 \<Rightarrow> RequestLifecycle \<Rightarrow> RequestLifecycle \<Rightarrow> RequestRecord \<Rightarrow> RequestRecord" where
  "advance now a b r = (if rr_lifecycle r = a then r\<lparr>rr_lifecycle := b, rr_updated_at := now\<rparr> else r)"

definition new_record :: "i64 \<Rightarrow> AdmissionRequestId \<Rightarrow> RequestLifecycle \<Rightarrow> AdmissionDescriptor \<Rightarrow> RequestRecord" where
  "new_record now rid life d = default_request_record\<lparr>rr_id := rid, rr_descriptor := d, rr_created_at := now,
     rr_updated_at := now, rr_lifecycle := life\<rparr>"

lemma transition_requests:
  "af_requests (snd (transition now rid a b d s)) =
     om_put rid (advance now a b (case om_find (af_requests s) rid of Some r \<Rightarrow> r | None \<Rightarrow> new_record now rid a d))
       (af_requests s)"
  by (auto simp: transition_def advance_def new_record_def Let_def split: option.split)

lemma transition_ok [simp]: "om_ok (af_requests s) \<Longrightarrow> om_ok (af_requests (snd (transition now rid a b d s)))"
  by (simp add: transition_requests om_ok_put)

definition settled_record :: "i64 \<Rightarrow> RequestLifecycle \<Rightarrow> AdmissionDecision \<Rightarrow> RequestRecord option \<Rightarrow> RequestRecord" where
  "settled_record now to_life dec old =
     advance now RequestLifecycle_Evaluating to_life
       (advance now RequestLifecycle_Proposed RequestLifecycle_Evaluating
         ((case old of Some r \<Rightarrow> r | None \<Rightarrow> default_request_record)\<lparr>rr_last_decision := Some dec\<rparr>))"

lemma emit_fields [simp]:
  "af_policy (emit now d life dec b s) = af_policy s" "af_predictor (emit now d life dec b s) = af_predictor s"
  "af_reservations (emit now d life dec b s) = af_reservations s" "af_snapshot (emit now d life dec b s) = af_snapshot s"
  "af_has_snapshot (emit now d life dec b s) = af_has_snapshot s" "af_quota (emit now d life dec b s) = af_quota s"
  "af_fairness (emit now d life dec b s) = af_fairness s"
  "af_admission_generation (emit now d life dec b s) = af_admission_generation s"
  "af_reservation_counter (emit now d life dec b s) = af_reservation_counter s"
  "af_metrics (emit now d life dec b s) =
     count_reason (dec_reason dec)
       (if b then (af_metrics s)\<lparr>mt_admissions := mt_admissions (af_metrics s) + 1\<rparr> else af_metrics s)"
  by (simp_all add: emit_def Let_def)

lemma emit_requests:
  assumes "om_ok (af_requests s)"
  shows "om_ok (af_requests (emit now d life dec b s))"
    and "om_find (af_requests (emit now d life dec b s)) j =
      (if j = d_admission_request_id d then Some (settled_record now life dec (om_find (af_requests s) j))
       else om_find (af_requests s) j)"
  using assms
  by (auto simp: emit_def Let_def transition_requests om_ok_put om_find_put settled_record_def split: option.split)

section \<open>What a refusal does\<close>

text \<open>A decision about \<open>d\<close> that grants nothing.\<close>

definition about :: "AdmissionDescriptor \<Rightarrow> AdmissionDecision \<Rightarrow> bool" where
  "about d dec \<longleftrightarrow> dec_admission_request_id dec = d_admission_request_id d \<and> dec_request_id dec = d_request_id d
     \<and> dec_attempt_id dec = d_attempt_id d \<and> dec_tenant_id dec = d_tenant_id d
     \<and> dec_outcome dec = primary_outcome_of (dec_reason dec)"

definition no_grant :: "AdmissionDecision \<Rightarrow> bool" where
  "no_grant dec \<longleftrightarrow> dec_reservation_id dec = None \<and> dec_admission_generation dec = Id 0"

lemma build_decision_fields [simp]:
  "dec_admission_request_id (build_decision now s d c) = d_admission_request_id d"
  "dec_request_id (build_decision now s d c) = d_request_id d"
  "dec_attempt_id (build_decision now s d c) = d_attempt_id d"
  "dec_tenant_id (build_decision now s d c) = d_tenant_id d"
  "dec_reason (build_decision now s d c) = c"
  "dec_outcome (build_decision now s d c) = primary_outcome_of c"
  "dec_reservation_id (build_decision now s d c) = None"
  "dec_admission_generation (build_decision now s d c) = Id 0"
  by (simp_all add: build_decision_def default_decision_def)

inductive refused :: "i64 \<Rightarrow> AdmissionDescriptor \<Rightarrow> AdmissionFabric \<Rightarrow> AdmissionDecision Result \<times> AdmissionFabric \<Rightarrow> bool"
  for now d s where
    reject: "refused now d s (finish_reject now d dec s)"
      if "about d dec" and "no_grant dec" and "dec_outcome dec = AdmissionOutcome_Reject"
  | put_off: "refused now d s (finish_defer now d dec s)"
      if "about d dec" and "no_grant dec" and "dec_outcome dec = AdmissionOutcome_Defer"
  | also_stale: "refused now d s (and_count (\<lambda>m. m\<lparr>mt_stale_authority_rejections := mt_stale_authority_rejections m + 1\<rparr>) r)"
      if "refused now d s r"
  | also_quota: "refused now d s (and_count (\<lambda>m. m\<lparr>mt_quota_failures := mt_quota_failures m + 1\<rparr>) r)"
      if "refused now d s r"
  | also_capability: "refused now d s (and_count (\<lambda>m. m\<lparr>mt_capability_failures := mt_capability_failures m + 1\<rparr>) r)"
      if "refused now d s r"
  | also_slo: "refused now d s (and_count (\<lambda>m. m\<lparr>mt_slo_infeasibility := mt_slo_infeasibility m + 1\<rparr>) r)"
      if "refused now d s r"

definition refusal_life :: "AdmissionDecision \<Rightarrow> RequestLifecycle" where
  "refusal_life dec =
     (if dec_outcome dec = AdmissionOutcome_Reject then RequestLifecycle_Rejected else RequestLifecycle_Deferred)"

lemma count_reason_totals [simp]:
  "mt_evaluations (count_reason c m) = mt_evaluations m" "mt_admissions (count_reason c m) = mt_admissions m"
  "mt_deferrals (count_reason c m) = mt_deferrals m" "mt_rejections (count_reason c m) = mt_rejections m"
  by (simp_all add: count_reason_def)

lemma and_count_parts [simp]:
  "fst (and_count f r) = fst r" "snd (and_count f r) = on_metrics f (snd r)"
  by (simp_all add: and_count_def)

text \<open>Everything that is the same for every refusal: only the requests and the counters move.\<close>

lemma refused_effect:
  assumes "refused now d s r"
  shows "\<exists>dec. fst r = Inr dec \<and> about d dec \<and> no_grant dec
    \<and> dec_outcome dec \<in> {AdmissionOutcome_Reject, AdmissionOutcome_Defer}
    \<and> af_requests (snd r) = af_requests (emit now d (refusal_life dec) dec False s)
    \<and> mt_evaluations (af_metrics (snd r)) = mt_evaluations (af_metrics s)
    \<and> mt_admissions (af_metrics (snd r)) = mt_admissions (af_metrics s)
    \<and> mt_deferrals (af_metrics (snd r)) + mt_rejections (af_metrics (snd r))
        = mt_deferrals (af_metrics s) + mt_rejections (af_metrics s) + 1"
  using assms
proof induction
  case (reject dec)
  then show ?case by (simp add: finish_reject_def result_ok_def refusal_life_def)
next
  case (put_off dec)
  then show ?case by (simp add: finish_defer_def result_ok_def refusal_life_def)
qed auto

lemma refused_frame:
  assumes "refused now d s r"
  shows "af_reservations (snd r) = af_reservations s" and "af_policy (snd r) = af_policy s"
    and "af_admission_generation (snd r) = af_admission_generation s"
    and "af_reservation_counter (snd r) = af_reservation_counter s"
    and "af_predictor (snd r) = af_predictor s" and "af_snapshot (snd r) = af_snapshot s"
    and "af_has_snapshot (snd r) = af_has_snapshot s" and "af_quota (snd r) = af_quota s"
    and "af_fairness (snd r) = af_fairness s"
  using assms by (induction; simp add: finish_reject_def finish_defer_def)+


section \<open>Every evaluation refuses or reaches the reservation\<close>

lemma primary_outcomes [simp]:
  "primary_outcome_of ReasonCode_AdmitWithReservation = AdmissionOutcome_Admit"
  "primary_outcome_of ReasonCode_AdmitWithRisk = AdmissionOutcome_Admit"
  "primary_outcome_of ReasonCode_DeferCapacity = AdmissionOutcome_Defer"
  "primary_outcome_of ReasonCode_DeferQuota = AdmissionOutcome_Defer"
  "primary_outcome_of ReasonCode_DeferSlo = AdmissionOutcome_Defer"
  "primary_outcome_of ReasonCode_RejectInfeasible = AdmissionOutcome_Reject"
  "primary_outcome_of ReasonCode_RejectPolicy = AdmissionOutcome_Reject"
  "primary_outcome_of ReasonCode_RejectCapability = AdmissionOutcome_Reject"
  "primary_outcome_of ReasonCode_RejectQuota = AdmissionOutcome_Reject"
  "primary_outcome_of ReasonCode_RejectMalformed = AdmissionOutcome_Reject"
  "primary_outcome_of ReasonCode_RejectStale = AdmissionOutcome_Reject"
  by (simp_all add: primary_outcome_of_def)

lemmas refusing = refused.intros about_def no_grant_def

text \<open>What the capacity stage checks.\<close>

definition capacity_gate :: "platform \<Rightarrow> i64 \<Rightarrow> AdmissionDescriptor \<Rightarrow> AdmissionPolicy \<Rightarrow> ResourceVector \<Rightarrow> AdmissionFabric \<Rightarrow> bool" where
  "capacity_gate pf now d pol demand s \<longleftrightarrow>
     (let avail = rm_availability (af_reservations s) in
      fits_in demand (rv_sat_sub avail (safety_margin pf pol avail))
      \<and> \<not> should_defer_large pol (pending_small s) (capacity_fraction avail demand)
          (f64_lt (f64_nat 10000000000) (f64_of_i64 (starvation_age now (af_fairness s) (d_tenant_id d)))))"

lemma evaluate_capacity_cases:
  "refused now d s (evaluate_capacity pf now d pol a s) \<and> \<not> capacity_gate pf now d pol (as_demand a) s
   \<or> capacity_gate pf now d pol (as_demand a) s \<and> evaluate_capacity pf now d pol a s = evaluate_reserve now d pol a s"
  by (simp add: evaluate_capacity_def capacity_gate_def Let_def refusing)

definition deadline_gate :: "AdmissionDescriptor \<Rightarrow> DurationPrediction \<Rightarrow> AdmissionFabric \<Rightarrow> bool" where
  "deadline_gate d dur s \<longleftrightarrow>
     slo_verdict (evaluate_slo s d dur) \<noteq> SloVerdict_Infeasible \<and> slo_verdict (evaluate_slo s d dur) \<noteq> SloVerdict_Unknown"

lemma evaluate_deadline_cases:
  "refused now d s (evaluate_deadline pf now d pol mem dur demand qe s)
     \<and> \<not> (deadline_gate d dur s \<and> capacity_gate pf now d pol demand s)
   \<or> deadline_gate d dur s \<and> capacity_gate pf now d pol demand s
     \<and> evaluate_deadline pf now d pol mem dur demand qe s
       = evaluate_reserve now d pol
           \<lparr>as_memory = mem, as_duration = dur, as_demand = demand, as_quota = qe, as_slo = evaluate_slo s d dur\<rparr> s"
  using evaluate_capacity_cases [of now d s pf pol
      "\<lparr>as_memory = mem, as_duration = dur, as_demand = demand, as_quota = qe, as_slo = evaluate_slo s d dur\<rparr>"]
  by (auto simp: evaluate_deadline_def deadline_gate_def Let_def refusing)

definition quota_gate :: "AdmissionDescriptor \<Rightarrow> ResourceVector \<Rightarrow> AdmissionFabric \<Rightarrow> bool" where
  "quota_gate d demand s \<longleftrightarrow> fst (classify_quota s d demand) = ReasonCode_Admit"

lemma classify_quota_range:
  "fst (classify_quota s d demand) \<in> {ReasonCode_Admit, ReasonCode_RejectQuota, ReasonCode_DeferQuota}"
  by (auto simp: classify_quota_def Let_def split: option.split)

lemma evaluate_quota_cases:
  "refused now d s (evaluate_quota pf now d pol mem dur demand s)
     \<and> \<not> (quota_gate d demand s \<and> deadline_gate d dur s \<and> capacity_gate pf now d pol demand s)
   \<or> quota_gate d demand s \<and> deadline_gate d dur s \<and> capacity_gate pf now d pol demand s
     \<and> evaluate_quota pf now d pol mem dur demand s
       = evaluate_reserve now d pol
           \<lparr>as_memory = mem, as_duration = dur, as_demand = demand,
            as_quota = default_quota_evaluation\<lparr>qe_passed := True\<rparr>, as_slo = evaluate_slo s d dur\<rparr> s"
proof -
  obtain qc rem what where q: "classify_quota s d demand = (qc, rem, what)" by (cases "classify_quota s d demand") auto
  from q classify_quota_range [of s d demand]
  consider "qc = ReasonCode_RejectQuota" | "qc = ReasonCode_DeferQuota" | "qc = ReasonCode_Admit" by auto
  then show ?thesis
  proof cases
    case 3
    then show ?thesis
      using q evaluate_deadline_cases [of now d s pf pol mem dur demand "default_quota_evaluation\<lparr>qe_passed := True\<rparr>"]
      by (auto simp: evaluate_quota_def quota_gate_def Let_def)
  qed (use q in \<open>simp_all add: evaluate_quota_def quota_gate_def Let_def refusing\<close>)
qed

definition snapshot_gate :: "i64 \<Rightarrow> AdmissionDescriptor \<Rightarrow> AdmissionPolicy \<Rightarrow> AdmissionFabric \<Rightarrow> bool" where
  "snapshot_gate now d pol s \<longleftrightarrow>
     classify_capability s d \<noteq> ReasonCode_RejectCapability
     \<and> (if af_has_snapshot s
        then \<not> (is_stale_as_of (af_snapshot s) now (p_max_snapshot_age pol) \<and> \<not> p_accept_stale_snapshot pol)
          \<and> \<not> has_unavailable_dimension (af_snapshot s)
        else \<not> p_require_reservation pol)"

text \<open>All gates, and the assessment an evaluation carries through them.\<close>

definition gates :: "platform \<Rightarrow> i64 \<Rightarrow> AdmissionDescriptor \<Rightarrow> AdmissionPolicy \<Rightarrow> AdmissionFabric \<Rightarrow> bool" where
  "gates pf now d pol s \<longleftrightarrow>
     snapshot_gate now d pol s \<and> quota_gate d (predict_demand pf (af_predictor s) d) s
     \<and> deadline_gate d (predict_duration pf (af_predictor s) d) s
     \<and> capacity_gate pf now d pol (predict_demand pf (af_predictor s) d) s"

definition assessment :: "platform \<Rightarrow> AdmissionDescriptor \<Rightarrow> AdmissionFabric \<Rightarrow> Assessment" where
  "assessment pf d s =
     \<lparr>as_memory = predict_memory pf (af_predictor s) d, as_duration = predict_duration pf (af_predictor s) d,
      as_demand = predict_demand pf (af_predictor s) d, as_quota = default_quota_evaluation\<lparr>qe_passed := True\<rparr>,
      as_slo = evaluate_slo s d (predict_duration pf (af_predictor s) d)\<rparr>"

lemma evaluate_snapshot_cases:
  "refused now d s (evaluate_snapshot pf now d pol s) \<and> \<not> gates pf now d pol s
   \<or> gates pf now d pol s \<and> evaluate_snapshot pf now d pol s = evaluate_reserve now d pol (assessment pf d s) s"
proof (cases "snapshot_gate now d pol s")
  case True
  then have "evaluate_snapshot pf now d pol s = evaluate_quota pf now d pol (predict_memory pf (af_predictor s) d)
      (predict_duration pf (af_predictor s) d) (predict_demand pf (af_predictor s) d) s"
    by (auto simp: evaluate_snapshot_def snapshot_gate_def Let_def split: if_splits)
  then show ?thesis
    using True evaluate_quota_cases [of now d s pf pol "predict_memory pf (af_predictor s) d"
        "predict_duration pf (af_predictor s) d" "predict_demand pf (af_predictor s) d"]
    by (auto simp: gates_def assessment_def)
next
  case False
  then show ?thesis
    by (auto simp: evaluate_snapshot_def snapshot_gate_def gates_def Let_def refusing split: if_splits)
qed

text \<open>The state in which the gates are checked: counted, in the lifecycle, with the policy bound.\<close>

definition counted :: "AdmissionFabric \<Rightarrow> AdmissionFabric" where
  "counted s = on_metrics (\<lambda>m. m\<lparr>mt_evaluations := mt_evaluations m + 1\<rparr>) s"

definition entered :: "i64 \<Rightarrow> AdmissionDescriptor \<Rightarrow> AdmissionFabric \<Rightarrow> AdmissionFabric" where
  "entered now d s =
     snd (transition now (d_admission_request_id d) RequestLifecycle_Proposed RequestLifecycle_Evaluating d (counted s))"

definition bound :: "i64 \<Rightarrow> AdmissionDescriptor \<Rightarrow> AdmissionPolicy \<Rightarrow> AdmissionFabric \<Rightarrow> AdmissionFabric" where
  "bound now d pol s = (entered now d s)\<lparr>af_reservations := bind_overcommit pol (af_reservations s)\<rparr>"

definition submittable :: "AdmissionDescriptor \<Rightarrow> AdmissionFabric \<Rightarrow> bool" where
  "submittable d s \<longleftrightarrow> status_ok (descriptor_validate d)
     \<and> (case om_find (af_requests s) (d_admission_request_id d) of
          None \<Rightarrow> True | Some r \<Rightarrow> evaluation_open (rr_lifecycle r))"

lemma counted_fields [simp]:
  "af_policy (counted s) = af_policy s" "af_predictor (counted s) = af_predictor s"
  "af_reservations (counted s) = af_reservations s" "af_snapshot (counted s) = af_snapshot s"
  "af_has_snapshot (counted s) = af_has_snapshot s" "af_quota (counted s) = af_quota s"
  "af_fairness (counted s) = af_fairness s" "af_requests (counted s) = af_requests s"
  "af_admission_generation (counted s) = af_admission_generation s"
  "af_reservation_counter (counted s) = af_reservation_counter s"
  by (simp_all add: counted_def)

lemma fabric_evaluate_cases [case_names turned_away no_policy gated admitted]:
  obtains (turned_away) "\<not> submittable d s" and "refused now d (counted s) (fabric_evaluate pf now d s)"
    | (no_policy) "submittable d s" and "policy_latest (af_policy s) = None"
        and "refused now d (entered now d s) (fabric_evaluate pf now d s)"
    | (gated) base where "submittable d s" and "policy_latest (af_policy s) = Some base"
        and "\<not> gates pf now d (policy_effective d base) (bound now d (policy_effective d base) s)"
        and "refused now d (bound now d (policy_effective d base) s) (fabric_evaluate pf now d s)"
    | (admitted) base where "submittable d s" and "policy_latest (af_policy s) = Some base"
        and "gates pf now d (policy_effective d base) (bound now d (policy_effective d base) s)"
        and "fabric_evaluate pf now d s = evaluate_reserve now d (policy_effective d base)
               (assessment pf d (bound now d (policy_effective d base) s)) (bound now d (policy_effective d base) s)"
proof (cases "submittable d s")
  case False
  then have "refused now d (counted s) (fabric_evaluate pf now d s)"
    by (auto simp: submittable_def fabric_evaluate_def counted_def [symmetric] Let_def refusing split: option.splits)
  then show ?thesis using False that(1) by blast
next
  case True
  then have e: "fabric_evaluate pf now d s = evaluate_policy pf now d (counted s)"
    by (auto simp: submittable_def fabric_evaluate_def counted_def [symmetric] Let_def split: option.splits)
  show ?thesis
  proof (cases "policy_latest (af_policy s)")
    case None
    then have "refused now d (entered now d s) (fabric_evaluate pf now d s)"
      by (simp add: e evaluate_policy_def entered_def Let_def refusing)
    then show ?thesis using True None that(2) by blast
  next
    case (Some base)
    then have "fabric_evaluate pf now d s
        = evaluate_snapshot pf now d (policy_effective d base) (bound now d (policy_effective d base) s)"
      by (simp add: e evaluate_policy_def bound_def entered_def Let_def)
    then show ?thesis
      using True Some that(3,4) evaluate_snapshot_cases [of now d "bound now d (policy_effective d base) s" pf "policy_effective d base"]
      by metis
  qed
qed


section \<open>The reservation stage\<close>

definition next_counter :: "u64 \<Rightarrow> u64" where
  "next_counter c = (if c = u64_max then 1 else c + 1)"

lemma evaluate_reserve_cases [case_names failed granted]:
  obtains (failed) e where
      "rm_reserve now (Id (af_reservation_counter s)) (d_tenant_id d) (as_demand a) (p_max_reservation_lifetime pol)
         (af_reservations s) = (Inl e, af_reservations s)"
      and "refused now d (s\<lparr>af_reservation_counter := next_counter (af_reservation_counter s)\<rparr>) (evaluate_reserve now d pol a s)"
    | (granted) m dec where
      "rm_reserve now (Id (af_reservation_counter s)) (d_tenant_id d) (as_demand a) (p_max_reservation_lifetime pol)
         (af_reservations s) = (Inr (Id (af_reservation_counter s)), m)"
      and "fst (evaluate_reserve now d pol a s) = Inr dec"
      and "about d dec" and "dec_outcome dec = AdmissionOutcome_Admit"
      and "dec_reason dec \<in> {ReasonCode_AdmitWithReservation, ReasonCode_AdmitWithRisk}"
      and "dec_reservation_id dec = Some (Id (af_reservation_counter s))"
      and "dec_admission_generation dec = af_admission_generation s"
      and "req_demand (dec_predicted_requirement dec) = as_demand a"
      and "af_reservations (snd (evaluate_reserve now d pol a s)) = m"
      and "af_requests (snd (evaluate_reserve now d pol a s)) = af_requests (emit now d RequestLifecycle_Reserved dec True s)"
      and "af_admission_generation (snd (evaluate_reserve now d pol a s)) = id_next (af_admission_generation s)"
      and "af_reservation_counter (snd (evaluate_reserve now d pol a s)) = next_counter (af_reservation_counter s)"
      and "af_policy (snd (evaluate_reserve now d pol a s)) = af_policy s"
      and "mt_evaluations (af_metrics (snd (evaluate_reserve now d pol a s))) = mt_evaluations (af_metrics s)"
      and "mt_admissions (af_metrics (snd (evaluate_reserve now d pol a s))) = mt_admissions (af_metrics s) + 1"
      and "mt_deferrals (af_metrics (snd (evaluate_reserve now d pol a s))) = mt_deferrals (af_metrics s)"
      and "mt_rejections (af_metrics (snd (evaluate_reserve now d pol a s))) = mt_rejections (af_metrics s)"
proof -
  let ?c = "af_reservation_counter s"
  obtain x m where rs: "rm_reserve now (Id ?c) (d_tenant_id d) (as_demand a) (p_max_reservation_lifetime pol)
      (af_reservations s) = (x, m)" by (cases "rm_reserve now (Id ?c) (d_tenant_id d) (as_demand a)
        (p_max_reservation_lifetime pol) (af_reservations s)")
  show ?thesis
  proof (cases x)
    case (Inl e)
    then have m: "m = af_reservations s" using rs rm_reserve_Inl by blast
    have s2: "s\<lparr>af_reservation_counter := next_counter ?c, af_reservations := af_reservations s\<rparr>
        = s\<lparr>af_reservation_counter := next_counter ?c\<rparr>" by simp
    have "refused now d (s\<lparr>af_reservation_counter := next_counter ?c, af_reservations := af_reservations s\<rparr>)
        (evaluate_reserve now d pol a s)"
      using rs m Inl by (simp add: evaluate_reserve_def next_reservation_id_def next_counter_def Let_def refusing)
    then show ?thesis using rs m Inl that(1) s2 by simp
  next
    case (Inr y)
    then have y: "y = Id ?c" using rs by (simp add: rm_reserve_Inr)
    let ?r = "evaluate_reserve now d pol a s"
    obtain dec where dec: "fst ?r = Inr dec" "about d dec" "dec_outcome dec = AdmissionOutcome_Admit"
      "dec_reason dec \<in> {ReasonCode_AdmitWithReservation, ReasonCode_AdmitWithRisk}"
      "dec_reservation_id dec = Some (Id ?c)" "dec_admission_generation dec = af_admission_generation s"
      "req_demand (dec_predicted_requirement dec) = as_demand a"
      and post: "snd ?r = on_metrics (\<lambda>mt. mt\<lparr>mt_active_reservations := of_nat (length (rm_reservations m))\<rparr>)
        (emit now d RequestLifecycle_Reserved dec True (s\<lparr>af_reservation_counter := next_counter ?c,
           af_reservations := m, af_admission_generation := id_next (af_admission_generation s)\<rparr>))"
      using rs Inr y
      by (simp add: evaluate_reserve_def next_reservation_id_def next_counter_def next_admission_generation_def Let_def
          result_ok_def about_def)
    have req: "af_requests (emit now d RequestLifecycle_Reserved dec True (s\<lparr>af_reservation_counter := next_counter ?c,
           af_reservations := m, af_admission_generation := id_next (af_admission_generation s)\<rparr>))
        = af_requests (emit now d RequestLifecycle_Reserved dec True s)"
      by (simp add: emit_def Let_def transition_requests)
    show ?thesis
      by (rule that(2) [of m dec]) (use rs Inr y dec post req in simp_all)
  qed
qed


section \<open>Runs of the engine\<close>

datatype fabric_op =
    FabPolicy AdmissionPolicy
  | FabProfile PredictionProfile
  | FabSnapshot ResourceSnapshot
  | FabQuota QuotaSnapshot
  | FabEvaluate i64 AdmissionDescriptor
  | FabCommit i64 AdmissionRequestId AdmissionGeneration
  | FabRelease i64 ReservationId
  | FabCancel i64 AdmissionRequestId
  | FabObserve Observation

primrec fabric_exec :: "platform \<Rightarrow> fabric_op \<Rightarrow> AdmissionFabric \<Rightarrow> AdmissionFabric" where
  "fabric_exec pf (FabPolicy p) s = snd (install_policy p s)"
| "fabric_exec pf (FabProfile p) s = snd (fabric_register_profile p s)"
| "fabric_exec pf (FabSnapshot snap) s = set_snapshot snap s"
| "fabric_exec pf (FabQuota q) s = set_quota q s"
| "fabric_exec pf (FabEvaluate now d) s = snd (fabric_evaluate pf now d s)"
| "fabric_exec pf (FabCommit now rid gen) s = snd (commit_admission now rid gen s)"
| "fabric_exec pf (FabRelease now rsv) s = snd (release_reservation now rsv s)"
| "fabric_exec pf (FabCancel now rid) s = snd (cancel_request now rid s)"
| "fabric_exec pf (FabObserve ob) s = fabric_observe ob s"

definition fabric_run :: "platform \<Rightarrow> fabric_op list \<Rightarrow> AdmissionFabric" where
  "fabric_run pf ops = fold (fabric_exec pf) ops fabric_empty"

text \<open>Two invariants over runs: one for the counters, one for the accounts.\<close>

definition balanced :: "Metrics \<Rightarrow> bool" where
  "balanced m \<longleftrightarrow> mt_evaluations m = mt_admissions m + (mt_deferrals m + mt_rejections m)"

definition ledger_wf :: "AdmissionFabric \<Rightarrow> bool" where
  "ledger_wf s \<longleftrightarrow> rm_wf (af_reservations s) \<and> om_ok (af_requests s)"

lemma rm_wf_bind [simp]: "rm_wf (bind_overcommit p m) = rm_wf m"
  by (simp add: bind_overcommit_def)

lemma bind_overcommit_fields [simp]:
  "rm_reservations (bind_overcommit p m) = rm_reservations m" "rm_total (bind_overcommit p m) = rm_total m"
  "rm_reserved_sum (bind_overcommit p m) = rm_reserved_sum m" "rm_used_sum (bind_overcommit p m) = rm_used_sum m"
  "rm_generation (bind_overcommit p m) = rm_generation m"
  by (simp_all add: bind_overcommit_def rm_set_overcommit_allowance_def rm_set_overcommit_mode_def)

lemma entered_fields [simp]:
  "af_policy (entered now d s) = af_policy s" "af_predictor (entered now d s) = af_predictor s"
  "af_reservations (entered now d s) = af_reservations s" "af_snapshot (entered now d s) = af_snapshot s"
  "af_has_snapshot (entered now d s) = af_has_snapshot s" "af_quota (entered now d s) = af_quota s"
  "af_fairness (entered now d s) = af_fairness s" "af_metrics (entered now d s) = af_metrics (counted s)"
  "af_admission_generation (entered now d s) = af_admission_generation s"
  "af_reservation_counter (entered now d s) = af_reservation_counter s"
  by (simp_all add: entered_def)

lemma bound_fields [simp]:
  "af_policy (bound now d p s) = af_policy s" "af_predictor (bound now d p s) = af_predictor s"
  "af_reservations (bound now d p s) = bind_overcommit p (af_reservations s)" "af_snapshot (bound now d p s) = af_snapshot s"
  "af_has_snapshot (bound now d p s) = af_has_snapshot s" "af_quota (bound now d p s) = af_quota s"
  "af_fairness (bound now d p s) = af_fairness s" "af_metrics (bound now d p s) = af_metrics (counted s)"
  "af_requests (bound now d p s) = af_requests (entered now d s)"
  "af_admission_generation (bound now d p s) = af_admission_generation s"
  "af_reservation_counter (bound now d p s) = af_reservation_counter s"
  by (simp_all add: bound_def)

lemma entered_requests_ok [simp]: "om_ok (af_requests s) \<Longrightarrow> om_ok (af_requests (entered now d s))"
  by (simp add: entered_def)

lemma refused_ledger: "refused now d sp r \<Longrightarrow> ledger_wf sp \<Longrightarrow> ledger_wf (snd r)"
  using refused_effect [of now d sp r] refused_frame(1) [of now d sp r] emit_requests(1) [of sp]
  by (auto simp: ledger_wf_def)

lemma ledger_wf_counted [simp]: "ledger_wf (counted s) = ledger_wf s"
  by (simp add: ledger_wf_def)

lemma ledger_wf_entered: "ledger_wf s \<Longrightarrow> ledger_wf (entered now d s)"
  by (simp add: ledger_wf_def)

lemma ledger_wf_bound: "ledger_wf s \<Longrightarrow> ledger_wf (bound now d p s)"
  by (simp add: ledger_wf_def)

lemma ledger_wf_counter [simp]: "ledger_wf (s\<lparr>af_reservation_counter := c\<rparr>) = ledger_wf s"
  by (simp add: ledger_wf_def)

lemma evaluate_reserve_ledger:
  assumes "ledger_wf s"
  shows "ledger_wf (snd (evaluate_reserve now d pol a s))"
proof (cases rule: evaluate_reserve_cases [where s = s and d = d and a = a and pol = pol and now = now])
  case (failed e)
  then show ?thesis using refused_ledger assms by simp
next
  case (granted m dec)
  then show ?thesis
    using assms rm_wf_reserve [OF _ granted(1)] emit_requests(1) [of s] by (auto simp: ledger_wf_def)
qed

lemma evaluate_ledger:
  assumes "ledger_wf s"
  shows "ledger_wf (snd (fabric_evaluate pf now d s))"
proof (cases rule: fabric_evaluate_cases [where d = d and s = s and now = now and pf = pf])
  case turned_away
  then show ?thesis using refused_ledger assms by simp
next
  case no_policy
  then show ?thesis using refused_ledger [OF _ ledger_wf_entered [OF assms]] by blast
next
  case (gated base)
  then show ?thesis using refused_ledger [OF _ ledger_wf_bound [OF assms]] by blast
next
  case (admitted base)
  then show ?thesis using evaluate_reserve_ledger [OF ledger_wf_bound [OF assms]] by simp
qed

lemma ledger_wf_exec:
  assumes "ledger_wf s"
  shows "ledger_wf (fabric_exec pf op s)"
proof (cases op)
  case (FabPolicy p)
  with assms show ?thesis
    by (auto simp: ledger_wf_def install_policy_def Let_def split: prod.split option.split)
next
  case (FabCommit now rid gen)
  with assms show ?thesis
    using rm_wf_commit [of "af_reservations s"]
    by (auto simp: ledger_wf_def commit_admission_def Let_def om_ok_put split: prod.split option.split)
next
  case (FabRelease now rsv)
  with assms show ?thesis
    using rm_wf_release [of "af_reservations s" rsv]
    by (auto simp: ledger_wf_def release_reservation_def Let_def om_ok_map split: prod.split)
next
  case (FabCancel now rid)
  have "rm_wf (snd (rm_rollback r (af_reservations s)))" for r
    using assms rm_wf_rollback [of "af_reservations s" r] by (auto simp: ledger_wf_def prod_eq_iff)
  with FabCancel assms show ?thesis
    by (auto simp: ledger_wf_def cancel_request_def Let_def om_ok_put split: option.split)
next
  case (FabEvaluate now d)
  with assms show ?thesis using evaluate_ledger by simp
qed (use assms in \<open>simp_all add: ledger_wf_def fabric_register_profile_def set_snapshot_def set_quota_def
    fabric_observe_def case_prod_beta\<close>)

lemma ledger_wf_run: "ledger_wf (fabric_run pf ops)"
proof (induction ops rule: rev_induct)
  case Nil
  show ?case by (simp add: fabric_run_def ledger_wf_def fabric_empty_def)
qed (simp add: fabric_run_def ledger_wf_exec)


section \<open>The counters balance\<close>

lemma counted_metrics [simp]:
  "mt_evaluations (af_metrics (counted s)) = mt_evaluations (af_metrics s) + 1"
  "mt_admissions (af_metrics (counted s)) = mt_admissions (af_metrics s)"
  "mt_deferrals (af_metrics (counted s)) = mt_deferrals (af_metrics s)"
  "mt_rejections (af_metrics (counted s)) = mt_rejections (af_metrics s)"
  by (simp_all add: counted_def)

lemma refused_balance:
  "refused now d sp r \<Longrightarrow> balanced (af_metrics s) \<Longrightarrow> af_metrics sp = af_metrics (counted s) \<Longrightarrow> balanced (af_metrics (snd r))"
  using refused_effect [of now d sp r] by (auto simp: balanced_def)

lemma evaluate_reserve_balance:
  assumes "balanced (af_metrics s)" and "af_metrics sp = af_metrics (counted s)"
  shows "balanced (af_metrics (snd (evaluate_reserve now d pol a sp)))"
proof (cases rule: evaluate_reserve_cases [where s = sp and d = d and a = a and pol = pol and now = now])
  case (failed e)
  then show ?thesis using refused_balance assms by simp
next
  case (granted m dec)
  then show ?thesis using assms by (simp add: balanced_def)
qed

lemma evaluate_balance:
  assumes "balanced (af_metrics s)"
  shows "balanced (af_metrics (snd (fabric_evaluate pf now d s)))"
proof (cases rule: fabric_evaluate_cases [where d = d and s = s and now = now and pf = pf])
  case (admitted base)
  then show ?thesis using evaluate_reserve_balance [OF assms] by simp
qed (use refused_balance [OF _ assms] in simp_all)

lemma balanced_exec:
  assumes "balanced (af_metrics s)"
  shows "balanced (af_metrics (fabric_exec pf op s))"
proof (cases op)
  case (FabEvaluate now d)
  with assms show ?thesis using evaluate_balance by simp
next
  case (FabRelease now rsv)
  with assms show ?thesis
    by (cases "rm_release rsv (af_reservations s)") (simp add: release_reservation_def Let_def balanced_def)
qed (use assms in \<open>auto simp: fabric_register_profile_def set_snapshot_def set_quota_def fabric_observe_def
    install_policy_def commit_admission_def cancel_request_def Let_def split: prod.split option.split\<close>)

text \<open>After every sequence of engine operations on a fresh engine, the number of evaluations is the
  number of admissions, deferrals and rejections together: every evaluation is counted under exactly one
  outcome, whichever of its exits it took.\<close>

theorem evaluations_balance:
  "mt_evaluations (af_metrics (fabric_run pf ops)) =
     mt_admissions (af_metrics (fabric_run pf ops)) + mt_deferrals (af_metrics (fabric_run pf ops))
     + mt_rejections (af_metrics (fabric_run pf ops))"
proof -
  have "balanced (af_metrics (fabric_run pf ops))"
  proof (induction ops rule: rev_induct)
    case Nil
    show ?case by (simp add: fabric_run_def fabric_empty_def metrics_empty_def balanced_def)
  qed (simp add: fabric_run_def balanced_exec)
  then show ?thesis by (simp add: balanced_def add.assoc)
qed

section \<open>What stands behind an admission\<close>

lemma entered_requests:
  "om_ok (af_requests s) \<Longrightarrow> om_find (af_requests (entered now d s)) j =
     (if j = d_admission_request_id d
      then Some (advance now RequestLifecycle_Proposed RequestLifecycle_Evaluating
             (case om_find (af_requests s) j of Some r \<Rightarrow> r | None \<Rightarrow> new_record now j RequestLifecycle_Proposed d))
      else om_find (af_requests s) j)"
  by (auto simp: entered_def transition_requests om_find_put)

text \<open>The two ends of an evaluation: a refusal, which leaves the accounts alone, or a grant.\<close>

definition same_accounts :: "ReservationManager \<Rightarrow> ReservationManager \<Rightarrow> bool" where
  "same_accounts m m' \<longleftrightarrow> rm_reservations m' = rm_reservations m \<and> rm_reserved_sum m' = rm_reserved_sum m
     \<and> rm_used_sum m' = rm_used_sum m \<and> rm_total m' = rm_total m \<and> rm_generation m' = rm_generation m"

lemma same_accounts_simps [simp]: "same_accounts m m" "same_accounts m (bind_overcommit p m)"
  by (simp_all add: same_accounts_def)

text \<open>The requests as the emission finds them: before or after the entry into the lifecycle.\<close>

definition staged :: "i64 \<Rightarrow> AdmissionDescriptor \<Rightarrow> AdmissionFabric \<Rightarrow> AdmissionFabric \<Rightarrow> bool" where
  "staged now d s sp \<longleftrightarrow> af_requests sp = af_requests s \<and> \<not> submittable d s
     \<or> af_requests sp = af_requests (entered now d s) \<and> submittable d s"

lemma evaluate_outcome [case_names refused granted]:
  obtains (refused) dec sp where
      "fst (fabric_evaluate pf now d s) = Inr dec" and "about d dec" and "no_grant dec"
      and "dec_outcome dec \<in> {AdmissionOutcome_Reject, AdmissionOutcome_Defer}"
      and "af_requests (snd (fabric_evaluate pf now d s)) = af_requests (emit now d (refusal_life dec) dec False sp)"
      and "staged now d s sp"
      and "same_accounts (af_reservations s) (af_reservations (snd (fabric_evaluate pf now d s)))"
      and "af_admission_generation (snd (fabric_evaluate pf now d s)) = af_admission_generation s"
      and "af_reservation_counter (snd (fabric_evaluate pf now d s))
             \<in> {af_reservation_counter s, next_counter (af_reservation_counter s)}"
    | (granted) base pol m dec where
      "submittable d s" and "policy_latest (af_policy s) = Some base" and "pol = policy_effective d base"
      and "gates pf now d pol (bound now d pol s)"
      and "rm_reserve now (Id (af_reservation_counter s)) (d_tenant_id d) (predict_demand pf (af_predictor s) d)
             (p_max_reservation_lifetime pol) (bind_overcommit pol (af_reservations s))
           = (Inr (Id (af_reservation_counter s)), m)"
      and "fst (fabric_evaluate pf now d s) = Inr dec" and "about d dec" and "dec_outcome dec = AdmissionOutcome_Admit"
      and "dec_reservation_id dec = Some (Id (af_reservation_counter s))"
      and "dec_admission_generation dec = af_admission_generation s"
      and "req_demand (dec_predicted_requirement dec) = predict_demand pf (af_predictor s) d"
      and "af_reservations (snd (fabric_evaluate pf now d s)) = m"
      and "af_requests (snd (fabric_evaluate pf now d s))
            = af_requests (emit now d RequestLifecycle_Reserved dec True (bound now d pol s))"
      and "af_admission_generation (snd (fabric_evaluate pf now d s)) = id_next (af_admission_generation s)"
      and "af_reservation_counter (snd (fabric_evaluate pf now d s)) = next_counter (af_reservation_counter s)"
proof (cases rule: fabric_evaluate_cases [where d = d and s = s and now = now and pf = pf])
  case turned_away
  from refused_effect [OF turned_away(2)] refused_frame [OF turned_away(2)] turned_away(1) that(1) [where sp = "counted s"]
  show ?thesis by (auto simp: staged_def)
next
  case no_policy
  from refused_effect [OF no_policy(3)] refused_frame [OF no_policy(3)] no_policy(1) that(1) [where sp = "entered now d s"]
  show ?thesis by (auto simp: staged_def)
next
  case (gated base)
  from refused_effect [OF gated(4)] refused_frame [OF gated(4)] gated(1)
    that(1) [where sp = "bound now d (policy_effective d base) s"]
  show ?thesis by (auto simp: staged_def)
next
  case (admitted base)
  let ?pol = "policy_effective d base"
  let ?sp = "bound now d ?pol s"
  show ?thesis
  proof (cases rule: evaluate_reserve_cases [where s = ?sp and d = d and a = "assessment pf d ?sp" and pol = ?pol and now = now])
    case (failed e)
    from refused_effect [OF failed(2)] refused_frame [OF failed(2)] admitted that(1)
      [where sp = "?sp\<lparr>af_reservation_counter := next_counter (af_reservation_counter ?sp)\<rparr>"]
    show ?thesis by (auto simp: staged_def emit_def Let_def transition_requests)
  next
    case (granted m dec)
    show ?thesis
      by (rule that(2) [of base ?pol m dec]) (use admitted granted in \<open>simp_all add: assessment_def\<close>)
  qed
qed


lemma staged_ok: "staged now d s sp \<Longrightarrow> om_ok (af_requests s) \<Longrightarrow> om_ok (af_requests sp)"
  by (auto simp: staged_def)

lemma staged_other:
  "staged now d s sp \<Longrightarrow> om_ok (af_requests s) \<Longrightarrow> j \<noteq> d_admission_request_id d
    \<Longrightarrow> om_find (af_requests sp) j = om_find (af_requests s) j"
  by (auto simp: staged_def entered_requests)

lemma advance_last [simp]: "rr_last_decision (advance now a b r) = rr_last_decision r"
  by (simp add: advance_def)

lemma settled_last [simp]: "rr_last_decision (settled_record now life dec old) = Some dec"
  by (simp add: settled_record_def)

lemma staged_bound: "submittable d s \<Longrightarrow> staged now d s (bound now d pol s)"
  by (simp add: staged_def)

text \<open>The requests after an evaluation.\<close>

lemma evaluate_requests:
  assumes "om_ok (af_requests s)"
  shows "\<exists>dec r. fst (fabric_evaluate pf now d s) = Inr dec \<and> about d dec \<and> rr_last_decision r = Some dec
    \<and> (\<forall>j. om_find (af_requests (snd (fabric_evaluate pf now d s))) j
           = (if j = d_admission_request_id d then Some r else om_find (af_requests s) j))"
proof (cases rule: evaluate_outcome [where d = d and s = s and now = now and pf = pf])
  case (refused dec sp)
  note ok = staged_ok [OF refused(6) assms]
  show ?thesis
    using refused(1,2,5) emit_requests(2) [OF ok] staged_other [OF refused(6) assms]
    by (intro exI [of _ dec] exI [of _ "settled_record now (refusal_life dec) dec
        (om_find (af_requests sp) (d_admission_request_id d))"]) auto
next
  case (granted base pol m dec)
  note st = staged_bound [OF granted(1), of now pol]
  note ok = staged_ok [OF st assms]
  show ?thesis
    using granted(6,7,13) emit_requests(2) [OF ok] staged_other [OF st assms]
    by (intro exI [of _ dec] exI [of _ "settled_record now RequestLifecycle_Reserved dec
        (om_find (af_requests (bound now d pol s)) (d_admission_request_id d))"]) auto
qed

lemma run_requests_ok [simp]: "om_ok (af_requests (fabric_run pf ops))"
  using ledger_wf_run [of pf ops] by (simp add: ledger_wf_def)

lemma run_rm_wf [simp]: "rm_wf (af_reservations (fabric_run pf ops))"
  using ledger_wf_run [of pf ops] by (simp add: ledger_wf_def)

text \<open>C33: after any run, an evaluation returns a decision about the request it was given, whose outcome is the
  one its reason stands for, stores it as that request's last decision and touches no other request.\<close>

theorem evaluate_decides:
  "\<exists>dec r. fst (fabric_evaluate pf now d (fabric_run pf ops)) = Inr dec
    \<and> dec_admission_request_id dec = d_admission_request_id d \<and> dec_tenant_id dec = d_tenant_id d
    \<and> dec_outcome dec = primary_outcome_of (dec_reason dec) \<and> rr_last_decision r = Some dec
    \<and> (\<forall>j. fabric_request (snd (fabric_evaluate pf now d (fabric_run pf ops))) j
           = (if j = d_admission_request_id d then Some r else fabric_request (fabric_run pf ops) j))"
  using evaluate_requests [OF run_requests_ok, of pf now d pf ops] by (auto simp: about_def fabric_request_def)

text \<open>C15: a deferred or rejected evaluation reserves nothing: whatever the history, the table, both running
  sums and the generations are what they were, and the decision carries neither a reservation nor a generation.\<close>

theorem refusal_reserves_nothing:
  assumes "fst (fabric_evaluate pf now d (fabric_run pf ops)) = Inr dec" and "\<not> is_admit dec"
  shows "let s = fabric_run pf ops; s' = snd (fabric_evaluate pf now d s) in
    rm_reservations (af_reservations s') = rm_reservations (af_reservations s)
    \<and> rm_reserved_sum (af_reservations s') = rm_reserved_sum (af_reservations s)
    \<and> rm_used_sum (af_reservations s') = rm_used_sum (af_reservations s)
    \<and> af_admission_generation s' = af_admission_generation s
    \<and> dec_reservation_id dec = None \<and> dec_admission_generation dec = Id 0 \<and> (is_defer dec \<or> is_reject dec)"
  by (cases rule: evaluate_outcome [where d = d and s = "fabric_run pf ops" and now = now and pf = pf])
    (use assms in \<open>auto simp: same_accounts_def no_grant_def is_admit_def is_defer_def is_reject_def Let_def\<close>)

lemma refusal_reserves_nothing_witness:
  "is_nil (d_admission_request_id default_descriptor)
   \<and> dec_reservation_id (projr (fst (fabric_evaluate demo_platform 0 default_descriptor (fabric_run demo_platform [])))) = None"
proof -
  have bad: "\<not> status_ok (descriptor_validate default_descriptor)"
    by (simp add: descriptor_validate_def default_descriptor_def is_nil_def)
  then obtain dec where dec: "fst (fabric_evaluate demo_platform 0 default_descriptor (fabric_run demo_platform [])) = Inr dec" "\<not> is_admit dec"
    by (simp add: fabric_evaluate_def finish_reject_def result_ok_def is_admit_def Let_def)
  show ?thesis
    using refusal_reserves_nothing [OF dec] dec(1) by (simp add: Let_def default_descriptor_def is_nil_def)
qed


lemma granted_reservation:
  assumes "rm_wf m" and "rm_reserve now rid owner demand ttl m = (Inr rid, m')"
  shows "om_find (rm_reservations m) rid = None \<and> \<not> rv_is_zero demand
    \<and> rm_reservations m' = om_put rid
        \<lparr>rsv_id = rid, rsv_owner = owner, rsv_demand = demand, rsv_created_at = now, rsv_expires_at = now + ttl,
         rsv_admission_request_id = None, rsv_admission_generation = None, rsv_status = ReservationStatus_Reserved,
         rsv_generation = next_generation (rm_generation m)\<rparr> (rm_reservations m)
    \<and> (\<forall>i. unat (rm_reserved_sum m' i) = unat (rm_reserved_sum m i) + unat (demand i))
    \<and> rm_used_sum m' = rm_used_sum m \<and> rm_ceiling m' = rm_ceiling m
    \<and> (\<forall>i. unat (rm_reserved_sum m' i) + unat (rm_used_sum m' i) \<le> unat (dim_ceiling m i))"
proof -
  from assms(2) obtain nxt total where *: "try_add (rm_reserved_sum m) demand = Some nxt"
      "try_add (rm_used_sum m) nxt = Some total" "\<forall>i. total i \<le> dim_ceiling m i"
      and m': "rm_reserved_sum m' = nxt" "rm_used_sum m' = rm_used_sum m"
      and rest: "om_find (rm_reservations m) rid = None" "\<not> rv_is_zero demand"
        "rm_ceiling m' = rm_ceiling m"
        "rm_reservations m' = om_put rid
        \<lparr>rsv_id = rid, rsv_owner = owner, rsv_demand = demand, rsv_created_at = now, rsv_expires_at = now + ttl,
         rsv_admission_request_id = None, rsv_admission_generation = None, rsv_status = ReservationStatus_Reserved,
         rsv_generation = next_generation (rm_generation m)\<rparr> (rm_reservations m)"
    by (clarsimp simp: rm_reserve_Inr)
  have "unat (nxt i) = unat (rm_reserved_sum m i) + unat (demand i)" for i
    using *(1) by (simp add: try_add_Some)
  moreover have "unat (nxt i) + unat (rm_used_sum m i) \<le> unat (dim_ceiling m i)" for i
    using *(2,3) by (simp add: try_add_Some word_le_nat_alt add.commute)
  ultimately show ?thesis using m' rest by simp
qed

text \<open>C1: every admission is backed: its decision names a reservation that did not exist before and is now in
  the table as Reserved, for the decision's predicted demand, the descriptor's tenant and the policy's lifetime;
  exactly this demand has been added to the reserved sum, and the decision carries the current generation,
  which is then advanced.\<close>

theorem admission_is_backed:
  assumes "fst (fabric_evaluate pf now d (fabric_run pf ops)) = Inr dec" and "is_admit dec"
  shows "let s = fabric_run pf ops; s' = snd (fabric_evaluate pf now d s) in
    \<exists>rsv r base. dec_reservation_id dec = Some rsv
      \<and> om_find (rm_reservations (af_reservations s)) rsv = None
      \<and> om_find (rm_reservations (af_reservations s')) rsv = Some r
      \<and> rsv_status r = ReservationStatus_Reserved \<and> rsv_owner r = d_tenant_id d
      \<and> rsv_demand r = predict_demand pf (af_predictor s) d
      \<and> req_demand (dec_predicted_requirement dec) = rsv_demand r
      \<and> fabric_policy s = Some base
      \<and> rsv_expires_at r = now + p_max_reservation_lifetime (policy_effective d base)
      \<and> (\<forall>i. unat (rm_reserved_sum (af_reservations s') i)
            = unat (rm_reserved_sum (af_reservations s) i) + unat (rsv_demand r i))
      \<and> rm_used_sum (af_reservations s') = rm_used_sum (af_reservations s)
      \<and> dec_admission_generation dec = af_admission_generation s
      \<and> af_admission_generation s' = id_next (af_admission_generation s)"
proof (cases rule: evaluate_outcome [where d = d and s = "fabric_run pf ops" and now = now and pf = pf])
  case (refused dec' sp)
  then show ?thesis using assms by (auto simp: is_admit_def)
next
  case (granted base pol m dec')
  have eq: "dec' = dec" using granted(6) assms(1) by simp
  have wf: "rm_wf (bind_overcommit pol (af_reservations (fabric_run pf ops)))" by simp
  note ok = rm_wf_om_ok [OF wf, simplified]
  show ?thesis
    using granted_reservation [OF wf granted(5)] granted(2,3,9-15) ok
    by (auto simp: eq Let_def om_find_put fabric_policy_def)
qed


section \<open>The limits an admission respects\<close>

lemma capability_gate:
  "classify_capability s d \<noteq> ReasonCode_RejectCapability \<longleftrightarrow>
     d_backend d = []
     \<or> cap_contains (snap_capabilities (af_snapshot s)) (cap_backend (d_backend d))
       \<and> (d_dtype d = [] \<or> cap_contains (snap_capabilities (af_snapshot s)) (cap_dtype (d_dtype d)))
       \<and> (d_quantization d = [] \<or> cap_contains (snap_capabilities (af_snapshot s)) (cap_quantization (d_quantization d)))"
  by (auto simp: classify_capability_def Let_def cap_contains_all_def cap_add_def)

lemma quota_violation_None:
  "quota_violation is q rem demand = None \<longleftrightarrow> (\<forall>i \<in> set is. \<not> quota_constrained q i \<or> demand i \<le> rem i)"
  by (induction "is") auto

lemma quota_gate_iff:
  "quota_gate d demand s \<longleftrightarrow>
     \<not> q_present (af_quota s)
     \<or> (q_token_budget (af_quota s) = 0
         \<or> d_input_tokens d + d_expected_output_tokens d \<le> q_token_budget (af_quota s))
       \<and> (\<forall>i. \<not> quota_constrained (af_quota s) i \<or> demand i \<le> quota_remaining (af_quota s) i)"
proof -
  let ?v = "quota_violation resource_ids (af_quota s) (quota_remaining (af_quota s)) demand"
  have v: "(\<forall>i. \<not> quota_constrained (af_quota s) i \<or> demand i \<le> quota_remaining (af_quota s) i) \<longleftrightarrow> ?v = None"
    by (simp add: quota_violation_None)
  show ?thesis
    unfolding v by (cases ?v) (auto simp: quota_gate_def classify_quota_def Let_def not_less)
qed

lemma deadline_gate_iff:
  "deadline_gate d dur s \<longleftrightarrow>
     (case d_deadline d of
        None \<Rightarrow> d_latency_class d \<noteq> LatencyClass_FixedDeadline
      | Some t \<Rightarrow> 0 <s t - slo_predicted_total (evaluate_slo s d dur))"
proof (cases "d_deadline d")
  case None
  then show ?thesis by (auto simp: deadline_gate_def evaluate_slo_def Let_def)
next
  case (Some t)
  have total: "slo_predicted_total (evaluate_slo s d dur) = queue_delay (snap_pressure (af_snapshot s) AcceleratorMemory)
      + dp_transfer dur + dp_expected dur + milliseconds 1"
    using Some by (simp add: evaluate_slo_def Let_def slo_predicted_total_def)
  show ?thesis
    unfolding total using Some
    by (simp add: deadline_gate_def evaluate_slo_def Let_def slo_predicted_total_def word_sless_alt word_sle_eq not_le)
qed

text \<open>The margin stays free in every dimension the demand uses.\<close>

lemma fits_leaves_margin:
  assumes "fits_in demand (rv_sat_sub (rm_availability m) margin)" and "demand i \<noteq> 0"
  shows "unat (rm_reserved_sum m i) + unat (demand i) + unat (rm_used_sum m i) + unat (margin i) \<le> unat (dim_ceiling m i)"
proof -
  have "unat (demand i) \<le> unat (dim_ceiling m i) - unat (sat_add (rm_reserved_sum m i) (rm_used_sum m i)) - unat (margin i)"
    using assms(1) by (simp add: fits_in_iff word_le_nat_alt rv_sat_sub_def rm_availability_def unat_sat_sub)
  moreover have "0 < unat (demand i)" using assms(2) by (simp add: unat_gt_0)
  moreover have "unat (dim_ceiling m i) < 2 ^ 64" by (rule unat_u64_less)
  ultimately show ?thesis by (simp add: unat_sat_add min_def split: if_split_asm)
qed

text \<open>C2: an admitted request is within every limit of the policy in force: the descriptor is valid; the required
  capabilities are present; the snapshot is fresh or tolerated, and there is one where reservations are required;
  a present quota covers the tokens and every constrained dimension; a deadline lies after the predicted total
  time; in every dimension reserved and used stay within the ceiling, and where the demand is not zero the
  safety margin is still free after the grant: the headroom ratio of the policy, taken in double arithmetic of
  what was available before the grant under the overcommit mode of the policy, plus the absolute margin of the
  dimension (saturating at 2^64 - 1).\<close>

theorem admission_respects_limits:
  assumes "fst (fabric_evaluate pf now d (fabric_run pf ops)) = Inr dec" and "is_admit dec"
  shows "let s = fabric_run pf ops; s' = snd (fabric_evaluate pf now d s);
             m = af_reservations s'; demand = predict_demand pf (af_predictor s) d; caps = snap_capabilities (af_snapshot s) in
    \<exists>base pol. fabric_policy s = Some base \<and> pol = policy_effective d base
      \<and> status_ok (descriptor_validate d)
      \<and> (d_backend d = [] \<or> cap_contains caps (cap_backend (d_backend d))
           \<and> (d_dtype d = [] \<or> cap_contains caps (cap_dtype (d_dtype d)))
           \<and> (d_quantization d = [] \<or> cap_contains caps (cap_quantization (d_quantization d))))
      \<and> (if af_has_snapshot s
         then p_accept_stale_snapshot pol \<or> \<not> is_stale_as_of (af_snapshot s) now (p_max_snapshot_age pol)
         else \<not> p_require_reservation pol)
      \<and> (\<not> q_present (af_quota s)
         \<or> (q_token_budget (af_quota s) = 0
             \<or> d_input_tokens d + d_expected_output_tokens d \<le> q_token_budget (af_quota s))
           \<and> (\<forall>i. \<not> quota_constrained (af_quota s) i \<or> demand i \<le> quota_remaining (af_quota s) i))
      \<and> (case d_deadline d of
           None \<Rightarrow> d_latency_class d \<noteq> LatencyClass_FixedDeadline
         | Some t \<Rightarrow> 0 <s t - slo_predicted_total (evaluate_slo s d (predict_duration pf (af_predictor s) d)))
      \<and> (\<forall>i. unat (rm_reserved_sum m i) + unat (rm_used_sum m i) \<le> unat (dim_ceiling m i))
      \<and> (\<forall>i. demand i = 0
           \<or> unat (rm_reserved_sum m i) + unat (rm_used_sum m i)
              + unat (sat_add
                  (f64_to_u64 pf (f64_mul (f64_of_u64 (rm_availability (bind_overcommit pol (af_reservations s)) i))
                                          (p_safety_headroom_ratio pol)))
                  (p_absolute_safety_margin pol i))
             \<le> unat (dim_ceiling m i))"
proof (cases rule: evaluate_outcome [where d = d and s = "fabric_run pf ops" and now = now and pf = pf])
  case (refused dec' sp)
  then show ?thesis using assms by (auto simp: is_admit_def)
next
  case (granted base pol m dec')
  let ?s = "fabric_run pf ops"
  let ?b = "bound now d pol ?s"
  let ?bm = "bind_overcommit pol (af_reservations ?s)"
  let ?demand = "predict_demand pf (af_predictor ?s) d"
  have wf: "rm_wf ?bm" by simp
  note g = granted_reservation [OF wf granted(5)]
  have slo: "evaluate_slo ?b d dur = evaluate_slo ?s d dur" for dur
    by (simp add: evaluate_slo_def)
  have gates: "snapshot_gate now d pol ?b" "quota_gate d ?demand ?b"
      "deadline_gate d (predict_duration pf (af_predictor ?s) d) ?b" "capacity_gate pf now d pol ?demand ?b"
    using granted(4) by (simp_all add: gates_def)
  have c: "dim_ceiling m i = dim_ceiling ?bm i" for i
    using g by (metis rm_ceiling_def)
  have margin: "\<forall>i. ?demand i = 0
      \<or> unat (rm_reserved_sum m i) + unat (rm_used_sum m i)
         + unat (sat_add (f64_to_u64 pf (f64_mul (f64_of_u64 (rm_availability ?bm i)) (p_safety_headroom_ratio pol)))
             (p_absolute_safety_margin pol i))
        \<le> unat (dim_ceiling m i)"
  proof (rule allI, unfold disj_imp, rule impI)
    fix i assume used: "?demand i \<noteq> 0"
    have "fits_in ?demand (rv_sat_sub (rm_availability ?bm) (safety_margin pf pol (rm_availability ?bm)))"
      using gates(4) by (simp add: capacity_gate_def Let_def)
    from fits_leaves_margin [OF this used] g
    show "unat (rm_reserved_sum m i) + unat (rm_used_sum m i)
         + unat (sat_add (f64_to_u64 pf (f64_mul (f64_of_u64 (rm_availability ?bm i)) (p_safety_headroom_ratio pol)))
             (p_absolute_safety_margin pol i))
        \<le> unat (dim_ceiling m i)"
      unfolding c by (simp add: safety_margin_def)
  qed
  have valid: "status_ok (descriptor_validate d)" using granted(1) by (simp add: submittable_def)
  have policy: "fabric_policy ?s = Some base" using granted(2) by (simp add: fabric_policy_def)
  have ceiling: "\<forall>i. unat (rm_reserved_sum m i) + unat (rm_used_sum m i) \<le> unat (dim_ceiling m i)"
    unfolding c using g by blast
  have fresh: "if af_has_snapshot ?s
      then p_accept_stale_snapshot pol \<or> \<not> is_stale_as_of (af_snapshot ?s) now (p_max_snapshot_age pol)
      else \<not> p_require_reservation pol"
    using gates(1) by (auto simp: snapshot_gate_def split: if_splits)
  have capable: "classify_capability ?b d \<noteq> ReasonCode_RejectCapability" using gates(1) by (simp add: snapshot_gate_def)
  note limits = capable [unfolded capability_gate bound_fields] gates(2) [unfolded quota_gate_iff bound_fields]
    gates(3) [unfolded deadline_gate_iff slo]
  show ?thesis
    unfolding Let_def granted(12)
    by (rule exI [of _ base], rule exI [of _ pol]) (intro conjI policy granted(3) valid limits fresh ceiling margin)
qed


section \<open>An example engine\<close>

text \<open>Once its gates are passed, an evaluation admits if the reservation fits.\<close>

lemma evaluate_admits:
  assumes "submittable d s" and "policy_latest (af_policy s) = Some base" and "pol = policy_effective d base"
    and "gates pf now d pol (bound now d pol s)"
    and "om_find (rm_reservations (af_reservations s)) (Id (af_reservation_counter s)) = None"
    and "\<not> rv_is_zero (predict_demand pf (af_predictor s) d)"
    and "\<And>i. unat (rm_reserved_sum (af_reservations s) i) + unat (predict_demand pf (af_predictor s) d i)
        + unat (rm_used_sum (af_reservations s) i) \<le> unat (dim_ceiling (bind_overcommit pol (af_reservations s)) i)"
  shows "\<exists>dec. fst (fabric_evaluate pf now d s) = Inr dec \<and> is_admit dec"
proof (cases rule: fabric_evaluate_cases [where d = d and s = s and now = now and pf = pf])
  case (admitted b)
  then have b: "policy_effective d b = pol" using assms(2,3) by simp
  let ?sp = "bound now d pol s"
  show ?thesis
  proof (cases rule: evaluate_reserve_cases [where s = ?sp and d = d and a = "assessment pf d ?sp" and pol = pol and now = now])
    case (failed e)
    then show ?thesis
      using rm_reserve_total [of "bind_overcommit pol (af_reservations s)" "Id (af_reservation_counter s)"
          "predict_demand pf (af_predictor s) d" now "d_tenant_id d" "p_max_reservation_lifetime pol"] assms(5-7)
      by (auto simp: assessment_def)
  next
    case (granted m dec)
    then show ?thesis using admitted(4) b by (simp add: is_admit_def)
  qed
qed (use assms in auto)

definition demo_snapshot :: ResourceSnapshot where
  "demo_snapshot = default_snapshot\<lparr>snap_total := rv_zero(AcceleratorMemory := 17179869184)\<rparr>"

definition demo_setup :: "fabric_op list" where
  "demo_setup = [FabPolicy default_policy, FabSnapshot demo_snapshot]"

definition demo_policy :: AdmissionPolicy where
  "demo_policy = default_policy\<lparr>p_generation := Id 1\<rparr>"

definition demo_fabric :: AdmissionFabric where
  "demo_fabric = fabric_empty\<lparr>af_policy := \<lparr>pe_policies = [(Id 1, demo_policy)], pe_latest = Id 1, pe_counter = 2\<rparr>,
     af_snapshot := demo_snapshot, af_has_snapshot := True, af_reservations := rm_empty\<lparr>rm_total := snap_total demo_snapshot\<rparr>\<rparr>"

lemma demo_policy_installed:
  "policy_install default_policy policy_engine_empty
     = (status_success, \<lparr>pe_policies = [(Id 1, demo_policy)], pe_latest = Id 1, pe_counter = 2\<rparr>)"
  using default_policy_valid
  by (simp add: policy_install_def policy_engine_empty_def u64_max_numeral kMaxGenerations_def Let_def demo_policy_def)

lemma demo_run: "fabric_run pf demo_setup = demo_fabric"
proof -
  have b: "bind_overcommit demo_policy rm_empty = rm_empty"
    by (simp add: bind_overcommit_def demo_policy_def default_policy_def rm_set_overcommit_mode_def
        rm_set_overcommit_allowance_def rm_empty_def)
  show ?thesis
    by (simp add: fabric_run_def demo_setup_def install_policy_def fabric_empty_def demo_policy_installed
        policy_latest_def b set_snapshot_def rm_set_total_def demo_fabric_def)
qed

lemma demo_demand:
  "predict_demand pf predictor_empty demo_descriptor i \<le> 412722465"
  "\<not> rv_is_zero (predict_demand pf predictor_empty demo_descriptor)"
proof -
  have nb: "bound_profile predictor_empty demo_descriptor = None"
    by (simp add: bound_profile_def profile_for_descriptor_def predictor_empty_def Let_def)
  have t: "cold_tokens demo_descriptor = 150"
    by (simp add: cold_tokens_def demo_descriptor_def default_descriptor_def output_budget_def)
  note c = cold_demand [OF demo_descriptor_valid nb, of pf, unfolded t]
  have "predict_demand pf predictor_empty demo_descriptor i = 0"
    if "i \<in> {PersistentCache, AcceleratorCompute, CpuSupport, TransferBandwidth, ModelResidency}"
    using that nb by (auto simp: predict_demand_def Let_def)
  then show "predict_demand pf predictor_empty demo_descriptor i \<le> 412722465"
    using c by (cases i) (simp_all add: word_le_nat_alt)
  show "\<not> rv_is_zero (predict_demand pf predictor_empty demo_descriptor)" using c by blast
qed

lemma demo_margins:
  "f64_to_u64 pf (f64_mul (f64_of_u64 17179869184) (f64_lit 10 100)) = 1717986918"
  "f64_to_u64 pf (f64_mul (f64_of_u64 4611686018427387903) (f64_lit 10 100)) = 461168601842738816"
  by (simp_all add: f64_of_u64_def f64_to_u64_def f64_eval cong: let_weak_cong)


lemma rv_update_rv_zero: "(rv_zero(AcceleratorMemory := x)) i = (if i = AcceleratorMemory then x else 0)"
  by (simp add: rv_zero_def)

lemma demo_effective: "policy_effective demo_descriptor demo_policy = demo_policy"
  by (simp add: policy_effective_def demo_policy_def default_policy_def)

lemma demo_bind: "bind_overcommit demo_policy m = m\<lparr>rm_overcommit_mode := OvercommitMode_None, rm_overcommit_allowance := rv_zero\<rparr>"
  by (simp add: bind_overcommit_def demo_policy_def default_policy_def rm_set_overcommit_mode_def rm_set_overcommit_allowance_def)

lemma demo_fields:
  "af_policy demo_fabric = \<lparr>pe_policies = [(Id 1, demo_policy)], pe_latest = Id 1, pe_counter = 2\<rparr>"
  "af_predictor demo_fabric = predictor_empty" "af_snapshot demo_fabric = demo_snapshot" "af_has_snapshot demo_fabric"
  "af_reservations demo_fabric = rm_empty\<lparr>rm_total := snap_total demo_snapshot\<rparr>" "af_quota demo_fabric = default_quota False"
  "af_fairness demo_fabric = []" "af_requests demo_fabric = []" "af_reservation_counter demo_fabric = 1"
  "af_admission_generation demo_fabric = Id 1"
  by (simp_all add: demo_fabric_def fabric_empty_def)

text \<open>A state like the example: its policy, snapshot and empty accounts, whatever its requests.\<close>

definition demo_like :: "AdmissionFabric \<Rightarrow> bool" where
  "demo_like s \<longleftrightarrow> af_policy s = af_policy demo_fabric \<and> af_predictor s = predictor_empty
     \<and> af_snapshot s = demo_snapshot \<and> af_has_snapshot s \<and> \<not> q_present (af_quota s) \<and> af_fairness s = []
     \<and> rm_total (af_reservations s) = snap_total demo_snapshot \<and> rm_reserved_sum (af_reservations s) = rv_zero
     \<and> rm_used_sum (af_reservations s) = rv_zero \<and> rm_reservations (af_reservations s) = []"

lemma demo_ceiling: "demo_like s \<Longrightarrow> dim_ceiling (bind_overcommit demo_policy (af_reservations s)) i
    = (if i = AcceleratorMemory then 17179869184 else 4611686018427387903)"
  by (simp add: demo_like_def demo_bind dim_ceiling_def demo_snapshot_def rv_zero_def kUnbounded_def u64_max_numeral)

lemma demo_availability: "demo_like s \<Longrightarrow> rm_availability (bind_overcommit demo_policy (af_reservations s)) i
    = (if i = AcceleratorMemory then 17179869184 else 4611686018427387903)"
  unfolding rm_availability_def demo_ceiling
  by (simp add: demo_like_def rv_zero_def sat_add_def sat_sub_def)

lemma demo_gates:
  assumes like: "demo_like s" and small: "pending_small (entered 0 demo_descriptor s) < 64"
  shows "gates pf 0 demo_descriptor demo_policy (bound 0 demo_descriptor demo_policy s)"
proof -
  let ?b = "bound 0 demo_descriptor demo_policy s"
  have d: "d_backend demo_descriptor = []" "d_deadline demo_descriptor = None" "d_latency_class demo_descriptor \<noteq> LatencyClass_FixedDeadline"
    by (simp_all add: demo_descriptor_def default_descriptor_def)
  have "snapshot_gate 0 demo_descriptor demo_policy ?b"
    using d like by (simp add: snapshot_gate_def classify_capability_def demo_like_def is_stale_as_of_def demo_snapshot_def
        default_snapshot_def demo_policy_def default_policy_def seconds_def word_sless_alt has_unavailable_dimension_def
        resource_ids_def)
  moreover have "quota_gate demo_descriptor (predict_demand pf (af_predictor ?b) demo_descriptor) ?b"
    using like by (simp add: quota_gate_iff demo_like_def)
  moreover have "deadline_gate demo_descriptor (predict_duration pf (af_predictor ?b) demo_descriptor) ?b"
    using d by (simp add: deadline_gate_iff)
  moreover have "capacity_gate pf 0 demo_descriptor demo_policy (predict_demand pf (af_predictor ?b) demo_descriptor) ?b"
  proof -
    have p: "p_safety_headroom_ratio demo_policy = f64_lit 10 100" "p_absolute_safety_margin demo_policy = rv_zero"
      "p_fairness_window demo_policy = 256"
      by (simp_all add: demo_policy_def default_policy_def del: lit_bits)
    have "safety_margin pf demo_policy (rm_availability (bind_overcommit demo_policy (af_reservations s))) i
        = (if i = AcceleratorMemory then 1717986918 else 461168601842738816)" for i
      by (simp add: safety_margin_def demo_availability [OF like] p demo_margins rv_zero_def sat_add_def del: lit_bits)
    then have "fits_in (predict_demand pf predictor_empty demo_descriptor)
        (rv_sat_sub (rm_availability (bind_overcommit demo_policy (af_reservations s)))
          (safety_margin pf demo_policy (rm_availability (bind_overcommit demo_policy (af_reservations s)))))"
      by (auto simp: fits_in_iff rv_sat_sub_def demo_availability [OF like] sat_sub_def intro!: order_trans [OF demo_demand(1)])
    moreover have "pending_small ?b = pending_small (entered 0 demo_descriptor s)" by (simp add: pending_small_def)
    ultimately show ?thesis
      using small [folded not_le] like by (simp add: capacity_gate_def Let_def demo_like_def should_defer_large_def p)
  qed
  ultimately show ?thesis by (simp add: gates_def)
qed

lemma demo_like_admits:
  assumes like: "demo_like s" and "pending_small (entered 0 demo_descriptor s) < 64" and "submittable demo_descriptor s"
  shows "\<exists>dec. fst (fabric_evaluate pf 0 demo_descriptor s) = Inr dec \<and> is_admit dec"
proof (rule evaluate_admits [OF assms(3) _ demo_effective [symmetric] demo_gates [OF assms(1,2)]])
  show "policy_latest (af_policy s) = Some demo_policy" using like by (simp add: demo_like_def policy_latest_def demo_fields)
  show "om_find (rm_reservations (af_reservations s)) (Id (af_reservation_counter s)) = None"
    using like by (simp add: demo_like_def)
  show "\<not> rv_is_zero (predict_demand pf (af_predictor s) demo_descriptor)" using demo_demand(2) like by (simp add: demo_like_def)
  show "unat (rm_reserved_sum (af_reservations s) i) + unat (predict_demand pf (af_predictor s) demo_descriptor i)
      + unat (rm_used_sum (af_reservations s) i)
      \<le> unat (dim_ceiling (bind_overcommit demo_policy (af_reservations s)) i)" for i
    unfolding demo_ceiling [OF like] using demo_demand(1) [of pf i] demo_demand(1) [of pf AcceleratorMemory] like
    by (simp add: demo_like_def rv_zero_def word_le_nat_alt)
qed

lemma demo_admitted: "\<exists>dec. fst (fabric_evaluate pf 0 demo_descriptor (fabric_run pf demo_setup)) = Inr dec \<and> is_admit dec"
  unfolding demo_run
proof (rule demo_like_admits)
  show "demo_like demo_fabric" by (simp add: demo_like_def demo_fields default_quota_def rm_empty_def)
  show "pending_small (entered 0 demo_descriptor demo_fabric) < 64"
    by (simp add: pending_small_def entered_def transition_requests demo_fields advance_def new_record_def)
  show "submittable demo_descriptor demo_fabric"
    using demo_descriptor_valid by (simp add: submittable_def demo_fields)
qed

lemma admission_is_backed_witness:
  "\<exists>dec rsv. fst (fabric_evaluate demo_platform 0 demo_descriptor (fabric_run demo_platform demo_setup)) = Inr dec
     \<and> dec_reservation_id dec = Some rsv \<and> dec_admission_generation dec = Id 1"
proof -
  obtain dec where dec: "fst (fabric_evaluate demo_platform 0 demo_descriptor (fabric_run demo_platform demo_setup)) = Inr dec" "is_admit dec"
    using demo_admitted by blast
  show ?thesis
    using admission_is_backed [OF dec] dec(1) by (auto simp: Let_def demo_run demo_fields)
qed

text \<open>The example grant leaves a tenth of the sixteen gibibytes free.\<close>

lemma admission_respects_limits_witness:
  "\<exists>dec m. fst (fabric_evaluate demo_platform 0 demo_descriptor (fabric_run demo_platform demo_setup)) = Inr dec
     \<and> m = af_reservations (snd (fabric_evaluate demo_platform 0 demo_descriptor (fabric_run demo_platform demo_setup)))
     \<and> status_ok (descriptor_validate demo_descriptor)
     \<and> unat (rm_reserved_sum m AcceleratorMemory) + unat (rm_used_sum m AcceleratorMemory) + 1717986918
       \<le> unat (dim_ceiling m AcceleratorMemory)"
proof -
  obtain dec where dec: "fst (fabric_evaluate demo_platform 0 demo_descriptor (fabric_run demo_platform demo_setup)) = Inr dec" "is_admit dec"
    using demo_admitted by blast
  have like: "demo_like demo_fabric" by (simp add: demo_like_def demo_fields default_quota_def rm_empty_def)
  have free: "rm_availability (bind_overcommit demo_policy (af_reservations demo_fabric)) AcceleratorMemory = 17179869184"
    by (simp add: demo_availability [OF like])
  have policy: "fabric_policy demo_fabric = Some demo_policy"
    by (simp add: fabric_policy_def policy_latest_def demo_fields)
  have parts: "p_safety_headroom_ratio demo_policy = f64_lit 10 100" "p_absolute_safety_margin demo_policy = rv_zero"
    by (simp_all add: demo_policy_def default_policy_def del: lit_bits)
  have margin: "sat_add (f64_to_u64 demo_platform (f64_mul
      (f64_of_u64 (rm_availability (bind_overcommit demo_policy (af_reservations demo_fabric)) AcceleratorMemory))
      (p_safety_headroom_ratio demo_policy))) (p_absolute_safety_margin demo_policy AcceleratorMemory) = 1717986918"
    unfolding free parts demo_margins by (simp add: rv_zero_def sat_add_def)
  have used: "predict_demand demo_platform (af_predictor demo_fabric) demo_descriptor AcceleratorMemory \<noteq> 0"
  proof -
    have "bound_profile predictor_empty demo_descriptor = None"
      by (simp add: bound_profile_def profile_for_descriptor_def predictor_empty_def Let_def)
    from cold_demand [OF demo_descriptor_valid this, of demo_platform] show ?thesis
      by (auto simp: demo_fields simp flip: unat_gt_0)
  qed
  show ?thesis
    using admission_respects_limits [OF dec] dec(1) margin used policy unfolding Let_def demo_run
    by (auto simp: demo_effective)
qed

end
