(* ===== verification/Engine_Grants.thy ===== *)
theory Engine_Grants
  imports Engine_Spec
begin

text \<open>
  The life of a grant in the engine: exactly when a commit is accepted, the way from admission through
  commit to release, the uniqueness of reservations and generations among the requests of a run, and the
  paths on which a request loses its grant without giving the capacity back.
\<close>

section \<open>Commit\<close>

text \<open>What a commit needs: a last decision with this generation and a live provisional reservation.\<close>

definition committable :: "i64 \<Rightarrow> AdmissionRequestId \<Rightarrow> AdmissionGeneration \<Rightarrow> AdmissionFabric
    \<Rightarrow> RequestRecord \<Rightarrow> ReservationId \<Rightarrow> ResourceReservation \<Rightarrow> bool" where
  "committable now rid gen s r rsv e \<longleftrightarrow>
     om_find (af_requests s) rid = Some r
     \<and> (\<exists>dec. rr_last_decision r = Some dec \<and> dec_admission_generation dec = gen \<and> dec_reservation_id dec = Some rsv)
     \<and> om_find (rm_reservations (af_reservations s)) rsv = Some e
     \<and> rsv_status e = ReservationStatus_Reserved \<and> \<not> rsv_expires_at e <s now"

lemma commit_accepted:
  assumes wf: "rm_wf (af_reservations s)" and c: "committable now rid gen s r rsv e"
  obtains m where "commit_admission now rid gen s = (status_success,
      s\<lparr>af_reservations := m, af_requests :=
        om_put rid (r\<lparr>rr_lifecycle := RequestLifecycle_Admitted, rr_updated_at := now\<rparr>) (af_requests s)\<rparr>)"
    and "rm_commit now rsv rid gen (af_reservations s) = (status_success, m)"
    and "om_find (rm_reservations m) rsv = Some (e\<lparr>rsv_status := ReservationStatus_Committed,
           rsv_admission_request_id := Some rid, rsv_admission_generation := Some gen\<rparr>)"
    and "\<And>i. unat (rm_reserved_sum m i) + unat (rsv_demand e i) = unat (rm_reserved_sum (af_reservations s) i)"
    and "\<And>i. unat (rm_used_sum m i) = unat (rm_used_sum (af_reservations s) i) + unat (rsv_demand e i)"
proof -
  have find: "om_find (rm_reservations (af_reservations s)) rsv = Some e"
    and st: "rsv_status e = ReservationStatus_Reserved" and live: "\<not> rsv_expires_at e <s now"
    using c by (simp_all add: committable_def)
  obtain r2 u2 where r2: "try_sub (rm_reserved_sum (af_reservations s)) (rsv_demand e) = Some r2"
    and u2: "try_add (rm_used_sum (af_reservations s)) (rsv_demand e) = Some u2"
    and eq: "rm_commit now rsv rid gen (af_reservations s) = (status_success,
      rm_update rsv (e\<lparr>rsv_status := ReservationStatus_Committed, rsv_admission_request_id := Some rid,
        rsv_admission_generation := Some gen\<rparr>) ((af_reservations s)\<lparr>rm_reserved_sum := r2, rm_used_sum := u2\<rparr>))"
    by (rule rm_commit_effect [OF wf find st live])
  show ?thesis
    by (rule that [OF _ eq])
      (use c eq r2 u2 rm_wf_om_ok [OF wf] in \<open>auto simp: committable_def commit_admission_def Let_def om_find_put
        try_sub_Some try_add_Some\<close>)
qed

lemma commit_refused:
  assumes "\<nexists>r rsv e. committable now rid gen s r rsv e"
  shows "\<not> status_ok (fst (commit_admission now rid gen s))"
    and "af_requests (snd (commit_admission now rid gen s)) = af_requests s"
proof -
  have "\<not> status_ok (fst (commit_admission now rid gen s)) \<and> af_requests (snd (commit_admission now rid gen s)) = af_requests s"
  proof (cases "om_find (af_requests s) rid")
    case None
    then show ?thesis by (simp add: commit_admission_def)
  next
    case (Some r)
    note r = Some
    show ?thesis
    proof (cases "rr_last_decision r")
      case None
      with r show ?thesis by (simp add: commit_admission_def)
    next
      case (Some dec)
      show ?thesis
      proof (cases "dec_admission_generation dec = gen \<and> dec_reservation_id dec \<noteq> None")
        case True
        then obtain rsv where rsv: "dec_reservation_id dec = Some rsv" "dec_admission_generation dec = gen" by blast
        then have "\<not> status_ok (fst (rm_commit now rsv rid gen (af_reservations s)))"
          using assms r Some
          by (auto simp: committable_def rm_commit_def split: option.splits)
        then show ?thesis using r Some rsv
          by (cases "rm_commit now rsv rid gen (af_reservations s)") (simp add: commit_admission_def Let_def)
      qed (use r Some in \<open>auto simp: commit_admission_def\<close>)
    qed
  qed
  then show "\<not> status_ok (fst (commit_admission now rid gen s))"
    and "af_requests (snd (commit_admission now rid gen s)) = af_requests s" by auto
qed

text \<open>C4: after any run, a commit succeeds exactly when the request's last decision carries this generation and a
  reservation that is still Reserved and not expired; then the reservation is Committed for this request and
  generation and the request Admitted; otherwise no request changes.\<close>

theorem commit_admission_exact:
  "let s = fabric_run pf ops; (st, s') = commit_admission now rid gen s in
    if \<exists>r rsv e. committable now rid gen s r rsv e
    then st = status_success
      \<and> (\<exists>r rsv e. fabric_request s' rid = Some r \<and> rr_lifecycle r = RequestLifecycle_Admitted
           \<and> om_find (rm_reservations (af_reservations s')) rsv = Some e \<and> rsv_status e = ReservationStatus_Committed
           \<and> rsv_admission_request_id e = Some rid \<and> rsv_admission_generation e = Some gen)
    else \<not> status_ok st \<and> af_requests s' = af_requests s"
proof (cases "\<exists>r rsv e. committable now rid gen (fabric_run pf ops) r rsv e")
  case True
  then obtain r rsv e where c: "committable now rid gen (fabric_run pf ops) r rsv e" by blast
  obtain m where "commit_admission now rid gen (fabric_run pf ops) = (status_success,
      (fabric_run pf ops)\<lparr>af_reservations := m, af_requests :=
        om_put rid (r\<lparr>rr_lifecycle := RequestLifecycle_Admitted, rr_updated_at := now\<rparr>) (af_requests (fabric_run pf ops))\<rparr>)"
    and "om_find (rm_reservations m) rsv = Some (e\<lparr>rsv_status := ReservationStatus_Committed,
           rsv_admission_request_id := Some rid, rsv_admission_generation := Some gen\<rparr>)"
    by (rule commit_accepted [OF run_rm_wf c]) blast
  then show ?thesis using c
    by (auto simp: Let_def fabric_request_def om_find_put intro!: exI [of _ rsv])
next
  case False
  then show ?thesis using commit_refused [OF False] by (auto simp: Let_def case_prod_beta)
qed


section \<open>From admission to release\<close>

lemma admitted_record:
  assumes ok: "om_ok (af_requests s)" and dec: "fst (fabric_evaluate pf now d s) = Inr dec" and adm: "is_admit dec"
  obtains r where "om_find (af_requests (snd (fabric_evaluate pf now d s))) (d_admission_request_id d) = Some r"
    and "rr_last_decision r = Some dec"
    and "rr_lifecycle r = (case om_find (af_requests s) (d_admission_request_id d) of
           Some old \<Rightarrow> (if rr_lifecycle old = RequestLifecycle_Deferred then RequestLifecycle_Deferred
                        else RequestLifecycle_Reserved)
         | None \<Rightarrow> RequestLifecycle_Reserved)"
proof (cases rule: evaluate_outcome [where d = d and s = s and now = now and pf = pf])
  case (refused dec' sp)
  then show ?thesis using dec adm by (auto simp: is_admit_def)
next
  case (granted base pol m dec')
  have eq: "dec' = dec" using granted(6) dec by simp
  note st = staged_bound [OF granted(1), of now pol]
  have open_old: "evaluation_open (rr_lifecycle old)" if "om_find (af_requests s) (d_admission_request_id d) = Some old" for old
    using granted(1) that by (simp add: submittable_def)
  show ?thesis
    by (rule that [of "settled_record now RequestLifecycle_Reserved dec
          (om_find (af_requests (bound now d pol s)) (d_admission_request_id d))"])
      (use granted(13) eq emit_requests(2) [OF staged_ok [OF st ok]] entered_requests [OF ok] open_old
        in \<open>auto simp: settled_record_def advance_def new_record_def evaluation_open_def split: option.split\<close>)
qed

lemma admitted_committable:
  assumes ok: "om_ok (af_requests s)" and wf: "rm_wf (af_reservations s)"
    and dec: "fst (fabric_evaluate pf now d s) = Inr dec" and adm: "is_admit dec"
    and base: "fabric_policy s = Some base" and rsv: "dec_reservation_id dec = Some rsv"
    and live: "\<not> now + p_max_reservation_lifetime (policy_effective d base) <s now'"
  obtains r e where "committable now' (d_admission_request_id d) (dec_admission_generation dec)
      (snd (fabric_evaluate pf now d s)) r rsv e"
    and "rr_lifecycle r = (case om_find (af_requests s) (d_admission_request_id d) of
           Some old \<Rightarrow> (if rr_lifecycle old = RequestLifecycle_Deferred then RequestLifecycle_Deferred
                        else RequestLifecycle_Reserved)
         | None \<Rightarrow> RequestLifecycle_Reserved)"
    and "rsv_demand e = predict_demand pf (af_predictor s) d"
    and "rr_last_decision r = Some dec"
proof -
  obtain r where r: "om_find (af_requests (snd (fabric_evaluate pf now d s))) (d_admission_request_id d) = Some r"
    "rr_last_decision r = Some dec"
    and life: "rr_lifecycle r = (case om_find (af_requests s) (d_admission_request_id d) of
           Some old \<Rightarrow> (if rr_lifecycle old = RequestLifecycle_Deferred then RequestLifecycle_Deferred
                        else RequestLifecycle_Reserved)
         | None \<Rightarrow> RequestLifecycle_Reserved)"
    by (rule admitted_record [OF ok dec adm])
  show ?thesis
  proof (cases rule: evaluate_outcome [where d = d and s = s and now = now and pf = pf])
    case (refused dec' sp)
    then show ?thesis using dec adm by (auto simp: is_admit_def)
  next
    case (granted base' pol m dec')
    have wfb: "rm_wf (bind_overcommit pol (af_reservations s))" using wf by simp
    have "base' = base" using granted(2) base by (simp add: fabric_policy_def)
    moreover have "rsv = Id (af_reservation_counter s)" using granted(6,9) dec rsv by simp
    ultimately show ?thesis
      using that [OF _ life _ r(2)] r granted_reservation [OF wfb granted(5)] granted(3,6,12) dec live rsv rm_wf_om_ok [OF wf]
      by (auto simp: committable_def om_find_put)
  qed
qed

text \<open>A released grant: the request leaves the admitted state and the used sum drops by the demand.\<close>

lemma release_committed:
  assumes wf: "rm_wf (af_reservations s)" and e: "om_find (rm_reservations (af_reservations s)) rsv = Some e"
    and st: "rsv_status e = ReservationStatus_Committed"
  shows "fst (release_reservation now rsv s) = status_success"
    and "af_requests (snd (release_reservation now rsv s)) = om_map (mark_released now rsv) (af_requests s)"
    and "rm_reserved_sum (af_reservations (snd (release_reservation now rsv s))) = rm_reserved_sum (af_reservations s)"
    and "unat (rm_used_sum (af_reservations (snd (release_reservation now rsv s))) i) + unat (rsv_demand e i)
       = unat (rm_used_sum (af_reservations s) i)"
proof -
  obtain u2 where u2: "try_sub (rm_used_sum (af_reservations s)) (rsv_demand e) = Some u2"
    and eq: "rm_release rsv (af_reservations s) = (status_success,
      rm_update rsv (e\<lparr>rsv_status := ReservationStatus_Released\<rparr>) ((af_reservations s)\<lparr>rm_used_sum := u2\<rparr>))"
    by (rule rm_release_effect [OF wf e st])
  show "fst (release_reservation now rsv s) = status_success"
    and "af_requests (snd (release_reservation now rsv s)) = om_map (mark_released now rsv) (af_requests s)"
    and "rm_reserved_sum (af_reservations (snd (release_reservation now rsv s))) = rm_reserved_sum (af_reservations s)"
    and "unat (rm_used_sum (af_reservations (snd (release_reservation now rsv s))) i) + unat (rsv_demand e i)
       = unat (rm_used_sum (af_reservations s) i)"
    using eq u2 by (simp_all add: release_reservation_def Let_def try_sub_Some)
qed

text \<open>The sums right after an admission.\<close>

lemma admitted_sums:
  assumes wf: "rm_wf (af_reservations s)" and dec: "fst (fabric_evaluate pf now d s) = Inr dec" and adm: "is_admit dec"
  shows "unat (rm_reserved_sum (af_reservations (snd (fabric_evaluate pf now d s))) i)
      = unat (rm_reserved_sum (af_reservations s) i) + unat (predict_demand pf (af_predictor s) d i)"
    and "rm_used_sum (af_reservations (snd (fabric_evaluate pf now d s))) = rm_used_sum (af_reservations s)"
proof -
  have "unat (rm_reserved_sum (af_reservations (snd (fabric_evaluate pf now d s))) i)
      = unat (rm_reserved_sum (af_reservations s) i) + unat (predict_demand pf (af_predictor s) d i)
    \<and> rm_used_sum (af_reservations (snd (fabric_evaluate pf now d s))) = rm_used_sum (af_reservations s)"
  proof (cases rule: evaluate_outcome [where d = d and s = s and now = now and pf = pf])
    case (refused dec' sp)
    then show ?thesis using dec adm by (auto simp: is_admit_def)
  next
    case (granted base pol m dec')
    have "rm_wf (bind_overcommit pol (af_reservations s))" using wf by simp
    from granted_reservation [OF this granted(5)] granted(12) show ?thesis by simp
  qed
  then show "unat (rm_reserved_sum (af_reservations (snd (fabric_evaluate pf now d s))) i)
      = unat (rm_reserved_sum (af_reservations s) i) + unat (predict_demand pf (af_predictor s) d i)"
    and "rm_used_sum (af_reservations (snd (fabric_evaluate pf now d s))) = rm_used_sum (af_reservations s)" by simp_all
qed

text \<open>C5: a request admitted for the first time is Reserved; committed with its generation before the
  reservation's lifetime ends it is Admitted, its demand moved from reserved to used; released it is Released,
  and both sums are what they were before the evaluation. No step of this path can fail.\<close>

theorem admit_commit_release:
  assumes "fst (fabric_evaluate pf now d (fabric_run pf ops)) = Inr dec" and "is_admit dec"
    and "fabric_request (fabric_run pf ops) (d_admission_request_id d) = None"
    and "fabric_policy (fabric_run pf ops) = Some base" and "dec_reservation_id dec = Some rsv"
    and "\<not> now + p_max_reservation_lifetime (policy_effective d base) <s now'"
  shows "let rid = d_admission_request_id d; s = fabric_run pf ops;
             s1 = snd (fabric_evaluate pf now d s);
             (c, s2) = commit_admission now' rid (dec_admission_generation dec) s1;
             (r, s3) = release_reservation now'' rsv s2 in
    map_option rr_lifecycle (fabric_request s1 rid) = Some RequestLifecycle_Reserved
    \<and> c = status_success \<and> map_option rr_lifecycle (fabric_request s2 rid) = Some RequestLifecycle_Admitted
    \<and> (\<forall>i. unat (rm_used_sum (af_reservations s2) i)
          = unat (rm_used_sum (af_reservations s) i) + unat (predict_demand pf (af_predictor s) d i))
    \<and> r = status_success \<and> map_option rr_lifecycle (fabric_request s3 rid) = Some RequestLifecycle_Released
    \<and> rm_reserved_sum (af_reservations s3) = rm_reserved_sum (af_reservations s)
    \<and> rm_used_sum (af_reservations s3) = rm_used_sum (af_reservations s)"
proof -
  let ?rid = "d_admission_request_id d" let ?s = "fabric_run pf ops"
  let ?s1 = "snd (fabric_evaluate pf now d ?s)"
  let ?demand = "predict_demand pf (af_predictor ?s) d"
  have l1: "ledger_wf ?s1" using evaluate_ledger [OF ledger_wf_run] .
  then have wf1: "rm_wf (af_reservations ?s1)" and ok1: "om_ok (af_requests ?s1)" by (simp_all add: ledger_wf_def)
  obtain r e where c: "committable now' ?rid (dec_admission_generation dec) ?s1 r rsv e"
    and life: "rr_lifecycle r = RequestLifecycle_Reserved" and dem: "rsv_demand e = ?demand"
    and last: "rr_last_decision r = Some dec"
    using admitted_committable [OF run_requests_ok run_rm_wf assms(1,2,4,5,6)] assms(3)
    by (auto simp: fabric_request_def)
  obtain m where s2: "commit_admission now' ?rid (dec_admission_generation dec) ?s1 = (status_success,
      ?s1\<lparr>af_reservations := m, af_requests :=
        om_put ?rid (r\<lparr>rr_lifecycle := RequestLifecycle_Admitted, rr_updated_at := now'\<rparr>) (af_requests ?s1)\<rparr>)"
    and cm: "rm_commit now' rsv ?rid (dec_admission_generation dec) (af_reservations ?s1) = (status_success, m)"
    and m: "om_find (rm_reservations m) rsv = Some (e\<lparr>rsv_status := ReservationStatus_Committed,
           rsv_admission_request_id := Some ?rid, rsv_admission_generation := Some (dec_admission_generation dec)\<rparr>)"
    and ms: "\<And>i. unat (rm_reserved_sum m i) + unat (rsv_demand e i) = unat (rm_reserved_sum (af_reservations ?s1) i)"
      "\<And>i. unat (rm_used_sum m i) = unat (rm_used_sum (af_reservations ?s1) i) + unat (rsv_demand e i)"
    by (rule commit_accepted [OF wf1 c]) blast
  let ?s2 = "?s1\<lparr>af_reservations := m, af_requests :=
        om_put ?rid (r\<lparr>rr_lifecycle := RequestLifecycle_Admitted, rr_updated_at := now'\<rparr>) (af_requests ?s1)\<rparr>"
  have wf2: "rm_wf (af_reservations ?s2)" using rm_wf_commit [OF wf1 cm] by simp
  have m2: "om_find (rm_reservations (af_reservations ?s2)) rsv = Some (e\<lparr>rsv_status := ReservationStatus_Committed,
           rsv_admission_request_id := Some ?rid, rsv_admission_generation := Some (dec_admission_generation dec)\<rparr>)"
    using m by simp
  note rel = release_committed [OF wf2 m2, of now'']
  note sums = admitted_sums [OF run_rm_wf assms(1,2)]
  have used: "unat (rm_used_sum m i) = unat (rm_used_sum (af_reservations ?s) i) + unat (?demand i)" for i
    using ms(2) [of i] sums(2) dem by simp
  have res_eq: "rm_reserved_sum m = rm_reserved_sum (af_reservations ?s)"
    using ms(1) sums(1) dem by (intro ext) (metis add_right_cancel word_unat_eq_iff)
  have used_eq: "rm_used_sum (af_reservations (snd (release_reservation now'' rsv ?s2))) = rm_used_sum (af_reservations ?s)"
  proof
    fix i
    show "rm_used_sum (af_reservations (snd (release_reservation now'' rsv ?s2))) i = rm_used_sum (af_reservations ?s) i"
      using rel(4) [of i] used [of i] dem by (simp add: word_unat_eq_iff)
  qed
  have released: "map_option rr_lifecycle (fabric_request (snd (release_reservation now'' rsv ?s2)) ?rid) = Some RequestLifecycle_Released"
    using ok1 last assms(5) by (simp add: fabric_request_def rel(2) om_find_map om_find_put mark_released_def)
  show ?thesis
    using c life s2 used res_eq used_eq released rel(1,3) ok1
    by (simp add: Let_def case_prod_beta committable_def fabric_request_def om_find_put)
qed

lemma admit_commit_release_witness:
  "\<exists>(dec :: AdmissionDecision) rsv. let s1 = snd (fabric_evaluate demo_platform 0 demo_descriptor (fabric_run demo_platform demo_setup));
       s2 = snd (commit_admission 1 (Id 1) (dec_admission_generation dec) s1);
       s3 = snd (release_reservation 2 rsv s2)
     in map_option rr_lifecycle (fabric_request s3 (Id 1)) = Some RequestLifecycle_Released"
proof -
  obtain dec where dec: "fst (fabric_evaluate demo_platform 0 demo_descriptor (fabric_run demo_platform demo_setup)) = Inr dec" "is_admit dec"
    using demo_admitted by blast
  obtain rsv where rsv: "dec_reservation_id dec = Some rsv"
    using evaluate_outcome [where d = demo_descriptor and s = "fabric_run demo_platform demo_setup" and now = 0 and pf = demo_platform] dec
    by (force simp: is_admit_def)
  have new: "fabric_request (fabric_run demo_platform demo_setup) (d_admission_request_id demo_descriptor) = None"
    and base: "fabric_policy (fabric_run demo_platform demo_setup) = Some demo_policy"
    by (simp_all add: demo_run fabric_request_def fabric_policy_def policy_latest_def demo_fields)
  have live: "\<not> 0 + p_max_reservation_lifetime (policy_effective demo_descriptor demo_policy) <s 1"
    unfolding demo_effective by (simp add: demo_policy_def default_policy_def seconds_def word_sless_alt)
  have id: "d_admission_request_id demo_descriptor = Id 1" by (simp add: demo_descriptor_def)
  note path = admit_commit_release [OF dec new base rsv live, of 2, unfolded id Let_def case_prod_beta]
  show ?thesis
    unfolding Let_def by (rule exI [where x = dec], rule exI [where x = rsv]) (simp add: path)
qed

section \<open>No grant is held twice\<close>

definition decision_grant :: "AdmissionDecision \<Rightarrow> (ReservationId \<times> AdmissionGeneration) option" where
  "decision_grant dec = map_option (\<lambda>rsv. (rsv, dec_admission_generation dec)) (dec_reservation_id dec)"

definition record_grant :: "RequestRecord \<Rightarrow> (ReservationId \<times> AdmissionGeneration) option" where
  "record_grant r = (case rr_last_decision r of None \<Rightarrow> None | Some dec \<Rightarrow> decision_grant dec)"

definition grant_of :: "AdmissionFabric \<Rightarrow> AdmissionRequestId \<Rightarrow> (ReservationId \<times> AdmissionGeneration) option" where
  "grant_of s rid = (case om_find (af_requests s) rid of None \<Rightarrow> None | Some r \<Rightarrow> record_grant r)"

definition reservation_ids :: "AdmissionFabric \<Rightarrow> ReservationId set" where
  "reservation_ids s = {k. om_find (rm_reservations (af_reservations s)) k \<noteq> None}"

text \<open>The invariant: ids and generations in use are below the counters, granted reservations exist, and two
  requests share neither a reservation nor a generation.\<close>

definition grants_ok :: "nat \<Rightarrow> AdmissionFabric \<Rightarrow> bool" where
  "grants_ok n s \<longleftrightarrow>
     unat (af_reservation_counter s) \<le> n + 1 \<and> unat (id_value (af_admission_generation s)) \<le> n + 1
     \<and> (\<forall>k \<in> reservation_ids s. id_value k < af_reservation_counter s)
     \<and> (\<forall>rid rsv gen. grant_of s rid = Some (rsv, gen) \<longrightarrow> rsv \<in> reservation_ids s \<and> gen < af_admission_generation s)
     \<and> (\<forall>rid rid' rsv rsv' gen gen'. grant_of s rid = Some (rsv, gen) \<longrightarrow> grant_of s rid' = Some (rsv', gen')
          \<longrightarrow> rid \<noteq> rid' \<longrightarrow> rsv \<noteq> rsv' \<and> gen \<noteq> gen')"

text \<open>Steps that only drop grants.\<close>

lemma grants_ok_drop:
  assumes "grants_ok n s" and "\<And>rid. grant_of s' rid = None \<or> grant_of s' rid = grant_of s rid"
    and "reservation_ids s' = reservation_ids s" and "af_admission_generation s' = af_admission_generation s"
    and "af_reservation_counter s \<le> af_reservation_counter s'" and "unat (af_reservation_counter s') \<le> m + 1" and "n \<le> m"
  shows "grants_ok m s'"
  unfolding grants_ok_def
proof (intro conjI allI impI ballI)
  show "unat (af_reservation_counter s') \<le> m + 1" by fact
  show "unat (id_value (af_admission_generation s')) \<le> m + 1" using assms by (simp add: grants_ok_def)
  show "id_value k < af_reservation_counter s'" if "k \<in> reservation_ids s'" for k
    using that assms by (auto simp: grants_ok_def intro: less_le_trans)
  have G: "grant_of s rid = Some x" if "grant_of s' rid = Some x" for rid x
    using assms(2) [of rid] that by auto
  show "rsv \<in> reservation_ids s'" and "gen < af_admission_generation s'" if "grant_of s' rid = Some (rsv, gen)" for rid rsv gen
    using G [OF that] assms(1,3,4) by (auto simp: grants_ok_def)
  show "rsv \<noteq> rsv'" and "gen \<noteq> gen'"
    if "grant_of s' rid = Some (rsv, gen)" and "grant_of s' rid' = Some (rsv', gen')" and "rid \<noteq> rid'" for rid rid' rsv rsv' gen gen'
    using G [OF that(1)] G [OF that(2)] that(3) assms(1) unfolding grants_ok_def by blast+
qed

text \<open>The step that grants: the counters hand out values nobody holds.\<close>

lemma grants_ok_grant:
  assumes ok: "grants_ok n s" and n: "n < 2 ^ 64 - 2"
    and G: "\<And>j. grant_of s' j = (if j = rid then Some (Id (af_reservation_counter s), af_admission_generation s) else grant_of s j)"
    and K: "reservation_ids s' = insert (Id (af_reservation_counter s)) (reservation_ids s)"
    and g: "af_admission_generation s' = id_next (af_admission_generation s)"
    and c: "af_reservation_counter s' = next_counter (af_reservation_counter s)"
  shows "grants_ok (Suc n) s'"
proof -
  let ?c = "af_reservation_counter s" and ?g = "af_admission_generation s"
  have "unat ?c < 2 ^ 64 - 1" and "unat (id_value ?g) < 2 ^ 64 - 1" using ok n by (simp_all add: grants_ok_def)
  then have cm: "?c \<noteq> u64_max" and gm: "id_value ?g \<noteq> u64_max" by auto
  have c': "af_reservation_counter s' = ?c + 1" using c cm by (simp add: next_counter_def)
  have lt: "?g < af_admission_generation s'" using id_next_greater [OF gm] g by simp
  have "unat (?c + 1) \<le> Suc n + 1" and "unat (id_value (id_next ?g)) \<le> Suc n + 1"
    using ok cm gm by (simp_all add: grants_ok_def unat_u64_Suc id_next_def)
  moreover have "\<forall>k \<in> reservation_ids s'. id_value k < ?c + 1"
    using ok u64_less_Suc [OF cm] by (auto simp: K grants_ok_def intro: less_trans)
  moreover have "rsv \<in> reservation_ids s' \<and> gen < af_admission_generation s'" if "grant_of s' j = Some (rsv, gen)" for j rsv gen
  proof (cases "j = rid")
    case True
    then show ?thesis using that lt by (simp add: G K)
  next
    case False
    then have "rsv \<in> reservation_ids s \<and> gen < ?g" using that ok unfolding G grants_ok_def by simp
    then show ?thesis using lt by (auto simp: K)
  qed
  moreover have "rsv \<noteq> rsv' \<and> gen \<noteq> gen'"
    if "grant_of s' j = Some (rsv, gen)" and "grant_of s' j' = Some (rsv', gen')" and "j \<noteq> j'" for j j' rsv rsv' gen gen'
  proof -
    have fresh: "w \<noteq> Id ?c \<and> h \<noteq> ?g" if "grant_of s i = Some (w, h)" for i w h
      using ok that unfolding grants_ok_def by fastforce
    have old: "rsv \<noteq> rsv' \<and> gen \<noteq> gen'" if "grant_of s j = Some (rsv, gen)" and "grant_of s j' = Some (rsv', gen')"
      using ok that \<open>j \<noteq> j'\<close> unfolding grants_ok_def by blast
    show ?thesis using that fresh [of j] fresh [of j'] old by (auto simp: G split: if_splits)
  qed
  ultimately show ?thesis unfolding grants_ok_def c' g by blast
qed


lemma evaluate_grants:
  assumes l: "ledger_wf s" and ok: "grants_ok n s" and n: "n < 2 ^ 64 - 2"
  shows "grants_ok (Suc n) (snd (fabric_evaluate pf now d s))"
proof -
  let ?s' = "snd (fabric_evaluate pf now d s)" and ?rid = "d_admission_request_id d"
  have oms: "om_ok (af_requests s)" and wf: "rm_wf (af_reservations s)" using l by (simp_all add: ledger_wf_def)
  obtain dec where dec: "fst (fabric_evaluate pf now d s) = Inr dec"
    and G: "\<And>j. grant_of ?s' j = (if j = ?rid then decision_grant dec else grant_of s j)"
    using evaluate_requests [OF oms, of pf now d] by (auto simp: grant_of_def record_grant_def)
  show ?thesis
  proof (cases rule: evaluate_outcome [where d = d and s = s and now = now and pf = pf])
    case (refused dec' sp)
    have c: "unat (af_reservation_counter s) \<le> n + 1" using ok by (simp add: grants_ok_def)
    then have "af_reservation_counter s \<noteq> u64_max" using n by auto
    then have "next_counter (af_reservation_counter s) = af_reservation_counter s + 1"
      and "unat (af_reservation_counter s + 1) = unat (af_reservation_counter s) + 1"
      and "af_reservation_counter s < af_reservation_counter s + 1"
      by (simp_all add: next_counter_def unat_u64_Suc u64_less_Suc)
    then have "af_reservation_counter s \<le> af_reservation_counter ?s'" and "unat (af_reservation_counter ?s') \<le> Suc n + 1"
      using refused(9) c by auto
    moreover have "decision_grant dec = None" using refused(1,3) dec by (simp add: no_grant_def decision_grant_def)
    moreover have "reservation_ids ?s' = reservation_ids s"
      using refused(7) by (simp add: reservation_ids_def same_accounts_def)
    ultimately show ?thesis
      by (intro grants_ok_drop [OF ok]) (simp_all add: G refused(8))
  next
    case (granted base pol m dec')
    have "rm_wf (bind_overcommit pol (af_reservations s))" using wf by simp
    note g = granted_reservation [OF this granted(5)]
    show ?thesis
    proof (rule grants_ok_grant [OF ok n])
      show "grant_of ?s' j = (if j = ?rid then Some (Id (af_reservation_counter s), af_admission_generation s) else grant_of s j)" for j
        using G dec granted(6,9,10) by (simp add: decision_grant_def)
      show "reservation_ids ?s' = insert (Id (af_reservation_counter s)) (reservation_ids s)"
        using g granted(12) rm_wf_om_ok [OF wf] by (auto simp: reservation_ids_def om_find_put)
    qed (use granted in simp_all)
  qed
qed

lemma om_find_put_keys:
  "om_ok m \<Longrightarrow> om_find m k \<noteq> None \<Longrightarrow> (om_find (om_put k v m) j \<noteq> None) = (om_find m j \<noteq> None)"
  by (auto simp: om_find_put)

lemma rm_keys:
  assumes "rm_wf m"
  shows "om_find (rm_reservations (snd (rm_commit now rid ar gen m))) j \<noteq> None \<longleftrightarrow> om_find (rm_reservations m) j \<noteq> None"
    and "om_find (rm_reservations (snd (rm_rollback rid m))) j \<noteq> None \<longleftrightarrow> om_find (rm_reservations m) j \<noteq> None"
    and "om_find (rm_reservations (snd (rm_release rid m))) j \<noteq> None \<longleftrightarrow> om_find (rm_reservations m) j \<noteq> None"
  using rm_wf_om_ok [OF assms]
  by (auto simp: rm_commit_def rm_rollback_def rm_release_def expire_unsafe_def Let_def om_find_put split: option.splits)

lemma reservation_ids_cong:
  "(\<And>j. om_find (rm_reservations (af_reservations s')) j \<noteq> None \<longleftrightarrow> om_find (rm_reservations (af_reservations s)) j \<noteq> None)
    \<Longrightarrow> reservation_ids s' = reservation_ids s"
  by (simp add: reservation_ids_def)

text \<open>Operations that keep the counters: the grants and the ids they leave.\<close>

lemma grants_ok_same:
  assumes "grants_ok n s" and "\<And>rid. grant_of s' rid = grant_of s rid"
    and "\<And>j. om_find (rm_reservations (af_reservations s')) j \<noteq> None \<longleftrightarrow> om_find (rm_reservations (af_reservations s)) j \<noteq> None"
    and "af_admission_generation s' = af_admission_generation s" and "af_reservation_counter s' = af_reservation_counter s"
  shows "grants_ok n s'"
  by (rule grants_ok_drop [OF assms(1) _ reservation_ids_cong [OF assms(3)] assms(4)])
    (use assms in \<open>simp_all add: grants_ok_def\<close>)

lemma record_grant_life [simp]: "record_grant (r\<lparr>rr_lifecycle := x, rr_updated_at := t\<rparr>) = record_grant r"
  by (simp add: record_grant_def)

lemma grant_of_life:
  assumes "om_ok (af_requests s)" and "om_find (af_requests s) rid = Some r"
    and "af_requests s' = om_put rid (r\<lparr>rr_lifecycle := x, rr_updated_at := t\<rparr>) (af_requests s)"
  shows "grant_of s' j = grant_of s j"
  using assms by (simp add: grant_of_def om_find_put)

lemma mark_released_grant [simp]: "record_grant (mark_released now rsv r) = record_grant r"
  by (simp add: mark_released_def record_grant_def split: option.split)


definition is_evaluate :: "fabric_op \<Rightarrow> bool" where
  "is_evaluate op = (case op of FabEvaluate now d \<Rightarrow> True | _ \<Rightarrow> False)"

lemma grants_ok_exec:
  assumes l: "ledger_wf s" and ok: "grants_ok n s" and n: "is_evaluate op \<Longrightarrow> n < 2 ^ 64 - 2"
  shows "grants_ok (if is_evaluate op then Suc n else n) (fabric_exec pf op s)"
proof -
  have oms: "om_ok (af_requests s)" and wf: "rm_wf (af_reservations s)" using l by (simp_all add: ledger_wf_def)
  note keys = rm_keys [OF wf]
  show ?thesis
  proof (cases op)
    case (FabEvaluate now d)
    then show ?thesis using evaluate_grants [OF l ok] n by (simp add: is_evaluate_def)
  next
    case (FabPolicy p)
    have "grants_ok n (snd (install_policy p s))"
      by (rule grants_ok_same [OF ok]) (auto simp: install_policy_def Let_def grant_of_def split: prod.split option.split)
    with FabPolicy show ?thesis by (simp add: is_evaluate_def)
  next
    case (FabCommit now rid gen)
    have "grants_ok n (snd (commit_admission now rid gen s))"
    proof (rule grants_ok_same [OF ok])
      show "grant_of (snd (commit_admission now rid gen s)) j = grant_of s j" for j
      proof (cases "\<exists>r rsv e. committable now rid gen s r rsv e")
        case True
        then obtain r rsv e where c: "committable now rid gen s r rsv e" by blast
        obtain m where "commit_admission now rid gen s = (status_success, s\<lparr>af_reservations := m, af_requests :=
            om_put rid (r\<lparr>rr_lifecycle := RequestLifecycle_Admitted, rr_updated_at := now\<rparr>) (af_requests s)\<rparr>)"
          by (rule commit_accepted [OF wf c]) blast
        then show ?thesis using c oms by (intro grant_of_life [OF oms]) (simp_all add: committable_def)
      next
        case False
        then show ?thesis using commit_refused(2) [OF False] by (simp add: grant_of_def)
      qed
    qed (use keys(1) in \<open>auto simp: commit_admission_def Let_def case_prod_beta split: option.split\<close>)
    with FabCommit show ?thesis by (simp add: is_evaluate_def)
  next
    case (FabRelease now rsv)
    have "grants_ok n (snd (release_reservation now rsv s))"
      by (rule grants_ok_same [OF ok])
        (use keys(3) [of rsv] in \<open>auto simp: release_reservation_def Let_def case_prod_beta grant_of_def om_find_map
          split: option.split\<close>)
    with FabRelease show ?thesis by (simp add: is_evaluate_def)
  next
    case (FabCancel now rid)
    have "grants_ok n (snd (cancel_request now rid s))"
      by (rule grants_ok_same [OF ok])
        (use keys(2) oms in \<open>auto simp: cancel_request_def Let_def grant_of_def om_find_put split: option.split\<close>)
    with FabCancel show ?thesis by (simp add: is_evaluate_def)
  qed (use grants_ok_same [OF ok] in \<open>simp_all add: is_evaluate_def fabric_register_profile_def case_prod_beta set_snapshot_def
      set_quota_def fabric_observe_def grant_of_def rm_set_total_def\<close>)
qed

lemma grants_ok_run:
  "length (filter is_evaluate ops) \<le> 2 ^ 64 - 2 \<Longrightarrow> grants_ok (length (filter is_evaluate ops)) (fabric_run pf ops)"
proof (induction ops rule: rev_induct)
  case Nil
  show ?case
    by (simp add: fabric_run_def fabric_empty_def grants_ok_def reservation_ids_def grant_of_def rm_empty_def)
next
  case (snoc op ops)
  then have ok: "grants_ok (length (filter is_evaluate ops)) (fabric_run pf ops)"
    and n: "is_evaluate op \<Longrightarrow> length (filter is_evaluate ops) < 2 ^ 64 - 2" by (simp_all split: if_split_asm)
  from grants_ok_exec [where pf = pf and op = op, OF ledger_wf_run ok n] show ?case by (simp add: fabric_run_def split: if_split_asm)
qed

text \<open>C7: in a run with at most \<open>2^64 - 2\<close> evaluations no grant is held twice: requests whose last decision
  carries a reservation have pairwise different reservations and pairwise different admission generations, all
  reservations held are in the table, and the ids the engine would hand out next are not in use.\<close>

theorem grants_are_unique:
  assumes "length (filter is_evaluate ops) \<le> 2 ^ 64 - 2"
  shows "let s = fabric_run pf ops; holders = {rid. grant_of s rid \<noteq> None} in
    inj_on (\<lambda>rid. fst (the (grant_of s rid))) holders
    \<and> inj_on (\<lambda>rid. snd (the (grant_of s rid))) holders
    \<and> (\<lambda>rid. fst (the (grant_of s rid))) ` holders \<subseteq> fst ` set (rm_reservations (af_reservations s))
    \<and> Id (af_reservation_counter s) \<notin> fst ` set (rm_reservations (af_reservations s))
    \<and> af_admission_generation s \<notin> (\<lambda>rid. snd (the (grant_of s rid))) ` holders"
proof -
  let ?s = "fabric_run pf ops"
  note ok = grants_ok_run [OF assms, of pf]
  have held: "fst (the (grant_of ?s rid)) \<in> reservation_ids ?s \<and> snd (the (grant_of ?s rid)) < af_admission_generation ?s"
    if "grant_of ?s rid \<noteq> None" for rid
    using ok that unfolding grants_ok_def by fastforce
  have distinct: "fst (the (grant_of ?s rid)) \<noteq> fst (the (grant_of ?s rid'))
      \<and> snd (the (grant_of ?s rid)) \<noteq> snd (the (grant_of ?s rid'))"
    if "grant_of ?s rid \<noteq> None" and "grant_of ?s rid' \<noteq> None" and "rid \<noteq> rid'" for rid rid'
    using ok that unfolding grants_ok_def by fastforce
  have ids: "reservation_ids ?s = fst ` set (rm_reservations (af_reservations ?s))"
    by (auto simp: reservation_ids_def om_find_None simp del: not_None_eq)
  have "Id (af_reservation_counter ?s) \<notin> reservation_ids ?s"
    using ok unfolding grants_ok_def by fastforce
  moreover have "af_admission_generation ?s \<notin> (\<lambda>rid. snd (the (grant_of ?s rid))) ` {rid. grant_of ?s rid \<noteq> None}"
    using held by (metis (mono_tags, lifting) imageE less_irrefl mem_Collect_eq)
  ultimately show ?thesis
    using held distinct unfolding Let_def ids inj_on_def by blast
qed

lemma grants_are_unique_witness:
  "Id (af_reservation_counter (fabric_run demo_platform (demo_setup @ [FabEvaluate 0 demo_descriptor])))
     \<notin> fst ` set (rm_reservations (af_reservations (fabric_run demo_platform (demo_setup @ [FabEvaluate 0 demo_descriptor]))))"
proof -
  have "length (filter is_evaluate (demo_setup @ [FabEvaluate 0 demo_descriptor])) \<le> 2 ^ 64 - 2"
    by (simp add: demo_setup_def is_evaluate_def)
  from grants_are_unique [OF this, of demo_platform] show ?thesis unfolding Let_def by blast
qed

section \<open>Requests that lose their grant\<close>

text \<open>C35: submitting a second descriptor under the id of a request that is Reserved answers with a rejection but
  overwrites that request's decision: the reservation stays in the table as it was, no commit with the original
  (or any other non-zero) generation is accepted any more, and a cancellation succeeds without rolling it back.\<close>

theorem resubmission_orphans_grant:
  assumes "fabric_request (fabric_run pf ops) (d_admission_request_id d) = Some r"
    and "rr_lifecycle r = RequestLifecycle_Reserved" and "gen \<noteq> Id 0"
  shows "let s' = snd (fabric_evaluate pf now d (fabric_run pf ops));
             (c, s2) = cancel_request now (d_admission_request_id d) s' in
    rm_reservations (af_reservations s') = rm_reservations (af_reservations (fabric_run pf ops))
    \<and> map_option rr_lifecycle (fabric_request s' (d_admission_request_id d)) = Some RequestLifecycle_Reserved
    \<and> commit_admission now (d_admission_request_id d) gen s'
        = (status_failure ErrorCode_StaleAdmissionGeneration ''stale admission generation'', s')
    \<and> c = status_success \<and> map_option rr_lifecycle (fabric_request s2 (d_admission_request_id d)) = Some RequestLifecycle_Cancelled
    \<and> rm_reservations (af_reservations s2) = rm_reservations (af_reservations (fabric_run pf ops))"
proof -
  let ?s = "fabric_run pf ops" and ?rid = "d_admission_request_id d"
  let ?s' = "snd (fabric_evaluate pf now d ?s)"
  have ns: "\<not> submittable d ?s"
    using assms(1,2) by (simp add: submittable_def fabric_request_def evaluation_open_def)
  show ?thesis
  proof (cases rule: evaluate_outcome [where d = d and s = ?s and now = now and pf = pf])
    case (refused dec sp)
    have sp: "af_requests sp = af_requests ?s" using refused(6) ns by (simp add: staged_def)
    have r': "om_find (af_requests ?s') ?rid = Some (r\<lparr>rr_last_decision := Some dec\<rparr>)"
      using refused(5) emit_requests(2) [of sp now d "refusal_life dec" dec False ?rid] sp assms(1,2)
      by (simp add: fabric_request_def settled_record_def advance_def)
    moreover have "om_ok (af_requests ?s')"
      using evaluate_ledger [OF ledger_wf_run] by (simp add: ledger_wf_def)
    ultimately show ?thesis
      using refused(3,7) assms(2,3)
      by (auto simp: Let_def case_prod_beta fabric_request_def same_accounts_def commit_admission_def cancel_request_def
          no_grant_def om_find_put)
  next
    case (granted base pol m dec)
    then show ?thesis using ns by simp
  qed
qed


lemma demo_reserved_request:
  obtains dec r where "fst (fabric_evaluate pf 0 demo_descriptor (fabric_run pf demo_setup)) = Inr dec" and "is_admit dec"
    and "fabric_request (fabric_run pf (demo_setup @ [FabEvaluate 0 demo_descriptor])) (Id 1) = Some r"
    and "rr_lifecycle r = RequestLifecycle_Reserved"
proof -
  obtain dec where dec: "fst (fabric_evaluate pf 0 demo_descriptor (fabric_run pf demo_setup)) = Inr dec" "is_admit dec"
    using demo_admitted by blast
  have id: "d_admission_request_id demo_descriptor = Id 1" by (simp add: demo_descriptor_def)
  obtain r where "om_find (af_requests (snd (fabric_evaluate pf 0 demo_descriptor (fabric_run pf demo_setup)))) (Id 1) = Some r"
    "rr_lifecycle r = RequestLifecycle_Reserved"
    by (rule admitted_record [OF run_requests_ok dec]) (simp add: id demo_run demo_fields)
  with dec that show ?thesis by (simp add: fabric_request_def fabric_run_def)
qed

lemma resubmission_orphans_grant_witness:
  "\<exists>r. fabric_request (fabric_run demo_platform (demo_setup @ [FabEvaluate 0 demo_descriptor])) (Id 1) = Some r
     \<and> (let s' = snd (fabric_evaluate demo_platform 1 demo_descriptor
                        (fabric_run demo_platform (demo_setup @ [FabEvaluate 0 demo_descriptor])))
        in commit_admission 1 (Id 1) (Id 1) s'
             = (status_failure ErrorCode_StaleAdmissionGeneration ''stale admission generation'', s'))"
proof -
  have id: "d_admission_request_id demo_descriptor = Id 1" by (simp add: demo_descriptor_def)
  obtain r where r: "fabric_request (fabric_run demo_platform (demo_setup @ [FabEvaluate 0 demo_descriptor])) (Id 1) = Some r"
    "rr_lifecycle r = RequestLifecycle_Reserved" by (rule demo_reserved_request)
  have "(Id 1 :: AdmissionGeneration) \<noteq> Id 0" by simp
  from resubmission_orphans_grant [where d = demo_descriptor, unfolded id, OF r this, of 1] r(1)
  show ?thesis unfolding Let_def case_prod_beta by blast
qed

text \<open>C36: a request that was Deferred and is admitted on re-evaluation gets its reservation but stays Deferred, because
  the lifecycle only moves on from Evaluating: a cancellation then succeeds and leaves the reservation in
  place, and a commit with the admission's generation is still accepted afterwards and turns the Cancelled
  request into an Admitted one.\<close>

theorem readmitted_request_stays_deferred:
  assumes "fabric_request (fabric_run pf ops) (d_admission_request_id d) = Some old"
    and "rr_lifecycle old = RequestLifecycle_Deferred"
    and "fst (fabric_evaluate pf now d (fabric_run pf ops)) = Inr dec" and "is_admit dec"
    and "fabric_policy (fabric_run pf ops) = Some base"
    and "\<not> now + p_max_reservation_lifetime (policy_effective d base) <s now'"
  shows "let rid = d_admission_request_id d; s1 = snd (fabric_evaluate pf now d (fabric_run pf ops));
             (c, s2) = cancel_request now' rid s1;
             (k, s3) = commit_admission now' rid (dec_admission_generation dec) s2 in
    map_option rr_lifecycle (fabric_request s1 rid) = Some RequestLifecycle_Deferred
    \<and> c = status_success \<and> map_option rr_lifecycle (fabric_request s2 rid) = Some RequestLifecycle_Cancelled
    \<and> af_reservations s2 = af_reservations s1
    \<and> k = status_success \<and> map_option rr_lifecycle (fabric_request s3 rid) = Some RequestLifecycle_Admitted"
proof -
  let ?rid = "d_admission_request_id d" and ?s = "fabric_run pf ops"
  let ?s1 = "snd (fabric_evaluate pf now d ?s)"
  obtain rsv where rsv: "dec_reservation_id dec = Some rsv"
    using assms(3,4) by (cases rule: evaluate_outcome [where d = d and s = ?s and now = now and pf = pf])
      (auto simp: is_admit_def)
  have l1: "rm_wf (af_reservations ?s1)" "om_ok (af_requests ?s1)"
    using evaluate_ledger [OF ledger_wf_run, of pf now d pf ops] by (simp_all add: ledger_wf_def)
  obtain r e where c: "committable now' ?rid (dec_admission_generation dec) ?s1 r rsv e"
    and life: "rr_lifecycle r = RequestLifecycle_Deferred" and last: "rr_last_decision r = Some dec"
    by (rule admitted_committable [OF run_requests_ok run_rm_wf assms(3-5) rsv assms(6)])
      (use assms(1,2) in \<open>simp add: fabric_request_def\<close>)
  let ?r2 = "r\<lparr>rr_lifecycle := RequestLifecycle_Cancelled, rr_updated_at := now'\<rparr>"
  let ?s2 = "?s1\<lparr>af_requests := om_put ?rid ?r2 (af_requests ?s1)\<rparr>"
  have s2: "cancel_request now' ?rid ?s1 = (status_success, ?s2)"
    using c life by (simp add: cancel_request_def committable_def Let_def)
  have c2: "committable now' ?rid (dec_admission_generation dec) ?s2 ?r2 rsv e"
    using c l1(2) by (simp add: committable_def om_find_put)
  have wf2: "rm_wf (af_reservations ?s2)" using l1(1) by simp
  obtain m where "commit_admission now' ?rid (dec_admission_generation dec) ?s2 = (status_success,
      ?s2\<lparr>af_reservations := m, af_requests :=
        om_put ?rid (?r2\<lparr>rr_lifecycle := RequestLifecycle_Admitted, rr_updated_at := now'\<rparr>) (af_requests ?s2)\<rparr>)"
    by (rule commit_accepted [OF wf2 c2]) blast
  then show ?thesis
    using s2 c life l1(2) by (simp add: Let_def committable_def fabric_request_def om_find_put om_ok_put)
qed


text \<open>A deferred request: submitted before any snapshot has arrived.\<close>

definition demo_late_setup :: "fabric_op list" where
  "demo_late_setup = [FabPolicy default_policy, FabEvaluate 0 demo_descriptor, FabSnapshot demo_snapshot]"

lemma demo_late:
  obtains old dec where "fabric_request (fabric_run pf demo_late_setup) (Id 1) = Some old"
    and "rr_lifecycle old = RequestLifecycle_Deferred"
    and "fst (fabric_evaluate pf 0 demo_descriptor (fabric_run pf demo_late_setup)) = Inr dec" and "is_admit dec"
    and "fabric_policy (fabric_run pf demo_late_setup) = Some demo_policy"
proof -
  let ?e = "fabric_empty\<lparr>af_policy := af_policy demo_fabric\<rparr>"
  have pol: "policy_latest (af_policy demo_fabric) = Some demo_policy"
    by (simp add: policy_latest_def demo_fields)
  have b: "bind_overcommit demo_policy rm_empty = rm_empty"
    by (simp add: demo_bind) (simp add: rm_empty_def)
  have s1: "snd (install_policy default_policy fabric_empty) = ?e"
    using demo_policy_installed pol b
    by (simp add: install_policy_def fabric_empty_def demo_fields)
  have flags: "p_require_reservation demo_policy" "d_backend demo_descriptor = []"
    by (simp_all add: demo_policy_def default_policy_def demo_descriptor_def default_descriptor_def)
  obtain dec sp where ev: "snd (fabric_evaluate pf 0 demo_descriptor ?e) = snd (finish_defer 0 demo_descriptor dec sp)"
    and sp: "sp = bound 0 demo_descriptor demo_policy ?e"
    using demo_descriptor_valid pol flags
    by (simp add: fabric_evaluate_def evaluate_policy_def evaluate_snapshot_def Let_def fabric_empty_def demo_effective
        classify_capability_def bound_def entered_def counted_def)
  let ?s = "set_snapshot demo_snapshot (snd (finish_defer 0 demo_descriptor dec sp))"
  have run: "fabric_run pf demo_late_setup = ?s"
    using s1 ev by (simp add: fabric_run_def demo_late_setup_def)
  have id: "d_admission_request_id demo_descriptor = Id 1" by (simp add: demo_descriptor_def)
  have "\<exists>old. af_requests ?s = [(Id 1, old)] \<and> rr_lifecycle old = RequestLifecycle_Deferred"
    by (simp add: set_snapshot_def finish_defer_def sp id emit_def transition_requests entered_def fabric_empty_def Let_def
        advance_def new_record_def)
  then obtain old where old: "af_requests ?s = [(Id 1, old)]" "rr_lifecycle old = RequestLifecycle_Deferred" by blast
  have like: "demo_like ?s"
    by (simp add: demo_like_def set_snapshot_def finish_defer_def sp fabric_empty_def demo_bind rm_set_total_def
        rm_empty_def default_quota_def)
  have "af_requests (entered 0 demo_descriptor ?s) = [(Id 1, old)]"
    using old by (simp add: entered_def transition_requests id advance_def)
  then have "pending_small (entered 0 demo_descriptor ?s) < 64" by (simp add: pending_small_def)
  moreover have "submittable demo_descriptor ?s"
    using demo_descriptor_valid old by (simp add: submittable_def id evaluation_open_def)
  ultimately obtain dec' where "fst (fabric_evaluate pf 0 demo_descriptor ?s) = Inr dec'" "is_admit dec'"
    using demo_like_admits [OF like] by blast
  moreover have "fabric_policy ?s = Some demo_policy" using like pol by (simp add: fabric_policy_def demo_like_def)
  moreover have "fabric_request ?s (Id 1) = Some old" using old by (simp add: fabric_request_def)
  ultimately show ?thesis using that [of old dec'] old(2) unfolding run by blast
qed

lemma readmitted_request_stays_deferred_witness:
  "\<exists>(dec :: AdmissionDecision).
     let s1 = snd (fabric_evaluate demo_platform 0 demo_descriptor (fabric_run demo_platform demo_late_setup));
         s3 = snd (commit_admission 1 (Id 1) (dec_admission_generation dec) (snd (cancel_request 1 (Id 1) s1)))
     in map_option rr_lifecycle (fabric_request s3 (Id 1)) = Some RequestLifecycle_Admitted"
proof -
  have id: "d_admission_request_id demo_descriptor = Id 1" by (simp add: demo_descriptor_def)
  have live: "\<not> 0 + p_max_reservation_lifetime (policy_effective demo_descriptor demo_policy) <s 1"
    unfolding demo_effective by (simp add: demo_policy_def default_policy_def seconds_def word_sless_alt)
  obtain old dec where *: "fabric_request (fabric_run demo_platform demo_late_setup) (Id 1) = Some old"
    "rr_lifecycle old = RequestLifecycle_Deferred"
    "fst (fabric_evaluate demo_platform 0 demo_descriptor (fabric_run demo_platform demo_late_setup)) = Inr dec" "is_admit dec"
    "fabric_policy (fabric_run demo_platform demo_late_setup) = Some demo_policy"
    by (rule demo_late)
  note path = readmitted_request_stays_deferred [where d = demo_descriptor, unfolded id, OF * live, unfolded Let_def case_prod_beta]
  show ?thesis unfolding Let_def by (rule exI [where x = dec]) (simp add: path)
qed

end
