(* ===== verification/Serialize.thy ===== *)
theory Serialize
  imports Errors
begin

text \<open>
  \<open>serialize.hpp\<close> and \<open>serialize.cpp\<close>: the byte writer, the bounds-checking byte reader, the CRC and the
  frame around a persisted payload. A write operation is the list of bytes it appends. The reader is a record
  with the whole buffer, the position, the sticky failure flag and its message; a failed read returns zero.
\<close>

unbundle bit_operations_syntax

type_synonym bytes = "u8 list"

section \<open>The checksum\<close>

text \<open>One round of the table's inner loop, and a table entry.\<close>

definition crc_round :: "u32 \<Rightarrow> u32" where
  "crc_round c = (if c AND 1 \<noteq> 0 then 0xEDB88320 XOR drop_bit 1 c else drop_bit 1 c)"

definition crc_table :: "u32 \<Rightarrow> u32" where
  "crc_table i = (crc_round ^^ 8) i"

definition crc_update :: "u8 \<Rightarrow> u32 \<Rightarrow> u32" where
  "crc_update b crc = crc_table ((crc XOR ucast b) AND 0xFF) XOR drop_bit 8 crc"

definition crc32 :: "bytes \<Rightarrow> u32" where
  "crc32 data = (if data = [] then 0xFFFFFFFF else fold crc_update data 0xFFFFFFFF XOR 0xFFFFFFFF)"

section \<open>Writing\<close>

definition put_u8 :: "u8 \<Rightarrow> bytes" where
  "put_u8 v = [v]"

definition put_u16 :: "u16 \<Rightarrow> bytes" where
  "put_u16 v = put_u8 (ucast (v AND 0xFF)) @ put_u8 (ucast (drop_bit 8 v AND 0xFF))"

text \<open>The loop of \<open>u32\<close> and \<open>u64\<close>: byte \<open>i\<close> is \<open>(v >> (8 * i)) & 0xFF\<close>.\<close>

definition put_le :: "nat \<Rightarrow> 'a::len word \<Rightarrow> bytes" where
  "put_le n v = map (\<lambda>i. ucast (drop_bit (8 * i) v AND 0xFF)) [0..<n]"

definition put_u32 :: "u32 \<Rightarrow> bytes" where
  "put_u32 v = put_le 4 v"

definition put_u64 :: "u64 \<Rightarrow> bytes" where
  "put_u64 v = put_le 8 v"

definition put_i32 :: "u32 \<Rightarrow> bytes" where
  "put_i32 v = put_u32 v"

definition put_i64 :: "i64 \<Rightarrow> bytes" where
  "put_i64 v = put_u64 v"

definition put_f64 :: "u64 \<Rightarrow> bytes" where
  "put_f64 v = put_u64 v"

definition put_flag :: "bool \<Rightarrow> bytes" where
  "put_flag b = put_u8 (if b then 1 else 0)"

definition byte_of_char :: "char \<Rightarrow> u8" where
  "byte_of_char c = of_nat (of_char c)"

definition char_of_byte :: "u8 \<Rightarrow> char" where
  "char_of_byte b = char_of (unat b)"

definition put_raw :: "string \<Rightarrow> bytes" where
  "put_raw s = map byte_of_char s"

text \<open>\<open>static_cast<std::uint32_t>(size())\<close> keeps the low 32 bits of a length.\<close>

definition put_string :: "string \<Rightarrow> bytes" where
  "put_string s = put_u32 (of_nat (length s)) @ put_raw s"

definition put_u64vec :: "u64 list \<Rightarrow> bytes" where
  "put_u64vec v = put_u32 (of_nat (length v)) @ concat (map put_u64 v)"

definition put_stringvec :: "string list \<Rightarrow> bytes" where
  "put_stringvec v = put_u32 (of_nat (length v)) @ concat (map put_string v)"

text \<open>\<open>frame\<close>: the payload, then magic, version, length and checksum.\<close>

definition frame :: "u32 \<Rightarrow> u32 \<Rightarrow> bytes \<Rightarrow> bytes" where
  "frame magic version payload =
     payload @ put_u32 magic @ put_u32 version @ put_u32 (of_nat (length payload)) @ put_u32 (crc32 payload)"

section \<open>Reading\<close>

record ByteReader =
  br_data :: bytes
  br_pos :: nat
  br_failed :: bool
  br_error :: string

definition byte_reader :: "bytes \<Rightarrow> ByteReader" where
  "byte_reader data = \<lparr>br_data = data, br_pos = 0, br_failed = False, br_error = []\<rparr>"

definition br_ok :: "ByteReader \<Rightarrow> bool" where
  "br_ok r \<longleftrightarrow> \<not> br_failed r"

definition br_remaining :: "ByteReader \<Rightarrow> nat" where
  "br_remaining r = (if br_pos r < length (br_data r) then length (br_data r) - br_pos r else 0)"

definition br_fail :: "string \<Rightarrow> ByteReader \<Rightarrow> ByteReader" where
  "br_fail e r = (if \<not> br_failed r then r\<lparr>br_failed := True, br_error := e\<rparr> else r)"

definition br_need :: "nat \<Rightarrow> ByteReader \<Rightarrow> ByteReader" where
  "br_need n r =
     (if br_failed r then r
      else if n > length (br_data r) - br_pos r then br_fail ''unexpected end of buffer'' r else r)"

definition get_u8 :: "ByteReader \<Rightarrow> u8 \<times> ByteReader" where
  "get_u8 r0 =
     (let r = br_need 1 r0 in
      if br_failed r then (0, r) else (br_data r ! br_pos r, r\<lparr>br_pos := br_pos r + 1\<rparr>))"

text \<open>\<open>for (i = 0; i < n; ++i) v |= u8() << (8 * i)\<close>, from round \<open>i\<close> with \<open>k\<close> rounds to go.\<close>

fun get_le :: "nat \<Rightarrow> nat \<Rightarrow> 'a::len word \<Rightarrow> ByteReader \<Rightarrow> 'a word \<times> ByteReader" where
  "get_le i 0 v r = (v, r)"
| "get_le i (Suc k) v r = (case get_u8 r of (b, r1) \<Rightarrow> get_le (i + 1) k (v OR push_bit (8 * i) (ucast b)) r1)"

definition get_u16 :: "ByteReader \<Rightarrow> u16 \<times> ByteReader" where
  "get_u16 r = get_le 0 2 0 r"

definition get_u32 :: "ByteReader \<Rightarrow> u32 \<times> ByteReader" where
  "get_u32 r = get_le 0 4 0 r"

definition get_u64 :: "ByteReader \<Rightarrow> u64 \<times> ByteReader" where
  "get_u64 r = get_le 0 8 0 r"

definition get_i32 :: "ByteReader \<Rightarrow> u32 \<times> ByteReader" where
  "get_i32 r = get_u32 r"

definition get_i64 :: "ByteReader \<Rightarrow> i64 \<times> ByteReader" where
  "get_i64 r = get_u64 r"

definition get_f64 :: "ByteReader \<Rightarrow> u64 \<times> ByteReader" where
  "get_f64 r = get_u64 r"

definition get_flag :: "ByteReader \<Rightarrow> bool \<times> ByteReader" where
  "get_flag r = (case get_u8 r of (b, r1) \<Rightarrow> (b \<noteq> 0, r1))"

definition get_bytes :: "nat \<Rightarrow> ByteReader \<Rightarrow> bytes option \<times> ByteReader" where
  "get_bytes n r0 =
     (let r = br_need n r0 in
      if br_failed r then (None, r)
      else (Some (take n (drop (br_pos r) (br_data r))), r\<lparr>br_pos := br_pos r + n\<rparr>))"

definition kMaxLen :: u32 where
  "kMaxLen = 64 * 1024 * 1024"

definition kMaxCount :: u32 where
  "kMaxCount = push_bit 20 1"

text \<open>A \<open>bool\<close>-returning read with an out parameter is an optional value.\<close>

definition get_string :: "ByteReader \<Rightarrow> string option \<times> ByteReader" where
  "get_string r0 =
     (case get_u32 r0 of (n, r) \<Rightarrow>
        if br_failed r \<or> n > kMaxLen then (None, br_fail ''length-prefixed string too large'' r)
        else case get_bytes (unat n) r of
               (None, r1) \<Rightarrow> (None, r1)
             | (Some bs, r1) \<Rightarrow> (Some (map char_of_byte bs), r1))"

fun get_u64s :: "nat \<Rightarrow> ByteReader \<Rightarrow> u64 list option \<times> ByteReader" where
  "get_u64s 0 r = (if br_failed r then None else Some [], r)"
| "get_u64s (Suc n) r =
     (if br_failed r then (None, r)
      else case get_u64 r of (x, r1) \<Rightarrow> case get_u64s n r1 of (xs, r2) \<Rightarrow> (map_option ((#) x) xs, r2))"

definition get_u64vec :: "ByteReader \<Rightarrow> u64 list option \<times> ByteReader" where
  "get_u64vec r0 =
     (case get_u32 r0 of (n, r) \<Rightarrow>
        if br_failed r \<or> n > kMaxCount then (None, br_fail ''count too large'' r) else get_u64s (unat n) r)"

fun get_strings :: "nat \<Rightarrow> ByteReader \<Rightarrow> string list option \<times> ByteReader" where
  "get_strings 0 r = (if br_failed r then None else Some [], r)"
| "get_strings (Suc n) r =
     (case get_string r of
        (None, r1) \<Rightarrow> (None, r1)
      | (Some s, r1) \<Rightarrow> (case get_strings n r1 of (xs, r2) \<Rightarrow> (map_option ((#) s) xs, r2)))"

definition get_stringvec :: "ByteReader \<Rightarrow> string list option \<times> ByteReader" where
  "get_stringvec r0 =
     (case get_u32 r0 of (n, r) \<Rightarrow>
        if br_failed r \<or> n > kMaxCount then (None, br_fail ''count too large'' r) else get_strings (unat n) r)"

section \<open>Frames\<close>

definition verify_trailer :: "u32 \<Rightarrow> u32 \<Rightarrow> ByteReader \<Rightarrow> bool \<times> ByteReader" where
  "verify_trailer magic version r0 =
     (let (m, r1) = get_u32 r0; (ver, r2) = get_u32 r1; (len, r3) = get_u32 r2; (crc, r) = get_u32 r3;
          refuse = (\<lambda>e. (False, r\<lparr>br_error := e, br_failed := True\<rparr>)) in
      if br_failed r then (False, r)
      else if m \<noteq> magic then refuse ''bad magic''
      else if ver \<noteq> version then refuse ''bad version''
      else if unat len \<noteq> br_pos r - 16 then refuse ''length mismatch''
      else if crc32 (take (br_pos r - 16) (br_data r)) \<noteq> crc then refuse ''checksum mismatch''
      else (True, r))"

definition parse_frame :: "bytes \<Rightarrow> u32 \<Rightarrow> u32 \<Rightarrow> string + bytes" where
  "parse_frame framed magic version =
     (if length framed < 16 then Inl ''frame too small''
      else let payload = take (length framed - 16) framed;
               (m, r1) = get_u32 (byte_reader (drop (length framed - 16) framed));
               (ver, r2) = get_u32 r1; (len, r3) = get_u32 r2; (crc, r4) = get_u32 r3 in
        if m \<noteq> magic then Inl ''bad magic''
        else if ver \<noteq> version then Inl ''bad version''
        else if unat len \<noteq> length payload then Inl ''length mismatch''
        else if crc32 payload \<noteq> crc then Inl ''checksum mismatch''
        else Inr payload)"

end
