(* ===== verification/Enum_Bytes.thy ===== *)
theory Enum_Bytes
  imports Policy Decision
begin

text \<open>
  The integer values of the enumerations the codecs write, and \<open>static_cast\<close> back to an enumeration: a value
  without an enumerator is the raw constructor. The locale \<open>enum_values\<close> holds the laws of every such pair.
\<close>

section \<open>Reading an enumeration from its value\<close>

definition enum_of :: "('e \<Rightarrow> 'w) \<Rightarrow> 'e list \<Rightarrow> ('w \<Rightarrow> 'e) \<Rightarrow> 'w \<Rightarrow> 'e" where
  "enum_of val es raw w = (case List.find (\<lambda>e. val e = w) es of Some e \<Rightarrow> e | None \<Rightarrow> raw w)"

text \<open>Each value has one representation: an enumerator, or a raw value that is no enumerator's.\<close>

definition enum_canonical :: "('e \<Rightarrow> 'w) \<Rightarrow> 'e list \<Rightarrow> 'e \<Rightarrow> bool" where
  "enum_canonical val es e \<longleftrightarrow> e \<in> set es \<or> val e \<notin> set (map val es)"

locale enum_values =
  fixes val :: "'e \<Rightarrow> 'w" and es :: "'e list" and raw :: "'w \<Rightarrow> 'e"
  assumes distinct_values: "distinct (map val es)"
    and val_raw: "val (raw w) = w"
    and raw_val: "e \<notin> set es \<Longrightarrow> raw (val e) = e"
begin

lemma enum_of_val: "enum_canonical val es e \<Longrightarrow> enum_of val es raw (val e) = e"
proof (cases "e \<in> set es")
  case True
  then show ?thesis using find_by_distinct_key [OF distinct_values] by (simp add: enum_of_def)
next
  case False
  moreover assume "enum_canonical val es e"
  ultimately have "List.find (\<lambda>x. val x = val e) es = None"
    by (auto simp: enum_canonical_def find_None_iff) (metis imageI)
  then show ?thesis using raw_val [OF False] by (simp add: enum_of_def)
qed

lemma val_enum_of: "val (enum_of val es raw w) = w"
  by (auto simp: enum_of_def val_raw find_Some_iff split: option.split)

lemma enum_of_canonical: "enum_canonical val es (enum_of val es raw w)"
proof (cases "List.find (\<lambda>e. val e = w) es")
  case None
  then have "w \<notin> set (map val es)" by (auto simp: find_None_iff)
  then show ?thesis using None by (simp add: enum_of_def enum_canonical_def val_raw)
next
  case (Some e)
  then have "e \<in> set es" by (auto simp: find_Some_iff)
  then show ?thesis using Some by (simp add: enum_of_def enum_canonical_def)
qed

end

section \<open>The enumerations of one byte\<close>

primrec workload_byte :: "WorkloadType \<Rightarrow> u8" where
  "workload_byte WorkloadType_Inference = 0"
| "workload_byte WorkloadType_Prefill = 1"
| "workload_byte WorkloadType_Decode = 2"
| "workload_byte WorkloadType_Training = 3"
| "workload_byte WorkloadType_FineTune = 4"
| "workload_byte WorkloadType_Embedding = 5"
| "workload_byte WorkloadType_Rerank = 6"
| "workload_byte WorkloadType_Other = 7"
| "workload_byte (WorkloadType_Raw b) = b"

definition workload_enumerators :: "WorkloadType list" where
  "workload_enumerators = [WorkloadType_Inference, WorkloadType_Prefill, WorkloadType_Decode,
     WorkloadType_Training, WorkloadType_FineTune, WorkloadType_Embedding, WorkloadType_Rerank, WorkloadType_Other]"

definition workload_of_byte :: "u8 \<Rightarrow> WorkloadType" where
  "workload_of_byte = enum_of workload_byte workload_enumerators WorkloadType_Raw"

interpretation workload_enum: enum_values workload_byte workload_enumerators WorkloadType_Raw
proof
  show "WorkloadType_Raw (workload_byte e) = e" if "e \<notin> set workload_enumerators" for e
    using that by (cases e) (simp_all add: workload_enumerators_def)
qed (simp_all add: workload_enumerators_def)

primrec latency_byte :: "LatencyClass \<Rightarrow> u8" where
  "latency_byte LatencyClass_BestEffort = 0"
| "latency_byte LatencyClass_Interactive = 1"
| "latency_byte LatencyClass_Realtime = 2"
| "latency_byte LatencyClass_FixedDeadline = 3"
| "latency_byte LatencyClass_SoftRealtime = 4"
| "latency_byte (LatencyClass_Raw b) = b"

definition latency_enumerators :: "LatencyClass list" where
  "latency_enumerators = [LatencyClass_BestEffort, LatencyClass_Interactive, LatencyClass_Realtime,
     LatencyClass_FixedDeadline, LatencyClass_SoftRealtime]"

definition latency_of_byte :: "u8 \<Rightarrow> LatencyClass" where
  "latency_of_byte = enum_of latency_byte latency_enumerators LatencyClass_Raw"

interpretation latency_enum: enum_values latency_byte latency_enumerators LatencyClass_Raw
proof
  show "LatencyClass_Raw (latency_byte e) = e" if "e \<notin> set latency_enumerators" for e
    using that by (cases e) (simp_all add: latency_enumerators_def)
qed (simp_all add: latency_enumerators_def)

primrec preemption_byte :: "PreemptionPermission \<Rightarrow> u8" where
  "preemption_byte PreemptionPermission_NotPermitted = 0"
| "preemption_byte PreemptionPermission_Preemptible = 1"
| "preemption_byte PreemptionPermission_Deferrable = 2"
| "preemption_byte (PreemptionPermission_Raw b) = b"

definition preemption_enumerators :: "PreemptionPermission list" where
  "preemption_enumerators = [PreemptionPermission_NotPermitted, PreemptionPermission_Preemptible,
     PreemptionPermission_Deferrable]"

definition preemption_of_byte :: "u8 \<Rightarrow> PreemptionPermission" where
  "preemption_of_byte = enum_of preemption_byte preemption_enumerators PreemptionPermission_Raw"

interpretation preemption_enum: enum_values preemption_byte preemption_enumerators PreemptionPermission_Raw
proof
  show "PreemptionPermission_Raw (preemption_byte e) = e" if "e \<notin> set preemption_enumerators" for e
    using that by (cases e) (simp_all add: preemption_enumerators_def)
qed (simp_all add: preemption_enumerators_def)

primrec pressure_byte :: "PressureLevel \<Rightarrow> u8" where
  "pressure_byte PressureLevel_None = 0"
| "pressure_byte PressureLevel_Low = 1"
| "pressure_byte PressureLevel_Normal = 2"
| "pressure_byte PressureLevel_High = 3"
| "pressure_byte PressureLevel_Critical = 4"
| "pressure_byte (PressureLevel_Raw b) = b"

definition pressure_enumerators :: "PressureLevel list" where
  "pressure_enumerators = [PressureLevel_None, PressureLevel_Low, PressureLevel_Normal, PressureLevel_High,
     PressureLevel_Critical]"

definition pressure_of_byte :: "u8 \<Rightarrow> PressureLevel" where
  "pressure_of_byte = enum_of pressure_byte pressure_enumerators PressureLevel_Raw"

interpretation pressure_enum: enum_values pressure_byte pressure_enumerators PressureLevel_Raw
proof
  show "PressureLevel_Raw (pressure_byte e) = e" if "e \<notin> set pressure_enumerators" for e
    using that by (cases e) (simp_all add: pressure_enumerators_def)
qed (simp_all add: pressure_enumerators_def)

primrec provenance_byte :: "Provenance \<Rightarrow> u8" where
  "provenance_byte Provenance_Measured = 1"
| "provenance_byte Provenance_Configured = 2"
| "provenance_byte Provenance_Derived = 3"
| "provenance_byte Provenance_Predicted = 4"
| "provenance_byte Provenance_Stale = 5"
| "provenance_byte Provenance_Unavailable = 6"
| "provenance_byte (Provenance_Raw b) = b"

definition provenance_enumerators :: "Provenance list" where
  "provenance_enumerators = [Provenance_Measured, Provenance_Configured, Provenance_Derived,
     Provenance_Predicted, Provenance_Stale, Provenance_Unavailable]"

definition provenance_of_byte :: "u8 \<Rightarrow> Provenance" where
  "provenance_of_byte = enum_of provenance_byte provenance_enumerators Provenance_Raw"

interpretation provenance_enum: enum_values provenance_byte provenance_enumerators Provenance_Raw
proof
  show "Provenance_Raw (provenance_byte e) = e" if "e \<notin> set provenance_enumerators" for e
    using that by (cases e) (simp_all add: provenance_enumerators_def)
qed (simp_all add: provenance_enumerators_def)

primrec overcommit_byte :: "OvercommitMode \<Rightarrow> u8" where
  "overcommit_byte OvercommitMode_None = 0"
| "overcommit_byte OvercommitMode_Bounded = 1"
| "overcommit_byte OvercommitMode_PredictionAware = 2"
| "overcommit_byte (OvercommitMode_Raw b) = b"

definition overcommit_enumerators :: "OvercommitMode list" where
  "overcommit_enumerators = [OvercommitMode_None, OvercommitMode_Bounded, OvercommitMode_PredictionAware]"

definition overcommit_of_byte :: "u8 \<Rightarrow> OvercommitMode" where
  "overcommit_of_byte = enum_of overcommit_byte overcommit_enumerators OvercommitMode_Raw"

interpretation overcommit_enum: enum_values overcommit_byte overcommit_enumerators OvercommitMode_Raw
proof
  show "OvercommitMode_Raw (overcommit_byte e) = e" if "e \<notin> set overcommit_enumerators" for e
    using that by (cases e) (simp_all add: overcommit_enumerators_def)
qed (simp_all add: overcommit_enumerators_def)

primrec rstatus_byte :: "ReservationStatus \<Rightarrow> u8" where
  "rstatus_byte ReservationStatus_Reserved = 0"
| "rstatus_byte ReservationStatus_Committed = 1"
| "rstatus_byte ReservationStatus_Released = 2"
| "rstatus_byte ReservationStatus_Expired = 3"
| "rstatus_byte ReservationStatus_RolledBack = 4"
| "rstatus_byte (ReservationStatus_Raw b) = b"

definition rstatus_enumerators :: "ReservationStatus list" where
  "rstatus_enumerators = [ReservationStatus_Reserved, ReservationStatus_Committed, ReservationStatus_Released,
     ReservationStatus_Expired, ReservationStatus_RolledBack]"

definition rstatus_of_byte :: "u8 \<Rightarrow> ReservationStatus" where
  "rstatus_of_byte = enum_of rstatus_byte rstatus_enumerators ReservationStatus_Raw"

interpretation rstatus_enum: enum_values rstatus_byte rstatus_enumerators ReservationStatus_Raw
proof
  show "ReservationStatus_Raw (rstatus_byte e) = e" if "e \<notin> set rstatus_enumerators" for e
    using that by (cases e) (simp_all add: rstatus_enumerators_def)
qed (simp_all add: rstatus_enumerators_def)

primrec okind_byte :: "ObservationKind \<Rightarrow> u8" where
  "okind_byte ObservationKind_Completed = 0"
| "okind_byte ObservationKind_Failed = 1"
| "okind_byte ObservationKind_Aborted = 2"
| "okind_byte (ObservationKind_Raw b) = b"

definition okind_enumerators :: "ObservationKind list" where
  "okind_enumerators = [ObservationKind_Completed, ObservationKind_Failed, ObservationKind_Aborted]"

definition okind_of_byte :: "u8 \<Rightarrow> ObservationKind" where
  "okind_of_byte = enum_of okind_byte okind_enumerators ObservationKind_Raw"

interpretation okind_enum: enum_values okind_byte okind_enumerators ObservationKind_Raw
proof
  show "ObservationKind_Raw (okind_byte e) = e" if "e \<notin> set okind_enumerators" for e
    using that by (cases e) (simp_all add: okind_enumerators_def)
qed (simp_all add: okind_enumerators_def)

primrec outcome_byte :: "AdmissionOutcome \<Rightarrow> u8" where
  "outcome_byte AdmissionOutcome_Admit = 0"
| "outcome_byte AdmissionOutcome_Defer = 1"
| "outcome_byte AdmissionOutcome_Reject = 2"
| "outcome_byte (AdmissionOutcome_Raw b) = b"

definition outcome_enumerators :: "AdmissionOutcome list" where
  "outcome_enumerators = [AdmissionOutcome_Admit, AdmissionOutcome_Defer, AdmissionOutcome_Reject]"

definition outcome_of_byte :: "u8 \<Rightarrow> AdmissionOutcome" where
  "outcome_of_byte = enum_of outcome_byte outcome_enumerators AdmissionOutcome_Raw"

interpretation outcome_enum: enum_values outcome_byte outcome_enumerators AdmissionOutcome_Raw
proof
  show "AdmissionOutcome_Raw (outcome_byte e) = e" if "e \<notin> set outcome_enumerators" for e
    using that by (cases e) (simp_all add: outcome_enumerators_def)
qed (simp_all add: outcome_enumerators_def)

section \<open>Reason codes\<close>

definition reason_enumerators :: "ReasonCode list" where
  "reason_enumerators = [ReasonCode_Admit, ReasonCode_AdmitWithReservation, ReasonCode_AdmitWithRisk,
     ReasonCode_DeferCapacity, ReasonCode_DeferQuota, ReasonCode_DeferSlo, ReasonCode_DeferCapability,
     ReasonCode_RejectInfeasible, ReasonCode_RejectPolicy, ReasonCode_RejectCapability, ReasonCode_RejectQuota,
     ReasonCode_RejectExpired, ReasonCode_RejectMalformed, ReasonCode_RejectUnsupported, ReasonCode_RejectStale]"

definition reason_of_value :: "u32 \<Rightarrow> ReasonCode" where
  "reason_of_value = enum_of reason_value reason_enumerators ReasonCode_Raw"

interpretation reason_enum: enum_values reason_value reason_enumerators ReasonCode_Raw
proof
  show "ReasonCode_Raw (reason_value e) = e" if "e \<notin> set reason_enumerators" for e
    using that by (cases e) (simp_all add: reason_enumerators_def)
qed (simp_all add: reason_enumerators_def)

end
