(* ===== verification/Codec.thy ===== *)
theory Codec
  imports Enum_Bytes Serialize
begin

text \<open>
  \<open>codec.hpp\<close> and \<open>codec.cpp\<close>: one encoder and one decoder per domain structure. An encoder is the list of bytes it
  writes. A decoder returns the refused status or the value of its out parameter, which every caller passes in
  freshly constructed, with the reader it leaves: \<open>rd_val\<close> is an unchecked read, \<open>rd_ok\<close> one whose caller tests
  \<open>r.ok()\<close>, \<open>rd_req\<close> one that returns \<open>false\<close> itself, and \<open>rd_done\<close> the closing test on \<open>r.ok()\<close>.
  Durations and time points are counts of nanoseconds.
\<close>

section \<open>Decoding steps\<close>

type_synonym 'a decoder = "ByteReader \<Rightarrow> (Status + 'a) \<times> ByteReader"

definition corrupt :: "string \<Rightarrow> Status" where
  "corrupt msg = status_failure ErrorCode_PersistenceCorrupt msg"

definition rd_return :: "'a \<Rightarrow> 'a decoder" where
  "rd_return x r = (Inr x, r)"

definition rd_fail :: "Status \<Rightarrow> 'a decoder" where
  "rd_fail e r = (Inl e, r)"

definition rd_bind :: "'a decoder \<Rightarrow> ('a \<Rightarrow> 'b decoder) \<Rightarrow> 'b decoder" where
  "rd_bind g f r = (case g r of (x, r1) \<Rightarrow> (case x of Inl e \<Rightarrow> (Inl e, r1) | Inr y \<Rightarrow> f y r1))"

definition rd_val :: "(ByteReader \<Rightarrow> 'a \<times> ByteReader) \<Rightarrow> 'a decoder" where
  "rd_val g r = (case g r of (x, r1) \<Rightarrow> (Inr x, r1))"

definition rd_ok :: "string \<Rightarrow> (ByteReader \<Rightarrow> 'a \<times> ByteReader) \<Rightarrow> 'a decoder" where
  "rd_ok msg g r = (case g r of (x, r1) \<Rightarrow> (if br_ok r1 then Inr x else Inl (corrupt msg), r1))"

definition rd_req :: "string \<Rightarrow> (ByteReader \<Rightarrow> 'a option \<times> ByteReader) \<Rightarrow> 'a decoder" where
  "rd_req msg g r = (case g r of (x, r1) \<Rightarrow> (case x of None \<Rightarrow> Inl (corrupt msg) | Some y \<Rightarrow> Inr y, r1))"

definition rd_check :: "bool \<Rightarrow> string \<Rightarrow> 'a decoder \<Rightarrow> 'a decoder" where
  "rd_check bad msg g = (if bad then rd_fail (corrupt msg) else g)"

definition rd_done :: "'a \<Rightarrow> 'a decoder" where
  "rd_done x r = (if br_ok r then Inr x else Inl (corrupt (br_error r)), r)"

fun rd_times :: "nat \<Rightarrow> 'a decoder \<Rightarrow> 'a list decoder" where
  "rd_times 0 g = rd_return []"
| "rd_times (Suc n) g = rd_bind g (\<lambda>x. rd_bind (rd_times n g) (\<lambda>xs. rd_return (x # xs)))"

section \<open>Primitive helpers\<close>

text \<open>\<open>if (r.flag()) o = ...\<close> and \<open>w.flag(o.has_value()); if (o) ...\<close>.\<close>

definition rd_opt :: "'a decoder \<Rightarrow> 'a option decoder" where
  "rd_opt g = rd_bind (rd_val get_flag) (\<lambda>b. if b then rd_bind g (\<lambda>x. rd_return (Some x)) else rd_return None)"

definition put_opt :: "('a \<Rightarrow> bytes) \<Rightarrow> 'a option \<Rightarrow> bytes" where
  "put_opt put x = put_flag (x \<noteq> None) @ (case x of None \<Rightarrow> [] | Some y \<Rightarrow> put y)"

definition put_id :: "'tag Id \<Rightarrow> bytes" where
  "put_id i = put_u64 (id_value i)"

definition get_id :: "ByteReader \<Rightarrow> 'tag Id \<times> ByteReader" where
  "get_id r = (case get_u64 r of (v, r1) \<Rightarrow> (Id v, r1))"

definition put_enum :: "('e \<Rightarrow> u8) \<Rightarrow> 'e \<Rightarrow> bytes" where
  "put_enum val e = put_u8 (val e)"

definition get_enum :: "(u8 \<Rightarrow> 'e) \<Rightarrow> ByteReader \<Rightarrow> 'e \<times> ByteReader" where
  "get_enum of_byte r = (case get_u8 r of (b, r1) \<Rightarrow> (of_byte b, r1))"

definition put_reason :: "ReasonCode \<Rightarrow> bytes" where
  "put_reason c = put_i32 (reason_value c)"

definition get_reason :: "ByteReader \<Rightarrow> ReasonCode \<times> ByteReader" where
  "get_reason r = (case get_i32 r of (v, r1) \<Rightarrow> (reason_of_value v, r1))"

text \<open>A loop over every resource, one word each or one byte each.\<close>

fun get_each :: "(ByteReader \<Rightarrow> 'a \<times> ByteReader) \<Rightarrow> ResourceId list \<Rightarrow> (ResourceId \<Rightarrow> 'a)
    \<Rightarrow> ByteReader \<Rightarrow> (ResourceId \<Rightarrow> 'a) \<times> ByteReader" where
  "get_each g [] v r = (v, r)"
| "get_each g (i # is) v r = (case g r of (x, r1) \<Rightarrow> get_each g is (v(i := x)) r1)"

definition encode_resource_vector :: "ResourceVector \<Rightarrow> bytes" where
  "encode_resource_vector v = concat (map (\<lambda>i. put_u64 (v i)) resource_ids)"

definition decode_resource_vector :: "ByteReader \<Rightarrow> ResourceVector \<times> ByteReader" where
  "decode_resource_vector = get_each get_u64 resource_ids rv_zero"

definition put_levels :: "('e \<Rightarrow> u8) \<Rightarrow> (ResourceId \<Rightarrow> 'e) \<Rightarrow> bytes" where
  "put_levels val v = concat (map (\<lambda>i. put_enum val (v i)) resource_ids)"

definition get_levels :: "(u8 \<Rightarrow> 'e) \<Rightarrow> ByteReader \<Rightarrow> (ResourceId \<Rightarrow> 'e) \<times> ByteReader" where
  "get_levels of_byte = get_each (get_enum of_byte) resource_ids (\<lambda>_. of_byte 0)"

definition encode_capabilities :: "Capabilities \<Rightarrow> bytes" where
  "encode_capabilities c = put_stringvec (map fst c)"

definition decode_capabilities :: "ByteReader \<Rightarrow> Capabilities option \<times> ByteReader" where
  "decode_capabilities r =
     (case get_stringvec r of (x, r1) \<Rightarrow>
       (case x of None \<Rightarrow> None | Some toks \<Rightarrow> if br_ok r1 then Some (fold cap_add toks []) else None, r1))"

definition encode_timepoint :: "i64 \<Rightarrow> bytes" where
  "encode_timepoint t = put_i64 t"

definition decode_timepoint :: "ByteReader \<Rightarrow> i64 \<times> ByteReader" where
  "decode_timepoint r = get_i64 r"

section \<open>Descriptors\<close>

definition encode_descriptor :: "AdmissionDescriptor \<Rightarrow> bytes" where
  "encode_descriptor d =
     put_enum workload_byte (d_workload_type d) @ put_id (d_admission_request_id d) @ put_id (d_request_id d) @
     put_id (d_attempt_id d) @ put_id (d_tenant_id d) @ put_id (d_model_id d) @ put_id (d_model_revision d) @
     put_opt put_id (d_adapter_id d) @ put_id (d_policy_generation d) @ put_u64 (d_input_tokens d) @
     put_u64 (d_expected_output_tokens d) @ put_u64 (d_max_output_tokens d) @ put_flag (d_batchable d) @
     put_u8 (d_priority d) @ put_enum latency_byte (d_latency_class d) @ put_opt put_i64 (d_deadline d) @
     put_opt put_f64 (d_requested_slo d) @ put_opt encode_resource_vector (d_expected_demand d) @
     put_enum preemption_byte (d_preemption d) @ put_flag (d_degradation_permitted d) @
     put_flag (d_requires_reservation d) @ put_i64 (d_admission_ttl d) @ put_string (d_backend d) @
     put_string (d_dtype d) @ put_string (d_quantization d) @ put_string (d_workload_class d) @
     put_stringvec (d_policy_tags d)"

definition decode_descriptor :: "AdmissionDescriptor decoder" where
  "decode_descriptor =
     rd_bind (rd_val (get_enum workload_of_byte)) (\<lambda>workload_type.
     rd_bind (rd_ok ''descriptor request id'' get_id) (\<lambda>admission_request_id.
     rd_bind (rd_ok ''descriptor request id'' get_id) (\<lambda>request_id.
     rd_bind (rd_ok ''descriptor attempt id'' get_id) (\<lambda>attempt_id.
     rd_bind (rd_ok ''descriptor tenant id'' get_id) (\<lambda>tenant_id.
     rd_bind (rd_ok ''descriptor model id'' get_id) (\<lambda>model_id.
     rd_bind (rd_ok ''descriptor revision'' get_id) (\<lambda>model_revision.
     rd_bind (rd_opt (rd_ok ''adapter id'' get_id)) (\<lambda>adapter_id.
     rd_bind (rd_ok ''policy generation'' get_id) (\<lambda>policy_generation.
     rd_bind (rd_val get_u64) (\<lambda>input_tokens.
     rd_bind (rd_val get_u64) (\<lambda>expected_output_tokens.
     rd_bind (rd_val get_u64) (\<lambda>max_output_tokens.
     rd_bind (rd_val get_flag) (\<lambda>batchable.
     rd_bind (rd_val get_u8) (\<lambda>priority.
     rd_bind (rd_val (get_enum latency_of_byte)) (\<lambda>latency_class.
     rd_bind (rd_opt (rd_val get_i64)) (\<lambda>deadline.
     rd_bind (rd_opt (rd_val get_f64)) (\<lambda>requested_slo.
     rd_bind (rd_opt (rd_ok ''expected demand'' decode_resource_vector)) (\<lambda>expected_demand.
     rd_bind (rd_val (get_enum preemption_of_byte)) (\<lambda>preemption.
     rd_bind (rd_val get_flag) (\<lambda>degradation_permitted.
     rd_bind (rd_val get_flag) (\<lambda>requires_reservation.
     rd_bind (rd_val get_i64) (\<lambda>admission_ttl.
     rd_bind (rd_req ''descriptor strings'' get_string) (\<lambda>backend.
     rd_bind (rd_req ''descriptor strings'' get_string) (\<lambda>dtype.
     rd_bind (rd_req ''descriptor strings'' get_string) (\<lambda>quantization.
     rd_bind (rd_req ''descriptor strings'' get_string) (\<lambda>workload_class.
     rd_bind (rd_req ''policy tags'' get_stringvec) (\<lambda>policy_tags.
     rd_done (
       \<lparr>d_admission_request_id = admission_request_id, d_request_id = request_id,
        d_attempt_id = attempt_id, d_tenant_id = tenant_id, d_model_id = model_id,
        d_model_revision = model_revision, d_adapter_id = adapter_id, d_policy_generation = policy_generation,
        d_workload_type = workload_type, d_workload_class = workload_class, d_backend = backend,
        d_dtype = dtype, d_quantization = quantization, d_input_tokens = input_tokens,
        d_expected_output_tokens = expected_output_tokens, d_max_output_tokens = max_output_tokens,
        d_batchable = batchable, d_priority = priority, d_latency_class = latency_class, d_deadline = deadline,
        d_requested_slo = requested_slo, d_expected_demand = expected_demand, d_preemption = preemption,
        d_degradation_permitted = degradation_permitted, d_requires_reservation = requires_reservation,
        d_admission_ttl = admission_ttl, d_policy_tags = policy_tags\<rparr>))))))))))))))))))))))))))))"

section \<open>Snapshots\<close>

definition encode_snapshot :: "ResourceSnapshot \<Rightarrow> bytes" where
  "encode_snapshot s =
     put_id (snap_generation s) @ encode_timepoint (snap_timestamp s) @ put_id (snap_agent_id s) @
     put_id (snap_boot_id s) @ put_string (snap_node_name s) @ put_u32 (snap_device_index s) @
     put_string (snap_device_name s) @ encode_resource_vector (snap_total s) @
     encode_resource_vector (snap_used s) @ encode_resource_vector (snap_reserved s) @
     encode_resource_vector (snap_reclaimable s) @ encode_capabilities (snap_capabilities s) @
     put_flag (snap_healthy s) @ put_stringvec (snap_model_residency_hints s) @
     put_stringvec (snap_transfer_path_hints s) @ put_levels pressure_byte (snap_pressure s) @
     put_levels provenance_byte (snap_provenance s)"

definition decode_snapshot :: "ResourceSnapshot decoder" where
  "decode_snapshot =
     rd_bind (rd_val get_id) (\<lambda>generation.
     rd_bind (rd_ok ''snapshot ts'' decode_timepoint) (\<lambda>timestamp.
     rd_bind (rd_val get_id) (\<lambda>agent_id.
     rd_bind (rd_val get_id) (\<lambda>boot_id.
     rd_bind (rd_req ''node name'' get_string) (\<lambda>node_name.
     rd_bind (rd_val get_u32) (\<lambda>device_index.
     rd_bind (rd_req ''device name'' get_string) (\<lambda>device_name.
     rd_bind (rd_ok ''total'' decode_resource_vector) (\<lambda>total.
     rd_bind (rd_ok ''used'' decode_resource_vector) (\<lambda>used.
     rd_bind (rd_ok ''reserved'' decode_resource_vector) (\<lambda>reserved.
     rd_bind (rd_ok ''reclaimable'' decode_resource_vector) (\<lambda>reclaimable.
     rd_bind (rd_req ''caps'' decode_capabilities) (\<lambda>capabilities.
     rd_bind (rd_val get_flag) (\<lambda>healthy.
     rd_bind (rd_req ''hints'' get_stringvec) (\<lambda>model_residency_hints.
     rd_bind (rd_req ''hints'' get_stringvec) (\<lambda>transfer_path_hints.
     rd_bind (rd_val (get_levels pressure_of_byte)) (\<lambda>pressure.
     rd_bind (rd_val (get_levels provenance_of_byte)) (\<lambda>provenance.
     rd_done (
       \<lparr>snap_generation = generation, snap_timestamp = timestamp, snap_agent_id = agent_id,
        snap_boot_id = boot_id, snap_node_name = node_name, snap_device_index = device_index,
        snap_device_name = device_name, snap_total = total, snap_used = used, snap_reserved = reserved,
        snap_reclaimable = reclaimable, snap_capabilities = capabilities, snap_healthy = healthy,
        snap_model_residency_hints = model_residency_hints, snap_transfer_path_hints = transfer_path_hints,
        snap_pressure = pressure, snap_provenance = provenance\<rparr>))))))))))))))))))"

section \<open>Reservations\<close>

text \<open>The one decoder that checks an enumeration: \<open>o.status > ReservationStatus::RolledBack\<close> compares the bytes.\<close>

definition encode_reservation :: "ResourceReservation \<Rightarrow> bytes" where
  "encode_reservation r =
     put_id (rsv_id r) @ put_id (rsv_owner r) @ encode_resource_vector (rsv_demand r) @
     encode_timepoint (rsv_created_at r) @ encode_timepoint (rsv_expires_at r) @
     put_opt put_id (rsv_admission_request_id r) @ put_opt put_id (rsv_admission_generation r) @
     put_enum rstatus_byte (rsv_status r) @ put_u64 (rsv_generation r)"

definition decode_reservation :: "ResourceReservation decoder" where
  "decode_reservation =
     rd_bind (rd_val get_id) (\<lambda>ident.
     rd_bind (rd_val get_id) (\<lambda>owner.
     rd_bind (rd_ok ''res demand'' decode_resource_vector) (\<lambda>demand.
     rd_bind (rd_ok ''res created'' decode_timepoint) (\<lambda>created_at.
     rd_bind (rd_ok ''res expires'' decode_timepoint) (\<lambda>expires_at.
     rd_bind (rd_opt (rd_val get_id)) (\<lambda>admission_request_id.
     rd_bind (rd_opt (rd_val get_id)) (\<lambda>admission_generation.
     rd_bind (rd_val (get_enum rstatus_of_byte)) (\<lambda>status.
     rd_bind (rd_val get_u64) (\<lambda>generation.
     rd_check (rstatus_byte status > rstatus_byte ReservationStatus_RolledBack) ''bad reservation status'' (
     rd_done (
       \<lparr>rsv_id = ident, rsv_owner = owner, rsv_demand = demand, rsv_created_at = created_at,
        rsv_expires_at = expires_at, rsv_admission_request_id = admission_request_id,
        rsv_admission_generation = admission_generation, rsv_status = status, rsv_generation = generation\<rparr>
       )))))))))))"

section \<open>Policies\<close>

text \<open>An override inside a policy, then the policy; the overrides are counted and the count is bounded.\<close>

definition encode_override :: "PolicyOverride \<Rightarrow> bytes" where
  "encode_override v =
     put_string (po_key v) @ put_opt put_f64 (po_safety_headroom_ratio v) @
     put_opt (put_enum overcommit_byte) (po_overcommit_mode v) @
     put_opt encode_resource_vector (po_overcommit_allowance v) @
     put_opt put_f64 (po_min_predictor_confidence v) @ put_opt put_flag (po_admit_slo_risk v) @
     put_opt put_flag (po_require_reservation v) @ put_opt put_f64 (po_small_request_boost v)"

definition decode_override :: "PolicyOverride decoder" where
  "decode_override =
     rd_bind (rd_req ''override key'' get_string) (\<lambda>key.
     rd_bind (rd_opt (rd_val get_f64)) (\<lambda>safety_headroom_ratio.
     rd_bind (rd_opt (rd_val (get_enum overcommit_of_byte))) (\<lambda>overcommit_mode.
     rd_bind (rd_opt (rd_ok ''override rv'' decode_resource_vector)) (\<lambda>overcommit_allowance.
     rd_bind (rd_opt (rd_val get_f64)) (\<lambda>min_predictor_confidence.
     rd_bind (rd_opt (rd_val get_flag)) (\<lambda>admit_slo_risk.
     rd_bind (rd_opt (rd_val get_flag)) (\<lambda>require_reservation.
     rd_bind (rd_opt (rd_val get_f64)) (\<lambda>small_request_boost.
     rd_return (
       \<lparr>po_key = key, po_safety_headroom_ratio = safety_headroom_ratio,
        po_overcommit_mode = overcommit_mode, po_overcommit_allowance = overcommit_allowance,
        po_min_predictor_confidence = min_predictor_confidence, po_admit_slo_risk = admit_slo_risk,
        po_require_reservation = require_reservation, po_small_request_boost = small_request_boost\<rparr>)))))))))"

definition encode_policy :: "AdmissionPolicy \<Rightarrow> bytes" where
  "encode_policy p =
     put_id (p_generation p) @ put_string (p_name p) @ put_f64 (p_safety_headroom_ratio p) @
     encode_resource_vector (p_absolute_safety_margin p) @ put_enum overcommit_byte (p_overcommit p) @
     encode_resource_vector (p_overcommit_allowance p) @ put_f64 (p_overcommit_confidence_min p) @
     put_f64 (p_min_predictor_confidence p) @ put_i64 (p_max_snapshot_age p) @
     put_flag (p_accept_stale_snapshot p) @ put_flag (p_quota_fail_closed p) @
     put_flag (p_admit_slo_feasible_with_risk p) @ put_flag (p_require_reservation p) @
     put_i64 (p_max_reservation_lifetime p) @ put_i64 (p_default_admission_ttl p) @
     put_u32 (p_max_deferrals p) @ put_i64 (p_defer_min_backoff p) @ put_i64 (p_defer_max_wait p) @
     put_f64 (p_small_request_priority_boost p) @ put_f64 (p_large_request_starvation_boost p) @
     put_u32 (p_fairness_window p) @
     put_u32 (of_nat (length (p_overrides p))) @ concat (map encode_override (p_overrides p))"

definition decode_policy :: "AdmissionPolicy decoder" where
  "decode_policy =
     rd_bind (rd_val get_id) (\<lambda>generation.
     rd_bind (rd_req ''policy name'' get_string) (\<lambda>name.
     rd_bind (rd_val get_f64) (\<lambda>safety_headroom_ratio.
     rd_bind (rd_ok ''policy margin'' decode_resource_vector) (\<lambda>absolute_safety_margin.
     rd_bind (rd_val (get_enum overcommit_of_byte)) (\<lambda>overcommit.
     rd_bind (rd_ok ''policy oc'' decode_resource_vector) (\<lambda>overcommit_allowance.
     rd_bind (rd_val get_f64) (\<lambda>overcommit_confidence_min.
     rd_bind (rd_val get_f64) (\<lambda>min_predictor_confidence.
     rd_bind (rd_val get_i64) (\<lambda>max_snapshot_age.
     rd_bind (rd_val get_flag) (\<lambda>accept_stale_snapshot.
     rd_bind (rd_val get_flag) (\<lambda>quota_fail_closed.
     rd_bind (rd_val get_flag) (\<lambda>admit_slo_feasible_with_risk.
     rd_bind (rd_val get_flag) (\<lambda>require_reservation.
     rd_bind (rd_val get_i64) (\<lambda>max_reservation_lifetime.
     rd_bind (rd_val get_i64) (\<lambda>default_admission_ttl.
     rd_bind (rd_val get_u32) (\<lambda>max_deferrals.
     rd_bind (rd_val get_i64) (\<lambda>defer_min_backoff.
     rd_bind (rd_val get_i64) (\<lambda>defer_max_wait.
     rd_bind (rd_val get_f64) (\<lambda>small_request_priority_boost.
     rd_bind (rd_val get_f64) (\<lambda>large_request_starvation_boost.
     rd_bind (rd_val get_u32) (\<lambda>fairness_window.
     rd_bind (rd_val get_u32) (\<lambda>n.
     rd_check (n > push_bit 16 1) ''policy override count'' (
     rd_bind (rd_times (unat n) decode_override) (\<lambda>overrides.
     rd_done (
       \<lparr>p_generation = generation, p_name = name, p_safety_headroom_ratio = safety_headroom_ratio,
        p_absolute_safety_margin = absolute_safety_margin, p_overcommit = overcommit,
        p_overcommit_allowance = overcommit_allowance, p_overcommit_confidence_min = overcommit_confidence_min,
        p_min_predictor_confidence = min_predictor_confidence, p_max_snapshot_age = max_snapshot_age,
        p_accept_stale_snapshot = accept_stale_snapshot, p_quota_fail_closed = quota_fail_closed,
        p_admit_slo_feasible_with_risk = admit_slo_feasible_with_risk,
        p_require_reservation = require_reservation, p_max_reservation_lifetime = max_reservation_lifetime,
        p_default_admission_ttl = default_admission_ttl, p_max_deferrals = max_deferrals,
        p_defer_min_backoff = defer_min_backoff, p_defer_max_wait = defer_max_wait,
        p_small_request_priority_boost = small_request_priority_boost,
        p_large_request_starvation_boost = large_request_starvation_boost, p_fairness_window = fairness_window,
        p_overrides = overrides\<rparr>)))))))))))))))))))))))))"

section \<open>Quotas\<close>

definition encode_quota :: "QuotaSnapshot \<Rightarrow> bytes" where
  "encode_quota q =
     put_flag (q_present q) @ put_u64 (q_generation q) @ put_string (q_source_authority q) @
     encode_timepoint (q_timestamp q) @ put_flag (q_stale q) @ encode_resource_vector (q_limits q) @
     encode_resource_vector (q_used q) @ encode_resource_vector (q_reserved q) @ put_u64 (q_token_budget q) @
     put_u32 (q_max_concurrent_requests q) @ put_u32 (q_max_sequences q) @ put_i64 (q_compute_time_allowance q)"

definition decode_quota :: "QuotaSnapshot decoder" where
  "decode_quota =
     rd_bind (rd_val get_flag) (\<lambda>present.
     rd_bind (rd_val get_u64) (\<lambda>generation.
     rd_bind (rd_req ''quota source'' get_string) (\<lambda>source_authority.
     rd_bind (rd_ok ''quota ts'' decode_timepoint) (\<lambda>timestamp.
     rd_bind (rd_val get_flag) (\<lambda>stale.
     rd_bind (rd_ok ''quota vectors'' decode_resource_vector) (\<lambda>limits.
     rd_bind (rd_ok ''quota vectors'' decode_resource_vector) (\<lambda>used.
     rd_bind (rd_ok ''quota vectors'' decode_resource_vector) (\<lambda>reserved.
     rd_bind (rd_val get_u64) (\<lambda>token_budget.
     rd_bind (rd_val get_u32) (\<lambda>max_concurrent_requests.
     rd_bind (rd_val get_u32) (\<lambda>max_sequences.
     rd_bind (rd_val get_i64) (\<lambda>compute_time_allowance.
     rd_done (
       \<lparr>q_present = present, q_generation = generation, q_source_authority = source_authority,
        q_timestamp = timestamp, q_stale = stale, q_limits = limits, q_used = used, q_reserved = reserved,
        q_token_budget = token_budget, q_max_concurrent_requests = max_concurrent_requests,
        q_max_sequences = max_sequences, q_compute_time_allowance = compute_time_allowance\<rparr>)))))))))))))"

section \<open>Observations\<close>

definition encode_observation :: "Observation \<Rightarrow> bytes" where
  "encode_observation ob =
     put_id (o_id ob) @ put_id (o_admission_request_id ob) @ put_id (o_tenant_id ob) @ put_id (o_model_id ob) @
     put_id (o_model_revision ob) @ put_string (o_backend ob) @ put_string (o_dtype ob) @
     put_string (o_quantization ob) @ put_enum workload_byte (o_workload_type ob) @ put_u64 (o_peak_vram ob) @
     put_u64 (o_host_memory ob) @ put_u64 (o_pinned_memory ob) @ put_u64 (o_kv_growth ob) @
     put_u64 (o_transfer_bytes ob) @ put_i64 (o_execution_duration ob) @ put_u64 (o_input_tokens ob) @
     put_u64 (o_output_tokens ob) @ encode_timepoint (o_completed_at ob) @ put_enum okind_byte (o_kind ob)"

definition decode_observation :: "Observation decoder" where
  "decode_observation =
     rd_bind (rd_val get_id) (\<lambda>ident.
     rd_bind (rd_val get_id) (\<lambda>admission_request_id.
     rd_bind (rd_val get_id) (\<lambda>tenant_id.
     rd_bind (rd_val get_id) (\<lambda>model_id.
     rd_bind (rd_val get_id) (\<lambda>model_revision.
     rd_bind (rd_req ''obs strings'' get_string) (\<lambda>backend.
     rd_bind (rd_req ''obs strings'' get_string) (\<lambda>dtype.
     rd_bind (rd_req ''obs strings'' get_string) (\<lambda>quantization.
     rd_bind (rd_val (get_enum workload_of_byte)) (\<lambda>workload_type.
     rd_bind (rd_val get_u64) (\<lambda>peak_vram.
     rd_bind (rd_val get_u64) (\<lambda>host_memory.
     rd_bind (rd_val get_u64) (\<lambda>pinned_memory.
     rd_bind (rd_val get_u64) (\<lambda>kv_growth.
     rd_bind (rd_val get_u64) (\<lambda>transfer_bytes.
     rd_bind (rd_val get_i64) (\<lambda>execution_duration.
     rd_bind (rd_val get_u64) (\<lambda>input_tokens.
     rd_bind (rd_val get_u64) (\<lambda>output_tokens.
     rd_bind (rd_ok ''obs ts'' decode_timepoint) (\<lambda>completed_at.
     rd_bind (rd_val (get_enum okind_of_byte)) (\<lambda>kind.
     rd_done (
       \<lparr>o_id = ident, o_admission_request_id = admission_request_id, o_tenant_id = tenant_id,
        o_model_id = model_id, o_model_revision = model_revision, o_backend = backend, o_dtype = dtype,
        o_quantization = quantization, o_workload_type = workload_type, o_peak_vram = peak_vram,
        o_host_memory = host_memory, o_pinned_memory = pinned_memory, o_kv_growth = kv_growth,
        o_transfer_bytes = transfer_bytes, o_execution_duration = execution_duration,
        o_input_tokens = input_tokens, o_output_tokens = output_tokens, o_completed_at = completed_at,
        o_kind = kind\<rparr>))))))))))))))))))))"

section \<open>Decisions\<close>

text \<open>Only the fields that carry authority are written; the decoder leaves the others at their defaults.\<close>

definition encode_decision :: "AdmissionDecision \<Rightarrow> bytes" where
  "encode_decision d =
     put_id (dec_admission_request_id d) @ put_id (dec_request_id d) @ put_id (dec_attempt_id d) @
     put_id (dec_tenant_id d) @ put_id (dec_model_id d) @ put_id (dec_model_revision d) @
     put_enum outcome_byte (dec_outcome d) @ put_reason (dec_reason d) @ put_id (dec_policy_generation d) @
     put_id (dec_snapshot_generation d) @ put_id (dec_admission_generation d) @ put_id (dec_epoch d) @
     put_f64 (dec_confidence d) @ encode_timepoint (dec_decision_time d) @
     put_opt put_id (dec_reservation_id d) @ encode_resource_vector (req_demand (dec_predicted_requirement d)) @
     put_string (dec_explanation d)"

definition decode_decision :: "AdmissionDecision decoder" where
  "decode_decision =
     rd_bind (rd_val get_id) (\<lambda>admission_request_id.
     rd_bind (rd_val get_id) (\<lambda>request_id.
     rd_bind (rd_val get_id) (\<lambda>attempt_id.
     rd_bind (rd_val get_id) (\<lambda>tenant_id.
     rd_bind (rd_val get_id) (\<lambda>model_id.
     rd_bind (rd_val get_id) (\<lambda>model_revision.
     rd_bind (rd_val (get_enum outcome_of_byte)) (\<lambda>outcome.
     rd_bind (rd_val get_reason) (\<lambda>reason.
     rd_bind (rd_val get_id) (\<lambda>policy_generation.
     rd_bind (rd_val get_id) (\<lambda>snapshot_generation.
     rd_bind (rd_val get_id) (\<lambda>admission_generation.
     rd_bind (rd_val get_id) (\<lambda>epoch.
     rd_bind (rd_val get_f64) (\<lambda>confidence.
     rd_bind (rd_ok ''decision ts'' decode_timepoint) (\<lambda>decision_time.
     rd_bind (rd_opt (rd_val get_id)) (\<lambda>reservation_id.
     rd_bind (rd_ok ''decision req'' decode_resource_vector) (\<lambda>predicted_requirement.
     rd_bind (rd_req ''decision expl'' get_string) (\<lambda>explanation.
     rd_done (
       default_decision\<lparr>dec_admission_request_id := admission_request_id, dec_request_id := request_id,
        dec_attempt_id := attempt_id, dec_tenant_id := tenant_id, dec_model_id := model_id,
        dec_model_revision := model_revision, dec_outcome := outcome, dec_reason := reason,
        dec_policy_generation := policy_generation, dec_snapshot_generation := snapshot_generation,
        dec_admission_generation := admission_generation, dec_epoch := epoch, dec_confidence := confidence,
        dec_decision_time := decision_time, dec_reservation_id := reservation_id,
        dec_predicted_requirement := \<lparr>req_demand = predicted_requirement\<rparr>, dec_explanation := explanation\<rparr>))))))))))))))))))"

section \<open>Prediction profiles\<close>

definition encode_prediction_profile :: "PredictionProfile \<Rightarrow> bytes" where
  "encode_prediction_profile p =
     put_id (pp_model_id p) @ put_id (pp_revision p) @ put_string (pp_backend p) @ put_string (pp_dtype p) @
     put_string (pp_quantization p) @ put_u64 (pp_generation p) @ put_u64 (pp_fixed_base_memory p) @
     put_u64 (pp_per_token_kv_bytes p) @ put_u64 (pp_per_token_tensor_bytes p) @
     put_u64 (pp_per_request_overhead p) @ put_u64 (pp_workspace_bytes p) @ put_u64 (pp_staging_bytes p) @
     put_u64 (pp_pinned_staging_bytes p) @ put_f64 (pp_safety_margin_ratio p) @
     put_f64 (pp_fragmentation_ratio p) @ put_f64 (pp_prefill_tokens_per_sec p) @
     put_f64 (pp_decode_tokens_per_sec p) @ put_u64 (pp_transfer_bytes_per_sequence p) @
     put_f64 (pp_transfer_bytes_per_sec p) @ put_u64 (pp_host_memory_bytes p) @
     put_u64 (pp_pinned_host_memory_bytes p) @ put_u32 (pp_execution_slots_required p) @
     put_u32 (pp_sequence_slots_required p)"

definition decode_prediction_profile :: "PredictionProfile decoder" where
  "decode_prediction_profile =
     rd_bind (rd_val get_id) (\<lambda>model_id.
     rd_bind (rd_val get_id) (\<lambda>revision.
     rd_bind (rd_req ''profile strings'' get_string) (\<lambda>backend.
     rd_bind (rd_req ''profile strings'' get_string) (\<lambda>dtype.
     rd_bind (rd_req ''profile strings'' get_string) (\<lambda>quantization.
     rd_bind (rd_val get_u64) (\<lambda>generation.
     rd_bind (rd_val get_u64) (\<lambda>fixed_base_memory.
     rd_bind (rd_val get_u64) (\<lambda>per_token_kv_bytes.
     rd_bind (rd_val get_u64) (\<lambda>per_token_tensor_bytes.
     rd_bind (rd_val get_u64) (\<lambda>per_request_overhead.
     rd_bind (rd_val get_u64) (\<lambda>workspace_bytes.
     rd_bind (rd_val get_u64) (\<lambda>staging_bytes.
     rd_bind (rd_val get_u64) (\<lambda>pinned_staging_bytes.
     rd_bind (rd_val get_f64) (\<lambda>safety_margin_ratio.
     rd_bind (rd_val get_f64) (\<lambda>fragmentation_ratio.
     rd_bind (rd_val get_f64) (\<lambda>prefill_tokens_per_sec.
     rd_bind (rd_val get_f64) (\<lambda>decode_tokens_per_sec.
     rd_bind (rd_val get_u64) (\<lambda>transfer_bytes_per_sequence.
     rd_bind (rd_val get_f64) (\<lambda>transfer_bytes_per_sec.
     rd_bind (rd_val get_u64) (\<lambda>host_memory_bytes.
     rd_bind (rd_val get_u64) (\<lambda>pinned_host_memory_bytes.
     rd_bind (rd_val get_u32) (\<lambda>execution_slots_required.
     rd_bind (rd_val get_u32) (\<lambda>sequence_slots_required.
     rd_done (
       \<lparr>pp_model_id = model_id, pp_revision = revision, pp_backend = backend, pp_dtype = dtype,
        pp_quantization = quantization, pp_generation = generation, pp_fixed_base_memory = fixed_base_memory,
        pp_per_token_kv_bytes = per_token_kv_bytes, pp_per_token_tensor_bytes = per_token_tensor_bytes,
        pp_per_request_overhead = per_request_overhead, pp_workspace_bytes = workspace_bytes,
        pp_staging_bytes = staging_bytes, pp_pinned_staging_bytes = pinned_staging_bytes,
        pp_safety_margin_ratio = safety_margin_ratio, pp_fragmentation_ratio = fragmentation_ratio,
        pp_prefill_tokens_per_sec = prefill_tokens_per_sec, pp_decode_tokens_per_sec = decode_tokens_per_sec,
        pp_transfer_bytes_per_sequence = transfer_bytes_per_sequence,
        pp_transfer_bytes_per_sec = transfer_bytes_per_sec, pp_host_memory_bytes = host_memory_bytes,
        pp_pinned_host_memory_bytes = pinned_host_memory_bytes,
        pp_execution_slots_required = execution_slots_required,
        pp_sequence_slots_required = sequence_slots_required\<rparr>))))))))))))))))))))))))"

end
