(* ===== verification/Reading.thy ===== *)
theory Reading
  imports Serialize_Spec
begin

text \<open>
  What the reader promises its callers, as two laws that every decoder built from it inherits: \<open>reads\<close>, it takes
  exactly the bytes a writer appended and returns the value written; \<open>scans\<close>, on any bytes at all it stays
  inside the buffer, never clears a failure, and a read that did not fail saw only the bytes it took. The locales
  \<open>wire_reader\<close> and \<open>wire_format\<close> draw the consequences once for every encoder and decoder pair.
\<close>

unbundle bit_operations_syntax

named_theorems reads_intros
named_theorems scans_intros

section \<open>The two laws\<close>

definition reader_at :: "bytes \<Rightarrow> bytes \<Rightarrow> ByteReader" where
  "reader_at pre suf = \<lparr>br_data = pre @ suf, br_pos = length pre, br_failed = False, br_error = []\<rparr>"

definition reads :: "(ByteReader \<Rightarrow> 'a \<times> ByteReader) \<Rightarrow> 'a \<Rightarrow> bytes \<Rightarrow> bool" where
  "reads g x bs \<longleftrightarrow> (\<forall>pre suf. g (reader_at pre (bs @ suf)) = (x, reader_at (pre @ bs) suf))"

definition in_buffer :: "ByteReader \<Rightarrow> bool" where
  "in_buffer r \<longleftrightarrow> br_pos r \<le> length (br_data r)"

definition advances :: "ByteReader \<Rightarrow> ByteReader \<Rightarrow> bool" where
  "advances r r1 \<longleftrightarrow> br_data r1 = br_data r \<and> br_pos r \<le> br_pos r1 \<and> br_pos r1 \<le> length (br_data r)
     \<and> (br_failed r \<longrightarrow> br_failed r1)"

definition same_prefix :: "nat \<Rightarrow> bytes \<Rightarrow> bytes \<Rightarrow> bool" where
  "same_prefix n D E \<longleftrightarrow> n \<le> length D \<and> take n D = take n E"

definition scans :: "(ByteReader \<Rightarrow> 'a \<times> ByteReader) \<Rightarrow> bool" where
  "scans g \<longleftrightarrow> (\<forall>r x r1. in_buffer r \<longrightarrow> g r = (x, r1) \<longrightarrow>
     advances r r1
     \<and> (\<not> br_failed r1 \<longrightarrow> (\<forall>D. same_prefix (br_pos r1) D (br_data r) \<longrightarrow>
          g (r\<lparr>br_data := D\<rparr>) = (x, r1\<lparr>br_data := D\<rparr>))))"

lemma readsI: "(\<And>pre suf. g (reader_at pre (bs @ suf)) = (x, reader_at (pre @ bs) suf)) \<Longrightarrow> reads g x bs"
  by (simp add: reads_def)

lemma reads_apply: "reads g x bs \<Longrightarrow> g (reader_at pre (bs @ suf)) = (x, reader_at (pre @ bs) suf)"
  by (simp add: reads_def)

lemma reader_at_simps [simp]:
  "br_data (reader_at pre suf) = pre @ suf" "br_pos (reader_at pre suf) = length pre"
  "\<not> br_failed (reader_at pre suf)" "br_error (reader_at pre suf) = []"
  "in_buffer (reader_at pre suf)"
  by (simp_all add: reader_at_def in_buffer_def)

lemma byte_reader_at: "byte_reader data = reader_at [] data"
  by (simp add: byte_reader_def reader_at_def)

lemma advances_refl [simp]: "in_buffer r \<Longrightarrow> advances r r"
  by (simp add: advances_def in_buffer_def)

lemma advances_trans: "advances r r1 \<Longrightarrow> advances r1 r2 \<Longrightarrow> advances r r2"
  by (auto simp: advances_def)

lemma advances_in_buffer: "advances r r1 \<Longrightarrow> in_buffer r1"
  by (simp add: advances_def in_buffer_def)

lemma same_prefix_le: "same_prefix n D E \<Longrightarrow> m \<le> n \<Longrightarrow> same_prefix m D E"
  by (auto simp: same_prefix_def) (metis min.absorb1 take_take)

lemma scansI:
  assumes "\<And>r x r1. in_buffer r \<Longrightarrow> g r = (x, r1) \<Longrightarrow> advances r r1"
    and "\<And>r x r1 D. in_buffer r \<Longrightarrow> g r = (x, r1) \<Longrightarrow> \<not> br_failed r1
      \<Longrightarrow> same_prefix (br_pos r1) D (br_data r) \<Longrightarrow> g (r\<lparr>br_data := D\<rparr>) = (x, r1\<lparr>br_data := D\<rparr>)"
  shows "scans g"
  using assms unfolding scans_def by blast

lemma scansD:
  assumes "scans g" "in_buffer r" "g r = (x, r1)"
  shows "advances r r1"
    and "\<lbrakk>\<not> br_failed r1; same_prefix (br_pos r1) D (br_data r)\<rbrakk> \<Longrightarrow> g (r\<lparr>br_data := D\<rparr>) = (x, r1\<lparr>br_data := D\<rparr>)"
  using assms unfolding scans_def by blast+

text \<open>Both laws are closed under feeding one read into the next.\<close>

lemma reads_then:
  assumes "reads g x bs" "reads (f x) y cs"
  shows "reads (\<lambda>r. case g r of (x, r1) \<Rightarrow> f x r1) y (bs @ cs)"
proof (rule readsI)
  fix pre suf
  show "(case g (reader_at pre ((bs @ cs) @ suf)) of (x, r1) \<Rightarrow> f x r1) = (y, reader_at (pre @ bs @ cs) suf)"
    using reads_apply [OF assms(1), of pre "cs @ suf"] reads_apply [OF assms(2), of "pre @ bs" suf] by simp
qed

lemma reads_pure [reads_intros]: "reads (\<lambda>r. (x, r)) x []"
  by (simp add: reads_def)

lemma scans_then:
  assumes g: "scans g" and f: "\<And>x. scans (f x)"
  shows "scans (\<lambda>r. case g r of (x, r1) \<Rightarrow> f x r1)"
proof (rule scansI)
  fix r y r2 assume r: "in_buffer r" and run: "(case g r of (x, r1) \<Rightarrow> f x r1) = (y, r2)"
  obtain x r1 where step: "g r = (x, r1)" "f x r1 = (y, r2)" using run by (cases "g r") auto
  have adv: "advances r r1" "advances r1 r2"
    using scansD(1) [OF g r step(1)] scansD(1) [OF f advances_in_buffer step(2)] by blast+
  then show "advances r r2" by (rule advances_trans)
  fix D assume ok: "\<not> br_failed r2" and same: "same_prefix (br_pos r2) D (br_data r)"
  have "\<not> br_failed r1" "br_data r1 = br_data r" "br_pos r1 \<le> br_pos r2"
    using adv ok by (auto simp: advances_def)
  then show "(case g (r\<lparr>br_data := D\<rparr>) of (x, r1) \<Rightarrow> f x r1) = (y, r2\<lparr>br_data := D\<rparr>)"
    using scansD(2) [OF g r step(1) _ same_prefix_le [OF same]]
      scansD(2) [OF f advances_in_buffer [OF adv(1)] step(2) ok] same by simp
qed

lemma scans_pure [scans_intros]: "scans (\<lambda>r. (x, r))"
  by (auto intro!: scansI)

section \<open>The primitive reads\<close>

lemma in_buffer_fail [simp]:
  "in_buffer (br_fail e r) = in_buffer r" "br_failed (br_fail e r)" "br_data (br_fail e r) = br_data r"
  "br_pos (br_fail e r) = br_pos r"
  by (auto simp: br_fail_def in_buffer_def)

lemma advances_fail [simp]: "in_buffer r \<Longrightarrow> advances r (br_fail e r)"
  by (simp add: advances_def in_buffer_def)

lemma br_need_cases:
  assumes "in_buffer r"
  obtains (refused) "br_failed (br_need n r)" "advances r (br_need n r)"
  | (granted) "\<not> br_failed r" "br_need n r = r" "br_pos r + n \<le> length (br_data r)"
proof (cases "br_failed r \<or> n > length (br_data r) - br_pos r")
  case True
  then have "br_failed (br_need n r)" "advances r (br_need n r)" using assms by (auto simp: br_need_def)
  then show thesis by (rule refused)
next
  case False
  then show thesis using assms by (intro granted) (auto simp: br_need_def in_buffer_def)
qed

lemma br_need_with:
  "\<not> br_failed r \<Longrightarrow> br_pos r + n \<le> length D \<Longrightarrow> br_need n (r\<lparr>br_data := D\<rparr>) = r\<lparr>br_data := D\<rparr>"
  by (auto simp: br_need_def)

lemma same_prefix_nth: "same_prefix n D E \<Longrightarrow> i < n \<Longrightarrow> D ! i = E ! i"
  unfolding same_prefix_def by (metis nth_take)

lemma same_prefix_slice: "same_prefix (i + n) D E \<Longrightarrow> take n (drop i D) = take n (drop i E)"
  unfolding same_prefix_def by (metis take_drop add.commute)

lemma scans_u8 [scans_intros]: "scans get_u8"
proof (rule scansI)
  fix r x r1 assume r: "in_buffer r" and run: "get_u8 r = (x, r1)"
  show "advances r r1"
    using r run by (cases rule: br_need_cases [of r 1]) (auto simp: get_u8_def Let_def advances_def)
  fix D assume ok: "\<not> br_failed r1" and same: "same_prefix (br_pos r1) D (br_data r)"
  from r ok run have g: "\<not> br_failed r" "br_need 1 r = r" "x = br_data r ! br_pos r"
      "r1 = r\<lparr>br_pos := br_pos r + 1\<rparr>"
    by (cases rule: br_need_cases [of r 1]; auto simp: get_u8_def Let_def)+
  then have "br_need 1 (r\<lparr>br_data := D\<rparr>) = r\<lparr>br_data := D\<rparr>"
    using same by (intro br_need_with) (auto simp: same_prefix_def)
  then show "get_u8 (r\<lparr>br_data := D\<rparr>) = (x, r1\<lparr>br_data := D\<rparr>)"
    using g same_prefix_nth [OF same, of "br_pos r"] by (simp add: get_u8_def)
qed

lemma reads_u8 [reads_intros]: "reads get_u8 b [b]"
  by (rule readsI) (simp add: get_u8_def br_need_def reader_at_def nth_append)

lemma get_le_step:
  "get_le i 0 v = (\<lambda>r. (v, r))"
  "get_le i (Suc n) v = (\<lambda>r. case get_u8 r of (b, r1) \<Rightarrow> get_le (i + 1) n (v OR push_bit (8 * i) (ucast b)) r1)"
  by (rule ext, simp)+

lemma scans_le [scans_intros]: "scans (get_le i n v)"
  by (induction n arbitrary: i v) (simp_all only: get_le_step scans_pure scans_then [OF scans_u8])

text \<open>The value a little-endian read leaves, and that it is the value written.\<close>

fun le_or :: "nat \<Rightarrow> bytes \<Rightarrow> 'a::len word \<Rightarrow> 'a word" where
  "le_or i [] v = v"
| "le_or i (b # bs) v = le_or (i + 1) bs (v OR push_bit (8 * i) (ucast b))"

lemma reads_le: "reads (get_le i (length bs) v) (le_or i bs v) bs"
proof (induction bs arbitrary: i v)
  case (Cons b bs)
  show ?case using reads_then [OF reads_u8 [of b] Cons.IH] by (simp add: get_le_step del: get_le.simps)
qed (simp add: get_le_step reads_pure del: get_le.simps)

lemma bit_le_or:
  "bit (le_or i bs v :: 'a::len word) j \<longleftrightarrow>
     bit v j \<or> (j < LENGTH('a) \<and> 8 * i \<le> j \<and> j div 8 - i < length bs \<and> bit (bs ! (j div 8 - i)) (j mod 8))"
proof (induction bs arbitrary: i v)
  case (Cons b bs)
  have at: "bit (push_bit (8 * i) (ucast b :: 'a word)) j
      \<longleftrightarrow> j < LENGTH('a) \<and> 8 * i \<le> j \<and> j div 8 = i \<and> bit b (j mod 8)"
  proof -
    have "bit b (j - 8 * i) \<Longrightarrow> j - 8 * i < 8" by (drule bit_imp_le_length) simp
    moreover have "8 * i \<le> j \<Longrightarrow> j - 8 * i < 8 \<longleftrightarrow> j div 8 = i" by auto
    moreover have "j div 8 = i \<Longrightarrow> j - 8 * i = j mod 8" by (simp add: modulo_nat_def)
    ultimately show ?thesis by (auto simp: bit_simps)
  qed
  show ?case
  proof (cases "j div 8 = i")
    case True
    then have "\<not> 8 * (i + 1) \<le> j" "8 * i \<le> j" by auto
    then show ?thesis using True by (auto simp: Cons.IH bit_or_iff at)
  next
    case False
    then have "8 * (i + 1) \<le> j \<longleftrightarrow> 8 * i \<le> j" by auto
    moreover have "8 * i \<le> j \<Longrightarrow> j div 8 - i = Suc (j div 8 - (i + 1))" using False by auto
    ultimately show ?thesis using False by (auto simp: Cons.IH bit_or_iff at)
  qed
qed simp

lemma length_put_le [simp]: "length (put_le n v) = n"
  by (simp add: put_le_def)

lemma bit_put_le: "k < n \<Longrightarrow> j < 8 \<Longrightarrow> bit (put_le n v ! k) j \<longleftrightarrow> bit v (8 * k + j)"
proof -
  assume "k < n" "j < 8"
  moreover have low: "(0xFF :: 'a::len word) = mask 8" by (simp add: mask_eq_exp_minus_1)
  ultimately show ?thesis unfolding put_le_def low by (auto simp: bit_simps simp del: low dest: bit_imp_le_length)
qed

lemma le_put: "LENGTH('a) \<le> 8 * n \<Longrightarrow> le_or 0 (put_le n v) 0 = (v :: 'a::len word)"
  by (rule bit_word_eqI) (auto simp: bit_le_or bit_put_le)

lemma put_le_or: "8 * length bs \<le> LENGTH('a) \<Longrightarrow> put_le (length bs) (le_or 0 bs 0 :: 'a::len word) = bs"
proof (rule nth_equalityI)
  fix k assume len: "8 * length bs \<le> LENGTH('a)" and k: "k < length (put_le (length bs) (le_or 0 bs 0 :: 'a word))"
  show "put_le (length bs) (le_or 0 bs 0 :: 'a word) ! k = bs ! k"
  proof (rule bit_word_eqI)
    fix j assume "j < LENGTH(8)"
    then show "bit (put_le (length bs) (le_or 0 bs 0 :: 'a word) ! k) j \<longleftrightarrow> bit (bs ! k) j"
      using k len by (simp add: bit_put_le bit_le_or)
  qed
qed simp

lemma get_words_le:
  "get_u16 = get_le 0 2 0" "get_u32 = get_le 0 4 0" "get_u64 = get_le 0 8 0"
  "get_i32 = get_le 0 4 0" "get_i64 = get_le 0 8 0" "get_f64 = get_le 0 8 0"
  by (rule ext, simp add: get_u16_def get_u32_def get_u64_def get_i32_def get_i64_def get_f64_def)+

lemma put_words_le:
  "put_u16 = put_le 2" "put_u32 = put_le 4" "put_u64 = put_le 8" "put_i32 = put_le 4" "put_i64 = put_le 8"
  "put_f64 = put_le 8"
  by (rule ext, simp add: put_u16_def put_u8_def put_le_def numeral_2_eq_2 put_u32_def put_u64_def put_i32_def
      put_i64_def put_f64_def)+

lemma scans_words [scans_intros]:
  "scans get_u16" "scans get_u32" "scans get_u64" "scans get_i32" "scans get_i64" "scans get_f64"
  unfolding get_words_le by (rule scans_le)+

lemma reads_le_put: "LENGTH('a) \<le> 8 * n \<Longrightarrow> reads (get_le 0 n 0) (v :: 'a::len word) (put_le n v)"
  using reads_le [of 0 "put_le n v" "0 :: 'a word"] by (simp add: le_put)

lemma reads_words [reads_intros]:
  "reads get_u16 h (put_u16 h)" "reads get_u32 w (put_u32 w)" "reads get_u64 q (put_u64 q)"
  "reads get_i32 w (put_i32 w)" "reads get_i64 q (put_i64 q)" "reads get_f64 q (put_f64 q)"
  unfolding get_words_le put_words_le by (rule reads_le_put, simp)+

lemma scans_flag [scans_intros]: "scans get_flag"
  unfolding get_flag_def [abs_def] by (intro scans_then scans_u8 scans_pure)

lemma reads_flag [reads_intros]: "reads get_flag b (put_flag b)"
  using reads_apply [OF reads_u8 [of "if b then 1 else 0"]]
  by (intro readsI) (simp add: get_flag_def put_flag_def put_u8_def)

lemma scans_bytes [scans_intros]: "scans (get_bytes n)"
proof (rule scansI)
  fix r x r1 assume r: "in_buffer r" and run: "get_bytes n r = (x, r1)"
  show "advances r r1"
    using r run by (cases rule: br_need_cases [of r n]) (auto simp: get_bytes_def Let_def advances_def)
  fix D assume ok: "\<not> br_failed r1" and same: "same_prefix (br_pos r1) D (br_data r)"
  from r ok run have g: "\<not> br_failed r" "br_need n r = r" "x = Some (take n (drop (br_pos r) (br_data r)))"
      "r1 = r\<lparr>br_pos := br_pos r + n\<rparr>"
    by (cases rule: br_need_cases [of r n]; auto simp: get_bytes_def Let_def)+
  then have "br_need n (r\<lparr>br_data := D\<rparr>) = r\<lparr>br_data := D\<rparr>"
    using same by (intro br_need_with) (auto simp: same_prefix_def)
  then show "get_bytes n (r\<lparr>br_data := D\<rparr>) = (x, r1\<lparr>br_data := D\<rparr>)"
    using g same same_prefix_slice [of "br_pos r" n D "br_data r"] by (simp add: get_bytes_def)
qed

lemma reads_bytes: "reads (get_bytes (length bs)) (Some bs) bs"
  by (rule readsI) (simp add: get_bytes_def br_need_def reader_at_def)

text \<open>A read that refuses leaves the reader failed or untouched; a test on the value may choose to fail it.\<close>

lemma scans_refuse: "scans (\<lambda>r. (x, br_fail e r))"
  by (auto intro!: scansI)

lemma scans_guard [scans_intros]:
  assumes "scans f" "scans g"
  shows "scans (\<lambda>r. if br_failed r \<or> b then f r else g r)"
proof (rule scansI)
  fix r x r1 assume r: "in_buffer r" and run: "(if br_failed r \<or> b then f r else g r) = (x, r1)"
  show adv: "advances r r1" using scansD(1) [OF assms(1) r] scansD(1) [OF assms(2) r] run by (auto split: if_splits)
  fix D assume ok: "\<not> br_failed r1" and same: "same_prefix (br_pos r1) D (br_data r)"
  have "\<not> br_failed r" using adv ok by (auto simp: advances_def)
  then show "(if br_failed (r\<lparr>br_data := D\<rparr>) \<or> b then f (r\<lparr>br_data := D\<rparr>) else g (r\<lparr>br_data := D\<rparr>))
      = (x, r1\<lparr>br_data := D\<rparr>)"
    using scansD(2) [OF assms(1) r _ ok same] scansD(2) [OF assms(2) r _ ok same] run by (auto split: if_splits)
qed

lemma char_byte [simp]: "char_of_byte (byte_of_char c) = c" "byte_of_char (char_of_byte b) = b"
proof -
  have "(of_char c :: nat) < 256" by (metis nat_of_char_less_256)
  then have "unat (of_nat (of_char c) :: u8) = of_char c" by (simp add: unat_of_nat)
  then show "char_of_byte (byte_of_char c) = c" by (simp add: char_of_byte_def byte_of_char_def)
  have "unat b < 2 ^ LENGTH(8)" by (rule unsigned_less)
  then show "byte_of_char (char_of_byte b) = b"
    by (simp add: char_of_byte_def byte_of_char_def of_char_of)
qed

lemma scans_option [scans_intros]:
  "scans f \<Longrightarrow> (\<And>y. scans (g y)) \<Longrightarrow> scans (\<lambda>r. case x of None \<Rightarrow> f r | Some y \<Rightarrow> g y r)"
  by (cases x) simp_all

lemma scans_string [scans_intros]: "scans get_string"
  unfolding get_string_def [abs_def]
  by (intro scans_then scans_words scans_guard scans_refuse scans_bytes scans_option scans_pure)

lemma reads_string: "length s \<le> 64 * 1024 * 1024 \<Longrightarrow> reads get_string (Some s) (put_string s)"
proof (rule readsI)
  fix pre suf assume len: "length s \<le> 64 * 1024 * 1024"
  then have n: "unat (of_nat (length s) :: u32) = length s" by (simp add: unat_of_nat)
  then have "\<not> of_nat (length s) > kMaxLen" using len by (simp add: kMaxLen_def word_less_nat_alt)
  then show "get_string (reader_at pre (put_string s @ suf)) = (Some s, reader_at (pre @ put_string s) suf)"
    using reads_apply [OF reads_words(2)] reads_apply [OF reads_bytes [of "map byte_of_char s"]] n
    by (simp add: get_string_def put_string_def put_raw_def comp_def)
qed

text \<open>Repeated reads, and what each of them needs of its own value.\<close>

lemma get_u64s_step:
  "get_u64s 0 = (\<lambda>r. if br_failed r \<or> False then (None, r) else (Some [], r))"
  "get_u64s (Suc n) = (\<lambda>r. if br_failed r \<or> False then (None, r)
      else case get_u64 r of (x, r1) \<Rightarrow> case get_u64s n r1 of (xs, r2) \<Rightarrow> (map_option ((#) x) xs, r2))"
  by (rule ext, simp)+

lemma scans_u64s [scans_intros]: "scans (get_u64s n)"
  by (induction n) (simp_all only: get_u64s_step, (intro scans_guard scans_then scans_words scans_pure; assumption?)+)

lemma reads_u64s: "reads (get_u64s (length v)) (Some v) (concat (map put_u64 v))"
proof (induction v)
  case (Cons x v)
  then show ?case using reads_apply [OF reads_words(3)] reads_apply [OF Cons.IH] by (intro readsI) simp
qed (simp add: reads_def)

lemma get_strings_step:
  "get_strings 0 = (\<lambda>r. if br_failed r \<or> False then (None, r) else (Some [], r))"
  "get_strings (Suc n) = (\<lambda>r. case get_string r of (x, r1) \<Rightarrow> (case x of None \<Rightarrow> (None, r1)
      | Some s \<Rightarrow> (case get_strings n r1 of (xs, r2) \<Rightarrow> (map_option ((#) s) xs, r2))))"
  by (rule ext, simp split: prod.split option.split)+

lemma scans_strings [scans_intros]: "scans (get_strings n)"
  by (induction n) (simp_all only: get_strings_step,
      (intro scans_guard scans_then scans_string scans_option scans_pure; assumption?)+)

lemma reads_strings:
  "\<forall>s \<in> set v. length s \<le> 64 * 1024 * 1024 \<Longrightarrow> reads (get_strings (length v)) (Some v) (concat (map put_string v))"
proof (induction v)
  case (Cons s v)
  then show ?case using reads_apply [OF reads_string [of s]] reads_apply [OF Cons.IH] by (intro readsI) simp
qed (simp add: reads_def)

lemma scans_vectors [scans_intros]: "scans get_u64vec" "scans get_stringvec"
  unfolding get_u64vec_def [abs_def] get_stringvec_def [abs_def]
  by (intro scans_then scans_words scans_guard scans_refuse scans_u64s scans_strings)+

lemma count_read:
  "n \<le> 1048576 \<Longrightarrow> unat (of_nat n :: u32) = n \<and> \<not> of_nat n > kMaxCount"
  by (simp add: kMaxCount_def word_less_nat_alt unat_of_nat)

lemma reads_u64vec: "length v \<le> 1048576 \<Longrightarrow> reads get_u64vec (Some v) (put_u64vec v)"
  using reads_apply [OF reads_words(2)] reads_apply [OF reads_u64s [of v]] count_read
  by (intro readsI) (simp add: get_u64vec_def put_u64vec_def)

lemma reads_stringvec:
  "length v \<le> 1048576 \<Longrightarrow> \<forall>s \<in> set v. length s \<le> 64 * 1024 * 1024
   \<Longrightarrow> reads get_stringvec (Some v) (put_stringvec v)"
  using reads_apply [OF reads_words(2)] reads_apply [OF reads_strings [of v]] count_read
  by (intro readsI) (simp add: get_stringvec_def put_stringvec_def)

section \<open>Encoders and decoders as a pair\<close>

text \<open>A decoder that inverts an encoder on its valid values and obeys the scanning law.\<close>

locale wire_reader =
  fixes put :: "'a \<Rightarrow> bytes"
    and get :: "ByteReader \<Rightarrow> 'b \<times> ByteReader"
    and result :: "'a \<Rightarrow> 'b"
    and valid :: "'a \<Rightarrow> bool"
  assumes reads_put: "valid x \<Longrightarrow> reads get (result x) (put x)"
    and scans_get: "scans get"
begin

lemma decode_encoded:
  "valid x \<Longrightarrow> get (byte_reader (put x @ rest)) = (result x, reader_at (put x) rest)"
  using reads_apply [OF reads_put, of x "[]" rest] by (simp add: byte_reader_at)

text \<open>A strict prefix of an encoding never decodes: the reader fails.\<close>

lemma truncated_fails:
  assumes x: "valid x" and k: "k < length (put x)"
  shows "br_failed (snd (get (byte_reader (take k (put x)))))"
proof (rule ccontr)
  assume ok: "\<not> br_failed (snd (get (byte_reader (take k (put x)))))"
  obtain y r1 where run: "get (byte_reader (take k (put x))) = (y, r1)" by (cases "get (byte_reader (take k (put x)))")
  have "in_buffer (byte_reader (take k (put x)))" by (simp add: byte_reader_at)
  note at = scansD [OF scans_get this run]
  have "advances (byte_reader (take k (put x))) r1" by (rule at(1))
  then have pos: "br_pos r1 \<le> k" by (simp add: advances_def byte_reader_def)
  then have "same_prefix (br_pos r1) (put x) (br_data (byte_reader (take k (put x))))"
    using k by (simp add: same_prefix_def byte_reader_def min_def)
  then have "get (byte_reader (take k (put x))\<lparr>br_data := put x\<rparr>) = (y, r1\<lparr>br_data := put x\<rparr>)"
    using at(2) ok run by simp
  moreover have "byte_reader (take k (put x))\<lparr>br_data := put x\<rparr> = byte_reader (put x)"
    by (simp add: byte_reader_def)
  ultimately have "br_pos r1 = length (put x)"
    using decode_encoded [OF x, of "[]"] by (auto dest: arg_cong [of _ _ br_pos])
  then show False using pos k by simp
qed

text \<open>Hostile bytes never take the reader out of its buffer.\<close>

lemma stays_in_buffer: "br_pos (snd (get (byte_reader bs))) \<le> length bs"
  using scansD(1) [OF scans_get, of "byte_reader bs"]
  by (cases "get (byte_reader bs)") (simp add: advances_def byte_reader_def in_buffer_def)

end

text \<open>Where the decoded value is the value encoded, the encodings are prefix-free.\<close>

locale wire_format = wire_reader put get result valid
  for put :: "'a \<Rightarrow> bytes" and get :: "ByteReader \<Rightarrow> 'b \<times> ByteReader" and result :: "'a \<Rightarrow> 'b" and valid :: "'a \<Rightarrow> bool" +
  assumes result_inj: "result x = result y \<Longrightarrow> x = y"
begin

lemma encoding_prefix_free:
  assumes "valid x" "valid y" "put x @ s = put y @ t"
  shows "x = y \<and> s = t"
  using decode_encoded [OF assms(1), of s] decode_encoded [OF assms(2), of t] assms(3)
  by (auto dest: result_inj)

end

interpretation u64_wire: wire_format put_u64 get_u64 "\<lambda>v. v" "\<lambda>v. True"
  by unfold_locales (simp_all add: reads_words scans_words)

interpretation string_wire: wire_format put_string get_string Some "\<lambda>s. length s \<le> 64 * 1024 * 1024"
  by unfold_locales (simp_all add: reads_string scans_string)

interpretation u64vec_wire: wire_format put_u64vec get_u64vec Some "\<lambda>v. length v \<le> 1048576"
  by unfold_locales (simp_all add: reads_u64vec scans_vectors)

interpretation stringvec_wire: wire_format put_stringvec get_stringvec Some
    "\<lambda>v. length v \<le> 1048576 \<and> (\<forall>s \<in> set v. length s \<le> 64 * 1024 * 1024)"
  by unfold_locales (simp_all add: reads_stringvec scans_vectors)

end
