(* ===== verification/Frames.thy ===== *)
theory Frames
  imports Reading
begin

text \<open>
  The frame around a persisted payload: \<open>parse_frame\<close> accepts exactly the bytes \<open>frame\<close> produces, and refuses
  a frame in which any one byte was changed.
\<close>

unbundle bit_operations_syntax

definition trailer :: "u32 \<Rightarrow> u32 \<Rightarrow> bytes \<Rightarrow> bytes" where
  "trailer magic version p = put_u32 magic @ put_u32 version @ put_u32 (of_nat (length p)) @ put_u32 (crc32 p)"

lemma length_words [simp]: "length (put_u32 w) = 4" "length (put_u64 q) = 8" "length (put_u16 h) = 2"
  by (simp_all add: put_words_le)

lemma frame_trailer: "frame m v p = p @ trailer m v p" and length_trailer [simp]: "length (trailer m v p) = 16"
  by (simp_all add: frame_def trailer_def)

lemma put_u32_inj: "put_u32 a = put_u32 b \<longleftrightarrow> a = b"
proof -
  have "le_or 0 (put_u32 w) 0 = w" for w :: u32 by (simp add: put_words_le le_put)
  then show ?thesis by metis
qed

lemma word_bytes: "length bs = 4 \<Longrightarrow> reads get_u32 (le_or 0 bs 0) bs \<and> put_u32 (le_or 0 bs 0) = bs"
  using reads_le [of 0 bs "0 :: u32"] put_le_or [of bs, where 'a = 32] by (simp add: get_words_le put_words_le)

lemma four_words:
  assumes "length t = 16"
  obtains a b c d where "t = put_u32 a @ put_u32 b @ put_u32 c @ put_u32 d"
proof -
  let ?w = "\<lambda>k. take 4 (drop k t)"
  have w: "put_u32 (le_or 0 (?w k) 0) = ?w k" if "k + 4 \<le> 16" for k
    using word_bytes [of "?w k"] assms that by simp
  have "drop k t = ?w k @ drop (k + 4) t" for k
    by (metis append_take_drop_id drop_drop add.commute)
  from this [of 0] this [of 4] this [of 8] this [of 12] have "t = ?w 0 @ ?w 4 @ ?w 8 @ ?w 12"
    using assms by simp
  then have "t = put_u32 (le_or 0 (?w 0) 0) @ put_u32 (le_or 0 (?w 4) 0) @ put_u32 (le_or 0 (?w 8) 0)
      @ put_u32 (le_or 0 (?w 12) 0)"
    using w [of 0] w [of 4] w [of 8] w [of 12] by simp
  then show thesis by (rule that)
qed

lemma read_four_words:
  "get_u32 (reader_at pre (put_u32 a @ rest)) = (a, reader_at (pre @ put_u32 a) rest)"
  by (rule reads_apply [OF reads_words(2)])

lemma parse_words:
  "parse_frame (p @ put_u32 a @ put_u32 b @ put_u32 c @ put_u32 d) m v =
     (if a \<noteq> m then Inl ''bad magic'' else if b \<noteq> v then Inl ''bad version''
      else if unat c \<noteq> length p then Inl ''length mismatch''
      else if crc32 p \<noteq> d then Inl ''checksum mismatch'' else Inr p)"
  using read_four_words [of "[]"] read_four_words [of _ d "[]"]
  by (simp add: parse_frame_def byte_reader_at read_four_words)

lemma length_field: "unat (of_nat n :: u32) = n \<longleftrightarrow> n < 2 ^ 32"
  using mod_less [of n "2 ^ 32"] mod_less_divisor [of "2 ^ 32" n] by (auto simp: unat_of_nat)

lemma parse_frame_Inr:
  "parse_frame f magic version = Inr p \<longleftrightarrow> f = frame magic version p \<and> length p < 2 ^ 32"
proof (cases "length f < 16")
  case True
  then show ?thesis by (auto simp: parse_frame_def frame_def)
next
  case False
  let ?q = "take (length f - 16) f"
  obtain a b c d where t: "drop (length f - 16) f = put_u32 a @ put_u32 b @ put_u32 c @ put_u32 d"
  proof (rule four_words)
    show "length (drop (length f - 16) f) = 16" using False by simp
  qed
  have f: "f = ?q @ put_u32 a @ put_u32 b @ put_u32 c @ put_u32 d" using t by (metis append_take_drop_id)
  have accept: "parse_frame f magic version = Inr p
      \<longleftrightarrow> a = magic \<and> b = version \<and> unat c = length ?q \<and> crc32 ?q = d \<and> p = ?q"
    by (subst f) (auto simp: parse_words)
  have len: "c = of_nat (length ?q) \<and> length ?q < 2 ^ 32 \<longleftrightarrow> unat c = length ?q"
  proof
    assume len: "unat c = length ?q"
    have "unat c < 2 ^ LENGTH(32)" by (rule unsigned_less)
    then have small: "length ?q < 2 ^ 32" using len by simp
    then have "unat (of_nat (length ?q) :: u32) = unat c" using length_field len by presburger
    then show "c = of_nat (length ?q) \<and> length ?q < 2 ^ 32" using small word_unat_eq_iff [of c] by presburger
  qed (use length_field [of "length ?q"] in simp)
  have parts: "f = frame magic version p
      \<longleftrightarrow> p = ?q \<and> a = magic \<and> b = version \<and> c = of_nat (length p) \<and> d = crc32 p"
    by (subst f) (auto simp: frame_def append_eq_append_conv put_u32_inj)
  show ?thesis unfolding accept parts using len by metis
qed

text \<open>A reader accepts a buffer exactly when it is the frame, for the magic and version it expects, of the
  payload it returns, and that payload's length fits the length field.\<close>

theorem frame_accepts_iff:
  "parse_frame f magic version = Inr p \<longleftrightarrow> f = frame magic version p \<and> length p < 2 ^ 32"
  by (rule parse_frame_Inr)

text \<open>C28: a framed file with any one of its bytes altered, in the payload or in the trailer, is refused.\<close>

theorem frame_detects_corruption:
  assumes "length p < 2 ^ 32" "i < length (frame magic version p)" "b \<noteq> frame magic version p ! i"
  shows "\<exists>e. parse_frame ((frame magic version p)[i := b]) magic version = Inl e"
proof (rule ccontr)
  let ?f = "frame magic version p"
  assume "\<nexists>e. parse_frame (?f[i := b]) magic version = Inl e"
  then obtain q where "parse_frame (?f[i := b]) magic version = Inr q"
    by (cases "parse_frame (?f[i := b]) magic version") auto
  then have q: "?f[i := b] = frame magic version q" by (simp add: parse_frame_Inr)
  then have len: "length q = length p" proof -
    have "length ?f = length (frame magic version q)" using q by (metis length_list_update)
    then show ?thesis by (simp add: frame_trailer)
  qed
  show False
  proof (cases "i < length p")
    case True
    then have "p[i := b] = q" "trailer magic version p = trailer magic version q"
      using q len by (simp_all add: frame_trailer list_update_append)
    then have "crc32 (p[i := b]) = crc32 p" by (simp add: trailer_def put_u32_inj)
    then show False using crc32_changed_byte [OF True] assms(3) True by (simp add: frame_trailer nth_append)
  next
    case False
    then have "q = p" using q len by (simp add: frame_trailer list_update_append)
    then have "?f[i := b] ! i = ?f ! i" using q by simp
    then show False using assms(2,3) by simp
  qed
qed

theorem frame_detects_corruption_witness:
  "\<exists>e. parse_frame ((frame 7 1 [1, 2, 3])[1 := 5]) 7 1 = Inl e"
  by (rule frame_detects_corruption) (simp_all add: frame_def)

end
