(* ===== verification/Codec_Spec.thy ===== *)
theory Codec_Spec
  imports Codec Frames Reservation_Spec
begin

text \<open>
  The codecs keep what they write: every decoder reads back the value its encoder wrote, refuses every strict prefix
  of an encoding, and on arbitrary bytes stays inside the buffer. Each pair is an interpretation of
  \<open>decoder_format\<close> (or \<open>wire_reader\<close>), whose laws follow from the laws of the decoding steps.
\<close>

section \<open>The laws of the decoding steps\<close>

lemma reader_at_inj: "reader_at p s = reader_at q t \<longleftrightarrow> p = q \<and> s = t"
  by (auto simp: reader_at_def)

lemma reads_bind [reads_intros]:
  "reads g (Inr x) bs \<Longrightarrow> reads (f x) y cs \<Longrightarrow> reads (rd_bind g f) y (bs @ cs)"
  by (simp add: reads_def rd_bind_def)

lemma reads_last: "reads g (Inr x) bs \<Longrightarrow> reads (f x) y [] \<Longrightarrow> reads (rd_bind g f) y bs"
  using reads_bind [of g x bs f y "[]"] by simp

lemma reads_val [reads_intros]: "reads g x bs \<Longrightarrow> reads (rd_val g) (Inr x) bs"
  by (simp add: reads_def rd_val_def)

lemma reads_ok [reads_intros]: "reads g x bs \<Longrightarrow> reads (rd_ok msg g) (Inr x) bs"
  by (simp add: reads_def rd_ok_def br_ok_def)

lemma reads_req [reads_intros]: "reads g (Some x) bs \<Longrightarrow> reads (rd_req msg g) (Inr x) bs"
  by (simp add: reads_def rd_req_def)

lemma reads_return [reads_intros]: "reads (rd_return x) (Inr x) []"
  by (simp add: reads_def rd_return_def)

lemma reads_done: "x = y \<Longrightarrow> reads (rd_done x) (Inr y) []"
  by (simp add: reads_def rd_done_def br_ok_def)

lemma reads_returned: "x = y \<Longrightarrow> reads (rd_return x) (Inr y) []"
  by (simp add: reads_return)

lemma reads_check [reads_intros]: "\<not> b \<Longrightarrow> reads g x bs \<Longrightarrow> reads (rd_check b msg g) x bs"
  by (simp add: rd_check_def)

lemma reads_opt_map:
  assumes "\<And>y. x = Some y \<Longrightarrow> reads g (Inr (h y)) (put y)"
  shows "reads (rd_opt g) (Inr (map_option h x)) (put_opt put x)"
proof (cases x)
  case None
  then show ?thesis
    unfolding rd_opt_def put_opt_def by (intro reads_bind [OF reads_val [OF reads_flag]]) (simp add: reads_return)
next
  case (Some y)
  have "reads (rd_bind g (\<lambda>x. rd_return (Some x))) (Inr (map_option h x)) (put y)"
    using reads_last [OF assms [OF Some] reads_return] Some by simp
  then show ?thesis
    using Some unfolding rd_opt_def put_opt_def by (intro reads_bind [OF reads_val [OF reads_flag]]) simp
qed

lemma reads_opt [reads_intros]:
  "(\<And>y. x = Some y \<Longrightarrow> reads g (Inr y) (put y)) \<Longrightarrow> reads (rd_opt g) (Inr x) (put_opt put x)"
  using reads_opt_map [of x g "\<lambda>y. y" put] by (simp add: option.map_ident)

lemma reads_times:
  "(\<And>x. x \<in> set xs \<Longrightarrow> reads g (Inr x) (put x)) \<Longrightarrow> reads (rd_times (length xs) g) (Inr xs) (concat (map put xs))"
proof (induction xs)
  case (Cons x xs)
  have "reads g (Inr x) (put x)" and "reads (rd_times (length xs) g) (Inr xs) (concat (map put xs))"
    using Cons by simp_all
  from reads_bind [OF this(1) reads_last [OF this(2) reads_return]]
  show ?case by simp
qed (simp add: reads_return)

lemma reads_id [reads_intros]: "reads get_id i (put_id i)"
  using reads_apply [OF reads_words(3)] by (intro readsI) (simp add: get_id_def put_id_def)

lemma reads_enum:
  assumes "of_byte (val e) = e" shows "reads (get_enum of_byte) e (put_enum val e)"
  using reads_apply [OF reads_u8 [of "val e"]] assms
  by (intro readsI) (simp add: get_enum_def put_enum_def put_u8_def)

lemma reads_each:
  assumes "\<And>i. i \<in> set is \<Longrightarrow> reads g (v i) (put (v i))"
  shows "reads (get_each g is w) (\<lambda>i. if i \<in> set is then v i else w i) (concat (map (\<lambda>i. put (v i)) is))"
  using assms
proof (induction "is" arbitrary: w)
  case (Cons i "is")
  have "get_each g (i # is) w = (\<lambda>r. case g r of (x, r1) \<Rightarrow> get_each g is (w(i := x)) r1)" by (rule ext) simp
  moreover have "(\<lambda>j. if j \<in> set is then v j else (w(i := v i)) j) = (\<lambda>j. if j \<in> set (i # is) then v j else w j)"
    by auto
  moreover have "reads (\<lambda>r. case g r of (x, r1) \<Rightarrow> get_each g is (w(i := x)) r1)
      (\<lambda>j. if j \<in> set is then v j else (w(i := v i)) j) (put (v i) @ concat (map (\<lambda>i. put (v i)) is))"
    by (rule reads_then [where x = "v i"], rule Cons.prems, simp, rule Cons.IH, rule Cons.prems, simp)
  ultimately show ?case by simp
next
  case Nil
  have "get_each g [] w = (\<lambda>r. (w, r))" by (rule ext) simp
  then show ?case by (simp add: reads_pure [of w])
qed

lemma reads_rv [reads_intros]: "reads decode_resource_vector v (encode_resource_vector v)"
  using reads_each [of resource_ids get_u64 v put_u64 rv_zero] reads_words(3)
  by (simp add: decode_resource_vector_def encode_resource_vector_def in_resource_ids)

lemma reads_levels:
  assumes "\<And>i. of_byte (val (v i)) = v i" shows "reads (get_levels of_byte) v (put_levels val v)"
  using reads_each [of resource_ids "get_enum of_byte" v "put_enum val"] reads_enum [of of_byte val, OF assms]
  by (simp add: get_levels_def put_levels_def in_resource_ids)

lemma reads_timepoint [reads_intros]: "reads decode_timepoint t (encode_timepoint t)"
  using reads_words(5) by (simp add: reads_def decode_timepoint_def encode_timepoint_def)

lemma scans_bind [scans_intros]:
  assumes g: "scans g" and f: "\<And>x. scans (f x)" shows "scans (rd_bind g f)"
proof -
  have "scans (\<lambda>r. case x of Inl e \<Rightarrow> (Inl e, r) | Inr y \<Rightarrow> f y r)" for x
    using f scans_pure by (cases x) auto
  from scans_then [OF g this] show ?thesis unfolding rd_bind_def [abs_def] .
qed

lemma scans_result:
  assumes g: "scans g" and h: "\<And>x r. \<not> br_failed r \<Longrightarrow> h x r = k x" shows "scans (\<lambda>r. case g r of (x, r1) \<Rightarrow> (h x r1, r1))"
proof (rule scansI)
  fix r y r1 assume r: "in_buffer r" and run: "(case g r of (x, r1) \<Rightarrow> (h x r1, r1)) = (y, r1)"
  then obtain x where x: "g r = (x, r1)" "y = h x r1" by (cases "g r") auto
  show "advances r r1" by (rule scansD(1) [OF g r x(1)])
  fix D assume "\<not> br_failed r1" "same_prefix (br_pos r1) D (br_data r)"
  then show "(case g (r\<lparr>br_data := D\<rparr>) of (x, r1) \<Rightarrow> (h x r1, r1)) = (y, r1\<lparr>br_data := D\<rparr>)"
    using scansD(2) [OF g r x(1)] x(2) by (simp add: h)
qed

lemma scans_steps [scans_intros]:
  "scans g \<Longrightarrow> scans (rd_val g)" "scans g \<Longrightarrow> scans (rd_ok msg g)" "scans h \<Longrightarrow> scans (rd_req msg h)"
  "scans (rd_return x)" "scans (rd_fail e)" "scans (rd_done x)"
proof -
  show "scans g \<Longrightarrow> scans (rd_val g)" unfolding rd_val_def [abs_def] by (rule scans_result [where k = Inr]) simp_all
  show "scans g \<Longrightarrow> scans (rd_ok msg g)"
    unfolding rd_ok_def [abs_def] by (rule scans_result [where k = Inr]) (simp_all add: br_ok_def)
  show "scans h \<Longrightarrow> scans (rd_req msg h)" 
    unfolding rd_req_def [abs_def]
    by (rule scans_result [where k = "\<lambda>x. case x of None \<Rightarrow> Inl (corrupt msg) | Some y \<Rightarrow> Inr y"]) simp_all
  show "scans (rd_return x)" "scans (rd_fail e)"
    using scans_pure by (simp_all add: rd_return_def [abs_def] rd_fail_def [abs_def])
  have "rd_done x = (\<lambda>r. case (x, r) of (x, r1) \<Rightarrow> (if br_ok r1 then Inr x else Inl (corrupt (br_error r1)), r1))"
    by (rule ext) (simp add: rd_done_def)
  then show "scans (rd_done x)"
    using scans_result [OF scans_pure [of x], of "\<lambda>x r1. if br_ok r1 then Inr x else Inl (corrupt (br_error r1))" Inr]
    by (simp add: br_ok_def)
qed

lemma scans_if [scans_intros]: "scans f \<Longrightarrow> scans g \<Longrightarrow> scans (if b then f else g)"
  by simp

lemma scans_check [scans_intros]: "scans g \<Longrightarrow> scans (rd_check b msg g)"
  by (simp add: rd_check_def scans_steps)

lemma scans_opt [scans_intros]: "scans g \<Longrightarrow> scans (rd_opt g)"
  unfolding rd_opt_def by (intro scans_intros)

lemma scans_times [scans_intros]: "scans g \<Longrightarrow> scans (rd_times n g)"
  by (induction n) (auto intro: scans_intros)

lemma scans_each: "scans g \<Longrightarrow> scans (get_each g is v)"
proof (induction "is" arbitrary: v)
  case (Cons i "is")
  have "get_each g (i # is) v = (\<lambda>r. case g r of (x, r1) \<Rightarrow> get_each g is (v(i := x)) r1)" by (rule ext) simp
  then show ?case using scans_then [OF Cons.prems Cons.IH [OF Cons.prems]] by simp
next
  case Nil
  have "get_each g [] v = (\<lambda>r. (v, r))" by (rule ext) simp
  then show ?case using scans_pure [of v] by simp
qed

lemma scans_fields [scans_intros]:
  "scans get_id" "scans (get_enum f)" "scans get_reason" "scans decode_resource_vector" "scans (get_levels f)"
  "scans decode_timepoint" "scans decode_capabilities"
proof -
  show "scans get_id" unfolding get_id_def [abs_def] by (intro scans_then scans_words scans_pure)
  show e: "scans (get_enum f)" for f :: "u8 \<Rightarrow> 'e" unfolding get_enum_def [abs_def] by (intro scans_then scans_u8 scans_pure)
  show "scans get_reason" unfolding get_reason_def [abs_def] by (intro scans_then scans_words scans_pure)
  show "scans decode_resource_vector" unfolding decode_resource_vector_def by (intro scans_each scans_words)
  show "scans (get_levels f)" unfolding get_levels_def by (intro scans_each e)
  show "scans decode_timepoint" unfolding decode_timepoint_def [abs_def] using scans_words(5) .
  show "scans decode_capabilities"
    unfolding decode_capabilities_def [abs_def]
    by (rule scans_result [OF scans_vectors(2), where k = "map_option (\<lambda>toks. fold cap_add toks [])"])
      (simp_all add: br_ok_def split: option.split)
qed

section \<open>Ordered maps rebuilt from their entries\<close>

lemma om_put_last: "\<forall>j \<in> fst ` set s. j < k \<Longrightarrow> om_put k v s = s @ [(k, v)]"
  by (induction s) auto

lemma om_fold_put:
  assumes "om_ok t" shows "fold (\<lambda>e u. om_put (fst e) (snd e) u) t [] = t"
proof -
  have "om_ok (s @ t) \<Longrightarrow> fold (\<lambda>e u. om_put (fst e) (snd e) u) t s = s @ t" for s
  proof (induction t arbitrary: s)
    case (Cons e t)
    have "om_put (fst e) (snd e) s = s @ [(fst e, snd e)]"
      using Cons.prems by (intro om_put_last) (auto simp: om_ok_def sorted_wrt_append)
    then show ?case using Cons.IH [of "s @ [e]"] Cons.prems by simp
  qed simp
  then show ?thesis using assms by simp
qed

lemma fold_cap_add: "om_ok (c :: Capabilities) \<Longrightarrow> fold cap_add (map fst c) [] = c"
  using om_fold_put [of c] by (simp add: fold_map comp_def cap_add_def [abs_def])

section \<open>Encodable values\<close>

text \<open>A value is encodable when its strings and vectors are within the reader's limits and every enumeration has its
  canonical representation.\<close>

definition string_ok :: "string \<Rightarrow> bool" where
  "string_ok s \<longleftrightarrow> length s \<le> 64 * 1024 * 1024"

definition strings_ok :: "string list \<Rightarrow> bool" where
  "strings_ok v \<longleftrightarrow> length v \<le> 1048576 \<and> list_all string_ok v"

abbreviation "workload_ok \<equiv> enum_canonical workload_byte workload_enumerators"
abbreviation "overcommit_ok \<equiv> enum_canonical overcommit_byte overcommit_enumerators"

definition descriptor_encodable :: "AdmissionDescriptor \<Rightarrow> bool" where
  "descriptor_encodable d \<longleftrightarrow> workload_ok (d_workload_type d)
     \<and> enum_canonical latency_byte latency_enumerators (d_latency_class d)
     \<and> enum_canonical preemption_byte preemption_enumerators (d_preemption d)
     \<and> list_all string_ok [d_backend d, d_dtype d, d_quantization d, d_workload_class d]
     \<and> strings_ok (d_policy_tags d)"

definition snapshot_encodable :: "ResourceSnapshot \<Rightarrow> bool" where
  "snapshot_encodable s \<longleftrightarrow> list_all string_ok [snap_node_name s, snap_device_name s]
     \<and> om_ok (snap_capabilities s) \<and> strings_ok (map fst (snap_capabilities s))
     \<and> strings_ok (snap_model_residency_hints s) \<and> strings_ok (snap_transfer_path_hints s)
     \<and> list_all (\<lambda>i. enum_canonical pressure_byte pressure_enumerators (snap_pressure s i)
          \<and> enum_canonical provenance_byte provenance_enumerators (snap_provenance s i)) resource_ids"

definition reservation_encodable :: "ResourceReservation \<Rightarrow> bool" where
  "reservation_encodable r \<longleftrightarrow> rsv_status r \<in> set rstatus_enumerators"

definition override_encodable :: "PolicyOverride \<Rightarrow> bool" where
  "override_encodable v \<longleftrightarrow> string_ok (po_key v) \<and> pred_option overcommit_ok (po_overcommit_mode v)"

definition policy_encodable :: "AdmissionPolicy \<Rightarrow> bool" where
  "policy_encodable p \<longleftrightarrow> string_ok (p_name p) \<and> overcommit_ok (p_overcommit p)
     \<and> length (p_overrides p) \<le> 65536 \<and> list_all override_encodable (p_overrides p)"

definition quota_encodable :: "QuotaSnapshot \<Rightarrow> bool" where
  "quota_encodable q \<longleftrightarrow> string_ok (q_source_authority q)"

definition observation_encodable :: "Observation \<Rightarrow> bool" where
  "observation_encodable ob \<longleftrightarrow> list_all string_ok [o_backend ob, o_dtype ob, o_quantization ob]
     \<and> workload_ok (o_workload_type ob) \<and> enum_canonical okind_byte okind_enumerators (o_kind ob)"

definition decision_encodable :: "AdmissionDecision \<Rightarrow> bool" where
  "decision_encodable d \<longleftrightarrow> enum_canonical outcome_byte outcome_enumerators (dec_outcome d)
     \<and> enum_canonical reason_value reason_enumerators (dec_reason d) \<and> string_ok (dec_explanation d)"

definition profile_encodable :: "PredictionProfile \<Rightarrow> bool" where
  "profile_encodable p \<longleftrightarrow> list_all string_ok [pp_backend p, pp_dtype p, pp_quantization p]"

text \<open>What a decoded decision keeps: the fields that are written.\<close>

definition decision_core :: "AdmissionDecision \<Rightarrow> AdmissionDecision" where
  "decision_core d = d\<lparr>dec_memory_prediction := default_memory_prediction,
     dec_duration_prediction := default_duration_prediction, dec_slo := default_slo,
     dec_quota := default_quota_evaluation, dec_expires_at := None, dec_defer_hint := None\<rparr>"

section \<open>Reading back\<close>

lemmas enum_reads =
  reads_enum [of workload_of_byte workload_byte, OF workload_enum.enum_of_val [folded workload_of_byte_def]]
  reads_enum [of latency_of_byte latency_byte, OF latency_enum.enum_of_val [folded latency_of_byte_def]]
  reads_enum [of preemption_of_byte preemption_byte, OF preemption_enum.enum_of_val [folded preemption_of_byte_def]]
  reads_enum [of overcommit_of_byte overcommit_byte, OF overcommit_enum.enum_of_val [folded overcommit_of_byte_def]]
  reads_enum [of rstatus_of_byte rstatus_byte, OF rstatus_enum.enum_of_val [folded rstatus_of_byte_def]]
  reads_enum [of okind_of_byte okind_byte, OF okind_enum.enum_of_val [folded okind_of_byte_def]]
  reads_enum [of outcome_of_byte outcome_byte, OF outcome_enum.enum_of_val [folded outcome_of_byte_def]]
  reads_levels [of pressure_of_byte pressure_byte, OF pressure_enum.enum_of_val [folded pressure_of_byte_def]]
  reads_levels [of provenance_of_byte provenance_byte, OF provenance_enum.enum_of_val [folded provenance_of_byte_def]]

lemma reads_reason:
  assumes "enum_canonical reason_value reason_enumerators c" shows "reads get_reason c (put_reason c)"
  using reads_apply [OF reads_words(4)] reason_enum.enum_of_val [OF assms]
  by (intro readsI) (simp add: get_reason_def put_reason_def reason_of_value_def)

lemma reads_str: "string_ok s \<Longrightarrow> reads get_string (Some s) (put_string s)"
  by (simp add: reads_string string_ok_def)

lemma reads_strs: "strings_ok v \<Longrightarrow> reads get_stringvec (Some v) (put_stringvec v)"
  by (intro reads_stringvec) (auto simp: strings_ok_def string_ok_def list_all_iff)

lemma reads_caps:
  assumes "om_ok c" "strings_ok (map fst c)" shows "reads decode_capabilities (Some c) (encode_capabilities c)"
  using reads_apply [OF reads_strs [OF assms(2)]] fold_cap_add [OF assms(1)]
  by (intro readsI) (simp add: decode_capabilities_def encode_capabilities_def br_ok_def)

lemma reads_u8_put: "reads get_u8 b (put_u8 b)"
  by (simp add: reads_u8 put_u8_def)

lemmas field_reads =
  reads_bind reads_last reads_done reads_return reads_returned reads_val reads_ok reads_req reads_opt reads_words reads_flag reads_u8_put
  reads_id reads_rv reads_timepoint reads_str reads_strs reads_caps reads_reason enum_reads

lemma reads_descriptor:
  assumes "descriptor_encodable d" shows "reads decode_descriptor (Inr d) (encode_descriptor d)"
  unfolding decode_descriptor_def encode_descriptor_def
  by (rule field_reads | use assms in \<open>simp add: descriptor_encodable_def; fail\<close>)+

lemma reads_quota:
  assumes "quota_encodable q" shows "reads decode_quota (Inr q) (encode_quota q)"
  unfolding decode_quota_def encode_quota_def
  by (rule field_reads | use assms in \<open>simp add: quota_encodable_def; fail\<close>)+

lemma reads_snapshot:
  assumes "snapshot_encodable s" shows "reads decode_snapshot (Inr s) (encode_snapshot s)"
  unfolding decode_snapshot_def encode_snapshot_def
  by (rule field_reads | use assms in \<open>simp add: snapshot_encodable_def list_all_iff in_resource_ids; fail\<close>)+

lemma reads_reservation:
  assumes "reservation_encodable r" shows "reads decode_reservation (Inr r) (encode_reservation r)"
proof -
  have known: "\<not> rstatus_byte (rsv_status r) > rstatus_byte ReservationStatus_RolledBack"
    using assms by (auto simp: reservation_encodable_def rstatus_enumerators_def)
  show ?thesis
    unfolding decode_reservation_def encode_reservation_def
    by (rule field_reads reads_check known
        | use assms in \<open>simp add: reservation_encodable_def enum_canonical_def; fail\<close>)+
qed

lemma reads_override:
  assumes "override_encodable v" shows "reads decode_override (Inr v) (encode_override v)"
  unfolding decode_override_def encode_override_def
  by (rule field_reads | use assms in \<open>simp add: override_encodable_def; fail\<close>)+

lemma reads_counted:
  assumes "length xs < 2 ^ 32" "\<And>x. x \<in> set xs \<Longrightarrow> reads g (Inr x) (put x)"
  shows "reads (rd_times (unat (of_nat (length xs) :: u32)) g) (Inr xs) (concat (map put xs))"
  using reads_times [of xs g put] assms length_field [of "length xs"] by simp

lemma reads_policy:
  assumes "policy_encodable p" shows "reads decode_policy (Inr p) (encode_policy p)"
proof -
  have small: "length (p_overrides p) < 2 ^ 32" "\<not> of_nat (length (p_overrides p)) > (push_bit 16 1 :: u32)"
    using assms length_field [of "length (p_overrides p)"]
    by (simp_all add: policy_encodable_def word_less_nat_alt)
  show ?thesis
    unfolding decode_policy_def encode_policy_def
    by (rule field_reads reads_check reads_counted reads_override
        | use assms small in \<open>simp add: policy_encodable_def list_all_iff; fail\<close>)+
qed

lemma reads_observation:
  assumes "observation_encodable ob" shows "reads decode_observation (Inr ob) (encode_observation ob)"
  unfolding decode_observation_def encode_observation_def
  by (rule field_reads | use assms in \<open>simp add: observation_encodable_def; fail\<close>)+

lemma reads_decision:
  assumes "decision_encodable d" shows "reads decode_decision (Inr (decision_core d)) (encode_decision d)"
  unfolding decode_decision_def encode_decision_def
  by (rule field_reads | use assms in \<open>simp add: decision_encodable_def decision_core_def default_decision_def; fail\<close>)+

lemma reads_prediction_profile:
  assumes "profile_encodable p" shows "reads decode_prediction_profile (Inr p) (encode_prediction_profile p)"
  unfolding decode_prediction_profile_def encode_prediction_profile_def
  by (rule field_reads | use assms in \<open>simp add: profile_encodable_def; fail\<close>)+

section \<open>The decoders as wire formats\<close>

text \<open>A decoder that succeeds left the reader good.\<close>

definition honest :: "'a decoder \<Rightarrow> bool" where
  "honest g \<longleftrightarrow> (\<forall>r x r1. g r = (Inr x, r1) \<longrightarrow> \<not> br_failed r1)"

lemma honest_done: "honest (rd_done x)"
  by (auto simp: honest_def rd_done_def br_ok_def split: if_splits)

lemma honest_fail: "honest (rd_fail e)"
  by (simp add: honest_def rd_fail_def)

lemma honest_bind: "(\<And>x. honest (f x)) \<Longrightarrow> honest (rd_bind g f)"
  by (auto simp: honest_def rd_bind_def split: prod.splits sum.splits)

lemma honest_check: "honest g \<Longrightarrow> honest (rd_check b msg g)"
  by (simp add: rd_check_def honest_fail)

lemmas honest_rules = honest_done honest_bind honest_check honest_fail

locale decoder_format = wire_reader put get "\<lambda>x. Inr (result x)" valid
  for put :: "'a \<Rightarrow> bytes" and get :: "'b decoder" and result :: "'a \<Rightarrow> 'b" and valid :: "'a \<Rightarrow> bool" +
  assumes honest_get: "honest get"
begin

lemma truncated_refused:
  assumes "valid x" "k < length (put x)"
  shows "\<exists>e. fst (get (byte_reader (take k (put x)))) = Inl e"
proof (cases "get (byte_reader (take k (put x)))")
  case (Pair y r1)
  then show ?thesis
    using truncated_fails [OF assms] honest_get by (cases y) (auto simp: honest_def)
qed

lemma same_encoding:
  assumes "valid x" "valid y" "put x @ s = put y @ t"
  shows "result x = result y \<and> s = t"
proof -
  have "get (byte_reader (put x @ s)) = get (byte_reader (put y @ t))" by (simp only: assms(3))
  then show ?thesis unfolding decode_encoded [OF assms(1)] decode_encoded [OF assms(2)] by (simp add: reader_at_inj)
qed

end

lemmas decoder_scans =
  scans_bind scans_steps scans_opt scans_check scans_times scans_fields scans_words scans_flag scans_u8 scans_string
  scans_vectors

lemma scans_override: "scans decode_override"
  unfolding decode_override_def by (intro decoder_scans)

lemma scans_decoders:
  "scans decode_descriptor" "scans decode_snapshot" "scans decode_reservation" "scans decode_policy"
  "scans decode_quota" "scans decode_observation" "scans decode_decision" "scans decode_prediction_profile"
  unfolding decode_descriptor_def decode_snapshot_def decode_reservation_def decode_policy_def decode_quota_def
    decode_observation_def decode_decision_def decode_prediction_profile_def
  by (intro decoder_scans scans_override)+

lemma honest_decoders:
  "honest decode_descriptor" "honest decode_snapshot" "honest decode_reservation" "honest decode_policy"
  "honest decode_quota" "honest decode_observation" "honest decode_decision" "honest decode_prediction_profile"
  unfolding decode_descriptor_def decode_snapshot_def decode_reservation_def decode_policy_def decode_quota_def
    decode_observation_def decode_decision_def decode_prediction_profile_def
  by (intro honest_rules)+

lemmas codec_laws = scans_decoders honest_decoders

interpretation descriptor_codec: decoder_format encode_descriptor decode_descriptor "\<lambda>d. d" descriptor_encodable
  by unfold_locales (fact reads_descriptor codec_laws)+

interpretation snapshot_codec: decoder_format encode_snapshot decode_snapshot "\<lambda>s. s" snapshot_encodable
  by unfold_locales (fact reads_snapshot codec_laws)+

interpretation reservation_codec: decoder_format encode_reservation decode_reservation "\<lambda>r. r" reservation_encodable
  by unfold_locales (fact reads_reservation codec_laws)+

interpretation policy_codec: decoder_format encode_policy decode_policy "\<lambda>p. p" policy_encodable
  by unfold_locales (fact reads_policy codec_laws)+

interpretation quota_codec: decoder_format encode_quota decode_quota "\<lambda>q. q" quota_encodable
  by unfold_locales (fact reads_quota codec_laws)+

interpretation observation_codec: decoder_format encode_observation decode_observation "\<lambda>ob. ob" observation_encodable
  by unfold_locales (fact reads_observation codec_laws)+

interpretation decision_codec: decoder_format encode_decision decode_decision decision_core decision_encodable
  by unfold_locales (fact reads_decision codec_laws)+

interpretation profile_codec: decoder_format encode_prediction_profile decode_prediction_profile "\<lambda>p. p" profile_encodable
  by unfold_locales (fact reads_prediction_profile codec_laws)+

end
