(* ===== verification/Codec_Laws.thy ===== *)
theory Codec_Laws
  imports Codec_Spec
begin

text \<open>The guarantees of the codecs over all their structures: what is read back, what is refused, what a decoder may
  touch and what a decoded value may be.\<close>

section \<open>What decoders return\<close>

definition yields :: "'a decoder \<Rightarrow> ('a \<Rightarrow> bool) \<Rightarrow> bool" where
  "yields g Q \<longleftrightarrow> (\<forall>r x r1. g r = (Inr x, r1) \<longrightarrow> Q x)"


lemma yieldsI: "(\<And>r x r1. g r = (Inr x, r1) \<Longrightarrow> Q x) \<Longrightarrow> yields g Q"
  unfolding yields_def by blast











lemma yields_caps: "yields (rd_req msg decode_capabilities) om_ok"
proof -
  have "om_ok (fold cap_add ts c)" if "om_ok c" for ts and c :: Capabilities
    using that by (induction ts arbitrary: c) (simp_all add: cap_add_def om_ok_put)
  from this [of "[]"] show ?thesis
    by (intro yieldsI) (auto simp: rd_req_def decode_capabilities_def split: prod.splits option.splits if_splits)
qed














section \<open>The codecs' guarantees\<close>

text \<open>C25: every decoder reads back what its encoder wrote, whatever follows it in the buffer, and stops at
  its last byte; a decision keeps exactly the fields that carry authority.\<close>

theorem codecs_read_back:
  "(descriptor_encodable d \<longrightarrow> decode_descriptor (byte_reader (encode_descriptor d @ rest))
      = (Inr d, reader_at (encode_descriptor d) rest))
   \<and> (snapshot_encodable s \<longrightarrow> decode_snapshot (byte_reader (encode_snapshot s @ rest))
      = (Inr s, reader_at (encode_snapshot s) rest))
   \<and> (reservation_encodable r \<longrightarrow> decode_reservation (byte_reader (encode_reservation r @ rest))
      = (Inr r, reader_at (encode_reservation r) rest))
   \<and> (policy_encodable p \<longrightarrow> decode_policy (byte_reader (encode_policy p @ rest))
      = (Inr p, reader_at (encode_policy p) rest))
   \<and> (quota_encodable q \<longrightarrow> decode_quota (byte_reader (encode_quota q @ rest))
      = (Inr q, reader_at (encode_quota q) rest))
   \<and> (observation_encodable ob \<longrightarrow> decode_observation (byte_reader (encode_observation ob @ rest))
      = (Inr ob, reader_at (encode_observation ob) rest))
   \<and> (profile_encodable f \<longrightarrow> decode_prediction_profile (byte_reader (encode_prediction_profile f @ rest))
      = (Inr f, reader_at (encode_prediction_profile f) rest))
   \<and> (decision_encodable c \<longrightarrow> decode_decision (byte_reader (encode_decision c @ rest))
      = (Inr (decision_core c), reader_at (encode_decision c) rest))"
  by (intro conjI impI descriptor_codec.decode_encoded snapshot_codec.decode_encoded reservation_codec.decode_encoded
      policy_codec.decode_encoded quota_codec.decode_encoded observation_codec.decode_encoded profile_codec.decode_encoded
      decision_codec.decode_encoded)

lemma default_descriptor_encodable: "descriptor_encodable default_descriptor"
  by (simp add: descriptor_encodable_def default_descriptor_def enum_canonical_def workload_enumerators_def
      latency_enumerators_def preemption_enumerators_def string_ok_def strings_ok_def)

theorem codecs_read_back_witness:
  "decode_descriptor (byte_reader (encode_descriptor default_descriptor @ [1, 2]))
    = (Inr default_descriptor, reader_at (encode_descriptor default_descriptor) [1, 2])"
  using codecs_read_back default_descriptor_encodable by blast

text \<open>C26: a strict prefix of an encoding, a truncated message or file, is refused by every decoder of the codec.\<close>

theorem truncated_encodings_refused:
  "(descriptor_encodable d \<and> k < length (encode_descriptor d)
      \<longrightarrow> (\<exists>e. fst (decode_descriptor (byte_reader (take k (encode_descriptor d)))) = Inl e))
   \<and> (snapshot_encodable s \<and> k < length (encode_snapshot s)
      \<longrightarrow> (\<exists>e. fst (decode_snapshot (byte_reader (take k (encode_snapshot s)))) = Inl e))
   \<and> (reservation_encodable r \<and> k < length (encode_reservation r)
      \<longrightarrow> (\<exists>e. fst (decode_reservation (byte_reader (take k (encode_reservation r)))) = Inl e))
   \<and> (policy_encodable p \<and> k < length (encode_policy p)
      \<longrightarrow> (\<exists>e. fst (decode_policy (byte_reader (take k (encode_policy p)))) = Inl e))
   \<and> (decision_encodable c \<and> k < length (encode_decision c)
      \<longrightarrow> (\<exists>e. fst (decode_decision (byte_reader (take k (encode_decision c)))) = Inl e))
   \<and> (quota_encodable q \<and> k < length (encode_quota q)
      \<longrightarrow> (\<exists>e. fst (decode_quota (byte_reader (take k (encode_quota q)))) = Inl e))
   \<and> (observation_encodable ob \<and> k < length (encode_observation ob)
      \<longrightarrow> (\<exists>e. fst (decode_observation (byte_reader (take k (encode_observation ob)))) = Inl e))
   \<and> (profile_encodable f \<and> k < length (encode_prediction_profile f)
      \<longrightarrow> (\<exists>e. fst (decode_prediction_profile (byte_reader (take k (encode_prediction_profile f)))) = Inl e))"
  using descriptor_codec.truncated_refused snapshot_codec.truncated_refused reservation_codec.truncated_refused
    policy_codec.truncated_refused decision_codec.truncated_refused quota_codec.truncated_refused
    observation_codec.truncated_refused profile_codec.truncated_refused
  by blast

theorem truncated_encodings_refused_witness:
  "\<exists>e. fst (decode_descriptor (byte_reader (take 5 (encode_descriptor default_descriptor)))) = Inl e"
proof -
  have "5 < length (encode_descriptor default_descriptor)"
    by (simp add: encode_descriptor_def put_enum_def put_u8_def put_id_def put_words_le)
  then show ?thesis using truncated_encodings_refused default_descriptor_encodable by blast
qed


end
