(* ===== verification/Recovery.thy ===== *)
theory Recovery
  imports Engine Codec
begin

text \<open>
  \<open>AdmissionFabric::save_state\<close> and \<open>restore_state\<close> (engine.cpp) and the state store (persistence.cpp). A recovery step
  carries the engine being filled and the reader; it returns the refused status or a value, with both as the step
  left them, so that a refusal half-way leaves the engine partly filled as it does in the code.
  The file system is a map from paths to contents; \<open>fs_outcome\<close> says how far each write gets.
\<close>

section \<open>Saving\<close>

primrec lifecycle_byte :: "RequestLifecycle \<Rightarrow> u8" where
  "lifecycle_byte RequestLifecycle_Unknown = 0"
| "lifecycle_byte RequestLifecycle_Proposed = 1"
| "lifecycle_byte RequestLifecycle_Evaluating = 2"
| "lifecycle_byte RequestLifecycle_Deferred = 3"
| "lifecycle_byte RequestLifecycle_Reserved = 4"
| "lifecycle_byte RequestLifecycle_Admitted = 5"
| "lifecycle_byte RequestLifecycle_Released = 6"
| "lifecycle_byte RequestLifecycle_Rejected = 7"
| "lifecycle_byte RequestLifecycle_Expired = 8"
| "lifecycle_byte RequestLifecycle_Cancelled = 9"

definition lifecycle_enumerators :: "RequestLifecycle list" where
  "lifecycle_enumerators = [RequestLifecycle_Unknown, RequestLifecycle_Proposed, RequestLifecycle_Evaluating,
     RequestLifecycle_Deferred, RequestLifecycle_Reserved, RequestLifecycle_Admitted, RequestLifecycle_Released,
     RequestLifecycle_Rejected, RequestLifecycle_Expired, RequestLifecycle_Cancelled]"

text \<open>A count, then every entry of a table in key order.\<close>

definition put_table :: "('e \<Rightarrow> bytes) \<Rightarrow> 'e list \<Rightarrow> bytes" where
  "put_table put es = put_u32 (of_nat (length es)) @ concat (map put es)"

definition encode_request :: "AdmissionRequestId \<times> RequestRecord \<Rightarrow> bytes" where
  "encode_request e =
     put_id (fst e) @ put_u8 (lifecycle_byte (rr_lifecycle (snd e))) @ encode_descriptor (rr_descriptor (snd e))
     @ put_opt encode_decision (rr_last_decision (snd e))"

text \<open>No encoder of the code can refuse, so \<open>save_state\<close> always succeeds and is the bytes it appends.\<close>

definition save_state :: "AdmissionFabric \<Rightarrow> bytes" where
  "save_state s =
     put_table (\<lambda>e. encode_policy (snd e)) (pe_policies (af_policy s))
     @ put_table (\<lambda>e. encode_prediction_profile (snd e)) (wp_profs (af_predictor s))
     @ put_table (\<lambda>e. encode_reservation (snd e)) (rm_reservations (af_reservations s))
     @ encode_resource_vector (rm_reserved_sum (af_reservations s))
     @ encode_resource_vector (rm_used_sum (af_reservations s))
     @ put_enum overcommit_byte (rm_overcommit_mode (af_reservations s))
     @ encode_resource_vector (rm_overcommit_allowance (af_reservations s))
     @ put_table encode_request (af_requests s)
     @ encode_quota (af_quota s)
     @ put_id (af_admission_generation s)
     @ put_u64 (af_reservation_counter s)
     @ put_flag (af_has_snapshot s)
     @ (if af_has_snapshot s then encode_snapshot (af_snapshot s) else [])"

section \<open>Recovery steps\<close>

type_synonym 'a recovery = "AdmissionFabric \<Rightarrow> ByteReader \<Rightarrow> (Status + 'a) \<times> AdmissionFabric \<times> ByteReader"

definition rc_bind :: "'a recovery \<Rightarrow> ('a \<Rightarrow> 'b recovery) \<Rightarrow> 'b recovery" where
  "rc_bind g f s r =
     (case g s r of (x, s1, r1) \<Rightarrow> (case x of Inl e \<Rightarrow> (Inl e, s1, r1) | Inr y \<Rightarrow> f y s1 r1))"

definition rc_read :: "'a decoder \<Rightarrow> 'a recovery" where
  "rc_read g s r = (case g r of (x, r1) \<Rightarrow> (x, s, r1))"

definition rc_update :: "(AdmissionFabric \<Rightarrow> AdmissionFabric) \<Rightarrow> unit recovery" where
  "rc_update f s r = (Inr (), f s, r)"

text \<open>A call that returns a status; a failure is passed on.\<close>

definition rc_call :: "(AdmissionFabric \<Rightarrow> Status \<times> AdmissionFabric) \<Rightarrow> unit recovery" where
  "rc_call f s r = (case f s of (st, s1) \<Rightarrow> (if status_ok st then Inr () else Inl st, s1, r))"

definition rc_check :: "bool \<Rightarrow> Status \<Rightarrow> 'a recovery \<Rightarrow> 'a recovery" where
  "rc_check bad st g s r = (if bad then (Inl st, s, r) else g s r)"

fun rc_times :: "nat \<Rightarrow> unit recovery \<Rightarrow> unit recovery" where
  "rc_times 0 g s r = (Inr (), s, r)"
| "rc_times (Suc n) g s r = rc_bind g (\<lambda>_. rc_times n g) s r"

section \<open>Restoring\<close>

definition invalid_count :: "string \<Rightarrow> Status" where
  "invalid_count msg = status_failure ErrorCode_PersistenceInvalidCount msg"

definition restore_policy :: "unit recovery" where
  "restore_policy =
     rc_bind (rc_read decode_policy) (\<lambda>p.
     rc_call (\<lambda>s. case install_at_generation p (p_generation p) (af_policy s) of
                    (st, pe) \<Rightarrow> (st, s\<lparr>af_policy := pe\<rparr>)))"

definition restore_profile :: "unit recovery" where
  "restore_profile =
     rc_bind (rc_read decode_prediction_profile) (\<lambda>p.
     rc_update (\<lambda>s. s\<lparr>af_predictor := snd (register_profile p (af_predictor s))\<rparr>))"

definition read_reservation :: "ResourceReservation decoder" where
  "read_reservation =
     rd_bind decode_reservation (\<lambda>rr.
     rd_check (rstatus_byte (rsv_status rr) > rstatus_byte ReservationStatus_RolledBack) ''bad reservation status'' (
     rd_return rr))"

definition restore_reservations :: "unit recovery" where
  "restore_reservations =
     rc_bind (rc_read (rd_val get_u32)) (\<lambda>n.
     rc_check (n > push_bit 20 1) (invalid_count ''reservation count'') (
     rc_bind (rc_read (rd_times (unat n) read_reservation)) (\<lambda>rsv.
     rc_bind (rc_read (rd_ok ''reservation sums'' decode_resource_vector)) (\<lambda>res.
     rc_bind (rc_read (rd_ok ''reservation sums'' decode_resource_vector)) (\<lambda>used.
     rc_bind (rc_read (rd_val get_u8)) (\<lambda>om.
     rc_bind (rc_read (rd_ok ''overcommit allowance'' decode_resource_vector)) (\<lambda>oca.
     rc_bind (rc_call (\<lambda>s. case rm_restore rsv res used (af_reservations s) of
                            (st, m) \<Rightarrow> (st, s\<lparr>af_reservations := m\<rparr>))) (\<lambda>_.
     rc_update (\<lambda>s. s\<lparr>af_reservations := rm_set_overcommit_allowance
       (rm_set_overcommit_mode (af_reservations s) (overcommit_of_byte om)) oca\<rparr>)))))))))"

definition restore_request :: "i64 \<Rightarrow> unit recovery" where
  "restore_request now =
     rc_bind (rc_read (rd_val get_id)) (\<lambda>rid.
     rc_bind (rc_read (rd_val get_u8)) (\<lambda>lc.
     rc_check (lc > lifecycle_byte RequestLifecycle_Cancelled) (corrupt ''bad lifecycle'') (
     rc_bind (rc_read decode_descriptor) (\<lambda>d.
     rc_bind (rc_read (rd_opt decode_decision)) (\<lambda>dec.
     rc_bind (\<lambda>s. rc_check (om_find (af_requests s) rid \<noteq> None)
       (status_failure ErrorCode_PersistenceDuplicateId ''duplicate request id in state'') (rc_update (\<lambda>s. s)) s) (\<lambda>_.
     rc_update (\<lambda>s. s\<lparr>af_requests := om_put rid
       (default_request_record\<lparr>rr_id := rid, rr_lifecycle := lifecycle_enumerators ! unat lc, rr_descriptor := d,
          rr_last_decision := dec, rr_created_at := now, rr_updated_at := now\<rparr>) (af_requests s)\<rparr>)))))))"

definition rc_table :: "u32 \<Rightarrow> string \<Rightarrow> unit recovery \<Rightarrow> unit recovery" where
  "rc_table limit msg g =
     rc_bind (rc_read (rd_val get_u32)) (\<lambda>n. rc_check (n > limit) (invalid_count msg) (rc_times (unat n) g))"

definition rebind_overcommit :: "AdmissionFabric \<Rightarrow> AdmissionFabric" where
  "rebind_overcommit s =
     (case policy_latest (af_policy s) of
        None \<Rightarrow> s
      | Some p \<Rightarrow> s\<lparr>af_reservations := bind_overcommit p (af_reservations s)\<rparr>)"

definition restore_state :: "i64 \<Rightarrow> unit recovery" where
  "restore_state now =
     rc_bind (rc_update (\<lambda>s. s\<lparr>af_requests := []\<rparr>)) (\<lambda>_.
     rc_bind (rc_table (of_nat kMaxGenerations) ''policy count'' restore_policy) (\<lambda>_.
     rc_bind (rc_table (of_nat kMaxProfiles) ''profile count'' restore_profile) (\<lambda>_.
     rc_bind restore_reservations (\<lambda>_.
     rc_bind (rc_table (push_bit 20 1) ''request count'' (restore_request now)) (\<lambda>_.
     rc_bind (rc_read decode_quota) (\<lambda>q.
     rc_bind (rc_update (set_quota q)) (\<lambda>_.
     rc_bind (rc_read (rd_val get_id)) (\<lambda>gen.
     rc_bind (rc_update (\<lambda>s. s\<lparr>af_admission_generation := gen\<rparr>)) (\<lambda>_.
     rc_bind (rc_read (rd_val get_u64)) (\<lambda>counter.
     rc_bind (rc_update (\<lambda>s. s\<lparr>af_reservation_counter := counter\<rparr>)) (\<lambda>_.
     rc_bind (rc_read (rd_val get_flag)) (\<lambda>has.
     rc_bind (rc_update (\<lambda>s. s\<lparr>af_has_snapshot := has\<rparr>)) (\<lambda>_.
     rc_bind (if has then rc_bind (rc_read decode_snapshot) (\<lambda>snap. rc_update (set_snapshot snap))
              else rc_update (\<lambda>s. s)) (\<lambda>_.
     rc_bind (rc_update rebind_overcommit) (\<lambda>_.
     rc_read (rd_done ()))))))))))))))))"

section \<open>The state store\<close>

record PersistenceConfig =
  cfg_path :: string
  cfg_magic :: u32
  cfg_version :: u32

definition cfg_temp_path :: "PersistenceConfig \<Rightarrow> string" where
  "cfg_temp_path cfg = cfg_path cfg @ ''.tmp''"

definition build_payload :: "AdmissionFabric \<Rightarrow> PersistenceConfig \<Rightarrow> bytes" where
  "build_payload f cfg = frame (cfg_magic cfg) (cfg_version cfg) (save_state f)"

definition apply_payload :: "i64 \<Rightarrow> PersistenceConfig \<Rightarrow> bytes \<Rightarrow> AdmissionFabric \<Rightarrow> Status \<times> AdmissionFabric" where
  "apply_payload now cfg payload f =
     (case parse_frame payload (cfg_magic cfg) (cfg_version cfg) of
        Inl err \<Rightarrow> (status_failure ErrorCode_PersistenceChecksumMismatch err, f)
      | Inr body \<Rightarrow>
          case restore_state now f (byte_reader body) of
            (Inl e, f1, r) \<Rightarrow> (e, f1)
          | (Inr _, f1, r) \<Rightarrow>
              (if \<not> br_ok r then corrupt (br_error r)
               else if br_remaining r \<noteq> 0 then corrupt ''trailing bytes after state''
               else status_success, f1))"

text \<open>How far the operating system carries a save: what reaches the temporary file when the write, flush or close
  fails, and whether the rename succeeds.\<close>

datatype fs_outcome = FsOpenFails | FsWriteFails bytes | FsCloseFails bytes | FsRenameFails | FsDone

type_synonym filesystem = "string \<Rightarrow> bytes option"

definition io_error :: "string \<Rightarrow> Status" where
  "io_error msg = status_failure ErrorCode_PersistenceIoError msg"

definition store_save :: "fs_outcome \<Rightarrow> PersistenceConfig \<Rightarrow> AdmissionFabric \<Rightarrow> filesystem \<Rightarrow> Status \<times> filesystem" where
  "store_save oc cfg f fs =
     (let payload = build_payload f cfg; tmp = cfg_temp_path cfg in
      case oc of
        FsOpenFails \<Rightarrow> (io_error ''cannot open temp file'', fs)
      | FsWriteFails part \<Rightarrow> (io_error ''write failed'', fs(tmp \<mapsto> part))
      | FsCloseFails part \<Rightarrow> (io_error ''close failed'', fs(tmp \<mapsto> part))
      | FsRenameFails \<Rightarrow> (io_error ''atomic rename failed'', fs(tmp \<mapsto> payload))
      | FsDone \<Rightarrow> (status_success, fs(cfg_path cfg \<mapsto> payload, tmp := None)))"

definition load_payload :: "PersistenceConfig \<Rightarrow> filesystem \<Rightarrow> Status + bytes" where
  "load_payload cfg fs =
     (case fs (cfg_path cfg) of
        None \<Rightarrow> Inl (io_error ''cannot open state file'')
      | Some bytes \<Rightarrow>
          if bytes = [] then Inl (status_failure ErrorCode_PersistenceTruncated ''empty state file'')
          else case parse_frame bytes (cfg_magic cfg) (cfg_version cfg) of
                 Inl err \<Rightarrow> Inl (status_failure ErrorCode_PersistenceChecksumMismatch err)
               | Inr body \<Rightarrow> Inr bytes)"

definition store_load :: "i64 \<Rightarrow> PersistenceConfig \<Rightarrow> filesystem \<Rightarrow> AdmissionFabric \<Rightarrow> Status \<times> AdmissionFabric" where
  "store_load now cfg fs f =
     (case load_payload cfg fs of Inl e \<Rightarrow> (e, f) | Inr bytes \<Rightarrow> apply_payload now cfg bytes f)"

definition payload_size :: "AdmissionFabric \<Rightarrow> PersistenceConfig \<Rightarrow> nat" where
  "payload_size f cfg = length (build_payload f cfg)"

end
