(* ===== verification/Recovery_Spec.thy ===== *)
theory Recovery_Spec
  imports Recovery Codec_Spec Engine_Grants
begin

text \<open>
  What recovery keeps: a saved engine whose reservations are all live is read back with its policies, reservation
  table and sums, requests, quota, counters and snapshot; a save replaces the state file completely or not at all;
  and an engine with a settled reservation cannot be recovered.
\<close>

section \<open>The laws of the recovery steps\<close>

definition recovers :: "'a recovery \<Rightarrow> AdmissionFabric \<Rightarrow> 'a \<Rightarrow> AdmissionFabric \<Rightarrow> bytes \<Rightarrow> bool" where
  "recovers g s x s' bs \<longleftrightarrow> (\<forall>pre suf. g s (reader_at pre (bs @ suf)) = (Inr x, s', reader_at (pre @ bs) suf))"

lemma recovers_bind:
  "recovers g s x s1 bs \<Longrightarrow> recovers (f x) s1 y s2 cs \<Longrightarrow> recovers (rc_bind g f) s y s2 (bs @ cs)"
  by (simp add: recovers_def rc_bind_def)

lemma recovers_last: "recovers g s x s1 bs \<Longrightarrow> recovers (f x) s1 y s2 [] \<Longrightarrow> recovers (rc_bind g f) s y s2 bs"
  using recovers_bind [of g s x s1 bs f y s2 "[]"] by simp

lemma recovers_silent:
  "recovers g s x s1 [] \<Longrightarrow> recovers (f x) s1 y s2 bs \<Longrightarrow> recovers (rc_bind g f) s y s2 bs"
  using recovers_bind [of g s x s1 "[]" f y s2 bs] by simp

lemma recovers_read: "reads g (Inr x) bs \<Longrightarrow> recovers (rc_read g) s x s bs"
  by (simp add: recovers_def reads_def rc_read_def)

lemma recovers_update: "f s = s' \<Longrightarrow> recovers (rc_update f) s () s' []"
  by (simp add: recovers_def rc_update_def)

lemma recovers_call: "f s = (status_success, s') \<Longrightarrow> recovers (rc_call f) s () s' []"
  by (simp add: recovers_def rc_call_def)

lemma recovers_check: "\<not> b \<Longrightarrow> recovers g s x s' bs \<Longrightarrow> recovers (rc_check b e g) s x s' bs"
  by (simp add: recovers_def rc_check_def)

lemma recovers_times:
  assumes "\<And>i. i < length xs \<Longrightarrow> recovers g (st i) () (st (Suc i)) (put (xs ! i))"
  shows "recovers (rc_times (length xs) g) (st 0) () (st (length xs)) (concat (map put xs))"
  using assms
proof (induction xs arbitrary: st)
  case (Cons x xs)
  have head: "recovers g (st 0) () (st 1) (put x)" using Cons.prems [of 0] by simp
  have "recovers (rc_times (length xs) g) (st 1) () (st (Suc (length xs))) (concat (map put xs))"
    using Cons.IH [of "\<lambda>i. st (Suc i)"] Cons.prems by fastforce
  from recovers_bind [OF head this] show ?case by (simp add: recovers_def)
qed (simp add: recovers_def)

lemma recovers_table:
  assumes len: "length xs \<le> unat limit"
    and step: "\<And>i. i < length xs \<Longrightarrow> recovers g (st i) () (st (Suc i)) (put (xs ! i))"
    and ends: "st 0 = s" "st (length xs) = s'"
  shows "recovers (rc_table limit msg g) s () s' (put_table put xs)"
proof -
  have "unat limit < 2 ^ LENGTH(32)" by (rule unsigned_less)
  then have n: "unat (of_nat (length xs) :: u32) = length xs" using len length_field by simp
  then have "\<not> of_nat (length xs) > limit" using len by (simp add: word_less_nat_alt)
  moreover have "recovers (rc_times (length xs) g) s () s' (concat (map put xs))"
    using recovers_times [of xs g st put, OF step] ends by simp
  ultimately show ?thesis
    unfolding rc_table_def put_table_def
    by (intro recovers_bind [OF recovers_read [OF reads_val [OF reads_words(2)]]] recovers_check) (simp_all add: n)
qed

lemma recovers_run: "recovers g s x s' bs \<Longrightarrow> g s (byte_reader (bs @ rest)) = (Inr x, s', reader_at bs rest)"
  by (simp add: recovers_def byte_reader_at)

section \<open>The engine that recovery rebuilds\<close>

definition recovered_policies :: "(PolicyGeneration, AdmissionPolicy) omap \<Rightarrow> PolicyEngine" where
  "recovered_policies P = \<lparr>pe_policies = P, pe_latest = (if P = [] then Id 0 else fst (last P)), pe_counter = 1\<rparr>"

definition recovered_profiles :: "(string, PredictionProfile) omap \<Rightarrow> WorkloadPredictor" where
  "recovered_profiles ps = fold (\<lambda>e wp. snd (register_profile (snd e) wp)) ps predictor_empty"

definition recovered_request :: "i64 \<Rightarrow> AdmissionRequestId \<times> RequestRecord \<Rightarrow> AdmissionRequestId \<times> RequestRecord" where
  "recovered_request now e = (fst e, \<lparr>rr_id = fst e, rr_lifecycle = rr_lifecycle (snd e),
     rr_descriptor = rr_descriptor (snd e), rr_last_decision = map_option decision_core (rr_last_decision (snd e)),
     rr_created_at = now, rr_updated_at = now, rr_evaluation_count = 0\<rparr>)"

definition recovered_reservations :: "ReservationManager \<Rightarrow> ResourceVector \<Rightarrow> ReservationManager" where
  "recovered_reservations m t = m\<lparr>rm_total := t, rm_generation := 1\<rparr>"

definition recovered :: "i64 \<Rightarrow> AdmissionFabric \<Rightarrow> AdmissionFabric" where
  "recovered now s = rebind_overcommit
     \<lparr>af_policy = recovered_policies (pe_policies (af_policy s)),
      af_predictor = recovered_profiles (wp_profs (af_predictor s)),
      af_reservations = recovered_reservations (af_reservations s)
        (if af_has_snapshot s then snap_total (af_snapshot s) else rv_zero),
      af_snapshot = (if af_has_snapshot s then af_snapshot s else default_snapshot),
      af_has_snapshot = af_has_snapshot s, af_quota = af_quota s, af_fairness = [], af_metrics = metrics_empty,
      af_requests = map (recovered_request now) (af_requests s),
      af_admission_generation = af_admission_generation s, af_reservation_counter = af_reservation_counter s\<rparr>"

definition live :: "ResourceReservation \<Rightarrow> bool" where
  "live r \<longleftrightarrow> rsv_status r = ReservationStatus_Reserved \<or> rsv_status r = ReservationStatus_Committed"

definition policies_recoverable :: "(PolicyGeneration, AdmissionPolicy) omap \<Rightarrow> bool" where
  "policies_recoverable P \<longleftrightarrow> om_ok P \<and> length P \<le> kMaxGenerations
     \<and> list_all (\<lambda>(g, p). p_generation p = g \<and> status_ok (policy_validate p) \<and> policy_encodable p) P"

definition recoverable :: "AdmissionFabric \<Rightarrow> bool" where
  "recoverable s \<longleftrightarrow> policies_recoverable (pe_policies (af_policy s))
     \<and> length (wp_profs (af_predictor s)) \<le> kMaxProfiles
     \<and> list_all (\<lambda>(k, p). profile_encodable p) (wp_profs (af_predictor s))
     \<and> rm_wf (af_reservations s) \<and> length (rm_reservations (af_reservations s)) \<le> 1048576
     \<and> list_all (\<lambda>(k, r). live r) (rm_reservations (af_reservations s))
     \<and> overcommit_ok (rm_overcommit_mode (af_reservations s))
     \<and> om_ok (af_requests s) \<and> length (af_requests s) \<le> 1048576
     \<and> list_all (\<lambda>(k, r). descriptor_encodable (rr_descriptor r) \<and> pred_option decision_encodable (rr_last_decision r))
         (af_requests s)
     \<and> quota_encodable (af_quota s)
     \<and> (if af_has_snapshot s then snapshot_encodable (af_snapshot s) else True)"

section \<open>Table by table\<close>

lemma om_ok_nth_less: "om_ok m \<Longrightarrow> j < i \<Longrightarrow> i < length m \<Longrightarrow> fst (m ! j) < fst (m ! i)"
  by (simp add: om_ok_def sorted_wrt_iff_nth_less)

lemma om_take_below:
  assumes "om_ok m" "i < length m" shows "\<forall>j \<in> fst ` set (take i m). j < fst (m ! i)"
proof
  fix j assume "j \<in> fst ` set (take i m)"
  then obtain k where "k < i" "j = fst (m ! k)" using assms(2) by (auto simp: in_set_conv_nth)
  then show "j < fst (m ! i)" using om_ok_nth_less [OF assms(1)] assms(2) by simp
qed

lemma om_append_next:
  assumes "om_ok m" "i < length m"
  shows "om_find (take i m) (fst (m ! i)) = None" and "om_put (fst (m ! i)) v (take i m) = take i m @ [(fst (m ! i), v)]"
proof -
  note below = om_take_below [OF assms]
  show "om_put (fst (m ! i)) v (take i m) = take i m @ [(fst (m ! i), v)]" by (rule om_put_last [OF below])
  show "om_find (take i m) (fst (m ! i)) = None" using below by (auto simp: om_find_def map_of_eq_None_iff)
qed

lemma install_recovered:
  assumes P: "policies_recoverable P" and i: "i < length P"
  shows "install_at_generation (snd (P ! i)) (p_generation (snd (P ! i))) (recovered_policies (take i P))
    = (status_success, recovered_policies (take (Suc i) P))"
proof -
  obtain g p where e: "P ! i = (g, p)" by (cases "P ! i")
  have ok: "om_ok P" and p: "p_generation p = g" "status_ok (policy_validate p)"
    using P i e by (auto simp: policies_recoverable_def list_all_length split: prod.splits dest!: spec [of _ i])
  have latest: "fst (last (take i P)) < g" if "i \<noteq> 0"
  proof -
    have "last (take i P) = P ! (i - 1)" using that i by (subst last_conv_nth) auto
    then show ?thesis using om_ok_nth_less [OF ok, of "i - 1" i] that i e by simp
  qed
  have "p\<lparr>p_generation := g\<rparr> = p" using p(1) by simp
  then show ?thesis
    using om_append_next [OF ok i] p latest i
    by (auto simp: install_at_generation_def recovered_policies_def e take_Suc_conv_app_nth less_Id_def)
qed

lemma rm_restore_table:
  assumes wf: "rm_wf m" and alive: "list_all (\<lambda>(k, r). live r) (rm_reservations m)"
  shows "rm_restore (map snd (rm_reservations m)) (rm_reserved_sum m) (rm_used_sum m) m0
    = (status_success, m0\<lparr>rm_reservations := rm_reservations m, rm_reserved_sum := rm_reserved_sum m,
        rm_used_sum := rm_used_sum m\<rparr>)"
proof -
  let ?t = "rm_reservations m"
  have ids: "\<forall>(k, r) \<in> set ?t. rsv_id r = k" and ok: "om_ok ?t"
    using wf by (auto simp: rm_wf_def table_wf_def)
  have "map rsv_id (map snd ?t) = map fst ?t" using ids by auto
  then have "distinct (map rsv_id (map snd ?t))" using om_ok_distinct [OF ok] by metis
  then have "restore_loop (map snd ?t) [] rv_zero rv_zero = Inr (rm_reserved_sum m, rm_used_sum m)"
    using restore_loop_accounting [of ?t "[]"] accounting_loop_table [OF wf] alive
    by (auto simp: list_all_iff live_def)
  then show ?thesis using fold_om_put_sorted [OF ok ids] by (simp add: rm_restore_def)
qed

lemma recovers_policies:
  assumes P: "policies_recoverable P" and s: "af_policy s = policy_engine_empty"
  shows "recovers (rc_table (of_nat kMaxGenerations) msg restore_policy) s () (s\<lparr>af_policy := recovered_policies P\<rparr>)
    (put_table (\<lambda>e. encode_policy (snd e)) P)"
proof (rule recovers_table [where st = "\<lambda>i. s\<lparr>af_policy := recovered_policies (take i P)\<rparr>"])
  show "s\<lparr>af_policy := recovered_policies (take 0 P)\<rparr> = s"
    using s by (simp add: recovered_policies_def policy_engine_empty_def)
  show "length P \<le> unat (of_nat kMaxGenerations :: u32)"
    using P by (simp add: policies_recoverable_def kMaxGenerations_def)
  fix i assume i: "i < length P"
  have "policy_encodable (snd (P ! i))"
    using P nth_mem [OF i] by (cases "P ! i") (auto simp: policies_recoverable_def list_all_iff)
  from recovers_read [OF reads_policy [OF this]]
  show "recovers restore_policy (s\<lparr>af_policy := recovered_policies (take i P)\<rparr>) ()
      (s\<lparr>af_policy := recovered_policies (take (Suc i) P)\<rparr>) (encode_policy (snd (P ! i)))"
    unfolding restore_policy_def
    by (rule recovers_last, intro recovers_call) (simp add: install_recovered [OF P i])
qed simp

lemma recovers_profiles:
  assumes ps: "length ps \<le> kMaxProfiles" "list_all (\<lambda>(k, p). profile_encodable p) ps"
    and s: "af_predictor s = predictor_empty"
  shows "recovers (rc_table (of_nat kMaxProfiles) msg restore_profile) s () (s\<lparr>af_predictor := recovered_profiles ps\<rparr>)
    (put_table (\<lambda>e. encode_prediction_profile (snd e)) ps)"
proof (rule recovers_table [where st = "\<lambda>i. s\<lparr>af_predictor := recovered_profiles (take i ps)\<rparr>"])
  show "s\<lparr>af_predictor := recovered_profiles (take 0 ps)\<rparr> = s" using s by (simp add: recovered_profiles_def)
  show "length ps \<le> unat (of_nat kMaxProfiles :: u32)" using ps(1) by (simp add: kMaxProfiles_def)
  fix i assume i: "i < length ps"
  have "profile_encodable (snd (ps ! i))"
    using ps(2) nth_mem [OF i] by (cases "ps ! i") (auto simp: list_all_iff)
  from recovers_read [OF reads_prediction_profile [OF this]]
  show "recovers restore_profile (s\<lparr>af_predictor := recovered_profiles (take i ps)\<rparr>) ()
      (s\<lparr>af_predictor := recovered_profiles (take (Suc i) ps)\<rparr>) (encode_prediction_profile (snd (ps ! i)))"
    unfolding restore_profile_def
    by (rule recovers_last, intro recovers_update) (simp add: recovered_profiles_def take_Suc_conv_app_nth i)
qed simp

lemma lifecycle_read: "lifecycle_enumerators ! unat (lifecycle_byte l) = l" "\<not> lifecycle_byte l > lifecycle_byte RequestLifecycle_Cancelled"
  by (cases l; simp add: lifecycle_enumerators_def)+

lemma recovers_requests:
  assumes ok: "om_ok rs" and len: "length rs \<le> 1048576"
    and enc: "list_all (\<lambda>(k, r). descriptor_encodable (rr_descriptor r) \<and> pred_option decision_encodable (rr_last_decision r)) rs"
    and s: "af_requests s = []"
  shows "recovers (rc_table (push_bit 20 1) msg (restore_request now)) s ()
    (s\<lparr>af_requests := map (recovered_request now) rs\<rparr>) (put_table encode_request rs)"
proof (rule recovers_table [where st = "\<lambda>i. s\<lparr>af_requests := map (recovered_request now) (take i rs)\<rparr>"])
  show "s\<lparr>af_requests := map (recovered_request now) (take 0 rs)\<rparr> = s" using s by simp
  show "length rs \<le> unat (push_bit 20 1 :: u32)" using len by simp
  fix i assume i: "i < length rs"
  obtain k r where e: "rs ! i = (k, r)" by (cases "rs ! i")
  have c: "descriptor_encodable (rr_descriptor r)" "pred_option decision_encodable (rr_last_decision r)"
    using enc i e by (auto simp: list_all_length split: prod.splits dest!: spec [of _ i])
  let ?m = "map (recovered_request now) (take i rs)"
  let ?rec = "snd (recovered_request now (k, r))"
  have keys: "fst ` set ?m = fst ` set (take i rs)" by (force simp: recovered_request_def)
  have absent: "om_find ?m k = None"
    using om_append_next(1) [OF ok i] e unfolding om_find_def map_of_eq_None_iff keys by simp
  have "\<forall>j \<in> fst ` set ?m. j < k"
    unfolding keys using om_take_below [OF ok i] e by simp
  then have put: "om_put k ?rec ?m = map (recovered_request now) (take (Suc i) rs)"
    using i e by (simp add: om_put_last take_Suc_conv_app_nth recovered_request_def)
  have dec: "reads (rd_opt decode_decision) (Inr (map_option decision_core (rr_last_decision r)))
      (put_opt encode_decision (rr_last_decision r))"
    using c(2) by (intro reads_opt_map reads_decision) simp
  show "recovers (restore_request now) (s\<lparr>af_requests := ?m\<rparr>) ()
      (s\<lparr>af_requests := map (recovered_request now) (take (Suc i) rs)\<rparr>) (encode_request (rs ! i))"
    unfolding restore_request_def encode_request_def e fst_conv snd_conv
    by (rule recovers_bind, rule recovers_read [OF reads_val [OF reads_id]],
        rule recovers_bind, rule recovers_read [OF reads_val [OF reads_u8_put]],
        rule recovers_check, rule lifecycle_read(2),
        rule recovers_bind, rule recovers_read [OF reads_descriptor [OF c(1)]],
        rule recovers_last, rule recovers_read [OF dec],
        rule recovers_last, (simp add: recovers_def rc_check_def rc_update_def absent), rule recovers_update)
      (simp add: lifecycle_read flip: put, simp add: recovered_request_def default_request_record_def)
qed simp

lemma recovered_total: "rm_set_total (recovered_reservations m t) u = recovered_reservations m u"
  by (rule ReservationManager.equality) (simp_all add: rm_set_total_def recovered_reservations_def)

lemma reads_reservation_table:
  assumes "length t \<le> 1048576" and "list_all (\<lambda>(k, r). reservation_encodable r) t"
  shows "\<not> of_nat (length t) > (push_bit 20 1 :: u32)"
    and "reads (rd_times (unat (of_nat (length t) :: u32)) read_reservation) (Inr (map snd t))
      (concat (map (\<lambda>e. encode_reservation (snd e)) t))"
proof -
  have "length t < 2 ^ 32" using assms(1) by simp
  then have n: "unat (of_nat (length t) :: u32) = length t" using length_field by blast
  then show "\<not> of_nat (length t) > (push_bit 20 1 :: u32)" using assms(1) by (simp add: word_less_nat_alt)
  have "reads read_reservation (Inr r) (encode_reservation r)" if "r \<in> set (map snd t)" for r
  proof -
    have r: "reservation_encodable r" using assms(2) that by (auto simp: list_all_iff)
    then have "\<not> rstatus_byte (rsv_status r) > rstatus_byte ReservationStatus_RolledBack"
      by (auto simp: reservation_encodable_def rstatus_enumerators_def)
    with r show ?thesis
      unfolding read_reservation_def by (intro reads_last [OF reads_reservation] reads_check reads_return)
  qed
  then show "reads (rd_times (unat (of_nat (length t) :: u32)) read_reservation) (Inr (map snd t))
      (concat (map (\<lambda>e. encode_reservation (snd e)) t))"
    using reads_times [of "map snd t" read_reservation encode_reservation] n by (simp add: comp_def)
qed

lemma reads_mode: "reads get_u8 (overcommit_byte md) (put_enum overcommit_byte md)"
  unfolding put_enum_def by (rule reads_u8_put)

lemma recovers_reservations:
  assumes wf: "rm_wf m" and len: "length (rm_reservations m) \<le> 1048576"
    and alive: "list_all (\<lambda>(k, r). live r) (rm_reservations m)" and mode: "overcommit_ok (rm_overcommit_mode m)"
    and s: "af_reservations s = rm_empty"
  shows "recovers restore_reservations s () (s\<lparr>af_reservations := recovered_reservations m rv_zero\<rparr>)
    (put_table (\<lambda>e. encode_reservation (snd e)) (rm_reservations m) @ encode_resource_vector (rm_reserved_sum m)
     @ encode_resource_vector (rm_used_sum m) @ put_enum overcommit_byte (rm_overcommit_mode m)
     @ encode_resource_vector (rm_overcommit_allowance m))"
proof -
  let ?rs = "map snd (rm_reservations m)"
  have "list_all (\<lambda>(k, r). reservation_encodable r) (rm_reservations m)"
    using alive by (auto simp: list_all_iff live_def reservation_encodable_def rstatus_enumerators_def)
  note table = reads_reservation_table [OF len this]
  have om: "overcommit_of_byte (overcommit_byte (rm_overcommit_mode m)) = rm_overcommit_mode m"
    using overcommit_enum.enum_of_val [OF mode] by (simp add: overcommit_of_byte_def)
  define m1 where "m1 = rm_empty\<lparr>rm_reservations := rm_reservations m, rm_reserved_sum := rm_reserved_sum m,
      rm_used_sum := rm_used_sum m\<rparr>"
  have final: "rm_set_overcommit_allowance (rm_set_overcommit_mode m1 (rm_overcommit_mode m)) (rm_overcommit_allowance m)
      = recovered_reservations m rv_zero"
    by (rule ReservationManager.equality) (simp_all add: m1_def rm_empty_def rm_set_overcommit_allowance_def
        rm_set_overcommit_mode_def recovered_reservations_def)
  have filled: "(case rm_restore ?rs (rm_reserved_sum m) (rm_used_sum m) (af_reservations s) of
        (st, m) \<Rightarrow> (st, s\<lparr>af_reservations := m\<rparr>)) = (status_success, s\<lparr>af_reservations := m1\<rparr>)"
    by (simp add: rm_restore_table [OF wf alive] s m1_def)
  show ?thesis
    unfolding restore_reservations_def put_table_def append_assoc
    apply (rule recovers_bind, rule recovers_read [OF reads_val [OF reads_words(2)]], rule recovers_check, rule table(1))
    apply (rule recovers_bind, rule recovers_read [OF table(2)])
    apply (rule recovers_bind, rule recovers_read [OF reads_ok [OF reads_rv]])
    apply (rule recovers_bind, rule recovers_read [OF reads_ok [OF reads_rv]])
    apply (rule recovers_bind, rule recovers_read [OF reads_val [OF reads_mode]])
    apply (rule recovers_last, rule recovers_read [OF reads_ok [OF reads_rv]])
    apply (rule recovers_last, rule recovers_call, rule filled, rule recovers_update)
    by (simp add: om final)
qed

lemma recovers_saved:
  assumes ok: "recoverable s"
  shows "recovers (restore_state now) fabric_empty () (recovered now s) (save_state s)"
proof -
  have P: "policies_recoverable (pe_policies (af_policy s))"
    and ps: "length (wp_profs (af_predictor s)) \<le> kMaxProfiles" "list_all (\<lambda>(k, p). profile_encodable p) (wp_profs (af_predictor s))"
    and m: "rm_wf (af_reservations s)" "length (rm_reservations (af_reservations s)) \<le> 1048576"
      "list_all (\<lambda>(k, r). live r) (rm_reservations (af_reservations s))" "overcommit_ok (rm_overcommit_mode (af_reservations s))"
    and rs: "om_ok (af_requests s)" "length (af_requests s) \<le> 1048576"
      "list_all (\<lambda>(k, r). descriptor_encodable (rr_descriptor r) \<and> pred_option decision_encodable (rr_last_decision r))
         (af_requests s)"
    and q: "quota_encodable (af_quota s)" and snap: "af_has_snapshot s \<Longrightarrow> snapshot_encodable (af_snapshot s)"
    using ok by (simp_all add: recoverable_def)
  let ?s5 = "\<lambda>has. \<lparr>af_policy = recovered_policies (pe_policies (af_policy s)),
      af_predictor = recovered_profiles (wp_profs (af_predictor s)),
      af_reservations = recovered_reservations (af_reservations s) rv_zero,
      af_snapshot = default_snapshot, af_has_snapshot = has, af_quota = af_quota s, af_fairness = [],
      af_metrics = metrics_empty, af_requests = map (recovered_request now) (af_requests s),
      af_admission_generation = af_admission_generation s, af_reservation_counter = af_reservation_counter s\<rparr>"
  have bound: "recovers (rc_bind g (\<lambda>_. rc_bind (rc_update rebind_overcommit) (\<lambda>_. rc_read (rd_done ())))) t ()
      (rebind_overcommit t') bs" if "recovers g t () t' bs" for g t t' bs
    by (rule recovers_last, rule that, rule recovers_last, rule recovers_update, rule refl,
        rule recovers_read, rule reads_done, rule refl)
  have tail: "recovers (rc_bind (if has then rc_bind (rc_read decode_snapshot) (\<lambda>snap. rc_update (set_snapshot snap))
              else rc_update (\<lambda>s. s)) (\<lambda>_. rc_bind (rc_update rebind_overcommit) (\<lambda>_. rc_read (rd_done ()))))
      (?s5 has) () (recovered now s) (if has then encode_snapshot (af_snapshot s) else [])"
    if has: "has = af_has_snapshot s" for has
  proof (cases has)
    case True
    have "recovers (rc_bind (rc_read decode_snapshot) (\<lambda>snap. rc_update (set_snapshot snap))) (?s5 True) ()
        (set_snapshot (af_snapshot s) (?s5 True)) (encode_snapshot (af_snapshot s))"
      using True has by (intro recovers_last [OF recovers_read [OF reads_snapshot [OF snap]] recovers_update]) simp_all
    from bound [OF this] show ?thesis
      using True has by (simp add: recovered_def set_snapshot_def recovered_total)
  next
    case False
    from bound [OF recovers_update [OF refl, of "\<lambda>s. s" "?s5 False"]] show ?thesis
      using False has by (simp add: recovered_def)
  qed
  have table: "recovers (rc_bind restore_reservations f) t () t' (put_table (\<lambda>e. encode_reservation (snd e))
        (rm_reservations (af_reservations s)) @ encode_resource_vector (rm_reserved_sum (af_reservations s))
      @ encode_resource_vector (rm_used_sum (af_reservations s))
      @ put_enum overcommit_byte (rm_overcommit_mode (af_reservations s))
      @ encode_resource_vector (rm_overcommit_allowance (af_reservations s)) @ cs)"
    if "af_reservations t = rm_empty"
      and "recovers (f ()) (t\<lparr>af_reservations := recovered_reservations (af_reservations s) rv_zero\<rparr>) () t' cs" for f t t' cs
    using recovers_bind [where f = f, OF recovers_reservations [OF m that(1)] that(2)] by simp
  show ?thesis
    unfolding restore_state_def save_state_def
    by (rule recovers_silent, rule recovers_update, rule refl,
        rule recovers_bind, rule recovers_policies [OF P], simp add: fabric_empty_def,
        rule recovers_bind, rule recovers_profiles [OF ps], simp add: fabric_empty_def,
        rule table, simp add: fabric_empty_def,
        rule recovers_bind, rule recovers_requests [OF rs], simp add: fabric_empty_def,
        rule recovers_bind, rule recovers_read [OF reads_quota [OF q]],
        rule recovers_silent, rule recovers_update, rule refl,
        rule recovers_bind, rule recovers_read [OF reads_val [OF reads_id]],
        rule recovers_silent, rule recovers_update, rule refl,
        rule recovers_bind, rule recovers_read [OF reads_val [OF reads_words(3)]],
        rule recovers_silent, rule recovers_update, rule refl,
        rule recovers_bind, rule recovers_read [OF reads_val [OF reads_flag]],
        rule recovers_silent, rule recovers_update, rule refl)
      (use tail [OF refl] in \<open>simp add: fabric_empty_def set_quota_def\<close>)
qed

end
