(* ===== verification/Store_Spec.thy ===== *)
theory Store_Spec
  imports Recovery_Spec
begin

text \<open>
  The state store end to end: what a save followed by a load gives back, what a failed save leaves behind, what a
  restart means for a grant that was not yet committed, and which saved states cannot be loaded.
\<close>

section \<open>Save, then load\<close>

lemma load_after_save:
  assumes "length (save_state s) < 2 ^ 32" and "fs (cfg_path cfg) = Some (build_payload s cfg)"
  shows "store_load now cfg fs f = (case restore_state now f (byte_reader (save_state s)) of
      (Inl e, f1, r) \<Rightarrow> (e, f1)
    | (Inr _, f1, r) \<Rightarrow> (if \<not> br_ok r then corrupt (br_error r)
         else if br_remaining r \<noteq> 0 then corrupt ''trailing bytes after state'' else status_success, f1))"
proof -
  have "parse_frame (build_payload s cfg) (cfg_magic cfg) (cfg_version cfg) = Inr (save_state s)"
    using assms(1) by (simp add: parse_frame_Inr build_payload_def)
  moreover have "build_payload s cfg \<noteq> []" by (simp add: build_payload_def frame_def put_u32_def put_le_def)
  ultimately show ?thesis using assms(2) by (simp add: store_load_def load_payload_def apply_payload_def)
qed

lemma saved_file: "snd (store_save FsDone cfg s fs) (cfg_path cfg) = Some (build_payload s cfg)"
  by (simp add: store_save_def cfg_temp_path_def Let_def)

lemma rebind_fields [simp]:
  "rm_reservations (af_reservations (rebind_overcommit s)) = rm_reservations (af_reservations s)"
  "rm_reserved_sum (af_reservations (rebind_overcommit s)) = rm_reserved_sum (af_reservations s)"
  "rm_used_sum (af_reservations (rebind_overcommit s)) = rm_used_sum (af_reservations s)"
  "rm_total (af_reservations (rebind_overcommit s)) = rm_total (af_reservations s)"
  "af_requests (rebind_overcommit s) = af_requests s" "af_quota (rebind_overcommit s) = af_quota s"
  "af_policy (rebind_overcommit s) = af_policy s"
  "af_admission_generation (rebind_overcommit s) = af_admission_generation s"
  "af_reservation_counter (rebind_overcommit s) = af_reservation_counter s"
  by (simp_all add: rebind_overcommit_def split: option.split)

lemma recovered_tables [simp]:
  "rm_reservations (af_reservations (recovered now s)) = rm_reservations (af_reservations s)"
  "rm_reserved_sum (af_reservations (recovered now s)) = rm_reserved_sum (af_reservations s)"
  "rm_used_sum (af_reservations (recovered now s)) = rm_used_sum (af_reservations s)"
  "af_requests (recovered now s) = map (recovered_request now) (af_requests s)"
  "pe_policies (af_policy (recovered now s)) = pe_policies (af_policy s)"
  "af_quota (recovered now s) = af_quota s"
  "af_admission_generation (recovered now s) = af_admission_generation s"
  "af_reservation_counter (recovered now s) = af_reservation_counter s"
  by (simp_all add: recovered_def recovered_reservations_def recovered_policies_def)

lemma saved_then_loaded:
  assumes "recoverable s" and "length (save_state s) < 2 ^ 32"
  shows "store_load now cfg (snd (store_save FsDone cfg s fs)) fabric_empty = (status_success, recovered now s)"
  using load_after_save [of s "snd (store_save FsDone cfg s fs)" cfg now fabric_empty, OF assms(2) saved_file]
    recovers_run [OF recovers_saved [OF assms(1)], of now "[]"]
  by (simp add: br_ok_def br_remaining_def)

text \<open>Recovery registers the saved profiles anew, in key order, and so renumbers their generations from 2.\<close>

definition profiles_keyed :: "(string, PredictionProfile) omap \<Rightarrow> bool" where
  "profiles_keyed ps \<longleftrightarrow> om_ok ps \<and> length ps \<le> kMaxProfiles \<and> list_all (\<lambda>(k, p). profile_key p = k) ps"

definition renumbered :: "(string, PredictionProfile) omap \<Rightarrow> (string, PredictionProfile) omap" where
  "renumbered ps = map (\<lambda>(g, k, p). (k, p\<lparr>pp_generation := of_nat g\<rparr>)) (enumerate 2 ps)"

lemma renumbered_keys [simp]: "map fst (renumbered ps) = map fst ps"
proof -
  have "map fst (map (\<lambda>(g, k, p). (k, p\<lparr>pp_generation := of_nat g\<rparr>)) (enumerate n ps)) = map fst ps" for n
    by (induction ps arbitrary: n) auto
  then show ?thesis by (simp add: renumbered_def)
qed

lemma recovered_profiles_exact:
  "profiles_keyed ps \<Longrightarrow> profiles_ok (recovered_profiles ps) \<and> wp_profs (recovered_profiles ps) = renumbered ps
     \<and> wp_learn (recovered_profiles ps) = [] \<and> wp_generation (recovered_profiles ps) = of_nat (length ps + 1)"
proof (induction ps rule: rev_induct)
  case Nil
  show ?case by (simp add: recovered_profiles_def renumbered_def predictor_empty_def profiles_ok_def)
next
  case (snoc e ps)
  obtain k p where e: "e = (k, p)" by (cases e)
  let ?wp = "recovered_profiles ps"
  have keyed: "profiles_keyed ps" and k: "profile_key p = k" and below: "\<forall>j \<in> fst ` set ps. j < k"
    and len: "length ps < kMaxProfiles"
    using snoc.prems by (auto simp: profiles_keyed_def e om_ok_def sorted_wrt_append)
  note IH = snoc.IH [OF keyed]
  have prof: "wp_profs ?wp = renumbered ps" and ok: "profiles_ok ?wp" and gen: "wp_generation ?wp = of_nat (length ps + 1)"
    using IH by blast+
  have keys: "fst ` set (renumbered ps) = fst ` set ps" using renumbered_keys [of ps] by (metis set_map)
  have next_gen: "predictor_next_generation (wp_generation ?wp) = of_nat (length ps + 2)"
  proof -
    have "unat (of_nat (length ps + 1) :: u64) = length ps + 1"
      by (rule unat_of_nat_u64) (use len in \<open>simp add: kMaxProfiles_def\<close>)
    moreover have "unat u64_max = 18446744073709551615" by (simp add: u64_max_numeral)
    ultimately have "(of_nat (length ps + 1) :: u64) \<noteq> u64_max"
      using len by (intro notI) (simp add: kMaxProfiles_def del: of_nat_add of_nat_Suc)
    then show ?thesis using gen by (simp add: predictor_next_generation_def)
  qed
  have put: "om_put k v (renumbered ps) = renumbered ps @ [(k, v)]" for v
    by (rule om_put_last) (use below keys in simp)
  have whole: "recovered_profiles (ps @ [e]) = snd (register_profile p ?wp)"
    by (simp add: recovered_profiles_def e)
  show ?case
    using ok
  proof (cases rule: register_profile_cases [of ?wp p])
    case (stored wp')
    have "renumbered (ps @ [e]) = renumbered ps @ [(k, p\<lparr>pp_generation := of_nat (length ps + 2)\<rparr>)]"
      by (simp add: renumbered_def enumerate_append_eq e add.commute)
    then show ?thesis
      using stored(1-3,5,6) IH whole k put prof next_gen by simp
  next
    case (full wp')
    have "length (renumbered ps) = length ps" by (simp add: renumbered_def)
    then show ?thesis using full(5) prof len by simp
  qed
qed

text \<open>Every run of the engine keeps its profiles under their own keys.\<close>

lemma profiles_keyed_register:
  assumes "profiles_ok wp" and "profiles_keyed (wp_profs wp)"
  shows "profiles_ok (snd (register_profile p wp)) \<and> profiles_keyed (wp_profs (snd (register_profile p wp)))"
  using assms(1)
proof (cases rule: register_profile_cases [of wp p])
  case (stored wp')
  have ok: "om_ok (wp_profs wp)" using assms(1) by (simp add: profiles_ok_def)
  have key: "profile_key (q\<lparr>pp_generation := g\<rparr>) = profile_key q" for q g by (simp add: profile_key_def)
  have "list_all (\<lambda>(k, q). profile_key q = k) (wp_profs wp')"
    using assms(2) stored(3) by (auto simp: list_all_iff profiles_keyed_def om.entries_put [OF ok] key)
  then show ?thesis using stored(1,2) by (simp add: profiles_keyed_def profiles_ok_def)
next
  case (full wp')
  then show ?thesis using assms(2) by simp
qed

lemma evaluate_reserve_predictor [simp]: "af_predictor (snd (evaluate_reserve now d pol a s)) = af_predictor s"
  by (simp add: evaluate_reserve_def finish_reject_def finish_defer_def next_reservation_id_def next_admission_generation_def
      Let_def case_prod_beta split: sum.split)

lemma evaluate_predictor [simp]: "af_predictor (snd (fabric_evaluate pf now d s)) = af_predictor s"
proof (cases rule: fabric_evaluate_cases [where d = d and s = s and now = now and pf = pf])
  case turned_away
  then show ?thesis using refused_frame(5) by fastforce
next
  case no_policy
  then show ?thesis using refused_frame(5) by fastforce
next
  case (gated base)
  then show ?thesis using refused_frame(5) by fastforce
next
  case (admitted base)
  then show ?thesis by simp
qed

lemma run_profiles_keyed: "profiles_keyed (wp_profs (af_predictor (fabric_run pf ops)))"
proof -
  have step: "profiles_ok (af_predictor (fabric_exec pf op s)) \<and> profiles_keyed (wp_profs (af_predictor (fabric_exec pf op s)))"
    if "profiles_ok (af_predictor s)" "profiles_keyed (wp_profs (af_predictor s))" for op s
  proof (cases op)
    case (FabProfile p)
    then show ?thesis using profiles_keyed_register [OF that] by (simp add: fabric_register_profile_def case_prod_beta)
  next
    case (FabObserve ob)
    then show ?thesis using that profiles_ok_observe by (simp add: fabric_observe_def predictor_observe_def Let_def)
  next
    case (FabPolicy p)
    then show ?thesis using that by (simp add: install_policy_def Let_def case_prod_beta split: option.split)
  next
    case (FabCommit now rid gen)
    then show ?thesis using that by (simp add: commit_admission_def Let_def case_prod_beta split: option.split)
  next
    case (FabCancel now rid)
    then show ?thesis using that by (simp add: cancel_request_def Let_def split: option.split)
  qed (use that in \<open>simp_all add: set_snapshot_def set_quota_def release_reservation_def Let_def case_prod_beta\<close>)
  have "profiles_ok (af_predictor (fabric_run pf ops)) \<and> profiles_keyed (wp_profs (af_predictor (fabric_run pf ops)))"
  proof (induction ops rule: rev_induct)
    case Nil
    show ?case by (simp add: fabric_run_def fabric_empty_def predictor_empty_def profiles_ok_def profiles_keyed_def)
  qed (use step in \<open>simp add: fabric_run_def\<close>)
  then show ?thesis by simp
qed

lemma recovered_parts [simp]:
  "af_predictor (recovered now s) = recovered_profiles (wp_profs (af_predictor s))"
  "af_has_snapshot (recovered now s) = af_has_snapshot s"
  "af_snapshot (recovered now s) = (if af_has_snapshot s then af_snapshot s else default_snapshot)"
  "af_fairness (recovered now s) = []" "af_metrics (recovered now s) = metrics_empty"
  "rm_total (af_reservations (recovered now s)) = (if af_has_snapshot s then snap_total (af_snapshot s) else rv_zero)"
  "rm_generation (af_reservations (recovered now s)) = 1"
  by (simp_all add: recovered_def recovered_reservations_def rebind_overcommit_def bind_overcommit_def
      rm_set_overcommit_mode_def rm_set_overcommit_allowance_def split: option.split)

lemma recovered_latest:
  assumes "policies_recoverable P"
  shows "policy_latest (recovered_policies P) = (if P = [] then None else Some (snd (last P)))"
proof (cases P rule: rev_cases)
  case Nil
  then show ?thesis by (simp add: policy_latest_def recovered_policies_def)
next
  case (snoc Q e)
  have "om_ok P" using assms by (simp add: policies_recoverable_def)
  moreover have "(fst e, snd e) \<in> set P" by (simp add: snoc)
  ultimately have "om_find P (fst e) = Some (snd e)" by (simp add: om_find_in_set)
  then show ?thesis by (simp add: policy_latest_def recovered_policies_def snoc)
qed

lemma recovered_overcommit:
  "case policy_latest (af_policy (recovered now s)) of
     None \<Rightarrow> rm_overcommit_mode (af_reservations (recovered now s)) = rm_overcommit_mode (af_reservations s)
       \<and> rm_overcommit_allowance (af_reservations (recovered now s)) = rm_overcommit_allowance (af_reservations s)
   | Some pol \<Rightarrow> rm_overcommit_mode (af_reservations (recovered now s)) = p_overcommit pol
       \<and> rm_overcommit_allowance (af_reservations (recovered now s))
         = (if p_overcommit pol = OvercommitMode_None then rv_zero else p_overcommit_allowance pol)"
  by (simp add: recovered_def recovered_reservations_def rebind_overcommit_def bind_overcommit_def
      rm_set_overcommit_mode_def rm_set_overcommit_allowance_def split: option.split)

lemma recovered_policy [simp]: "af_policy (recovered now s) = recovered_policies (pe_policies (af_policy s))"
  by (simp add: recovered_def)

lemma recovered_requests:
  "af_requests (recovered now s) = map (\<lambda>(k, r). (k, \<lparr>rr_id = k, rr_lifecycle = rr_lifecycle r, rr_descriptor = rr_descriptor r,
     rr_last_decision = map_option decision_core (rr_last_decision r),
     rr_created_at = now, rr_updated_at = now, rr_evaluation_count = 0\<rparr>)) (af_requests s)"
  by (simp add: recovered_request_def [abs_def] case_prod_beta)

text \<open>C6: an engine without settled reservations whose profiles are stored under their own keys (as they are after
  every run, \<open>run_profiles_keyed\<close>) is read back from its file. The save and the load succeed. Given back
  unchanged are the policies, the reservation table, both running sums, the quota, the admission generation, the
  reservation counter, and the snapshot where there was one. Given back in part: the profiles keep everything but
  their generation, which is counted anew from 2 in key order; a request keeps its id, lifecycle, descriptor and
  what the decision encoder writes of its last decision (\<open>decision_core\<close>: no memory, duration, SLO and quota
  detail, no expiry or hint), its two timestamps become the time of the load and its evaluation count zero; the
  totals of the manager are those of the snapshot, its overcommit setting that of the policy with the highest
  generation, which is the policy in force. Not given back: the learned adjustments, the fairness table, the
  metrics, and the generation counters of policies and manager, which start at 1.\<close>

theorem recovery_roundtrip:
  assumes "recoverable s" and "profiles_keyed (wp_profs (af_predictor s))" and "length (save_state s) < 2 ^ 32"
  shows "status_ok (fst (store_save FsDone cfg s fs))
    \<and> (\<exists>R. store_load now cfg (snd (store_save FsDone cfg s fs)) fabric_empty = (status_success, R)
      \<and> pe_policies (af_policy R) = pe_policies (af_policy s)
      \<and> rm_reservations (af_reservations R) = rm_reservations (af_reservations s)
      \<and> rm_reserved_sum (af_reservations R) = rm_reserved_sum (af_reservations s)
      \<and> rm_used_sum (af_reservations R) = rm_used_sum (af_reservations s)
      \<and> af_quota R = af_quota s
      \<and> af_admission_generation R = af_admission_generation s
      \<and> af_reservation_counter R = af_reservation_counter s
      \<and> af_has_snapshot R = af_has_snapshot s
      \<and> af_snapshot R = (if af_has_snapshot s then af_snapshot s else default_snapshot)
      \<and> wp_profs (af_predictor R)
          = map (\<lambda>(g, k, p). (k, p\<lparr>pp_generation := of_nat g\<rparr>)) (enumerate 2 (wp_profs (af_predictor s)))
      \<and> af_requests R = map (\<lambda>(k, r). (k, \<lparr>rr_id = k, rr_lifecycle = rr_lifecycle r, rr_descriptor = rr_descriptor r,
          rr_last_decision = map_option decision_core (rr_last_decision r),
          rr_created_at = now, rr_updated_at = now, rr_evaluation_count = 0\<rparr>)) (af_requests s)
      \<and> rm_total (af_reservations R) = (if af_has_snapshot s then snap_total (af_snapshot s) else rv_zero)
      \<and> policy_latest (af_policy R)
          = (if pe_policies (af_policy s) = [] then None else Some (snd (last (pe_policies (af_policy s)))))
      \<and> (case policy_latest (af_policy R) of
            None \<Rightarrow> rm_overcommit_mode (af_reservations R) = rm_overcommit_mode (af_reservations s)
              \<and> rm_overcommit_allowance (af_reservations R) = rm_overcommit_allowance (af_reservations s)
          | Some pol \<Rightarrow> rm_overcommit_mode (af_reservations R) = p_overcommit pol
              \<and> rm_overcommit_allowance (af_reservations R)
                = (if p_overcommit pol = OvercommitMode_None then rv_zero else p_overcommit_allowance pol))
      \<and> wp_learn (af_predictor R) = [] \<and> af_fairness R = [] \<and> af_metrics R = metrics_empty
      \<and> pe_counter (af_policy R) = 1 \<and> rm_generation (af_reservations R) = 1)"
proof (intro conjI exI [of _ "recovered now s"])
  show "status_ok (fst (store_save FsDone cfg s fs))" by (simp add: store_save_def Let_def)
  show "store_load now cfg (snd (store_save FsDone cfg s fs)) fabric_empty = (status_success, recovered now s)"
    by (rule saved_then_loaded [OF assms(1,3)])
  have P: "policies_recoverable (pe_policies (af_policy s))" using assms(1) by (simp add: recoverable_def)
  show "policy_latest (af_policy (recovered now s))
      = (if pe_policies (af_policy s) = [] then None else Some (snd (last (pe_policies (af_policy s)))))"
    using recovered_latest [OF P] by simp
  show "wp_profs (af_predictor (recovered now s))
      = map (\<lambda>(g, k, p). (k, p\<lparr>pp_generation := of_nat g\<rparr>)) (enumerate 2 (wp_profs (af_predictor s)))"
    using recovered_profiles_exact [OF assms(2)] by (simp add: renumbered_def)
  show "wp_learn (af_predictor (recovered now s)) = []" using recovered_profiles_exact [OF assms(2)] by simp
qed (rule recovered_overcommit recovered_requests recovered_tables recovered_parts
    | simp add: recovered_policies_def)+

text \<open>A state with a policy, a reserved and a committed reservation, and their two requests.\<close>

definition demo_reservation :: "ReservationId \<Rightarrow> ReservationStatus \<Rightarrow> ResourceReservation" where
  "demo_reservation rid st = \<lparr>rsv_id = rid, rsv_owner = Id 7, rsv_demand = demo_demand, rsv_created_at = 0,
     rsv_expires_at = 100, rsv_admission_request_id = None, rsv_admission_generation = None, rsv_status = st,
     rsv_generation = 2\<rparr>"

definition demo_saved :: "ReservationStatus \<Rightarrow> AdmissionFabric" where
  "demo_saved st = fabric_empty\<lparr>af_policy := recovered_policies [(Id 1, default_policy\<lparr>p_generation := Id 1\<rparr>)],
     af_reservations := rm_empty\<lparr>rm_reservations := [(Id 1, demo_reservation (Id 1) st)],
       rm_reserved_sum := (if st = ReservationStatus_Reserved then demo_demand else rv_zero),
       rm_used_sum := (if st = ReservationStatus_Committed then demo_demand else rv_zero)\<rparr>,
     af_requests := [(Id 4, default_request_record\<lparr>rr_id := Id 4, rr_lifecycle := RequestLifecycle_Reserved,
       rr_last_decision := Some (default_decision\<lparr>dec_outcome := AdmissionOutcome_Admit,
         dec_reservation_id := Some (Id 1), dec_admission_generation := Id 1\<rparr>)\<rparr>)]\<rparr>"

lemma length_writes [simp]:
  "length (put_u8 b) = 1" "length (put_id i) = 8" "length (put_flag c) = 1" "length (put_i64 q) = 8"
  "length (put_f64 q) = 8" "length (put_i32 w) = 4" "length (put_string t) = 4 + length t"
  "length (put_enum f e) = 1" "length (encode_timepoint q) = 8" "length (put_reason c') = 4"
  by (simp_all add: put_u8_def put_id_def put_flag_def put_words_le put_string_def put_raw_def put_enum_def
      encode_timepoint_def put_reason_def)

lemma length_vector [simp]: "length (encode_resource_vector v) = 96"
  by (simp add: encode_resource_vector_def resource_ids_def length_concat comp_def)

lemma demo_saved_length: "length (save_state (demo_saved st)) < 2 ^ 32"
  by (simp add: save_state_def demo_saved_def fabric_empty_def put_table_def recovered_policies_def encode_policy_def
      default_policy_def predictor_empty_def encode_reservation_def demo_reservation_def put_opt_def encode_request_def
      encode_descriptor_def default_request_record_def default_descriptor_def encode_decision_def default_decision_def
      encode_quota_def default_quota_def put_stringvec_def)

lemma demo_saved_policies: "policies_recoverable (pe_policies (af_policy (demo_saved st)))"
proof -
  have "policy_validate (default_policy\<lparr>p_generation := Id 1\<rparr>) = policy_validate default_policy"
    by (simp add: policy_validate_def)
  then show ?thesis
    using default_policy_valid
    by (simp add: demo_saved_def recovered_policies_def policies_recoverable_def kMaxGenerations_def policy_encodable_def
        string_ok_def default_policy_def enum_canonical_def overcommit_enumerators_def)
qed

lemma demo_saved_wf:
  assumes "st \<in> {ReservationStatus_Reserved, ReservationStatus_Committed, ReservationStatus_Released}"
  shows "rm_wf (af_reservations (demo_saved st))"
proof -
  have "\<not> rv_is_zero demo_demand" by (auto simp: rv_is_zero_iff demo_demand_def)
  moreover have "unat (demo_demand i) < 2 ^ 64" for i using unsigned_less [of "demo_demand i"] by simp
  ultimately show ?thesis
    using assms by (auto simp: demo_saved_def rm_wf_def table_wf_def tally_def contrib_def demo_reservation_def rm_empty_def)
qed

lemma demo_saved_recoverable: "recoverable (demo_saved ReservationStatus_Reserved)"
proof -
  have d: "descriptor_encodable default_descriptor"
    by (simp add: descriptor_encodable_def default_descriptor_def enum_canonical_def workload_enumerators_def
        latency_enumerators_def preemption_enumerators_def string_ok_def strings_ok_def)
  have "decision_encodable (default_decision\<lparr>dec_outcome := AdmissionOutcome_Admit,
         dec_reservation_id := Some (Id 1), dec_admission_generation := Id 1\<rparr>)"
    by (simp add: decision_encodable_def default_decision_def enum_canonical_def outcome_enumerators_def
        reason_enumerators_def string_ok_def)
  then show ?thesis
    using demo_saved_policies [of ReservationStatus_Reserved] demo_saved_wf [of ReservationStatus_Reserved] d
    unfolding recoverable_def
    by (simp add: demo_saved_def fabric_empty_def predictor_empty_def live_def demo_reservation_def rm_empty_def
        enum_canonical_def overcommit_enumerators_def default_request_record_def quota_encodable_def default_quota_def
        string_ok_def)
qed

theorem recovery_roundtrip_witness:
  "\<exists>R. store_load 50 \<lparr>cfg_path = ''state'', cfg_magic = 0xAF1FA000, cfg_version = 1\<rparr>
     (snd (store_save FsDone \<lparr>cfg_path = ''state'', cfg_magic = 0xAF1FA000, cfg_version = 1\<rparr>
       (demo_saved ReservationStatus_Reserved) Map.empty)) fabric_empty = (status_success, R)
   \<and> rm_reserved_sum (af_reservations R) = demo_demand \<and> map fst (af_requests R) = [Id 4]
   \<and> policy_latest (af_policy R) = Some (default_policy\<lparr>p_generation := Id 1\<rparr>)"
proof -
  have "profiles_keyed (wp_profs (af_predictor (demo_saved ReservationStatus_Reserved)))"
    by (simp add: demo_saved_def fabric_empty_def predictor_empty_def profiles_keyed_def)
  from recovery_roundtrip [OF demo_saved_recoverable this demo_saved_length,
      of "\<lparr>cfg_path = ''state'', cfg_magic = 0xAF1FA000, cfg_version = 1\<rparr>" Map.empty 50]
  obtain R where R: "store_load 50 \<lparr>cfg_path = ''state'', cfg_magic = 0xAF1FA000, cfg_version = 1\<rparr>
      (snd (store_save FsDone \<lparr>cfg_path = ''state'', cfg_magic = 0xAF1FA000, cfg_version = 1\<rparr>
        (demo_saved ReservationStatus_Reserved) Map.empty)) fabric_empty = (status_success, R)"
    and sum: "rm_reserved_sum (af_reservations R) = rm_reserved_sum (af_reservations (demo_saved ReservationStatus_Reserved))"
    and keys: "map fst (af_requests R) = map fst (af_requests (demo_saved ReservationStatus_Reserved))"
    and pol: "policy_latest (af_policy R) = (if pe_policies (af_policy (demo_saved ReservationStatus_Reserved)) = [] then None
      else Some (snd (last (pe_policies (af_policy (demo_saved ReservationStatus_Reserved))))))"
    by (elim conjE exE) (simp add: case_prod_beta)
  show ?thesis
    using R sum keys pol by (intro exI [of _ R]) (simp add: demo_saved_def recovered_policies_def)
qed

section \<open>A save is all or nothing\<close>

text \<open>C16: whatever the operating system does, a save reports success exactly when the state file holds
  the complete new payload afterwards because of it; otherwise the state file is the one before the save and loads as before, and no other
  file than it and the temporary file is touched.\<close>

theorem save_is_atomic:
  "(if status_ok (fst (store_save oc cfg f fs))
    then snd (store_save oc cfg f fs) (cfg_path cfg) = Some (build_payload f cfg)
      \<and> snd (store_save oc cfg f fs) (cfg_temp_path cfg) = None
    else snd (store_save oc cfg f fs) (cfg_path cfg) = fs (cfg_path cfg)
      \<and> store_load now cfg (snd (store_save oc cfg f fs)) g = store_load now cfg fs g)
   \<and> (\<forall>p. p = cfg_path cfg \<or> p = cfg_temp_path cfg \<or> snd (store_save oc cfg f fs) p = fs p)
   \<and> (status_ok (fst (store_save oc cfg f fs)) \<longleftrightarrow> oc = FsDone)"
  by (cases oc) (auto simp: store_save_def store_load_def load_payload_def Let_def cfg_temp_path_def io_error_def)

section \<open>A grant across a restart\<close>

lemma om_find_recovered:
  "om_find (map (recovered_request now) rs) rid = map_option (\<lambda>r. snd (recovered_request now (rid, r))) (om_find rs rid)"
  by (induction rs) (auto simp: om_find_def recovered_request_def)

lemma rm_commit_same:
  assumes "rm_reservations m' = rm_reservations m" "rm_reserved_sum m' = rm_reserved_sum m" "rm_used_sum m' = rm_used_sum m"
  shows "fst (rm_commit t rsv rid gen m') = fst (rm_commit t rsv rid gen m)
    \<and> rm_reservations (snd (rm_commit t rsv rid gen m')) = rm_reservations (snd (rm_commit t rsv rid gen m))
    \<and> rm_reserved_sum (snd (rm_commit t rsv rid gen m')) = rm_reserved_sum (snd (rm_commit t rsv rid gen m))
    \<and> rm_used_sum (snd (rm_commit t rsv rid gen m')) = rm_used_sum (snd (rm_commit t rsv rid gen m))"
  using assms by (simp add: rm_commit_def rm_update_def expire_unsafe_def split: option.split)

text \<open>C17: a restart does not change what a grant is worth: committing it on the recovered engine gives the
  status, reservation table and sums that committing it without the restart gives.\<close>

theorem commit_survives_restart:
  assumes "recoverable s" and "length (save_state s) < 2 ^ 32"
  shows "let f = snd (store_load now cfg (snd (store_save FsDone cfg s fs)) fabric_empty);
      (st, s1) = commit_admission t rid gen s; (st', f1) = commit_admission t rid gen f in
    st' = st
    \<and> rm_reservations (af_reservations f1) = rm_reservations (af_reservations s1)
    \<and> rm_reserved_sum (af_reservations f1) = rm_reserved_sum (af_reservations s1)
    \<and> rm_used_sum (af_reservations f1) = rm_used_sum (af_reservations s1)"
proof -
  have f: "snd (store_load now cfg (snd (store_save FsDone cfg s fs)) fabric_empty) = recovered now s"
    using saved_then_loaded [OF assms] by simp
  have commit: "fst (commit_admission t rid gen (recovered now s)) = fst (commit_admission t rid gen s)
      \<and> rm_reservations (af_reservations (snd (commit_admission t rid gen (recovered now s))))
        = rm_reservations (af_reservations (snd (commit_admission t rid gen s)))
      \<and> rm_reserved_sum (af_reservations (snd (commit_admission t rid gen (recovered now s))))
        = rm_reserved_sum (af_reservations (snd (commit_admission t rid gen s)))
      \<and> rm_used_sum (af_reservations (snd (commit_admission t rid gen (recovered now s))))
        = rm_used_sum (af_reservations (snd (commit_admission t rid gen s)))"
  proof -
    have same: "fst (rm_commit t rsv rid gen (af_reservations (recovered now s)))
          = fst (rm_commit t rsv rid gen (af_reservations s))
        \<and> rm_reservations (snd (rm_commit t rsv rid gen (af_reservations (recovered now s))))
          = rm_reservations (snd (rm_commit t rsv rid gen (af_reservations s)))
        \<and> rm_reserved_sum (snd (rm_commit t rsv rid gen (af_reservations (recovered now s))))
          = rm_reserved_sum (snd (rm_commit t rsv rid gen (af_reservations s)))
        \<and> rm_used_sum (snd (rm_commit t rsv rid gen (af_reservations (recovered now s))))
          = rm_used_sum (snd (rm_commit t rsv rid gen (af_reservations s)))" for rsv
      by (rule rm_commit_same) simp_all
    show ?thesis
      using same
      by (auto simp: commit_admission_def om_find_recovered recovered_request_def decision_core_def Let_def case_prod_beta
          split: option.split)
  qed
  then show ?thesis by (simp add: f Let_def case_prod_beta)
qed

theorem commit_survives_restart_witness:
  "fst (commit_admission 60 (Id 4) (Id 1) (snd (store_load 50 \<lparr>cfg_path = ''state'', cfg_magic = 7, cfg_version = 1\<rparr>
     (snd (store_save FsDone \<lparr>cfg_path = ''state'', cfg_magic = 7, cfg_version = 1\<rparr>
       (demo_saved ReservationStatus_Reserved) Map.empty)) fabric_empty)))
   = fst (commit_admission 60 (Id 4) (Id 1) (demo_saved ReservationStatus_Reserved))"
  using commit_survives_restart [OF demo_saved_recoverable demo_saved_length, of 50
    "\<lparr>cfg_path = ''state'', cfg_magic = 7, cfg_version = 1\<rparr>" Map.empty 60 "Id 4" "Id 1"]
  by (simp add: Let_def case_prod_beta)

section \<open>States that cannot be loaded\<close>

definition refuses :: "'a recovery \<Rightarrow> AdmissionFabric \<Rightarrow> bytes \<Rightarrow> bool" where
  "refuses g s bs \<longleftrightarrow> (\<forall>pre suf. \<exists>e t. g s (reader_at pre (bs @ suf)) = (Inl e, t) \<and> \<not> status_ok e)"

lemma refuses_left: "refuses g s bs \<Longrightarrow> refuses (rc_bind g f) s (bs @ cs)"
proof -
  assume g: "refuses g s bs"
  have "\<exists>e t. rc_bind g f s (reader_at pre ((bs @ cs) @ suf)) = (Inl e, t) \<and> \<not> status_ok e" for pre suf
  proof -
    obtain e t where "g s (reader_at pre (bs @ cs @ suf)) = (Inl e, t)" "\<not> status_ok e"
      using g unfolding refuses_def by blast
    then show ?thesis by (cases t) (simp add: rc_bind_def)
  qed
  then show ?thesis unfolding refuses_def by blast
qed

lemma refuses_here: "refuses g s bs \<Longrightarrow> refuses (rc_bind g f) s bs"
  using refuses_left [of g s bs f "[]"] by simp

lemma refuses_right: "recovers g s x s1 bs \<Longrightarrow> refuses (f x) s1 cs \<Longrightarrow> refuses (rc_bind g f) s (bs @ cs)"
  by (simp add: refuses_def recovers_def rc_bind_def)

lemma refuses_last: "recovers g s x s1 bs \<Longrightarrow> refuses (f x) s1 [] \<Longrightarrow> refuses (rc_bind g f) s bs"
  using refuses_right [of g s x s1 bs f "[]"] by simp

lemma refuses_silent: "recovers g s x s1 [] \<Longrightarrow> refuses (f x) s1 bs \<Longrightarrow> refuses (rc_bind g f) s bs"
  using refuses_right [of g s x s1 "[]" f bs] by simp

lemma refuses_check: "\<not> b \<Longrightarrow> refuses g s bs \<Longrightarrow> refuses (rc_check b e g) s bs"
  by (simp add: refuses_def rc_check_def)

lemma refuses_call: "\<not> status_ok (fst (f s)) \<Longrightarrow> refuses (rc_call f) s []"
  by (auto simp: refuses_def rc_call_def split: prod.split)

lemma refuses_reservations:
  assumes len: "length (rm_reservations m) \<le> 1048576"
    and enc: "list_all (\<lambda>(k, r). reservation_encodable r) (rm_reservations m)"
    and bad: "\<not> status_ok (fst (rm_restore (map snd (rm_reservations m)) (rm_reserved_sum m) (rm_used_sum m)
      (af_reservations s)))"
  shows "refuses restore_reservations s
    (put_table (\<lambda>e. encode_reservation (snd e)) (rm_reservations m) @ encode_resource_vector (rm_reserved_sum m)
     @ encode_resource_vector (rm_used_sum m) @ put_enum overcommit_byte (rm_overcommit_mode m)
     @ encode_resource_vector (rm_overcommit_allowance m))"
proof -
  note table = reads_reservation_table [OF len enc]
  have call: "\<not> status_ok (fst (case rm_restore (map snd (rm_reservations m)) (rm_reserved_sum m) (rm_used_sum m)
      (af_reservations s) of (st, m) \<Rightarrow> (st, s\<lparr>af_reservations := m\<rparr>)))"
    using bad by (simp add: case_prod_beta)
  show ?thesis
    unfolding restore_reservations_def put_table_def append_assoc
    apply (rule refuses_right, rule recovers_read [OF reads_val [OF reads_words(2)]], rule refuses_check, rule table(1))
    apply (rule refuses_right, rule recovers_read [OF table(2)])
    apply (rule refuses_right, rule recovers_read [OF reads_ok [OF reads_rv]])
    apply (rule refuses_right, rule recovers_read [OF reads_ok [OF reads_rv]])
    apply (rule refuses_right, rule recovers_read [OF reads_val [OF reads_mode]])
    apply (rule refuses_last, rule recovers_read [OF reads_ok [OF reads_rv]])
    by (rule refuses_here, rule refuses_call, rule call)
qed

text \<open>C38: a reservation that was released, rolled back or expired makes the saved state unloadable: the save
  succeeds and the load of exactly what was saved is refused.\<close>

theorem settled_reservation_blocks_recovery:
  assumes P: "policies_recoverable (pe_policies (af_policy s))"
    and ps: "length (wp_profs (af_predictor s)) \<le> kMaxProfiles" "list_all (\<lambda>(k, p). profile_encodable p) (wp_profs (af_predictor s))"
    and m: "rm_wf (af_reservations s)" "length (rm_reservations (af_reservations s)) \<le> 1048576"
      "list_all (\<lambda>(k, r). reservation_encodable r) (rm_reservations (af_reservations s))"
    and settled: "(k, r) \<in> set (rm_reservations (af_reservations s))" "\<not> live r"
    and len: "length (save_state s) < 2 ^ 32"
  shows "status_ok (fst (store_save FsDone cfg s fs))
    \<and> \<not> status_ok (fst (store_load now cfg (snd (store_save FsDone cfg s fs)) fabric_empty))"
proof -
  have "\<not> rv_is_zero (rsv_demand r)" using m(1) settled(1) by (auto simp: rm_wf_def table_wf_def)
  then obtain e where "restore_loop (map snd (rm_reservations (af_reservations s))) [] rv_zero rv_zero = Inl e \<and> \<not> status_ok e"
    using restore_loop_terminal [OF settled(1), of "[]" rv_zero rv_zero] settled(2) unfolding live_def by blast
  then have bad: "\<not> status_ok (fst (rm_restore (map snd (rm_reservations (af_reservations s)))
      (rm_reserved_sum (af_reservations s)) (rm_used_sum (af_reservations s)) m0))" for m0
    by (simp add: rm_restore_def)
  have table: "refuses (rc_bind restore_reservations f) t (put_table (\<lambda>e. encode_reservation (snd e))
        (rm_reservations (af_reservations s)) @ encode_resource_vector (rm_reserved_sum (af_reservations s))
      @ encode_resource_vector (rm_used_sum (af_reservations s))
      @ put_enum overcommit_byte (rm_overcommit_mode (af_reservations s))
      @ encode_resource_vector (rm_overcommit_allowance (af_reservations s)) @ cs)" for f :: "unit \<Rightarrow> unit recovery" and t cs
    using refuses_left [OF refuses_reservations [OF m(2,3) bad], where f = f] by simp
  have "refuses (restore_state now) fabric_empty (save_state s)"
    unfolding restore_state_def save_state_def
    by (rule refuses_silent, rule recovers_update, rule refl,
        rule refuses_right, rule recovers_policies [OF P], simp add: fabric_empty_def,
        rule refuses_right, rule recovers_profiles [OF ps], simp add: fabric_empty_def, rule table)
  then obtain e t where "restore_state now fabric_empty (byte_reader (save_state s)) = (Inl e, t)" "\<not> status_ok e"
    unfolding refuses_def byte_reader_at by (metis append_Nil2)
  then show ?thesis
    using load_after_save [of s "snd (store_save FsDone cfg s fs)" cfg now fabric_empty, OF len saved_file]
    by (cases t) (simp add: store_save_def Let_def)
qed

theorem settled_reservation_blocks_recovery_witness:
  "\<not> status_ok (fst (store_load 50 \<lparr>cfg_path = ''state'', cfg_magic = 7, cfg_version = 1\<rparr>
     (snd (store_save FsDone \<lparr>cfg_path = ''state'', cfg_magic = 7, cfg_version = 1\<rparr>
       (demo_saved ReservationStatus_Released) Map.empty)) fabric_empty))"
proof -
  have "(Id 1, demo_reservation (Id 1) ReservationStatus_Released)
      \<in> set (rm_reservations (af_reservations (demo_saved ReservationStatus_Released)))"
    by (simp add: demo_saved_def)
  moreover have "\<not> live (demo_reservation (Id 1) ReservationStatus_Released)"
    by (simp add: live_def demo_reservation_def)
  ultimately show ?thesis
    using demo_saved_wf [of ReservationStatus_Released]
    by (intro conjunct2 [OF settled_reservation_blocks_recovery [OF demo_saved_policies _ _ _ _ _ _ _ demo_saved_length]])
      (simp_all add: demo_saved_def fabric_empty_def predictor_empty_def rm_empty_def reservation_encodable_def
        demo_reservation_def rstatus_enumerators_def)
qed

end
