(* ===== verification/Cpu_Backend.thy ===== *)
theory Cpu_Backend
  imports Observation
begin

text \<open>
  \<open>backends/cpu_backend.hpp\<close>: the modelled CPU workload and the observation it reports. The double arithmetic of the
  duration is the one of the \<open>Doubles\<close> theory; the conversion to a count of nanoseconds is the platform's beyond its range.
\<close>

unbundle bit_operations_syntax

record CpuBackend =
  cb_inventory :: ResourceVector

definition set_inventory :: "ResourceVector \<Rightarrow> CpuBackend \<Rightarrow> CpuBackend" where
  "set_inventory v b = b\<lparr>cb_inventory := v\<rparr>"

definition run_workload :: "platform \<Rightarrow> i64 \<Rightarrow> ModelId \<Rightarrow> ModelRevision \<Rightarrow> u64 \<Rightarrow> u64 \<Rightarrow> u64 \<Rightarrow> Observation" where
  "run_workload pf now model revision tokens_in tokens_out work_bytes =
     \<lparr>o_id = Id (push_bit 32 (id_value model) OR id_value revision), o_admission_request_id = Id 0, o_tenant_id = Id 0,
      o_model_id = model, o_model_revision = revision, o_backend = ''cpu'', o_dtype = ''fp32'', o_quantization = ''none'',
      o_workload_type = WorkloadType_Inference, o_peak_vram = 0,
      o_host_memory = work_bytes div 2 + push_bit 20 1, o_pinned_memory = work_bytes div 16,
      o_kv_growth = (tokens_in + tokens_out) * 8, o_transfer_bytes = work_bytes,
      o_execution_duration =
        f64_to_i64 pf (f64_mul (f64_div (f64_of_u64 tokens_out) (f64_nat 40)) (f64_nat 1000000000)),
      o_input_tokens = tokens_in, o_output_tokens = tokens_out, o_completed_at = now, o_kind = ObservationKind_Completed\<rparr>"

text \<open>The observation is valid for a model and revision within 32 bits, token counts and memory within the limits of
  \<open>validate\<close>, and a duration that the conversion does not turn negative.\<close>

lemma run_workload_id:
  assumes "id_value model \<noteq> 0" "id_value model < 2 ^ 32"
  shows "\<not> is_nil (o_id (run_workload pf now model revision tokens_in tokens_out work_bytes))"
proof -
  have "unat (push_bit 32 (id_value model)) = unat (id_value model) * 2 ^ 32"
    using assms(2) by (simp add: push_bit_eq_mult unat_word_ariths word_less_nat_alt)
  then have "push_bit 32 (id_value model) \<noteq> 0" using assms(1) by (auto simp: unat_eq_0)
  then show ?thesis by (auto simp: run_workload_def is_nil_def or_eq_0_iff)
qed

lemma run_workload_valid:
  assumes "id_value model \<noteq> 0" "id_value model < 2 ^ 32" "tokens_in \<le> push_bit 40 1" "tokens_out \<le> push_bit 40 1"
    and "work_bytes \<le> push_bit 48 1" "0 \<le>s o_execution_duration (run_workload pf now model revision tokens_in tokens_out work_bytes)"
  shows "status_ok (observation_validate (run_workload pf now model revision tokens_in tokens_out work_bytes))"
proof -
  have "\<not> is_nil model" using assms(1) by (simp add: is_nil_def)
  moreover have "work_bytes div 2 + push_bit 20 1 \<le> push_bit 48 1" "work_bytes div 16 \<le> push_bit 48 1"
    using assms(5) by (simp_all add: word_le_nat_alt unat_div unat_word_ariths)
  ultimately show ?thesis
    using run_workload_id [OF assms(1,2), of pf now revision tokens_in tokens_out work_bytes] assms
    by (simp add: observation_validate_def run_workload_def word_sless_alt word_sle_eq not_less)
qed

end
