(* ===== verification/Cuda_Backend.thy ===== *)
theory Cuda_Backend
  imports Errors Doubles "HOL-Library.Signed_Division"
begin

text \<open>
  \<open>cuda_backend.hpp\<close> and \<open>cuda_backend.cu\<close>: the device back end. The CUDA runtime is not code of this repository: it
  is a record of functions on a state of its own, an argument of every operation, and error codes are its integers with
  0 for success. Arrays of \<open>float\<close> are lists of binary32 patterns, on the host and on the device. What an operation
  writes through a reference is returned, with the old value where it leaves it alone.
\<close>

section \<open>Single precision\<close>

type_synonym f32 = "32 word"

definition f32_inf_mag :: nat where
  "f32_inf_mag = 255 * 2 ^ 23"

definition f32_make :: "bool \<Rightarrow> nat \<Rightarrow> f32" where
  "f32_make s mag = of_nat ((if s then 2 ^ 31 else 0) + mag)"

definition f32_nan :: f32 where
  "f32_nan = f32_make False (f32_inf_mag + 2 ^ 22)"

definition f32_unpack :: "f32 \<Rightarrow> fval" where
  "f32_unpack b =
     (let mag = unat b mod 2 ^ 31; e = mag div 2 ^ 23; f = mag mod 2 ^ 23; s = (2 ^ 31 \<le> unat b) in
      if e = 255 then (if f = 0 then FInf s else FNaN)
      else if e = 0 then FNum s f (- 149)
      else FNum s (2 ^ 23 + f) (int e - 150))"

definition ulp_exp32 :: "nat \<Rightarrow> nat \<Rightarrow> int" where
  "ulp_exp32 n d =
     (let e = int (bitlen n) - int (bitlen d);
          at_least = (if 0 \<le> e then d * 2 ^ nat e \<le> n else d \<le> n * 2 ^ nat (- e))
      in max (- 149) ((if at_least then e else e - 1) - 23))"

text \<open>\<open>n / d\<close> with the given sign, to nearest with ties to even.\<close>

definition f32_round :: "bool \<Rightarrow> nat \<Rightarrow> nat \<Rightarrow> f32" where
  "f32_round s n d =
     (if n = 0 then f32_make s 0
      else let e = ulp_exp32 n d;
               m = (if 0 \<le> e then round_half_even n (d * 2 ^ nat e) else round_half_even (n * 2 ^ nat (- e)) d)
           in f32_make s (min f32_inf_mag (nat (e + 149) * 2 ^ 23 + m)))"

definition f32_scaled :: "bool \<Rightarrow> nat \<Rightarrow> int \<Rightarrow> f32" where
  "f32_scaled s m e = (if 0 \<le> e then f32_round s (m * 2 ^ nat e) 1 else f32_round s m (2 ^ nat (- e)))"

definition f32_nat :: "nat \<Rightarrow> f32" where
  "f32_nat n = f32_round False n 1"

definition f32_mul :: "f32 \<Rightarrow> f32 \<Rightarrow> f32" where
  "f32_mul a b =
     (case f32_unpack a of
        FNaN \<Rightarrow> f32_nan
      | FInf s \<Rightarrow>
          (case f32_unpack b of
             FNaN \<Rightarrow> f32_nan
           | FInf t \<Rightarrow> f32_make (s \<noteq> t) f32_inf_mag
           | FNum t n f \<Rightarrow> if n = 0 then f32_nan else f32_make (s \<noteq> t) f32_inf_mag)
      | FNum s m e \<Rightarrow>
          (case f32_unpack b of
             FNaN \<Rightarrow> f32_nan
           | FInf t \<Rightarrow> if m = 0 then f32_nan else f32_make (s \<noteq> t) f32_inf_mag
           | FNum t n f \<Rightarrow> f32_scaled (s \<noteq> t) (m * n) (e + f)))"

definition f32_add :: "f32 \<Rightarrow> f32 \<Rightarrow> f32" where
  "f32_add a b =
     (case f32_unpack a of
        FNaN \<Rightarrow> f32_nan
      | FInf s \<Rightarrow> (case f32_unpack b of FNaN \<Rightarrow> f32_nan | FInf t \<Rightarrow> (if s = t then a else f32_nan) | FNum t n f \<Rightarrow> a)
      | FNum s m e \<Rightarrow>
          (case f32_unpack b of
             FNaN \<Rightarrow> f32_nan
           | FInf t \<Rightarrow> b
           | FNum t n f \<Rightarrow>
               let g = min e f;
                   x = int m * 2 ^ nat (e - g); y = int n * 2 ^ nat (f - g);
                   v = (if s then - x else x) + (if t then - y else y)
               in if v = 0 then f32_make (s \<and> t) 0 else f32_scaled (v < 0) (nat \<bar>v\<bar>) g))"

text \<open>\<open>!=\<close>: true with a NaN; the two zeros are equal.\<close>

definition f32_ne :: "f32 \<Rightarrow> f32 \<Rightarrow> bool" where
  "f32_ne a b \<longleftrightarrow> f32_unpack a = FNaN \<or> f32_unpack b = FNaN \<or>
     (a \<noteq> b \<and> \<not> (unat a mod 2 ^ 31 = 0 \<and> unat b mod 2 ^ 31 = 0))"

section \<open>The runtime\<close>

type_synonym devptr = u64

record CudaProps =
  prop_name :: string
  prop_major :: int
  prop_minor :: int
  prop_total :: u64

text \<open>\<open>cu_host\<close> says whether a host vector of that many floats can be allocated; if not, its constructor throws.\<close>

record 'g CudaRuntime =
  cu_error_string :: "int \<Rightarrow> string"
  cu_device_count :: "'g \<Rightarrow> int \<times> int \<times> 'g"
  cu_set_device :: "int \<Rightarrow> 'g \<Rightarrow> int \<times> 'g"
  cu_properties :: "int \<Rightarrow> 'g \<Rightarrow> int \<times> CudaProps \<times> 'g"
  cu_mem_info :: "'g \<Rightarrow> int \<times> u64 \<times> u64 \<times> 'g"
  cu_malloc :: "u64 \<Rightarrow> 'g \<Rightarrow> int \<times> devptr \<times> 'g"
  cu_free :: "devptr \<Rightarrow> 'g \<Rightarrow> int \<times> 'g"
  cu_h2d :: "devptr \<Rightarrow> f32 list \<Rightarrow> u64 \<Rightarrow> 'g \<Rightarrow> int \<times> 'g"
  cu_d2h :: "f32 list \<Rightarrow> devptr \<Rightarrow> u64 \<Rightarrow> 'g \<Rightarrow> int \<times> f32 list \<times> 'g"
  cu_launch :: "u32 \<Rightarrow> u32 \<Rightarrow> devptr \<Rightarrow> devptr \<Rightarrow> u32 \<Rightarrow> f32 \<Rightarrow> 'g \<Rightarrow> 'g"
  cu_sync :: "'g \<Rightarrow> int \<times> 'g"
  cu_host :: "u64 \<Rightarrow> 'g \<Rightarrow> bool"

definition cu_error :: "'g CudaRuntime \<Rightarrow> int \<Rightarrow> string \<Rightarrow> Status" where
  "cu_error rt e what =
     (if e = 0 then status_success else status_failure ErrorCode_CudaError (what @ '': '' @ cu_error_string rt e))"

section \<open>The kernel\<close>

text \<open>What thread \<open>t\<close> of block \<open>b\<close> does: the index is computed in 32 bits and compared as an \<open>int\<close>.\<close>

definition af_saxpy_kernel :: "u32 \<Rightarrow> u32 \<Rightarrow> u32 \<Rightarrow> u32 \<Rightarrow> f32 \<Rightarrow> f32 list \<Rightarrow> f32 list \<Rightarrow> f32 list" where
  "af_saxpy_kernel b dim t n a inp out_buf =
     (let i = b * dim + t in
      if i <s n then out_buf[unat i := f32_add (f32_mul a (inp ! unat i)) (f32_nat 1)] else out_buf)"

section \<open>The back end\<close>

record CudaBackend =
  cb_device :: int
  cb_physical_total :: u64
  cb_governed_capacity :: u64

definition cuda_backend_new :: CudaBackend where
  "cuda_backend_new = \<lparr>cb_device = 0, cb_physical_total = 0, cb_governed_capacity = 0\<rparr>"

definition device_count :: "'g CudaRuntime \<Rightarrow> int \<Rightarrow> 'g \<Rightarrow> Status \<times> int \<times> 'g" where
  "device_count rt count g =
     (case cu_device_count rt g of
        (e, c, g1) \<Rightarrow> let s = cu_error rt e ''cudaGetDeviceCount'' in (s, if \<not> status_ok s then count else c, g1))"

definition cuda_init :: "'g CudaRuntime \<Rightarrow> int \<Rightarrow> CudaBackend \<Rightarrow> 'g \<Rightarrow> Status \<times> CudaBackend \<times> 'g" where
  "cuda_init rt device be g =
     (let be1 = be\<lparr>cb_device := device\<rparr> in
      case cu_set_device rt device g of
        (e, g1) \<Rightarrow>
          let s = cu_error rt e ''cudaSetDevice'' in
          if \<not> status_ok s then (s, be1, g1)
          else (case cu_properties rt device g1 of
                  (e2, prop, g2) \<Rightarrow>
                    let sp = cu_error rt e2 ''cudaGetDeviceProperties'' in
                    if \<not> status_ok sp then (sp, be1, g2)
                    else (status_success, be1\<lparr>cb_physical_total := prop_total prop\<rparr>, g2)))"

definition cuda_properties :: "'g CudaRuntime \<Rightarrow> CudaBackend \<Rightarrow> CudaProps \<Rightarrow> 'g \<Rightarrow> Status \<times> CudaProps \<times> 'g" where
  "cuda_properties rt be old g =
     (case cu_properties rt (cb_device be) g of
        (e, prop, g1) \<Rightarrow>
          let s = cu_error rt e ''cudaGetDeviceProperties'' in (s, if \<not> status_ok s then old else prop, g1))"

definition mem_info :: "'g CudaRuntime \<Rightarrow> u64 \<times> u64 \<Rightarrow> 'g \<Rightarrow> Status \<times> (u64 \<times> u64) \<times> 'g" where
  "mem_info rt old g =
     (case cu_mem_info rt g of
        (e, f, t, g1) \<Rightarrow> let s = cu_error rt e ''cudaMemGetInfo'' in (s, if \<not> status_ok s then old else (f, t), g1))"

definition set_governed_capacity :: "u64 \<Rightarrow> CudaBackend \<Rightarrow> Status \<times> CudaBackend" where
  "set_governed_capacity bytes be =
     (if bytes = 0 \<or> bytes > cb_physical_total be
      then (status_failure ErrorCode_CudaDeviceMismatch ''governed capacity out of range'', be)
      else (status_success, be\<lparr>cb_governed_capacity := bytes\<rparr>))"

definition cuda_allocate :: "'g CudaRuntime \<Rightarrow> devptr \<Rightarrow> u64 \<Rightarrow> 'g \<Rightarrow> Status \<times> devptr \<times> 'g" where
  "cuda_allocate rt ptr bytes g =
     (case cu_malloc rt bytes g of
        (e, p, g1) \<Rightarrow> let s = cu_error rt e ''cudaMalloc'' in (s, if \<not> status_ok s then ptr else p, g1))"

definition cuda_release :: "'g CudaRuntime \<Rightarrow> devptr \<Rightarrow> 'g \<Rightarrow> Status \<times> 'g" where
  "cuda_release rt ptr g =
     (if ptr = 0 then (status_success, g)
      else case cu_free rt ptr g of (e, g1) \<Rightarrow> (cu_error rt e ''cudaFree'', g1))"

definition memcpy_h2d :: "'g CudaRuntime \<Rightarrow> devptr \<Rightarrow> f32 list \<Rightarrow> u64 \<Rightarrow> 'g \<Rightarrow> Status \<times> 'g" where
  "memcpy_h2d rt dst src bytes g = (case cu_h2d rt dst src bytes g of (e, g1) \<Rightarrow> (cu_error rt e ''cudaMemcpy H2D'', g1))"

definition memcpy_d2h :: "'g CudaRuntime \<Rightarrow> f32 list \<Rightarrow> devptr \<Rightarrow> u64 \<Rightarrow> 'g \<Rightarrow> Status \<times> f32 list \<times> 'g" where
  "memcpy_d2h rt dst src bytes g =
     (case cu_d2h rt dst src bytes g of (e, data, g1) \<Rightarrow> (cu_error rt e ''cudaMemcpy D2H'', data, g1))"

definition cuda_sync :: "'g CudaRuntime \<Rightarrow> 'g \<Rightarrow> Status \<times> 'g" where
  "cuda_sync rt g = (case cu_sync rt g of (e, g1) \<Rightarrow> (cu_error rt e ''cudaDeviceSynchronize'', g1))"

section \<open>The verified kernel run\<close>

definition kernel_inputs :: "u64 \<Rightarrow> f32 list" where
  "kernel_inputs n = map f32_nat [0..<unat n]"

definition expected_output :: "f32 \<Rightarrow> f32" where
  "expected_output x = f32_add (f32_mul (f32_nat 2) x) (f32_nat 1)"

text \<open>\<open>(n + 255) / 256\<close> on \<open>int\<close>, which wraps where C++ leaves it undefined.\<close>

definition grid_size :: "u32 \<Rightarrow> u32" where
  "grid_size n = of_int (sint (n + 255) sdiv 256)"

definition free_both :: "'g CudaRuntime \<Rightarrow> devptr \<Rightarrow> devptr \<Rightarrow> 'g \<Rightarrow> 'g" where
  "free_both rt p q g = snd (cuda_release rt q (snd (cuda_release rt p g)))"

text \<open>From the kernel launch on. \<open>None\<close> is an exception of the host vector, which leaves the device memory as it is.\<close>

definition verify_run :: "'g CudaRuntime \<Rightarrow> u64 \<Rightarrow> devptr \<Rightarrow> devptr \<Rightarrow> 'g \<Rightarrow> Status option \<times> 'g" where
  "verify_run rt n_floats dev_in dev_out g =
     (let n = ucast n_floats :: u32; g1 = cu_launch rt (grid_size n) 256 dev_out dev_in n (f32_nat 2) g in
      case cuda_sync rt g1 of
        (sy, g2) \<Rightarrow>
          if \<not> status_ok sy then (Some sy, free_both rt dev_in dev_out g2)
          else if \<not> cu_host rt n_floats g2 then (None, g2)
          else (case memcpy_d2h rt (replicate (unat n_floats) 0) dev_out (n_floats * 4) g2 of
                  (c2, host_out, g3) \<Rightarrow>
                    if \<not> status_ok c2 then (Some c2, free_both rt dev_in dev_out g3)
                    else if list_ex (\<lambda>i. f32_ne (host_out ! i) (expected_output (kernel_inputs n_floats ! i))) [0..<unat n_floats]
                    then (Some (status_failure ErrorCode_CudaKernelFailure ''kernel output mismatch''),
                          free_both rt dev_in dev_out g3)
                    else (case cuda_release rt dev_in g3 of
                            (f1, g4) \<Rightarrow>
                              (case cuda_release rt dev_out g4 of
                                 (f2, g5) \<Rightarrow> (Some (if status_ok f1 then f2 else f1), g5)))))"

definition run_and_verify_add :: "'g CudaRuntime \<Rightarrow> u64 \<Rightarrow> 'g \<Rightarrow> Status option \<times> 'g" where
  "run_and_verify_add rt n_floats g =
     (if n_floats = 0 then (Some (status_failure ErrorCode_CudaError ''zero element kernel''), g)
      else if \<not> cu_host rt n_floats g then (None, g)
      else case cuda_allocate rt 0 (n_floats * 4) g of
        (a1, dev_in, g1) \<Rightarrow>
          if \<not> status_ok a1 then (Some a1, g1)
          else (case cuda_allocate rt 0 (n_floats * 4) g1 of
                  (a2, dev_out, g2) \<Rightarrow>
                    if \<not> status_ok a2 then (Some a2, snd (cuda_release rt dev_in g2))
                    else (case memcpy_h2d rt dev_in (kernel_inputs n_floats) (n_floats * 4) g2 of
                            (c1, g3) \<Rightarrow>
                              if \<not> status_ok c1 then (Some c1, free_both rt dev_in dev_out g3)
                              else verify_run rt n_floats dev_in dev_out g3)))"

end
