(* ===== verification/Cuda_Spec.thy ===== *)
theory Cuda_Spec
  imports Cuda_Backend Doubles_Order
begin

text \<open>
  The verified kernel run on a runtime that keeps its documented behaviour: whatever call fails, every block is passed to
  \<open>cudaFree\<close>, and when none fails the run succeeds. The behaviour is stated over the blocks of device memory, a map from
  addresses to contents; it lets every call fail, \<open>cudaFree\<close> with the error of an earlier launch too. A runtime with a
  log records the allocations and the frees of a run.
\<close>

section \<open>The documented behaviour\<close>

type_synonym 'g memory_of = "'g \<Rightarrow> devptr \<Rightarrow> f32 list option"

text \<open>The threads of a launch run in some order.\<close>

definition run_threads :: "(u32 \<times> u32) list \<Rightarrow> u32 \<Rightarrow> u32 \<Rightarrow> f32 \<Rightarrow> f32 list \<Rightarrow> f32 list \<Rightarrow> f32 list" where
  "run_threads order width n a inp buf = fold (\<lambda>(b, t). af_saxpy_kernel b width t n a inp) order buf"

definition all_threads :: "u32 \<Rightarrow> u32 \<Rightarrow> (u32 \<times> u32) set" where
  "all_threads grid width = {(b, t). b < grid \<and> t < width}"

text \<open>An allocation that succeeds is a new block of the size asked for, one that fails changes nothing; freeing a block
  that is there frees it when it reports success, and frees it or leaves it when it reports an error, which may be that of
  an earlier launch; copies, launches and synchronisation neither allocate nor free.\<close>

definition allocator_lawful :: "'g CudaRuntime \<Rightarrow> 'g memory_of \<Rightarrow> bool" where
  "allocator_lawful rt mem \<longleftrightarrow>
     (\<forall>bytes g e p g1. cu_malloc rt bytes g = (e, p, g1) \<longrightarrow>
        (if e = 0 then p \<noteq> 0 \<and> mem g p = None \<and> (\<exists>data. length data = unat bytes div 4 \<and> mem g1 = (mem g)(p \<mapsto> data))
         else mem g1 = mem g)) \<and>
     (\<forall>p g e g1. cu_free rt p g = (e, g1) \<longrightarrow> mem g p \<noteq> None \<longrightarrow>
        (if e = 0 then mem g1 = (mem g)(p := None) else mem g1 = mem g \<or> mem g1 = (mem g)(p := None))) \<and>
     (\<forall>dst data bytes g. dom (mem (snd (cu_h2d rt dst data bytes g))) = dom (mem g)) \<and>
     (\<forall>dst src bytes g. mem (snd (snd (cu_d2h rt dst src bytes g))) = mem g) \<and>
     (\<forall>grid width p q n a g. dom (mem (cu_launch rt grid width p q n a g)) = dom (mem g)) \<and>
     (\<forall>g. mem (snd (cu_sync rt g)) = mem g)"

text \<open>A copy that succeeds copies, and a launch within the bounds of two different blocks runs its threads.\<close>

definition device_lawful :: "'g CudaRuntime \<Rightarrow> 'g memory_of \<Rightarrow> bool" where
  "device_lawful rt mem \<longleftrightarrow>
     (\<forall>dst data bytes g g1 old. cu_h2d rt dst data bytes g = (0, g1) \<longrightarrow> mem g dst = Some old
        \<longrightarrow> unat bytes = 4 * length data \<longrightarrow> length old = length data \<longrightarrow> mem g1 = (mem g)(dst \<mapsto> data)) \<and>
     (\<forall>dst src bytes g data' g1 data. cu_d2h rt dst src bytes g = (0, data', g1) \<longrightarrow> mem g src = Some data
        \<longrightarrow> unat bytes = 4 * length data \<longrightarrow> data' = data) \<and>
     (\<forall>grid width p q n a g buf inp. mem g p = Some buf \<longrightarrow> mem g q = Some inp \<longrightarrow> p \<noteq> q \<longrightarrow> 0 < grid
        \<longrightarrow> length inp = length buf \<longrightarrow> sint n \<le> int (length buf)
        \<longrightarrow> (\<exists>order. set order = all_threads grid width
              \<and> mem (cu_launch rt grid width p q n a g) = (mem g)(p \<mapsto> run_threads order width n a inp buf)))"

section \<open>The calls of a run\<close>

text \<open>The same runtime with a log of the blocks it allocated and of the ones it was asked to free, with the answers.\<close>

datatype cuda_call = Allocated devptr | Freed devptr int

definition logged :: "'g CudaRuntime \<Rightarrow> ('g \<times> cuda_call list) CudaRuntime" where
  "logged rt = \<lparr>cu_error_string = cu_error_string rt,
     cu_device_count = \<lambda>(g, l). (case cu_device_count rt g of (e, c, g1) \<Rightarrow> (e, c, g1, l)),
     cu_set_device = \<lambda>d (g, l). (case cu_set_device rt d g of (e, g1) \<Rightarrow> (e, g1, l)),
     cu_properties = \<lambda>d (g, l). (case cu_properties rt d g of (e, prop, g1) \<Rightarrow> (e, prop, g1, l)),
     cu_mem_info = \<lambda>(g, l). (case cu_mem_info rt g of (e, f, t, g1) \<Rightarrow> (e, f, t, g1, l)),
     cu_malloc = \<lambda>bytes (g, l). (case cu_malloc rt bytes g of
       (e, p, g1) \<Rightarrow> (e, p, g1, l @ (if e = 0 then [Allocated p] else []))),
     cu_free = \<lambda>p (g, l). (case cu_free rt p g of (e, g1) \<Rightarrow> (e, g1, l @ [Freed p e])),
     cu_h2d = \<lambda>dst data bytes (g, l). (case cu_h2d rt dst data bytes g of (e, g1) \<Rightarrow> (e, g1, l)),
     cu_d2h = \<lambda>dst src bytes (g, l). (case cu_d2h rt dst src bytes g of (e, data, g1) \<Rightarrow> (e, data, g1, l)),
     cu_launch = \<lambda>grid width p q n a (g, l). (cu_launch rt grid width p q n a g, l),
     cu_sync = \<lambda>(g, l). (case cu_sync rt g of (e, g1) \<Rightarrow> (e, g1, l)),
     cu_host = \<lambda>n (g, l). cu_host rt n g\<rparr>"

primrec allocated_blocks :: "cuda_call list \<Rightarrow> devptr list" where
  "allocated_blocks [] = []"
| "allocated_blocks (c # cs) = (case c of Allocated p \<Rightarrow> [p] | Freed p e \<Rightarrow> []) @ allocated_blocks cs"

primrec freed_blocks :: "cuda_call list \<Rightarrow> devptr list" where
  "freed_blocks [] = []"
| "freed_blocks (c # cs) = (case c of Allocated p \<Rightarrow> [] | Freed p e \<Rightarrow> [p]) @ freed_blocks cs"

lemma cu_error_ok: "status_ok (cu_error rt e what) \<longleftrightarrow> e = 0"
  by (simp add: cu_error_def)

lemma logged_error: "cu_error (logged rt) e what = cu_error rt e what"
  by (simp add: cu_error_def logged_def)

lemma logged_allocate:
  "cuda_allocate (logged rt) old bytes (g, l)
   = (case cuda_allocate rt old bytes g of (s, p, g1) \<Rightarrow> (s, p, g1, l @ (if status_ok s then [Allocated p] else [])))"
proof -
  obtain e p g1 where m: "cu_malloc rt bytes g = (e, p, g1)" using prod_cases3 by blast
  then have "cu_malloc (logged rt) bytes (g, l) = (e, p, g1, l @ (if e = 0 then [Allocated p] else []))" by (simp add: logged_def)
  then show ?thesis using m by (simp add: cuda_allocate_def logged_error Let_def cu_error_ok)
qed

lemma logged_release:
  "p \<noteq> 0 \<Longrightarrow> cuda_release (logged rt) p (g, l)
   = (case cu_free rt p g of (e, g1) \<Rightarrow> (cu_error rt e ''cudaFree'', g1, l @ [Freed p e]))"
  by (simp add: cuda_release_def logged_error) (simp add: logged_def split: prod.splits)

lemma logged_others:
  "memcpy_h2d (logged rt) dst src bytes (g, l) = (case memcpy_h2d rt dst src bytes g of (s, g1) \<Rightarrow> (s, g1, l))"
  "memcpy_d2h (logged rt) dst2 src2 bytes (g, l) = (case memcpy_d2h rt dst2 src2 bytes g of (s, data, g1) \<Rightarrow> (s, data, g1, l))"
  "cuda_sync (logged rt) (g, l) = (case cuda_sync rt g of (s, g1) \<Rightarrow> (s, g1, l))"
  "cu_launch (logged rt) grid width p q m a (g, l) = (cu_launch rt grid width p q m a g, l)"
  "cu_host (logged rt) n (g, l) = cu_host rt n g"
  by (simp_all add: memcpy_h2d_def memcpy_d2h_def cuda_sync_def logged_error) (simp_all add: logged_def split: prod.splits)

section \<open>Giving the memory back\<close>

lemma lawful_malloc:
  assumes "allocator_lawful rt mem" "cu_malloc rt bytes g = (e, p, g1)"
  shows "if e = 0 then p \<noteq> 0 \<and> mem g p = None \<and> (\<exists>data. length data = unat bytes div 4 \<and> mem g1 = (mem g)(p \<mapsto> data))
    else mem g1 = mem g"
  using conjunct1 [OF assms(1) [unfolded allocator_lawful_def], rule_format, OF assms(2)] .

lemma lawful_free:
  assumes "allocator_lawful rt mem" "cu_free rt p g = (e, g1)" "mem g p \<noteq> None"
  shows "if e = 0 then mem g1 = (mem g)(p := None) else mem g1 = mem g \<or> mem g1 = (mem g)(p := None)"
  using conjunct1 [OF conjunct2 [OF assms(1) [unfolded allocator_lawful_def]], rule_format, OF assms(2,3)] .

lemma allocated:
  assumes "allocator_lawful rt mem" "cuda_allocate rt old bytes g = (s, p, g1)"
  shows "(status_ok s \<and> p \<noteq> 0 \<and> mem g p = None \<and> (\<exists>data. length data = unat bytes div 4 \<and> mem g1 = (mem g)(p \<mapsto> data)))
    \<or> (\<not> status_ok s \<and> mem g1 = mem g)"
proof -
  obtain e q h where m: "cu_malloc rt bytes g = (e, q, h)" using prod_cases3 by blast
  have "if e = 0 then q \<noteq> 0 \<and> mem g q = None \<and> (\<exists>data. length data = unat bytes div 4 \<and> mem h = (mem g)(q \<mapsto> data))
      else mem h = mem g"
    by (rule lawful_malloc [OF assms(1) m])
  then show ?thesis using assms(2) m by (auto simp: cuda_allocate_def Let_def cu_error_ok split: if_splits)
qed

lemma released:
  assumes "allocator_lawful rt mem" "mem g p \<noteq> None" "p \<noteq> 0" "cuda_release rt p g = (s, g1)" "fst (cu_free rt p g) = 0"
  shows "s = status_success \<and> mem g1 = (mem g)(p := None)"
proof -
  obtain h where f: "cu_free rt p g = (0, h)" using assms(5) by (cases "cu_free rt p g") simp
  have "mem h = (mem g)(p := None)" using lawful_free [OF assms(1) f assms(2)] by simp
  then show ?thesis using assms(3,4) f by (simp add: cuda_release_def cu_error_def)
qed

text \<open>What a block may still be after the call that frees it: the memory keeps the others, and the block only if the call
  reported an error.\<close>

lemma released_logged:
  assumes "allocator_lawful rt mem" "mem g p \<noteq> None" "p \<noteq> 0"
  obtains s h e where "cuda_release rt p g = (s, h)" "cuda_release (logged rt) p (g, l) = (s, h, l @ [Freed p e])"
    "dom (mem g) - {p} \<subseteq> dom (mem h)" "dom (mem h) \<subseteq> dom (mem g)" "e \<noteq> 0 \<or> p \<notin> dom (mem h)"
proof -
  obtain e h where f: "cu_free rt p g = (e, h)" by fastforce
  have law: "if e = 0 then mem h = (mem g)(p := None) else mem h = mem g \<or> mem h = (mem g)(p := None)"
    by (rule lawful_free [OF assms(1) f assms(2)])
  have cases: "mem h = mem g \<or> mem h = (mem g)(p := None)" and zero: "e = 0 \<Longrightarrow> mem h = (mem g)(p := None)"
    using law by (simp_all split: if_splits)
  have "cuda_release rt p g = (cu_error rt e ''cudaFree'', h)" using assms(3) f by (simp add: cuda_release_def)
  moreover have "cuda_release (logged rt) p (g, l) = (cu_error rt e ''cudaFree'', h, l @ [Freed p e])"
    using assms(3) f by (simp add: logged_release)
  moreover have "dom (mem g) - {p} \<subseteq> dom (mem h)" "dom (mem h) \<subseteq> dom (mem g)" using cases by (auto split: if_splits)
  moreover have "e \<noteq> 0 \<or> p \<notin> dom (mem h)" using zero by fastforce
  ultimately show ?thesis by (rule that)
qed

text \<open>Two blocks that are there on top of the memory from before.\<close>

definition holding :: "'g memory_of \<Rightarrow> 'g \<Rightarrow> devptr \<Rightarrow> devptr \<Rightarrow> 'g \<Rightarrow> bool" where
  "holding mem g p q h \<longleftrightarrow> p \<noteq> q \<and> p \<noteq> 0 \<and> q \<noteq> 0 \<and> mem g p = None \<and> mem g q = None
     \<and> dom (mem h) = insert p (insert q (dom (mem g)))"

lemma holding_kept: "holding mem g p q h \<Longrightarrow> dom (mem h1) = dom (mem h) \<Longrightarrow> holding mem g p q h1"
  by (simp add: holding_def)

text \<open>How a run may end: every block it allocated was passed to \<open>cudaFree\<close> once, and what is left over is a block for
  which that call reported an error.\<close>

definition given_back :: "'g memory_of \<Rightarrow> 'g \<Rightarrow> cuda_call list \<Rightarrow> 'g \<Rightarrow> bool" where
  "given_back mem g l h \<longleftrightarrow> freed_blocks l = allocated_blocks l \<and> dom (mem g) \<subseteq> dom (mem h)
     \<and> (\<forall>p \<in> dom (mem h) - dom (mem g). \<exists>e. Freed p e \<in> set l \<and> e \<noteq> 0)"

lemma two_removed:
  assumes "A = insert p (insert q D)" "p \<notin> D" "q \<notin> D" "A - {p} \<subseteq> B" "B \<subseteq> A" "B - {q} \<subseteq> C" "C \<subseteq> B"
  shows "D \<subseteq> C" "x \<in> C - D \<Longrightarrow> x = p \<or> x = q"
  using assms by blast+

lemma freed_both:
  assumes "allocator_lawful rt mem" "holding mem g p q h"
  obtains s1 h1 l1 s2 h2 l2 where "cuda_release rt p h = (s1, h1)" "cuda_release rt q h1 = (s2, h2)"
    "cuda_release (logged rt) p (h, [Allocated p, Allocated q]) = (s1, h1, l1)"
    "cuda_release (logged rt) q (h1, l1) = (s2, h2, l2)" "given_back mem g l2 h2"
proof -
  let ?l = "[Allocated p, Allocated q]"
  have pq: "p \<noteq> q" "p \<noteq> 0" "q \<noteq> 0" and dom: "dom (mem h) = insert p (insert q (dom (mem g)))"
    and fresh: "p \<notin> dom (mem g)" "q \<notin> dom (mem g)"
    using assms(2) by (auto simp: holding_def)
  have "mem h p \<noteq> None" using dom by blast
  from released_logged [OF assms(1) this pq(2), of ?l] obtain s1 h1 e1 where r1: "cuda_release rt p h = (s1, h1)"
    "cuda_release (logged rt) p (h, ?l) = (s1, h1, ?l @ [Freed p e1])"
    and d1: "dom (mem h) - {p} \<subseteq> dom (mem h1)" "dom (mem h1) \<subseteq> dom (mem h)" "e1 \<noteq> 0 \<or> p \<notin> dom (mem h1)" .
  have "q \<in> dom (mem h) - {p}" using dom pq(1) by simp
  then have "q \<in> dom (mem h1)" using d1(1) by (rule subsetD [rotated])
  then have "mem h1 q \<noteq> None" by blast
  from released_logged [OF assms(1) this pq(3), of "?l @ [Freed p e1]"] obtain s2 h2 e2 where r2:
    "cuda_release rt q h1 = (s2, h2)"
    "cuda_release (logged rt) q (h1, ?l @ [Freed p e1]) = (s2, h2, (?l @ [Freed p e1]) @ [Freed q e2])"
    and d2: "dom (mem h1) - {q} \<subseteq> dom (mem h2)" "dom (mem h2) \<subseteq> dom (mem h1)" "e2 \<noteq> 0 \<or> q \<notin> dom (mem h2)" .
  note left = two_removed [OF dom fresh d1(1,2) d2(1,2)]
  have "dom (mem g) \<subseteq> dom (mem h2)" by (rule left(1))
  moreover have "\<exists>e. Freed x e \<in> set ((?l @ [Freed p e1]) @ [Freed q e2]) \<and> e \<noteq> 0" if "x \<in> dom (mem h2) - dom (mem g)" for x
  proof -
    have x: "x \<in> dom (mem h2)" using that by (rule DiffD1)
    have "x \<in> dom (mem h1)" by (rule subsetD [OF d2(2) x])
    then have "e1 \<noteq> 0" if "x = p" using that d1(3) by simp
    moreover have "e2 \<noteq> 0" if "x = q" using x that d2(3) by simp
    ultimately show ?thesis using left(2) [OF that] by auto
  qed
  ultimately have "given_back mem g ((?l @ [Freed p e1]) @ [Freed q e2]) h2" by (simp add: given_back_def)
  then show ?thesis by (rule that [OF r1(1) r2(1) r1(2) r2(2)])
qed

definition run_ends :: "'g memory_of \<Rightarrow> 'g \<Rightarrow> Status option \<times> 'g \<Rightarrow> Status option \<times> 'g \<times> cuda_call list \<Rightarrow> bool" where
  "run_ends mem g r t \<longleftrightarrow> fst t = fst r \<and> fst (snd t) = snd r \<and>
     (case r of (Some _, h) \<Rightarrow> given_back mem g (snd (snd t)) h
      | (None, h) \<Rightarrow> (h = g \<and> snd (snd t) = [])
          \<or> (\<exists>p q. snd (snd t) = [Allocated p, Allocated q] \<and> holding mem g p q h))"

lemma ends_given_back: "given_back mem g l h \<Longrightarrow> run_ends mem g (Some s, h) (Some s, h, l)"
  by (simp add: run_ends_def)

lemma verify_ends:
  assumes "allocator_lawful rt mem" "holding mem g p q h"
  shows "run_ends mem g (verify_run rt n p q h) (verify_run (logged rt) n p q (h, [Allocated p, Allocated q]))"
proof -
  let ?h1 = "cu_launch rt (grid_size (ucast n)) 256 q p (ucast n) (f32_nat 2) h"
  let ?l = "[Allocated p, Allocated q]"
  obtain sy h2 where sync: "cuda_sync rt ?h1 = (sy, h2)" by fastforce
  obtain c2 data h3 where d2h: "memcpy_d2h rt (replicate (unat n) 0) q (n * 4) h2 = (c2, data, h3)" using prod_cases3 by blast
  have "dom (mem ?h1) = dom (mem h)" using assms(1) unfolding allocator_lawful_def by metis
  moreover have "mem h2 = mem ?h1"
    using assms(1) sync unfolding allocator_lawful_def cuda_sync_def by (auto split: prod.splits) (metis snd_conv)
  moreover have "mem h3 = mem h2"
    using assms(1) d2h unfolding allocator_lawful_def memcpy_d2h_def by (auto split: prod.splits) (metis snd_conv)
  ultimately have h2: "holding mem g p q h2" and h3: "holding mem g p q h3"
    using holding_kept [OF assms(2)] by simp_all
  from freed_both [OF assms(1) h2] obtain s1 k1 m1 s2 k2 m2 where f2: "cuda_release rt p h2 = (s1, k1)"
    "cuda_release rt q k1 = (s2, k2)" "cuda_release (logged rt) p (h2, ?l) = (s1, k1, m1)"
    "cuda_release (logged rt) q (k1, m1) = (s2, k2, m2)" "given_back mem g m2 k2" .
  from freed_both [OF assms(1) h3] obtain s3 k3 m3 s4 k4 m4 where f3: "cuda_release rt p h3 = (s3, k3)"
    "cuda_release rt q k3 = (s4, k4)" "cuda_release (logged rt) p (h3, ?l) = (s3, k3, m3)"
    "cuda_release (logged rt) q (k3, m3) = (s4, k4, m4)" "given_back mem g m4 k4" .
  show ?thesis
    using h2 f2(5) f3(5)
    by (simp add: verify_run_def Let_def logged_others sync d2h f2(1-4) f3(1-4) free_both_def run_ends_def)
qed

lemma run_ends_all:
  assumes "allocator_lawful rt mem"
  shows "run_ends mem g (run_and_verify_add rt n g) (run_and_verify_add (logged rt) n (g, []))"
proof (cases "n = 0 \<or> \<not> cu_host rt n g")
  case True
  then show ?thesis by (auto simp: run_and_verify_add_def run_ends_def given_back_def logged_others)
next
  case False
  then have start: "n \<noteq> 0" "cu_host rt n g" by simp_all
  obtain a1 p g1 where a1: "cuda_allocate rt 0 (n * 4) g = (a1, p, g1)" using prod_cases3 by blast
  obtain a2 q g2 where a2: "cuda_allocate rt 0 (n * 4) g1 = (a2, q, g2)" using prod_cases3 by blast
  note m1 = allocated [OF assms a1] and m2 = allocated [OF assms a2]
  note run = run_and_verify_add_def logged_others logged_allocate start a1 a2
  consider (none) "\<not> status_ok a1" | (one) "status_ok a1" "\<not> status_ok a2" | (both) "status_ok a1" "status_ok a2" by blast
  then show ?thesis
  proof cases
    case none
    then show ?thesis using m1 by (simp add: run run_ends_def given_back_def)
  next
    case one
    obtain data where p: "p \<noteq> 0" "mem g p = None" "mem g1 = (mem g)(p \<mapsto> data)" using m1 one by auto
    have g2: "mem g2 = mem g1" using m2 one by simp
    then have "mem g2 p \<noteq> None" using p by simp
    from released_logged [OF assms this p(1), of "[Allocated p]"] obtain s h e where r: "cuda_release rt p g2 = (s, h)"
      "cuda_release (logged rt) p (g2, [Allocated p]) = (s, h, [Allocated p] @ [Freed p e])"
      and d: "dom (mem g2) - {p} \<subseteq> dom (mem h)" "dom (mem h) \<subseteq> dom (mem g2)" "e \<noteq> 0 \<or> p \<notin> dom (mem h)" .
    have dom: "dom (mem g2) = insert p (dom (mem g))" "p \<notin> dom (mem g)" using g2 p by auto
    have "given_back mem g ([Allocated p] @ [Freed p e]) h"
      using d dom by (auto simp: given_back_def)
    then show ?thesis using one by (simp add: run r run_ends_def)
  next
    case both
    obtain c1 g3 where c: "memcpy_h2d rt p (kernel_inputs n) (n * 4) g2 = (c1, g3)" by fastforce
    have "holding mem g p q g2" using m1 m2 both by (auto simp: holding_def split: if_splits)
    moreover have "dom (mem g3) = dom (mem g2)"
      using assms c unfolding allocator_lawful_def memcpy_h2d_def by (auto split: prod.splits) (metis snd_conv domI domD)+
    ultimately have h: "holding mem g p q g3" by (rule holding_kept)
    from freed_both [OF assms h] obtain s1 k1 m1 s2 k2 m2 where f: "cuda_release rt p g3 = (s1, k1)"
      "cuda_release rt q k1 = (s2, k2)" "cuda_release (logged rt) p (g3, [Allocated p, Allocated q]) = (s1, k1, m1)"
      "cuda_release (logged rt) q (k1, m1) = (s2, k2, m2)" "given_back mem g m2 k2" .
    show ?thesis
    proof (cases "status_ok c1")
      case True
      then show ?thesis using verify_ends [OF assms h, of n] both by (simp add: run c)
    next
      case False
      then show ?thesis using f(5) both by (simp add: run c free_both_def f(1-4) run_ends_def)
    qed
  qed
qed

text \<open>C30: on a runtime with the documented behaviour every path of the run that returns has passed each block it
  allocated to \<open>cudaFree\<close> exactly once, whichever of its calls fails, those of \<open>cudaFree\<close> among them; a block that is
  left over is one for which \<open>cudaFree\<close> itself reported an error, and no block from before is lost. The calls are those
  of the runtime with the log, which the run cannot tell from the one without. Only an exception of a host vector is
  different: the one before the allocations leaves everything as it was, the one after the kernel leaves both blocks
  allocated and frees neither.\<close>

theorem cuda_run_releases:
  assumes "allocator_lawful rt mem" and "run_and_verify_add (logged rt) n (g, []) = (res, g', calls)"
  shows "run_and_verify_add rt n g = (res, g') \<and> (case res of
       Some s \<Rightarrow> freed_blocks calls = allocated_blocks calls \<and> dom (mem g) \<subseteq> dom (mem g')
         \<and> (\<forall>p \<in> dom (mem g') - dom (mem g). \<exists>e. Freed p e \<in> set calls \<and> e \<noteq> 0)
     | None \<Rightarrow> (g' = g \<and> calls = [])
         \<or> (\<exists>p q. p \<noteq> q \<and> calls = [Allocated p, Allocated q] \<and> mem g p = None \<and> mem g q = None
              \<and> dom (mem g') = insert p (insert q (dom (mem g)))))"
proof -
  have "run_ends mem g (run_and_verify_add rt n g) (run_and_verify_add (logged rt) n (g, []))"
    by (rule run_ends_all [OF assms(1)])
  then show ?thesis
    unfolding assms(2)
    by (cases "run_and_verify_add rt n g") (auto simp: run_ends_def given_back_def holding_def split: option.splits)
qed

section \<open>No input gives a NaN\<close>

lemma made_not_nan: "k \<le> f32_inf_mag \<Longrightarrow> f32_unpack (f32_make s k) \<noteq> FNaN"
proof -
  assume k: "k \<le> f32_inf_mag"
  then have small: "k < 2 ^ 31" by (simp add: f32_inf_mag_def)
  then have "(if s then 2 ^ 31 else 0) + k < 2 ^ LENGTH(32)" by simp
  then have "unat (f32_make s k) = (if s then 2 ^ 31 else 0) + k"
    unfolding f32_make_def by (simp only: unat_of_nat mod_less)
  then have mag: "unat (f32_make s k) mod 2 ^ 31 = k" using small by simp
  have "k mod 2 ^ 23 = 0" if "k div 2 ^ 23 = 255"
  proof -
    have "k = 255 * 2 ^ 23 + k mod 2 ^ 23" using that div_mult_mod_eq [of k "2 ^ 23"] by simp
    then show ?thesis using k by (simp add: f32_inf_mag_def)
  qed
  then show ?thesis by (simp add: f32_unpack_def Let_def mag del: power_numeral)
qed

lemma rounded_not_nan: "f32_unpack (f32_round s n d) \<noteq> FNaN"
  unfolding f32_round_def Let_def by (auto intro!: made_not_nan simp: f32_inf_mag_def)

lemma scaled_not_nan: "f32_unpack (f32_scaled s m e) \<noteq> FNaN"
  by (simp add: f32_scaled_def rounded_not_nan)

lemma two_unpack: "f32_unpack (f32_nat 2) = FNum False (2 ^ 23) (- 22)"
  by (simp add: f32_nat_def f32_round_def ulp_exp32_def round_half_even_def f32_make_def f32_inf_mag_def f32_unpack_def Let_def
      cong: let_weak_cong)

lemma one_unpack: "f32_unpack (f32_nat 1) = FNum False (2 ^ 23) (- 23)"
  by (simp add: f32_nat_def f32_round_def ulp_exp32_def round_half_even_def f32_make_def f32_inf_mag_def f32_unpack_def Let_def
      cong: let_weak_cong)

lemma expected_not_nan: "f32_unpack x \<noteq> FNaN \<Longrightarrow> f32_unpack (expected_output x) \<noteq> FNaN"
proof -
  assume x: "f32_unpack x \<noteq> FNaN"
  have inf: "f32_unpack (f32_make s f32_inf_mag) \<noteq> FNaN" for s by (rule made_not_nan) simp
  have zero: "f32_unpack (f32_make s 0) \<noteq> FNaN" for s by (rule made_not_nan) simp
  have twice: "f32_unpack (f32_mul (f32_nat 2) x) \<noteq> FNaN"
    using x inf by (auto simp: f32_mul_def two_unpack scaled_not_nan split: fval.splits)
  show ?thesis
    using twice zero
    by (auto simp: expected_output_def f32_add_def one_unpack [unfolded One_nat_def] scaled_not_nan Let_def split: fval.splits)
qed

lemma expected_equal: "i < unat n \<Longrightarrow> \<not> f32_ne (expected_output (kernel_inputs n ! i)) (expected_output (kernel_inputs n ! i))"
  using expected_not_nan [of "kernel_inputs n ! i"] rounded_not_nan
  by (simp add: f32_ne_def kernel_inputs_def f32_nat_def)

section \<open>The threads\<close>

lemma run_threads_nth:
  assumes "length inp = length buf" and "sint n \<le> int (length buf)" and "k < length buf"
  shows "length (run_threads order width n (f32_nat 2) inp buf) = length buf
    \<and> run_threads order width n (f32_nat 2) inp buf ! k
      = (if \<exists>(b, t) \<in> set order. b * width + t <s n \<and> unat (b * width + t) = k then expected_output (inp ! k) else buf ! k)"
  using assms
proof (induction order arbitrary: buf)
  case Nil
  then show ?case by (simp add: run_threads_def)
next
  case (Cons bt order)
  obtain b t where bt: "bt = (b, t)" by (cases bt)
  let ?buf = "af_saxpy_kernel b width t n (f32_nat 2) inp buf"
  have len: "length ?buf = length buf" by (simp add: af_saxpy_kernel_def Let_def)
  have nth: "?buf ! k = (if b * width + t <s n \<and> unat (b * width + t) = k then expected_output (inp ! k) else buf ! k)"
    using Cons.prems(3) by (auto simp: af_saxpy_kernel_def Let_def expected_output_def nth_list_update)
  have step: "run_threads (bt # order) width n (f32_nat 2) inp buf = run_threads order width n (f32_nat 2) inp ?buf"
    by (simp add: run_threads_def bt)
  show ?case
    unfolding step using Cons.IH [of ?buf] Cons.prems len nth by (auto simp: bt)
qed

text \<open>The launch of the code has a thread for every element.\<close>

lemma sint_small: "m < 2 ^ 31 \<Longrightarrow> sint (of_nat m :: u32) = int m"
  by (simp add: signed_of_nat signed_take_bit_int_eq_self)

lemma nat_sdiv: "int m sdiv 256 = int (m div 256)"
  by (cases "m = 0") (simp_all add: signed_divide_int_def zdiv_int)

lemma count_word:
  assumes "unat n < 2 ^ 31 - 255"
  shows "sint (ucast (n :: u64) :: u32) = int (unat n)" and "unat (grid_size (ucast n)) = (unat n + 255) div 256"
proof -
  let ?n = "ucast n :: u32"
  have "unat n < 2 ^ 32" using assms by simp
  then have un: "unat ?n = unat n" by (simp add: unsigned_ucast_eq take_bit_nat_eq_self)
  have word: "?n = of_nat (unat n)" using un by (simp add: word_eq_iff_unsigned unat_of_nat)
  note small = sint_small
  show "sint ?n = int (unat n)" using small [of "unat n"] assms unfolding word [symmetric] by linarith
  have "of_nat (unat n + 255) = ?n + 255" unfolding of_nat_add word [symmetric] by simp
  then have "sint (?n + 255) = int (unat n + 255)" using small [of "unat n + 255"] assms by (metis less_diff_conv)
  then have "grid_size ?n = of_int (int (unat n + 255) sdiv 256)" by (simp only: grid_size_def)
  also have "int (unat n + 255) sdiv 256 = int ((unat n + 255) div 256)"
    by (rule nat_sdiv)
  finally have "grid_size ?n = of_nat ((unat n + 255) div 256)" by (simp only: of_int_of_nat_eq)
  then show "unat (grid_size ?n) = (unat n + 255) div 256" using assms by (simp add: unat_of_nat)
qed

lemma covered:
  assumes "unat n < 2 ^ 31 - 255" and "k < unat n" and "set order = all_threads (grid_size (ucast (n :: u64))) 256"
  shows "\<exists>(b, t) \<in> set order. b * 256 + t <s (ucast n :: u32) \<and> unat (b * 256 + t) = k"
proof -
  let ?b = "of_nat (k div 256) :: u32" and ?t = "of_nat (k mod 256) :: u32"
  have k: "k < 2 ^ 31" using assms by simp
  have i: "?b * 256 + ?t = of_nat k"
    using div_mult_mod_eq [of k 256] by (metis of_nat_add of_nat_mult of_nat_numeral)
  have ui: "unat (of_nat k :: u32) = k" using k by (simp add: unat_of_nat)
  have "sint (of_nat k :: u32) = int k" using k by (rule sint_small)
  then have less: "?b * 256 + ?t <s ucast n" using count_word(1) [OF assms(1)] assms(2) unfolding i word_sless_alt by linarith
  have "k div 256 < (unat n + 255) div 256" using assms(2) by simp
  then have "?b < grid_size (ucast n)" using k by (simp add: word_less_nat_alt count_word(2) [OF assms(1)] unat_of_nat)
  moreover have "?t < 256" by (simp add: word_less_nat_alt unat_of_nat)
  ultimately show ?thesis using less i ui assms(3) by (intro bexI [of _ "(?b, ?t)"]) (simp_all add: all_threads_def)
qed

section \<open>A run without failures\<close>

text \<open>No call fails; an allocation at least as long as at most one block was added since the state \<open>g\<close>.\<close>

definition never_fails :: "'g CudaRuntime \<Rightarrow> 'g memory_of \<Rightarrow> 'g \<Rightarrow> bool" where
  "never_fails rt mem g \<longleftrightarrow> (\<forall>n h. cu_host rt n h)
     \<and> (\<forall>b h. card (dom (mem h)) \<le> card (dom (mem g)) + 1 \<longrightarrow> fst (cu_malloc rt b h) = 0)
     \<and> (\<forall>p d b h. fst (cu_h2d rt p d b h) = 0) \<and> (\<forall>d p b h. fst (cu_d2h rt d p b h) = 0) \<and> (\<forall>h. fst (cu_sync rt h) = 0)
     \<and> (\<forall>p h. fst (cu_free rt p h) = 0)"

text \<open>C31: when no call of the runtime fails, a run over any number of floats from 1 to 2147483392 succeeds, in
  whatever order the threads of the launch run, and leaves the device memory exactly as it was.\<close>

theorem cuda_run_verifies:
  assumes "allocator_lawful rt mem" and "device_lawful rt mem" and "never_fails rt mem g"
    and "0 < unat n" and "unat n < 2 ^ 31 - 255" and "run_and_verify_add rt n g = (res, g')"
  shows "res = Some status_success \<and> mem g' = mem g"
proof -
  let ?N = "unat n" and ?w = "ucast n :: u32"
  have n0: "n \<noteq> 0" using assms(4) by auto
  have bytes: "unat (n * 4) = 4 * ?N" using assms(5) by (simp add: unat_word_ariths)
  have room: "\<exists>p h1. cu_malloc rt b h = (0, p, h1)" if "card (dom (mem h)) \<le> card (dom (mem g)) + 1" for b h
    using assms(3) that unfolding never_fails_def by (metis prod.collapse)
  obtain p g1 where m1: "cu_malloc rt (n * 4) g = (0, p, g1)" using room [of g "n * 4"] by auto
  from lawful_malloc [OF assms(1) m1] obtain x where p: "p \<noteq> 0" "mem g p = None" "mem g1 = (mem g)(p \<mapsto> x)" "length x = ?N"
    by (auto simp: bytes)
  have "card (dom (mem g1)) \<le> card (dom (mem g)) + 1" using card_insert_le_m1 [of _ "dom (mem g)"] by (simp add: p(3) card_insert_if)
  then obtain q g2 where m2: "cu_malloc rt (n * 4) g1 = (0, q, g2)" using room by blast
  obtain g3 where c: "cu_h2d rt p (kernel_inputs n) (n * 4) g2 = (0, g3)"
    using assms(3) by (metis never_fails_def prod.collapse)
  let ?g4 = "cu_launch rt (grid_size ?w) 256 q p ?w (f32_nat 2) g3"
  obtain g5 where sy: "cu_sync rt ?g4 = (0, g5)" using assms(3) by (metis never_fails_def prod.collapse)
  obtain data g6 where d: "cu_d2h rt (replicate ?N 0) q (n * 4) g5 = (0, data, g6)"
    using assms(3) by (metis never_fails_def prod.collapse)
  obtain s7 g7 where r1: "cuda_release rt p g6 = (s7, g7)" by fastforce
  obtain s8 g8 where r2: "cuda_release rt q g7 = (s8, g8)" by fastforce
  have host: "cu_host rt n h" for h using assms(3) by (simp add: never_fails_def)
  from lawful_malloc [OF assms(1) m2] obtain y where q: "q \<noteq> 0" "mem g1 q = None" "mem g2 = (mem g1)(q \<mapsto> y)" "length y = ?N"
    by (auto simp: bytes)
  have pq: "p \<noteq> q" using p(3) q(2) by auto
  have len: "length (kernel_inputs n) = ?N" by (simp add: kernel_inputs_def)
  have g3: "mem g3 = (mem g)(p \<mapsto> kernel_inputs n, q \<mapsto> y)"
  proof -
    have "mem g3 = (mem g2)(p \<mapsto> kernel_inputs n)"
      using assms(2) c p(3,4) q(3) pq len bytes unfolding device_lawful_def by (metis fun_upd_other fun_upd_same)
    then show ?thesis using p(3) q(3) pq by (simp add: fun_upd_twist)
  qed
  have "0 < unat (grid_size ?w)" using assms(4,5) count_word(2) [of n] by simp
  then have grid: "0 < grid_size ?w" by (simp add: word_less_nat_alt)
  obtain order where order: "set order = all_threads (grid_size ?w) 256"
    and g4: "mem ?g4 = (mem g3)(q \<mapsto> run_threads order 256 ?w (f32_nat 2) (kernel_inputs n) y)"
    using assms(2) g3 pq grid len q(4) count_word(1) [OF assms(5)] unfolding device_lawful_def
    by (metis fun_upd_other fun_upd_same order_refl)
  let ?out = "run_threads order 256 ?w (f32_nat 2) (kernel_inputs n) y"
  have out_nth: "length ?out = ?N \<and> ?out ! k = expected_output (kernel_inputs n ! k)" if "k < ?N" for k
    using run_threads_nth [where inp = "kernel_inputs n" and buf = y and n = ?w and k = k and width = 256 and order = order] covered [OF assms(5) that order] len q(4) that
      count_word(1) [OF assms(5)] by simp
  have g5: "mem g5 = mem ?g4" and g6: "mem g6 = mem g5"
    using assms(1) sy d unfolding allocator_lawful_def by (metis snd_conv)+
  have "length ?out = ?N" using out_nth assms(4) by blast
  then have data: "data = ?out"
    using assms(2) d g5 g4 bytes unfolding device_lawful_def by (metis fun_upd_same)
  have right: "\<not> list_ex (\<lambda>i. f32_ne (data ! i) (expected_output (kernel_inputs n ! i))) [0..<?N]"
    using out_nth expected_equal [of _ n] by (auto simp: list_ex_iff data)
  have m6: "mem g6 = (mem g)(p \<mapsto> kernel_inputs n, q \<mapsto> ?out)" using g6 g5 g4 g3 by simp
  have free: "fst (cu_free rt x h) = 0" for x h using assms(3) by (simp add: never_fails_def)
  have f1: "s7 = status_success \<and> mem g7 = (mem g6)(p := None)"
    by (rule released [OF assms(1) _ p(1) r1 free]) (simp add: m6 pq)
  have f2: "s8 = status_success \<and> mem g8 = (mem g7)(q := None)"
    by (rule released [OF assms(1) _ q(1) r2 free]) (use f1 pq in \<open>simp add: m6\<close>)
  have "run_and_verify_add rt n g = (Some status_success, g8)"
    using n0 host m1 m2 c sy d right r1 r2 f1 f2
    by (simp add: run_and_verify_add_def verify_run_def cuda_allocate_def memcpy_h2d_def cuda_sync_def memcpy_d2h_def
        cu_error_def Let_def)
  moreover have "mem g8 = mem g" using f1 f2 m6 p(2) q(2) p(3) pq by (auto simp: fun_eq_iff)
  ultimately show ?thesis using assms(6) by simp
qed

section \<open>A device\<close>

text \<open>A device with three addresses: the state is its memory.\<close>

definition demo_fresh :: "(devptr \<Rightarrow> f32 list option) \<Rightarrow> devptr" where
  "demo_fresh g = (if g 1 = None then 1 else if g 2 = None then 2 else if g 3 = None then 3 else 0)"

definition demo_order :: "u32 \<Rightarrow> u32 \<Rightarrow> (u32 \<times> u32) list" where
  "demo_order grid width = List.product (map of_nat [0..<unat grid]) (map of_nat [0..<unat width])"

definition demo_runtime :: "(devptr \<Rightarrow> f32 list option) CudaRuntime" where
  "demo_runtime = \<lparr>cu_error_string = \<lambda>_. ''error'', cu_device_count = \<lambda>g. (0, 1, g), cu_set_device = \<lambda>_ g. (0, g),
     cu_properties = \<lambda>_ g. (0, \<lparr>prop_name = ''demo'', prop_major = 12, prop_minor = 0, prop_total = 1024\<rparr>, g),
     cu_mem_info = \<lambda>g. (0, 512, 1024, g),
     cu_malloc = \<lambda>bytes g. if demo_fresh g = 0 then (2, 0, g) else (0, demo_fresh g, g(demo_fresh g \<mapsto> replicate (unat bytes div 4) 0)),
     cu_free = \<lambda>p g. (0, g(p := None)),
     cu_h2d = \<lambda>dst data bytes g. (0, if g dst = None then g else g(dst \<mapsto> data)),
     cu_d2h = \<lambda>dst src bytes g. (0, case g src of None \<Rightarrow> dst | Some data \<Rightarrow> data, g),
     cu_launch = \<lambda>grid width p q n a g. (case g p of None \<Rightarrow> g | Some buf \<Rightarrow>
       (case g q of None \<Rightarrow> g | Some inp \<Rightarrow> g(p \<mapsto> run_threads (demo_order grid width) width n a inp buf))),
     cu_sync = \<lambda>g. (0, g), cu_host = \<lambda>_ _. True\<rparr>"

lemma demo_order_all: "set (demo_order grid width) = all_threads grid width"
proof -
  have "(of_nat :: nat \<Rightarrow> u32) ` {0..<unat x} = {y. y < x}" for x :: u32
  proof (intro set_eqI iffI)
    fix y :: u32 assume "y \<in> of_nat ` {0..<unat x}"
    then obtain k where "y = of_nat k" "k < unat x" by auto
    then show "y \<in> {y. y < x}" using unsigned_less [of x] by (simp add: word_less_nat_alt unat_of_nat)
  next
    fix y :: u32 assume "y \<in> {y. y < x}"
    then show "y \<in> of_nat ` {0..<unat x}" by (intro image_eqI [of _ _ "unat y"]) (simp_all add: word_less_nat_alt)
  qed
  then show ?thesis by (auto simp: demo_order_def all_threads_def)
qed

lemma new_block: "\<exists>data. length data = k \<and> g(p \<mapsto> replicate k x) = g(p \<mapsto> data)"
  by (rule exI [of _ "replicate k x"]) simp

lemma demo_allocator: "allocator_lawful demo_runtime (\<lambda>g. g)"
  unfolding allocator_lawful_def demo_runtime_def
  by (auto simp: demo_fresh_def new_block split: option.splits if_splits)

lemma demo_device: "device_lawful demo_runtime (\<lambda>g. g)"
  unfolding device_lawful_def demo_runtime_def using demo_order_all by auto

lemma demo_never_fails: "never_fails demo_runtime (\<lambda>g. g) Map.empty"
proof -
  have "demo_fresh h \<noteq> 0" if "card (dom h) \<le> Suc 0" for h
  proof
    assume "demo_fresh h = 0"
    then have "{1, 2} \<subseteq> dom h" by (auto simp: demo_fresh_def split: if_splits)
    then have "card {1 :: devptr, 2} \<le> card (dom h)" by (intro card_mono) (auto intro: finite_subset [of _ UNIV])
    then show False using that by simp
  qed
  then show ?thesis by (simp add: never_fails_def demo_runtime_def)
qed

theorem cuda_run_verifies_witness:
  "run_and_verify_add demo_runtime 1000 Map.empty = (Some status_success, Map.empty)"
proof -
  obtain res g' where r: "run_and_verify_add demo_runtime 1000 Map.empty = (res, g')" by fastforce
  have "0 < unat (1000 :: u64)" "unat (1000 :: u64) < 2 ^ 31 - 255" by simp_all
  from cuda_run_verifies [OF demo_allocator demo_device demo_never_fails this r] r show ?thesis by simp
qed

text \<open>First the demonstration device without its two last addresses, where the second allocation fails. Then one whose
  kernel failed: the synchronisation reports it, and so does every later \<open>cudaFree\<close>, without freeing.\<close>

definition broken_runtime :: "(devptr \<Rightarrow> f32 list option) CudaRuntime" where
  "broken_runtime = demo_runtime\<lparr>cu_sync := \<lambda>g. (700, g), cu_free := \<lambda>p g. (700, g)\<rparr>"

lemma broken_allocator: "allocator_lawful broken_runtime (\<lambda>g. g)"
  using demo_allocator unfolding allocator_lawful_def broken_runtime_def by simp

theorem cuda_run_releases_witness:
  "(let g = Map.empty(2 \<mapsto> [], 3 \<mapsto> []); (res, g', calls) = run_and_verify_add (logged demo_runtime) 1000 (g, [])
     in res \<noteq> None \<and> run_and_verify_add demo_runtime 1000 g = (res, g') \<and> calls = [Allocated 1, Freed 1 0] \<and> dom g' = {2, 3})
   \<and> (let (res, g', calls) = run_and_verify_add (logged broken_runtime) 1000 (Map.empty, [])
     in res \<noteq> None \<and> calls = [Allocated 1, Allocated 2, Freed 1 700, Freed 2 700] \<and> dom g' \<subseteq> {1, 2})"
proof
  let ?g = "Map.empty(2 \<mapsto> [], 3 \<mapsto> []) :: devptr \<Rightarrow> f32 list option"
  obtain res g' calls where r: "run_and_verify_add (logged demo_runtime) 1000 (?g, []) = (res, g', calls)" using prod_cases3 by blast
  have calls: "calls = [Allocated 1, Freed 1 0] \<and> res \<noteq> None"
    using r by (auto simp: run_and_verify_add_def cuda_allocate_def cuda_release_def cu_error_def demo_runtime_def demo_fresh_def
        logged_def Let_def split: prod.splits if_splits)
  then obtain s where s: "res = Some s" by auto
  note law = cuda_run_releases [OF demo_allocator r, unfolded s option.case]
  have "dom g' = dom ?g" using law calls by auto
  also have "dom ?g = {2, 3}" by auto
  finally show "let g = Map.empty(2 \<mapsto> [], 3 \<mapsto> []); (res, g', calls) = run_and_verify_add (logged demo_runtime) 1000 (g, [])
     in res \<noteq> None \<and> run_and_verify_add demo_runtime 1000 g = (res, g') \<and> calls = [Allocated 1, Freed 1 0] \<and> dom g' = {2, 3}"
    using r s calls law by (simp add: Let_def)
next
  obtain res g' calls where r: "run_and_verify_add (logged broken_runtime) 1000 (Map.empty, []) = (res, g', calls)"
    using prod_cases3 by blast
  have calls: "calls = [Allocated 1, Allocated 2, Freed 1 700, Freed 2 700] \<and> res \<noteq> None"
    using r by (auto simp: run_and_verify_add_def verify_run_def free_both_def cuda_allocate_def cuda_release_def cu_error_def
        cuda_sync_def memcpy_h2d_def broken_runtime_def demo_runtime_def demo_fresh_def logged_def Let_def split: prod.splits if_splits)
  then obtain s where s: "res = Some s" by auto
  note law = cuda_run_releases [OF broken_allocator r, unfolded s option.case]
  have "dom g' \<subseteq> {1, 2}" using law calls by fastforce
  then show "let (res, g', calls) = run_and_verify_add (logged broken_runtime) 1000 (Map.empty, [])
     in res \<noteq> None \<and> calls = [Allocated 1, Allocated 2, Freed 1 700, Freed 2 700] \<and> dom g' \<subseteq> {1, 2}"
    using r calls by simp
qed

end
