(* ===== verification/Net.thy ===== *)
theory Net
  imports Serialize
begin

text \<open>
  \<open>net.hpp\<close> and \<open>net.cpp\<close> (the Winsock build): framed messages over a byte stream. A socket holds the outcomes its
  future \<open>recv\<close> and \<open>send\<close> calls will have, in order, and the bytes it has sent; a \<open>recv\<close> takes at most what it asks for
  and leaves the rest of a chunk for the next call. The header buffer has 24 bytes of which \<open>pack_header\<close> writes 20: the
  last four are whatever the stack held, an argument of the sending functions. Integers are copied in the
  little-endian order of the targets of Winsock.
\<close>

unbundle bit_operations_syntax

section \<open>Headers\<close>

definition kFrameHeaderSize :: nat where
  "kFrameHeaderSize = 24"

definition kProtocolMagic :: u32 where
  "kProtocolMagic = 0xAD1FAB00"

definition kProtocolVersion :: u16 where
  "kProtocolVersion = 1"

definition kMaxFramePayload :: u32 where
  "kMaxFramePayload = 16 * 1024 * 1024"

record FrameHeader =
  fh_magic :: u32
  fh_version :: u16
  fh_type :: u16
  fh_payload_len :: u32
  fh_correlation :: u64

definition default_header :: FrameHeader where
  "default_header = \<lparr>fh_magic = kProtocolMagic, fh_version = kProtocolVersion, fh_type = 0, fh_payload_len = 0,
     fh_correlation = 0\<rparr>"

definition pack_header :: "FrameHeader \<Rightarrow> bytes \<Rightarrow> bytes" where
  "pack_header h junk =
     put_u32 (fh_magic h) @ put_u16 (fh_version h) @ put_u16 (fh_type h) @ put_u32 (fh_payload_len h)
     @ put_u64 (fh_correlation h) @ junk"

text \<open>\<open>memcpy\<close> of the \<open>n\<close> bytes at an offset of the buffer into an integer.\<close>

definition word_at :: "nat \<Rightarrow> nat \<Rightarrow> bytes \<Rightarrow> 'a::len word" where
  "word_at off n buf = fst (get_le 0 n 0 (byte_reader (take n (drop off buf))))"

definition unpack_header :: "bytes \<Rightarrow> Status \<times> FrameHeader" where
  "unpack_header buf =
     (let h = \<lparr>fh_magic = word_at 0 4 buf, fh_version = word_at 4 2 buf, fh_type = word_at 6 2 buf,
               fh_payload_len = word_at 8 4 buf, fh_correlation = word_at 12 8 buf\<rparr> in
      if fh_magic h \<noteq> kProtocolMagic then (status_failure ErrorCode_MalformedFrame ''bad magic'', h)
      else if fh_version h \<noteq> kProtocolVersion
      then (status_failure ErrorCode_UnsupportedVersion ''unsupported protocol version'', h)
      else if fh_payload_len h > kMaxFramePayload then (status_failure ErrorCode_FrameTooLarge ''frame too large'', h)
      else (status_success, h))"

section \<open>Sockets\<close>

text \<open>What the next \<open>recv\<close> finds: bytes (none means that the peer closed) or an error; with no outcome left the peer
  has closed. What the next \<open>send\<close> does: takes at most that many bytes, or fails; with no outcome left it takes all.\<close>

datatype recv_event = RecvData bytes | RecvError
datatype send_event = SendTakes nat | SendError

record NetSocket =
  sk_valid :: bool
  sk_peer_closed :: bool
  sk_recv :: "recv_event list"
  sk_send :: "send_event list"
  sk_sent :: bytes

text \<open>\<open>sk_valid\<close> says that the handle is not \<open>INVALID_SOCKET\<close>, which is what the transport tests. \<open>valid()\<close> compares
  the handle with the null pointer instead; \<open>INVALID_SOCKET\<close> is not null, so it holds of every socket.\<close>

datatype socket_handle = NullHandle | InvalidHandle | OpenHandle

definition sk_handle :: "NetSocket \<Rightarrow> socket_handle" where
  "sk_handle s = (if sk_valid s then OpenHandle else InvalidHandle)"

definition net_valid :: "NetSocket \<Rightarrow> bool" where
  "net_valid s \<longleftrightarrow> sk_handle s \<noteq> NullHandle"

definition sock_close :: "NetSocket \<Rightarrow> NetSocket" where
  "sock_close s = s\<lparr>sk_valid := False\<rparr>"

definition socket_error :: "string \<Rightarrow> Status" where
  "socket_error msg = status_failure ErrorCode_SocketError msg"

definition connection_reset :: "string \<Rightarrow> Status" where
  "connection_reset msg = status_failure ErrorCode_ConnectionReset msg"

definition call_limit :: "nat \<Rightarrow> nat" where
  "call_limit n = n mod 2 ^ 31"

text \<open>The loop of \<open>send_all\<close>: the bytes still to send, what was sent so far, the outcomes to come.\<close>

fun send_loop :: "bytes \<Rightarrow> bytes \<Rightarrow> send_event list \<Rightarrow> Status \<times> bytes \<times> send_event list" where
  "send_loop [] sent evs = (status_success, sent, evs)"
| "send_loop (b # bs) sent [] = (status_success, sent @ b # bs, [])"
| "send_loop (b # bs) sent (SendError # evs) = (socket_error ''send failed'', sent, evs)"
| "send_loop (b # bs) sent (SendTakes k # evs) =
     (let n = min k (call_limit (length (b # bs))) in
      if n = 0 then (connection_reset ''send returned 0'', sent, evs)
      else send_loop (drop n (b # bs)) (sent @ take n (b # bs)) evs)"

definition send_all :: "bytes \<Rightarrow> NetSocket \<Rightarrow> Status \<times> NetSocket" where
  "send_all data s =
     (if \<not> sk_valid s then (socket_error ''invalid socket'', s\<lparr>sk_peer_closed := True\<rparr>)
      else case send_loop data (sk_sent s) (sk_send s) of
        (st, sent, evs) \<Rightarrow>
          (st, s\<lparr>sk_sent := sent, sk_send := evs,
                 sk_peer_closed := (sk_peer_closed s \<or> \<not> status_ok st)\<rparr>))"

text \<open>The loop of \<open>recv_exact\<close>: what was read so far, the outcomes to come.\<close>

function (sequential) recv_loop :: "nat \<Rightarrow> bytes \<Rightarrow> recv_event list \<Rightarrow> (Status + bytes) \<times> recv_event list" where
  "recv_loop len got [] = (if length got < len then Inl (connection_reset ''peer closed'') else Inr got, [])"
| "recv_loop len got (e # evs) =
     (if \<not> length got < len then (Inr got, e # evs)
      else case e of
        RecvError \<Rightarrow> (Inl (connection_reset ''recv failed''), evs)
      | RecvData bs \<Rightarrow>
          let want = call_limit (len - length got) in
          if want = 0 \<or> bs = [] then (Inl (connection_reset ''peer closed''), if bs = [] then evs else e # evs)
          else recv_loop len (got @ take want bs) (if want < length bs then RecvData (drop want bs) # evs else evs))"
  by pat_completeness auto

text \<open>Every round reads at least one byte of those still missing.\<close>

termination recv_loop
  by (relation "measure (\<lambda>(len, got, evs). len - length got)") (auto simp: min_def simp flip: length_greater_0_conv)

definition recv_exact :: "nat \<Rightarrow> NetSocket \<Rightarrow> (Status + bytes) \<times> NetSocket" where
  "recv_exact len s =
     (if \<not> sk_valid s then (Inl (socket_error ''invalid socket''), s\<lparr>sk_peer_closed := True\<rparr>)
      else case recv_loop len [] (sk_recv s) of
        (x, evs) \<Rightarrow>
          (x, s\<lparr>sk_recv := evs,
                sk_peer_closed := (sk_peer_closed s \<or> (case x of Inl _ \<Rightarrow> True | Inr _ \<Rightarrow> False))\<rparr>))"

section \<open>Frames\<close>

definition sock_send_frame :: "bytes \<Rightarrow> FrameHeader \<Rightarrow> bytes \<Rightarrow> NetSocket \<Rightarrow> Status \<times> NetSocket" where
  "sock_send_frame junk hdr payload s =
     (let h = hdr\<lparr>fh_magic := kProtocolMagic, fh_version := kProtocolVersion,
                  fh_payload_len := of_nat (length payload)\<rparr> in
      case send_all (pack_header h junk) s of
        (s1, t) \<Rightarrow> if \<not> status_ok s1 then (s1, t) else if payload \<noteq> [] then send_all payload t else (status_success, t))"

definition sock_recv_frame :: "NetSocket \<Rightarrow> (Status + FrameHeader \<times> bytes) \<times> NetSocket" where
  "sock_recv_frame s =
     (case recv_exact kFrameHeaderSize s of
        (Inl e, t) \<Rightarrow> (Inl e, t)
      | (Inr buf, t) \<Rightarrow>
          (case unpack_header buf of
             (u, h) \<Rightarrow>
               if \<not> status_ok u then (Inl u, t)
               else if fh_payload_len h > 0
               then (case recv_exact (unat (fh_payload_len h)) t of
                       (Inl e, t1) \<Rightarrow> (Inl e, t1)
                     | (Inr payload, t1) \<Rightarrow> (Inr (h, payload), t1))
               else (Inr (h, []), t)))"

definition send_frame :: "bytes \<Rightarrow> u16 \<Rightarrow> u64 \<Rightarrow> bytes \<Rightarrow> NetSocket \<Rightarrow> Status \<times> NetSocket" where
  "send_frame junk type correlation payload s =
     sock_send_frame junk (default_header\<lparr>fh_type := type, fh_correlation := correlation\<rparr>) payload s"

definition recv_frame :: "NetSocket \<Rightarrow> (Status + u16 \<times> u64 \<times> bytes) \<times> NetSocket" where
  "recv_frame s =
     (case sock_recv_frame s of
        (Inl e, t) \<Rightarrow> (Inl e, t)
      | (Inr (h, payload), t) \<Rightarrow> (Inr (fh_type h, fh_correlation h, payload), t))"

end
