(* ===== verification/Text.thy ===== *)
theory Text
  imports Decision
begin

text \<open>
  The text the program prints: numbers as \<open>printf\<close> and \<open>std::ostream\<close> write them, \<open>format_bytes\<close> of \<open>units.hpp\<close> and
  \<open>AdmissionFabric::explain\<close> of \<open>engine.cpp\<close>. Doubles are converted to decimal exactly, ties to even, as the C
  libraries do in the default rounding mode; how an infinity or a NaN is written is left to the library, the
  argument \<open>nf\<close>.
\<close>

section \<open>Integers\<close>

definition int_to_string :: "int \<Rightarrow> string" where
  "int_to_string i = (if i < 0 then CHR ''-'' # nat_to_string (nat (- i)) else nat_to_string (nat i))"

text \<open>\<open>n\<close> with leading zeros up to \<open>k\<close> digits.\<close>

definition padded :: "nat \<Rightarrow> nat \<Rightarrow> string" where
  "padded k n = (let s = nat_to_string n in replicate (k - length s) (CHR ''0'') @ s)"

definition newline :: string where
  "newline = [CHR 0x0A]"

section \<open>Doubles\<close>

text \<open>\<open>m * 2 ^ e * n / d\<close> rounded to an integer.\<close>

definition round_scaled :: "nat \<Rightarrow> int \<Rightarrow> nat \<Rightarrow> nat \<Rightarrow> nat" where
  "round_scaled m e n d =
     (if 0 \<le> e then round_half_even (m * 2 ^ nat e * n) d else round_half_even (m * n) (d * 2 ^ nat (- e)))"

definition sign_string :: "bool \<Rightarrow> string" where
  "sign_string s = (if s then ''-'' else [])"

text \<open>\<open>%.pf\<close>.\<close>

definition f64_fixed :: "(f64 \<Rightarrow> string) \<Rightarrow> nat \<Rightarrow> f64 \<Rightarrow> string" where
  "f64_fixed nf p b =
     (case f64_unpack b of
        FNum s m e \<Rightarrow>
          let t = round_scaled m e (10 ^ p) 1 in
          sign_string s @
          (if p = 0 then nat_to_string t else nat_to_string (t div 10 ^ p) @ ''.'' @ padded p (t mod 10 ^ p))
      | _ \<Rightarrow> nf b)"

text \<open>The decimal exponent of a positive quotient \<open>n / d\<close>.\<close>

function (sequential) lead_zeros :: "nat \<Rightarrow> nat \<Rightarrow> nat" where
  "lead_zeros n d = (if n = 0 \<or> d \<le> n then 0 else Suc (lead_zeros (10 * n) d))"
  by pat_completeness auto

termination lead_zeros
  by (relation "measure (\<lambda>(n, d). d - n)") auto

declare lead_zeros.simps [simp del]

definition decimal_exp :: "nat \<Rightarrow> nat \<Rightarrow> int" where
  "decimal_exp n d =
     (if d \<le> n then int (length (nat_to_string (n div d))) - 1 else - int (lead_zeros n d))"

definition strip_zeros :: "string \<Rightarrow> string" where
  "strip_zeros s = List.rev (dropWhile (\<lambda>c. c = CHR ''0'') (List.rev s))"

definition with_fraction :: "string \<Rightarrow> string \<Rightarrow> string" where
  "with_fraction whole digits = (let f = strip_zeros digits in if f = [] then whole else whole @ ''.'' @ f)"

text \<open>The default format of a stream, \<open>%.6g\<close>: six significant digits, trailing zeros removed, an exponent when the
  value is below \<open>1e-4\<close> or needs more than six digits before the point.\<close>

definition f64_general :: "(f64 \<Rightarrow> string) \<Rightarrow> f64 \<Rightarrow> string" where
  "f64_general nf b =
     (case f64_unpack b of
        FNum s m e \<Rightarrow>
          sign_string s @
          (if m = 0 then ''0''
           else let x0 = (if 0 \<le> e then decimal_exp (m * 2 ^ nat e) 1 else decimal_exp m (2 ^ nat (- e)));
                    t0 = (if x0 \<le> 5 then round_scaled m e (10 ^ nat (5 - x0)) 1 else round_scaled m e 1 (10 ^ nat (x0 - 5)));
                    x = (if t0 = 10 ^ 6 then x0 + 1 else x0);
                    digits = nat_to_string (if t0 = 10 ^ 6 then 10 ^ 5 else t0)
                in if - 4 \<le> x \<and> x < 0 then with_fraction ''0'' (replicate (nat (- x - 1)) (CHR ''0'') @ digits)
                   else if 0 \<le> x \<and> x < 6 then with_fraction (take (nat (x + 1)) digits) (drop (nat (x + 1)) digits)
                   else with_fraction (take 1 digits) (drop 1 digits) @ ''e'' @ (if x < 0 then ''-'' else ''+'')
                        @ padded 2 (nat \<bar>x\<bar>))
      | _ \<Rightarrow> nf b)"

section \<open>Byte counts\<close>

definition byte_units :: "string list" where
  "byte_units = [''B'', ''KiB'', ''MiB'', ''GiB'', ''TiB'']"

text \<open>The loop: it divides at most four times, the remaining number of rounds is the first argument.\<close>

fun scale_bytes :: "nat \<Rightarrow> f64 \<Rightarrow> nat \<Rightarrow> f64 \<times> nat" where
  "scale_bytes 0 v i = (v, i)"
| "scale_bytes (Suc k) v i =
     (if f64_le (f64_nat 1024) v then scale_bytes k (f64_div v (f64_nat 1024)) (i + 1) else (v, i))"

definition format_bytes :: "(f64 \<Rightarrow> string) \<Rightarrow> u64 \<Rightarrow> string" where
  "format_bytes nf bytes =
     (case scale_bytes 4 (f64_of_u64 bytes) 0 of
        (v, i) \<Rightarrow> f64_fixed nf (if i = 0 then 0 else 1) v @ '' '' @ byte_units ! i)"

section \<open>Explanations\<close>

text \<open>Division of signed integers truncates.\<close>

definition milliseconds_of :: "i64 \<Rightarrow> int" where
  "milliseconds_of ns = sgn (sint ns) * (\<bar>sint ns\<bar> div 1000000)"

definition explain :: "(f64 \<Rightarrow> string) \<Rightarrow> AdmissionDecision \<Rightarrow> string" where
  "explain nf d =
     ''admission_request='' @ id_str (dec_admission_request_id d)
     @ '' tenant='' @ id_str (dec_tenant_id d) @ '' model='' @ id_str (dec_model_id d)
     @ '' outcome='' @ outcome_name (dec_outcome d) @ '' reason='' @ reason_code_name (dec_reason d) @ newline
     @ ''  policy_generation='' @ id_str (dec_policy_generation d)
     @ '' snapshot_generation='' @ id_str (dec_snapshot_generation d)
     @ '' admission_generation='' @ id_str (dec_admission_generation d) @ newline
     @ ''  confidence='' @ f64_general nf (dec_confidence d)
     @ '' predicted_peak_vram='' @ format_bytes nf (fp_peak (mp_footprint (dec_memory_prediction d))) @ newline
     @ ''  kv_growth='' @ format_bytes nf (fp_kv_growth (mp_footprint (dec_memory_prediction d)))
     @ '' tensor_state='' @ format_bytes nf (fp_tensor_state (mp_footprint (dec_memory_prediction d))) @ newline
     @ ''  predicted_duration_ms='' @ int_to_string (milliseconds_of (dp_expected (dec_duration_prediction d)))
     @ '' slo='' @ slo_verdict_name (slo_verdict (dec_slo d)) @ newline
     @ (if dec_explanation d \<noteq> [] then ''  '' @ dec_explanation d @ newline else [])"

end
