(* ===== verification/Sockets.thy ===== *)
theory Sockets
  imports Net Text
begin

text \<open>
  The other half of \<open>net.cpp\<close>: how a \<open>NetSocket\<close> gets and gives up the handle of the operating system. A process is the
  set of handles that the system holds open for it, with the log of the requests it made; what the system answers
  (Winsock is not code of this repository) is an argument of each operation. The endpoint here is the object's handle
  and flags; the bytes that pass over a connected one are in \<open>Net\<close>. The closing of an endpoint is also its destructor.
\<close>

unbundle bit_operations_syntax

section \<open>The operating system\<close>

type_synonym handle = nat

definition htons :: "u16 \<Rightarrow> u16" where
  "htons p = (push_bit 8 p) OR (drop_bit 8 p)"

datatype os_call =
    CallStartup
  | CallSocket
  | CallReuseAddress handle
  | CallConnect handle u16 u32
  | CallBind handle u16 u32
  | CallListen handle
  | CallAccept "handle option"
  | CallClose handle

text \<open>The answers: of \<open>WSAStartup\<close> its return code, of \<open>socket\<close> and \<open>accept\<close> the handle unless it is \<open>INVALID_SOCKET\<close>,
  of \<open>connect\<close>, \<open>bind\<close> and \<open>listen\<close> the last error if they fail, of \<open>InetPton\<close> what the address field holds after the
  call, given the host and what it held before, of \<open>getsockname\<close> the port in network order unless it fails.\<close>

record OsAnswers =
  an_startup :: int
  an_socket :: "handle option"
  an_pton :: "string \<Rightarrow> u32 \<Rightarrow> u32"
  an_connect :: "int option"
  an_bind :: "int option"
  an_listen :: "int option"
  an_accept :: "handle option"
  an_name :: "u16 option"

record Process =
  pr_winsock :: bool
  pr_open :: "handle set"
  pr_calls :: "os_call list"

definition os_request :: "os_call \<Rightarrow> Process \<Rightarrow> Process" where
  "os_request c p = p\<lparr>pr_calls := pr_calls p @ [c]\<rparr>"

definition os_open :: "handle \<Rightarrow> Process \<Rightarrow> Process" where
  "os_open h p = p\<lparr>pr_open := insert h (pr_open p)\<rparr>"

definition os_close :: "handle \<Rightarrow> Process \<Rightarrow> Process" where
  "os_close h p = os_request (CallClose h) (p\<lparr>pr_open := pr_open p - {h}\<rparr>)"

definition init_winsock_once :: "OsAnswers \<Rightarrow> Process \<Rightarrow> Status \<times> Process" where
  "init_winsock_once a p =
     (if pr_winsock p then (status_success, p)
      else if an_startup a \<noteq> 0 then (socket_error ''WSAStartup failed'', os_request CallStartup p)
      else (status_success, os_request CallStartup p\<lparr>pr_winsock := True\<rparr>))"

section \<open>Endpoints\<close>

text \<open>\<open>None\<close> is \<open>INVALID_SOCKET\<close>.\<close>

record Endpoint =
  ep_handle :: "handle option"
  ep_listener :: bool
  ep_peer_closed :: bool

definition endpoint_new :: Endpoint where
  "endpoint_new = \<lparr>ep_handle = None, ep_listener = False, ep_peer_closed = False\<rparr>"

definition endpoint_close :: "Endpoint \<Rightarrow> Process \<Rightarrow> Endpoint \<times> Process" where
  "endpoint_close e p =
     (e\<lparr>ep_handle := None, ep_listener := False\<rparr>, case ep_handle e of None \<Rightarrow> p | Some h \<Rightarrow> os_close h p)"

text \<open>The move constructor, which leaves \<open>peer_closed_\<close> of the source: the new endpoint and the source.\<close>

definition endpoint_take :: "Endpoint \<Rightarrow> Endpoint \<times> Endpoint" where
  "endpoint_take other = (other, other\<lparr>ep_handle := None, ep_listener := False\<rparr>)"

text \<open>The move assignment between two endpoints: the destination, the source and the process.\<close>

definition endpoint_assign :: "Endpoint \<Rightarrow> Endpoint \<Rightarrow> Process \<Rightarrow> Endpoint \<times> Endpoint \<times> Process" where
  "endpoint_assign this other p =
     (case endpoint_close this p of
        (_, p1) \<Rightarrow> (other, other\<lparr>ep_handle := None, ep_listener := False, ep_peer_closed := False\<rparr>, p1))"

definition set_socket :: "handle \<Rightarrow> Endpoint \<Rightarrow> Endpoint" where
  "set_socket h e = e\<lparr>ep_handle := Some h\<rparr>"

definition last_error :: "string \<Rightarrow> int \<Rightarrow> Status" where
  "last_error what err = socket_error (what @ '' failed ('' @ int_to_string err @ '')'')"

definition endpoint_connect ::
    "OsAnswers \<Rightarrow> string \<Rightarrow> u16 \<Rightarrow> Endpoint \<Rightarrow> Process \<Rightarrow> Status \<times> Endpoint \<times> Process" where
  "endpoint_connect a host port e p =
     (case init_winsock_once a p of
        (w, p1) \<Rightarrow>
          if \<not> status_ok w then (w, e, p1)
          else let p2 = os_request CallSocket p1 in
            case an_socket a of
              None \<Rightarrow> (socket_error ''socket create failed'', e, p2)
            | Some s \<Rightarrow>
                let p3 = os_request (CallConnect s (htons port) (an_pton a host 0)) (os_open s p2) in
                (case an_connect a of
                   Some err \<Rightarrow> (last_error ''connect'' err, e, os_close s p3)
                 | None \<Rightarrow> (status_success, set_socket s e, p3)))"

definition endpoint_listen ::
    "OsAnswers \<Rightarrow> string \<Rightarrow> u16 \<Rightarrow> Endpoint \<Rightarrow> Process \<Rightarrow> Status \<times> Endpoint \<times> Process" where
  "endpoint_listen a host port e p =
     (case init_winsock_once a p of
        (w, p1) \<Rightarrow>
          if \<not> status_ok w then (w, e, p1)
          else let p2 = os_request CallSocket p1 in
            case an_socket a of
              None \<Rightarrow> (socket_error ''socket create failed'', e, p2)
            | Some s \<Rightarrow>
                let addr = (if host = [] then 0 else an_pton a host 0);
                    p3 = os_request (CallBind s (htons port) addr) (os_request (CallReuseAddress s) (os_open s p2)) in
                (case an_bind a of
                   Some err \<Rightarrow> (last_error ''bind'' err, e, os_close s p3)
                 | None \<Rightarrow>
                     let p4 = os_request (CallListen s) p3 in
                     (case an_listen a of
                        Some err \<Rightarrow> (last_error ''listen'' err, e, os_close s p4)
                      | None \<Rightarrow> (status_success, (set_socket s e)\<lparr>ep_listener := True\<rparr>, p4))))"

text \<open>\<open>accept\<close> of a listener into another endpoint.\<close>

definition endpoint_accept :: "OsAnswers \<Rightarrow> Endpoint \<Rightarrow> Endpoint \<Rightarrow> Process \<Rightarrow> Status \<times> Endpoint \<times> Process" where
  "endpoint_accept a listener out p =
     (let p1 = os_request (CallAccept (ep_handle listener)) p in
      case an_accept a of
        None \<Rightarrow> (socket_error ''accept failed'', out, p1)
      | Some c \<Rightarrow>
          (case endpoint_close out (os_open c p1) of
             (out1, p2) \<Rightarrow> (status_success, (set_socket c out1)\<lparr>ep_listener := False, ep_peer_closed := False\<rparr>, p2)))"

definition local_port :: "OsAnswers \<Rightarrow> Endpoint \<Rightarrow> u16" where
  "local_port a e =
     (if ep_handle e = None then 0 else case an_name a of None \<Rightarrow> 0 | Some port \<Rightarrow> htons port)"

section \<open>The build without Winsock\<close>

datatype socket_call = ScEnsure | ScConnect | ScBindListen | ScAccept | ScSendAll | ScRecvExact | ScSendFrame | ScRecvFrame

text \<open>Every call fails in the same way, and the constructor leaves the null handle.\<close>

fun portable_call :: "socket_call \<Rightarrow> Status" where
  "portable_call _ = status_failure ErrorCode_NotImplemented ''no socket backend''"

definition portable_port :: u16 where
  "portable_port = 0"

section \<open>Many endpoints\<close>

record SocketPool =
  sp_process :: Process
  sp_slots :: "nat \<Rightarrow> Endpoint"

definition pool_start :: SocketPool where
  "pool_start = \<lparr>sp_process = \<lparr>pr_winsock = False, pr_open = {}, pr_calls = []\<rparr>, sp_slots = \<lambda>_. endpoint_new\<rparr>"

datatype socket_op =
    SoClose nat
  | SoTake nat nat
  | SoAssign nat nat
  | SoConnect nat string u16
  | SoListen nat string u16
  | SoAccept nat nat

definition pool_put :: "nat \<Rightarrow> Endpoint \<Rightarrow> Process \<Rightarrow> SocketPool \<Rightarrow> SocketPool" where
  "pool_put i e p w = w\<lparr>sp_process := p, sp_slots := (sp_slots w)(i := e)\<rparr>"

text \<open>\<open>SoTake i j\<close> constructs endpoint \<open>i\<close> from \<open>j\<close>, \<open>SoAssign i j\<close> assigns \<open>j\<close> to \<open>i\<close> (nothing, if they are the same
  object), \<open>SoAccept i j\<close> accepts from the listener \<open>i\<close> into \<open>j\<close>.\<close>

fun pool_step :: "OsAnswers \<Rightarrow> socket_op \<Rightarrow> SocketPool \<Rightarrow> SocketPool" where
  "pool_step a (SoClose i) w = (case endpoint_close (sp_slots w i) (sp_process w) of (e, p) \<Rightarrow> pool_put i e p w)"
| "pool_step a (SoTake i j) w =
     (case endpoint_take (sp_slots w j) of (x, y) \<Rightarrow> w\<lparr>sp_slots := (sp_slots w)(j := y, i := x)\<rparr>)"
| "pool_step a (SoAssign i j) w =
     (if i = j then w
      else case endpoint_assign (sp_slots w i) (sp_slots w j) (sp_process w) of
        (x, y, p) \<Rightarrow> pool_put i x p (pool_put j y p w))"
| "pool_step a (SoConnect i host port) w =
     (case endpoint_connect a host port (sp_slots w i) (sp_process w) of (_, e, p) \<Rightarrow> pool_put i e p w)"
| "pool_step a (SoListen i host port) w =
     (case endpoint_listen a host port (sp_slots w i) (sp_process w) of (_, e, p) \<Rightarrow> pool_put i e p w)"
| "pool_step a (SoAccept i j) w =
     (case endpoint_accept a (sp_slots w i) (sp_slots w j) (sp_process w) of (_, e, p) \<Rightarrow> pool_put j e p w)"

text \<open>What the system guarantees: it never gives out a handle that is still open, and nothing is accepted from an
  invalid listener. The constructed endpoint of a move is new.\<close>

definition step_sound :: "OsAnswers \<Rightarrow> socket_op \<Rightarrow> SocketPool \<Rightarrow> bool" where
  "step_sound a op w \<longleftrightarrow>
     (case an_socket a of None \<Rightarrow> True | Some h \<Rightarrow> h \<notin> pr_open (sp_process w)) \<and>
     (case op of
        SoTake i j \<Rightarrow> i \<noteq> j \<and> ep_handle (sp_slots w i) = None
      | SoAccept i j \<Rightarrow>
          (case an_accept a of None \<Rightarrow> True
           | Some h \<Rightarrow> h \<notin> pr_open (sp_process w) \<and> ep_handle (sp_slots w i) \<noteq> None)
      | _ \<Rightarrow> True)"

text \<open>A set-up of an endpoint that already has a handle.\<close>

fun overwrites :: "socket_op \<Rightarrow> SocketPool \<Rightarrow> bool" where
  "overwrites (SoConnect i _ _) w = (ep_handle (sp_slots w i) \<noteq> None)"
| "overwrites (SoListen i _ _) w = (ep_handle (sp_slots w i) \<noteq> None)"
| "overwrites _ _ = False"

inductive pool_steps :: "bool \<Rightarrow> SocketPool \<Rightarrow> SocketPool \<Rightarrow> bool" for clean w where
  pool_begun: "pool_steps clean w w"
| pool_further: "pool_steps clean w u \<Longrightarrow> step_sound a op u \<Longrightarrow> clean \<longrightarrow> \<not> overwrites op u
    \<Longrightarrow> pool_steps clean w (pool_step a op u)"

end
