(* ===== verification/Sockets_Spec.thy ===== *)
theory Sockets_Spec
  imports Sockets
begin

text \<open>
  Every handle that an endpoint holds is open and no two endpoints hold the same one, whatever the operating system
  answers; as long as only unused endpoints are connected or bound, no handle is lost. A second set-up of an
  endpoint loses its first handle for good.
\<close>

section \<open>One operation\<close>

definition set_up_outcome :: "OsAnswers \<Rightarrow> Endpoint \<Rightarrow> Process \<Rightarrow> Status \<times> Endpoint \<times> Process \<Rightarrow> bool" where
  "set_up_outcome a e p res =
     (case res of (st, e', p') \<Rightarrow>
        if status_ok st
        then \<exists>s. an_socket a = Some s \<and> ep_handle e' = Some s \<and> pr_open p' = insert s (pr_open p)
        else e' = e \<and> pr_open p' = pr_open p)"

definition fresh_socket :: "OsAnswers \<Rightarrow> Process \<Rightarrow> bool" where
  "fresh_socket a p = (case an_socket a of None \<Rightarrow> True | Some h \<Rightarrow> h \<notin> pr_open p)"

lemma open_request [simp]: "pr_open (os_request c p) = pr_open p"
  by (simp add: os_request_def)

lemma open_open [simp]: "pr_open (os_open h p) = insert h (pr_open p)"
  by (simp add: os_open_def)

lemma open_close [simp]: "pr_open (os_close h p) = pr_open p - {h}"
  by (simp add: os_close_def)

lemma winsock_open: "init_winsock_once a p = (w, p1) \<Longrightarrow> pr_open p1 = pr_open p"
  by (auto simp: init_winsock_once_def split: if_splits)

lemma winsock_status: "init_winsock_once a p = (w, p1) \<Longrightarrow> status_ok w \<or> an_startup a \<noteq> 0"
  by (auto simp: init_winsock_once_def split: if_splits)

lemma socket_error_fails [simp]: "\<not> status_ok (socket_error msg)" "\<not> status_ok (last_error what err)"
  by (simp_all add: socket_error_def last_error_def)

lemma connect_outcome:
  assumes "fresh_socket a p"
  shows "set_up_outcome a e p (endpoint_connect a host port e p)"
proof -
  obtain w p1 where w: "init_winsock_once a p = (w, p1)" by (cases "init_winsock_once a p")
  show ?thesis
    using assms winsock_open [OF w]
    by (auto simp: endpoint_connect_def w Let_def set_up_outcome_def fresh_socket_def set_socket_def split: option.splits)
qed

lemma listen_outcome:
  assumes "fresh_socket a p"
  shows "set_up_outcome a e p (endpoint_listen a host port e p)"
proof -
  obtain w p1 where w: "init_winsock_once a p = (w, p1)" by (cases "init_winsock_once a p")
  show ?thesis
    using assms winsock_open [OF w]
    by (auto simp: endpoint_listen_def w Let_def set_up_outcome_def fresh_socket_def set_socket_def split: option.splits)
qed

lemma close_outcome:
  "endpoint_close e p = (e', p') \<Longrightarrow>
     ep_handle e' = None \<and> pr_open p' = pr_open p - set_option (ep_handle e)"
  by (auto simp: endpoint_close_def split: option.splits)

section \<open>Ownership\<close>

text \<open>The abstract machine: who holds which handle, and the handles that are open. An endpoint gives its handle up and
  it is closed, a handle moves to an endpoint without one, or a new handle goes to an endpoint; on a clean run that
  endpoint has none yet.\<close>

type_synonym ownership = "(nat \<Rightarrow> handle option) \<times> handle set"

inductive owner_step :: "bool \<Rightarrow> ownership \<Rightarrow> ownership \<Rightarrow> bool" for clean where
  gives_up: "owner_step clean (held, opened) (held(i := None), opened - set_option (held i))"
| moves: "i \<noteq> j \<Longrightarrow> held i = None \<Longrightarrow> owner_step clean (held, opened) (held(j := None, i := held j), opened)"
| obtains_new: "h \<notin> opened \<Longrightarrow> clean \<longrightarrow> held i = None \<Longrightarrow> owner_step clean (held, opened) (held(i := Some h), insert h opened)"

abbreviation owner_steps :: "bool \<Rightarrow> ownership \<Rightarrow> ownership \<Rightarrow> bool" where
  "owner_steps clean \<equiv> (owner_step clean)\<^sup>*\<^sup>*"

definition ownership_of :: "SocketPool \<Rightarrow> ownership" where
  "ownership_of w = (\<lambda>i. ep_handle (sp_slots w i), pr_open (sp_process w))"

lemma ownership_put:
  "ownership_of (pool_put i e p w) = ((fst (ownership_of w))(i := ep_handle e), pr_open p)"
  by (auto simp: ownership_of_def pool_put_def)

lemma set_up_owner:
  assumes "fresh_socket a (sp_process w)" "clean \<longrightarrow> ep_handle (sp_slots w i) = None"
    and "set_up_outcome a (sp_slots w i) (sp_process w) (st, e, p)"
  shows "owner_steps clean (ownership_of w) (ownership_of (pool_put i e p w))"
proof (cases "status_ok st")
  case True
  then obtain s where "an_socket a = Some s" "ep_handle e = Some s" "pr_open p = insert s (pr_open (sp_process w))"
    using assms(3) by (auto simp: set_up_outcome_def)
  then show ?thesis
    using assms(1,2) unfolding ownership_put
    by (auto simp: ownership_of_def fresh_socket_def intro!: r_into_rtranclp obtains_new)
next
  case False
  then have "e = sp_slots w i" "pr_open p = pr_open (sp_process w)" using assms(3) by (auto simp: set_up_outcome_def)
  then have "ownership_of (pool_put i e p w) = ownership_of w" unfolding ownership_put by (auto simp: ownership_of_def)
  then show ?thesis by simp
qed

lemma close_owner:
  assumes "endpoint_close (sp_slots w i) (sp_process w) = (e, p)"
  shows "owner_step clean (ownership_of w) (ownership_of (pool_put i e p w))"
  using close_outcome [OF assms] gives_up [of clean "\<lambda>i. ep_handle (sp_slots w i)" "pr_open (sp_process w)" i]
  unfolding ownership_put by (simp add: ownership_of_def)

text \<open>Every handle that is held is open, and by one endpoint only.\<close>

definition owner_sound :: "ownership \<Rightarrow> bool" where
  "owner_sound x = (case x of (held, opened) \<Rightarrow>
     (\<forall>i h. held i = Some h \<longrightarrow> h \<in> opened) \<and> (\<forall>i j h. held i = Some h \<longrightarrow> held j = Some h \<longrightarrow> i = j))"

lemma owner_sound_step: "owner_step clean x y \<Longrightarrow> owner_sound x \<Longrightarrow> owner_sound y"
  by (induction rule: owner_step.induct) (auto simp: owner_sound_def split: if_splits)

lemma owner_sound_steps: "owner_steps clean x y \<Longrightarrow> owner_sound x \<Longrightarrow> owner_sound y"
  by (induction rule: rtranclp_induct) (auto intro: owner_sound_step)

text \<open>Every operation of the model is some steps of the machine.\<close>

lemma pool_step_owner:
  assumes "step_sound a op w" "clean \<longrightarrow> \<not> overwrites op w" "owner_sound (ownership_of w)"
  shows "owner_steps clean (ownership_of w) (ownership_of (pool_step a op w))"
proof (cases op)
  case (SoClose i)
  then show ?thesis using close_owner [of w i] by (auto split: prod.splits)
next
  case (SoTake i j)
  let ?held = "\<lambda>k. ep_handle (sp_slots w k)"
  have "ownership_of (pool_step a op w) = (?held(j := None, i := ?held j), pr_open (sp_process w))"
    by (auto simp: SoTake endpoint_take_def ownership_of_def)
  moreover have "owner_step clean (?held, pr_open (sp_process w)) (?held(j := None, i := ?held j), pr_open (sp_process w))"
    using assms(1) by (intro moves) (simp_all add: SoTake step_sound_def)
  ultimately show ?thesis by (simp add: ownership_of_def r_into_rtranclp)
next
  case (SoAssign i j)
  show ?thesis
  proof (cases "i = j")
    case False
    let ?held = "\<lambda>k. ep_handle (sp_slots w k)"
    obtain e p where c: "endpoint_close (sp_slots w i) (sp_process w) = (e, p)" by fastforce
    let ?mid = "(?held(i := None), pr_open p)"
    have "owner_step clean (ownership_of w) ?mid"
      using close_owner [OF c, of clean] close_outcome [OF c] by (simp add: ownership_put) (simp add: ownership_of_def)
    moreover have "owner_step clean ?mid ((?held(i := None))(j := None, i := (?held(i := None)) j), pr_open p)"
      using False by (intro moves) simp_all
    moreover have "ownership_of (pool_step a op w) = ((?held(i := None))(j := None, i := (?held(i := None)) j), pr_open p)"
      using False by (auto simp: SoAssign endpoint_assign_def c ownership_put) (simp add: ownership_of_def)
    ultimately show ?thesis by (metis rtranclp.simps)
  qed (simp add: SoAssign)
next
  case (SoConnect i host port)
  obtain st e p where r: "endpoint_connect a host port (sp_slots w i) (sp_process w) = (st, e, p)"
    using prod_cases3 by blast
  show ?thesis
    using set_up_owner [of a w clean i st e p] connect_outcome [of a "sp_process w" "sp_slots w i" host port] assms
    by (simp add: SoConnect r step_sound_def fresh_socket_def)
next
  case (SoListen i host port)
  obtain st e p where r: "endpoint_listen a host port (sp_slots w i) (sp_process w) = (st, e, p)"
    using prod_cases3 by blast
  show ?thesis
    using set_up_owner [of a w clean i st e p] listen_outcome [of a "sp_process w" "sp_slots w i" host port] assms
    by (simp add: SoListen r step_sound_def fresh_socket_def)
next
  case (SoAccept i j)
  show ?thesis
  proof (cases "an_accept a")
    case None
    then show ?thesis by (auto simp: SoAccept endpoint_accept_def Let_def ownership_put) (simp add: ownership_of_def fun_upd_idem)
  next
    case (Some c)
    let ?held = "\<lambda>k. ep_handle (sp_slots w k)" and ?opened = "pr_open (sp_process w)"
    have c: "c \<notin> ?opened" using assms(1) Some by (simp add: step_sound_def SoAccept)
    have "owner_step clean (?held, ?opened) (?held(j := None), ?opened - set_option (?held j))" by (rule gives_up)
    moreover have "owner_step clean (?held(j := None), ?opened - set_option (?held j))
        ((?held(j := None))(j := Some c), insert c (?opened - set_option (?held j)))"
      using c by (intro obtains_new) auto
    ultimately have *: "owner_steps clean (?held, ?opened) (?held(j := Some c), insert c (?opened - set_option (?held j)))"
      by (simp add: rtranclp.rtrancl_into_rtrancl r_into_rtranclp)
    have "ownership_of (pool_step a op w) = (?held(j := Some c), insert c ?opened - set_option (?held j))"
      by (auto simp: SoAccept endpoint_accept_def Some Let_def endpoint_close_def set_socket_def pool_put_def
          ownership_of_def split: option.splits)
    moreover have "?held j \<noteq> Some c" using c assms(3) by (auto simp: owner_sound_def ownership_of_def)
    then have "insert c ?opened - set_option (?held j) = insert c (?opened - set_option (?held j))" by auto
    ultimately show ?thesis using * by (simp add: ownership_of_def)
  qed
qed


lemma pool_steps_owner:
  assumes "pool_steps clean w u" "owner_sound (ownership_of w)"
  shows "owner_steps clean (ownership_of w) (ownership_of u)"
  using assms(1)
proof induction
  case (pool_further u a op)
  then show ?case
    using pool_step_owner [of a op u clean] owner_sound_steps [OF pool_further.IH assms(2)] by (meson rtranclp_trans)
qed simp

lemma start_sound: "owner_sound (ownership_of pool_start)"
  by (simp add: owner_sound_def ownership_of_def pool_start_def endpoint_new_def)

section \<open>What becomes of the handles\<close>

definition holders :: "SocketPool \<Rightarrow> handle \<Rightarrow> nat set" where
  "holders w h = {i. ep_handle (sp_slots w i) = Some h}"

lemma clean_keeps:
  assumes "owner_steps True x y" "\<forall>h \<in> snd x. \<exists>i. fst x i = Some h"
  shows "\<forall>h \<in> snd y. \<exists>i. fst y i = Some h"
  using assms
proof (induction rule: rtranclp_induct)
  case (step y z)
  have IH: "\<exists>i. fst y i = Some h" if "h \<in> snd y" for h using step that by blast
  from step(2) show ?case
  proof cases
    case (gives_up held opened i)
    then show ?thesis using IH by auto (metis option.set_intros)
  next
    case (moves i j held opened)
    then show ?thesis using IH by auto (metis option.discI)
  next
    case (obtains_new h opened held i)
    then show ?thesis using IH by auto (metis option.discI)
  qed
qed simp

text \<open>C23: whatever the operating system answers, every handle that an endpoint holds is open and has a single holder;
  and if only endpoints without a handle were connected or bound, then the handles open are exactly those held, so
  that a failed set-up, a move, an accept and a close never lose one.\<close>

theorem sockets_owned:
  assumes "pool_steps clean pool_start w"
  shows "(\<forall>i. case ep_handle (sp_slots w i) of None \<Rightarrow> True
            | Some h \<Rightarrow> h \<in> pr_open (sp_process w) \<and> holders w h = {i})
    \<and> (clean \<longrightarrow> (\<forall>h. h \<in> pr_open (sp_process w) \<longleftrightarrow> holders w h \<noteq> {}))"
proof -
  note steps = pool_steps_owner [OF assms start_sound]
  have sound: "owner_sound (ownership_of w)" by (rule owner_sound_steps [OF steps start_sound])
  have "\<forall>h \<in> snd (ownership_of w). \<exists>i. fst (ownership_of w) i = Some h" if clean
  proof (rule clean_keeps)
    show "owner_steps True (ownership_of pool_start) (ownership_of w)" using steps that by simp
  qed (simp add: ownership_of_def pool_start_def)
  with sound show ?thesis
    by (auto simp: owner_sound_def ownership_of_def holders_def split: option.splits)
qed

lemma lost_stays:
  assumes "owner_steps clean x y" "h \<in> snd x" "\<forall>i. fst x i \<noteq> Some h"
  shows "h \<in> snd y \<and> (\<forall>i. fst y i \<noteq> Some h)"
  using assms
proof (induction rule: rtranclp_induct)
  case (step y z)
  then have IH: "h \<in> snd y" "\<forall>i. fst y i \<noteq> Some h" by auto
  from step(2) show ?case
    by cases (use IH in auto)
qed simp

definition demo_answers :: "nat \<Rightarrow> OsAnswers" where
  "demo_answers n = \<lparr>an_startup = 0, an_socket = Some (2 * n), an_pton = \<lambda>_ addr. addr, an_connect = None, an_bind = None,
     an_listen = None, an_accept = Some (2 * n + 1), an_name = None\<rparr>"

lemmas pool_simps = step_sound_def endpoint_connect_def endpoint_listen_def endpoint_accept_def endpoint_take_def
  endpoint_close_def init_winsock_once_def set_socket_def pool_put_def os_request_def os_open_def os_close_def
  demo_answers_def endpoint_new_def Let_def

text \<open>A listener, a connection accepted from it into endpoint 1 and moved to endpoint 2.\<close>

theorem sockets_owned_witness:
  "let w = pool_step (demo_answers 3) (SoTake 2 1) (pool_step (demo_answers 2) (SoAccept 0 1)
         (pool_step (demo_answers 1) (SoListen 0 [] 7777) pool_start))
     in holders w 5 = {2} \<and> (\<forall>h. h \<in> pr_open (sp_process w) \<longleftrightarrow> holders w h \<noteq> {})"
proof -
  let ?w1 = "pool_step (demo_answers 1) (SoListen 0 [] 7777) pool_start"
  let ?w2 = "pool_step (demo_answers 2) (SoAccept 0 1) ?w1"
  let ?w = "pool_step (demo_answers 3) (SoTake 2 1) ?w2"
  have "pool_steps True pool_start ?w1"
    by (intro pool_further pool_begun) (simp_all add: pool_simps pool_start_def)
  then have "pool_steps True pool_start ?w2"
    by (rule pool_further) (simp_all add: pool_simps pool_start_def)
  then have "pool_steps True pool_start ?w"
    by (rule pool_further) (simp_all add: pool_simps pool_start_def)
  moreover have "ep_handle (sp_slots ?w 2) = Some 5" by (simp add: pool_simps pool_start_def)
  ultimately show ?thesis using sockets_owned [of True ?w] unfolding Let_def by (auto dest!: spec [of _ 2])
qed

text \<open>Connecting an endpoint that already holds a handle loses it: the old handle stays open, no endpoint holds it,
  and no later operation, the destructor included, changes that.\<close>

theorem second_connect_leaks:
  assumes "pool_steps False pool_start w" and "step_sound a (SoConnect i host port) w"
    and "ep_handle (sp_slots w i) = Some h"
    and "status_ok (fst (endpoint_connect a host port (sp_slots w i) (sp_process w)))"
    and "pool_steps False (pool_step a (SoConnect i host port) w) u"
  shows "h \<in> pr_open (sp_process u) \<and> holders u h = {}"
proof -
  let ?v = "pool_step a (SoConnect i host port) w"
  have sound: "owner_sound (ownership_of w)"
    by (rule owner_sound_steps [OF pool_steps_owner [OF assms(1) start_sound] start_sound])
  obtain st e p where r: "endpoint_connect a host port (sp_slots w i) (sp_process w) = (st, e, p)"
    using prod_cases3 by blast
  have fresh: "fresh_socket a (sp_process w)" using assms(2) by (simp add: step_sound_def fresh_socket_def)
  obtain s where s: "an_socket a = Some s" "ep_handle e = Some s" "pr_open p = insert s (pr_open (sp_process w))"
    using connect_outcome [OF fresh, of "sp_slots w i" host port] assms(4) by (auto simp: r set_up_outcome_def)
  have "s \<noteq> h" using fresh s(1) sound assms(3) by (auto simp: fresh_socket_def owner_sound_def ownership_of_def)
  then have "h \<in> snd (ownership_of ?v)" "\<forall>k. fst (ownership_of ?v) k \<noteq> Some h"
    using s sound assms(3) by (auto simp: r ownership_put owner_sound_def) (auto simp: ownership_of_def)
  moreover have "owner_sound (ownership_of ?v)"
    by (rule owner_sound_steps [OF pool_step_owner [OF assms(2) _ sound, where clean = False] sound]) simp
  ultimately show ?thesis
    using lost_stays [of False "ownership_of ?v" "ownership_of u" h] pool_steps_owner [OF assms(5)]
    by (simp add: ownership_of_def holders_def)
qed

text \<open>Two connections of the same endpoint: the first handle, 2, is lost, also after the endpoint is destroyed.\<close>

theorem second_connect_leaks_witness:
  "let w = pool_step (demo_answers 1) (SoConnect 0 ''127.0.0.1'' 7777) pool_start;
       u = pool_step (demo_answers 3) (SoClose 0) (pool_step (demo_answers 2) (SoConnect 0 ''127.0.0.1'' 7777) w)
     in 2 \<in> pr_open (sp_process u) \<and> holders u 2 = {}"
proof -
  let ?op = "SoConnect 0 ''127.0.0.1'' 7777"
  let ?w = "pool_step (demo_answers 1) ?op pool_start" and ?a = "demo_answers 2"
  let ?v = "pool_step ?a ?op ?w"
  have "pool_steps False pool_start ?w"
    by (intro pool_further pool_begun) (simp_all add: pool_simps pool_start_def)
  moreover have "pool_steps False ?v (pool_step (demo_answers 3) (SoClose 0) ?v)"
    by (intro pool_further pool_begun) (simp_all add: pool_simps pool_start_def)
  moreover have "step_sound ?a ?op ?w" "ep_handle (sp_slots ?w 0) = Some 2"
    "status_ok (fst (endpoint_connect ?a ''127.0.0.1'' 7777 (sp_slots ?w 0) (sp_process ?w)))"
    by (simp_all add: pool_simps pool_start_def)
  ultimately show ?thesis
    using second_connect_leaks [of ?w ?a 0 "''127.0.0.1''" 7777 2 "pool_step (demo_answers 3) (SoClose 0) ?v"]
    unfolding Let_def by simp
qed

end
