(* ===== verification/Ctl.thy ===== *)
theory Ctl
  imports Engine Text
begin

text \<open>
  \<open>apps/ctl/main.cpp\<close>: the command-line tool. Each run builds an engine of its own with a default policy and one
  local snapshot, executes one command on it and prints. The result is the printed text, the exit code and the engine; the clock,
  the measured time of the benchmark and the text of a non-finite number are arguments. \<open>clk 0\<close> is the reading for the
  snapshot and \<open>clk 1\<close> the one while the command runs, \<open>clk (1 + i)\<close> in round \<open>i\<close> of the benchmark.
\<close>

section \<open>The C library\<close>

definition is_space :: "char \<Rightarrow> bool" where
  "is_space c \<longleftrightarrow> c \<in> {CHR '' '', CHR 0x09, CHR 0x0A, CHR 0x0B, CHR 0x0C, CHR 0x0D}"

definition is_digit :: "char \<Rightarrow> bool" where
  "is_digit c \<longleftrightarrow> 48 \<le> (of_char c :: nat) \<and> (of_char c :: nat) \<le> 57"

definition digits_value :: "string \<Rightarrow> nat" where
  "digits_value s = fold (\<lambda>c n. 10 * n + (of_char c - 48)) s 0"

text \<open>The sign and the leading digits after white space; without digits the value is 0.\<close>

definition parse_integer :: "string \<Rightarrow> bool \<times> nat" where
  "parse_integer s =
     (case dropWhile is_space s of
        [] \<Rightarrow> (False, 0)
      | c # cs \<Rightarrow>
          if c = CHR ''-'' then (True, digits_value (takeWhile is_digit cs))
          else if c = CHR ''+'' then (False, digits_value (takeWhile is_digit cs))
          else (False, digits_value (takeWhile is_digit (c # cs))))"

text \<open>\<open>strtoull\<close> in base 10: the largest value on overflow, the negated value after a minus sign.\<close>

definition strtoull :: "string \<Rightarrow> u64" where
  "strtoull s =
     (case parse_integer s of
        (neg, n) \<Rightarrow> if n \<ge> 2 ^ 64 then u64_max else if neg then - of_nat n else of_nat n)"

section \<open>Helpers\<close>

definition quote_char :: char where
  "quote_char = CHR 0x22"

definition backslash :: char where
  "backslash = CHR 0x5C"

definition json_str :: "string \<Rightarrow> string" where
  "json_str s =
     [quote_char] @ concat (map (\<lambda>c. if c = quote_char \<or> c = backslash then [backslash, c] else [c]) s) @ [quote_char]"

text \<open>A key and a value of an object.\<close>

definition json_field :: "string \<Rightarrow> string \<Rightarrow> string" where
  "json_field key shown = [quote_char] @ key @ [quote_char] @ '': '' @ shown"

definition ctl_policy :: AdmissionPolicy where
  "ctl_policy = default_policy\<lparr>p_name := ''default'', p_max_snapshot_age := seconds 30\<rparr>"

definition ctl_snapshot :: "i64 \<Rightarrow> ResourceSnapshot" where
  "ctl_snapshot now = default_snapshot\<lparr>snap_generation := Id 1, snap_timestamp := now, snap_agent_id := Id 1,
     snap_boot_id := Id 1, snap_node_name := ''local'',
     snap_total := rv_zero(AcceleratorMemory := push_bit 30 24, HostMemory := push_bit 30 16,
       PinnedHostMemory := push_bit 30 2, ExecutionSlots := 128, SequenceSlots := 512),
     snap_capabilities := cap_add (cap_compute_capability ''12.0'') (cap_add (cap_dtype ''fp16'') (cap_add (cap_backend ''cuda'') [])),
     snap_pressure := \<lambda>_. PressureLevel_Low, snap_provenance := \<lambda>_. Provenance_Measured\<rparr>"

definition make_local_engine :: "i64 \<Rightarrow> AdmissionFabric" where
  "make_local_engine now = set_snapshot (ctl_snapshot now) (snd (install_policy ctl_policy fabric_empty))"

section \<open>Options\<close>

type_synonym options = "(string, string) omap"

text \<open>Pairs of a key and a value; the last value of a key counts, a key without a value is dropped.\<close>

fun parse_options :: "string list \<Rightarrow> options \<Rightarrow> options" where
  "parse_options (k # v # rest) kv = parse_options rest (om_put k v kv)"
| "parse_options _ kv = kv"

definition get_option :: "options \<Rightarrow> string \<Rightarrow> string \<Rightarrow> string" where
  "get_option kv k def = (case om_find kv k of None \<Rightarrow> def | Some v \<Rightarrow> v)"

definition get_ull :: "options \<Rightarrow> string \<Rightarrow> u64 \<Rightarrow> u64" where
  "get_ull kv k def = (case om_find kv k of None \<Rightarrow> def | Some v \<Rightarrow> strtoull v)"

text \<open>A count of milliseconds as nanoseconds; the multiplication wraps where C++ leaves it undefined.\<close>

definition from_milliseconds :: "u64 \<Rightarrow> i64" where
  "from_milliseconds ms = ms * 1000000"

section \<open>Commands\<close>

text \<open>What is printed, the exit code and the engine that the command leaves.\<close>

type_synonym ctl_result = "string \<times> int \<times> AdmissionFabric"

definition ctl_descriptor :: "options \<Rightarrow> AdmissionDescriptor" where
  "ctl_descriptor kv =
     (let rid = get_ull kv ''--request-id'' 1; expected = get_ull kv ''--output-tokens'' 1024 in
      default_descriptor\<lparr>d_admission_request_id := Id rid, d_request_id := Id (rid + 100000), d_attempt_id := Id 1,
        d_tenant_id := Id (get_ull kv ''--tenant'' 1), d_model_id := Id (get_ull kv ''--model'' 7),
        d_model_revision := Id (get_ull kv ''--revision'' 1), d_policy_generation := Id 1,
        d_input_tokens := get_ull kv ''--input-tokens'' 1024, d_expected_output_tokens := expected,
        d_max_output_tokens := get_ull kv ''--max-output-tokens'' expected,
        d_backend := get_option kv ''--backend'' ''cuda'', d_dtype := get_option kv ''--dtype'' ''fp16'',
        d_latency_class := LatencyClass_BestEffort,
        d_deadline := (if om_find kv ''--deadline-ms'' \<noteq> None
                       then Some (from_milliseconds (get_ull kv ''--deadline-ms'' 0)) else None)\<rparr>)"

definition show_decision :: "(f64 \<Rightarrow> string) \<Rightarrow> AdmissionDecision \<Rightarrow> string" where
  "show_decision nf dec =
     ''  '' @ json_field ''admission_request'' (id_str (dec_admission_request_id dec)) @ '','' @ newline
     @ ''  '' @ json_field ''outcome'' (json_str (outcome_name (dec_outcome dec))) @ '','' @ newline
     @ ''  '' @ json_field ''reason'' (json_str (reason_code_name (dec_reason dec))) @ '','' @ newline
     @ ''  '' @ json_field ''confidence'' (f64_fixed nf 3 (dec_confidence dec)) @ '','' @ newline
     @ ''  '' @ json_field ''predicted_peak_vram_bytes''
         (to_string_u64 (fp_peak (mp_footprint (dec_memory_prediction dec)))) @ '','' @ newline
     @ ''  '' @ json_field ''predicted_duration_ms''
         (int_to_string (milliseconds_of (dp_expected (dec_duration_prediction dec)))) @ '','' @ newline
     @ ''  '' @ json_field ''slo'' (json_str (slo_verdict_name (slo_verdict (dec_slo dec)))) @ '','' @ newline
     @ (case dec_reservation_id dec of
          None \<Rightarrow> [] | Some rsv \<Rightarrow> ''  '' @ json_field ''reservation'' (id_str rsv) @ '','' @ newline)
     @ ''  '' @ json_field ''explanation'' (json_str (dec_explanation dec)) @ newline"

definition ctl_evaluate :: "platform \<Rightarrow> (f64 \<Rightarrow> string) \<Rightarrow> i64 \<Rightarrow> options \<Rightarrow> AdmissionFabric \<Rightarrow> ctl_result" where
  "ctl_evaluate pf nf now kv f =
     (case fabric_evaluate pf now (ctl_descriptor kv) f of
        (Inr dec, f1) \<Rightarrow> (''{'' @ newline @ show_decision nf dec @ ''}'' @ newline, 0, f1)
      | (Inl e, f1) \<Rightarrow>
          (''{'' @ newline @ ''  '' @ json_field ''error'' (json_str (err_message e)) @ newline @ ''}'' @ newline, 1, f1))"

definition show_error :: "string \<Rightarrow> string" where
  "show_error shown = ''{'' @ json_field ''error'' shown @ ''}'' @ newline"

definition show_bool :: "bool \<Rightarrow> string" where
  "show_bool b = (if b then ''true'' else ''false'')"

definition exit_of :: "Status \<Rightarrow> int" where
  "exit_of s = (if status_ok s then 0 else 1)"

definition last_decision_of :: "AdmissionFabric \<Rightarrow> AdmissionRequestId \<Rightarrow> AdmissionDecision option" where
  "last_decision_of f rid = (case fabric_request f rid of None \<Rightarrow> None | Some rec \<Rightarrow> rr_last_decision rec)"

definition ctl_admit :: "i64 \<Rightarrow> options \<Rightarrow> AdmissionFabric \<Rightarrow> ctl_result" where
  "ctl_admit now kv f =
     (let rid = Id (get_ull kv ''--request-id'' 0) in
      case last_decision_of f rid of
        None \<Rightarrow> (show_error (json_str ''no decision''), 1, f)
      | Some dec \<Rightarrow>
          (case commit_admission now rid (dec_admission_generation dec) f of
             (s, f1) \<Rightarrow> (''{'' @ json_field ''admit'' (show_bool (status_ok s)) @ ''}'' @ newline, exit_of s, f1)))"

definition ctl_release :: "i64 \<Rightarrow> options \<Rightarrow> AdmissionFabric \<Rightarrow> ctl_result" where
  "ctl_release now kv f =
     (case release_reservation now (Id (get_ull kv ''--reservation-id'' 0)) f of
        (s, f1) \<Rightarrow> (''{'' @ json_field ''release'' (show_bool (status_ok s)) @ ''}'' @ newline, exit_of s, f1))"

definition ctl_show_capacity :: "AdmissionFabric \<Rightarrow> ctl_result" where
  "ctl_show_capacity f =
     (''{'' @ json_field ''generation'' (id_str (snap_generation (af_snapshot f)))
      @ '', '' @ json_field ''total_vram'' (to_string_u64 (snap_total (af_snapshot f) AcceleratorMemory))
      @ '', '' @ json_field ''available_vram'' (to_string_u64 (rm_availability (af_reservations f) AcceleratorMemory))
      @ '', '' @ json_field ''reserved_vram'' (to_string_u64 (rm_reserved_sum (af_reservations f) AcceleratorMemory))
      @ '', '' @ json_field ''used_vram'' (to_string_u64 (rm_used_sum (af_reservations f) AcceleratorMemory))
      @ ''}'' @ newline, 0, f)"

text \<open>The entries of a table, separated by a comma and a line break.\<close>

fun show_entries :: "('a \<Rightarrow> string) \<Rightarrow> bool \<Rightarrow> 'a list \<Rightarrow> string" where
  "show_entries show first [] = []"
| "show_entries show first (x # xs) = (if first then [] else '','' @ newline) @ show x @ show_entries show False xs"

definition ctl_list_requests :: "AdmissionFabric \<Rightarrow> ctl_result" where
  "ctl_list_requests f =
     (''{'' @ json_field ''requests'' ''['' @ newline
      @ show_entries (\<lambda>(rid, rec). ''  {'' @ json_field ''id'' (id_str rid)
          @ '', '' @ json_field ''lifecycle'' (json_str (lifecycle_name (rr_lifecycle rec))) @ ''}'') True (af_requests f)
      @ newline @ '']}'' @ newline, 0, f)"

definition ctl_list_reservations :: "AdmissionFabric \<Rightarrow> ctl_result" where
  "ctl_list_reservations f =
     (''{'' @ json_field ''reservations'' ''['' @ newline
      @ show_entries (\<lambda>(rid, r). ''  {'' @ json_field ''id'' (id_str rid)
          @ '', '' @ json_field ''status'' (json_str (reservation_status_name (rsv_status r)))
          @ '', '' @ json_field ''vram'' (to_string_u64 (rsv_demand r AcceleratorMemory)) @ ''}'') True
          (rm_reservations (af_reservations f))
      @ newline @ '']}'' @ newline, 0, f)"

definition ctl_show_policy :: "(f64 \<Rightarrow> string) \<Rightarrow> AdmissionFabric \<Rightarrow> ctl_result" where
  "ctl_show_policy nf f =
     (case fabric_policy f of
        None \<Rightarrow> (show_error (json_str ''no policy''), 1, f)
      | Some p \<Rightarrow>
          (''{'' @ json_field ''generation'' (id_str (p_generation p)) @ '', '' @ json_field ''name'' (json_str (p_name p))
           @ '', '' @ json_field ''safety_headroom_ratio'' (f64_fixed nf 3 (p_safety_headroom_ratio p)) @ ''}'' @ newline, 0, f))"

definition ctl_validate_policy :: "AdmissionFabric \<Rightarrow> ctl_result" where
  "ctl_validate_policy f =
     (case install_policy ctl_policy f of (s, f1) \<Rightarrow>
      (''{'' @ json_field ''valid'' (show_bool (status_ok s)) @ '', '' @ json_field ''message'' (json_str (err_message s))
       @ ''}'' @ newline, exit_of s, f1))"

definition ctl_explain :: "(f64 \<Rightarrow> string) \<Rightarrow> options \<Rightarrow> AdmissionFabric \<Rightarrow> ctl_result" where
  "ctl_explain nf kv f =
     (case last_decision_of f (Id (get_ull kv ''--request-id'' 0)) of
        None \<Rightarrow> (show_error (json_str ''no decision''), 1, f)
      | Some dec \<Rightarrow> (explain nf dec @ newline, 0, f))"

definition ctl_observation :: "options \<Rightarrow> Observation" where
  "ctl_observation kv = \<lparr>o_id = Id (get_ull kv ''--observation-id'' 1),
     o_admission_request_id = Id (get_ull kv ''--request-id'' 1), o_tenant_id = Id 0,
     o_model_id = Id (get_ull kv ''--model'' 7), o_model_revision = Id (get_ull kv ''--revision'' 1),
     o_backend = get_option kv ''--backend'' ''cuda'', o_dtype = [], o_quantization = [],
     o_workload_type = WorkloadType_Inference, o_peak_vram = get_ull kv ''--peak-vram'' 0, o_host_memory = 0,
     o_pinned_memory = 0, o_kv_growth = 0, o_transfer_bytes = 0,
     o_execution_duration = from_milliseconds (get_ull kv ''--duration-ms'' 1),
     o_input_tokens = get_ull kv ''--input-tokens'' 1024, o_output_tokens = get_ull kv ''--output-tokens'' 1024,
     o_completed_at = 0, o_kind = ObservationKind_Completed\<rparr>"

definition ctl_observe :: "options \<Rightarrow> AdmissionFabric \<Rightarrow> ctl_result" where
  "ctl_observe kv f =
     (let s = observation_validate (ctl_observation kv) in
      if \<not> status_ok s then (show_error (json_str (err_message s)), 1, f)
      else (''{'' @ json_field ''observed'' ''true'' @ ''}'' @ newline, 0, fabric_observe (ctl_observation kv) f))"

section \<open>The benchmark\<close>

definition benchmark_descriptor :: "u64 \<Rightarrow> AdmissionDescriptor" where
  "benchmark_descriptor i =
     default_descriptor\<lparr>d_admission_request_id := Id (i + 1), d_request_id := Id (i + 1), d_attempt_id := Id 1,
       d_tenant_id := Id 1, d_model_id := Id 7, d_model_revision := Id 1, d_policy_generation := Id 1,
       d_input_tokens := 1000, d_expected_output_tokens := 1000, d_max_output_tokens := 1000,
       d_backend := ''cuda'', d_dtype := ''fp16'', d_latency_class := LatencyClass_BestEffort\<rparr>"

text \<open>The loop from \<open>i\<close> with \<open>k\<close> rounds left.\<close>

fun benchmark_loop :: "platform \<Rightarrow> (nat \<Rightarrow> i64) \<Rightarrow> nat \<Rightarrow> u64 \<Rightarrow> AdmissionFabric \<Rightarrow> AdmissionFabric" where
  "benchmark_loop pf clk 0 i f = f"
| "benchmark_loop pf clk (Suc k) i f =
     benchmark_loop pf clk k (i + 1) (snd (fabric_evaluate pf (clk (1 + unat i)) (benchmark_descriptor i) f))"

definition show_benchmark :: "(f64 \<Rightarrow> string) \<Rightarrow> u64 \<Rightarrow> f64 \<Rightarrow> string" where
  "show_benchmark nf n ms =
     ''{'' @ json_field ''iterations'' (to_string_u64 n) @ '', '' @ json_field ''elapsed_ms'' (f64_fixed nf 2 ms)
     @ '', '' @ json_field ''ops_per_sec'' (f64_fixed nf 0
         (f64_div (f64_mul (f64_of_u64 n) (f64_nat 1000)) (if f64_lt f64_zero ms then ms else f64_nat 1)))
     @ ''}'' @ newline"

text \<open>The measured time may depend on what the loop did, so it is a function of the engine after it.\<close>

definition ctl_benchmark ::
    "platform \<Rightarrow> (f64 \<Rightarrow> string) \<Rightarrow> (nat \<Rightarrow> i64) \<Rightarrow> (AdmissionFabric \<Rightarrow> f64) \<Rightarrow> options \<Rightarrow> AdmissionFabric \<Rightarrow> ctl_result" where
  "ctl_benchmark pf nf clk elapsed kv f =
     (let n = get_ull kv ''--iterations'' 10000;
          f1 = benchmark_loop pf clk (unat n) 0 f
      in (show_benchmark nf n (elapsed f1), 0, f1))"

section \<open>The program\<close>

definition ctl_usage :: string where
  "ctl_usage =
     ''usage: admission-fabricctl <command> [options]'' @ newline
     @ ''commands: evaluate admit release list-requests list-reservations show-capacity'' @ newline
     @ ''          show-policy validate-policy explain observe benchmark validate'' @ newline"

text \<open>\<open>main\<close>; the arguments are those after the name of the program. Without any, no engine is built.\<close>

definition ctl_main ::
    "platform \<Rightarrow> (f64 \<Rightarrow> string) \<Rightarrow> (nat \<Rightarrow> i64) \<Rightarrow> (AdmissionFabric \<Rightarrow> f64) \<Rightarrow> string list \<Rightarrow> ctl_result" where
  "ctl_main pf nf clk elapsed args =
     (case args of
        [] \<Rightarrow> (ctl_usage, 2, fabric_empty)
      | cmd # rest \<Rightarrow>
          let kv = parse_options rest []; f = make_local_engine (clk 0) in
          if cmd = ''evaluate'' then ctl_evaluate pf nf (clk 1) kv f
          else if cmd = ''admit'' then ctl_admit (clk 1) kv f
          else if cmd = ''release'' then ctl_release (clk 1) kv f
          else if cmd = ''show-capacity'' then ctl_show_capacity f
          else if cmd = ''list-requests'' then ctl_list_requests f
          else if cmd = ''list-reservations'' then ctl_list_reservations f
          else if cmd = ''show-policy'' then ctl_show_policy nf f
          else if cmd = ''validate-policy'' then ctl_validate_policy f
          else if cmd = ''explain'' then ctl_explain nf kv f
          else if cmd = ''observe'' then ctl_observe kv f
          else if cmd = ''benchmark'' then ctl_benchmark pf nf clk elapsed kv f
          else if cmd \<in> {''validate'', ''defer'', ''show-request'', ''show-reservation'', ''show-agents''}
          then (''{'' @ json_field ''note'' (json_str ''command available via library API'') @ ''}'' @ newline, 0, f)
          else (show_error (json_str ''unknown command''), 2, f))"

end
