(* ===== verification/Text_Spec.thy ===== *)
theory Text_Spec
  imports Text Doubles_Order
begin

text \<open>
  What \<open>format_bytes\<close> prints: the unit is the largest one that does not exceed the count, up to TiB, and the number
  is the count in that unit to one decimal. The divisions by 1024 are exact, so the one rounding that matters is that
  of the decimal.
\<close>

section \<open>Rounding what is representable\<close>

lemma block_div: "r < k \<Longrightarrow> (a * k + r) div k = a \<and> (a * k + r) mod k = (r :: nat)"
  by simp

lemma mag_value_parts:
  assumes "- 1074 \<le> e" and "m \<le> 2 ^ 53" and "- 1074 < e \<Longrightarrow> 2 ^ 52 \<le> m"
  shows "mag_value (nat (e + 1074) * 2 ^ 52 + m) = real m * scale e"
proof -
  consider "m < 2 ^ 52" | "2 ^ 52 \<le> m" "m < 2 ^ 53" | "m = 2 ^ 53" using assms(2) by linarith
  then show ?thesis
  proof cases
    case 1
    from 1 have "e = - 1074" using assms(1,3) by linarith
    then show ?thesis using 1 by (simp add: mag_value_def)
  next
    case 2
    then have "m - 2 ^ 52 < 2 ^ 52" "nat (e + 1074) * 2 ^ 52 + m = (nat (e + 1074) + 1) * 2 ^ 52 + (m - 2 ^ 52)" by simp_all
    then have "(nat (e + 1074) * 2 ^ 52 + m) div 2 ^ 52 = nat (e + 1074) + 1" "(nat (e + 1074) * 2 ^ 52 + m) mod 2 ^ 52 = m - 2 ^ 52"
      using block_div [of "m - 2 ^ 52" "2 ^ 52" "nat (e + 1074) + 1"] by metis+
    then show ?thesis using 2 assms(1) by (simp add: mag_value_def)
  next
    case 3
    then have "nat (e + 1074) * 2 ^ 52 + m = (nat (e + 1074) + 2) * 2 ^ 52" by simp
    then have "(nat (e + 1074) * 2 ^ 52 + m) div 2 ^ 52 = nat (e + 1074) + 2" "(nat (e + 1074) * 2 ^ 52 + m) mod 2 ^ 52 = 0"
      using block_div [of 0 "2 ^ 52" "nat (e + 1074) + 2"] by (metis add_0_right zero_less_numeral zero_less_power)+
    moreover have "scale (e + 1) = 2 * scale e" by (simp add: scale_add)
    ultimately show ?thesis using 3 assms(1) by (simp add: mag_value_def add.commute)
  qed
qed

text \<open>Where the significand fits in 53 bits and the exponent is in range, rounding is exact.\<close>

lemma round_mag_exact:
  assumes "0 < d" and "real n / real d = real M * scale g" and "M < 2 ^ 53" and "- 1074 \<le> g" and "g \<le> 900"
  shows "mag_value (round_mag n d) = real M * scale g" and "round_mag n d < f64_inf_mag"
proof -
  have "mag_value (round_mag n d) = real M * scale g \<and> round_mag n d < f64_inf_mag"
  proof (cases "M = 0")
    case True
    then have "n = 0" using assms(1,2) by auto
    then show ?thesis using True by (simp add: round_mag_def mag_value_def f64_inf_mag_def)
  next
    case False
    then have "0 < real n / real d" using assms(2) by simp
    then have n: "0 < n" by (simp add: zero_less_divide_iff)
    obtain e m where k: "round_mag n d = min f64_inf_mag (nat (e + 1074) * 2 ^ 52 + m)" and e: "- 1074 \<le> e"
      and near: "near (real n / real d / scale e) m" and m: "- 1074 < e \<Longrightarrow> 2 ^ 52 \<le> m"
      and up: "real n / real d < scale (e + 53)" and low: "- 1074 < e \<Longrightarrow> scale (e + 52) \<le> real n / real d"
      using round_mag_spec [OF n assms(1)] by metis
    have M: "real M < 2 ^ 53" using assms(3) by (simp flip: of_nat_less_iff)
    have "real M * scale g < scale (g + 53)"
      using M scale_pos [of g] scale_nat [of 53] by (simp add: scale_add)
    then have "- 1074 < e \<Longrightarrow> e + 52 < g + 53" using low assms(2) by (intro scale_less_cancel) simp
    then have eg: "e \<le> g" using e assms(4) by linarith
    have "scale g = scale e * 2 ^ nat (g - e)" using scale_add [of e "g - e"] scale_up [of "g - e"] eg by simp
    then have x: "real n / real d / scale e = real (M * 2 ^ nat (g - e))"
      using assms(2) less_imp_neq [OF scale_pos [of e]] by simp
    have me: "m = M * 2 ^ nat (g - e)"
      using near_le [OF near [unfolded x]] near_ge [OF near [unfolded x]] by (simp add: le_antisym)
    then have "real n / real d / scale e = real m" using x by simp
    then have val: "real n / real d = real m * scale e" using less_imp_neq [OF scale_pos [of e]] by (simp add: divide_eq_eq)
    have "real m * scale e < 2 ^ 53 * scale e" using up val scale_nat [of 53] by (simp add: scale_add mult.commute)
    then have "real m < 2 ^ 53" using scale_pos [of e] by simp
    then have m53: "m < 2 ^ 53" by (simp flip: of_nat_less_iff)
    have "nat (e + 1074) * 2 ^ 52 + m < f64_inf_mag"
    proof -
      have "nat (e + 1074) \<le> 1974" using eg assms(5) by simp
      then have "nat (e + 1074) * 2 ^ 52 \<le> 1974 * 2 ^ 52" by (rule mult_right_mono) simp
      with m53 show ?thesis by (simp add: f64_inf_mag_def)
    qed
    then have k': "round_mag n d = nat (e + 1074) * 2 ^ 52 + m" using k by simp
    have "mag_value (nat (e + 1074) * 2 ^ 52 + m) = real m * scale e"
      using m53 m by (intro mag_value_parts [OF e]) auto
    with k' show ?thesis using \<open>nat (e + 1074) * 2 ^ 52 + m < f64_inf_mag\<close> val assms(2) by simp
  qed
  then show "mag_value (round_mag n d) = real M * scale g" and "round_mag n d < f64_inf_mag" by simp_all
qed

lemma made_value: "k < f64_inf_mag \<Longrightarrow> f64_nonneg (f64_make False k) \<and> f64_value (f64_make False k) = mag_value k"
  using f64_make_sign_mag [of k False] by (simp add: f64_nonneg_def f64_value_def f64_inf_mag_def)

section \<open>The constant\<close>

lemma k1024_mag: "f64_mag (f64_nat 1024) = 1033 * 2 ^ 52" "f64_sign (f64_nat 1024) = False"
  by (simp_all add: f64_eval cong: let_weak_cong)

lemma k1024_value: "f64_value (f64_nat 1024) = 1024" "f64_nonneg (f64_nat 1024)"
  using scale_nat [of 10] scale_diff [of 10 52] scale_nat [of 52]
  by (simp_all add: f64_value_def f64_nonneg_def k1024_mag mag_value_def f64_inf_mag_def)

lemma reaches_1024:
  assumes "f64_nonneg v"
  shows "f64_le (f64_nat 1024) v \<longleftrightarrow> 1024 \<le> f64_value v"
proof -
  have le: "f64_le (f64_nat 1024) v \<longleftrightarrow> f64_mag (f64_nat 1024) \<le> f64_mag v"
    using assms k1024_value(2) f64_nonneg_not_nan f64_nonneg_key
    by (simp add: f64_le_def f64_nonneg_def k1024_mag f64_nonneg_key)
  have below: "mag_value (1033 * 2 ^ 52 - 1) < 1024"
    using scale_nat [of 10] scale_diff [of 10 53] scale_nat [of 53]
    by (simp add: mag_value_def)
  show ?thesis
  proof (cases "f64_mag (f64_nat 1024) \<le> f64_mag v")
    case True
    then show ?thesis using le mag_value_mono [OF True] k1024_value(1) by (simp add: f64_value_def)
  next
    case False
    then have "mag_value (f64_mag v) \<le> mag_value (1033 * 2 ^ 52 - 1)" by (intro mag_value_mono) (simp add: k1024_mag)
    with below le False show ?thesis by (simp add: f64_value_def)
  qed
qed

lemma divides_1024:
  assumes "f64_nonneg v" and "1 \<le> f64_value v" and "f64_value v < 2 ^ 65"
  shows "f64_nonneg (f64_div v (f64_nat 1024))" and "f64_value (f64_div v (f64_nat 1024)) = f64_value v / 1024"
proof -
  obtain m e where v: "f64_unpack v = FNum False m e" "f64_value v = real m * scale e"
    using f64_nonneg_unpack [OF assms(1)] .
  have m: "m < 2 ^ 53" "- 1074 \<le> e"
    using v(1) mod_less_divisor [of "2 ^ 52" "f64_mag v"] by (auto simp: f64_unpack_def Let_def split: if_splits)
  have "m \<noteq> 0" using assms(2) v(2) by (intro notI) simp
  then have m1: "1 \<le> real m" by simp
  have "real m < 2 ^ 53" using m(1) by (simp flip: of_nat_less_iff)
  then have "real m * scale e < 2 ^ 53 * scale e" by (rule mult_strict_right_mono) simp
  then have "1 < 2 ^ 53 * scale e" using assms(2) v(2) by linarith
  then have "scale (- 53) < scale e" using scale_nat [of 53] by (simp add: scale_minus divide_simps mult.commute)
  then have low: "- 53 < e" by (rule scale_less_cancel)
  have "1 * scale e \<le> real m * scale e" using m1 by (rule mult_right_mono) (simp add: less_imp_le)
  moreover have "scale 65 = 2 ^ 65" using scale_nat [of 65] by simp
  ultimately have "scale e < scale 65" using assms(3) v(2) by linarith
  then have high: "e < 65" by (rule scale_less_cancel)
  obtain n d where div: "f64_div v (f64_nat 1024) = f64_make False (round_mag n d)" "0 < d"
    and nd: "real n / real d = f64_value v / f64_value (f64_nat 1024)"
    using f64_div_round [OF assms(1) k1024_value(2)] k1024_value(1) by auto
  have nd': "real n / real d = real m * scale (e - 10)"
    using nd scale_nat [of 10] by (simp add: k1024_value v(2) scale_diff)
  from round_mag_exact [OF div(2) nd' m(1)] low high
  have "mag_value (round_mag n d) = real n / real d" "round_mag n d < f64_inf_mag" using nd' by simp_all
  then show "f64_nonneg (f64_div v (f64_nat 1024))" and "f64_value (f64_div v (f64_nat 1024)) = f64_value v / 1024"
    using made_value [of "round_mag n d"] div(1) nd k1024_value(1) by simp_all
qed

section \<open>The conversion\<close>

lemma converted_bytes:
  shows "f64_nonneg (f64_of_u64 b)" and "f64_value (f64_of_u64 b) \<le> 2 ^ 64"
    and "unat b < 2 ^ 53 \<Longrightarrow> f64_value (f64_of_u64 b) = real (unat b)"
    and "2 ^ 53 \<le> unat b \<Longrightarrow> 2 ^ 53 \<le> f64_value (f64_of_u64 b)"
    and "2 ^ 53 \<le> unat b \<Longrightarrow> \<bar>f64_value (f64_of_u64 b) - real (unat b)\<bar> \<le> 2 ^ 10"
proof -
  let ?k = "round_mag (unat b) 1"
  have exact: "mag_value (round_mag (2 ^ j) 1) = 2 ^ j \<and> round_mag (2 ^ j) 1 < f64_inf_mag" if "j < 900" for j :: nat
    using round_mag_exact [of 1 "2 ^ j" 1 "int j"] that scale_nat [of j] by simp
  have conv: "f64_of_u64 b = f64_make False ?k" by (simp add: f64_of_u64_def f64_round_mag)
  have "unat b \<le> 2 ^ 64" using unat_u64_less [of b] by simp
  then have "?k \<le> round_mag (2 ^ 64) 1" by (intro round_mag_mono) (simp_all only: of_nat_1 div_by_1 of_nat_le_iff zero_less_one)
  then have fin: "?k < f64_inf_mag" "mag_value ?k \<le> 2 ^ 64"
    using exact [of 64] mag_value_mono [of ?k "round_mag (2 ^ 64) 1"] by simp_all
  show "f64_nonneg (f64_of_u64 b)" and "f64_value (f64_of_u64 b) \<le> 2 ^ 64"
    using made_value [OF fin(1)] fin(2) by (simp_all add: conv)
  show "f64_value (f64_of_u64 b) = real (unat b)" if "unat b < 2 ^ 53"
    using round_mag_exact [of 1 "unat b" "unat b" 0] that made_value [OF fin(1)] by (simp add: conv scale_def)
  assume big: "2 ^ 53 \<le> unat b"
  then have "round_mag (2 ^ 53) 1 \<le> ?k" by (intro round_mag_mono) (simp_all only: of_nat_1 div_by_1 of_nat_le_iff zero_less_one)
  then show "2 ^ 53 \<le> f64_value (f64_of_u64 b)"
    using made_value [OF fin(1)] exact [of 53] mag_value_mono [of "round_mag (2 ^ 53) 1" ?k] by (simp add: conv)
  have x: "2 ^ 53 \<le> real (unat b)" "real (unat b) < 2 ^ 64"
    using big unat_u64_less [of b] by (metis of_nat_le_iff of_nat_numeral of_nat_power, metis of_nat_less_iff of_nat_numeral of_nat_power)
  have "0 < unat b" using big by simp
  then obtain e m where k: "?k = min f64_inf_mag (nat (e + 1074) * 2 ^ 52 + m)" and e: "- 1074 \<le> e"
    and near: "near (real (unat b) / real 1 / scale e) m" and m: "m \<le> 2 ^ 53" "- 1074 < e \<Longrightarrow> 2 ^ 52 \<le> m"
    and low: "- 1074 < e \<Longrightarrow> scale (e + 52) \<le> real (unat b) / real 1"
    using round_mag_spec [of "unat b" 1] by (metis zero_less_one)
  have "scale e \<le> scale 11"
  proof (cases "- 1074 < e")
    case True
    then have "scale (e + 52) < scale 64" using low x(2) scale_nat [of 64] by simp
    then have "e + 52 < 64" by (rule scale_less_cancel)
    then show ?thesis by (intro scale_mono) simp
  qed (simp add: scale_mono)
  then have small: "scale e \<le> 2 ^ 11" using scale_nat [of 11] by simp
  have "?k = nat (e + 1074) * 2 ^ 52 + m" using k fin(1) by (simp add: min_def split: if_splits)
  then have val: "f64_value (f64_of_u64 b) = real m * scale e"
    using made_value [OF fin(1)] mag_value_parts [OF e m] by (simp add: conv)
  have "real m * scale e - real (unat b) = (real m - real (unat b) / scale e) * scale e"
    using less_imp_neq [OF scale_pos [of e]] by (simp add: field_simps)
  moreover have "\<bar>real m - real (unat b) / scale e\<bar> \<le> 1 / 2" using near by (simp add: near_def)
  ultimately have "\<bar>real m * scale e - real (unat b)\<bar> \<le> 1 / 2 * scale e"
    using mult_right_mono [of _ "1 / 2" "scale e"] by (simp add: abs_mult abs_of_pos [OF scale_pos] less_imp_le)
  then show "\<bar>f64_value (f64_of_u64 b) - real (unat b)\<bar> \<le> 2 ^ 10" using val small by simp
qed

section \<open>Printing\<close>

lemma round_scaled_near:
  "0 < d \<Longrightarrow> near (real m * scale e * real n / real d) (round_scaled m e n d)"
  using round_half_even_near [of d "m * 2 ^ nat e * n"] round_half_even_near [of "d * 2 ^ nat (- e)" "m * n"]
  by (cases "0 \<le> e") (simp_all add: round_scaled_def scale_up scale_down mult_ac)

lemma fixed_nonneg:
  assumes "f64_nonneg v"
  obtains t where "near (f64_value v * 10 ^ p) t"
    and "f64_fixed nf p v = (if p = 0 then nat_to_string t else nat_to_string (t div 10 ^ p) @ ''.'' @ padded p (t mod 10 ^ p))"
proof -
  obtain m e where v: "f64_unpack v = FNum False m e" "f64_value v = real m * scale e"
    using f64_nonneg_unpack [OF assms] .
  show ?thesis
    using that [of "round_scaled m e (10 ^ p) 1"] round_scaled_near [of 1 m e "10 ^ p"]
    by (simp add: v f64_fixed_def Let_def sign_string_def)
qed

lemma padded_digit: "d < 10 \<Longrightarrow> padded 1 d = nat_to_string d"
  by (simp add: padded_def nat_to_string.simps [of d])

section \<open>The loop\<close>

lemma scale_bytes_spec:
  assumes "f64_nonneg v" and "f64_value v < 2 ^ 65" and "scale_bytes k v i = (w, j)"
  shows "i \<le> j \<and> j \<le> i + k \<and> f64_nonneg w \<and> f64_value w = f64_value v / 1024 ^ (j - i)
    \<and> (j = i \<or> 1024 ^ (j - i) \<le> f64_value v) \<and> (j = i + k \<or> f64_value w < 1024)"
  using assms
proof (induction k arbitrary: v i)
  case (Suc k)
  show ?case
  proof (cases "1024 \<le> f64_value v")
    case True
    let ?u = "f64_div v (f64_nat 1024)"
    have u: "f64_nonneg ?u" "f64_value ?u = f64_value v / 1024" "f64_value ?u < 2 ^ 65"
      using divides_1024 [OF Suc.prems(1) _ Suc.prems(2)] Suc.prems(2) True by simp_all
    have "scale_bytes k ?u (i + 1) = (w, j)" using Suc.prems(3) True reaches_1024 [OF Suc.prems(1)] by simp
    from Suc.IH [OF u(1,3) this] have IH: "i + 1 \<le> j" "j \<le> i + 1 + k" "f64_nonneg w"
        "f64_value w = f64_value v / 1024 / 1024 ^ (j - (i + 1))"
        "j = i + 1 \<or> 1024 ^ (j - (i + 1)) \<le> f64_value v / 1024" "j = i + 1 + k \<or> f64_value w < 1024"
      by (auto simp: u(2))
    have "(1024 :: real) ^ (j - i) = 1024 * 1024 ^ (j - (i + 1))" using IH(1) by (simp flip: power_Suc add: Suc_diff_Suc)
    then show ?thesis using IH True by auto
  next
    case False
    then show ?thesis using Suc.prems reaches_1024 [OF Suc.prems(1)] by simp
  qed
qed simp

text \<open>C32: a byte count prints as a number, a space and a unit. Below 1024 it is the exact count in B; otherwise the
  unit is the largest of KiB, MiB, GiB and TiB not above the count, and the printed tenths differ from the exact
  quotient by at most half a tenth and the rounding of the conversion to a double.\<close>

theorem format_bytes_accurate:
  "\<exists>i t. i \<le> 4 \<and> (i = 0 \<or> 1024 ^ i \<le> unat b) \<and> (i = 4 \<or> unat b < 1024 ^ (i + 1)) \<and>
     (if i = 0 then format_bytes nf b = nat_to_string (unat b) @ '' B''
      else format_bytes nf b = nat_to_string (t div 10) @ ''.'' @ nat_to_string (t mod 10) @ '' '' @ byte_units ! i
        \<and> \<bar>real t - 10 * real (unat b) / 1024 ^ i\<bar> \<le> 1 / 2 + 1 / 2 ^ 26)"
proof -
  let ?v = "f64_of_u64 b"
  obtain w i where run: "scale_bytes 4 ?v 0 = (w, i)" by fastforce
  have "f64_value ?v < 2 ^ 65" using converted_bytes(2) [of b] by simp
  from scale_bytes_spec [OF converted_bytes(1) this run] have i: "i \<le> 4" "f64_nonneg w" "f64_value w = f64_value ?v / 1024 ^ i"
      "i = 0 \<or> 1024 ^ i \<le> f64_value ?v" "i = 4 \<or> f64_value w < 1024" by auto
  have nxt: "i = 4 \<or> f64_value ?v < 1024 ^ (i + 1)" using i(3,5) by (auto simp: divide_less_eq)
  obtain t where t: "near (f64_value w * 10 ^ (if i = 0 then 0 else 1)) t"
    and shown: "f64_fixed nf (if i = 0 then 0 else 1) w = (if (if i = 0 then 0 else 1) = (0 :: nat) then nat_to_string t
      else nat_to_string (t div 10 ^ (if i = 0 then 0 else 1)) @ ''.'' @ padded (if i = 0 then 0 else 1) (t mod 10 ^ (if i = 0 then 0 else 1)))"
    using fixed_nonneg [OF i(2), of "if i = 0 then 0 else 1" nf] by blast
  have out: "format_bytes nf b = (if i = 0 then nat_to_string t @ '' B''
      else nat_to_string (t div 10) @ ''.'' @ nat_to_string (t mod 10) @ '' '' @ byte_units ! i)"
    unfolding format_bytes_def run prod.case shown by (simp add: padded_digit [unfolded One_nat_def] byte_units_def)
  have "(i = 0 \<or> 1024 ^ i \<le> unat b) \<and> (i = 4 \<or> unat b < 1024 ^ (i + 1)) \<and> (i = 0 \<longrightarrow> t = unat b) \<and>
      (i \<noteq> 0 \<longrightarrow> \<bar>real t - 10 * real (unat b) / 1024 ^ i\<bar> \<le> 1 / 2 + 1 / 2 ^ 26)"
  proof (cases "unat b < 2 ^ 53")
    case True
    then have v: "f64_value ?v = real (unat b)" by (rule converted_bytes(3))
    have "real (1024 ^ i) \<le> real (unat b)" if "i \<noteq> 0" using i(4) that v by simp
    moreover have "real (unat b) < real (1024 ^ (i + 1))" if "i \<noteq> 4" using nxt that v by simp
    moreover have "t = unat b" if "i = 0"
      using t i(3) v that near_le [of "real (unat b)" t "unat b"] near_ge [of "real (unat b)" t "unat b"] by simp
    moreover have "\<bar>real t - 10 * real (unat b) / 1024 ^ i\<bar> \<le> 1 / 2" if "i \<noteq> 0"
      using t i(3) v that by (simp add: near_def mult.commute)
    ultimately show ?thesis unfolding of_nat_le_iff of_nat_less_iff by (smt (verit) zero_le_power zero_le_divide_1_iff zero_le_numeral)
  next
    case False
    then have big: "2 ^ 53 \<le> unat b" by simp
    note v = converted_bytes(4,5) [OF big]
    have i4: "i = 4"
    proof (rule ccontr)
      assume "i \<noteq> 4"
      then have "i + 1 \<le> 4" "f64_value ?v < 1024 ^ (i + 1)" using i(1) nxt by auto
      moreover from this(1) have "(1024 :: real) ^ (i + 1) \<le> 1024 ^ 4" by (rule power_increasing) simp
      ultimately show False using v(1) by simp
    qed
    have "\<bar>real t - 10 * f64_value ?v / 1024 ^ 4\<bar> \<le> 1 / 2"
      using t i(3) i4 by (simp add: near_def mult.commute)
    moreover have "\<bar>10 * f64_value ?v / 1024 ^ 4 - 10 * real (unat b) / 1024 ^ 4\<bar> \<le> 1 / 2 ^ 26"
      using v(2) unfolding abs_le_iff power4_eq_xxxx by (simp add: abs_le_iff)
    ultimately have "\<bar>real t - 10 * real (unat b) / 1024 ^ 4\<bar> \<le> 1 / 2 + 1 / 2 ^ 26" by linarith
    moreover have "1024 ^ i \<le> unat b" using big by (simp add: i4)
    ultimately show ?thesis unfolding i4 by simp
  qed
  then show ?thesis using out i(1) by (intro exI [of _ i] exI [of _ t]) auto
qed

end
