(* ===== verification/Ctl_Spec.thy ===== *)
theory Ctl_Spec
  imports Ctl Text_Spec Engine_Spec
begin

text \<open>
  The command-line tool: the numbers it prints are read back by its options, and since every run works on an engine
  of its own, the commands that refer to an earlier evaluation cannot succeed.
\<close>

section \<open>Numbers\<close>

lemma digit_char_digit: "d < 10 \<Longrightarrow> is_digit (digit_char d)"
  by (simp add: is_digit_def digit_char_def)

lemma printed_digits: "c \<in> set (nat_to_string n) \<Longrightarrow> is_digit c"
  using nat_to_string_digits [of c n] by (simp add: is_digit_def)

lemma digits_value_printed: "digits_value (nat_to_string n) = n"
proof (induction n rule: nat_to_string.induct)
  case (1 n)
  then show ?case
    by (cases "n < 10") (simp_all add: nat_to_string.simps [of n] digits_value_def digit_char_def)
qed

lemma digit_plain: "is_digit c \<Longrightarrow> \<not> is_space c \<and> c \<noteq> CHR ''-'' \<and> c \<noteq> CHR ''+''"
  by (auto simp: is_digit_def is_space_def)

lemma parse_printed: "parse_integer (nat_to_string n) = (False, n)"
proof -
  obtain c cs where s: "nat_to_string n = c # cs" by (cases "nat_to_string n") auto
  have digits: "\<forall>x \<in> set (nat_to_string n). is_digit x" using printed_digits by blast
  then have "is_digit c" by (simp add: s)
  note plain = digit_plain [OF this]
  have "takeWhile is_digit (nat_to_string n) = nat_to_string n" using digits by (simp add: takeWhile_eq_all_conv)
  then show ?thesis using plain digits_value_printed [of n] by (simp add: parse_integer_def s)
qed

text \<open>Every number the tool prints, in particular the ids of requests and reservations, is read back as itself
  when it is given as an option.\<close>

theorem printed_numbers_read_back: "strtoull (to_string_u64 x) = x"
  using unat_u64_less [of x] by (simp add: strtoull_def to_string_u64_def parse_printed)

section \<open>The local engine\<close>

lemma local_engine_fresh:
  "af_requests (make_local_engine now) = []" "rm_reservations (af_reservations (make_local_engine now)) = []"
  by (simp_all add: make_local_engine_def set_snapshot_def install_policy_def fabric_empty_def rm_empty_def rm_set_total_def
      bind_overcommit_def rm_set_overcommit_mode_def rm_set_overcommit_allowance_def Let_def split: prod.splits option.splits)

lemma local_undecided: "last_decision_of (make_local_engine now) rid = None"
  by (simp add: last_decision_of_def fabric_request_def local_engine_fresh)

lemma local_release_fails: "\<not> status_ok (fst (release_reservation now rsv (make_local_engine t)))"
  by (simp add: release_reservation_def rm_release_def local_engine_fresh Let_def)

lemma local_evaluation:
  "\<exists>dec f1. fabric_evaluate pf now d (make_local_engine t) = (Inr dec, f1)"
  using evaluate_requests [of "make_local_engine t" pf now d] local_engine_fresh(1) by (metis om_ok_Nil prod.collapse)

text \<open>Whatever the options, the clock and the platform, \<open>admit\<close>, \<open>release\<close> and \<open>explain\<close> exit with 1 and leave
  nothing admitted, \<open>evaluate\<close> always exits with 0, and the two lists are always empty: the engine of a run knows no
  request and no reservation of an earlier one.\<close>

theorem ctl_commands_share_nothing:
  "(\<exists>f. ctl_main pf nf clk elapsed (''admit'' # opts) = (show_error (json_str ''no decision''), 1, f))
   \<and> (\<exists>shown f. ctl_main pf nf clk elapsed (''release'' # opts) = (shown, 1, f))
   \<and> (\<exists>f. ctl_main pf nf clk elapsed (''explain'' # opts) = (show_error (json_str ''no decision''), 1, f))
   \<and> (\<exists>shown f. ctl_main pf nf clk elapsed (''evaluate'' # opts) = (shown, 0, f))
   \<and> fst (ctl_main pf nf clk elapsed (''list-requests'' # opts))
       = ''{'' @ json_field ''requests'' ''['' @ newline @ newline @ '']}'' @ newline
   \<and> fst (ctl_main pf nf clk elapsed (''list-reservations'' # opts))
       = ''{'' @ json_field ''reservations'' ''['' @ newline @ newline @ '']}'' @ newline"
proof -
  obtain dec f1 where ev: "fabric_evaluate pf (clk 1) (ctl_descriptor (parse_options opts [])) (make_local_engine (clk 0)) = (Inr dec, f1)"
    using local_evaluation by blast
  have "\<exists>shown f. ctl_main pf nf clk elapsed (''evaluate'' # opts) = (shown, 0, f)"
    by (simp add: ctl_main_def Let_def ctl_evaluate_def ev [unfolded One_nat_def])
  moreover have "\<exists>shown f. ctl_main pf nf clk elapsed (''release'' # opts) = (shown, 1, f)"
    using local_release_fails [of "clk 1" "Id (get_ull (parse_options opts []) ''--reservation-id'' 0)" "clk 0"]
    by (auto simp: ctl_main_def Let_def ctl_release_def exit_of_def split: prod.splits)
  ultimately show ?thesis
    by (simp add: ctl_main_def Let_def ctl_admit_def ctl_explain_def local_undecided ctl_list_requests_def
        ctl_list_reservations_def local_engine_fresh)
qed

end
