(* ===== verification/Protocol.thy ===== *)
theory Protocol
  imports Codec
begin

text \<open>
  \<open>protocol.hpp\<close> and \<open>protocol.cpp\<close>: the message types, the authority envelope and the message bodies. A decoder that
  the code lets fail with \<open>MalformedFrame\<close> uses the \<open>mf_\<close> steps; \<open>decode_error_response\<close> leaves its out parameters
  behind even when it fails, so it returns them beside its status.
\<close>

section \<open>Message types\<close>

datatype (plugins only: code size) WireType =
    WireType_RegisterAgent | WireType_AgentRegistered | WireType_CapacityUpdate | WireType_CapacityAccepted
  | WireType_EvaluateRequest | WireType_EvaluateResponse | WireType_CommitRequest | WireType_CommitResponse
  | WireType_ReleaseRequest | WireType_ReleaseResponse | WireType_SnapshotRequest | WireType_SnapshotResponse
  | WireType_PolicyInstall | WireType_PolicyAck | WireType_ObservationSubmit | WireType_ObservationAck
  | WireType_AgentLost | WireType_Heartbeat | WireType_Shutdown | WireType_ErrorResponse | WireType_Raw u16

primrec wire_value :: "WireType \<Rightarrow> u16" where
  "wire_value WireType_RegisterAgent = 1"
| "wire_value WireType_AgentRegistered = 2"
| "wire_value WireType_CapacityUpdate = 3"
| "wire_value WireType_CapacityAccepted = 4"
| "wire_value WireType_EvaluateRequest = 5"
| "wire_value WireType_EvaluateResponse = 6"
| "wire_value WireType_CommitRequest = 7"
| "wire_value WireType_CommitResponse = 8"
| "wire_value WireType_ReleaseRequest = 9"
| "wire_value WireType_ReleaseResponse = 10"
| "wire_value WireType_SnapshotRequest = 11"
| "wire_value WireType_SnapshotResponse = 12"
| "wire_value WireType_PolicyInstall = 13"
| "wire_value WireType_PolicyAck = 14"
| "wire_value WireType_ObservationSubmit = 15"
| "wire_value WireType_ObservationAck = 16"
| "wire_value WireType_AgentLost = 17"
| "wire_value WireType_Heartbeat = 18"
| "wire_value WireType_Shutdown = 19"
| "wire_value WireType_ErrorResponse = 20"
| "wire_value (WireType_Raw v) = v"

definition wire_enumerators :: "WireType list" where
  "wire_enumerators = [WireType_RegisterAgent, WireType_AgentRegistered, WireType_CapacityUpdate,
     WireType_CapacityAccepted, WireType_EvaluateRequest, WireType_EvaluateResponse, WireType_CommitRequest,
     WireType_CommitResponse, WireType_ReleaseRequest, WireType_ReleaseResponse, WireType_SnapshotRequest,
     WireType_SnapshotResponse, WireType_PolicyInstall, WireType_PolicyAck, WireType_ObservationSubmit,
     WireType_ObservationAck, WireType_AgentLost, WireType_Heartbeat, WireType_Shutdown, WireType_ErrorResponse]"

definition wire_of_value :: "u16 \<Rightarrow> WireType" where
  "wire_of_value = enum_of wire_value wire_enumerators WireType_Raw"

interpretation wire_enum: enum_values wire_value wire_enumerators WireType_Raw
proof
  show "WireType_Raw (wire_value e) = e" if "e \<notin> set wire_enumerators" for e
    using that by (cases e) (simp_all add: wire_enumerators_def)
qed (simp_all add: wire_enumerators_def)

primrec wire_type_name :: "WireType \<Rightarrow> string" where
  "wire_type_name WireType_RegisterAgent = ''RegisterAgent''"
| "wire_type_name WireType_AgentRegistered = ''AgentRegistered''"
| "wire_type_name WireType_CapacityUpdate = ''CapacityUpdate''"
| "wire_type_name WireType_CapacityAccepted = ''CapacityAccepted''"
| "wire_type_name WireType_EvaluateRequest = ''EvaluateRequest''"
| "wire_type_name WireType_EvaluateResponse = ''EvaluateResponse''"
| "wire_type_name WireType_CommitRequest = ''CommitRequest''"
| "wire_type_name WireType_CommitResponse = ''CommitResponse''"
| "wire_type_name WireType_ReleaseRequest = ''ReleaseRequest''"
| "wire_type_name WireType_ReleaseResponse = ''ReleaseResponse''"
| "wire_type_name WireType_SnapshotRequest = ''SnapshotRequest''"
| "wire_type_name WireType_SnapshotResponse = ''SnapshotResponse''"
| "wire_type_name WireType_PolicyInstall = ''PolicyInstall''"
| "wire_type_name WireType_PolicyAck = ''PolicyAck''"
| "wire_type_name WireType_ObservationSubmit = ''ObservationSubmit''"
| "wire_type_name WireType_ObservationAck = ''ObservationAck''"
| "wire_type_name WireType_AgentLost = ''AgentLost''"
| "wire_type_name WireType_Heartbeat = ''Heartbeat''"
| "wire_type_name WireType_Shutdown = ''Shutdown''"
| "wire_type_name WireType_ErrorResponse = ''ErrorResponse''"
| "wire_type_name (WireType_Raw v) = ''Unknown''"

text \<open>The envelope and the message structure; the coordinator and the agent exchange bodies without them.\<close>

record AuthorityEnvelope =
  ae_epoch :: CoordinatorEpoch
  ae_agent_id :: AgentId
  ae_boot_id :: AgentBootId
  ae_admission_request_id :: "AdmissionRequestId option"
  ae_admission_generation :: "AdmissionGeneration option"
  ae_reservation_id :: "ReservationId option"
  ae_snapshot_generation :: "ResourceSnapshotGeneration option"

record WireMessage =
  wm_type :: WireType
  wm_correlation :: u64
  wm_authority :: AuthorityEnvelope
  wm_payload :: bytes

section \<open>Message bodies\<close>

definition malformed :: "string \<Rightarrow> Status" where
  "malformed msg = status_failure ErrorCode_MalformedFrame msg"

definition mf_ok :: "string \<Rightarrow> (ByteReader \<Rightarrow> 'a \<times> ByteReader) \<Rightarrow> 'a decoder" where
  "mf_ok msg g r = (case g r of (x, r1) \<Rightarrow> (if br_ok r1 then Inr x else Inl (malformed msg), r1))"

definition mf_req :: "string \<Rightarrow> (ByteReader \<Rightarrow> 'a option \<times> ByteReader) \<Rightarrow> 'a decoder" where
  "mf_req msg g r = (case g r of (x, r1) \<Rightarrow> (case x of None \<Rightarrow> Inl (malformed msg) | Some y \<Rightarrow> Inr y, r1))"

definition mf_done :: "'a \<Rightarrow> 'a decoder" where
  "mf_done x r = (if br_ok r then Inr x else Inl (malformed (br_error r)), r)"

record Registration =
  rg_agent :: AgentId
  rg_boot :: AgentBootId
  rg_caps :: Capabilities
  rg_inventory :: ResourceVector
  rg_device_name :: string
  rg_device_index :: u32

definition encode_register :: "Registration \<Rightarrow> bytes" where
  "encode_register g =
     put_id (rg_agent g) @ put_id (rg_boot g) @ encode_capabilities (rg_caps g) @
     encode_resource_vector (rg_inventory g) @ put_string (rg_device_name g) @ put_u32 (rg_device_index g)"

definition decode_register :: "Registration decoder" where
  "decode_register =
     rd_bind (mf_ok ''register id'' get_id) (\<lambda>agent.
     rd_bind (mf_ok ''register id'' get_id) (\<lambda>boot.
     rd_bind (mf_req ''register caps'' decode_capabilities) (\<lambda>caps.
     rd_bind (mf_ok ''register inventory'' decode_resource_vector) (\<lambda>inventory.
     rd_bind (mf_req ''register device'' get_string) (\<lambda>device_name.
     rd_bind (rd_val get_u32) (\<lambda>device_index.
     mf_done \<lparr>rg_agent = agent, rg_boot = boot, rg_caps = caps, rg_inventory = inventory,
       rg_device_name = device_name, rg_device_index = device_index\<rparr>))))))"

definition encode_capacity_update :: "ResourceSnapshot \<Rightarrow> bytes" where
  "encode_capacity_update snap = encode_snapshot snap"

definition decode_capacity_update :: "ResourceSnapshot decoder" where
  "decode_capacity_update = decode_snapshot"

definition encode_evaluate_request :: "AdmissionDescriptor \<Rightarrow> bytes" where
  "encode_evaluate_request d = encode_descriptor d"

definition decode_evaluate_request :: "AdmissionDescriptor decoder" where
  "decode_evaluate_request = decode_descriptor"

definition encode_evaluate_response :: "AdmissionDecision \<Rightarrow> u32 \<Rightarrow> bytes" where
  "encode_evaluate_response dec error_code = encode_decision dec @ put_i32 error_code"

definition decode_evaluate_response :: "(AdmissionDecision \<times> u32) decoder" where
  "decode_evaluate_response =
     rd_bind decode_decision (\<lambda>dec. rd_bind (rd_val get_i32) (\<lambda>error_code. mf_done (dec, error_code)))"

definition encode_commit_request :: "AdmissionRequestId \<Rightarrow> AdmissionGeneration \<Rightarrow> bytes" where
  "encode_commit_request rid gen = put_id rid @ put_id gen"

definition decode_commit_request :: "(AdmissionRequestId \<times> AdmissionGeneration) decoder" where
  "decode_commit_request =
     rd_bind (mf_ok ''commit id'' get_id) (\<lambda>rid. rd_bind (mf_ok ''commit id'' get_id) (\<lambda>gen. mf_done (rid, gen)))"

definition encode_release_request :: "ReservationId \<Rightarrow> bytes" where
  "encode_release_request rid = put_id rid"

definition decode_release_request :: "ReservationId decoder" where
  "decode_release_request = rd_bind (mf_ok ''release id'' get_id) mf_done"

definition encode_observation_submit :: "Observation \<Rightarrow> bytes" where
  "encode_observation_submit ob = encode_observation ob"

definition decode_observation_submit :: "Observation decoder" where
  "decode_observation_submit = decode_observation"

definition encode_error_response :: "ErrorCode \<Rightarrow> string \<Rightarrow> bytes" where
  "encode_error_response code msg = put_i32 (error_code_value code) @ put_string msg"

definition decode_error_response :: "ByteReader \<Rightarrow> Status \<times> ErrorCode \<times> string" where
  "decode_error_response r0 =
     (case get_i32 r0 of (v, r) \<Rightarrow>
        (case get_string r of
           (None, r1) \<Rightarrow> (malformed ''error msg'', error_code_of_value v, [])
         | (Some msg, r1) \<Rightarrow>
             (if br_ok r1 then status_success else malformed (br_error r1), error_code_of_value v, msg)))"

end
