(* ===== verification/Coordinator.thy ===== *)
theory Coordinator
  imports Engine Protocol Net
begin

text \<open>
  \<open>coordinator.hpp\<close> and \<open>coordinator.cpp\<close>: the authority that agents and clients talk to. An \<open>AgentConn\<close> is shared
  between the agent table and the thread that serves its connection, so the connections live in a store of their own,
  under a connection number, and the table maps an agent to the number of its connection. Each function below is what a
  thread does with one received frame, taken as one step: the reply it sends, if any, and the new state. Frames arrive
  as \<open>recv_frame\<close> delivers them; a send's result is ignored, as it is in the code.
\<close>

section \<open>State\<close>

record AgentConn =
  ac_id :: AgentId
  ac_boot :: AgentBootId
  ac_snapshot :: ResourceSnapshot
  ac_registered :: bool
  ac_alive :: bool
  ac_capacity_generation :: u64

record Coordinator =
  co_engine :: AdmissionFabric
  co_epoch :: CoordinatorEpoch
  co_conns :: "nat \<Rightarrow> AgentConn option"
  co_agents :: "(AgentId, nat) omap"

definition coordinator_start :: "AdmissionFabric \<Rightarrow> Coordinator" where
  "coordinator_start engine = \<lparr>co_engine = engine, co_epoch = Id 1, co_conns = Map.empty, co_agents = []\<rparr>"

definition next_epoch :: "Coordinator \<Rightarrow> CoordinatorEpoch" where
  "next_epoch s = id_next (co_epoch s)"

definition agent_count :: "Coordinator \<Rightarrow> nat" where
  "agent_count s = length (co_agents s)"

text \<open>A frame: its type, correlation and payload.\<close>

type_synonym message = "u16 \<times> u64 \<times> bytes"

definition error_reply :: "u64 \<Rightarrow> ErrorCode \<Rightarrow> string \<Rightarrow> message" where
  "error_reply corr code msg = (wire_value WireType_ErrorResponse, corr, encode_error_response code msg)"

section \<open>Agents\<close>

datatype dispatch_result = Dropped | Refused message | AgentJoined message | ClientJoined

text \<open>The connection of an agent that is in the table.\<close>

definition agent_conn :: "Coordinator \<Rightarrow> AgentId \<Rightarrow> AgentConn option" where
  "agent_conn s a = (case om_find (co_agents s) a of None \<Rightarrow> None | Some c \<Rightarrow> co_conns s c)"

definition dispatch :: "nat \<Rightarrow> message \<Rightarrow> Coordinator \<Rightarrow> dispatch_result \<times> Coordinator" where
  "dispatch cid frm s =
     (case frm of (type, corr, payload) \<Rightarrow>
        if type = wire_value WireType_RegisterAgent
        then (case decode_register (byte_reader payload) of
                (Inl e, _) \<Rightarrow> (Dropped, s)
              | (Inr g, _) \<Rightarrow>
                  if (case agent_conn s (rg_agent g) of
                        None \<Rightarrow> False | Some c \<Rightarrow> ac_alive c \<and> ac_boot c \<noteq> rg_boot g)
                  then (Refused (error_reply corr ErrorCode_AgentBootMismatch
                          ''stale or mismatched agent boot identity''), s)
                  else (AgentJoined (wire_value WireType_AgentRegistered, corr, put_u64 (id_value (co_epoch s))),
                        s\<lparr>co_conns := (co_conns s)(cid \<mapsto>
                             \<lparr>ac_id = rg_agent g, ac_boot = rg_boot g, ac_snapshot = default_snapshot,
                              ac_registered = True, ac_alive = True, ac_capacity_generation = 0\<rparr>),
                           co_agents := om_put (rg_agent g) cid (co_agents s)\<rparr>))
        else (ClientJoined, s))"

text \<open>The checks of a capacity update, in their order; \<open>None\<close> accepts it.\<close>

definition capacity_refusal :: "Coordinator \<Rightarrow> AgentConn \<Rightarrow> u64 \<Rightarrow> ResourceSnapshot \<Rightarrow> (ErrorCode \<times> string) option" where
  "capacity_refusal s c epoch_val snap =
     (if epoch_val \<noteq> id_value (co_epoch s) then Some (ErrorCode_StaleEpoch, ''stale coordinator epoch'')
      else if snap_boot_id snap \<noteq> ac_boot c \<or> snap_agent_id snap \<noteq> ac_id c
      then Some (ErrorCode_StaleBootIdentity, ''stale agent boot identity'')
      else if ac_capacity_generation c \<noteq> 0 \<and> id_value (snap_generation snap) \<le> ac_capacity_generation c
      then Some (ErrorCode_StaleSnapshotGeneration, ''stale resource snapshot generation'')
      else None)"

definition capacity_update :: "nat \<Rightarrow> AgentConn \<Rightarrow> u64 \<Rightarrow> bytes \<Rightarrow> Coordinator \<Rightarrow> message \<times> Coordinator" where
  "capacity_update cid c corr payload s =
     (case get_u64 (byte_reader payload) of
        (epoch_val, r) \<Rightarrow>
          (case decode_capacity_update r of
             (Inl e, _) \<Rightarrow> (error_reply corr ErrorCode_MalformedFrame ''bad capacity update'', s)
           | (Inr snap, _) \<Rightarrow>
               (case capacity_refusal s c epoch_val snap of
                  Some (code, msg) \<Rightarrow> (error_reply corr code msg, s)
                | None \<Rightarrow>
                    ((wire_value WireType_CapacityAccepted, corr, put_u64 (id_value (snap_generation snap))),
                     s\<lparr>co_conns := (co_conns s)(cid \<mapsto>
                         c\<lparr>ac_snapshot := snap, ac_capacity_generation := id_value (snap_generation snap)\<rparr>)\<rparr>))))"

text \<open>One round of \<open>handle_agent\<close> on the connection \<open>cid\<close>, serving \<open>c\<close>.\<close>

definition handle_agent :: "nat \<Rightarrow> AgentConn \<Rightarrow> message \<Rightarrow> Coordinator \<Rightarrow> message \<times> Coordinator" where
  "handle_agent cid c frm s =
     (case frm of (type, corr, payload) \<Rightarrow>
        if type = wire_value WireType_Heartbeat
        then ((wire_value WireType_Heartbeat, corr, put_u64 (id_value (co_epoch s))), s)
        else if type = wire_value WireType_CapacityUpdate then capacity_update cid c corr payload s
        else (error_reply corr ErrorCode_UnknownMessage (wire_type_name (wire_of_value type)), s))"

text \<open>The other way a round ends: nothing was received, and the agent of the connection is lost.\<close>

definition on_agent_loss :: "AgentId \<Rightarrow> Coordinator \<Rightarrow> Coordinator" where
  "on_agent_loss a s =
     (case om_find (co_agents s) a of
        None \<Rightarrow> s
      | Some k \<Rightarrow>
          (case co_conns s k of
             None \<Rightarrow> s
           | Some c \<Rightarrow>
               if ac_alive c
               then s\<lparr>co_conns := (co_conns s)(k \<mapsto> c\<lparr>ac_alive := False\<rparr>), co_epoch := id_next (co_epoch s)\<rparr>
               else s))"

section \<open>Clients\<close>

text \<open>The live agent that has every required capability and the most free accelerator memory; the first of several.\<close>

definition required_caps :: "AdmissionDescriptor \<Rightarrow> Capabilities" where
  "required_caps d =
     (let req = (if d_backend d = [] then [] else cap_add (cap_backend (d_backend d)) []) in
      if d_dtype d = [] then req else cap_add (cap_dtype (d_dtype d)) req)"

definition free_memory :: "AgentConn \<Rightarrow> u64" where
  "free_memory c = snap_headroom (ac_snapshot c) AcceleratorMemory"

definition usable_agent :: "AdmissionDescriptor \<Rightarrow> AgentConn \<Rightarrow> bool" where
  "usable_agent d c \<longleftrightarrow> ac_alive c \<and> cap_contains_all (snap_capabilities (ac_snapshot c)) (required_caps d)"

definition choose_step :: "AdmissionDescriptor \<Rightarrow> AgentConn option \<Rightarrow> AgentConn option \<Rightarrow> AgentConn option" where
  "choose_step d entry best =
     (case entry of
        None \<Rightarrow> best
      | Some c \<Rightarrow>
          if \<not> usable_agent d c then best
          else case best of
                 None \<Rightarrow> Some c
               | Some b \<Rightarrow> if free_memory c > free_memory b then Some c else best)"

definition choose_agent :: "AdmissionDescriptor \<Rightarrow> Coordinator \<Rightarrow> AgentConn option" where
  "choose_agent d s = fold (\<lambda>(a, k). choose_step d (co_conns s k)) (co_agents s) None"

definition choose_snapshot :: "AdmissionDescriptor \<Rightarrow> Coordinator \<Rightarrow> ResourceSnapshot option" where
  "choose_snapshot d s = map_option ac_snapshot (choose_agent d s)"

text \<open>What the engine is told when no live agent qualifies.\<close>

definition unavailable_snapshot :: "i64 \<Rightarrow> CoordinatorEpoch \<Rightarrow> ResourceSnapshot" where
  "unavailable_snapshot now epoch = default_snapshot\<lparr>snap_generation := Id (id_value epoch), snap_timestamp := now,
     snap_provenance := (\<lambda>_. Provenance_Unavailable)\<rparr>"

definition client_evaluate :: "platform \<Rightarrow> i64 \<Rightarrow> u64 \<Rightarrow> AdmissionDescriptor \<Rightarrow> Coordinator \<Rightarrow> message \<times> Coordinator" where
  "client_evaluate pf now corr d s =
     (let snap = (case choose_snapshot d s of None \<Rightarrow> unavailable_snapshot now (co_epoch s) | Some x \<Rightarrow> x);
          (rr, engine) = fabric_evaluate pf now d (set_snapshot snap (co_engine s));
          body = (case rr of Inr dec \<Rightarrow> encode_evaluate_response dec 0
                  | Inl e \<Rightarrow> encode_evaluate_response default_decision (error_code_value (err_code e))) in
      ((wire_value WireType_EvaluateResponse, corr, body), s\<lparr>co_engine := engine\<rparr>))"

text \<open>One round of \<open>handle_client_frame\<close>: the reply, whether the connection goes on, the state.\<close>

definition handle_client_frame :: "platform \<Rightarrow> i64 \<Rightarrow> message \<Rightarrow> Coordinator \<Rightarrow> message \<times> bool \<times> Coordinator" where
  "handle_client_frame pf now frm s =
     (case frm of (type, corr, payload) \<Rightarrow>
        let r = byte_reader payload;
            bad = (\<lambda>msg. (error_reply corr ErrorCode_MalformedFrame msg, True, s)) in
        case wire_of_value type of
          WireType_EvaluateRequest \<Rightarrow>
            (case decode_evaluate_request r of
               (Inl e, _) \<Rightarrow> bad ''bad evaluate request''
             | (Inr d, _) \<Rightarrow> (case client_evaluate pf now corr d s of (m, s1) \<Rightarrow> (m, True, s1)))
        | WireType_CommitRequest \<Rightarrow>
            (case decode_commit_request r of
               (Inl e, _) \<Rightarrow> bad ''bad commit request''
             | (Inr (rid, gen), _) \<Rightarrow>
                 (case commit_admission now rid gen (co_engine s) of
                    (cs, engine) \<Rightarrow> ((wire_value WireType_CommitResponse, corr, put_i32 (error_code_value (err_code cs))),
                                     True, s\<lparr>co_engine := engine\<rparr>)))
        | WireType_ReleaseRequest \<Rightarrow>
            (case decode_release_request r of
               (Inl e, _) \<Rightarrow> bad ''bad release request''
             | (Inr rsv, _) \<Rightarrow>
                 (case release_reservation now rsv (co_engine s) of
                    (rs, engine) \<Rightarrow> ((wire_value WireType_ReleaseResponse, corr, put_i32 (error_code_value (err_code rs))),
                                     True, s\<lparr>co_engine := engine\<rparr>)))
        | WireType_ObservationSubmit \<Rightarrow>
            (case decode_observation_submit r of
               (Inl e, _) \<Rightarrow> bad ''bad observation''
             | (Inr ob, _) \<Rightarrow> ((wire_value WireType_ObservationAck, corr, put_i32 0), True,
                               s\<lparr>co_engine := fabric_observe ob (co_engine s)\<rparr>))
        | WireType_Shutdown \<Rightarrow> ((wire_value WireType_Shutdown, corr, put_i32 0), False, s)
        | _ \<Rightarrow> (error_reply corr ErrorCode_UnknownMessage (wire_type_name (wire_of_value type)), True, s))"

end
