(* ===== verification/Agent.thy ===== *)
theory Agent
  imports Protocol Net
begin

text \<open>
  \<open>agent.hpp\<close> and \<open>agent.cpp\<close>: the agent's side of the connection. The socket is the one of the transport model; the
  four header bytes that a frame leaves unwritten are an argument of each send.
\<close>

record Agent =
  ag_id :: AgentId
  ag_boot :: AgentBootId
  ag_caps :: Capabilities
  ag_inventory :: ResourceVector
  ag_device_name :: string
  ag_device_index :: u32
  ag_sock :: NetSocket
  ag_epoch :: CoordinatorEpoch
  ag_running :: bool

definition agent_registration :: "Agent \<Rightarrow> Registration" where
  "agent_registration a = \<lparr>rg_agent = ag_id a, rg_boot = ag_boot a, rg_caps = ag_caps a, rg_inventory = ag_inventory a,
     rg_device_name = ag_device_name a, rg_device_index = ag_device_index a\<rparr>"

section \<open>Requests\<close>

text \<open>A request of the agent: send one frame, wait for one.\<close>

definition agent_exchange ::
    "bytes \<Rightarrow> u16 \<Rightarrow> bytes \<Rightarrow> Agent \<Rightarrow> (Status + FrameHeader \<times> bytes) \<times> Agent" where
  "agent_exchange junk type payload a =
     (case send_frame junk type 0 payload (ag_sock a) of
        (s, t) \<Rightarrow>
          if \<not> status_ok s then (Inl s, a\<lparr>ag_sock := t\<rparr>)
          else case sock_recv_frame t of (x, t1) \<Rightarrow> (x, a\<lparr>ag_sock := t1\<rparr>))"

definition reported_error :: "bytes \<Rightarrow> Status" where
  "reported_error payload =
     (case decode_error_response (byte_reader payload) of (_, code, msg) \<Rightarrow> status_failure code msg)"

definition register_self :: "bytes \<Rightarrow> Agent \<Rightarrow> Status \<times> Agent" where
  "register_self junk a =
     (case agent_exchange junk (wire_value WireType_RegisterAgent) (encode_register (agent_registration a)) a of
        (Inl s, a1) \<Rightarrow> (s, a1)
      | (Inr (h, payload), a1) \<Rightarrow>
          if fh_type h = wire_value WireType_ErrorResponse then (reported_error payload, a1)
          else if fh_type h \<noteq> wire_value WireType_AgentRegistered
          then (status_failure ErrorCode_UnknownMessage ''register not acknowledged'', a1)
          else (status_success, a1\<lparr>ag_epoch := Id (fst (get_u64 (byte_reader payload)))\<rparr>))"

definition send_capacity :: "bytes \<Rightarrow> ResourceSnapshot \<Rightarrow> Agent \<Rightarrow> Status \<times> Agent" where
  "send_capacity junk snap a =
     (case agent_exchange junk (wire_value WireType_CapacityUpdate)
             (put_u64 (id_value (ag_epoch a)) @ encode_capacity_update snap) a of
        (Inl s, a1) \<Rightarrow> (s, a1)
      | (Inr (h, payload), a1) \<Rightarrow>
          if fh_type h = wire_value WireType_ErrorResponse then (reported_error payload, a1)
          else if fh_type h \<noteq> wire_value WireType_CapacityAccepted
          then (status_failure ErrorCode_UnknownMessage ''capacity not accepted'', a1)
          else (status_success, a1))"

section \<open>The loop of the agent\<close>

text \<open>The bytes and outcomes a socket still has to deliver; every frame that is received takes some.\<close>

fun event_size :: "recv_event \<Rightarrow> nat" where
  "event_size (RecvData bs) = Suc (length bs)"
| "event_size RecvError = 1"

definition pending_size :: "NetSocket \<Rightarrow> nat" where
  "pending_size s = sum_list (map event_size (sk_recv s))"

lemma recv_loop_size:
  "recv_loop len got evs = (x, evs') \<Longrightarrow> sum_list (map event_size evs') \<le> sum_list (map event_size evs)"
proof (induction len got evs arbitrary: evs' rule: recv_loop.induct)
  case (1 len got)
  then show ?case by simp
next
  case (2 len got e evs)
  show ?case
  proof (cases "length got < len \<and> (\<exists>bs. e = RecvData bs \<and> bs \<noteq> [] \<and> call_limit (len - length got) \<noteq> 0)")
    case True
    then obtain bs where e: "e = RecvData bs" "bs \<noteq> []" and len: "length got < len"
      and want: "call_limit (len - length got) \<noteq> 0" by blast
    define want where "want = call_limit (len - length got)"
    have "recv_loop len (got @ take want bs) (if want < length bs then RecvData (drop want bs) # evs else evs) = (x, evs')"
      using "2.prems" e len want by (simp add: Let_def flip: want_def)
    from "2.IH" [OF _ e(1) want_def _ this] len e(2) want show ?thesis
      by (auto simp: e(1) want_def [symmetric] split: if_splits)
  next
    case False
    then show ?thesis using "2.prems" by (cases e) (auto simp: Let_def split: if_splits)
  qed
qed

lemma recv_loop_takes:
  assumes "recv_loop len got evs = (Inr bs, evs')" "length got < len"
  shows "sum_list (map event_size evs') < sum_list (map event_size evs)"
proof (cases evs)
  case Nil
  then show ?thesis using assms by simp
next
  case (Cons e es)
  obtain data where e: "e = RecvData data" using assms Cons by (cases e) simp_all
  define want where "want = call_limit (len - length got)"
  have pos: "want > 0" "data \<noteq> []"
    using assms Cons e by (auto simp: Let_def want_def split: if_splits)
  have "recv_loop len (got @ take want data) (if want < length data then RecvData (drop want data) # es else es) = (Inr bs, evs')"
    using assms Cons e pos by (simp add: Let_def flip: want_def)
  from recv_loop_size [OF this] show ?thesis using pos Cons e by (auto split: if_splits)
qed

lemma recv_exact_size:
  assumes "recv_exact len s = (x, t)"
  shows "pending_size t \<le> pending_size s" and "x = Inr bs \<Longrightarrow> 0 < len \<Longrightarrow> pending_size t < pending_size s"
proof -
  obtain y evs where loop: "recv_loop len [] (sk_recv s) = (y, evs)" by (cases "recv_loop len [] (sk_recv s)")
  show "pending_size t \<le> pending_size s"
    using assms loop recv_loop_size [OF loop] by (auto simp: recv_exact_def pending_size_def split: if_splits)
  assume "x = Inr bs" "0 < len"
  then show "pending_size t < pending_size s"
    using assms loop recv_loop_takes [of len "[]" "sk_recv s" bs evs]
    by (auto simp: recv_exact_def pending_size_def split: if_splits)
qed

lemma received_frame_size:
  assumes "sock_recv_frame s = (Inr hp, t)"
  shows "pending_size t < pending_size s"
proof -
  obtain buf u where head: "recv_exact kFrameHeaderSize s = (Inr buf, u)"
    using assms by (auto simp: sock_recv_frame_def split: prod.splits sum.splits)
  have "pending_size u < pending_size s"
    using recv_exact_size(2) [OF head refl] by (simp add: kFrameHeaderSize_def)
  moreover have "pending_size t \<le> pending_size u"
    using assms head recv_exact_size(1) [of _ u _ t]
    by (auto simp: sock_recv_frame_def split: prod.splits sum.splits if_splits)
  ultimately show ?thesis by simp
qed

lemma send_keeps_pending [simp]:
  "sk_recv (snd (send_all data s)) = sk_recv s" "sk_valid (snd (send_all data s)) = sk_valid s"
  by (simp_all add: send_all_def split: prod.splits)

lemma send_frame_keeps_pending [simp]:
  "sk_recv (snd (send_frame junk type corr payload s)) = sk_recv s"
  by (simp add: send_frame_def sock_send_frame_def Let_def split: prod.splits)
    (metis send_keeps_pending(1) snd_conv)

text \<open>One round: whether the loop goes on, and the agent. A reported error is read and dropped.\<close>

definition agent_round :: "bytes \<Rightarrow> Agent \<Rightarrow> bool \<times> Agent" where
  "agent_round junk a =
     (case sock_recv_frame (ag_sock a) of
        (Inl _, t) \<Rightarrow> (False, a\<lparr>ag_sock := t\<rparr>)
      | (Inr (h, payload), t) \<Rightarrow>
          if fh_type h = wire_value WireType_Heartbeat
          then (True, a\<lparr>ag_sock := snd (send_frame junk (wire_value WireType_Heartbeat) (fh_correlation h)
                            (put_u64 (id_value (ag_epoch a))) t)\<rparr>)
          else (fh_type h \<noteq> wire_value WireType_Shutdown, a\<lparr>ag_sock := t\<rparr>))"

lemma agent_round_size:
  "agent_round junk a = (True, a1) \<Longrightarrow> pending_size (ag_sock a1) < pending_size (ag_sock a)"
  using received_frame_size [of "ag_sock a"]
  by (auto simp: agent_round_def pending_size_def split: prod.splits sum.splits if_splits)

text \<open>\<open>junk n\<close> is what the unwritten header bytes of the \<open>n\<close>-th reply hold.\<close>

function agent_loop :: "(nat \<Rightarrow> bytes) \<Rightarrow> nat \<Rightarrow> Agent \<Rightarrow> Agent" where
  "agent_loop junk n a =
     (if ag_running a \<and> net_valid (ag_sock a)
      then case agent_round (junk n) a of (goes_on, a1) \<Rightarrow> if goes_on then agent_loop junk (Suc n) a1 else a1
      else a)"
  by pat_completeness auto

termination agent_loop
  by (relation "measure (\<lambda>(junk, n, a). pending_size (ag_sock a))") (auto simp: agent_round_size)

declare agent_loop.simps [simp del]

definition agent_run :: "(nat \<Rightarrow> bytes) \<Rightarrow> Agent \<Rightarrow> Status \<times> Agent" where
  "agent_run junk a = (status_success, (agent_loop junk 0 (a\<lparr>ag_running := True\<rparr>))\<lparr>ag_running := False\<rparr>)"

definition agent_stop :: "Agent \<Rightarrow> Agent" where
  "agent_stop a = a\<lparr>ag_running := False, ag_sock := sock_close (ag_sock a)\<rparr>"

definition agent_connected :: "Agent \<Rightarrow> bool" where
  "agent_connected a = net_valid (ag_sock a)"

end
