(* ===== verification/Serving.thy ===== *)
theory Serving
  imports Coordinator Agent Sockets
begin

text \<open>
  The thread of a connection in \<open>coordinator.cpp\<close>: \<open>dispatch\<close> reads the first frame and the loops of \<open>handle_agent\<close> and
  \<open>handle_client_frame\<close> read the others from the socket, pass them to the handlers of \<open>Coordinator\<close> and send the replies.
  The status of a send is ignored, as in the code. \<open>junk n\<close> is what the unwritten header bytes of the \<open>n\<close>-th reply hold
  and \<open>clk n\<close> the clock while the \<open>n\<close>-th frame is handled.
\<close>

section \<open>A frame in, a frame out\<close>

definition next_message :: "NetSocket \<Rightarrow> message option \<times> NetSocket" where
  "next_message sk =
     (case sock_recv_frame sk of
        (Inl _, t) \<Rightarrow> (None, t)
      | (Inr (h, payload), t) \<Rightarrow> (Some (fh_type h, fh_correlation h, payload), t))"

definition send_message :: "bytes \<Rightarrow> message \<Rightarrow> NetSocket \<Rightarrow> NetSocket" where
  "send_message junk m sk = (case m of (ty, corr, body) \<Rightarrow> snd (send_frame junk ty corr body sk))"

lemma next_message_size: "next_message sk = (Some m, t) \<Longrightarrow> pending_size t < pending_size sk"
  using received_frame_size [of sk] by (auto simp: next_message_def split: prod.splits sum.splits)

lemma next_message_taken: "(Some m, t) = next_message sk \<Longrightarrow> pending_size t < pending_size sk"
  by (rule next_message_size [OF sym])

lemma send_message_size [simp]: "pending_size (send_message junk m sk) = pending_size sk"
  by (simp add: send_message_def pending_size_def split: prod.splits)

section \<open>The loops\<close>

text \<open>\<open>handle_agent\<close>: until a receive fails, which is the loss of the agent. The connection's record is shared with the
  agent table, so every round looks at its present content.\<close>

function serve_agent :: "(nat \<Rightarrow> bytes) \<Rightarrow> nat \<Rightarrow> nat \<Rightarrow> AgentConn \<Rightarrow> NetSocket \<Rightarrow> Coordinator \<Rightarrow> NetSocket \<times> Coordinator" where
  "serve_agent junk n cid c sk s =
     (case next_message sk of
        (None, t) \<Rightarrow> (t, on_agent_loss (ac_id c) s)
      | (Some frm, t) \<Rightarrow>
          (case handle_agent cid c frm s of
             (reply, s1) \<Rightarrow>
               serve_agent junk (Suc n) cid (case co_conns s1 cid of Some c1 \<Rightarrow> c1 | None \<Rightarrow> c)
                 (send_message (junk n) reply t) s1))"
  by pat_completeness auto

termination serve_agent
  by (relation "measure (\<lambda>(junk, n, cid, c, sk, s). pending_size sk)") (auto dest: next_message_taken)

declare serve_agent.simps [simp del]

text \<open>\<open>handle_client_frame\<close>: the frame at hand, then the next one, until a shutdown or a failed receive.\<close>

function serve_client ::
    "platform \<Rightarrow> (nat \<Rightarrow> i64) \<Rightarrow> (nat \<Rightarrow> bytes) \<Rightarrow> nat \<Rightarrow> message \<Rightarrow> NetSocket \<Rightarrow> Coordinator \<Rightarrow> NetSocket \<times> Coordinator" where
  "serve_client pf clk junk n frm sk s =
     (case handle_client_frame pf (clk n) frm s of
        (reply, goes_on, s1) \<Rightarrow>
          let t = send_message (junk n) reply sk in
          if \<not> goes_on then (t, s1)
          else (case next_message t of
                  (None, u) \<Rightarrow> (u, s1)
                | (Some frm1, u) \<Rightarrow> serve_client pf clk junk (Suc n) frm1 u s1))"
  by pat_completeness auto

termination serve_client
  by (relation "measure (\<lambda>(pf, clk, junk, n, frm, sk, s). pending_size sk)") (auto dest: next_message_taken)

declare serve_client.simps [simp del]

definition serve_connection ::
    "platform \<Rightarrow> (nat \<Rightarrow> i64) \<Rightarrow> (nat \<Rightarrow> bytes) \<Rightarrow> nat \<Rightarrow> NetSocket \<Rightarrow> Coordinator \<Rightarrow> NetSocket \<times> Coordinator" where
  "serve_connection pf clk junk cid sk s =
     (case next_message sk of
        (None, t) \<Rightarrow> (t, s)
      | (Some frm, t) \<Rightarrow>
          (case dispatch cid frm s of
             (Dropped, s1) \<Rightarrow> (t, s1)
           | (Refused m, s1) \<Rightarrow> (send_message (junk 0) m t, s1)
           | (AgentJoined m, s1) \<Rightarrow>
               (case co_conns s1 cid of
                  None \<Rightarrow> (t, s1)
                | Some c \<Rightarrow> serve_agent junk 1 cid c (send_message (junk 0) m t) s1)
           | (ClientJoined, s1) \<Rightarrow> serve_client pf clk junk 0 frm t s1))"

section \<open>Accepting\<close>

text \<open>\<open>accept_and_handle_once\<close> on the connection that the listener yields, if any; the socket is closed when the
  handler returns.\<close>

definition accept_failed :: Status where
  "accept_failed = socket_error ''accept failed''"

definition accept_and_handle_once ::
    "platform \<Rightarrow> (nat \<Rightarrow> i64) \<Rightarrow> (nat \<Rightarrow> bytes) \<Rightarrow> nat \<Rightarrow> NetSocket option \<Rightarrow> Coordinator \<Rightarrow> Status \<times> Coordinator" where
  "accept_and_handle_once pf clk junk cid accepted s =
     (case accepted of
        None \<Rightarrow> (accept_failed, s)
      | Some sk \<Rightarrow> (status_success, snd (serve_connection pf clk junk cid sk s)))"

text \<open>The accept loop of \<open>run\<close>. Each entry is what one round finds: whether \<open>running_\<close> still holds at the test, and the
  connection that \<open>accept\<close> returns. The result is the status, once there is one, and the connections that got a thread.\<close>

fun coordinator_run :: "(bool \<times> NetSocket option) list \<Rightarrow> Status option \<times> NetSocket list" where
  "coordinator_run [] = (None, [])"
| "coordinator_run ((running, accepted) # rounds) =
     (if \<not> running then (Some status_success, [])
      else case accepted of
        None \<Rightarrow> (Some accept_failed, [])
      | Some sk \<Rightarrow> (case coordinator_run rounds of (st, conns) \<Rightarrow> (st, sk # conns)))"

text \<open>The listening side of the object: its flag and its listener. The constructor only starts Winsock and ignores the
  status, \<open>stop\<close> joins a thread that is never started.\<close>

record CoordinatorService =
  cs_running :: bool
  cs_listener :: Endpoint

definition service_start :: "OsAnswers \<Rightarrow> Process \<Rightarrow> CoordinatorService \<times> Process" where
  "service_start a p = (\<lparr>cs_running = False, cs_listener = endpoint_new\<rparr>, snd (init_winsock_once a p))"

definition service_bind ::
    "OsAnswers \<Rightarrow> string \<Rightarrow> u16 \<Rightarrow> CoordinatorService \<Rightarrow> Process \<Rightarrow> Status \<times> CoordinatorService \<times> Process" where
  "service_bind a host port s p =
     (case endpoint_listen a host port (cs_listener s) p of (st, e, p1) \<Rightarrow> (st, s\<lparr>cs_listener := e\<rparr>, p1))"

definition service_stop :: "CoordinatorService \<Rightarrow> Process \<Rightarrow> CoordinatorService \<times> Process" where
  "service_stop s p =
     (case endpoint_close (cs_listener s) p of (e, p1) \<Rightarrow> (\<lparr>cs_running = False, cs_listener = e\<rparr>, p1))"

definition service_port :: "OsAnswers \<Rightarrow> CoordinatorService \<Rightarrow> u16" where
  "service_port a s = local_port a (cs_listener s)"

end
