(* ===== verification/Programs.thy ===== *)
theory Programs
  imports Ctl Serving
begin

text \<open>
  The two daemons, \<open>apps/agent/main.cpp\<close> and \<open>apps/coordinator/main.cpp\<close>, and the version of the library. A program
  returns what it wrote to the standard output and to the error output and its exit code. The answers of the operating
  system and the connection that a successful connect opens are arguments.
\<close>

section \<open>Version\<close>

record Version =
  ver_major :: int
  ver_minor :: int
  ver_patch :: int

definition kVersion :: Version where
  "kVersion = \<lparr>ver_major = 1, ver_minor = 0, ver_patch = 0\<rparr>"

definition version_string :: string where
  "version_string = ''1.0.0''"

section \<open>Arguments\<close>

text \<open>\<open>atoi\<close>; the argument \<open>oob\<close> is its result on a value that is not an \<open>int\<close>, which C leaves undefined. A port keeps
  the low 16 bits.\<close>

definition atoi :: "(string \<Rightarrow> int) \<Rightarrow> string \<Rightarrow> int" where
  "atoi oob s =
     (case parse_integer s of
        (neg, n) \<Rightarrow> let v = (if neg then - int n else int n) in if - (2 ^ 31) \<le> v \<and> v < 2 ^ 31 then v else oob s)"

definition port_argument :: "(string \<Rightarrow> int) \<Rightarrow> string \<Rightarrow> u16" where
  "port_argument oob s = of_int (atoi oob s)"

section \<open>The agent\<close>

text \<open>\<open>Agent::connect\<close>.\<close>

definition agent_connect ::
    "OsAnswers \<Rightarrow> string \<Rightarrow> u16 \<Rightarrow> Endpoint \<Rightarrow> Process \<Rightarrow> Status \<times> Endpoint \<times> Process" where
  "agent_connect a host port e p =
     (case init_winsock_once a p of
        (w, p1) \<Rightarrow> if \<not> status_ok w then (w, e, p1) else endpoint_connect a host port e p1)"

text \<open>The attempts from the \<open>i\<close>-th on, with \<open>k\<close> left; \<open>s\<close> is the status of the last one.\<close>

fun connect_attempts ::
    "(nat \<Rightarrow> OsAnswers) \<Rightarrow> nat \<Rightarrow> nat \<Rightarrow> string \<Rightarrow> u16 \<Rightarrow> Status \<Rightarrow> Endpoint \<Rightarrow> Process \<Rightarrow> Status \<times> Endpoint \<times> Process" where
  "connect_attempts ans 0 i host port s e p = (s, e, p)"
| "connect_attempts ans (Suc k) i host port s e p =
     (case agent_connect (ans i) host port e p of
        (s1, e1, p1) \<Rightarrow> if status_ok s1 then (s1, e1, p1) else connect_attempts ans k (i + 1) host port s1 e1 p1)"

definition program_caps :: Capabilities where
  "program_caps = cap_add (cap_dtype ''fp16'') (cap_add (cap_backend ''cuda'') [])"

definition program_inventory :: "u64 \<Rightarrow> ResourceVector" where
  "program_inventory vram = rv_zero(AcceleratorMemory := vram, HostMemory := push_bit 30 4,
     PinnedHostMemory := push_bit 30 1, ExecutionSlots := 64)"

text \<open>The agent that the program constructs and the capacity that it reports once.\<close>

definition program_agent :: "u64 \<Rightarrow> u64 \<Rightarrow> u64 \<Rightarrow> string \<Rightarrow> NetSocket \<Rightarrow> Agent" where
  "program_agent rid boot vram device sk = \<lparr>ag_id = Id rid, ag_boot = Id boot, ag_caps = program_caps,
     ag_inventory = program_inventory vram, ag_device_name = device, ag_device_index = 0, ag_sock = sk,
     ag_epoch = Id 1, ag_running = False\<rparr>"

definition program_snapshot :: "i64 \<Rightarrow> u64 \<Rightarrow> u64 \<Rightarrow> u64 \<Rightarrow> string \<Rightarrow> ResourceSnapshot" where
  "program_snapshot now rid boot vram device = default_snapshot\<lparr>snap_generation := Id (boot * 1000 + 1),
     snap_timestamp := now, snap_agent_id := Id rid, snap_boot_id := Id boot, snap_node_name := device,
     snap_total := program_inventory vram, snap_capabilities := program_caps,
     snap_pressure := \<lambda>_. PressureLevel_Low, snap_provenance := \<lambda>_. Provenance_Measured\<rparr>"

record ProgramEnv =
  env_oob :: "string \<Rightarrow> int"
  env_answers :: "nat \<Rightarrow> OsAnswers"
  env_connection :: NetSocket
  env_now :: i64
  env_junk :: "nat \<Rightarrow> bytes"

definition fails_with :: "string \<Rightarrow> Status \<Rightarrow> string \<times> string \<times> int" where
  "fails_with what s = ([], what @ '' failed: '' @ err_message s @ newline, 1)"

text \<open>\<open>main\<close>; the arguments are those after the name of the program. The first two frames are sent with the junk 0
  and 1, those of the loop with the following ones.\<close>

definition agent_main :: "ProgramEnv \<Rightarrow> string list \<Rightarrow> string \<times> string \<times> int" where
  "agent_main env args =
     (case args of
        host # port # rid # boot # vram # rest \<Rightarrow>
          let rid_val = strtoull rid; boot_val = strtoull boot; vram_val = strtoull vram;
              device = (case rest of [] \<Rightarrow> ''cuda'' | d # _ \<Rightarrow> d);
              (s, e, p) = connect_attempts (env_answers env) 200 0 host (port_argument (env_oob env) port)
                status_success endpoint_new \<lparr>pr_winsock = False, pr_open = {}, pr_calls = []\<rparr>
          in if \<not> status_ok s then fails_with ''connect'' s
             else case register_self (env_junk env 0) (program_agent rid_val boot_val vram_val device (env_connection env)) of
               (s1, a1) \<Rightarrow>
                 if \<not> status_ok s1 then fails_with ''register'' s1
                 else (case send_capacity (env_junk env 1)
                             (program_snapshot (env_now env) rid_val boot_val vram_val device) a1 of
                         (s2, a2) \<Rightarrow>
                           if \<not> status_ok s2 then fails_with ''capacity'' s2
                           else (case agent_run (\<lambda>n. env_junk env (n + 2)) a2 of
                                   (_, a3) \<Rightarrow> (''REGISTERED '' @ to_string_u64 rid_val @ newline, [], 0)))
      | _ \<Rightarrow> ([], ''usage: agent host port agent_id boot_id vram_bytes'' @ newline, 2))"

section \<open>The coordinator\<close>

definition coordinator_policy :: AdmissionPolicy where
  "coordinator_policy = default_policy\<lparr>p_name := ''coordinator-default'', p_max_snapshot_age := seconds 30\<rparr>"

text \<open>The state that the accept loop starts from.\<close>

definition coordinator_ready :: Coordinator where
  "coordinator_ready = coordinator_start (snd (install_policy coordinator_policy fabric_empty))"

text \<open>\<open>main\<close>, with the answers to the start and to the bind and what the rounds of the accept loop find; \<open>None\<close> while the
  loop runs.\<close>

definition coordinator_main ::
    "(string \<Rightarrow> int) \<Rightarrow> OsAnswers \<Rightarrow> (bool \<times> NetSocket option) list \<Rightarrow> string list \<Rightarrow> (string \<times> string \<times> int) option" where
  "coordinator_main oob a rounds args =
     (let port = (case args of [] \<Rightarrow> 7777 | x # _ \<Rightarrow> port_argument oob x);
          host = (case args of x # y # _ \<Rightarrow> y | _ \<Rightarrow> ''127.0.0.1'');
          (svc, p) = service_start a \<lparr>pr_winsock = False, pr_open = {}, pr_calls = []\<rparr>
      in case service_bind a host port svc p of
        (s, svc1, p1) \<Rightarrow>
          if \<not> status_ok s then Some ([], ''bind failed: '' @ err_message s @ newline, 1)
          else map_option
            (\<lambda>r. (''LISTENING '' @ host @ '' '' @ nat_to_string (unat port) @ newline,
                  if \<not> status_ok r then ''coordinator exited: '' @ err_message r @ newline else [], 0))
            (fst (coordinator_run rounds)))"

end
