(* ===== verification/Net_Spec.thy ===== *)
theory Net_Spec
  imports Net Frames
begin

text \<open>
  The transport delivers: however the network cuts the stream into pieces, \<open>recv_frame\<close> returns the frame that
  \<open>send_frame\<close> sent and leaves the stream at the byte after it; \<open>recv_exact\<close> always returns.
\<close>

section \<open>Reassembly\<close>

text \<open>The stream a list of received pieces stands for.\<close>

fun stream_of :: "recv_event list \<Rightarrow> bytes" where
  "stream_of [] = []"
| "stream_of (RecvData bs # evs) = bs @ stream_of evs"
| "stream_of (RecvError # evs) = []"

definition pieces :: "recv_event list \<Rightarrow> bool" where
  "pieces evs \<longleftrightarrow> list_all (\<lambda>e. case e of RecvData bs \<Rightarrow> bs \<noteq> [] | RecvError \<Rightarrow> False) evs"

lemma pieces_simps [simp]:
  "pieces []" "pieces (RecvData bs # evs) \<longleftrightarrow> bs \<noteq> [] \<and> pieces evs" "\<not> pieces (RecvError # evs)"
  by (simp_all add: pieces_def)

lemma recv_loop_reassembles:
  assumes "pieces evs" "length got \<le> len" "len < 2 ^ 31" "len - length got \<le> length (stream_of evs)"
  shows "\<exists>evs'. recv_loop len got evs = (Inr (got @ take (len - length got) (stream_of evs)), evs')
    \<and> pieces evs' \<and> stream_of evs' = drop (len - length got) (stream_of evs)"
  using assms
proof (induction len got evs rule: recv_loop.induct)
  case (1 len got)
  then show ?case by simp
next
  case (2 len got e evs)
  show ?case
  proof (cases "length got < len")
    case False
    then show ?thesis using 2 by simp
  next
    case True
    obtain bs where e: "e = RecvData bs" "bs \<noteq> []" using "2.prems"(1) by (cases e) auto
    have want: "call_limit (len - length got) = len - length got" using "2.prems"(3) by (simp add: call_limit_def)
    show ?thesis
      using "2.IH" [of bs "len - length got"] "2.prems" True e want by (auto simp: Let_def min_def)
  qed
qed

definition listening :: "recv_event list \<Rightarrow> NetSocket \<Rightarrow> bool" where
  "listening evs s \<longleftrightarrow> sk_valid s \<and> sk_recv s = evs \<and> pieces evs"

lemma recv_exact_delivers:
  assumes "listening evs s" "len < 2 ^ 31" "stream_of evs = bs @ rest" "length bs = len"
  shows "\<exists>t evs'. recv_exact len s = (Inr bs, t) \<and> listening evs' t \<and> stream_of evs' = rest"
  using recv_loop_reassembles [of evs "[]" len] assms
  by (auto simp: recv_exact_def listening_def)

section \<open>Headers\<close>

lemma word_at_put:
  assumes "buf = pre @ put_le n v @ post" "off = length pre" "LENGTH('a) \<le> 8 * n"
  shows "word_at off n buf = (v :: 'a::len word)"
  using reads_apply [OF reads_le_put [OF assms(3)], of "[]" v "[]"] assms(1,2)
  by (simp add: word_at_def byte_reader_at)

lemma unpack_pack:
  "unpack_header (pack_header h junk) =
     (if fh_magic h \<noteq> kProtocolMagic then status_failure ErrorCode_MalformedFrame ''bad magic''
      else if fh_version h \<noteq> kProtocolVersion
      then status_failure ErrorCode_UnsupportedVersion ''unsupported protocol version''
      else if fh_payload_len h > kMaxFramePayload then status_failure ErrorCode_FrameTooLarge ''frame too large''
      else status_success, h)"
proof -
  let ?buf = "pack_header h junk"
  have "word_at 0 4 ?buf = fh_magic h" by (rule word_at_put [where pre = "[]"]) (simp_all add: pack_header_def put_words_le)
  moreover have "word_at 4 2 ?buf = fh_version h"
    by (rule word_at_put [where pre = "put_u32 (fh_magic h)"]) (simp_all add: pack_header_def put_words_le)
  moreover have "word_at 6 2 ?buf = fh_type h"
    by (rule word_at_put [where pre = "put_u32 (fh_magic h) @ put_u16 (fh_version h)"]) (simp_all add: pack_header_def put_words_le)
  moreover have "word_at 8 4 ?buf = fh_payload_len h"
    by (rule word_at_put [where pre = "put_u32 (fh_magic h) @ put_u16 (fh_version h) @ put_u16 (fh_type h)"])
      (simp_all add: pack_header_def put_words_le)
  moreover have "word_at 12 8 ?buf = fh_correlation h"
    by (rule word_at_put [where pre = "put_u32 (fh_magic h) @ put_u16 (fh_version h) @ put_u16 (fh_type h)
        @ put_u32 (fh_payload_len h)"]) (simp_all add: pack_header_def put_words_le)
  ultimately show ?thesis by (simp add: unpack_header_def)
qed

lemma length_header: "length junk = 4 \<Longrightarrow> length (pack_header h junk) = kFrameHeaderSize"
  by (simp add: pack_header_def kFrameHeaderSize_def)

section \<open>Frames\<close>

definition frame_bytes :: "bytes \<Rightarrow> u16 \<Rightarrow> u64 \<Rightarrow> bytes \<Rightarrow> bytes" where
  "frame_bytes junk type correlation payload =
     pack_header (default_header\<lparr>fh_type := type, fh_correlation := correlation,
       fh_payload_len := of_nat (length payload)\<rparr>) junk @ payload"

lemma send_loop_all: "send_loop data sent [] = (status_success, sent @ data, [])"
  by (cases data) simp_all

lemma send_frame_bytes:
  assumes "sk_valid s" "sk_send s = []"
  shows "send_frame junk type correlation payload s
    = (status_success, s\<lparr>sk_sent := sk_sent s @ frame_bytes junk type correlation payload\<rparr>)"
  using assms
  by (simp add: send_frame_def sock_send_frame_def send_all_def send_loop_all frame_bytes_def Let_def default_header_def)

lemma recv_frame_bytes:
  assumes "length payload \<le> 16 * 1024 * 1024" and "length junk = 4" and "listening evs b"
    and "stream_of evs = frame_bytes junk type correlation payload @ rest"
  shows "\<exists>h b' evs'. sock_recv_frame b = (Inr (h, payload), b') \<and> fh_type h = type \<and> fh_correlation h = correlation
    \<and> listening evs' b' \<and> stream_of evs' = rest"
proof -
  let ?h = "default_header\<lparr>fh_type := type, fh_correlation := correlation, fh_payload_len := of_nat (length payload)\<rparr>"
  have plen: "unat (of_nat (length payload) :: u32) = length payload" using assms(1) length_field [of "length payload"] by simp
  then have fits: "\<not> fh_payload_len ?h > kMaxFramePayload" using assms(1) by (simp add: kMaxFramePayload_def word_less_nat_alt)
  have stream: "stream_of evs = pack_header ?h junk @ payload @ rest" using assms(4) by (simp add: frame_bytes_def)
  obtain t evs1 where head: "recv_exact kFrameHeaderSize b = (Inr (pack_header ?h junk), t)"
      "listening evs1 t" "stream_of evs1 = payload @ rest"
    using recv_exact_delivers [OF assms(3) _ stream length_header [OF assms(2)]] by (auto simp: kFrameHeaderSize_def)
  have ok: "unpack_header (pack_header ?h junk) = (status_success, ?h)"
    using fits by (simp add: unpack_pack default_header_def)
  show ?thesis
  proof (cases "payload = []")
    case True
    then show ?thesis using head ok by (auto simp: sock_recv_frame_def)
  next
    case False
    obtain t' evs2 where body: "recv_exact (length payload) t = (Inr payload, t')" "listening evs2 t'" "stream_of evs2 = rest"
      using recv_exact_delivers [OF head(2) _ head(3) refl] assms(1) by auto
    have "(of_nat (length payload) :: u32) > 0" using False plen by (metis length_0_conv unat_0 word_gt_0)
    then show ?thesis using head body ok plen by (auto simp: sock_recv_frame_def)
  qed
qed

section \<open>Sends in pieces\<close>

text \<open>Outcomes with which a send goes through: every call takes at least one byte, and may take any part of the rest.\<close>

definition sends_ok :: "send_event list \<Rightarrow> bool" where
  "sends_ok evs \<longleftrightarrow> list_all (\<lambda>e. case e of SendTakes k \<Rightarrow> 0 < k | SendError \<Rightarrow> False) evs"

lemma sends_ok_simps [simp]:
  "sends_ok []" "sends_ok (SendTakes k # evs) \<longleftrightarrow> 0 < k \<and> sends_ok evs" "\<not> sends_ok (SendError # evs)"
  by (simp_all add: sends_ok_def)

lemma failed_send [simp]: "\<not> status_ok (socket_error msg)" "\<not> status_ok (connection_reset msg)"
  by (simp_all add: socket_error_def connection_reset_def)

text \<open>Whatever the outcomes are, what was sent is a part of the data from its start on, all of it on success.\<close>

lemma send_loop_prefix:
  "\<exists>n. fst (snd (send_loop data sent evs)) = sent @ take n data
     \<and> (status_ok (fst (send_loop data sent evs)) \<longrightarrow> take n data = data)"
proof (induction data sent evs rule: send_loop.induct)
  case (4 b bs sent k evs)
  let ?d = "b # bs" and ?n = "min k (call_limit (length (b # bs)))"
  show ?case
  proof (cases "?n = 0")
    case True
    then show ?thesis by (intro exI [of _ 0]) simp
  next
    case False
    from "4.IH" [OF refl False] obtain m where m: "fst (snd (send_loop (drop ?n ?d) (sent @ take ?n ?d) evs))
        = (sent @ take ?n ?d) @ take m (drop ?n ?d)"
      "status_ok (fst (send_loop (drop ?n ?d) (sent @ take ?n ?d) evs)) \<longrightarrow> take m (drop ?n ?d) = drop ?n ?d"
      by blast
    have step: "send_loop ?d sent (SendTakes k # evs) = send_loop (drop ?n ?d) (sent @ take ?n ?d) evs"
      using False by (simp only: send_loop.simps Let_def if_False)
    have "take (?n + m) ?d = take ?n ?d @ take m (drop ?n ?d)" by (rule take_add)
    then show ?thesis
      unfolding step using m by (intro exI [of _ "?n + m"]) (metis append.assoc append_take_drop_id)
  qed
next
  case (2 b bs sent)
  show ?case by (intro exI [of _ "length (b # bs)"]) simp
next
  case (3 b bs sent evs)
  show ?case by (intro exI [of _ 0]) simp
qed simp

lemma send_loop_pieces:
  assumes "sends_ok evs" "length data < 2 ^ 31"
  shows "\<exists>evs'. send_loop data sent evs = (status_success, sent @ data, evs') \<and> sends_ok evs'"
  using assms
proof (induction data sent evs rule: send_loop.induct)
  case (4 b bs sent k evs)
  let ?d = "b # bs" and ?n = "min k (call_limit (length (b # bs)))"
  have limit: "call_limit (length ?d) = length ?d" using "4.prems"(2) by (simp add: call_limit_def)
  have n: "?n \<noteq> 0" using "4.prems"(1) limit by simp
  have step: "send_loop ?d sent (SendTakes k # evs) = send_loop (drop ?n ?d) (sent @ take ?n ?d) evs"
    using n by (simp only: send_loop.simps Let_def if_False)
  have "length (drop ?n ?d) < 2 ^ 31" using "4.prems"(2) by simp
  from "4.IH" [OF refl n _ this] "4.prems"(1) show ?case
    unfolding step by (metis append.assoc append_take_drop_id sends_ok_simps(2))
qed simp_all

lemma send_all_prefix:
  assumes "sk_valid s"
  shows "\<exists>n. sk_sent (snd (send_all data s)) = sk_sent s @ take n data \<and> sk_valid (snd (send_all data s))
     \<and> (status_ok (fst (send_all data s)) \<longrightarrow> take n data = data)"
  using send_loop_prefix [of data "sk_sent s" "sk_send s"] assms
  by (auto simp: send_all_def case_prod_beta)

text \<open>For every outcome of the calls: what went out is a beginning of the frame, and the frame on success.\<close>

lemma send_frame_prefix:
  assumes "sk_valid s"
  shows "\<exists>n. sk_sent (snd (send_frame junk type correlation payload s))
        = sk_sent s @ take n (frame_bytes junk type correlation payload)
     \<and> (status_ok (fst (send_frame junk type correlation payload s))
        \<longrightarrow> take n (frame_bytes junk type correlation payload) = frame_bytes junk type correlation payload)"
proof -
  define hdr where "hdr = pack_header (default_header\<lparr>fh_type := type, fh_correlation := correlation,
       fh_payload_len := of_nat (length payload)\<rparr>) junk"
  have whole: "frame_bytes junk type correlation payload = hdr @ payload" by (simp add: frame_bytes_def hdr_def)
  obtain st t where head: "send_all hdr s = (st, t)" by (cases "send_all hdr s")
  have run: "send_frame junk type correlation payload s
      = (if \<not> status_ok st then (st, t) else if payload \<noteq> [] then send_all payload t else (status_success, t))"
    using head by (simp add: send_frame_def sock_send_frame_def default_header_def Let_def hdr_def)
  from send_all_prefix [OF assms, of hdr] head obtain n where
    n: "sk_sent t = sk_sent s @ take n hdr" "sk_valid t" "status_ok st \<longrightarrow> take n hdr = hdr" by auto
  show ?thesis
  proof (cases "status_ok st \<and> payload \<noteq> []")
    case True
    from send_all_prefix [OF n(2), of payload] obtain m where
      m: "sk_sent (snd (send_all payload t)) = sk_sent t @ take m payload"
      "status_ok (fst (send_all payload t)) \<longrightarrow> take m payload = payload" by blast
    show ?thesis
      using True n m unfolding run whole by (intro exI [of _ "length hdr + m"]) simp
  next
    case False
    have part: "take (min n (length hdr)) hdr = take n hdr" by (simp add: min_def)
    show ?thesis
      using False n unfolding run whole by (intro exI [of _ "min n (length hdr)"]) (auto simp: part)
  qed
qed

text \<open>When every call takes some bytes the frame goes out whole, in however many calls.\<close>

lemma send_all_pieces:
  assumes "sk_valid s" "sends_ok (sk_send s)" "length data < 2 ^ 31"
  shows "\<exists>evs. send_all data s = (status_success, s\<lparr>sk_sent := sk_sent s @ data, sk_send := evs\<rparr>) \<and> sends_ok evs"
  using send_loop_pieces [OF assms(2,3), of "sk_sent s"] assms(1) by (auto simp: send_all_def)

lemma send_frame_pieces:
  assumes "sk_valid s" "sends_ok (sk_send s)" "length junk = 4" "length payload < 2 ^ 31"
  shows "\<exists>evs. send_frame junk type correlation payload s
      = (status_success, s\<lparr>sk_sent := sk_sent s @ frame_bytes junk type correlation payload, sk_send := evs\<rparr>) \<and> sends_ok evs"
proof -
  let ?hd = "pack_header (default_header\<lparr>fh_type := type, fh_correlation := correlation,
       fh_payload_len := of_nat (length payload)\<rparr>) junk"
  have "length ?hd < 2 ^ 31" using length_header [OF assms(3)] by (simp add: kFrameHeaderSize_def)
  from send_all_pieces [OF assms(1,2) this] obtain evs where
    head: "send_all ?hd s = (status_success, s\<lparr>sk_sent := sk_sent s @ ?hd, sk_send := evs\<rparr>)" "sends_ok evs" by blast
  have run: "send_frame junk type correlation payload s
      = (if payload \<noteq> [] then send_all payload (s\<lparr>sk_sent := sk_sent s @ ?hd, sk_send := evs\<rparr>)
         else (status_success, s\<lparr>sk_sent := sk_sent s @ ?hd, sk_send := evs\<rparr>))"
    using head(1) by (simp add: send_frame_def sock_send_frame_def default_header_def Let_def)
  show ?thesis
  proof (cases "payload = []")
    case True
    then show ?thesis using run head(2) by (auto simp: frame_bytes_def)
  next
    case False
    from send_all_pieces [of "s\<lparr>sk_sent := sk_sent s @ ?hd, sk_send := evs\<rparr>" payload] assms(1,4) head(2)
    show ?thesis using False run by (auto simp: frame_bytes_def)
  qed
qed

text \<open>A payload above the limit is refused when its header has been read; its bytes stay in the stream.\<close>

lemma recv_frame_too_large:
  assumes "16 * 1024 * 1024 < length payload" "length payload < 2 ^ 32" and "length junk = 4" and "listening evs b"
    and "stream_of evs = frame_bytes junk type correlation payload @ rest"
  shows "\<exists>b' evs'. sock_recv_frame b = (Inl (status_failure ErrorCode_FrameTooLarge ''frame too large''), b')
    \<and> listening evs' b' \<and> stream_of evs' = payload @ rest"
proof -
  let ?h = "default_header\<lparr>fh_type := type, fh_correlation := correlation, fh_payload_len := of_nat (length payload)\<rparr>"
  have plen: "unat (of_nat (length payload) :: u32) = length payload" using assms(2) length_field [of "length payload"] by simp
  then have large: "fh_payload_len ?h > kMaxFramePayload" using assms(1) by (simp add: kMaxFramePayload_def word_less_nat_alt)
  have stream: "stream_of evs = pack_header ?h junk @ payload @ rest" using assms(5) by (simp add: frame_bytes_def)
  obtain t evs1 where head: "recv_exact kFrameHeaderSize b = (Inr (pack_header ?h junk), t)"
      "listening evs1 t" "stream_of evs1 = payload @ rest"
    using recv_exact_delivers [OF assms(4) _ stream length_header [OF assms(3)]] by (auto simp: kFrameHeaderSize_def)
  have "unpack_header (pack_header ?h junk) = (status_failure ErrorCode_FrameTooLarge ''frame too large'', ?h)"
    using large by (simp add: unpack_pack default_header_def)
  then show ?thesis using head by (auto simp: sock_recv_frame_def)
qed

text \<open>C20: whatever the send calls do, what goes out is a beginning of the frame, never a byte twice or out of order.
  If the send reports success the peer, for every way the stream is cut into pieces and whatever the four unwritten
  header bytes hold, receives exactly this frame and what follows it stays in the stream for the next one; a payload
  above 16 MiB (and below 4 GiB, where the length field wraps) is refused as too large instead, its bytes left in the
  stream. If every send call takes at least one byte, in whatever portions, the send of a payload below 2 GiB reports
  success.\<close>

theorem frame_transport:
  assumes "length junk = 4" and "sk_valid a" "sk_sent a = []" and "sk_valid b" "pieces (sk_recv b)"
    and "send_frame junk type correlation payload a = (st, a')"
    and "stream_of (sk_recv b) = sk_sent a' @ rest"
  shows "(\<exists>n. sk_sent a' = take n (frame_bytes junk type correlation payload))
    \<and> (status_ok st \<and> length payload \<le> 16 * 1024 * 1024 \<longrightarrow>
         (\<exists>b'. recv_frame b = (Inr (type, correlation, payload), b') \<and> sk_valid b' \<and> pieces (sk_recv b')
            \<and> stream_of (sk_recv b') = rest))
    \<and> (status_ok st \<and> 16 * 1024 * 1024 < length payload \<and> length payload < 2 ^ 32 \<longrightarrow>
         (\<exists>b'. recv_frame b = (Inl (status_failure ErrorCode_FrameTooLarge ''frame too large''), b')
            \<and> stream_of (sk_recv b') = payload @ rest))
    \<and> (sends_ok (sk_send a) \<and> length payload < 2 ^ 31 \<longrightarrow> status_ok st)"
proof -
  have b: "listening (sk_recv b) b" using assms(4,5) by (simp add: listening_def)
  obtain n where n: "sk_sent a' = take n (frame_bytes junk type correlation payload)"
    "status_ok st \<longrightarrow> take n (frame_bytes junk type correlation payload) = frame_bytes junk type correlation payload"
    using send_frame_prefix [OF assms(2), of junk type correlation payload] assms(3,6) by auto
  have stream: "stream_of (sk_recv b) = frame_bytes junk type correlation payload @ rest" if "status_ok st"
    using that n assms(7) by simp
  show ?thesis
  proof (intro conjI impI)
    show "\<exists>n. sk_sent a' = take n (frame_bytes junk type correlation payload)" using n(1) by blast
    assume fits: "status_ok st \<and> length payload \<le> 16 * 1024 * 1024"
    from recv_frame_bytes [OF conjunct2 [OF fits] assms(1) b stream [OF conjunct1 [OF fits]]]
    show "\<exists>b'. recv_frame b = (Inr (type, correlation, payload), b') \<and> sk_valid b' \<and> pieces (sk_recv b')
            \<and> stream_of (sk_recv b') = rest"
      by (auto simp: recv_frame_def listening_def)
  next
    assume large: "status_ok st \<and> 16 * 1024 * 1024 < length payload \<and> length payload < 2 ^ 32"
    then have "16 * 1024 * 1024 < length payload" "length payload < 2 ^ 32" "status_ok st" by auto
    from recv_frame_too_large [OF this(1,2) assms(1) b stream [OF this(3)]]
    show "\<exists>b'. recv_frame b = (Inl (status_failure ErrorCode_FrameTooLarge ''frame too large''), b')
            \<and> stream_of (sk_recv b') = payload @ rest"
      by (auto simp: recv_frame_def listening_def)
  next
    assume "sends_ok (sk_send a) \<and> length payload < 2 ^ 31"
    then have "sends_ok (sk_send a)" "length payload < 2 ^ 31" by auto
    from send_frame_pieces [OF assms(2) this(1) assms(1) this(2), of type correlation] assms(6)
    show "status_ok st" by auto
  qed
qed

text \<open>A frame of 25 bytes that goes out in calls of at most 20 bytes and arrives cut at another place.\<close>

theorem frame_transport_witness:
  "\<exists>b'. recv_frame \<lparr>sk_valid = True, sk_peer_closed = False,
      sk_recv = [RecvData (take 10 (frame_bytes [9, 9, 9, 9] 18 1 [5])), RecvData (drop 10 (frame_bytes [9, 9, 9, 9] 18 1 [5]) @ [7])],
      sk_send = [], sk_sent = []\<rparr> = (Inr (18, 1, [5]), b')"
proof -
  let ?a = "\<lparr>sk_valid = True, sk_peer_closed = False, sk_recv = [], sk_send = [SendTakes 20, SendTakes 20], sk_sent = []\<rparr>"
  let ?b = "\<lparr>sk_valid = True, sk_peer_closed = False,
      sk_recv = [RecvData (take 10 (frame_bytes [9, 9, 9, 9] 18 1 [5])), RecvData (drop 10 (frame_bytes [9, 9, 9, 9] 18 1 [5]) @ [7])],
      sk_send = [], sk_sent = []\<rparr>"
  have "length (frame_bytes [9, 9, 9, 9] 18 1 [5]) = 25"
    by (simp add: frame_bytes_def pack_header_def)
  then have nonempty: "frame_bytes [9, 9, 9, 9] 18 1 [5] \<noteq> []" by auto
  obtain evs where sent: "send_frame [9, 9, 9, 9] 18 1 [5] ?a
      = (status_success, ?a\<lparr>sk_sent := sk_sent ?a @ frame_bytes [9, 9, 9, 9] 18 1 [5], sk_send := evs\<rparr>)"
    using send_frame_pieces [of ?a "[9, 9, 9, 9]" "[5]" 18 1] by auto
  show ?thesis
    using frame_transport [OF _ _ _ _ _ sent, of ?b "[7]"] nonempty by auto
qed

end
