(* ===== verification/Protocol_Spec.thy ===== *)
theory Protocol_Spec
  imports Protocol Codec_Spec
begin

text \<open>
  The message bodies read back: registrations, commit and release requests, evaluation and error responses.
\<close>

section \<open>Steps\<close>

lemma reads_mf_ok: "reads g x bs \<Longrightarrow> reads (mf_ok msg g) (Inr x) bs"
  by (simp add: reads_def mf_ok_def br_ok_def)

lemma reads_mf_req: "reads g (Some x) bs \<Longrightarrow> reads (mf_req msg g) (Inr x) bs"
  by (simp add: reads_def mf_req_def)

lemma reads_mf_done: "x = y \<Longrightarrow> reads (mf_done x) (Inr y) []"
  by (simp add: reads_def mf_done_def br_ok_def)

lemmas body_reads = field_reads reads_mf_ok reads_mf_req reads_mf_done

section \<open>Bodies\<close>

definition register_valid :: "Registration \<Rightarrow> bool" where
  "register_valid g \<longleftrightarrow> om_ok (rg_caps g) \<and> strings_ok (map fst (rg_caps g)) \<and> string_ok (rg_device_name g)"

lemma reads_register:
  assumes "register_valid g" shows "reads decode_register (Inr g) (encode_register g)"
  unfolding decode_register_def encode_register_def
  by (rule body_reads | use assms in \<open>simp add: register_valid_def; fail\<close>)+

lemma reads_commit: "reads decode_commit_request (Inr (rid, gen)) (encode_commit_request rid gen)"
  unfolding decode_commit_request_def encode_commit_request_def
  by (rule body_reads | (simp; fail))+

lemma reads_release: "reads decode_release_request (Inr rsv) (encode_release_request rsv)"
  unfolding decode_release_request_def encode_release_request_def
  by (rule reads_last reads_mf_ok reads_id reads_mf_done refl)+

lemma reads_evaluate_response:
  assumes "decision_encodable dec"
  shows "reads decode_evaluate_response (Inr (decision_core dec, code)) (encode_evaluate_response dec code)"
  unfolding decode_evaluate_response_def encode_evaluate_response_def
  by (rule reads_bind [OF reads_decision [OF assms]] reads_last reads_val reads_words reads_mf_done refl)+

lemma error_response_decoded:
  assumes "error_code_of_value (error_code_value code) = code" and "string_ok msg"
  shows "decode_error_response (byte_reader (encode_error_response code msg)) = (status_success, code, msg)"
  using reads_apply [OF reads_words(4), of "[]" "error_code_value code" "put_string msg"]
    reads_apply [OF reads_str [OF assms(2)], of "put_i32 (error_code_value code)" "[]"] assms(1)
  by (simp add: decode_error_response_def encode_error_response_def br_ok_def byte_reader_at)

text \<open>What one side sends, the other side reads: registrations, commit and release requests, error
  responses with their code and message, and evaluation responses (a decision up to the fields that are not sent).\<close>

theorem messages_read_back:
  "(register_valid g \<longrightarrow> fst (decode_register (byte_reader (encode_register g))) = Inr g)
   \<and> fst (decode_commit_request (byte_reader (encode_commit_request rid gen))) = Inr (rid, gen)
   \<and> fst (decode_release_request (byte_reader (encode_release_request rsv))) = Inr rsv
   \<and> (decision_encodable dec \<longrightarrow>
        fst (decode_evaluate_response (byte_reader (encode_evaluate_response dec v))) = Inr (decision_core dec, v))
   \<and> (code \<in> set error_codes \<and> string_ok msg \<longrightarrow>
        decode_error_response (byte_reader (encode_error_response code msg)) = (status_success, code, msg))"
  using reads_apply [OF reads_register, of g "[]" "[]"] reads_apply [OF reads_commit, of "[]" rid gen "[]"]
    reads_apply [OF reads_release, of "[]" rsv "[]"] reads_apply [OF reads_evaluate_response, of dec "[]" v "[]"]
    error_response_decoded [OF error_code_of_value_enumerator, of code msg]
  by (simp add: byte_reader_at)

definition demo_registration :: Registration where
  "demo_registration = \<lparr>rg_agent = Id 0, rg_boot = Id 0, rg_caps = [], rg_inventory = rv_zero,
     rg_device_name = ''gpu'', rg_device_index = 0\<rparr>"

lemma demo_registration_valid: "register_valid demo_registration"
  by (simp add: register_valid_def demo_registration_def strings_ok_def string_ok_def)

theorem messages_read_back_witness:
  "fst (decode_register (byte_reader (encode_register demo_registration))) = Inr demo_registration"
  using messages_read_back demo_registration_valid by blast

end
