(* ===== verification/Coordinator_Spec.thy ===== *)
theory Coordinator_Spec
  imports Coordinator Protocol_Spec Engine_Grants
begin

text \<open>
  The coordinator as a state machine over the frames and disconnections it sees, with its invariant, the authority an
  update must carry, the choice of an agent, and what an admission sent to a client stands on.
\<close>

section \<open>The state machine\<close>

datatype coord_event =
    EvFirst nat message
  | EvAgent nat message
  | EvAgentGone nat
  | EvClient i64 message
  | EvAdmin fabric_op

text \<open>\<open>EvAdmin\<close> is a use of \<open>engine()\<close> by the process that hosts the coordinator, which installs policies, profiles and
  quotas through it.\<close>

inductive coord_step :: "platform \<Rightarrow> coord_event \<Rightarrow> Coordinator \<Rightarrow> Coordinator \<Rightarrow> bool" for pf where
  first: "co_conns s cid = None \<Longrightarrow> dispatch cid frm s = (res, s') \<Longrightarrow> coord_step pf (EvFirst cid frm) s s'"
| agent: "co_conns s cid = Some c \<Longrightarrow> handle_agent cid c frm s = (reply, s') \<Longrightarrow> coord_step pf (EvAgent cid frm) s s'"
| gone: "co_conns s cid = Some c \<Longrightarrow> coord_step pf (EvAgentGone cid) s (on_agent_loss (ac_id c) s)"
| client: "handle_client_frame pf now frm s = (reply, goes_on, s') \<Longrightarrow> coord_step pf (EvClient now frm) s s'"
| admin: "coord_step pf (EvAdmin op) s (s\<lparr>co_engine := fabric_exec pf op (co_engine s)\<rparr>)"

inductive coord_steps :: "platform \<Rightarrow> Coordinator \<Rightarrow> Coordinator \<Rightarrow> bool" for pf s where
  begun: "coord_steps pf s s"
| further: "coord_steps pf s t \<Longrightarrow> coord_step pf ev t u \<Longrightarrow> coord_steps pf s u"

abbreviation coord_reachable :: "platform \<Rightarrow> Coordinator \<Rightarrow> bool" where
  "coord_reachable pf \<equiv> coord_steps pf (coordinator_start fabric_empty)"

inductive_simps coord_step_simps:
  "coord_step pf (EvFirst cid frm) s s'" "coord_step pf (EvAgent cid frm) s s'" "coord_step pf (EvAgentGone cid) s s'"
  "coord_step pf (EvClient now frm) s s'" "coord_step pf (EvAdmin op) s s'"

section \<open>What each step changes\<close>

definition joined :: "nat \<Rightarrow> Registration \<Rightarrow> Coordinator \<Rightarrow> Coordinator" where
  "joined cid g s = s\<lparr>co_conns := (co_conns s)(cid \<mapsto> \<lparr>ac_id = rg_agent g, ac_boot = rg_boot g,
      ac_snapshot = default_snapshot, ac_registered = True, ac_alive = True, ac_capacity_generation = 0\<rparr>),
    co_agents := om_put (rg_agent g) cid (co_agents s)\<rparr>"

definition boot_conflict :: "Registration \<Rightarrow> Coordinator \<Rightarrow> bool" where
  "boot_conflict g s \<longleftrightarrow> (case agent_conn s (rg_agent g) of None \<Rightarrow> False | Some c \<Rightarrow> ac_alive c \<and> ac_boot c \<noteq> rg_boot g)"

lemma dispatch_state:
  "snd (dispatch cid (ty, corr, payload) s) =
     (if ty \<noteq> wire_value WireType_RegisterAgent then s
      else case fst (decode_register (byte_reader payload)) of
        Inl _ \<Rightarrow> s | Inr g \<Rightarrow> if boot_conflict g s then s else joined cid g s)"
  unfolding dispatch_def joined_def boot_conflict_def
  by (simp split: prod.split sum.split)

lemma dispatch_cases:
  obtains (same) "snd (dispatch cid frm s) = s"
  | (agent) g where "\<not> boot_conflict g s" "snd (dispatch cid frm s) = joined cid g s"
proof -
  obtain ty corr payload where frm: "frm = (ty, corr, payload)" by (cases frm)
  show thesis
  proof (cases "fst (decode_register (byte_reader payload))")
    case (Inl e)
    then show thesis using same by (simp add: frm dispatch_state)
  next
    case (Inr g)
    then show thesis
      using same agent [of g] by (cases "ty = wire_value WireType_RegisterAgent \<and> \<not> boot_conflict g s")
        (auto simp: frm dispatch_state)
  qed
qed

text \<open>Registration as the agent sends it.\<close>

lemma dispatch_register:
  assumes "register_valid g"
  shows "dispatch cid (wire_value WireType_RegisterAgent, corr, encode_register g) s =
     (if boot_conflict g s
      then (Refused (error_reply corr ErrorCode_AgentBootMismatch ''stale or mismatched agent boot identity''), s)
      else (AgentJoined (wire_value WireType_AgentRegistered, corr, put_u64 (id_value (co_epoch s))), joined cid g s))"
proof -
  have "decode_register (byte_reader (encode_register g)) = (Inr g, reader_at (encode_register g) [])"
    using reads_apply [OF reads_register [OF assms], of "[]" "[]"] by (simp add: byte_reader_at)
  then show ?thesis by (simp add: dispatch_def boot_conflict_def joined_def)
qed

lemma capacity_update_cases:
  obtains (refused) "snd (capacity_update cid c corr payload s) = s"
  | (accepted) epoch_val snap where "capacity_refusal s c epoch_val snap = None"
      and "snd (capacity_update cid c corr payload s) = s\<lparr>co_conns := (co_conns s)(cid \<mapsto>
            c\<lparr>ac_snapshot := snap, ac_capacity_generation := id_value (snap_generation snap)\<rparr>)\<rparr>"
proof -
  obtain epoch_val r where e: "get_u64 (byte_reader payload) = (epoch_val, r)" by (cases "get_u64 (byte_reader payload)")
  obtain x r1 where x: "decode_capacity_update r = (x, r1)" by (cases "decode_capacity_update r")
  show thesis
  proof (cases x)
    case (Inl err)
    then show thesis using e x refused by (simp add: capacity_update_def)
  next
    case (Inr snap)
    show thesis
    proof (cases "capacity_refusal s c epoch_val snap")
      case None
      then show thesis using e x Inr accepted by (simp add: capacity_update_def)
    next
      case (Some y)
      then show thesis using e x Inr refused by (cases y) (simp add: capacity_update_def)
    qed
  qed
qed

lemma handle_agent_state:
  "snd (handle_agent cid c (ty, corr, payload) s) =
     (if ty = wire_value WireType_CapacityUpdate then snd (capacity_update cid c corr payload s) else s)"
  by (simp add: handle_agent_def)

lemma handle_agent_cases:
  obtains (same) "snd (handle_agent cid c frm s) = s"
  | (accepted) epoch_val snap where "capacity_refusal s c epoch_val snap = None"
      and "snd (handle_agent cid c frm s) = s\<lparr>co_conns := (co_conns s)(cid \<mapsto>
            c\<lparr>ac_snapshot := snap, ac_capacity_generation := id_value (snap_generation snap)\<rparr>)\<rparr>"
proof -
  obtain ty corr payload where frm: "frm = (ty, corr, payload)" by (cases frm)
  show thesis
  proof (cases "ty = wire_value WireType_CapacityUpdate")
    case True
    then have eq: "snd (handle_agent cid c frm s) = snd (capacity_update cid c corr payload s)"
      by (simp add: frm handle_agent_state)
    show thesis
      by (rule capacity_update_cases [of cid c corr payload s]; rule same accepted; simp add: eq)
  next
    case False
    then show thesis using same by (simp add: frm handle_agent_state)
  qed
qed

lemma on_agent_loss_cases:
  obtains (same) "on_agent_loss a s = s"
  | (fenced) k c where "om_find (co_agents s) a = Some k" "co_conns s k = Some c" "ac_alive c"
      "on_agent_loss a s = s\<lparr>co_conns := (co_conns s)(k \<mapsto> c\<lparr>ac_alive := False\<rparr>), co_epoch := id_next (co_epoch s)\<rparr>"
proof (cases "om_find (co_agents s) a")
  case None
  then show thesis by (simp add: on_agent_loss_def same)
next
  case (Some k)
  show thesis
  proof (cases "co_conns s k")
    case None
    then show thesis using Some by (simp add: on_agent_loss_def same)
  next
    case (Some c)
    show thesis
      by (cases "ac_alive c") (use fenced same \<open>om_find (co_agents s) a = Some k\<close> Some in \<open>simp_all add: on_agent_loss_def\<close>)
  qed
qed

section \<open>The engine behind the coordinator\<close>

lemma client_evaluate_engine:
  "snd (client_evaluate pf now corr d s) = s\<lparr>co_engine := fold (fabric_exec pf)
      [FabSnapshot (case choose_snapshot d s of None \<Rightarrow> unavailable_snapshot now (co_epoch s) | Some x \<Rightarrow> x),
       FabEvaluate now d] (co_engine s)\<rparr>"
  by (simp add: client_evaluate_def Let_def case_prod_beta)

text \<open>What a frame of a client does to the engine, as engine operations.\<close>

definition client_ops :: "i64 \<Rightarrow> message \<Rightarrow> Coordinator \<Rightarrow> fabric_op list" where
  "client_ops now frm s =
     (case frm of (ty, corr, payload) \<Rightarrow>
        let r = byte_reader payload in
        case wire_of_value ty of
          WireType_EvaluateRequest \<Rightarrow>
            (case fst (decode_evaluate_request r) of
               Inl _ \<Rightarrow> []
             | Inr d \<Rightarrow> [FabSnapshot (case choose_snapshot d s of None \<Rightarrow> unavailable_snapshot now (co_epoch s) | Some x \<Rightarrow> x),
                         FabEvaluate now d])
        | WireType_CommitRequest \<Rightarrow>
            (case fst (decode_commit_request r) of Inl _ \<Rightarrow> [] | Inr (rid, gen) \<Rightarrow> [FabCommit now rid gen])
        | WireType_ReleaseRequest \<Rightarrow>
            (case fst (decode_release_request r) of Inl _ \<Rightarrow> [] | Inr rsv \<Rightarrow> [FabRelease now rsv])
        | WireType_ObservationSubmit \<Rightarrow>
            (case fst (decode_observation_submit r) of Inl _ \<Rightarrow> [] | Inr ob \<Rightarrow> [FabObserve ob])
        | _ \<Rightarrow> [])"

lemma client_frame_engine:
  "snd (snd (handle_client_frame pf now frm s)) = s\<lparr>co_engine := fold (fabric_exec pf) (client_ops now frm s) (co_engine s)\<rparr>"
proof -
  obtain ty corr payload where frm: "frm = (ty, corr, payload)" by (cases frm)
  show ?thesis
    by (cases "wire_of_value ty")
      (simp_all add: frm handle_client_frame_def client_ops_def client_evaluate_engine Let_def
        case_prod_unfold split: sum.split)
qed

lemma fabric_run_more: "fold (fabric_exec pf) more_ops (fabric_run pf ops) = fabric_run pf (ops @ more_ops)"
  by (simp add: fabric_run_def)

text \<open>What a step leaves: the connections and the epoch of a client's or an administrator's step, the engine of an
  agent's.\<close>

lemma coord_step_cases [consumes 1, case_names idle joins update loses engine]:
  assumes "coord_step pf ev s s'"
  obtains (idle) "s' = s"
  | (joins) cid g where "co_conns s cid = None" "\<not> boot_conflict g s" "s' = joined cid g s"
  | (update) cid c epoch_val snap where "co_conns s cid = Some c" "capacity_refusal s c epoch_val snap = None"
      "s' = s\<lparr>co_conns := (co_conns s)(cid \<mapsto>
            c\<lparr>ac_snapshot := snap, ac_capacity_generation := id_value (snap_generation snap)\<rparr>)\<rparr>"
  | (loses) k c where "co_conns s k = Some c" "ac_alive c"
      "s' = s\<lparr>co_conns := (co_conns s)(k \<mapsto> c\<lparr>ac_alive := False\<rparr>), co_epoch := id_next (co_epoch s)\<rparr>"
  | (engine) ops where "s' = s\<lparr>co_engine := fold (fabric_exec pf) ops (co_engine s)\<rparr>"
  using assms
proof cases
  case (first cid frm res)
  then have s': "s' = snd (dispatch cid frm s)" by simp
  show thesis
    by (rule dispatch_cases [of cid frm s]) (use idle joins first(2) s' in auto)
next
  case (agent cid c frm reply)
  then have s': "s' = snd (handle_agent cid c frm s)" by simp
  show thesis
    by (rule handle_agent_cases [of cid c frm s]) (use idle update agent(2) s' in auto)
next
  case (gone cid c)
  show thesis
    by (rule on_agent_loss_cases [of "ac_id c" s]) (use idle loses gone(2) in auto)
next
  case (client now frm reply goes_on)
  then show thesis using engine client_frame_engine [of pf now frm s] by simp
next
  case (admin op)
  then show thesis using engine [of "[op]"] by simp
qed

section \<open>The invariant\<close>

text \<open>A connection's snapshot is the initial one, or it came from this agent and boot; its generation is the one that
  is checked.\<close>

definition conn_wf :: "AgentConn \<Rightarrow> bool" where
  "conn_wf c \<longleftrightarrow> id_value (snap_generation (ac_snapshot c)) = ac_capacity_generation c
     \<and> (ac_snapshot c = default_snapshot \<or> snap_agent_id (ac_snapshot c) = ac_id c \<and> snap_boot_id (ac_snapshot c) = ac_boot c)"

definition coord_wf :: "Coordinator \<Rightarrow> bool" where
  "coord_wf s \<longleftrightarrow> om_ok (co_agents s)
     \<and> (\<forall>a k. om_find (co_agents s) a = Some k \<longrightarrow> (\<exists>c. co_conns s k = Some c \<and> ac_id c = a))
     \<and> (\<forall>k c. co_conns s k = Some c \<longrightarrow> conn_wf c)"

lemma coord_wf_joined: "coord_wf s \<Longrightarrow> co_conns s cid = None \<Longrightarrow> coord_wf (joined cid g s)"
proof -
  have "conn_wf \<lparr>ac_id = rg_agent g, ac_boot = rg_boot g, ac_snapshot = default_snapshot, ac_registered = True,
      ac_alive = True, ac_capacity_generation = 0\<rparr>"
    by (simp add: conn_wf_def default_snapshot_def)
  then show "coord_wf s \<Longrightarrow> co_conns s cid = None \<Longrightarrow> coord_wf (joined cid g s)"
    by (fastforce simp: coord_wf_def joined_def om_ok_put om_find_put)
qed

lemma coord_wf_conn:
  "coord_wf s \<Longrightarrow> co_conns s k = Some c \<Longrightarrow> ac_id c' = ac_id c \<Longrightarrow> conn_wf c' \<Longrightarrow> coord_wf (s\<lparr>co_conns := (co_conns s)(k \<mapsto> c')\<rparr>)"
  by (fastforce simp: coord_wf_def)

lemma coord_wf_stored:
  assumes "coord_wf s" "co_conns s k = Some c" "snap_agent_id snap = ac_id c" "snap_boot_id snap = ac_boot c"
  shows "coord_wf (s\<lparr>co_conns := (co_conns s)(k \<mapsto> c\<lparr>ac_snapshot := snap, ac_capacity_generation := id_value (snap_generation snap)\<rparr>)\<rparr>)"
  by (rule coord_wf_conn [OF assms(1,2)]) (simp_all add: conn_wf_def assms(3,4))

lemma coord_wf_fenced:
  assumes "coord_wf s" "co_conns s k = Some c"
  shows "coord_wf (s\<lparr>co_conns := (co_conns s)(k \<mapsto> c\<lparr>ac_alive := False\<rparr>)\<rparr>)"
proof -
  have "conn_wf (c\<lparr>ac_alive := False\<rparr>)" using assms by (auto simp: coord_wf_def conn_wf_def)
  then show ?thesis using coord_wf_conn [OF assms] by simp
qed

lemma coord_wf_fields [simp]: "coord_wf (s\<lparr>co_engine := f\<rparr>) = coord_wf s" "coord_wf (s\<lparr>co_epoch := e\<rparr>) = coord_wf s"
  by (simp_all add: coord_wf_def)

lemma coord_wf_step:
  assumes "coord_step pf ev s s'" and "coord_wf s"
  shows "coord_wf s'"
  using assms(1)
proof (cases rule: coord_step_cases)
  case (joins cid g)
  then show ?thesis using coord_wf_joined [OF assms(2)] by simp
next
  case (update cid c epoch_val snap)
  then show ?thesis
    using coord_wf_stored [OF assms(2) update(1)] by (simp add: capacity_refusal_def split: if_splits)
next
  case (loses k c)
  then have "s' = (s\<lparr>co_conns := (co_conns s)(k \<mapsto> c\<lparr>ac_alive := False\<rparr>)\<rparr>)\<lparr>co_epoch := id_next (co_epoch s)\<rparr>" by simp
  then show ?thesis using coord_wf_fenced [OF assms(2) loses(1)] by (simp only: coord_wf_fields)
qed (use assms(2) in simp_all)

lemma coord_engine_step:
  assumes "coord_step pf ev s s'" and "co_engine s = fabric_run pf ops"
  shows "\<exists>ops'. co_engine s' = fabric_run pf ops'"
  using assms(1)
proof (cases rule: coord_step_cases)
  case (engine more_ops)
  then show ?thesis using assms(2) fabric_run_more by auto
qed (use assms(2) in \<open>auto simp: joined_def\<close>)

lemma coord_reachable_wf: "coord_reachable pf s \<Longrightarrow> coord_wf s"
proof (induction rule: coord_steps.induct)
  case begun
  then show ?case by (simp add: coord_wf_def coordinator_start_def)
next
  case (further t ev u)
  then show ?case by (blast intro: coord_wf_step)
qed

lemma coord_reachable_engine: "coord_reachable pf s \<Longrightarrow> \<exists>ops. co_engine s = fabric_run pf ops"
proof (induction rule: coord_steps.induct)
  case begun
  have "fabric_empty = fabric_run pf []" by (simp add: fabric_run_def)
  then show ?case by (auto simp: coordinator_start_def)
next
  case (further t ev u)
  then show ?case using coord_engine_step by blast
qed

section \<open>Capacity updates\<close>

lemma capacity_update_wire:
  assumes "snapshot_encodable snap"
  shows "handle_agent cid c (wire_value WireType_CapacityUpdate, corr, put_u64 e @ encode_capacity_update snap) s =
     (case capacity_refusal s c e snap of
        Some (code, msg) \<Rightarrow> (error_reply corr code msg, s)
      | None \<Rightarrow> ((wire_value WireType_CapacityAccepted, corr, put_u64 (id_value (snap_generation snap))),
           s\<lparr>co_conns := (co_conns s)(cid \<mapsto>
             c\<lparr>ac_snapshot := snap, ac_capacity_generation := id_value (snap_generation snap)\<rparr>)\<rparr>))"
proof -
  have head: "get_u64 (byte_reader (put_u64 e @ encode_snapshot snap)) = (e, reader_at (put_u64 e) (encode_snapshot snap))"
    using reads_apply [OF reads_words(3), of "[]" e "encode_snapshot snap"] by (simp add: byte_reader_at)
  have body: "decode_snapshot (reader_at (put_u64 e) (encode_snapshot snap)) = (Inr snap, reader_at (put_u64 e @ encode_snapshot snap) [])"
    using reads_apply [OF reads_snapshot [OF assms], of "put_u64 e" "[]"] by simp
  show ?thesis
    by (simp add: handle_agent_def capacity_update_def encode_capacity_update_def decode_capacity_update_def head body)
qed

text \<open>C10: an agent's capacity update replaces the snapshot of its connection exactly when it carries the current
  epoch, the boot and agent identity that registered, and a generation above the last accepted one; the agent is told
  that generation. Otherwise the coordinator is unchanged and the reply is the error of the first failed check.\<close>

theorem capacity_update_authority:
  assumes "snapshot_encodable snap"
  shows "let (reply, s') = handle_agent cid c
        (wire_value WireType_CapacityUpdate, corr, put_u64 e @ encode_capacity_update snap) s in
     if e = id_value (co_epoch s) \<and> snap_boot_id snap = ac_boot c \<and> snap_agent_id snap = ac_id c
       \<and> (ac_capacity_generation c = 0 \<or> ac_capacity_generation c < id_value (snap_generation snap))
     then reply = (wire_value WireType_CapacityAccepted, corr, put_u64 (id_value (snap_generation snap)))
       \<and> s' = s\<lparr>co_conns := (co_conns s)(cid \<mapsto>
             c\<lparr>ac_snapshot := snap, ac_capacity_generation := id_value (snap_generation snap)\<rparr>)\<rparr>
     else s' = s \<and> (\<exists>code msg. reply = (wire_value WireType_ErrorResponse, corr, encode_error_response code msg)
       \<and> code = (if e \<noteq> id_value (co_epoch s) then ErrorCode_StaleEpoch
                 else if snap_boot_id snap \<noteq> ac_boot c \<or> snap_agent_id snap \<noteq> ac_id c then ErrorCode_StaleBootIdentity
                 else ErrorCode_StaleSnapshotGeneration))"
  unfolding capacity_update_wire [OF assms] by (auto simp: capacity_refusal_def error_reply_def not_less)

definition demo_capacity :: ResourceSnapshot where
  "demo_capacity = default_snapshot\<lparr>snap_generation := Id 4\<rparr>"

lemma demo_capacity_encodable: "snapshot_encodable demo_capacity"
  by (simp add: demo_capacity_def snapshot_encodable_def default_snapshot_def enum_canonical_def list_all_iff
      string_ok_def strings_ok_def pressure_enumerators_def provenance_enumerators_def)

theorem capacity_update_authority_witness:
  "snd (handle_agent 0 \<lparr>ac_id = Id 0, ac_boot = Id 0, ac_snapshot = default_snapshot, ac_registered = True,
        ac_alive = True, ac_capacity_generation = 4\<rparr>
      (wire_value WireType_CapacityUpdate, 9, put_u64 1 @ encode_capacity_update demo_capacity)
      (coordinator_start fabric_empty)) = coordinator_start fabric_empty"
proof -
  have "id_value (snap_generation demo_capacity) = 4" by (simp add: demo_capacity_def)
  then show ?thesis
    using capacity_update_authority [OF demo_capacity_encodable, of 0
        "\<lparr>ac_id = Id 0, ac_boot = Id 0, ac_snapshot = default_snapshot, ac_registered = True, ac_alive = True,
          ac_capacity_generation = 4\<rparr>" 9 1 "coordinator_start fabric_empty"]
    by (simp add: case_prod_unfold Let_def)
qed

section \<open>Epochs\<close>

lemma coord_step_epoch: "coord_step pf ev s s' \<Longrightarrow> co_epoch s' = co_epoch s \<or> co_epoch s' = id_next (co_epoch s)"
  by (erule coord_step_cases) (simp_all add: joined_def)

lemma id_next_mono: "id_value e < id_value f \<Longrightarrow> id_value e < id_value (id_next f)"
  using u64_less_Suc [of "id_value f"] by (auto simp: id_next_def)

lemma coord_steps_epoch:
  "coord_steps pf s t \<Longrightarrow> id_value e < id_value (co_epoch s) \<Longrightarrow> id_value e < id_value (co_epoch t)"
proof (induction rule: coord_steps.induct)
  case (further t ev u)
  then show ?case using coord_step_epoch [OF further(2)] id_next_mono by auto
qed

lemma capacity_update_stale:
  assumes "fst (get_u64 (byte_reader payload)) \<noteq> id_value (co_epoch s)"
  shows "\<exists>code msg. capacity_update cid c corr payload s = (error_reply corr code msg, s)"
proof -
  obtain v r where e: "get_u64 (byte_reader payload) = (v, r)" by (cases "get_u64 (byte_reader payload)")
  obtain x r1 where x: "decode_capacity_update r = (x, r1)" by (cases "decode_capacity_update r")
  show ?thesis
    using assms e x by (cases x) (auto simp: capacity_update_def capacity_refusal_def)
qed

lemma on_agent_loss_live:
  assumes "agent_conn s a = Some c" "ac_alive c"
  shows "co_epoch (on_agent_loss a s) = id_next (co_epoch s)"
    and "agent_conn (on_agent_loss a s) a = Some (c\<lparr>ac_alive := False\<rparr>)"
  using assms by (auto simp: agent_conn_def on_agent_loss_def split: option.splits)

text \<open>C9: once a live agent is lost, its connection is out of the choice of agents, and no capacity update that
  carries the epoch from before the loss is ever accepted again, on any connection and after any further steps, as long
  as every frame and every loss is handled whole: the coordinator stays as it is and the reply is an error.\<close>

theorem stale_epoch_never_revives:
  assumes "agent_conn s a = Some lost" "ac_alive lost" and "co_epoch s \<noteq> Id u64_max"
    and "coord_steps pf (on_agent_loss a s) t" and "fst (get_u64 (byte_reader payload)) = id_value (co_epoch s)"
  shows "(\<exists>c. agent_conn (on_agent_loss a s) a = Some c \<and> \<not> usable_agent d c)
    \<and> (\<exists>body. handle_agent cid conn (wire_value WireType_CapacityUpdate, corr, payload) t
        = ((wire_value WireType_ErrorResponse, corr, body), t))"
proof -
  have "id_value (co_epoch s) \<noteq> u64_max" using assms(3) by (cases "co_epoch s") simp
  then have "id_value (co_epoch s) < id_value (co_epoch (on_agent_loss a s))"
    using u64_less_Suc by (simp add: on_agent_loss_live [OF assms(1,2)] id_next_def)
  from coord_steps_epoch [OF assms(4) this]
  have "fst (get_u64 (byte_reader payload)) \<noteq> id_value (co_epoch t)" using assms(5) by simp
  from capacity_update_stale [OF this, of cid conn corr] show ?thesis
    by (auto simp: on_agent_loss_live [OF assms(1,2)] usable_agent_def handle_agent_def error_reply_def)
qed

definition demo_conn :: AgentConn where
  "demo_conn = \<lparr>ac_id = Id 7, ac_boot = Id 1, ac_snapshot = default_snapshot, ac_registered = True, ac_alive = True,
     ac_capacity_generation = 0\<rparr>"

definition demo_coordinator :: Coordinator where
  "demo_coordinator = (coordinator_start fabric_empty)\<lparr>co_conns := [0 \<mapsto> demo_conn], co_agents := [(Id 7, 0)]\<rparr>"

theorem stale_epoch_never_revives_witness:
  "\<exists>body. handle_agent 0 demo_conn (wire_value WireType_CapacityUpdate, 3, put_u64 1) (on_agent_loss (Id 7) demo_coordinator)
     = ((wire_value WireType_ErrorResponse, 3, body), on_agent_loss (Id 7) demo_coordinator)"
proof -
  have "fst (get_u64 (byte_reader (put_u64 1))) = 1"
    using reads_apply [OF reads_words(3), of "[]" 1 "[]"] by (simp add: byte_reader_at)
  then show ?thesis
    using stale_epoch_never_revives [where s = demo_coordinator and a = "Id 7" and lost = demo_conn
        and t = "on_agent_loss (Id 7) demo_coordinator" and pf = demo_platform and payload = "put_u64 1"
        and cid = 0 and conn = demo_conn and corr = 3 and d = default_descriptor] coord_steps.begun
    by (simp add: demo_coordinator_def coordinator_start_def agent_conn_def demo_conn_def u64_max_def)
qed

section \<open>A reconnected agent and its old connection\<close>

text \<open>When an agent has reconnected, the close of its old connection fences the new one: the loss is looked up by
  the agent's id, so the open connection stops being a choice and stays so, whatever the agent sends on it, until the
  agent registers once more; and the epoch that the agent was given no longer passes.\<close>

theorem old_connection_fences_new:
  assumes "co_conns s old = Some co" and "om_find (co_agents s) (ac_id co) = Some new"
    and "co_conns s new = Some cn" "ac_alive cn" and "coord_step pf (EvAgentGone old) s s'"
  shows "\<exists>c. co_conns s' new = Some c \<and> \<not> usable_agent d c \<and> co_epoch s' = id_next (co_epoch s)
    \<and> (\<exists>c'. co_conns (snd (handle_agent new c frm s')) new = Some c' \<and> \<not> usable_agent d c')"
proof -
  have s': "s' = s\<lparr>co_conns := (co_conns s)(new \<mapsto> cn\<lparr>ac_alive := False\<rparr>), co_epoch := id_next (co_epoch s)\<rparr>"
    using assms by (auto simp: coord_step_simps on_agent_loss_def)
  have "\<exists>c'. co_conns (snd (handle_agent new (cn\<lparr>ac_alive := False\<rparr>) frm s')) new = Some c' \<and> \<not> usable_agent d c'"
    by (rule handle_agent_cases [of new "cn\<lparr>ac_alive := False\<rparr>" frm s']) (auto simp: s' usable_agent_def)
  then show ?thesis by (auto simp: s' usable_agent_def)
qed

theorem old_connection_fences_new_witness:
  "\<exists>s'. coord_step demo_platform (EvAgentGone 0)
       (demo_coordinator\<lparr>co_conns := [0 \<mapsto> demo_conn, 1 \<mapsto> demo_conn], co_agents := [(Id 7, 1)]\<rparr>) s'
     \<and> (\<exists>c. co_conns s' 1 = Some c \<and> \<not> usable_agent default_descriptor c)"
proof -
  let ?s = "demo_coordinator\<lparr>co_conns := [0 \<mapsto> demo_conn, 1 \<mapsto> demo_conn], co_agents := [(Id 7, 1)]\<rparr>"
  have gone: "coord_step demo_platform (EvAgentGone 0) ?s (on_agent_loss (Id 7) ?s)"
    by (auto simp: coord_step_simps demo_conn_def)
  show ?thesis
    using gone old_connection_fences_new [where old = 0 and new = 1 and co = demo_conn and cn = demo_conn and d = default_descriptor,
        OF _ _ _ _ gone]
    by (fastforce simp: demo_conn_def)
qed

section \<open>The choice of an agent\<close>

text \<open>The agents that qualify for a request, and how the fold compares with them.\<close>

definition candidate :: "AdmissionDescriptor \<Rightarrow> Coordinator \<Rightarrow> AgentId \<Rightarrow> AgentConn \<Rightarrow> bool" where
  "candidate d s a c \<longleftrightarrow> agent_conn s a = Some c \<and> usable_agent d c"

lemma choose_fold:
  "case fold (\<lambda>(a, k). choose_step d (conns k)) xs acc of
     None \<Rightarrow> acc = None \<and> (\<forall>(a, k) \<in> set xs. \<forall>c. conns k = Some c \<longrightarrow> \<not> usable_agent d c)
   | Some b \<Rightarrow> (acc = Some b \<or> (\<exists>(a, k) \<in> set xs. conns k = Some b \<and> usable_agent d b))
      \<and> (\<forall>x. acc = Some x \<longrightarrow> free_memory x \<le> free_memory b)
      \<and> (\<forall>(a, k) \<in> set xs. \<forall>c. conns k = Some c \<longrightarrow> usable_agent d c \<longrightarrow> free_memory c \<le> free_memory b)"
proof (induction xs arbitrary: acc)
  case Nil
  then show ?case by (cases acc) simp_all
next
  case (Cons x xs)
  obtain a k where x: "x = (a, k)" by (cases x)
  show ?case
    using Cons [of "choose_step d (conns k) acc"]
    by (cases "conns k"; cases acc) (fastforce simp: x choose_step_def split: option.splits if_splits)+
qed

lemma choose_agent_Some:
  assumes "coord_wf s" and "choose_agent d s = Some b"
  shows "(\<exists>a. candidate d s a b) \<and> (\<forall>a c. candidate d s a c \<longrightarrow> free_memory c \<le> free_memory b)"
proof -
  have mem: "(a, k) \<in> set (co_agents s) \<longleftrightarrow> om_find (co_agents s) a = Some k" for a k
    using assms(1) by (simp add: coord_wf_def om_find_in_set)
  show ?thesis
    using choose_fold [where d = d and conns = "co_conns s" and xs = "co_agents s" and acc = None] assms(2)
    by (fastforce simp: choose_agent_def candidate_def agent_conn_def mem split: option.splits)
qed

lemma choose_agent_None:
  assumes "coord_wf s" and "choose_agent d s = None"
  shows "\<not> candidate d s a c"
proof -
  have mem: "(a, k) \<in> set (co_agents s) \<longleftrightarrow> om_find (co_agents s) a = Some k" for a k
    using assms(1) by (simp add: coord_wf_def om_find_in_set)
  show ?thesis
    using choose_fold [where d = d and conns = "co_conns s" and xs = "co_agents s" and acc = None] assms(2)
    by (fastforce simp: choose_agent_def candidate_def agent_conn_def mem split: option.splits)
qed

section \<open>Admissions sent to a client\<close>

lemma evaluate_frame:
  assumes "descriptor_encodable d"
  shows "handle_client_frame pf now (wire_value WireType_EvaluateRequest, corr, encode_evaluate_request d) s =
     (case client_evaluate pf now corr d s of (m, s1) \<Rightarrow> (m, True, s1))"
proof -
  have "decode_evaluate_request (byte_reader (encode_evaluate_request d)) = (Inr d, reader_at (encode_descriptor d) [])"
    using reads_apply [OF reads_descriptor [OF assms], of "[]" "[]"]
    by (simp add: decode_evaluate_request_def encode_evaluate_request_def byte_reader_at)
  moreover have "wire_of_value (wire_value WireType_EvaluateRequest) = WireType_EvaluateRequest" by code_simp
  ultimately show ?thesis by (simp add: handle_client_frame_def del: wire_value.simps)
qed

lemma unavailable_snapshot_blocks: "has_unavailable_dimension (unavailable_snapshot now e)"
  by (simp add: has_unavailable_dimension_def unavailable_snapshot_def resource_ids_def)

definition offered_snapshot :: "i64 \<Rightarrow> AdmissionDescriptor \<Rightarrow> Coordinator \<Rightarrow> ResourceSnapshot" where
  "offered_snapshot now d s = (case choose_snapshot d s of None \<Rightarrow> unavailable_snapshot now (co_epoch s) | Some x \<Rightarrow> x)"

lemma set_snapshot_run: "set_snapshot snap (fabric_run pf ops) = fabric_run pf (ops @ [FabSnapshot snap])"
  by (simp add: fabric_run_def)

lemma reserve_keeps_total:
  "rm_reserve now rid owner demand ttl m = (Inr x, m') \<Longrightarrow> rm_total m' = rm_total m"
  by (auto simp: rm_reserve_Inr)

text \<open>C3: when a client's frame is handled whole, with no other thread between its choice, the setting of the snapshot
  and the evaluation, its reply carries a decision about this request; and when it is an admission, it stands on a live
  agent of the table that has the required capabilities, reports no dimension as unavailable, and has the most free
  accelerator memory of all that qualify: the reservation is in the engine's table as Reserved, and in every dimension
  what is reserved and used fits the ceiling drawn from this agent's last reported total. The code takes no lock that
  would keep the frame whole: with another thread in between an admission can stand on a lost agent
  (\<open>answered_on_lost_agent\<close> of \<open>Races\<close>) or on another request's choice (\<open>answered_on_other_choice\<close>).\<close>

theorem remote_admission:
  assumes "coord_reachable pf s" and "descriptor_encodable d"
    and "handle_client_frame pf now (wire_value WireType_EvaluateRequest, corr, encode_evaluate_request d) s = (reply, b, s')"
  shows "co_conns s' = co_conns s \<and> (\<exists>dec. reply = (wire_value WireType_EvaluateResponse, corr, encode_evaluate_response dec 0)
     \<and> fst (fabric_evaluate pf now d (set_snapshot (offered_snapshot now d s) (co_engine s))) = Inr dec
     \<and> dec_admission_request_id dec = d_admission_request_id d
     \<and> (is_admit dec \<longrightarrow> (\<exists>a c rsv r. let m = af_reservations (co_engine s') in
           agent_conn s a = Some c \<and> ac_alive c
         \<and> cap_contains_all (snap_capabilities (ac_snapshot c)) (required_caps d)
         \<and> (\<forall>a' c'. candidate d s a' c' \<longrightarrow> free_memory c' \<le> free_memory c)
         \<and> \<not> has_unavailable_dimension (ac_snapshot c) \<and> rm_total m = snap_total (ac_snapshot c)
         \<and> dec_reservation_id dec = Some rsv \<and> om_find (rm_reservations m) rsv = Some r
         \<and> rsv_status r = ReservationStatus_Reserved \<and> rsv_owner r = d_tenant_id d
         \<and> (\<forall>i. unat (rm_reserved_sum m i) + unat (rm_used_sum m i) \<le> unat (dim_ceiling m i)))))"
proof -
  obtain ops where run: "co_engine s = fabric_run pf ops" using coord_reachable_engine [OF assms(1)] by blast
  define snap where "snap = offered_snapshot now d s"
  let ?s = "fabric_run pf (ops @ [FabSnapshot snap])"
  have eng: "set_snapshot snap (co_engine s) = ?s" by (simp add: run set_snapshot_run)
  have res: "client_evaluate pf now corr d s = (reply, s')"
    using assms(3) by (simp add: evaluate_frame [OF assms(2)] del: wire_value.simps split: prod.splits)
  have s': "s' = s\<lparr>co_engine := snd (fabric_evaluate pf now d ?s)\<rparr>"
    using res by (simp add: client_evaluate_def Let_def case_prod_unfold eng flip: offered_snapshot_def snap_def)
  have reply: "reply = (wire_value WireType_EvaluateResponse, corr, encode_evaluate_response dec 0)"
    if "fst (fabric_evaluate pf now d ?s) = Inr dec" for dec
    using res that by (simp add: client_evaluate_def Let_def case_prod_unfold eng flip: offered_snapshot_def snap_def)
  show ?thesis
  proof (cases rule: evaluate_outcome [where d = d and s = ?s and now = now and pf = pf])
    case (refused dec sp)
    then have "\<not> is_admit dec" "dec_admission_request_id dec = d_admission_request_id d" by (auto simp: is_admit_def about_def)
    with reply [OF refused(1)] refused(1) show ?thesis by (auto simp: s' eng snap_def [symmetric])
  next
    case (granted base pol m dec)
    have wf: "rm_wf (bind_overcommit pol (af_reservations ?s))" by simp
    have "snapshot_gate now d pol (bound now d pol ?s)" using granted(4) by (simp add: gates_def)
    moreover have "af_has_snapshot (bound now d pol ?s)" "af_snapshot (bound now d pol ?s) = snap"
      by (simp_all add: set_snapshot_run [symmetric] set_snapshot_def bound_def entered_def)
    ultimately have avail: "\<not> has_unavailable_dimension snap" by (simp add: snapshot_gate_def)
    then obtain c where c: "choose_agent d s = Some c" "snap = ac_snapshot c"
      using unavailable_snapshot_blocks by (auto simp: snap_def offered_snapshot_def choose_snapshot_def split: option.splits)
    have total: "rm_total m = snap_total snap"
      using reserve_keeps_total [OF granted(5)] by (simp add: set_snapshot_run [symmetric] set_snapshot_def rm_set_total_def)
    have chosen: "(\<exists>a. agent_conn s a = Some c \<and> ac_alive c
          \<and> cap_contains_all (snap_capabilities (ac_snapshot c)) (required_caps d))
        \<and> (\<forall>a' c'. candidate d s a' c' \<longrightarrow> free_memory c' \<le> free_memory c)"
      using choose_agent_Some [OF coord_reachable_wf [OF assms(1)] c(1)] by (auto simp: candidate_def usable_agent_def)
    have ceil: "dim_ceiling m i = dim_ceiling (bind_overcommit pol (af_reservations ?s)) i" for i
      using granted_reservation [OF wf granted(5)] by (metis rm_ceiling_def)
    note ok = rm_wf_om_ok [OF wf, simplified]
    have eng': "af_reservations (co_engine s') = m" using granted(12) by (simp add: s')
    have held: "\<exists>rsv r. dec_reservation_id dec = Some rsv \<and> om_find (rm_reservations m) rsv = Some r
        \<and> rsv_status r = ReservationStatus_Reserved \<and> rsv_owner r = d_tenant_id d"
      using granted_reservation [OF wf granted(5)] granted(9) ok by (auto simp: om_find_put)
    have sums: "\<forall>i. unat (rm_reserved_sum m i) + unat (rm_used_sum m i) \<le> unat (dim_ceiling m i)"
      using granted_reservation [OF wf granted(5)] unfolding ceil by blast
    have about: "dec_admission_request_id dec = d_admission_request_id d" using granted(7) by (simp add: about_def)
    have conns: "co_conns s' = co_conns s" by (simp add: s')
    show ?thesis
      using reply [OF granted(6)] granted(6) chosen avail total held sums about conns
      unfolding snap_def [symmetric] eng unfolding c(2) eng' Let_def by blast
  qed
qed

text \<open>C11: whatever frames arrive, in whatever order, and whichever connections are lost: the agent table is ordered by
  id and each entry names an existing connection of that very agent; the snapshot of a connection is the initial one or
  was sent by that agent and boot, and its generation is the one that the next update must exceed; and the engine is in
  a state that some sequence of engine operations reaches, so every guarantee of the engine holds behind the network.\<close>

theorem coordinator_invariant:
  assumes "coord_reachable pf s"
  shows "om_ok (co_agents s)
    \<and> (\<forall>a k. om_find (co_agents s) a = Some k \<longrightarrow> (\<exists>c. co_conns s k = Some c \<and> ac_id c = a))
    \<and> (\<forall>k c. co_conns s k = Some c \<longrightarrow> id_value (snap_generation (ac_snapshot c)) = ac_capacity_generation c
         \<and> (ac_snapshot c = default_snapshot
            \<or> snap_agent_id (ac_snapshot c) = ac_id c \<and> snap_boot_id (ac_snapshot c) = ac_boot c))
    \<and> (\<exists>ops. co_engine s = fabric_run pf ops)"
  using coord_reachable_wf [OF assms] coord_reachable_engine [OF assms] by (auto simp: coord_wf_def conn_wf_def)

text \<open>An example: a policy is installed, an agent registers and reports its capacity.\<close>

definition demo_live :: "platform \<Rightarrow> Coordinator" where
  "demo_live pf = \<lparr>co_engine = fabric_exec pf (FabPolicy default_policy) fabric_empty, co_epoch = Id 1,
     co_conns = [0 \<mapsto> \<lparr>ac_id = Id 0, ac_boot = Id 0, ac_snapshot = demo_snapshot, ac_registered = True,
       ac_alive = True, ac_capacity_generation = 0\<rparr>], co_agents = [(Id 0, 0)]\<rparr>"

lemma demo_snapshot_encodable: "snapshot_encodable demo_snapshot"
  by (simp add: demo_snapshot_def snapshot_encodable_def default_snapshot_def enum_canonical_def list_all_iff
      string_ok_def strings_ok_def pressure_enumerators_def provenance_enumerators_def)

lemma demo_live_reachable: "coord_reachable pf (demo_live pf)"
proof -
  let ?s0 = "coordinator_start fabric_empty"
  let ?s1 = "?s0\<lparr>co_engine := fabric_exec pf (FabPolicy default_policy) (co_engine ?s0)\<rparr>"
  let ?s2 = "joined 0 demo_registration ?s1"
  let ?c = "\<lparr>ac_id = Id 0, ac_boot = Id 0, ac_snapshot = default_snapshot, ac_registered = True, ac_alive = True,
       ac_capacity_generation = 0\<rparr>"
  have 1: "coord_step pf (EvAdmin (FabPolicy default_policy)) ?s0 ?s1" by (rule admin)
  have "\<not> boot_conflict demo_registration ?s1"
    by (simp add: boot_conflict_def agent_conn_def coordinator_start_def)
  then have 2: "coord_step pf (EvFirst 0 (wire_value WireType_RegisterAgent, 1, encode_register demo_registration)) ?s1 ?s2"
    using dispatch_register [OF demo_registration_valid, of 0 1 ?s1]
    by (auto simp: coord_step_simps coordinator_start_def simp del: wire_value.simps)
  have "capacity_refusal ?s2 ?c 1 demo_snapshot = None"
    by (simp add: capacity_refusal_def joined_def coordinator_start_def demo_snapshot_def default_snapshot_def)
  then have "snd (handle_agent 0 ?c (wire_value WireType_CapacityUpdate, 2, put_u64 1 @ encode_capacity_update demo_snapshot) ?s2)
      = demo_live pf"
    unfolding capacity_update_wire [OF demo_snapshot_encodable]
    by (simp add: demo_live_def joined_def coordinator_start_def demo_registration_def demo_snapshot_def default_snapshot_def)
  moreover have "co_conns ?s2 0 = Some ?c" by (simp add: joined_def demo_registration_def)
  ultimately have 3: "coord_step pf (EvAgent 0 (wire_value WireType_CapacityUpdate, 2,
      put_u64 1 @ encode_capacity_update demo_snapshot)) ?s2 (demo_live pf)"
    by (metis agent prod.collapse)
  show ?thesis by (rule further [OF further [OF further [OF begun 1] 2] 3])
qed

lemma demo_descriptor_encodable: "descriptor_encodable demo_descriptor"
  by (simp add: descriptor_encodable_def demo_descriptor_def default_descriptor_def enum_canonical_def workload_enumerators_def
      latency_enumerators_def preemption_enumerators_def string_ok_def strings_ok_def)

lemma demo_live_engine: "set_snapshot (offered_snapshot 0 demo_descriptor (demo_live pf)) (co_engine (demo_live pf)) = fabric_run pf demo_setup"
  by (simp add: demo_live_def offered_snapshot_def choose_snapshot_def choose_agent_def choose_step_def usable_agent_def
      required_caps_def demo_descriptor_def default_descriptor_def cap_contains_all_def fabric_run_def demo_setup_def)

theorem remote_admission_witness:
  "\<exists>dec. is_admit dec \<and> fst (handle_client_frame demo_platform 0
      (wire_value WireType_EvaluateRequest, 5, encode_evaluate_request demo_descriptor) (demo_live demo_platform))
    = (wire_value WireType_EvaluateResponse, 5, encode_evaluate_response dec 0)"
proof -
  obtain m b s' where run: "handle_client_frame demo_platform 0
      (wire_value WireType_EvaluateRequest, 5, encode_evaluate_request demo_descriptor) (demo_live demo_platform) = (m, b, s')"
    by (metis prod_cases3)
  from remote_admission [OF demo_live_reachable demo_descriptor_encodable run] demo_admitted [of demo_platform] show ?thesis
    unfolding run demo_live_engine by auto
qed

theorem coordinator_invariant_witness:
  "\<exists>ops. co_engine (demo_live demo_platform) = fabric_run demo_platform ops"
  using coordinator_invariant [OF demo_live_reachable] by blast

end
