(* ===== verification/Agent_Spec.thy ===== *)
theory Agent_Spec
  imports Agent Net_Spec Coordinator_Spec
begin

text \<open>
  The agent and the coordinator together: the registration exchange through the transport, and the loop, which reads
  frames of every type, answers the heartbeats among them in order and ends at a shutdown or at the end of the stream.
\<close>

section \<open>An exchange\<close>

lemma recv_exact_sent: "recv_exact n s = (x, t) \<Longrightarrow> sk_sent t = sk_sent s \<and> sk_send t = sk_send s"
  by (auto simp: recv_exact_def split: if_splits prod.splits)

lemma sock_recv_frame_sent: "sock_recv_frame s = (x, t) \<Longrightarrow> sk_sent t = sk_sent s \<and> sk_send t = sk_send s"
  by (auto simp: sock_recv_frame_def split: prod.splits sum.splits if_splits dest!: recv_exact_sent)

lemma agent_exchange_goes_on:
  assumes "length body \<le> 16 * 1024 * 1024" "length junk' = 4"
    and "listening evs (ag_sock a)" "sk_send (ag_sock a) = []"
    and "stream_of evs = frame_bytes junk' ty corr body @ rest"
  obtains h t evs' where "agent_exchange junk type payload a = (Inr (h, body), a\<lparr>ag_sock := t\<rparr>)" and "fh_type h = ty"
    and "listening evs' t" "sk_send t = []" "stream_of evs' = rest"
    and "sk_sent t = sk_sent (ag_sock a) @ frame_bytes junk type 0 payload"
proof -
  let ?s = "(ag_sock a)\<lparr>sk_sent := sk_sent (ag_sock a) @ frame_bytes junk type 0 payload\<rparr>"
  have sent: "send_frame junk type 0 payload (ag_sock a) = (status_success, ?s)"
    using assms(3,4) by (intro send_frame_bytes) (simp_all add: listening_def)
  have "listening evs ?s" using assms(3) by (simp add: listening_def)
  from recv_frame_bytes [OF assms(1,2) this assms(5)] obtain h t evs' where
    got: "sock_recv_frame ?s = (Inr (h, body), t)" "fh_type h = ty" "listening evs' t" "stream_of evs' = rest" by blast
  have "agent_exchange junk type payload a = (Inr (h, body), a\<lparr>ag_sock := t\<rparr>)"
    using sent got(1) by (simp add: agent_exchange_def)
  then show thesis
    using that got(2-4) sock_recv_frame_sent [OF got(1)] assms(4) by simp
qed

lemma agent_exchange_delivers:
  assumes "length body \<le> 16 * 1024 * 1024" "length junk' = 4"
    and "listening evs (ag_sock a)" "sk_send (ag_sock a) = []"
    and "stream_of evs = frame_bytes junk' ty corr body @ rest"
  obtains h t where "agent_exchange junk type payload a = (Inr (h, body), a\<lparr>ag_sock := t\<rparr>)" and "fh_type h = ty"
    and "sk_sent t = sk_sent (ag_sock a) @ frame_bytes junk type 0 payload"
  using agent_exchange_goes_on [OF assms, of junk type payload] that by blast

section \<open>Registration\<close>

definition reply_message :: "dispatch_result \<Rightarrow> message option" where
  "reply_message res = (case res of Refused m \<Rightarrow> Some m | AgentJoined m \<Rightarrow> Some m | _ \<Rightarrow> None)"

text \<open>C21: the registration of an agent, end to end: when the coordinator handles the agent's frame and its
  reply is what the agent receives, then either the agent succeeds with the coordinator's epoch and the coordinator has
  the agent in its table, live, with this boot and on this connection; or a live agent with the same id and another
  boot is there, the coordinator is unchanged and the agent fails with the boot mismatch.\<close>

theorem registration_handshake:
  assumes "register_valid (agent_registration a)"
    and "dispatch cid (wire_value WireType_RegisterAgent, 0, encode_register (agent_registration a)) s = (res, s')"
    and "reply_message res = Some (ty, corr, body)"
    and "sk_valid (ag_sock a)" "sk_send (ag_sock a) = []" "pieces (sk_recv (ag_sock a))"
    and "stream_of (sk_recv (ag_sock a)) = frame_bytes junk' ty corr body @ rest" "length junk' = 4"
  shows "let (st, a') = register_self junk a in
     sk_sent (ag_sock a') = sk_sent (ag_sock a)
        @ frame_bytes junk (wire_value WireType_RegisterAgent) 0 (encode_register (agent_registration a))
   \<and> (if boot_conflict (agent_registration a) s
      then err_code st = ErrorCode_AgentBootMismatch \<and> s' = s \<and> ag_epoch a' = ag_epoch a
      else status_ok st \<and> ag_epoch a' = co_epoch s \<and> co_epoch s' = co_epoch s
         \<and> om_find (co_agents s') (ag_id a) = Some cid
         \<and> (\<exists>c. co_conns s' cid = Some c \<and> ac_id c = ag_id a \<and> ac_boot c = ag_boot a \<and> ac_alive c))"
proof -
  let ?g = "agent_registration a"
  have listen: "listening (sk_recv (ag_sock a)) (ag_sock a)" using assms(4,6) by (simp add: listening_def)
  show ?thesis
  proof (cases "boot_conflict ?g s")
    case True
    then have r: "ty = wire_value WireType_ErrorResponse" "s' = s"
        "body = encode_error_response ErrorCode_AgentBootMismatch ''stale or mismatched agent boot identity''"
      using assms(2,3) by (auto simp: dispatch_register [OF assms(1)] reply_message_def error_reply_def simp del: wire_value.simps)
    have small: "length body \<le> 16 * 1024 * 1024"
      by (simp add: r encode_error_response_def put_words_le put_string_def put_raw_def)
    from agent_exchange_delivers [OF small assms(8) listen assms(5,7)] obtain h t where
      x: "agent_exchange junk (wire_value WireType_RegisterAgent) (encode_register ?g) a = (Inr (h, body), a\<lparr>ag_sock := t\<rparr>)"
        "fh_type h = ty" "sk_sent t = sk_sent (ag_sock a) @ frame_bytes junk (wire_value WireType_RegisterAgent) 0 (encode_register ?g)"
      by blast
    have "error_code_of_value (error_code_value ErrorCode_AgentBootMismatch) = ErrorCode_AgentBootMismatch"
      by (rule error_code_of_value_enumerator) (simp add: error_codes_def)
    then have "reported_error body = status_failure ErrorCode_AgentBootMismatch ''stale or mismatched agent boot identity''"
      by (simp add: r reported_error_def error_response_decoded string_ok_def)
    then show ?thesis using True x r by (simp add: register_self_def)
  next
    case False
    then have r: "ty = wire_value WireType_AgentRegistered" "s' = joined cid ?g s" "body = put_u64 (id_value (co_epoch s))"
      using assms(2,3) by (auto simp: dispatch_register [OF assms(1)] reply_message_def simp del: wire_value.simps)
    have small: "length body \<le> 16 * 1024 * 1024" by (simp add: r put_words_le)
    from agent_exchange_delivers [OF small assms(8) listen assms(5,7)] obtain h t where
      x: "agent_exchange junk (wire_value WireType_RegisterAgent) (encode_register ?g) a = (Inr (h, body), a\<lparr>ag_sock := t\<rparr>)"
        "fh_type h = ty" "sk_sent t = sk_sent (ag_sock a) @ frame_bytes junk (wire_value WireType_RegisterAgent) 0 (encode_register ?g)"
      by blast
    have epoch: "fst (get_u64 (byte_reader body)) = id_value (co_epoch s)"
      using reads_apply [OF reads_words(3), of "[]" "id_value (co_epoch s)" "[]"] by (simp add: r byte_reader_at)
    have "om_find (co_agents (joined cid ?g s)) (ag_id a) = Some cid"
      by (simp add: joined_def agent_registration_def om_find_put_same)
    then show ?thesis using False x r epoch by (simp add: register_self_def joined_def agent_registration_def)
  qed
qed

definition demo_agent :: "bytes \<Rightarrow> Agent" where
  "demo_agent stream = \<lparr>ag_id = Id 0, ag_boot = Id 0, ag_caps = [], ag_inventory = rv_zero, ag_device_name = ''gpu'',
     ag_device_index = 0, ag_sock = \<lparr>sk_valid = True, sk_peer_closed = False,
       sk_recv = [RecvData (take 9 stream), RecvData (drop 9 stream)], sk_send = [], sk_sent = []\<rparr>,
     ag_epoch = Id 1, ag_running = False\<rparr>"

lemma frame_bytes_length: "length (frame_bytes junk type corr payload) = 20 + length junk + length payload"
  by (simp add: frame_bytes_def pack_header_def put_words_le)

lemma demo_agent_sock:
  assumes "9 < length stream"
  shows "sk_valid (ag_sock (demo_agent stream))" "sk_send (ag_sock (demo_agent stream)) = []"
    "sk_sent (ag_sock (demo_agent stream)) = []"
    "pieces (sk_recv (ag_sock (demo_agent stream)))" "stream_of (sk_recv (ag_sock (demo_agent stream))) = stream"
  using assms by (auto simp: demo_agent_def)

theorem registration_handshake_witness:
  "let (st, a') = register_self [1, 2, 3, 4]
       (demo_agent (frame_bytes [5, 6, 7, 8] (wire_value WireType_AgentRegistered) 0 (put_u64 3))) in
     status_ok st \<and> ag_epoch a' = Id 3"
proof -
  let ?stream = "frame_bytes [5, 6, 7, 8] (wire_value WireType_AgentRegistered) 0 (put_u64 3)"
  let ?a = "demo_agent ?stream" and ?s = "(coordinator_start fabric_empty)\<lparr>co_epoch := Id 3\<rparr>"
  have reg: "agent_registration ?a = demo_registration"
    by (simp add: agent_registration_def demo_agent_def demo_registration_def)
  have free: "\<not> boot_conflict demo_registration ?s"
    by (simp add: boot_conflict_def agent_conn_def coordinator_start_def)
  have disp: "dispatch 0 (wire_value WireType_RegisterAgent, 0, encode_register (agent_registration ?a)) ?s
      = (AgentJoined (wire_value WireType_AgentRegistered, 0, put_u64 3), joined 0 demo_registration ?s)"
    using free by (simp add: reg dispatch_register [OF demo_registration_valid] del: wire_value.simps)
  note sock = demo_agent_sock [of ?stream, unfolded frame_bytes_length]
  have msg: "reply_message (AgentJoined (wire_value WireType_AgentRegistered, 0, put_u64 3))
      = Some (wire_value WireType_AgentRegistered, 0, put_u64 3)" by (simp add: reply_message_def)
  have valid: "register_valid (agent_registration ?a)" unfolding reg by (rule demo_registration_valid)
  have stream: "stream_of (sk_recv (ag_sock ?a)) = frame_bytes [5, 6, 7, 8] (wire_value WireType_AgentRegistered) 0 (put_u64 3) @ []"
    using sock(5) by simp
  show ?thesis
    using registration_handshake [OF valid disp msg sock(1,2,4) stream, of "[1, 2, 3, 4]"] free
    unfolding reg by (simp add: case_prod_unfold Let_def)
qed

section \<open>Heartbeats\<close>

text \<open>The stream of a sequence of frames (unwritten header bytes, type, correlation, payload), and the replies to
  the heartbeats among them; the reply to the frame at place \<open>n\<close> carries \<open>junk n\<close>.\<close>

type_synonym sent_frame = "bytes \<times> u16 \<times> u64 \<times> bytes"

definition frames_stream :: "sent_frame list \<Rightarrow> bytes" where
  "frames_stream fs = concat (map (\<lambda>(j, ty, c, p). frame_bytes j ty c p) fs)"

primrec heartbeat_replies :: "(nat \<Rightarrow> bytes) \<Rightarrow> nat \<Rightarrow> CoordinatorEpoch \<Rightarrow> sent_frame list \<Rightarrow> bytes" where
  "heartbeat_replies junk n e [] = []"
| "heartbeat_replies junk n e (f # fs) =
     (case f of (j, ty, c, p) \<Rightarrow>
        if ty = wire_value WireType_Heartbeat
        then frame_bytes (junk n) (wire_value WireType_Heartbeat) c (put_u64 (id_value e)) else [])
     @ heartbeat_replies junk (Suc n) e fs"

definition frame_fits :: "sent_frame \<Rightarrow> bool" where
  "frame_fits f \<longleftrightarrow> (case f of (j, ty, c, p) \<Rightarrow> length j = 4 \<and> length p \<le> 16 * 1024 * 1024)"

text \<open>One round on each kind of frame.\<close>

lemma agent_round_heartbeat:
  assumes "frame_fits (j, wire_value WireType_Heartbeat, c, p)" and "length junk = 4"
    and "listening evs (ag_sock a)" "sends_ok (sk_send (ag_sock a))"
    and "stream_of evs = frame_bytes j (wire_value WireType_Heartbeat) c p @ rest"
  obtains t evs' where "agent_round junk a = (True, a\<lparr>ag_sock := t\<rparr>)" and "listening evs' t" "stream_of evs' = rest"
    and "sends_ok (sk_send t)"
    and "sk_sent t = sk_sent (ag_sock a) @ frame_bytes junk (wire_value WireType_Heartbeat) c (put_u64 (id_value (ag_epoch a)))"
proof -
  have fits: "length p \<le> 16 * 1024 * 1024" "length j = 4" using assms(1) by (simp_all add: frame_fits_def)
  from recv_frame_bytes [OF fits assms(3,5)] obtain h t evs' where
    x: "sock_recv_frame (ag_sock a) = (Inr (h, p), t)" "fh_type h = wire_value WireType_Heartbeat" "fh_correlation h = c"
      "listening evs' t" "stream_of evs' = rest" by blast
  note same = sock_recv_frame_sent [OF x(1)]
  have valid: "sk_valid t" using x(4) by (simp add: listening_def)
  have out: "sends_ok (sk_send t)" using same assms(4) by simp
  have small: "length (put_u64 (id_value (ag_epoch a))) < 2 ^ 31" by (simp add: put_words_le)
  from send_frame_pieces [OF valid out assms(2) small, of "wire_value WireType_Heartbeat" c] obtain evs2 where
    send: "send_frame junk (wire_value WireType_Heartbeat) c (put_u64 (id_value (ag_epoch a))) t
      = (status_success, t\<lparr>sk_sent := sk_sent t
          @ frame_bytes junk (wire_value WireType_Heartbeat) c (put_u64 (id_value (ag_epoch a))), sk_send := evs2\<rparr>)"
      "sends_ok evs2" by blast
  let ?t = "t\<lparr>sk_sent := sk_sent t @ frame_bytes junk (wire_value WireType_Heartbeat) c (put_u64 (id_value (ag_epoch a))),
    sk_send := evs2\<rparr>"
  have "agent_round junk a = (True, a\<lparr>ag_sock := ?t\<rparr>)" using x send by (simp add: agent_round_def)
  moreover have "listening evs' ?t" using x(4) by (simp add: listening_def)
  ultimately show thesis using that [of ?t evs'] x(5) send(2) same by simp
qed

lemma agent_round_other:
  assumes "frame_fits (j, ty, c, p)" and "ty \<noteq> wire_value WireType_Heartbeat"
    and "listening evs (ag_sock a)" "stream_of evs = frame_bytes j ty c p @ rest"
  obtains t evs' where "agent_round junk a = (ty \<noteq> wire_value WireType_Shutdown, a\<lparr>ag_sock := t\<rparr>)"
    and "listening evs' t" "stream_of evs' = rest" "sk_send t = sk_send (ag_sock a)" "sk_sent t = sk_sent (ag_sock a)"
proof -
  have fits: "length p \<le> 16 * 1024 * 1024" "length j = 4" using assms(1) by (simp_all add: frame_fits_def)
  from recv_frame_bytes [OF fits assms(3,4)] obtain h t evs' where
    x: "sock_recv_frame (ag_sock a) = (Inr (h, p), t)" "fh_type h = ty" "listening evs' t" "stream_of evs' = rest" by blast
  have "agent_round junk a = (ty \<noteq> wire_value WireType_Shutdown, a\<lparr>ag_sock := t\<rparr>)"
    using x assms(2) by (simp add: agent_round_def del: wire_value.simps)
  then show thesis using that x(3,4) sock_recv_frame_sent [OF x(1)] by blast
qed

text \<open>The stream ends the loop at a shutdown, or where the peer has closed.\<close>

definition ends_loop :: "bytes \<Rightarrow> bool" where
  "ends_loop tail \<longleftrightarrow> tail = []
     \<or> (\<exists>j c p rest. frame_fits (j, wire_value WireType_Shutdown, c, p)
          \<and> tail = frame_bytes j (wire_value WireType_Shutdown) c p @ rest)"

lemma agent_round_last:
  assumes "ends_loop tail" and "listening evs (ag_sock a)" "stream_of evs = tail"
  obtains t where "agent_round junk a = (False, a\<lparr>ag_sock := t\<rparr>)" "sk_sent t = sk_sent (ag_sock a)"
proof (cases "tail = []")
  case True
  have "evs = []" using assms(2,3) True by (cases evs rule: stream_of.cases) (auto simp: listening_def)
  then have none: "sk_recv (ag_sock a) = []" "sk_valid (ag_sock a)" using assms(2) by (auto simp: listening_def)
  obtain x t where x: "sock_recv_frame (ag_sock a) = (x, t)" by (cases "sock_recv_frame (ag_sock a)")
  then have "\<exists>e. x = Inl e" using none by (auto simp: sock_recv_frame_def recv_exact_def kFrameHeaderSize_def)
  then show thesis using that x sock_recv_frame_sent [OF x] by (auto simp: agent_round_def)
next
  case False
  then obtain j c p rest where tail: "frame_fits (j, wire_value WireType_Shutdown, c, p)"
    "tail = frame_bytes j (wire_value WireType_Shutdown) c p @ rest"
    using assms(1) unfolding ends_loop_def by blast
  have "wire_value WireType_Shutdown \<noteq> wire_value WireType_Heartbeat" by simp
  from agent_round_other [OF tail(1) this assms(2) assms(3) [unfolded tail(2)], of junk] that show thesis by auto
qed

lemma agent_loop_serves:
  assumes "list_all (\<lambda>f. frame_fits f \<and> fst (snd f) \<noteq> wire_value WireType_Shutdown) fs" and "ends_loop tail"
    and "\<forall>n. length (junk n) = 4" and "ag_running a" "listening evs (ag_sock a)" "sends_ok (sk_send (ag_sock a))"
    and "stream_of evs = frames_stream fs @ tail"
  shows "\<exists>t. agent_loop junk n a = a\<lparr>ag_sock := t\<rparr>
    \<and> sk_sent t = sk_sent (ag_sock a) @ heartbeat_replies junk n (ag_epoch a) fs"
  using assms
proof (induction fs arbitrary: n a evs)
  case Nil
  have stream: "stream_of evs = tail" using Nil.prems(7) by (simp add: frames_stream_def)
  from agent_round_last [OF Nil.prems(2,5) stream, of "junk n"] obtain t where
    t: "agent_round (junk n) a = (False, a\<lparr>ag_sock := t\<rparr>)" "sk_sent t = sk_sent (ag_sock a)" by blast
  then show ?case
    using Nil.prems(4,5) by (auto simp: agent_loop.simps [of junk n a] net_valid_def sk_handle_def listening_def)
next
  case (Cons f fs)
  obtain j ty c p where f: "f = (j, ty, c, p)" by (cases f)
  have fit: "frame_fits (j, ty, c, p)" and go: "ty \<noteq> wire_value WireType_Shutdown" using Cons.prems(1) by (auto simp: f)
  have later: "list_all (\<lambda>f. frame_fits f \<and> fst (snd f) \<noteq> wire_value WireType_Shutdown) fs" using Cons.prems(1) by simp
  have stream: "stream_of evs = frame_bytes j ty c p @ frames_stream fs @ tail"
    using Cons.prems(7) by (simp add: frames_stream_def f)
  have enter: "agent_loop junk n a = agent_loop junk (Suc n) a1" if "agent_round (junk n) a = (True, a1)" for a1
    using that Cons.prems(4,5) by (simp add: agent_loop.simps [of junk n a] net_valid_def sk_handle_def listening_def)
  show ?case
  proof (cases "ty = wire_value WireType_Heartbeat")
    case True
    have len: "length (junk n) = 4" using Cons.prems(3) by blast
    from agent_round_heartbeat [OF fit [unfolded True] len Cons.prems(5,6) stream [unfolded True]] obtain t evs' where
      t: "agent_round (junk n) a = (True, a\<lparr>ag_sock := t\<rparr>)" "listening evs' t" "stream_of evs' = frames_stream fs @ tail"
        "sends_ok (sk_send t)"
        "sk_sent t = sk_sent (ag_sock a)
           @ frame_bytes (junk n) (wire_value WireType_Heartbeat) c (put_u64 (id_value (ag_epoch a)))" by blast
    show ?thesis
      using Cons.IH [OF later Cons.prems(2,3), of "a\<lparr>ag_sock := t\<rparr>" evs' "Suc n"] Cons.prems(4) t enter [OF t(1)]
      by (auto simp: f True simp del: wire_value.simps)
  next
    case False
    from agent_round_other [OF fit False Cons.prems(5) stream, of "junk n"] obtain t evs' where
      t: "agent_round (junk n) a = (ty \<noteq> wire_value WireType_Shutdown, a\<lparr>ag_sock := t\<rparr>)" "listening evs' t"
        "stream_of evs' = frames_stream fs @ tail" "sk_send t = sk_send (ag_sock a)" "sk_sent t = sk_sent (ag_sock a)" by blast
    have round: "agent_round (junk n) a = (True, a\<lparr>ag_sock := t\<rparr>)" using t(1) go by simp
    show ?thesis
      using Cons.IH [OF later Cons.prems(2,3), of "a\<lparr>ag_sock := t\<rparr>" evs' "Suc n"] Cons.prems(4,6) t(2-5) enter [OF round] False
      by (auto simp: f simp del: wire_value.simps)
  qed
qed

text \<open>C24: the agent reads frames of any types (heartbeats, reported errors, types it does not know, all within the
  limit of 16 MiB) until a shutdown or the end of the stream, and not a frame less: it has by then answered exactly
  the heartbeats among them, in order, each with its correlation and the agent's epoch, for every way the network cuts
  the stream and every number of bytes (at least one) each send call takes. The run returns success and the agent is
  stopped.\<close>

theorem agent_answers_heartbeats:
  assumes "list_all (\<lambda>f. frame_fits f \<and> fst (snd f) \<noteq> wire_value WireType_Shutdown) fs" and "ends_loop tail"
    and "\<forall>n. length (junk n) = 4"
    and "sk_valid (ag_sock a)" "pieces (sk_recv (ag_sock a))" "sends_ok (sk_send (ag_sock a))"
    and "stream_of (sk_recv (ag_sock a)) = frames_stream fs @ tail"
  shows "let (st, a') = agent_run junk a in
     status_ok st \<and> \<not> ag_running a'
     \<and> sk_sent (ag_sock a') = sk_sent (ag_sock a) @ heartbeat_replies junk 0 (ag_epoch a) fs"
proof -
  have "listening (sk_recv (ag_sock a)) (ag_sock (a\<lparr>ag_running := True\<rparr>))" using assms(4,5) by (simp add: listening_def)
  from agent_loop_serves [OF assms(1-3) _ this _ assms(7), of 0] assms(6)
  show ?thesis by (auto simp: agent_run_def)
qed

text \<open>Two heartbeats with an error report between them, then a shutdown.\<close>

theorem agent_answers_heartbeats_witness:
  "sk_sent (ag_sock (snd (agent_run (\<lambda>_. [0, 0, 0, 0])
       (demo_agent (frames_stream [([1, 1, 1, 1], wire_value WireType_Heartbeat, 41, []),
            ([4, 4, 4, 4], wire_value WireType_ErrorResponse, 0, []), ([2, 2, 2, 2], wire_value WireType_Heartbeat, 42, [])]
          @ frame_bytes [3, 3, 3, 3] (wire_value WireType_Shutdown) 43 [])))))
     = frame_bytes [0, 0, 0, 0] (wire_value WireType_Heartbeat) 41 (put_u64 1)
       @ frame_bytes [0, 0, 0, 0] (wire_value WireType_Heartbeat) 42 (put_u64 1)"
proof -
  let ?fs = "[([1, 1, 1, 1], wire_value WireType_Heartbeat, 41, []), ([4, 4, 4, 4], wire_value WireType_ErrorResponse, 0, []),
    ([2, 2, 2, 2], wire_value WireType_Heartbeat, 42, [])] :: sent_frame list"
  let ?tail = "frame_bytes [3, 3, 3, 3] (wire_value WireType_Shutdown) 43 []"
  let ?a = "demo_agent (frames_stream ?fs @ ?tail)"
  have "9 < length (frames_stream ?fs @ ?tail)" by (simp add: frame_bytes_length)
  note sock = demo_agent_sock [OF this]
  have sizes: "list_all (\<lambda>f. frame_fits f \<and> fst (snd f) \<noteq> wire_value WireType_Shutdown) ?fs" by (simp add: frame_fits_def)
  have "frame_fits ([3, 3, 3, 3], wire_value WireType_Shutdown, 43, [])" by (simp add: frame_fits_def)
  then have tail: "ends_loop ?tail" unfolding ends_loop_def by (metis append_Nil2)
  have epoch: "ag_epoch ?a = Id 1" by (simp add: demo_agent_def)
  have quiet: "wire_value WireType_ErrorResponse \<noteq> wire_value WireType_Heartbeat" by simp
  show ?thesis
    using agent_answers_heartbeats [OF sizes tail _ sock(1,4) _ sock(5), of "\<lambda>_. [0, 0, 0, 0]"] quiet
    by (simp add: case_prod_unfold Let_def epoch sock(2,3) del: wire_value.simps)
qed

end
