(* ===== verification/Serving_Spec.thy ===== *)
theory Serving_Spec
  imports Serving Agent_Spec
begin

text \<open>
  A connection that is served from its first frame to its end is a run of the coordinator's state machine whose events
  are the frames that its socket delivers and whose replies are what is sent, so whatever holds of the reachable states
  holds of a coordinator that serves its connections; and an agent's connection is fenced when its service ends.
\<close>

section \<open>Sequences of steps\<close>

lemma coord_steps_trans: "coord_steps pf t u \<Longrightarrow> coord_steps pf s t \<Longrightarrow> coord_steps pf s u"
  by (induction rule: coord_steps.induct) (auto intro: coord_steps.further)

lemma coord_step_first: "coord_step pf ev s t \<Longrightarrow> coord_steps pf t u \<Longrightarrow> coord_steps pf s u"
  using coord_steps_trans [of pf t u s] coord_steps.further [OF coord_steps.begun] by blast

section \<open>What goes over the socket\<close>

text \<open>The frames that a socket delivers, up to the first receive that fails.\<close>

function received :: "NetSocket \<Rightarrow> message list" where
  "received sk = (case next_message sk of (None, t) \<Rightarrow> [] | (Some m, t) \<Rightarrow> m # received t)"
  by pat_completeness auto

termination received
  by (relation "measure pending_size") (auto dest: next_message_taken)

declare received.simps [simp del]

text \<open>The replies, sent one after the other; the \<open>n\<close>-th carries \<open>junk n\<close> in the unwritten bytes of its header.\<close>

fun send_messages :: "(nat \<Rightarrow> bytes) \<Rightarrow> nat \<Rightarrow> message list \<Rightarrow> NetSocket \<Rightarrow> NetSocket" where
  "send_messages junk n [] sk = sk"
| "send_messages junk n (m # ms) sk = send_messages junk (Suc n) ms (send_message (junk n) m sk)"

text \<open>The two directions of a socket do not disturb each other.\<close>

definition same_in :: "NetSocket \<Rightarrow> NetSocket \<Rightarrow> bool" where
  "same_in a b \<longleftrightarrow> sk_valid a = sk_valid b \<and> sk_recv a = sk_recv b"

definition same_out :: "NetSocket \<Rightarrow> NetSocket \<Rightarrow> bool" where
  "same_out a b \<longleftrightarrow> sk_valid a = sk_valid b \<and> sk_sent a = sk_sent b \<and> sk_send a = sk_send b"

lemma recv_exact_parts:
  "same_in a b \<Longrightarrow> fst (recv_exact n a) = fst (recv_exact n b) \<and> same_in (snd (recv_exact n a)) (snd (recv_exact n b))"
  by (auto simp: same_in_def recv_exact_def case_prod_beta)

lemma recv_exact_out: "same_out (snd (recv_exact n a)) a"
  by (auto simp: same_out_def recv_exact_def case_prod_beta)

lemma sock_recv_frame_parts:
  assumes "same_in a b"
  shows "fst (sock_recv_frame a) = fst (sock_recv_frame b) \<and> same_in (snd (sock_recv_frame a)) (snd (sock_recv_frame b))"
proof -
  obtain x ta where ra: "recv_exact kFrameHeaderSize a = (x, ta)" by fastforce
  obtain y tb where rb: "recv_exact kFrameHeaderSize b = (y, tb)" by fastforce
  have xy: "y = x" and t: "same_in ta tb" using recv_exact_parts [OF assms, of kFrameHeaderSize] ra rb by auto
  show ?thesis
  proof (cases x)
    case (Inl e)
    then show ?thesis using ra rb xy t by (simp add: sock_recv_frame_def)
  next
    case (Inr buf)
    obtain u h where u: "unpack_header buf = (u, h)" by fastforce
    let ?n = "unat (fh_payload_len h)"
    obtain p ua where pa: "recv_exact ?n ta = (p, ua)" by fastforce
    obtain q ub where pb: "recv_exact ?n tb = (q, ub)" by fastforce
    have "q = p" "same_in ua ub" using recv_exact_parts [OF t, of ?n] pa pb by auto
    then show ?thesis using ra rb xy t Inr u pa pb by (cases p) (simp_all add: sock_recv_frame_def)
  qed
qed

lemma sock_recv_frame_out: "same_out (snd (sock_recv_frame a)) a"
proof -
  obtain x t where r: "recv_exact kFrameHeaderSize a = (x, t)" by fastforce
  have t: "same_out t a" using recv_exact_out [of kFrameHeaderSize a] r by simp
  have deep: "same_out (snd (recv_exact n t)) a" for n
    using recv_exact_out [of n t] t by (simp add: same_out_def)
  show ?thesis
    using r t deep by (auto simp: sock_recv_frame_def split: sum.split prod.split) (metis snd_conv)+
qed

lemma next_message_in:
  assumes "same_in a b"
  shows "fst (next_message a) = fst (next_message b) \<and> same_in (snd (next_message a)) (snd (next_message b))"
  using sock_recv_frame_parts [OF assms] by (auto simp: next_message_def split: prod.split sum.split)

lemma next_message_out: "next_message a = (m, t) \<Longrightarrow> same_out t a"
  using sock_recv_frame_out [of a] by (auto simp: next_message_def split: prod.splits sum.splits)

lemma received_in: "same_in a b \<Longrightarrow> received a = received b"
proof (induction a arbitrary: b rule: received.induct)
  case (1 a)
  obtain m ta where na: "next_message a = (m, ta)" by fastforce
  obtain m' tb where nb: "next_message b = (m', tb)" by fastforce
  have same: "m' = m" "same_in ta tb" using next_message_in [OF "1.prems"] na nb by auto
  show ?case
  proof (cases m)
    case None
    then show ?thesis using na nb same by (simp add: received.simps [of a] received.simps [of b])
  next
    case (Some frm)
    then show ?thesis
      using "1.IH" [OF na [symmetric] Some same(2)] na nb same by (simp add: received.simps [of a] received.simps [of b])
  qed
qed

lemma send_all_in: "same_in (snd (send_all data s)) s"
  by (auto simp: same_in_def send_all_def case_prod_beta)

lemma send_all_out:
  "same_out a b \<Longrightarrow> fst (send_all data a) = fst (send_all data b) \<and> same_out (snd (send_all data a)) (snd (send_all data b))"
  by (auto simp: same_out_def send_all_def case_prod_beta)

lemma send_message_in: "same_in (send_message j m s) s"
proof -
  obtain ty corr body where m: "m = (ty, corr, body)" by (cases m)
  have two: "same_in (snd (send_all y (snd (send_all x s)))) s" for x y
    using send_all_in [of x s] send_all_in [of y "snd (send_all x s)"] by (simp add: same_in_def)
  show ?thesis
    using two send_all_in
    by (auto simp: m send_message_def send_frame_def sock_send_frame_def Let_def case_prod_beta)
qed

lemma send_message_out: "same_out a b \<Longrightarrow> same_out (send_message j m a) (send_message j m b)"
proof -
  assume ab: "same_out a b"
  obtain ty corr body where m: "m = (ty, corr, body)" by (cases m)
  have two: "same_out (snd (send_all y (snd (send_all x a)))) (snd (send_all y (snd (send_all x b))))" for x y
    using send_all_out [OF ab, of x] send_all_out [of "snd (send_all x a)" "snd (send_all x b)" y] by simp
  show ?thesis
    using two send_all_out [OF ab]
    by (auto simp: m send_message_def send_frame_def sock_send_frame_def Let_def case_prod_beta)
qed

lemma send_messages_out: "same_out a b \<Longrightarrow> same_out (send_messages junk n ms a) (send_messages junk n ms b)"
  by (induction ms arbitrary: n a b) (auto intro: send_message_out)

text \<open>A received frame leaves the rest of the frames and the sending side.\<close>

lemma received_next:
  "next_message a = (None, t) \<Longrightarrow> received a = []"
  "next_message a = (Some frm, t) \<Longrightarrow> received a = frm # received t"
  by (simp_all add: received.simps [of a])

lemma received_after_send: "received (send_message j m t) = received t"
  by (rule received_in [OF send_message_in])

text \<open>A stream of whole frames within the limit delivers these frames, however it is cut.\<close>

lemma received_stream:
  assumes "list_all frame_fits fs" and "listening evs sk" and "stream_of evs = frames_stream fs"
  shows "received sk = map snd fs"
  using assms
proof (induction fs arbitrary: evs sk)
  case Nil
  have "evs = []" using Nil.prems(2,3) by (cases evs rule: stream_of.cases) (auto simp: listening_def frames_stream_def)
  then have "sk_recv sk = []" "sk_valid sk" using Nil.prems(2) by (auto simp: listening_def)
  then have "\<exists>t. next_message sk = (None, t)"
    by (simp add: next_message_def sock_recv_frame_def recv_exact_def kFrameHeaderSize_def)
  then show ?case using received_next(1) by auto
next
  case (Cons f fs)
  obtain j ty c p where f: "f = (j, ty, c, p)" by (cases f)
  have fits: "length p \<le> 16 * 1024 * 1024" "length j = 4" using Cons.prems(1) by (simp_all add: f frame_fits_def)
  have later: "list_all frame_fits fs" using Cons.prems(1) by simp
  have stream: "stream_of evs = frame_bytes j ty c p @ frames_stream fs" using Cons.prems(3) by (simp add: frames_stream_def f)
  from recv_frame_bytes [OF fits Cons.prems(2) stream] obtain h t evs' where
    x: "sock_recv_frame sk = (Inr (h, p), t)" "fh_type h = ty" "fh_correlation h = c" "listening evs' t"
      "stream_of evs' = frames_stream fs" by blast
  then have "next_message sk = (Some (ty, c, p), t)" by (simp add: next_message_def)
  then show ?case using received_next(2) Cons.IH [OF later x(4,5)] by (simp add: f)
qed

section \<open>Traces\<close>

text \<open>What a step answers, and the runs of the state machine with their events and answers.\<close>

primrec event_replies :: "platform \<Rightarrow> coord_event \<Rightarrow> Coordinator \<Rightarrow> message list" where
  "event_replies pf (EvFirst cid frm) s =
     (case reply_message (fst (dispatch cid frm s)) of None \<Rightarrow> [] | Some m \<Rightarrow> [m])"
| "event_replies pf (EvAgent cid frm) s =
     (case co_conns s cid of None \<Rightarrow> [] | Some c \<Rightarrow> [fst (handle_agent cid c frm s)])"
| "event_replies pf (EvAgentGone cid) s = []"
| "event_replies pf (EvClient now frm) s = [fst (handle_client_frame pf now frm s)]"
| "event_replies pf (EvAdmin op) s = []"

inductive coord_trace :: "platform \<Rightarrow> Coordinator \<Rightarrow> coord_event list \<Rightarrow> message list \<Rightarrow> Coordinator \<Rightarrow> bool" for pf where
  trace_nil: "coord_trace pf s [] [] s"
| trace_cons: "coord_step pf ev s t \<Longrightarrow> coord_trace pf t evs out u
    \<Longrightarrow> coord_trace pf s (ev # evs) (event_replies pf ev s @ out) u"

inductive_cases trace_nilE: "coord_trace pf s [] out t"
inductive_cases trace_consE: "coord_trace pf s (ev # evs) out t"

lemma coord_trace_steps: "coord_trace pf s evs out t \<Longrightarrow> coord_steps pf s t"
  by (induction rule: coord_trace.induct) (auto intro: coord_steps.begun coord_step_first)

text \<open>What the service of a connection does with the frames it receives: the client's first frame, which \<open>dispatch\<close> only
  looks at, is handled as a request; a client's frames count up to the first shutdown; an agent's end with its loss.\<close>

definition asks_shutdown :: "message \<Rightarrow> bool" where
  "asks_shutdown frm \<longleftrightarrow> wire_of_value (fst frm) = WireType_Shutdown"

fun up_to_shutdown :: "message list \<Rightarrow> message list" where
  "up_to_shutdown [] = []"
| "up_to_shutdown (frm # frms) = frm # (if asks_shutdown frm then [] else up_to_shutdown frms)"

primrec client_events :: "(nat \<Rightarrow> i64) \<Rightarrow> nat \<Rightarrow> message list \<Rightarrow> coord_event list" where
  "client_events clk n [] = []"
| "client_events clk n (frm # frms) = EvClient (clk n) frm # client_events clk (Suc n) frms"

definition connection_events :: "(nat \<Rightarrow> i64) \<Rightarrow> nat \<Rightarrow> Coordinator \<Rightarrow> message list \<Rightarrow> coord_event list" where
  "connection_events clk cid s frames =
     (case frames of
        [] \<Rightarrow> []
      | frm # rest \<Rightarrow> EvFirst cid frm #
          (case fst (dispatch cid frm s) of
             AgentJoined _ \<Rightarrow> map (EvAgent cid) rest @ [EvAgentGone cid]
           | ClientJoined \<Rightarrow> client_events clk 0 (up_to_shutdown (frm # rest))
           | _ \<Rightarrow> []))"

section \<open>The agent's loop\<close>

definition at_table :: "nat \<Rightarrow> AgentConn \<Rightarrow> Coordinator \<Rightarrow> bool" where
  "at_table cid c s \<longleftrightarrow> co_conns s cid = Some c \<and> om_find (co_agents s) (ac_id c) = Some cid \<and> ac_alive c"

text \<open>What the service of an agent leaves: this connection fenced, the epoch rolled once, all else as it was.\<close>

definition fenced_at :: "nat \<Rightarrow> Coordinator \<Rightarrow> Coordinator \<Rightarrow> bool" where
  "fenced_at cid s s' \<longleftrightarrow>
     (\<exists>c. co_conns s' = (co_conns s)(cid \<mapsto> c) \<and> \<not> ac_alive c \<and> om_find (co_agents s') (ac_id c) = Some cid) \<and> co_epoch s' = id_next (co_epoch s)
     \<and> co_agents s' = co_agents s \<and> co_engine s' = co_engine s"

lemma agent_frame_keeps:
  assumes "at_table cid c s"
  obtains c1 where "at_table cid c1 (snd (handle_agent cid c frm s))"
    and "co_conns (snd (handle_agent cid c frm s)) = (co_conns s)(cid \<mapsto> c1)"
    and "co_epoch (snd (handle_agent cid c frm s)) = co_epoch s" "co_agents (snd (handle_agent cid c frm s)) = co_agents s"
      "co_engine (snd (handle_agent cid c frm s)) = co_engine s"
proof (cases rule: handle_agent_cases [of cid c frm s])
  case same
  then show thesis using that [of c] assms by (auto simp: at_table_def fun_upd_idem)
next
  case (accepted epoch_val snap)
  then show thesis
    using that [of "c\<lparr>ac_snapshot := snap, ac_capacity_generation := id_value (snap_generation snap)\<rparr>"] assms
    by (simp add: at_table_def)
qed

lemma lost_at_table:
  "at_table cid c s \<Longrightarrow> on_agent_loss (ac_id c) s
     = s\<lparr>co_conns := (co_conns s)(cid \<mapsto> c\<lparr>ac_alive := False\<rparr>), co_epoch := id_next (co_epoch s)\<rparr>"
  by (simp add: at_table_def on_agent_loss_def)

lemma serve_agent_trace:
  "at_table cid c s \<Longrightarrow> serve_agent junk n cid c sk s = (sk', s') \<Longrightarrow>
     \<exists>out. coord_trace pf s (map (EvAgent cid) (received sk) @ [EvAgentGone cid]) out s'
       \<and> same_out sk' (send_messages junk n out sk) \<and> fenced_at cid s s'"
proof (induction junk n cid c sk s arbitrary: sk' s' rule: serve_agent.induct)
  case (1 junk n cid c sk s)
  obtain m t where msg: "next_message sk = (m, t)" by (cases "next_message sk")
  show ?case
  proof (cases m)
    case None
    have step: "coord_step pf (EvAgentGone cid) s (on_agent_loss (ac_id c) s)"
      using "1.prems"(1) by (auto simp: coord_step_simps at_table_def)
    have fin: "sk' = t" "s' = on_agent_loss (ac_id c) s"
      using "1.prems"(2) msg None by (simp_all add: serve_agent.simps [of junk n cid c sk s])
    have "coord_trace pf s [EvAgentGone cid] (event_replies pf (EvAgentGone cid) s @ []) s'"
      unfolding fin(2) by (rule trace_cons [OF step trace_nil])
    moreover have "received sk = []" using received_next(1) msg None by simp
    moreover have "same_out sk' (send_messages junk n [] sk)" using next_message_out [OF msg] fin(1) by simp
    moreover have "fenced_at cid s s'"
      using "1.prems"(1) unfolding fin(2)
      by (auto simp: lost_at_table fenced_at_def at_table_def intro!: exI [of _ "c\<lparr>ac_alive := False\<rparr>"])
    ultimately show ?thesis by (intro exI [of _ "[]"]) simp
  next
    case (Some frm)
    obtain reply s1 where h: "handle_agent cid c frm s = (reply, s1)" by (cases "handle_agent cid c frm s")
    obtain c1 where c1: "at_table cid c1 s1" "co_conns s1 = (co_conns s)(cid \<mapsto> c1)" "co_epoch s1 = co_epoch s"
        "co_agents s1 = co_agents s" "co_engine s1 = co_engine s"
      using agent_frame_keeps [OF "1.prems"(1), of frm] h by auto
    have here: "co_conns s cid = Some c" using "1.prems"(1) by (simp add: at_table_def)
    have step: "coord_step pf (EvAgent cid frm) s s1"
      using here h by (cases reply) (auto simp: coord_step_simps)
    let ?t = "send_message (junk n) reply t"
    have rest: "serve_agent junk (Suc n) cid c1 ?t s1 = (sk', s')"
      using "1.prems"(2) msg Some h c1(2) by (simp add: serve_agent.simps [of junk n cid c sk s])
    have IH: "\<exists>out. coord_trace pf s1 (map (EvAgent cid) (received ?t) @ [EvAgentGone cid]) out s'
        \<and> same_out sk' (send_messages junk (Suc n) out ?t) \<and> fenced_at cid s1 s'"
      using "1.IH" [OF msg [symmetric] Some h [symmetric]] c1(1,2) rest by simp
    then obtain out where out: "coord_trace pf s1 (map (EvAgent cid) (received ?t) @ [EvAgentGone cid]) out s'"
      "same_out sk' (send_messages junk (Suc n) out ?t)" "fenced_at cid s1 s'" by blast
    have frames: "received sk = frm # received ?t"
      using received_next(2) msg Some received_after_send by simp
    have "same_out (send_messages junk (Suc n) out ?t) (send_messages junk n (reply # out) sk)"
      using send_messages_out [OF send_message_out [OF next_message_out [OF msg]]] by simp
    then have "same_out sk' (send_messages junk n (reply # out) sk)" using out(2) by (simp add: same_out_def)
    moreover have "coord_trace pf s (map (EvAgent cid) (received sk) @ [EvAgentGone cid]) (reply # out) s'"
      using trace_cons [OF step out(1)] here h frames by simp
    moreover have "fenced_at cid s s'" using out(3) c1 by (auto simp: fenced_at_def)
    ultimately show ?thesis by blast
  qed
qed

lemma serve_agent_fences: "at_table cid c s \<Longrightarrow> fenced_at cid s (snd (serve_agent junk n cid c sk s))"
  using serve_agent_trace [where pf = demo_platform, OF _ prod.collapse [symmetric]] by blast

section \<open>The client's loop\<close>

lemma client_goes_on: "handle_client_frame pf now frm s = (reply, goes_on, s1) \<Longrightarrow> goes_on \<longleftrightarrow> \<not> asks_shutdown frm"
  by (cases frm; cases "wire_of_value (fst frm)")
    (auto simp: handle_client_frame_def asks_shutdown_def Let_def split: prod.splits sum.splits)

lemma serve_client_trace:
  "serve_client pf clk junk n frm sk s = (sk', s') \<Longrightarrow>
     \<exists>out. coord_trace pf s (client_events clk n (up_to_shutdown (frm # received sk))) out s'
       \<and> same_out sk' (send_messages junk n out sk) \<and> (\<exists>e. s' = s\<lparr>co_engine := e\<rparr>)"
proof (induction pf clk junk n frm sk s arbitrary: sk' s' rule: serve_client.induct)
  case (1 pf clk junk n frm sk s)
  obtain reply goes_on s1 where h: "handle_client_frame pf (clk n) frm s = (reply, goes_on, s1)"
    using prod_cases3 by blast
  have step: "coord_step pf (EvClient (clk n) frm) s s1" using h by (cases reply) (auto simp: coord_step_simps)
  have replies: "event_replies pf (EvClient (clk n) frm) s = [reply]" using h by simp
  have s1: "\<exists>e. s1 = s\<lparr>co_engine := e\<rparr>" using client_frame_engine [of pf "clk n" frm s] h by auto
  let ?t = "send_message (junk n) reply sk"
  obtain m u where msg: "next_message ?t = (m, u)" by (cases "next_message ?t")
  have frames: "received sk = received ?t" by (simp add: received_after_send)
  show ?case
  proof (cases "goes_on \<and> m \<noteq> None")
    case False
    then have fin: "s' = s1" "same_out sk' ?t"
      using "1.prems" h msg next_message_out [OF msg]
      by (cases m; auto simp: serve_client.simps [of pf clk junk n frm sk s] Let_def same_out_def split: if_splits)+
    have only: "up_to_shutdown (frm # received sk) = [frm]"
      using False client_goes_on [OF h] frames received_next(1) msg by (cases m) auto
    have "coord_trace pf s [EvClient (clk n) frm] (event_replies pf (EvClient (clk n) frm) s @ []) s'"
      unfolding fin(1) by (rule trace_cons [OF step trace_nil])
    then have "coord_trace pf s (client_events clk n (up_to_shutdown (frm # received sk))) [reply] s'"
      unfolding only replies by simp
    then show ?thesis using fin s1 by (intro exI [of _ "[reply]"]) simp
  next
    case True
    then obtain frm1 where m: "m = Some frm1" by auto
    have rest: "serve_client pf clk junk (Suc n) frm1 u s1 = (sk', s')"
      using "1.prems" h msg m True by (simp add: serve_client.simps [of pf clk junk n frm sk s] Let_def)
    from "1.IH" [OF h [symmetric] refl refl _ msg [symmetric] m rest] True obtain out where
      out: "coord_trace pf s1 (client_events clk (Suc n) (up_to_shutdown (frm1 # received u))) out s'"
        "same_out sk' (send_messages junk (Suc n) out u)" "\<exists>e. s' = s1\<lparr>co_engine := e\<rparr>" by auto
    have "received sk = frm1 # received u" using frames received_next(2) msg m by simp
    then have "up_to_shutdown (frm # received sk) = frm # up_to_shutdown (frm1 # received u)"
      using True client_goes_on [OF h] by simp
    then have "coord_trace pf s (client_events clk n (up_to_shutdown (frm # received sk))) (reply # out) s'"
      using trace_cons [OF step out(1)] replies by simp
    moreover have "same_out sk' (send_messages junk n (reply # out) sk)"
      using send_messages_out [OF next_message_out [OF msg], of junk "Suc n" out] out(2) by (simp add: same_out_def)
    ultimately show ?thesis using out(3) s1 by (intro exI [of _ "reply # out"]) auto
  qed
qed

section \<open>A connection\<close>

lemma dispatch_results:
  "case dispatch cid frm s of (res, s1) \<Rightarrow>
     (case res of AgentJoined m \<Rightarrow> (\<exists>g. s1 = joined cid g s) | _ \<Rightarrow> s1 = s)"
proof -
  obtain ty corr payload where frm: "frm = (ty, corr, payload)" by (cases frm)
  obtain x r where x: "decode_register (byte_reader payload) = (x, r)" by (cases "decode_register (byte_reader payload)")
  show ?thesis
    by (cases "ty = wire_value WireType_RegisterAgent"; cases x)
      (auto simp: frm dispatch_def x joined_def simp del: wire_value.simps)
qed

lemma served_trace:
  assumes "co_conns s cid = None" and "serve_connection pf clk junk cid sk s = (sk', s')"
  shows "\<exists>out. coord_trace pf s (connection_events clk cid s (received sk)) out s'
     \<and> same_out sk' (send_messages junk 0 out sk)"
proof -
  obtain m t where msg: "next_message sk = (m, t)" by (cases "next_message sk")
  note out_t = next_message_out [OF msg]
  show ?thesis
  proof (cases m)
    case None
    then have "sk' = t" "s' = s" "received sk = []" using assms(2) msg received_next(1) by (auto simp: serve_connection_def)
    then show ?thesis using out_t by (intro exI [of _ "[]"]) (auto simp: connection_events_def intro: trace_nil)
  next
    case (Some frm)
    obtain res s1 where d: "dispatch cid frm s = (res, s1)" by (cases "dispatch cid frm s")
    have first: "coord_step pf (EvFirst cid frm) s s1" using assms(1) d by (auto simp: coord_step_simps)
    have frames: "received sk = frm # received t" using received_next(2) msg Some by simp
    have serves: "\<exists>out. coord_trace pf s (connection_events clk cid s (received sk)) out s'
        \<and> same_out sk' (send_messages junk 0 out sk)"
      if "coord_trace pf s1 evs out s'" "connection_events clk cid s (received sk) = EvFirst cid frm # evs"
        "same_out sk' (send_messages junk 0 (event_replies pf (EvFirst cid frm) s @ out) sk)" for evs out
      using trace_cons [OF first that(1)] that(2,3) by auto
    show ?thesis
    proof (cases res)
      case Dropped
      then have "s' = s1" "sk' = t" using assms(2) msg Some d by (auto simp: serve_connection_def)
      then show ?thesis
        using serves [of "[]" "[]"] trace_nil out_t Dropped d frames by (simp add: connection_events_def reply_message_def)
    next
      case (Refused x)
      then have "s' = s1" "sk' = send_message (junk 0) x t" using assms(2) msg Some d by (auto simp: serve_connection_def)
      then show ?thesis
        using serves [of "[]" "[]"] trace_nil send_message_out [OF out_t] Refused d frames
        by (simp add: connection_events_def reply_message_def)
    next
      case (AgentJoined x)
      then obtain g where g: "s1 = joined cid g s" using d dispatch_results [where cid = cid and frm = frm and s = s] by auto
      let ?c = "\<lparr>ac_id = rg_agent g, ac_boot = rg_boot g, ac_snapshot = default_snapshot, ac_registered = True,
          ac_alive = True, ac_capacity_generation = 0\<rparr>"
      have c: "at_table cid ?c s1" by (simp add: g joined_def at_table_def om_find_put_same)
      let ?t = "send_message (junk 0) x t"
      have "serve_agent junk 1 cid ?c ?t s1 = (sk', s')"
        using c assms(2) msg Some d AgentJoined by (simp add: serve_connection_def at_table_def)
      from serve_agent_trace [OF c this, of pf] obtain out where
        out: "coord_trace pf s1 (map (EvAgent cid) (received ?t) @ [EvAgentGone cid]) out s'"
          "same_out sk' (send_messages junk 1 out ?t)" by blast
      have "same_out sk' (send_messages junk 0 (x # out) sk)"
        using send_messages_out [OF send_message_out [OF out_t], of junk 1 out "junk 0" x] out(2) by (simp add: same_out_def)
      then show ?thesis
        using serves [OF out(1)] AgentJoined d frames received_after_send by (simp add: connection_events_def reply_message_def)
    next
      case ClientJoined
      then have s1: "s1 = s" using d dispatch_results [where cid = cid and frm = frm and s = s] by auto
      have "serve_client pf clk junk 0 frm t s = (sk', s')"
        using assms(2) msg Some d ClientJoined s1 by (simp add: serve_connection_def)
      from serve_client_trace [OF this] obtain out where
        out: "coord_trace pf s (client_events clk 0 (up_to_shutdown (frm # received t))) out s'"
          "same_out sk' (send_messages junk 0 out t)" by blast
      have "same_out sk' (send_messages junk 0 out sk)"
        using send_messages_out [OF out_t, of junk 0 out] out(2) by (simp add: same_out_def)
      then show ?thesis
        using serves [OF out(1) [folded s1]] ClientJoined d frames by (simp add: connection_events_def reply_message_def)
    qed
  qed
qed

lemma served_table:
  assumes "co_conns s cid = None" and "serve_connection pf clk junk cid sk s = (sk', s')"
  shows "(\<forall>k. k = cid \<or> co_conns s' k = co_conns s k)
    \<and> (case co_conns s' cid of
         None \<Rightarrow> co_epoch s' = co_epoch s \<and> co_agents s' = co_agents s
       | Some c \<Rightarrow> \<not> ac_alive c \<and> co_epoch s' = id_next (co_epoch s) \<and> co_engine s' = co_engine s
           \<and> om_find (co_agents s') (ac_id c) = Some cid)"
proof -
  obtain m t where msg: "next_message sk = (m, t)" by (cases "next_message sk")
  show ?thesis
  proof (cases m)
    case None
    then show ?thesis using assms msg by (simp add: serve_connection_def)
  next
    case (Some frm)
    obtain res s1 where d: "dispatch cid frm s = (res, s1)" by (cases "dispatch cid frm s")
    note res = dispatch_results [where cid = cid and frm = frm and s = s, unfolded d]
    show ?thesis
    proof (cases res)
      case (AgentJoined x)
      then obtain g where g: "s1 = joined cid g s" using res by auto
      let ?c = "\<lparr>ac_id = rg_agent g, ac_boot = rg_boot g, ac_snapshot = default_snapshot, ac_registered = True,
          ac_alive = True, ac_capacity_generation = 0\<rparr>"
      have c: "at_table cid ?c s1" by (simp add: g joined_def at_table_def om_find_put_same)
      then have "fenced_at cid s1 s'"
        using serve_agent_fences [OF c, of junk 1 "send_message (junk 0) x t"] assms(2) msg Some d AgentJoined
        by (simp add: serve_connection_def at_table_def)
      then obtain c1 where "co_conns s' = (co_conns s)(cid \<mapsto> c1)" "\<not> ac_alive c1"
          "om_find (co_agents s') (ac_id c1) = Some cid" "co_epoch s' = id_next (co_epoch s)" "co_engine s' = co_engine s"
        by (auto simp: fenced_at_def g joined_def)
      then show ?thesis by simp
    next
      case ClientJoined
      then have "serve_client pf clk junk 0 frm t s = (sk', s')"
        using assms(2) msg Some d res by (simp add: serve_connection_def)
      from serve_client_trace [OF this] show ?thesis using assms(1) by auto
    qed (use assms msg Some d res in \<open>auto simp: serve_connection_def\<close>)
  qed
qed

text \<open>C12: the service of one connection is a run of the coordinator's state machine from the state at its start to the
  state at its end, whose events are exactly the frames that the socket delivers (up to the failed receive): the first
  frame; then nothing, if \<open>dispatch\<close> drops or refuses it; every later frame as the agent's and at the end its loss, if it
  registered an agent; or this frame and the later ones up to the first shutdown as the client's, in order. The bytes
  sent are the replies of these events in this order, whatever the send calls do. So a reachable state ends in a reachable
  one; other connections keep their records, and an agent's record is fenced when its service ends.\<close>

theorem serving_refines_steps:
  assumes "co_conns s cid = None" and "serve_connection pf clk junk cid sk s = (sk', s')"
  shows "accept_and_handle_once pf clk junk cid (Some sk) s = (status_success, s')
    \<and> accept_and_handle_once pf clk junk cid None s = (accept_failed, s)
    \<and> (\<exists>out. coord_trace pf s (connection_events clk cid s (received sk)) out s'
         \<and> sk_sent sk' = sk_sent (send_messages junk 0 out sk))
    \<and> (coord_reachable pf s \<longrightarrow> coord_reachable pf s')
    \<and> (\<forall>k. k = cid \<or> co_conns s' k = co_conns s k)
    \<and> (case co_conns s' cid of
         None \<Rightarrow> co_epoch s' = co_epoch s \<and> co_agents s' = co_agents s
       | Some c \<Rightarrow> \<not> ac_alive c \<and> co_epoch s' = id_next (co_epoch s) \<and> co_engine s' = co_engine s
           \<and> om_find (co_agents s') (ac_id c) = Some cid)"
proof -
  have once: "accept_and_handle_once pf clk junk cid (Some sk) s = (status_success, s')"
    "accept_and_handle_once pf clk junk cid None s = (accept_failed, s)"
    using assms(2) by (simp_all add: accept_and_handle_once_def)
  from served_trace [OF assms] obtain out where
    run: "coord_trace pf s (connection_events clk cid s (received sk)) out s'"
    and sent: "same_out sk' (send_messages junk 0 out sk)" by blast
  have "coord_reachable pf s \<longrightarrow> coord_reachable pf s'" using coord_steps_trans [OF coord_trace_steps [OF run]] by blast
  then show ?thesis
    using once run sent served_table [OF assms] by (auto simp: same_out_def)
qed

text \<open>An agent registers, its connection breaks: the coordinator ends with the agent fenced and the next epoch.\<close>

theorem serving_refines_steps_witness:
  "let sk = ag_sock (demo_agent (frame_bytes [1, 2, 3, 4] (wire_value WireType_RegisterAgent) 0 (encode_register demo_registration)));
       (sk', s') = serve_connection demo_platform (\<lambda>_. 0) (\<lambda>_. [0, 0, 0, 0]) 0 sk (coordinator_start fabric_empty)
     in coord_reachable demo_platform s' \<and> co_epoch s' = Id 2
       \<and> received sk = [(wire_value WireType_RegisterAgent, 0, encode_register demo_registration)]"
proof -
  let ?body = "encode_register demo_registration"
  let ?stream = "frame_bytes [1, 2, 3, 4] (wire_value WireType_RegisterAgent) 0 ?body"
  let ?sk = "ag_sock (demo_agent ?stream)" and ?s = "coordinator_start fabric_empty"
  have "9 < length ?stream" by (simp add: frame_bytes_length)
  note sock = demo_agent_sock [OF this]
  have body: "length ?body \<le> 16 * 1024 * 1024"
    by (simp add: encode_register_def demo_registration_def put_words_le put_string_def put_raw_def put_id_def
        encode_capabilities_def put_stringvec_def encode_resource_vector_def resource_ids_def)
  let ?frame = "([1, 2, 3, 4], wire_value WireType_RegisterAgent, 0, ?body) :: sent_frame"
  have fits: "list_all frame_fits [?frame]" using body by (simp add: frame_fits_def)
  have "listening (sk_recv ?sk) ?sk" using sock by (simp add: listening_def)
  from received_stream [OF fits this] sock(5)
  have frames: "received ?sk = [(wire_value WireType_RegisterAgent, 0, ?body)]" by (simp add: frames_stream_def)
  have free: "\<not> boot_conflict demo_registration ?s"
    by (simp add: boot_conflict_def agent_conn_def coordinator_start_def)
  obtain x where disp: "dispatch 0 (wire_value WireType_RegisterAgent, 0, ?body) ?s = (AgentJoined x, joined 0 demo_registration ?s)"
    using free by (simp add: dispatch_register [OF demo_registration_valid] del: wire_value.simps)
  obtain sk' s' where run: "serve_connection demo_platform (\<lambda>_. 0) (\<lambda>_. [0, 0, 0, 0]) 0 ?sk ?s = (sk', s')" by fastforce
  have start: "co_conns ?s 0 = None" "co_epoch ?s = Id 1" by (simp_all add: coordinator_start_def)
  note end_state = serving_refines_steps [OF start(1) run]
  from end_state obtain out where
    "coord_trace demo_platform ?s [EvFirst 0 (wire_value WireType_RegisterAgent, 0, ?body), EvAgentGone 0] out s'"
    unfolding frames connection_events_def using disp by auto
  then obtain s1 where s1: "coord_step demo_platform (EvFirst 0 (wire_value WireType_RegisterAgent, 0, ?body)) ?s s1"
    "coord_step demo_platform (EvAgentGone 0) s1 s'"
    by (auto elim!: trace_consE trace_nilE)
  then have "s1 = joined 0 demo_registration ?s" using disp by (auto simp: coord_step_simps)
  then have "co_conns s' 0 \<noteq> None"
    using s1(2) by (auto simp: coord_step_simps on_agent_loss_def joined_def om_find_put_same)
  then have "co_epoch s' = Id 2" using end_state start(2) by (auto simp: id_next_def u64_max_def)
  moreover have "coord_reachable demo_platform s'" using end_state coord_steps.begun by blast
  ultimately show ?thesis unfolding Let_def run using frames by simp
qed

end
