(* ===== verification/Programs_Spec.thy ===== *)
theory Programs_Spec
  imports Programs Serving_Spec
begin

text \<open>
  What the agent program sends, the coordinator takes: its registration puts it in the table and its one capacity
  report makes it a choice for the requests of its backend.
\<close>

lemma program_caps_ok: "om_ok program_caps" "strings_ok (map fst program_caps)"
  by (simp_all add: program_caps_def cap_add_def cap_dtype_def cap_backend_def strings_ok_def string_ok_def)

lemma program_snapshot_encodable: "string_ok device \<Longrightarrow> snapshot_encodable (program_snapshot now rid boot vram device)"
  using program_caps_ok
  by (simp add: program_snapshot_def snapshot_encodable_def default_snapshot_def enum_canonical_def list_all_iff
      string_ok_def strings_ok_def pressure_enumerators_def provenance_enumerators_def)

lemma program_registration_valid:
  "string_ok device \<Longrightarrow> register_valid (agent_registration (program_agent rid boot vram device sk))"
  using program_caps_ok by (simp add: register_valid_def agent_registration_def program_agent_def)

lemma program_free_memory:
  "free_memory (c\<lparr>ac_snapshot := program_snapshot now rid boot vram device, ac_capacity_generation := g\<rparr>) = vram"
  by (simp add: free_memory_def snap_headroom_def program_snapshot_def program_inventory_def default_snapshot_def
      rv_sat_sub_def rv_zero_def sat_sub_def)

lemma program_caps_cover:
  assumes "d_backend d = [] \<or> d_backend d = ''cuda''" and "d_dtype d = [] \<or> d_dtype d = ''fp16''"
  shows "cap_contains_all program_caps (required_caps d)"
  using assms
  by (auto simp: required_caps_def program_caps_def cap_add_def cap_contains_all_def cap_contains_def cap_dtype_def
      cap_backend_def Let_def)

text \<open>The connection as the registration leaves it.\<close>

definition registered_conn :: "u64 \<Rightarrow> u64 \<Rightarrow> AgentConn" where
  "registered_conn rid boot = \<lparr>ac_id = Id rid, ac_boot = Id boot, ac_snapshot = default_snapshot, ac_registered = True,
     ac_alive = True, ac_capacity_generation = 0\<rparr>"

lemma program_joined:
  "joined cid (agent_registration (program_agent rid boot vram device sk)) s
     = s\<lparr>co_conns := (co_conns s)(cid \<mapsto> registered_conn rid boot), co_agents := om_put (Id rid) cid (co_agents s)\<rparr>"
  by (simp add: joined_def agent_registration_def program_agent_def registered_conn_def)

text \<open>The two frames of the agent program make its memory available: a coordinator without a live connection of
  another boot of that agent registers it, accepts the report with the epoch just given out, stays in a reachable
  state, and from then on chooses, for every request for the program's backend and number format, an agent with
  at least the memory that the program was started with.\<close>

theorem program_capacity_counts:
  assumes "string_ok device" and "coord_reachable pf s" and "co_conns s cid = None"
    and "\<not> boot_conflict (agent_registration (program_agent rid boot vram device sk)) s"
    and "dispatch cid (wire_value WireType_RegisterAgent, 0, encode_register (agent_registration (program_agent rid boot vram device sk))) s
           = (res, s1)"
    and "handle_agent cid (registered_conn rid boot) (wire_value WireType_CapacityUpdate, 0,
           put_u64 (id_value (co_epoch s)) @ encode_capacity_update (program_snapshot now rid boot vram device)) s1 = (reply, s2)"
    and "d_backend d = [] \<or> d_backend d = ''cuda''" and "d_dtype d = [] \<or> d_dtype d = ''fp16''"
  shows "res = AgentJoined (wire_value WireType_AgentRegistered, 0, put_u64 (id_value (co_epoch s)))
    \<and> reply = (wire_value WireType_CapacityAccepted, 0, put_u64 (boot * 1000 + 1)) \<and> coord_reachable pf s2
    \<and> (\<exists>b. choose_agent d s2 = Some b \<and> vram \<le> free_memory b)"
proof -
  let ?snap = "program_snapshot now rid boot vram device"
  let ?c = "registered_conn rid boot\<lparr>ac_snapshot := ?snap, ac_capacity_generation := boot * 1000 + 1\<rparr>"
  have reg: "res = AgentJoined (wire_value WireType_AgentRegistered, 0, put_u64 (id_value (co_epoch s)))"
      "s1 = s\<lparr>co_conns := (co_conns s)(cid \<mapsto> registered_conn rid boot), co_agents := om_put (Id rid) cid (co_agents s)\<rparr>"
    using assms(4,5) by (simp_all add: dispatch_register [OF program_registration_valid [OF assms(1)]] program_joined del: wire_value.simps)
  have table: "at_table cid (registered_conn rid boot) s1"
    by (simp add: at_table_def reg(2) om_find_put_same registered_conn_def)
  have ids: "snap_boot_id ?snap = Id boot" "snap_agent_id ?snap = Id rid" "snap_generation ?snap = Id (boot * 1000 + 1)"
    by (simp_all add: program_snapshot_def)
  have "capacity_refusal s1 (registered_conn rid boot) (id_value (co_epoch s)) ?snap = None"
    by (simp add: capacity_refusal_def ids reg(2) registered_conn_def)
  then have up: "reply = (wire_value WireType_CapacityAccepted, 0, put_u64 (boot * 1000 + 1))"
      "s2 = s1\<lparr>co_conns := (co_conns s1)(cid \<mapsto> ?c)\<rparr>"
    using assms(6) by (simp_all add: capacity_update_wire [OF program_snapshot_encodable [OF assms(1)]] ids del: wire_value.simps)
  have "coord_step pf (EvFirst cid (wire_value WireType_RegisterAgent, 0,
      encode_register (agent_registration (program_agent rid boot vram device sk)))) s s1"
    using assms(3,5) unfolding coord_step_simps by blast
  then have r1: "coord_reachable pf s1" using assms(2) by (blast intro: coord_steps.further)
  have "coord_step pf (EvAgent cid (wire_value WireType_CapacityUpdate, 0,
      put_u64 (id_value (co_epoch s)) @ encode_capacity_update ?snap)) s1 s2"
    using table assms(6) by (cases reply) (auto simp: coord_step_simps at_table_def simp del: wire_value.simps)
  with r1 have r2: "coord_reachable pf s2" by (blast intro: coord_steps.further)
  have cand: "candidate d s2 (Id rid) ?c"
    using program_caps_cover [OF assms(7,8)] table
    by (simp add: candidate_def agent_conn_def up(2) at_table_def usable_agent_def program_snapshot_def registered_conn_def)
  obtain b where b: "choose_agent d s2 = Some b"
    using choose_agent_None [OF coord_reachable_wf [OF r2]] cand by (cases "choose_agent d s2") blast+
  then have "vram \<le> free_memory b"
    using choose_agent_Some [OF coord_reachable_wf [OF r2] b] cand program_free_memory by metis
  with reg(1) up(1) r2 b show ?thesis by blast
qed

text \<open>A started coordinator and an agent with 24 GiB.\<close>

theorem program_capacity_counts_witness:
  "\<exists>s2 b. coord_reachable demo_platform s2 \<and> choose_agent (default_descriptor\<lparr>d_backend := ''cuda''\<rparr>) s2 = Some b
     \<and> push_bit 30 24 \<le> free_memory b"
proof -
  let ?s = "coordinator_start fabric_empty" and ?d = "default_descriptor\<lparr>d_backend := ''cuda''\<rparr>"
  let ?g = "agent_registration (program_agent 1 1 (push_bit 30 24) ''gpu'' (ag_sock (demo_agent [])))"
  obtain res s1 where first: "dispatch 0 (wire_value WireType_RegisterAgent, 0, encode_register ?g) ?s = (res, s1)" by fastforce
  obtain reply s2 where second: "handle_agent 0 (registered_conn 1 1) (wire_value WireType_CapacityUpdate, 0,
      put_u64 (id_value (co_epoch ?s)) @ encode_capacity_update (program_snapshot 0 1 1 (push_bit 30 24) ''gpu'')) s1 = (reply, s2)"
    by (metis prod.collapse)
  have "string_ok ''gpu''" "co_conns ?s 0 = None" "\<not> boot_conflict ?g ?s" "d_backend ?d = [] \<or> d_backend ?d = ''cuda''"
      "d_dtype ?d = [] \<or> d_dtype ?d = ''fp16''"
    by (simp_all add: string_ok_def coordinator_start_def boot_conflict_def agent_conn_def default_descriptor_def)
  from program_capacity_counts [OF this(1) coord_steps.begun this(2,3) first second this(4,5)] show ?thesis by blast
qed

end
