(* ===== verification/Examples.thy ===== *)
theory Examples
  imports Recovery Cuda_Backend Programs Codec
begin

text \<open>
  The programs under \<open>examples/\<close>: the shared engine of \<open>common.hpp\<close> and the scenarios that run on it. A program returns
  its output and its exit code, with 0 for the outcome it demonstrates. \<open>clk n\<close> is the \<open>n\<close>-th reading of the clock.
\<close>

section \<open>The shared helpers\<close>

definition afex_policy :: AdmissionPolicy where
  "afex_policy = default_policy\<lparr>p_name := ''example'', p_max_snapshot_age := seconds 60, p_require_reservation := True,
     p_safety_headroom_ratio := f64_lit 5 100\<rparr>"

definition afex_profile :: "ModelId \<Rightarrow> ModelRevision \<Rightarrow> PredictionProfile" where
  "afex_profile m rv = \<lparr>pp_model_id = m, pp_revision = rv, pp_backend = ''cuda'', pp_dtype = ''fp16'',
     pp_quantization = ''none'', pp_generation = 0, pp_fixed_base_memory = push_bit 30 1, pp_per_token_kv_bytes = 512,
     pp_per_token_tensor_bytes = 512, pp_per_request_overhead = push_bit 20 4, pp_workspace_bytes = push_bit 20 16,
     pp_staging_bytes = push_bit 20 32, pp_pinned_staging_bytes = push_bit 20 8,
     pp_safety_margin_ratio = f64_lit 10 100, pp_fragmentation_ratio = f64_lit 5 100,
     pp_prefill_tokens_per_sec = f64_nat 2000, pp_decode_tokens_per_sec = f64_nat 80,
     pp_transfer_bytes_per_sequence = 0, pp_transfer_bytes_per_sec = f64_zero, pp_host_memory_bytes = 0,
     pp_pinned_host_memory_bytes = 0, pp_execution_slots_required = 1, pp_sequence_slots_required = 1\<rparr>"

definition afex_snapshot :: "i64 \<Rightarrow> u64 \<Rightarrow> ResourceSnapshot" where
  "afex_snapshot now vram = default_snapshot\<lparr>snap_generation := Id 1, snap_timestamp := now, snap_agent_id := Id 1,
     snap_boot_id := Id 1, snap_node_name := ''example-node'',
     snap_total := rv_zero(AcceleratorMemory := vram, HostMemory := push_bit 30 8, PinnedHostMemory := push_bit 30 2,
       ExecutionSlots := 64, SequenceSlots := 256),
     snap_capabilities := cap_add (cap_compute_capability ''12.0'') (cap_add (cap_dtype ''fp16'') (cap_add (cap_backend ''cuda'') [])),
     snap_pressure := \<lambda>_. PressureLevel_Low, snap_provenance := \<lambda>_. Provenance_Measured\<rparr>"

definition afex_engine :: "i64 \<Rightarrow> u64 \<Rightarrow> AdmissionFabric" where
  "afex_engine now vram =
     set_snapshot (afex_snapshot now vram)
       (snd (fabric_register_profile (afex_profile (Id 7) (Id 1)) (snd (install_policy afex_policy fabric_empty))))"

definition afex_desc :: "u64 \<Rightarrow> u64 \<Rightarrow> u64 \<Rightarrow> u64 \<Rightarrow> AdmissionDescriptor" where
  "afex_desc rid inp outp tenant = default_descriptor\<lparr>d_admission_request_id := Id rid, d_request_id := Id (rid * 10 + 7),
     d_attempt_id := Id 1, d_tenant_id := Id tenant, d_model_id := Id 7, d_model_revision := Id 1,
     d_policy_generation := Id 1, d_input_tokens := inp, d_expected_output_tokens := outp, d_max_output_tokens := outp,
     d_backend := ''cuda'', d_dtype := ''fp16'', d_latency_class := LatencyClass_BestEffort\<rparr>"

section \<open>Scenarios on the engine\<close>

type_synonym program_result = "string \<times> int"

text \<open>Where the code takes \<open>value()\<close> of a result without asking, an error would be an exception, \<open>None\<close> here.\<close>

definition decided :: "AdmissionDecision Result \<times> AdmissionFabric \<Rightarrow> AdmissionDecision option" where
  "decided r = (case fst r of Inl _ \<Rightarrow> None | Inr dec \<Rightarrow> Some dec)"

definition exit_when :: "bool \<Rightarrow> int" where
  "exit_when b = (if b then 0 else 1)"

definition example_basic_admit :: "platform \<Rightarrow> (nat \<Rightarrow> i64) \<Rightarrow> program_result" where
  "example_basic_admit pf clk =
     (case decided (fabric_evaluate pf (clk 1) (afex_desc 1 1000 1000 1) (afex_engine (clk 0) (push_bit 30 8))) of
        None \<Rightarrow> ([], 1)
      | Some d \<Rightarrow>
          (''EXAMPLE basic-admit: outcome='' @ outcome_name (dec_outcome d) @ '' reason='' @ reason_code_name (dec_reason d)
           @ '' reservation='' @ (case dec_reservation_id d of Some r \<Rightarrow> id_str r | None \<Rightarrow> ''none'') @ newline,
           exit_when (is_admit d)))"

definition example_insufficient_vram :: "platform \<Rightarrow> (nat \<Rightarrow> i64) \<Rightarrow> program_result option" where
  "example_insufficient_vram pf clk =
     map_option (\<lambda>d. (''EXAMPLE insufficient-vram: outcome='' @ outcome_name (dec_outcome d) @ '' reason=''
         @ reason_code_name (dec_reason d) @ '' expl='' @ dec_explanation d @ newline, exit_when (is_defer d)))
       (decided (fabric_evaluate pf (clk 1) (afex_desc 2 2000 2000 1) (afex_engine (clk 0) (push_bit 20 1200))))"

definition example_hard_rejection :: "platform \<Rightarrow> (nat \<Rightarrow> i64) \<Rightarrow> program_result option" where
  "example_hard_rejection pf clk =
     map_option (\<lambda>d. (''EXAMPLE hard-rejection: reason='' @ reason_code_name (dec_reason d)
         @ '' expl='' @ dec_explanation d @ newline, exit_when (is_reject d)))
       (decided (fabric_evaluate pf (clk 1) ((afex_desc 3 1000 1000 1)\<lparr>d_backend := ''tpu'', d_dtype := ''bf16''\<rparr>)
          (afex_engine (clk 0) (push_bit 30 8))))"

definition example_quota_denial :: "platform \<Rightarrow> (nat \<Rightarrow> i64) \<Rightarrow> program_result option" where
  "example_quota_denial pf clk =
     (let q = (default_quota True)\<lparr>q_generation := 1, q_timestamp := clk 1,
                q_limits := rv_zero(AcceleratorMemory := push_bit 30 4), q_token_budget := 500\<rparr> in
      map_option (\<lambda>d. (''EXAMPLE quota-denial: reason='' @ reason_code_name (dec_reason d)
          @ '' expl='' @ dec_explanation d @ newline, exit_when (is_reject d)))
        (decided (fabric_evaluate pf (clk 2) (afex_desc 4 1000 1000 1) (set_quota q (afex_engine (clk 0) (push_bit 30 8))))))"

definition example_token_budget :: "platform \<Rightarrow> (nat \<Rightarrow> i64) \<Rightarrow> program_result option" where
  "example_token_budget pf clk =
     (let q = (default_quota True)\<lparr>q_timestamp := clk 1, q_token_budget := 5000\<rparr> in
      map_option (\<lambda>d. (''EXAMPLE token-budget: outcome='' @ outcome_name (dec_outcome d)
          @ '' reason='' @ reason_code_name (dec_reason d) @ newline, exit_when (is_admit d)))
        (decided (fabric_evaluate pf (clk 2) ((afex_desc 5 1000 1000 1)\<lparr>d_max_output_tokens := 2000\<rparr>)
           (set_quota q (afex_engine (clk 0) (push_bit 30 8))))))"

definition example_slo_infeasible :: "platform \<Rightarrow> (nat \<Rightarrow> i64) \<Rightarrow> program_result option" where
  "example_slo_infeasible pf clk =
     map_option (\<lambda>d. (''EXAMPLE slo-infeasible: reason='' @ reason_code_name (dec_reason d)
         @ '' slo='' @ slo_verdict_name (slo_verdict (dec_slo d)) @ newline, exit_when (is_reject d)))
       (decided (fabric_evaluate pf (clk 1) ((afex_desc 6 1000 100000 1)\<lparr>d_deadline := Some (milliseconds 20)\<rparr>)
          (afex_engine (clk 0) (push_bit 30 8))))"

section \<open>Scenarios on the reservation manager\<close>

definition example_atomic_reservation :: "(nat \<Rightarrow> i64) \<Rightarrow> program_result" where
  "example_atomic_reservation clk =
     (let total_vec = rv_zero(AcceleratorMemory := 1000, PinnedHostMemory := 500, ExecutionSlots := 8);
          demand = rv_zero(AcceleratorMemory := 400, PinnedHostMemory := 400, ExecutionSlots := 4) in
      case rm_reserve (clk 0) (Id 1) (Id 0) demand (seconds 30) (rm_set_total rm_empty total_vec) of
        (r, m) \<Rightarrow>
          (''EXAMPLE atomic-multi-resource: '' @ (case r of Inr _ \<Rightarrow> ''reserved'' | Inl _ \<Rightarrow> ''failed'') @ newline,
           case r of Inl _ \<Rightarrow> 1 | Inr _ \<Rightarrow> exit_when (verify_accounting m)))"

definition example_reservation_expiry :: "(nat \<Rightarrow> i64) \<Rightarrow> program_result option" where
  "example_reservation_expiry clk =
     (let m0 = rm_set_total rm_empty (rv_zero(AcceleratorMemory := 500)) in
      case rm_reserve (clk 0) (Id 1) (Id 0) (rv_zero(AcceleratorMemory := 300)) (milliseconds 0) m0 of
        (Inl _, _) \<Rightarrow> Some ([], 1)
      | (Inr _, m1) \<Rightarrow>
          let m2 = rm_expire_stale (clk 1 + milliseconds 1) m1 in
          map_option (\<lambda>r. (''EXAMPLE reservation-expiry: status='' @ reservation_status_name (rsv_status r)
              @ '' reserved='' @ to_string_u64 (rm_reserved_sum m2 AcceleratorMemory) @ newline,
              exit_when (rm_reserved_sum m2 AcceleratorMemory = 0)))
            (om_find (rm_reservations m2) (Id 1)))"

section \<open>Longer scenarios\<close>

text \<open>The requests 101 to 108 of tenant 2, in turn.\<close>

definition small_requests :: "platform \<Rightarrow> (nat \<Rightarrow> i64) \<Rightarrow> AdmissionFabric \<Rightarrow> AdmissionFabric" where
  "small_requests pf clk f =
     fold (\<lambda>i g. snd (fabric_evaluate pf (clk i) (afex_desc (100 + of_nat i) 100 100 2) g)) [1..<9] f"

definition example_fairness :: "platform \<Rightarrow> (nat \<Rightarrow> i64) \<Rightarrow> program_result option" where
  "example_fairness pf clk =
     map_option (\<lambda>d. (''EXAMPLE fairness: huge-request outcome='' @ outcome_name (dec_outcome d)
         @ '' reason='' @ reason_code_name (dec_reason d) @ newline, 0))
       (decided (fabric_evaluate pf (clk 9) (afex_desc 200 4096 4096 1) (small_requests pf clk (afex_engine (clk 0) (push_bit 30 6)))))"

definition example_policy_replacement :: "(nat \<Rightarrow> i64) \<Rightarrow> program_result option" where
  "example_policy_replacement clk =
     (let f = afex_engine (clk 0) (push_bit 30 8) in
      case fabric_policy f of
        None \<Rightarrow> None
      | Some p1 \<Rightarrow>
          (case install_policy (afex_policy\<lparr>p_name := ''stricter'', p_safety_headroom_ratio := f64_lit 5 10\<rparr>) f of
             (st, g) \<Rightarrow>
               if \<not> status_ok st then Some ([], 1)
               else (case fabric_policy g of
                       None \<Rightarrow> None
                     | Some p2 \<Rightarrow>
                         let g1 = id_value (p_generation p1); g2 = id_value (p_generation p2) in
                         Some (''EXAMPLE policy-replacement: '' @ to_string_u64 g1 @ '' -> '' @ to_string_u64 g2
                           @ '' (versioned='' @ (if g2 > g1 then ''yes'' else ''no'') @ '')'' @ newline, exit_when (g2 > g1)))))"

definition feedback_observation :: "i64 \<Rightarrow> nat \<Rightarrow> Observation" where
  "feedback_observation now i = \<lparr>o_id = Id (of_nat (i + 1)), o_admission_request_id = Id 0, o_tenant_id = Id 0,
     o_model_id = Id 7, o_model_revision = Id 1, o_backend = ''cuda'', o_dtype = ''fp16'', o_quantization = ''none'',
     o_workload_type = WorkloadType_Inference, o_peak_vram = push_bit 30 2, o_host_memory = 0, o_pinned_memory = 0,
     o_kv_growth = 0, o_transfer_bytes = 0, o_execution_duration = milliseconds 200, o_input_tokens = 1000,
     o_output_tokens = 1000, o_completed_at = now, o_kind = ObservationKind_Completed\<rparr>"

definition example_prediction_feedback :: "platform \<Rightarrow> (f64 \<Rightarrow> string) \<Rightarrow> (nat \<Rightarrow> i64) \<Rightarrow> program_result" where
  "example_prediction_feedback pf nf clk =
     (let f = fold (\<lambda>i. fabric_observe (feedback_observation (clk (i + 1)) i)) [0..<4] (afex_engine (clk 0) (push_bit 30 6));
          pred = predict_memory pf (af_predictor f) (afex_desc 1 1000 1000 1)
      in (''EXAMPLE prediction-feedback: confidence='' @ f64_fixed nf 3 (mp_confidence pred)
            @ '' evidence='' @ nat_to_string (unat (mp_evidence_count pred)) @ newline,
          exit_when (f64_lt (f64_lit 5 10) (mp_confidence pred))))"

text \<open>The state files; \<open>oc\<close> is how far the save gets, the path is the one in the temporary directory.\<close>

definition default_persistence :: "string \<Rightarrow> PersistenceConfig" where
  "default_persistence path = \<lparr>cfg_path = path, cfg_magic = 0xAF1FA000, cfg_version = 1\<rparr>"

definition example_persistence :: "platform \<Rightarrow> (nat \<Rightarrow> i64) \<Rightarrow> string \<Rightarrow> fs_outcome \<Rightarrow> filesystem \<Rightarrow> program_result option" where
  "example_persistence pf clk path oc fs0 =
     (let fs = fs0(path := None); cfg = default_persistence path in
      case fabric_evaluate pf (clk 1) (afex_desc 1 1000 1000 1) (afex_engine (clk 0) (push_bit 30 8)) of
        (Inl _, _) \<Rightarrow> Some ([], 1)
      | (Inr dec, f1) \<Rightarrow>
          (case commit_admission (clk 2) (Id 1) (dec_admission_generation dec) f1 of
             (st, f2) \<Rightarrow>
               if \<not> status_ok st then Some ([], 1)
               else (case store_save oc cfg f2 fs of
                       (st1, fs1) \<Rightarrow>
                         if \<not> status_ok st1 then Some ([], 1)
                         else (case store_load (clk 3) cfg fs1 fabric_empty of
                                 (st2, g) \<Rightarrow>
                                   if \<not> status_ok st2 then Some ([], 1)
                                   else map_option (\<lambda>r. (''EXAMPLE persistence: recovered lifecycle=''
                                       @ lifecycle_name (rr_lifecycle r) @ newline,
                                       exit_when (rr_lifecycle r = RequestLifecycle_Admitted)))
                                     (fabric_request g (Id 1))))))"

definition example_recovery :: "platform \<Rightarrow> (nat \<Rightarrow> i64) \<Rightarrow> string \<Rightarrow> fs_outcome \<Rightarrow> filesystem \<Rightarrow> program_result" where
  "example_recovery pf clk path oc fs0 =
     (let fs = fs0(path := None); cfg = default_persistence path;
          f = snd (fabric_evaluate pf (clk 1) (afex_desc 7 1000 1000 1) (afex_engine (clk 0) (push_bit 30 8))) in
      case store_save oc cfg f fs of
        (st1, fs1) \<Rightarrow>
          if \<not> status_ok st1 then ([], 1)
          else (case store_load (clk 2) cfg fs1 fabric_empty of
                  (st2, g) \<Rightarrow>
                    if \<not> status_ok st2 then ([], 1)
                    else (''EXAMPLE persistence-recovery: requests='' @ nat_to_string (length (af_requests g)) @ newline,
                          exit_when (length (af_requests g) > 0))))"

section \<open>The governed device\<close>

text \<open>\<open>None\<close> is an exception: a decision that is not there, or the host vector of the kernel run.\<close>

definition example_cuda_governed ::
    "platform \<Rightarrow> (nat \<Rightarrow> i64) \<Rightarrow> 'g CudaRuntime \<Rightarrow> 'g \<Rightarrow> program_result option" where
  "example_cuda_governed pf clk rt g =
     (case device_count rt 0 g of
        (s0, devs, g0) \<Rightarrow>
          if \<not> status_ok s0 \<or> devs < 1 then Some (''no CUDA device'' @ newline, 2)
          else case cuda_init rt 0 cuda_backend_new g0 of
            (s1, be, g1) \<Rightarrow>
              if \<not> status_ok s1 then Some (''cuda init failed'' @ newline, 2)
              else let f = afex_engine (clk 0) (push_bit 30 2);
                       (r1, f1) = fabric_evaluate pf (clk 1) (afex_desc 1 2000 2000 1) f in
                (case r1 of
                   Inl _ \<Rightarrow> None
                 | Inr d1 \<Rightarrow>
                     if \<not> is_admit d1 then Some ([], 1)
                     else (case cuda_allocate rt 0 (req_demand (dec_predicted_requirement d1) AcceleratorMemory) g1 of
                             (s2, ptr, g2) \<Rightarrow>
                               if \<not> status_ok s2 then Some ([], 1)
                               else (case run_and_verify_add rt (push_bit 20 1) g2 of
                                       (None, _) \<Rightarrow> None
                                     | (Some s3, g3) \<Rightarrow>
                                         if \<not> status_ok s3 then Some ([], 1)
                                         else (case cuda_release rt ptr g3 of
                                                 (s4, g4) \<Rightarrow>
                                                   if \<not> status_ok s4 then Some ([], 1)
                                                   else map_option (\<lambda>d2. (''EXAMPLE cuda-governed: r1=''
                                                       @ reason_code_name (dec_reason d1) @ '' r2=''
                                                       @ reason_code_name (dec_reason d2) @ newline, exit_when (is_defer d2)))
                                                     (decided (fabric_evaluate pf (clk 2) (afex_desc 2 2000 2000 1) f1)))))))"

section \<open>A coordinator and an agent\<close>

definition distributed_caps :: Capabilities where
  "distributed_caps = cap_add (cap_dtype ''fp16'') (cap_add (cap_backend ''cuda'') [])"

definition distributed_agent :: "NetSocket \<Rightarrow> Agent" where
  "distributed_agent sk = \<lparr>ag_id = Id 1, ag_boot = Id 1, ag_caps = distributed_caps,
     ag_inventory = rv_zero(AcceleratorMemory := push_bit 30 8), ag_device_name = ''cuda'', ag_device_index = 0,
     ag_sock = sk, ag_epoch = Id 1, ag_running = False\<rparr>"

definition distributed_snapshot :: "i64 \<Rightarrow> ResourceSnapshot" where
  "distributed_snapshot now = default_snapshot\<lparr>snap_generation := Id 1, snap_timestamp := now, snap_agent_id := Id 1,
     snap_boot_id := Id 1, snap_node_name := ''cuda'',
     snap_total := rv_zero(AcceleratorMemory := push_bit 30 8, ExecutionSlots := 64),
     snap_capabilities := distributed_caps, snap_pressure := \<lambda>_. PressureLevel_Low,
     snap_provenance := \<lambda>_. Provenance_Measured\<rparr>"

text \<open>The state that the thread of \<open>run\<close> starts on.\<close>

definition distributed_coordinator :: Coordinator where
  "distributed_coordinator =
     coordinator_start (snd (install_policy (afex_policy\<lparr>p_max_snapshot_age := seconds 30\<rparr>) fabric_empty))"

text \<open>The main thread. The second one serves the connections; \<open>seen\<close> is the coordinator when the agents are counted, \<open>sk\<close> the
  connection that a successful connect opens. A return while that thread runs destroys it and terminates the
  program: \<open>None\<close>.\<close>

definition example_distributed ::
    "OsAnswers \<Rightarrow> OsAnswers \<Rightarrow> (nat \<Rightarrow> bytes) \<Rightarrow> i64 \<Rightarrow> NetSocket \<Rightarrow> Coordinator \<Rightarrow> program_result option" where
  "example_distributed ab ac junk now sk seen =
     (let (svc, p) = service_start ab \<lparr>pr_winsock = False, pr_open = {}, pr_calls = []\<rparr> in
      case service_bind ab ''127.0.0.1'' 0 svc p of
        (s, svc1, p1) \<Rightarrow>
          if \<not> status_ok s then Some ([], 1)
          else let port = service_port ab svc1 in
            (case agent_connect ac ''127.0.0.1'' port endpoint_new p1 of
               (s1, e, p2) \<Rightarrow>
                 if \<not> status_ok s1 then None
                 else (case register_self (junk 0) (distributed_agent sk) of
                         (s2, a1) \<Rightarrow>
                           if \<not> status_ok s2 then None
                           else (case send_capacity (junk 1) (distributed_snapshot now) a1 of
                                   (s3, a2) \<Rightarrow>
                                     if \<not> status_ok s3 then None
                                     else Some (''EXAMPLE distributed: agents='' @ nat_to_string (agent_count seen)
                                       @ '' port='' @ nat_to_string (unat port) @ newline, 0)))))"

section \<open>The benchmark's work\<close>

text \<open>
  What \<open>benchmark_core.cpp\<close> runs between two readings of the steady clock, and the report of the times. The loops count
  from 0; iteration \<open>i\<close> reads the system clock at \<open>clk i\<close>, or at \<open>start i\<close> and \<open>later i\<close> where it reads it twice.
\<close>

definition bench_desc :: "u64 \<Rightarrow> AdmissionDescriptor" where
  "bench_desc n = default_descriptor\<lparr>d_admission_request_id := Id (n + 1), d_request_id := Id (n + 2),
     d_attempt_id := Id 1, d_tenant_id := Id 1, d_model_id := Id 7, d_model_revision := Id 1,
     d_policy_generation := Id 1, d_input_tokens := 1024, d_expected_output_tokens := 1024,
     d_max_output_tokens := 1024, d_backend := ''cuda'', d_dtype := ''fp16'', d_latency_class := LatencyClass_BestEffort\<rparr>"

definition bench_profile :: PredictionProfile where
  "bench_profile = \<lparr>pp_model_id = Id 7, pp_revision = Id 1, pp_backend = ''cuda'', pp_dtype = ''fp16'',
     pp_quantization = [], pp_generation = 0, pp_fixed_base_memory = push_bit 30 1, pp_per_token_kv_bytes = 512,
     pp_per_token_tensor_bytes = 512, pp_per_request_overhead = 0, pp_workspace_bytes = 0,
     pp_staging_bytes = 0, pp_pinned_staging_bytes = 0,
     pp_safety_margin_ratio = f64_lit 10 100, pp_fragmentation_ratio = f64_lit 5 100,
     pp_prefill_tokens_per_sec = f64_nat 2000, pp_decode_tokens_per_sec = f64_nat 80,
     pp_transfer_bytes_per_sequence = 0, pp_transfer_bytes_per_sec = f64_zero, pp_host_memory_bytes = 0,
     pp_pinned_host_memory_bytes = 0, pp_execution_slots_required = 1, pp_sequence_slots_required = 1\<rparr>"

definition bench_engine :: "i64 \<Rightarrow> AdmissionFabric" where
  "bench_engine now =
     (let f = snd (fabric_register_profile bench_profile
                (snd (install_policy (default_policy\<lparr>p_max_snapshot_age := seconds 30\<rparr>) fabric_empty)));
          s = default_snapshot\<lparr>snap_generation := Id 1, snap_timestamp := now, snap_agent_id := Id 1, snap_boot_id := Id 1,
                snap_node_name := ''bench'',
                snap_total := rv_zero(AcceleratorMemory := push_bit 30 24, HostMemory := push_bit 30 16, ExecutionSlots := 128),
                snap_capabilities := cap_add (cap_dtype ''fp16'') (cap_add (cap_backend ''cuda'') []),
                snap_pressure := \<lambda>_. PressureLevel_Low, snap_provenance := \<lambda>_. Provenance_Measured\<rparr>
      in set_snapshot s f)"

text \<open>Validation aborts the program at the first descriptor that is not valid: \<open>False\<close> here.\<close>

definition bench_validation :: "nat \<Rightarrow> bool" where
  "bench_validation n = list_all (\<lambda>i. status_ok (descriptor_validate (bench_desc (of_nat i)))) [0..<n]"

definition bench_prediction :: "platform \<Rightarrow> nat \<Rightarrow> AdmissionFabric \<Rightarrow> ResourceVector list" where
  "bench_prediction pf n f = map (\<lambda>i. predict_demand pf (af_predictor f) (bench_desc (of_nat i))) [0..<n]"

definition bench_evaluation :: "platform \<Rightarrow> (nat \<Rightarrow> i64) \<Rightarrow> nat \<Rightarrow> AdmissionFabric \<Rightarrow> AdmissionFabric" where
  "bench_evaluation pf clk n f = fold (\<lambda>i g. snd (fabric_evaluate pf (clk i) (bench_desc (of_nat i)) g)) [0..<n] f"

definition bench_manager :: ReservationManager where
  "bench_manager = rm_set_total rm_empty (rv_zero(AcceleratorMemory := push_bit 40 1))"

definition bench_reservation :: "i64 \<Rightarrow> i64 \<Rightarrow> u64 \<Rightarrow> ReservationManager \<Rightarrow> ReservationManager" where
  "bench_reservation start later i m =
     (case rm_reserve start (Id (i + 1)) (Id 0) (rv_zero(AcceleratorMemory := i mod 1000 + 1)) (seconds 10) m of
        (Inl _, m1) \<Rightarrow> m1
      | (Inr _, m1) \<Rightarrow> snd (rm_release (Id (i + 1)) (snd (rm_commit later (Id (i + 1)) (Id i) (Id i) m1))))"

definition bench_reservations :: "(nat \<Rightarrow> i64) \<Rightarrow> (nat \<Rightarrow> i64) \<Rightarrow> nat \<Rightarrow> ReservationManager" where
  "bench_reservations start later n =
     fold (\<lambda>i. bench_reservation (start i) (later i) (of_nat i)) [0..<n] bench_manager"

text \<open>The result and the descriptor that comes back are dropped by the code.\<close>

definition bench_codec :: "u64 \<Rightarrow> Status + AdmissionDescriptor" where
  "bench_codec i = fst (decode_descriptor (byte_reader (encode_descriptor (bench_desc i))))"

text \<open>A thread of the parallel run: its own engine and requests from \<open>t * 100000\<close>.\<close>

definition bench_thread :: "platform \<Rightarrow> (nat \<Rightarrow> i64) \<Rightarrow> i64 \<Rightarrow> u64 \<Rightarrow> AdmissionFabric" where
  "bench_thread pf clk start t =
     fold (\<lambda>i g. let k = t * 100000 + of_nat i in
               snd (fabric_evaluate pf (clk i) ((bench_desc k)\<lparr>d_admission_request_id := Id k\<rparr>) g))
       [0..<10000] (bench_engine start)"

text \<open>A line of the report, \<open>%-38s %8llu ops  %10.2f ms  %10.0f ops/s\<close>, and all of them; \<open>ms k\<close> is the \<open>k\<close>-th measured
  time, \<open>None\<close> the abort of the first loop.\<close>

definition pad_left :: "nat \<Rightarrow> string \<Rightarrow> string" where
  "pad_left w s = replicate (w - length s) (CHR '' '') @ s"

definition pad_right :: "nat \<Rightarrow> string \<Rightarrow> string" where
  "pad_right w s = s @ replicate (w - length s) (CHR '' '')"

definition bench_line :: "(f64 \<Rightarrow> string) \<Rightarrow> string \<Rightarrow> u64 \<Rightarrow> f64 \<Rightarrow> string" where
  "bench_line nf label n ms =
     ''  '' @ pad_right 38 label @ '' '' @ pad_left 8 (to_string_u64 n) @ '' ops  '' @ pad_left 10 (f64_fixed nf 2 ms)
     @ '' ms  '' @ pad_left 10 (f64_fixed nf 0 (f64_div (f64_mul (f64_of_u64 n) (f64_nat 1000))
                                  (if f64_lt f64_zero ms then ms else f64_nat 1))) @ '' ops/s'' @ newline"

definition benchmark_main :: "(f64 \<Rightarrow> string) \<Rightarrow> (nat \<Rightarrow> f64) \<Rightarrow> program_result option" where
  "benchmark_main nf ms =
     (if \<not> bench_validation 100000 then None
      else Some (''Admission Fabric benchmark (completed work)'' @ newline
        @ bench_line nf ''descriptor validation'' 100000 (ms 0)
        @ bench_line nf ''resource prediction'' 100000 (ms 1)
        @ bench_line nf ''admission evaluation (completed)'' 100000 (ms 2)
        @ bench_line nf ''atomic reservation + release'' 20000 (ms 3)
        @ bench_line nf ''serialization round-trip (descriptor)'' 100000 (ms 4)
        @ bench_line nf ''threaded admission evaluation (8 engines)'' 80000 (ms 5), 0))"

end
