(* ===== verification/Examples_Spec.thy ===== *)
theory Examples_Spec
  imports Examples Engine_Spec Codec_Laws
begin

text \<open>
  For every reading of the clock: the policy replacement and the atomic reservation succeed, no descriptor of the
  benchmark aborts it, its codec loop reads back what it wrote and its reservation loop ends with nothing held.
\<close>

section \<open>Policies and reservations\<close>

text \<open>The validation of a default policy with other headroom, name, age and reservation flag.\<close>

lemma example_policy_valid:
  assumes "in_half_open_unit h"
  shows "status_ok (policy_validate (afex_policy\<lparr>p_name := n, p_safety_headroom_ratio := h\<rparr>))"
  using default_policy_valid assms
  by (simp add: policy_validate_def afex_policy_def default_policy_def seconds_def word_sless_alt split: if_splits)

lemma example_headrooms: "in_half_open_unit (f64_lit 5 100)" "in_half_open_unit (f64_lit 5 10)"
  by (simp_all add: in_half_open_unit_def f64_eval cong: let_weak_cong)

lemma example_same_policy: "afex_policy\<lparr>p_name := p_name afex_policy, p_safety_headroom_ratio := f64_lit 5 100\<rparr> = afex_policy"
  by (simp add: afex_policy_def)

lemma afex_policy_installed:
  "policy_install afex_policy policy_engine_empty = (status_success,
     \<lparr>pe_policies = [(Id 1, afex_policy\<lparr>p_generation := Id 1\<rparr>)], pe_latest = Id 1, pe_counter = 2\<rparr>)"
proof -
  have "status_ok (policy_validate afex_policy)"
    using example_policy_valid [OF example_headrooms(1), of "p_name afex_policy"] unfolding example_same_policy .
  then show ?thesis
    by (simp add: policy_install_def policy_engine_empty_def u64_max_numeral kMaxGenerations_def Let_def)
qed

lemma afex_engine_policy:
  "af_policy (afex_engine now vram)
     = \<lparr>pe_policies = [(Id 1, afex_policy\<lparr>p_generation := Id 1\<rparr>)], pe_latest = Id 1, pe_counter = 2\<rparr>"
  by (simp add: afex_engine_def install_policy_def fabric_empty_def afex_policy_installed policy_latest_def
      fabric_register_profile_def set_snapshot_def case_prod_beta)

lemma policy_replacement_is_versioned:
  "example_policy_replacement clk = Some (''EXAMPLE policy-replacement: 1 -> 2 (versioned=yes)'' @ newline, 0)"
  using example_policy_valid [OF example_headrooms(2), of "''stricter''"]
  by (simp add: example_policy_replacement_def fabric_policy_def afex_engine_policy policy_latest_def install_policy_def
      policy_install_def u64_max_numeral kMaxGenerations_def Let_def exit_when_def to_string_u64_def
      nat_to_string.simps digit_char_def char_of_def bit_0)

lemma atomic_reservation_succeeds:
  "example_atomic_reservation clk = (''EXAMPLE atomic-multi-resource: reserved'' @ newline, 0)"
proof -
  let ?demand = "rv_zero(AcceleratorMemory := 400, PinnedHostMemory := 400, ExecutionSlots := 4)"
  let ?m = "rm_set_total rm_empty (rv_zero(AcceleratorMemory := 1000, PinnedHostMemory := 500, ExecutionSlots := 8))"
  have "\<exists>y t. rm_reserve (clk 0) (Id 1) (Id 0) ?demand (seconds 30) ?m = (Inr y, t)"
    by (rule rm_reserve_total)
      (auto simp: rm_set_total_def rm_empty_def rv_is_zero_iff dim_ceiling_def rv_zero_def kUnbounded_def u64_max_numeral)
  then obtain y t where r: "rm_reserve (clk 0) (Id 1) (Id 0) ?demand (seconds 30) ?m = (Inr y, t)" by blast
  have "rm_wf t" by (rule rm_wf_reserve [OF _ r]) simp
  moreover have "rm_within t" by (rule rm_within_reserve [OF r]) (simp add: rm_within_def rm_set_total_def rm_empty_def)
  ultimately show ?thesis using r by (simp add: example_atomic_reservation_def exit_when_def verify_accounting_iff)
qed

section \<open>The benchmark\<close>

lemma bench_desc_valid:
  assumes "n + 2 < 2 ^ 64"
  shows "status_ok (descriptor_validate (bench_desc (of_nat n)))"
proof -
  have "unat (of_nat (n + 1) :: u64) = n + 1" "unat (of_nat (n + 2) :: u64) = n + 2"
    by (rule unat_of_nat_u64, use assms in linarith)+
  then have "of_nat (n + 1) \<noteq> (0::u64)" "of_nat (n + 2) \<noteq> (0::u64)"
    by (metis add_is_0 unsigned_0 zero_neq_one, metis add_is_0 unsigned_0 zero_neq_numeral)
  then have "of_nat n + 1 \<noteq> (0::u64)" "of_nat n + 2 \<noteq> (0::u64)" by (simp_all add: add.commute)
  then show ?thesis
    by (simp add: descriptor_validate_def bench_desc_def default_descriptor_def is_nil_def token_limit_def seconds_def
        word_sle_eq)
qed

text \<open>No descriptor of the first loop aborts the run, and the codec loop reads back what it wrote.\<close>

lemma bench_validation_completes: "bench_validation 100000"
  by (auto simp only: bench_validation_def list_all_iff set_upt atLeastLessThan_iff intro!: bench_desc_valid) simp

lemma benchmark_completes: "\<exists>report. benchmark_main nf ms = Some (report, 0)"
  by (simp add: benchmark_main_def bench_validation_completes)

lemma bench_round_trip: "bench_codec i = Inr (bench_desc i)"
proof -
  have "descriptor_encodable (bench_desc i)"
    by (simp add: descriptor_encodable_def bench_desc_def default_descriptor_def string_ok_def
        strings_ok_def enum_canonical_def workload_enumerators_def latency_enumerators_def preemption_enumerators_def)
  then show ?thesis
    using descriptor_codec.decode_encoded [of "bench_desc i" "[]"] by (simp add: bench_codec_def)
qed

definition drained :: "ReservationManager \<Rightarrow> bool" where
  "drained m \<longleftrightarrow> rm_reserved_sum m = rv_zero \<and> rm_used_sum m = rv_zero"

lemma try_zero [simp]: "try_add rv_zero d = Some d" "try_sub d d = Some rv_zero" "try_add d rv_zero = Some d"
  by (simp_all add: try_add_Some try_sub_Some unat_u64_less [simplified])

text \<open>Whatever the two readings of the clock, an expired commit included, an iteration gives back what it took.\<close>

lemma bench_reservation_drains:
  assumes "drained m"
  shows "drained (bench_reservation start later i m)"
proof (cases "rm_reserve start (Id (i + 1)) (Id 0) (rv_zero(AcceleratorMemory := i mod 1000 + 1)) (seconds 10) m")
  case (Pair x m1)
  show ?thesis
  proof (cases x)
    case (Inl e)
    then show ?thesis using assms Pair rm_reserve_Inl [OF Pair [unfolded Inl]] by (simp add: bench_reservation_def)
  next
    case (Inr y)
    have "drained (snd (rm_release (Id (i + 1)) (snd (rm_commit later (Id (i + 1)) (Id i) (Id i) m1))))"
      using assms Pair [unfolded Inr]
      by (auto simp: rm_reserve_Inr drained_def rm_commit_def rm_release_def om_find_put_same
          expire_unsafe_def rm_update_def Let_def)
    then show ?thesis using Pair Inr by (simp add: bench_reservation_def)
  qed
qed

lemma bench_reservations_drained: "drained (bench_reservations start later n)"
  unfolding bench_reservations_def
  by (induction n) (simp_all add: bench_reservation_drains, simp add: bench_manager_def drained_def rm_set_total_def rm_empty_def)

end
