(* ===== verification/Threads.thy ===== *)
theory Threads
  imports Coordinator
begin

text \<open>
  The threads of \<open>coordinator.cpp\<close>, one for each connection, below the level of a handled frame. The mutex \<open>mu_\<close> guards
  the agent table and the flag \<open>alive\<close> only; the engine, the epoch, and an agent's snapshot are used without it. A step here is
  one critical section, one read or write of the epoch, one call of the engine or one store of a snapshot, and the steps of
  different threads interleave in any order. A thread is known by the number of its connection; \<open>thread_point\<close> is where
  it stands in its function, with the local variables that it still needs.
\<close>

section \<open>State\<close>

datatype thread_point =
    Opened
  | Enrolled u64
  | AgentWaits
  | Verified u64 ResourceSnapshot
  | AgentFenced
  | EpochRead CoordinatorEpoch
  | ClientWaits
  | AgentChosen u64 AdmissionDescriptor "nat option"
  | EngineTold u64 AdmissionDescriptor
  | ThreadOver

record Machine =
  mc_shared :: Coordinator
  mc_points :: "nat \<Rightarrow> thread_point"

definition machine_start :: "AdmissionFabric \<Rightarrow> Machine" where
  "machine_start engine = \<lparr>mc_shared = coordinator_start engine, mc_points = (\<lambda>_. Opened)\<rparr>"

section \<open>The sections of the handlers\<close>

text \<open>\<open>on_agent_loss\<close> under the lock: whether the agent was fenced now.\<close>

definition fence_agent :: "AgentId \<Rightarrow> Coordinator \<Rightarrow> bool \<times> Coordinator" where
  "fence_agent a s =
     (case om_find (co_agents s) a of
        None \<Rightarrow> (False, s)
      | Some k \<Rightarrow>
          (case co_conns s k of
             None \<Rightarrow> (False, s)
           | Some c \<Rightarrow>
               if ac_alive c then (True, s\<lparr>co_conns := (co_conns s)(k \<mapsto> c\<lparr>ac_alive := False\<rparr>)\<rparr>) else (False, s)))"

text \<open>A capacity update up to its acceptance, and the store of an accepted one in the connection's record, with its
  generation, which no other thread reads.\<close>

definition check_capacity :: "AgentConn \<Rightarrow> u64 \<Rightarrow> bytes \<Rightarrow> Coordinator \<Rightarrow> message + ResourceSnapshot" where
  "check_capacity c corr payload s =
     (case get_u64 (byte_reader payload) of
        (epoch_val, r) \<Rightarrow>
          (case decode_capacity_update r of
             (Inl e, _) \<Rightarrow> Inl (error_reply corr ErrorCode_MalformedFrame ''bad capacity update'')
           | (Inr snap, _) \<Rightarrow>
               (case capacity_refusal s c epoch_val snap of
                  Some (code, msg) \<Rightarrow> Inl (error_reply corr code msg)
                | None \<Rightarrow> Inr snap)))"

definition store_capacity :: "nat \<Rightarrow> AgentConn \<Rightarrow> u64 \<Rightarrow> ResourceSnapshot \<Rightarrow> Coordinator \<Rightarrow> message \<times> Coordinator" where
  "store_capacity cid c corr snap s =
     ((wire_value WireType_CapacityAccepted, corr, put_u64 (id_value (snap_generation snap))),
      s\<lparr>co_conns := (co_conns s)(cid \<mapsto> c\<lparr>ac_snapshot := snap, ac_capacity_generation := id_value (snap_generation snap)\<rparr>)\<rparr>)"

text \<open>\<open>choose_snapshot\<close> returns a pointer to the snapshot in a connection's record: here the number of the connection.\<close>

definition choose_conn_step ::
    "AdmissionDescriptor \<Rightarrow> (nat \<Rightarrow> AgentConn option) \<Rightarrow> nat \<Rightarrow> (nat \<times> u64) option \<Rightarrow> (nat \<times> u64) option" where
  "choose_conn_step d conns k best =
     (case conns k of
        None \<Rightarrow> best
      | Some c \<Rightarrow>
          if \<not> usable_agent d c then best
          else case best of
                 None \<Rightarrow> Some (k, free_memory c)
               | Some (_, best_free) \<Rightarrow> if free_memory c > best_free then Some (k, free_memory c) else best)"

definition choose_conn :: "AdmissionDescriptor \<Rightarrow> Coordinator \<Rightarrow> nat option" where
  "choose_conn d s = map_option fst (fold (\<lambda>(a, k). choose_conn_step d (co_conns s) k) (co_agents s) None)"

text \<open>The engine is told what the pointer refers to by then. The records of the model are never freed, so a pointer that
  was returned always has one.\<close>

definition tell_engine :: "i64 \<Rightarrow> nat option \<Rightarrow> Coordinator \<Rightarrow> Coordinator" where
  "tell_engine now best s =
     (case best of
        None \<Rightarrow> s\<lparr>co_engine := set_snapshot (unavailable_snapshot now (co_epoch s)) (co_engine s)\<rparr>
      | Some k \<Rightarrow>
          (case co_conns s k of
             None \<Rightarrow> s
           | Some c \<Rightarrow> s\<lparr>co_engine := set_snapshot (ac_snapshot c) (co_engine s)\<rparr>))"

definition evaluate_and_reply :: "platform \<Rightarrow> i64 \<Rightarrow> u64 \<Rightarrow> AdmissionDescriptor \<Rightarrow> Coordinator \<Rightarrow> message \<times> Coordinator" where
  "evaluate_and_reply pf now corr d s =
     (let (rr, engine) = fabric_evaluate pf now d (co_engine s);
          body = (case rr of Inr dec \<Rightarrow> encode_evaluate_response dec 0
                  | Inl e \<Rightarrow> encode_evaluate_response default_decision (error_code_value (err_code e))) in
      ((wire_value WireType_EvaluateResponse, corr, body), s\<lparr>co_engine := engine\<rparr>))"

section \<open>The steps of a thread\<close>

datatype thread_event = Receives message | ReceiveFails | Continues

text \<open>The request of an evaluate frame that decodes.\<close>

definition evaluate_request :: "message \<Rightarrow> AdmissionDescriptor option" where
  "evaluate_request frm =
     (case frm of (type, corr, payload) \<Rightarrow>
        if wire_of_value type = WireType_EvaluateRequest
        then (case fst (decode_evaluate_request (byte_reader payload)) of Inl _ \<Rightarrow> None | Inr d \<Rightarrow> Some d)
        else None)"

type_synonym step_result = "message option \<times> Coordinator \<times> thread_point"

definition client_frame_step :: "platform \<Rightarrow> i64 \<Rightarrow> message \<Rightarrow> Coordinator \<Rightarrow> step_result" where
  "client_frame_step pf now frm s =
     (case evaluate_request frm of
        Some d \<Rightarrow> (None, s, AgentChosen (fst (snd frm)) d (choose_conn d s))
      | None \<Rightarrow>
          (case handle_client_frame pf now frm s of
             (reply, goes_on, s1) \<Rightarrow> (Some reply, s1, if goes_on then ClientWaits else ThreadOver)))"

definition first_frame_step :: "platform \<Rightarrow> i64 \<Rightarrow> nat \<Rightarrow> message \<Rightarrow> Coordinator \<Rightarrow> step_result" where
  "first_frame_step pf now cid frm s =
     (case dispatch cid frm s of
        (Dropped, s1) \<Rightarrow> (None, s1, ThreadOver)
      | (Refused m, s1) \<Rightarrow> (Some m, s1, ThreadOver)
      | (AgentJoined m, s1) \<Rightarrow> (None, s1, Enrolled (fst (snd frm)))
      | (ClientJoined, s1) \<Rightarrow> client_frame_step pf now frm s1)"

definition agent_frame_step :: "nat \<Rightarrow> AgentConn \<Rightarrow> message \<Rightarrow> Coordinator \<Rightarrow> step_result" where
  "agent_frame_step cid c frm s =
     (case frm of (type, corr, payload) \<Rightarrow>
        if type = wire_value WireType_CapacityUpdate
        then (case check_capacity c corr payload s of
                Inl m \<Rightarrow> (Some m, s, AgentWaits)
              | Inr snap \<Rightarrow> (None, s, Verified corr snap))
        else (case handle_agent cid c frm s of (reply, s1) \<Rightarrow> (Some reply, s1, AgentWaits)))"

text \<open>One step of the thread of connection \<open>cid\<close>, if it can take it: what it sends, the shared state, where it stands.\<close>

definition thread_step :: "platform \<Rightarrow> i64 \<Rightarrow> nat \<Rightarrow> thread_event \<Rightarrow> Coordinator \<Rightarrow> thread_point \<Rightarrow> step_result option" where
  "thread_step pf now cid ev s pt =
     (case (pt, ev) of
        (Opened, Receives frm) \<Rightarrow> Some (first_frame_step pf now cid frm s)
      | (Opened, ReceiveFails) \<Rightarrow> Some (None, s, ThreadOver)
      | (Enrolled corr, Continues) \<Rightarrow>
          Some (Some (wire_value WireType_AgentRegistered, corr, put_u64 (id_value (co_epoch s))), s, AgentWaits)
      | (AgentWaits, Receives frm) \<Rightarrow> map_option (\<lambda>c. agent_frame_step cid c frm s) (co_conns s cid)
      | (AgentWaits, ReceiveFails) \<Rightarrow>
          map_option (\<lambda>c. case fence_agent (ac_id c) s of
            (changed, s1) \<Rightarrow> (None, s1, if changed then AgentFenced else ThreadOver)) (co_conns s cid)
      | (Verified corr snap, Continues) \<Rightarrow>
          map_option (\<lambda>c. case store_capacity cid c corr snap s of (reply, s1) \<Rightarrow> (Some reply, s1, AgentWaits)) (co_conns s cid)
      | (AgentFenced, Continues) \<Rightarrow> Some (None, s, EpochRead (co_epoch s))
      | (EpochRead e, Continues) \<Rightarrow> Some (None, s\<lparr>co_epoch := id_next e\<rparr>, ThreadOver)
      | (ClientWaits, Receives frm) \<Rightarrow> Some (client_frame_step pf now frm s)
      | (ClientWaits, ReceiveFails) \<Rightarrow> Some (None, s, ThreadOver)
      | (AgentChosen corr d best, Continues) \<Rightarrow> Some (None, tell_engine now best s, EngineTold corr d)
      | (EngineTold corr d, Continues) \<Rightarrow>
          (case evaluate_and_reply pf now corr d s of (reply, s1) \<Rightarrow> Some (Some reply, s1, ClientWaits))
      | _ \<Rightarrow> None)"

text \<open>A schedule: which thread moves, the clock it reads, and what it finds; with what the threads send, in order.\<close>

definition machine_step :: "platform \<Rightarrow> nat \<times> i64 \<times> thread_event \<Rightarrow> Machine \<Rightarrow> (message option \<times> Machine) option" where
  "machine_step pf mv m =
     (case mv of (cid, now, ev) \<Rightarrow>
        map_option (\<lambda>(sent, s, pt). (sent, \<lparr>mc_shared = s, mc_points = (mc_points m)(cid := pt)\<rparr>))
          (thread_step pf now cid ev (mc_shared m) (mc_points m cid)))"

fun machine_run :: "platform \<Rightarrow> (nat \<times> i64 \<times> thread_event) list \<Rightarrow> Machine \<Rightarrow> ((nat \<times> message) list \<times> Machine) option" where
  "machine_run pf [] m = Some ([], m)"
| "machine_run pf ((cid, now, ev) # mvs) m =
     (case machine_step pf (cid, now, ev) m of
        None \<Rightarrow> None
      | Some (sent, m1) \<Rightarrow>
          map_option (\<lambda>(out, m2). ((case sent of None \<Rightarrow> [] | Some x \<Rightarrow> [(cid, x)]) @ out, m2)) (machine_run pf mvs m1))"

end
