(* ===== verification/Threads_Spec.thy ===== *)
theory Threads_Spec
  imports Threads Coordinator_Spec
begin

text \<open>
  What the missing locks cost. Left alone, a thread does what one step of \<open>Coordinator\<close> does; in every interleaving the
  table, the records and the engine keep their invariants; but two losses that overlap can set the epoch back, and a
  client can be answered on the agent that was chosen for another.
\<close>

section \<open>The sections together\<close>

lemma on_agent_loss_split:
  "on_agent_loss a s = (case fence_agent a s of (changed, s1) \<Rightarrow>
     if changed then s1\<lparr>co_epoch := id_next (co_epoch s1)\<rparr> else s1)"
  by (simp add: on_agent_loss_def fence_agent_def split: option.split)

lemma capacity_update_split:
  "capacity_update cid c corr payload s =
     (case check_capacity c corr payload s of Inl m \<Rightarrow> (m, s) | Inr snap \<Rightarrow> store_capacity cid c corr snap s)"
  by (simp add: capacity_update_def check_capacity_def store_capacity_def split: prod.split sum.split option.split)

lemma choose_conn_fold:
  assumes "acc' = (case acc of None \<Rightarrow> None | Some (k, f) \<Rightarrow> conns k)"
    and "\<And>k f. acc = Some (k, f) \<Longrightarrow> \<exists>c. conns k = Some c \<and> f = free_memory c"
  shows "fold (\<lambda>(a, k). choose_step d (conns k)) xs acc'
      = (case fold (\<lambda>(a, k). choose_conn_step d conns k) xs acc of None \<Rightarrow> None | Some (k, f) \<Rightarrow> conns k)
    \<and> (\<forall>k f. fold (\<lambda>(a, k). choose_conn_step d conns k) xs acc = Some (k, f) \<longrightarrow> (\<exists>c. conns k = Some c \<and> f = free_memory c))"
  using assms
proof (induction xs arbitrary: acc acc')
  case Nil
  then show ?case by simp
next
  case (Cons x xs)
  obtain a k where x: "x = (a, k)" by (cases x)
  have 1: "choose_step d (conns k) acc' = (case choose_conn_step d conns k acc of None \<Rightarrow> None | Some (k, f) \<Rightarrow> conns k)"
    using Cons.prems by (cases acc) (auto simp: choose_step_def choose_conn_step_def split: option.splits)
  have 2: "\<exists>c. conns j = Some c \<and> f = free_memory c" if "choose_conn_step d conns k acc = Some (j, f)" for j f
    using Cons.prems(2) that by (auto simp: choose_conn_step_def split: option.splits if_splits)
  show ?case using Cons.IH [OF 1 2] by (simp add: x)
qed

lemma choose_conn_agent: "choose_agent d s = Option.bind (choose_conn d s) (co_conns s)"
  using choose_conn_fold [where acc = None and acc' = None and conns = "co_conns s" and d = d and xs = "co_agents s"]
  by (auto simp: choose_agent_def choose_conn_def split: option.splits)

lemma choose_conn_Some: "choose_conn d s = Some k \<Longrightarrow> \<exists>c. co_conns s k = Some c"
  using choose_conn_fold [where acc = None and acc' = None and conns = "co_conns s" and d = d and xs = "co_agents s"] by (auto simp: choose_conn_def)

lemma told_snapshot:
  "tell_engine now (choose_conn d s) s = s\<lparr>co_engine := set_snapshot (offered_snapshot now d s) (co_engine s)\<rparr>"
proof (cases "choose_conn d s")
  case None
  then show ?thesis by (simp add: tell_engine_def offered_snapshot_def choose_snapshot_def choose_conn_agent)
next
  case (Some k)
  then obtain c where "co_conns s k = Some c" using choose_conn_Some by blast
  then show ?thesis using Some by (simp add: tell_engine_def offered_snapshot_def choose_snapshot_def choose_conn_agent)
qed

lemma client_evaluate_split:
  "client_evaluate pf now corr d s = evaluate_and_reply pf now corr d (tell_engine now (choose_conn d s) s)"
  unfolding told_snapshot
  by (simp add: client_evaluate_def evaluate_and_reply_def offered_snapshot_def Let_def case_prod_unfold)

lemma evaluate_request_frame:
  assumes "evaluate_request frm = Some d"
  shows "handle_client_frame pf now frm s = (case client_evaluate pf now (fst (snd frm)) d s of (m, s1) \<Rightarrow> (m, True, s1))"
  using assms
  by (cases frm) (auto simp: evaluate_request_def handle_client_frame_def Let_def case_prod_unfold split: if_splits sum.splits)

section \<open>A thread left alone\<close>

abbreviation stands :: "nat \<Rightarrow> thread_point \<Rightarrow> Coordinator \<Rightarrow> Machine \<Rightarrow> Machine" where
  "stands t pt s m \<equiv> \<lparr>mc_shared = s, mc_points = (mc_points m)(t := pt)\<rparr>"

lemma machine_run_step:
  "thread_step pf now t ev (mc_shared m) (mc_points m t) = Some (sent, s, pt) \<Longrightarrow>
     machine_run pf ((t, now, ev) # mvs) m
       = map_option (\<lambda>(out, m2). ((case sent of None \<Rightarrow> [] | Some x \<Rightarrow> [(t, x)]) @ out, m2)) (machine_run pf mvs (stands t pt s m))"
  by (simp add: machine_step_def)

declare machine_run.simps(2) [simp del]

lemma machine_run_append:
  "machine_run pf (a @ b) m = (case machine_run pf a m of None \<Rightarrow> None | Some (out, m1) \<Rightarrow>
     map_option (\<lambda>(out2, m2). (out @ out2, m2)) (machine_run pf b m1))"
proof (induction a arbitrary: m)
  case Nil
  then show ?case by (simp add: option.map_id0 [unfolded id_def] case_prod_unfold)
next
  case (Cons mv a)
  obtain t now ev where mv: "mv = (t, now, ev)" by (cases mv)
  show ?case
    by (simp add: mv machine_run.simps(2) Cons.IH option.map_comp comp_def case_prod_unfold split: option.split)
qed

lemma machine_run_silent: "machine_run pf a m = Some ([], m1) \<Longrightarrow> machine_run pf (a @ b) m = machine_run pf b m1"
  by (simp add: machine_run_append option.map_id0 [unfolded id_def] case_prod_unfold)

lemma client_alone:
  assumes "mc_points m t = ClientWaits"
    and "handle_client_frame pf now frm (mc_shared m) = (reply, goes_on, s')"
  shows "\<exists>k. machine_run pf ((t, now, Receives frm) # replicate k (t, now, Continues)) m
    = Some ([(t, reply)], stands t (if goes_on then ClientWaits else ThreadOver) s' m)"
proof (cases "evaluate_request frm")
  case None
  then show ?thesis
    using assms by (intro exI [of _ 0]) (simp add: machine_run_step thread_step_def client_frame_step_def)
next
  case (Some d)
  let ?s = "mc_shared m"
  have "evaluate_and_reply pf now (fst (snd frm)) d (tell_engine now (choose_conn d ?s) ?s) = (reply, s')" "goes_on"
    using assms(2) by (simp_all add: evaluate_request_frame [OF Some] client_evaluate_split split: prod.splits)
  then have "machine_run pf [(t, now, Receives frm), (t, now, Continues), (t, now, Continues)] m
      = Some ([(t, reply)], stands t (if goes_on then ClientWaits else ThreadOver) s' m)"
    using assms(1) Some by (simp add: machine_run_step thread_step_def client_frame_step_def)
  then show ?thesis by (intro exI [of _ 2]) (simp add: numeral_2_eq_2)
qed

lemma agent_alone:
  assumes "mc_points m t = AgentWaits" and "co_conns (mc_shared m) t = Some c"
    and "handle_agent t c frm (mc_shared m) = (reply, s')"
  shows "\<exists>k. machine_run pf ((t, now, Receives frm) # replicate k (t, now, Continues)) m
    = Some ([(t, reply)], stands t AgentWaits s' m)"
proof -
  obtain ty corr payload where frm: "frm = (ty, corr, payload)" by (cases frm)
  show ?thesis
  proof (cases "ty = wire_value WireType_CapacityUpdate")
    case False
    then show ?thesis
      using assms
      by (intro exI [of _ 0]) (simp add: machine_run_step thread_step_def agent_frame_step_def frm del: wire_value.simps)
  next
    case True
    have "handle_agent t c frm (mc_shared m) = capacity_update t c corr payload (mc_shared m)"
      by (simp add: handle_agent_def frm True)
    then have up: "(case check_capacity c corr payload (mc_shared m) of Inl x \<Rightarrow> (x, mc_shared m)
        | Inr snap \<Rightarrow> store_capacity t c corr snap (mc_shared m)) = (reply, s')"
      using assms(3) by (simp add: capacity_update_split)
    show ?thesis
    proof (cases "check_capacity c corr payload (mc_shared m)")
      case (Inl x)
      then show ?thesis
        using assms(1,2) up True
        by (intro exI [of _ 0]) (simp add: machine_run_step thread_step_def agent_frame_step_def frm del: wire_value.simps)
    next
      case (Inr snap)
      then have "machine_run pf [(t, now, Receives frm), (t, now, Continues)] m = Some ([(t, reply)], stands t AgentWaits s' m)"
        using assms(1,2) up True
        by (simp add: machine_run_step thread_step_def agent_frame_step_def frm del: wire_value.simps)
      then show ?thesis by (intro exI [of _ 1]) simp
    qed
  qed
qed

lemma loss_alone:
  assumes "mc_points m t = AgentWaits" and "co_conns (mc_shared m) t = Some c"
  shows "\<exists>k. machine_run pf ((t, now, ReceiveFails) # replicate k (t, now, Continues)) m
    = Some ([], stands t ThreadOver (on_agent_loss (ac_id c) (mc_shared m)) m)"
proof -
  obtain changed s1 where f: "fence_agent (ac_id c) (mc_shared m) = (changed, s1)" by fastforce
  show ?thesis
  proof (cases changed)
    case False
    then show ?thesis
      using assms f by (intro exI [of _ 0]) (simp add: machine_run_step thread_step_def on_agent_loss_split)
  next
    case True
    then have "machine_run pf [(t, now, ReceiveFails), (t, now, Continues), (t, now, Continues)] m
        = Some ([], stands t ThreadOver (on_agent_loss (ac_id c) (mc_shared m)) m)"
      using assms f by (simp add: machine_run_step thread_step_def on_agent_loss_split)
    then show ?thesis by (intro exI [of _ 2]) (simp add: numeral_2_eq_2)
  qed
qed

lemma dispatch_corr: "dispatch t frm s = (AgentJoined m, s') \<Longrightarrow> m = (wire_value WireType_AgentRegistered, fst (snd frm), put_u64 (id_value (co_epoch s')))"
  by (cases frm) (auto simp: dispatch_def split: if_splits sum.splits prod.splits)

lemma first_alone:
  assumes "mc_points m t = Opened" and "dispatch t frm (mc_shared m) = (AgentJoined reply, s')"
  shows "machine_run pf [(t, now, Receives frm), (t, now, Continues)] m = Some ([(t, reply)], stands t AgentWaits s' m)"
  using assms dispatch_corr [OF assms(2)]
  by (simp add: machine_run_step thread_step_def first_frame_step_def del: wire_value.simps)

text \<open>What is sent when a frame is answered, if anything.\<close>

definition sent_to :: "nat \<Rightarrow> message option \<Rightarrow> (nat \<times> message) list" where
  "sent_to t m = (case m of None \<Rightarrow> [] | Some x \<Rightarrow> [(t, x)])"

text \<open>The first frame of a connection, by what \<open>dispatch\<close> makes of it: nothing, a refusal, an agent, or a client, whose
  first frame is already a request.\<close>

definition first_frame_whole :: "platform \<Rightarrow> i64 \<Rightarrow> nat \<Rightarrow> message \<Rightarrow> Coordinator \<Rightarrow> message option \<times> Coordinator \<times> thread_point" where
  "first_frame_whole pf now t frm s =
     (case dispatch t frm s of
        (Dropped, s1) \<Rightarrow> (None, s1, ThreadOver)
      | (Refused x, s1) \<Rightarrow> (Some x, s1, ThreadOver)
      | (AgentJoined x, s1) \<Rightarrow> (Some x, s1, AgentWaits)
      | (ClientJoined, s1) \<Rightarrow>
          (case handle_client_frame pf now frm s1 of
             (reply, goes_on, s2) \<Rightarrow> (Some reply, s2, if goes_on then ClientWaits else ThreadOver)))"

lemma client_joined_same: "dispatch t frm s = (ClientJoined, s1) \<Longrightarrow> s1 = s"
  by (cases frm) (auto simp: dispatch_def split: if_splits sum.splits prod.splits)

lemma opened_alone:
  assumes "mc_points m t = Opened" and "first_frame_whole pf now t frm (mc_shared m) = (answer, s', pt')"
  shows "\<exists>k. machine_run pf ((t, now, Receives frm) # replicate k (t, now, Continues)) m
    = Some (sent_to t answer, stands t pt' s' m)"
proof -
  obtain res s1 where d: "dispatch t frm (mc_shared m) = (res, s1)" by fastforce
  show ?thesis
  proof (cases res)
    case Dropped
    then show ?thesis
      using assms d by (intro exI [of _ 0])
        (simp add: machine_run_step thread_step_def first_frame_step_def first_frame_whole_def sent_to_def split: if_splits)
  next
    case (Refused x)
    then show ?thesis
      using assms d by (intro exI [of _ 0])
        (simp add: machine_run_step thread_step_def first_frame_step_def first_frame_whole_def sent_to_def split: if_splits)
  next
    case (AgentJoined x)
    then have fin: "answer = Some x" "s' = s1" "pt' = AgentWaits"
      using assms(2) d by (simp_all add: first_frame_whole_def)
    from first_alone [OF assms(1) d [unfolded AgentJoined], of pf now] show ?thesis
      by (intro exI [of _ 1]) (simp add: fin sent_to_def)
  next
    case ClientJoined
    then have s1: "s1 = mc_shared m" using d client_joined_same by blast
    obtain reply goes_on s2 where h: "handle_client_frame pf now frm (mc_shared m) = (reply, goes_on, s2)"
      using prod_cases3 by blast
    then have fin: "answer = Some reply" "s' = s2" "pt' = (if goes_on then ClientWaits else ThreadOver)"
      using assms(2) d ClientJoined s1 by (simp_all add: first_frame_whole_def)
    let ?m = "m\<lparr>mc_points := (mc_points m)(t := ClientWaits)\<rparr>"
    have wait: "mc_points ?m t = ClientWaits" "mc_shared ?m = mc_shared m" by simp_all
    have same: "machine_run pf ((t, now, Receives frm) # mvs) m = machine_run pf ((t, now, Receives frm) # mvs) ?m" for mvs
      using assms(1) d ClientJoined s1
      by (simp add: machine_run.simps(2) machine_step_def thread_step_def first_frame_step_def case_prod_unfold)
    from client_alone [OF wait(1), of pf now frm reply goes_on s2] h
    show ?thesis by (auto simp: same fin sent_to_def)
  qed
qed

lemma unread_alone:
  assumes "mc_points m t = Opened \<or> mc_points m t = ClientWaits"
  shows "machine_run pf [(t, now, ReceiveFails)] m = Some ([], stands t ThreadOver (mc_shared m) m)"
  using assms by (auto simp: machine_run_step thread_step_def)

text \<open>An example: the agents 1, 2 and 3 have registered on the connections of these numbers.\<close>

definition demo_reg :: "nat \<Rightarrow> Registration" where
  "demo_reg n = demo_registration\<lparr>rg_agent := Id (of_nat n), rg_boot := Id 1\<rparr>"

definition demo_agent_conn :: "nat \<Rightarrow> AgentConn" where
  "demo_agent_conn n = demo_conn\<lparr>ac_id := Id (of_nat n)\<rparr>"

definition demo_agents :: Machine where
  "demo_agents = \<lparr>mc_shared = (coordinator_start fabric_empty)\<lparr>
       co_conns := [1 \<mapsto> demo_agent_conn 1, 2 \<mapsto> demo_agent_conn 2, 3 \<mapsto> demo_agent_conn 3],
       co_agents := [(Id 1, 1), (Id 2, 2), (Id 3, 3)]\<rparr>,
     mc_points = (\<lambda>_. Opened)(1 := AgentWaits, 2 := AgentWaits, 3 := AgentWaits)\<rparr>"

definition demo_joins :: "nat \<Rightarrow> (nat \<times> i64 \<times> thread_event) list" where
  "demo_joins n = [(n, 0, Receives (wire_value WireType_RegisterAgent, 1, encode_register (demo_reg n))), (n, 0, Continues)]"

lemma demo_joins_run:
  assumes "mc_points m n = Opened" and "\<not> boot_conflict (demo_reg n) (mc_shared m)"
  shows "\<exists>out. machine_run pf (demo_joins n) m = Some (out, stands n AgentWaits (joined n (demo_reg n) (mc_shared m)) m)"
proof -
  have "register_valid (demo_reg n)" using demo_registration_valid by (simp add: demo_reg_def register_valid_def)
  from first_alone [OF assms(1), where frm = "(wire_value WireType_RegisterAgent, 1, encode_register (demo_reg n))" and pf = pf and now = 0]
    dispatch_register [OF this, of n 1 "mc_shared m"] assms(2)
  show ?thesis by (simp add: demo_joins_def del: wire_value.simps)
qed

lemma demo_agents_reached:
  "\<exists>out. machine_run pf (demo_joins 1 @ demo_joins 2 @ demo_joins 3) (machine_start fabric_empty) = Some (out, demo_agents)"
proof -
  let ?m0 = "machine_start fabric_empty"
  let ?m1 = "stands 1 AgentWaits (joined 1 (demo_reg 1) (mc_shared ?m0)) ?m0"
  let ?m2 = "stands 2 AgentWaits (joined 2 (demo_reg 2) (mc_shared ?m1)) ?m1"
  let ?m3 = "stands 3 AgentWaits (joined 3 (demo_reg 3) (mc_shared ?m2)) ?m2"
  note defs = machine_start_def coordinator_start_def joined_def demo_reg_def boot_conflict_def agent_conn_def
    demo_registration_def demo_agent_conn_def demo_conn_def
  obtain o1 where 1: "machine_run pf (demo_joins 1) ?m0 = Some (o1, ?m1)"
    using demo_joins_run [of ?m0 1 pf] by (auto simp: defs)
  obtain o2 where 2: "machine_run pf (demo_joins 2) ?m1 = Some (o2, ?m2)"
    using demo_joins_run [of ?m1 2 pf] by (auto simp: defs)
  obtain o3 where 3: "machine_run pf (demo_joins 3) ?m2 = Some (o3, ?m3)"
    using demo_joins_run [of ?m2 3 pf] by (auto simp: defs)
  have "?m3 = demo_agents" by (auto simp: defs demo_agents_def less_Id_def fun_eq_iff)
  then show ?thesis using 1 2 3 by (simp add: machine_run_append)
qed

text \<open>C13: wherever a thread waits for the network, what it then receives it handles, when no other thread moves, exactly
  as the handler does in one step: the same reply is sent (or none), the same shared state is left, and the thread is where
  the connection then stands. This covers the first frame of a connection in all four outcomes of \<open>dispatch\<close>, every
  later frame of an agent and of a client, the loss of an agent, and a receive that fails on a connection that is not an
  agent's, which ends the thread and changes nothing.\<close>

theorem uninterrupted_thread_is_one_step:
  "(mc_points m t = Opened \<and> first_frame_whole pf now t frm (mc_shared m) = (answer, s', pt')
      \<longrightarrow> (\<exists>k. machine_run pf ((t, now, Receives frm) # replicate k (t, now, Continues)) m
            = Some (sent_to t answer, stands t pt' s' m)))
   \<and> (mc_points m t = ClientWaits \<and> handle_client_frame pf now frm (mc_shared m) = (reply, goes_on, s')
      \<longrightarrow> (\<exists>k. machine_run pf ((t, now, Receives frm) # replicate k (t, now, Continues)) m
            = Some ([(t, reply)], stands t (if goes_on then ClientWaits else ThreadOver) s' m)))
   \<and> (mc_points m t = AgentWaits \<and> co_conns (mc_shared m) t = Some c \<and> handle_agent t c frm (mc_shared m) = (reply, s')
      \<longrightarrow> (\<exists>k. machine_run pf ((t, now, Receives frm) # replicate k (t, now, Continues)) m
            = Some ([(t, reply)], stands t AgentWaits s' m)))
   \<and> (mc_points m t = AgentWaits \<and> co_conns (mc_shared m) t = Some c
      \<longrightarrow> (\<exists>k. machine_run pf ((t, now, ReceiveFails) # replicate k (t, now, Continues)) m
            = Some ([], stands t ThreadOver (on_agent_loss (ac_id c) (mc_shared m)) m)))
   \<and> (mc_points m t = Opened \<or> mc_points m t = ClientWaits
      \<longrightarrow> machine_run pf [(t, now, ReceiveFails)] m = Some ([], stands t ThreadOver (mc_shared m) m))"
proof (intro conjI impI)
  show "\<exists>k. machine_run pf ((t, now, Receives frm) # replicate k (t, now, Continues)) m = Some (sent_to t answer, stands t pt' s' m)"
    if "mc_points m t = Opened \<and> first_frame_whole pf now t frm (mc_shared m) = (answer, s', pt')"
    using that by (elim conjE) (rule opened_alone)
  show "\<exists>k. machine_run pf ((t, now, Receives frm) # replicate k (t, now, Continues)) m
      = Some ([(t, reply)], stands t (if goes_on then ClientWaits else ThreadOver) s' m)"
    if "mc_points m t = ClientWaits \<and> handle_client_frame pf now frm (mc_shared m) = (reply, goes_on, s')"
    using that by (elim conjE) (rule client_alone)
  show "\<exists>k. machine_run pf ((t, now, Receives frm) # replicate k (t, now, Continues)) m = Some ([(t, reply)], stands t AgentWaits s' m)"
    if "mc_points m t = AgentWaits \<and> co_conns (mc_shared m) t = Some c \<and> handle_agent t c frm (mc_shared m) = (reply, s')"
    using that by (elim conjE) (rule agent_alone)
  show "\<exists>k. machine_run pf ((t, now, ReceiveFails) # replicate k (t, now, Continues)) m
      = Some ([], stands t ThreadOver (on_agent_loss (ac_id c) (mc_shared m)) m)"
    if "mc_points m t = AgentWaits \<and> co_conns (mc_shared m) t = Some c"
    using that by (elim conjE) (rule loss_alone)
  show "machine_run pf [(t, now, ReceiveFails)] m = Some ([], stands t ThreadOver (mc_shared m) m)"
    if "mc_points m t = Opened \<or> mc_points m t = ClientWaits"
    using that by (rule unread_alone)
qed

text \<open>A waiting agent's heartbeat, and a new client whose first frame asks for the end.\<close>

theorem uninterrupted_thread_is_one_step_witness:
  "(\<exists>k m'. machine_run demo_platform
      ((1, 0, Receives (wire_value WireType_Heartbeat, 9, [])) # replicate k (1, 0, Continues)) demo_agents
      = Some ([(1, (wire_value WireType_Heartbeat, 9, put_u64 1))], m'))
   \<and> (\<exists>k m'. machine_run demo_platform
      ((7, 0, Receives (wire_value WireType_Shutdown, 9, [])) # replicate k (7, 0, Continues)) demo_agents
      = Some ([(7, (wire_value WireType_Shutdown, 9, put_i32 0))], m') \<and> mc_points m' 7 = ThreadOver)"
proof
  let ?frm = "(wire_value WireType_Heartbeat, 9, []) :: message"
  have "mc_points demo_agents 1 = AgentWaits" "co_conns (mc_shared demo_agents) 1 = Some (demo_agent_conn 1)"
    and "handle_agent 1 (demo_agent_conn 1) ?frm (mc_shared demo_agents)
      = ((wire_value WireType_Heartbeat, 9, put_u64 1), mc_shared demo_agents)"
    by (simp_all add: demo_agents_def handle_agent_def coordinator_start_def)
  with uninterrupted_thread_is_one_step [where m = demo_agents and t = 1 and c = "demo_agent_conn 1" and frm = ?frm
      and pf = demo_platform and now = 0 and s' = "mc_shared demo_agents"]
  show "\<exists>k m'. machine_run demo_platform ((1, 0, Receives ?frm) # replicate k (1, 0, Continues)) demo_agents
      = Some ([(1, (wire_value WireType_Heartbeat, 9, put_u64 1))], m')" by blast
  let ?stop = "(wire_value WireType_Shutdown, 9, []) :: message"
  have kind: "wire_of_value (wire_value WireType_Shutdown) = WireType_Shutdown" by code_simp
  have first: "first_frame_whole demo_platform 0 7 ?stop (mc_shared demo_agents)
      = (Some (wire_value WireType_Shutdown, 9, put_i32 0), mc_shared demo_agents, ThreadOver)"
    by (simp add: first_frame_whole_def dispatch_def handle_client_frame_def kind Let_def del: wire_value.simps) simp
  have "mc_points demo_agents 7 = Opened" by (simp add: demo_agents_def)
  with first uninterrupted_thread_is_one_step [where m = demo_agents and t = 7 and frm = ?stop and pf = demo_platform and now = 0]
  obtain k where "machine_run demo_platform ((7, 0, Receives ?stop) # replicate k (7, 0, Continues)) demo_agents
      = Some (sent_to 7 (Some (wire_value WireType_Shutdown, 9, put_i32 0)), stands 7 ThreadOver (mc_shared demo_agents) demo_agents)"
    by blast
  then show "\<exists>k m'. machine_run demo_platform ((7, 0, Receives ?stop) # replicate k (7, 0, Continues)) demo_agents
      = Some ([(7, (wire_value WireType_Shutdown, 9, put_i32 0))], m') \<and> mc_points m' 7 = ThreadOver"
    by (intro exI [of _ k]) (simp add: sent_to_def del: wire_value.simps)
qed

section \<open>The invariant in every interleaving\<close>

text \<open>What a thread relies on while others move.\<close>

definition agrees_with :: "AgentConn \<Rightarrow> ResourceSnapshot \<Rightarrow> bool" where
  "agrees_with c snap \<longleftrightarrow> snap_agent_id snap = ac_id c \<and> snap_boot_id snap = ac_boot c
     \<and> (ac_capacity_generation c = 0 \<or> ac_capacity_generation c < id_value (snap_generation snap))"

fun point_wf :: "Coordinator \<Rightarrow> nat \<Rightarrow> thread_point \<Rightarrow> bool" where
  "point_wf s t Opened \<longleftrightarrow> co_conns s t = None"
| "point_wf s t (Enrolled corr) \<longleftrightarrow> co_conns s t \<noteq> None"
| "point_wf s t AgentWaits \<longleftrightarrow> co_conns s t \<noteq> None"
| "point_wf s t (Verified corr snap) \<longleftrightarrow> (\<exists>c. co_conns s t = Some c \<and> agrees_with c snap)"
| "point_wf s t (AgentChosen corr d best) \<longleftrightarrow> (\<forall>k. best = Some k \<longrightarrow> co_conns s k \<noteq> None)"
| "point_wf s t pt \<longleftrightarrow> True"

lemma fence_agent_cases:
  assumes "fence_agent a s = (changed, s')"
  obtains (same) "s' = s" "\<not> changed"
  | (fenced) k c where "co_conns s k = Some c" "ac_alive c" "changed" "s' = s\<lparr>co_conns := (co_conns s)(k \<mapsto> c\<lparr>ac_alive := False\<rparr>)\<rparr>"
proof (cases "\<exists>k c. om_find (co_agents s) a = Some k \<and> co_conns s k = Some c \<and> ac_alive c")
  case True
  then obtain k c where "om_find (co_agents s) a = Some k" "co_conns s k = Some c" "ac_alive c" by blast
  then show thesis using assms fenced [of k c] by (simp add: fence_agent_def)
next
  case False
  then have "fence_agent a s = (False, s)" by (auto simp: fence_agent_def split: option.split)
  then show thesis using assms same by simp
qed

lemma check_capacity_Inr:
  "check_capacity c corr payload s = Inr snap \<Longrightarrow>
     capacity_refusal s c (fst (get_u64 (byte_reader payload))) snap = None"
  unfolding check_capacity_def
  by (cases "get_u64 (byte_reader payload)"; cases "decode_capacity_update (snd (get_u64 (byte_reader payload)))")
    (simp split: sum.splits option.splits prod.splits)

lemma refusal_agrees: "capacity_refusal s c e snap = None \<Longrightarrow> agrees_with c snap \<and> e = id_value (co_epoch s)"
  by (auto simp: capacity_refusal_def agrees_with_def split: if_splits)

text \<open>What a step of the thread \<open>t\<close> does to the shared state, and where the thread is then.\<close>

lemma client_frame_step_effect:
  assumes "client_frame_step pf now frm s = (sent, s', pt')"
  shows "(\<exists>ops. s' = s\<lparr>co_engine := fold (fabric_exec pf) ops (co_engine s)\<rparr>) \<and> point_wf s' t pt'
    \<and> (\<forall>e. pt' \<noteq> EpochRead e)"
proof (cases "evaluate_request frm")
  case None
  then have "s' = snd (snd (handle_client_frame pf now frm s))" and "pt' = ClientWaits \<or> pt' = ThreadOver"
    using assms by (auto simp: client_frame_step_def split: prod.splits if_splits)
  then show ?thesis using client_frame_engine [of pf now frm s] by auto
next
  case (Some d)
  then have s': "s' = s\<lparr>co_engine := fold (fabric_exec pf) [] (co_engine s)\<rparr>"
    and pt': "pt' = AgentChosen (fst (snd frm)) d (choose_conn d s)"
    using assms by (auto simp: client_frame_step_def)
  have "point_wf s' t pt'" using choose_conn_Some [of d s] by (auto simp: s' pt')
  then show ?thesis using s' pt' by blast
qed

lemma thread_step_cases [consumes 2, case_names engine joins fences stores reads rolls]:
  assumes "thread_step pf now t ev s pt = Some (sent, s', pt')" and "point_wf s t pt"
  obtains (engine) ops where "s' = s\<lparr>co_engine := fold (fabric_exec pf) ops (co_engine s)\<rparr>" "point_wf s' t pt'"
      "\<forall>e. pt \<noteq> EpochRead e" "\<forall>e. pt' \<noteq> EpochRead e"
  | (joins) g corr where "pt = Opened" "s' = joined t g s" "pt' = Enrolled corr"
  | (fences) k c where "pt = AgentWaits" "co_conns s k = Some c" "ac_alive c"
      "s' = s\<lparr>co_conns := (co_conns s)(k \<mapsto> c\<lparr>ac_alive := False\<rparr>)\<rparr>" "pt' = AgentFenced"
  | (stores) c corr snap where "pt = Verified corr snap" "co_conns s t = Some c" "agrees_with c snap" "pt' = AgentWaits"
      "s' = s\<lparr>co_conns := (co_conns s)(t \<mapsto> c\<lparr>ac_snapshot := snap, ac_capacity_generation := id_value (snap_generation snap)\<rparr>)\<rparr>"
  | (reads) "pt = AgentFenced" "s' = s" "pt' = EpochRead (co_epoch s)"
  | (rolls) e where "pt = EpochRead e" "s' = s\<lparr>co_epoch := id_next e\<rparr>" "pt' = ThreadOver"
proof (cases pt)
  case Opened
  show thesis
  proof (cases ev)
    case (Receives frm)
    then have step: "first_frame_step pf now t frm s = (sent, s', pt')"
      using assms(1) Opened by (simp add: thread_step_def)
    obtain res s1 where d: "dispatch t frm s = (res, s1)" by fastforce
    have same: "s1 = s" if "\<And>m. res \<noteq> AgentJoined m"
      using d that by (cases frm) (auto simp: dispatch_def split: if_splits sum.splits prod.splits)
    have idle: "s\<lparr>co_engine := fold (fabric_exec pf) [] (co_engine s)\<rparr> = s" by simp
    show thesis
    proof (cases res)
      case (AgentJoined m)
      have "s1 = s \<or> (\<exists>g. s1 = joined t g s)"
        by (rule dispatch_cases [of t frm s]) (use d in auto)
      moreover have "s1 \<noteq> s"
        using d AgentJoined assms(2) Opened
        by (cases frm) (auto simp: dispatch_def fun_eq_iff split: if_splits sum.splits prod.splits dest: arg_cong [where f = co_conns])
      ultimately obtain g where "s1 = joined t g s" by blast
      then show thesis using joins [of g "fst (snd frm)"] step d AgentJoined Opened by (simp add: first_frame_step_def)
    next
      case ClientJoined
      then have c: "client_frame_step pf now frm s = (sent, s', pt')"
        using step d same by (simp add: first_frame_step_def)
      then show thesis using engine client_frame_step_effect [OF c, of t] Opened by blast
    qed (use engine [of "[]"] step d same Opened idle in \<open>auto simp: first_frame_step_def\<close>)
  next
    case ReceiveFails
    then show thesis using engine [of "[]"] assms(1) Opened by (simp add: thread_step_def)
  qed (use assms Opened in \<open>simp add: thread_step_def\<close>)
next
  case AgentWaits
  then obtain c where c: "co_conns s t = Some c" using assms(2) by auto
  show thesis
  proof (cases ev)
    case (Receives frm)
    then have step: "agent_frame_step t c frm s = (sent, s', pt')"
      using assms(1) AgentWaits c by (simp add: thread_step_def)
    obtain ty corr payload where frm: "frm = (ty, corr, payload)" by (cases frm)
    have "s' = s \<and> (pt' = AgentWaits \<or> (\<exists>snap. check_capacity c corr payload s = Inr snap \<and> pt' = Verified corr snap))"
      using step by (auto simp: agent_frame_step_def frm handle_agent_def split: if_splits sum.splits)
    moreover have "point_wf s t (Verified corr snap)" if "check_capacity c corr payload s = Inr snap" for snap
      using refusal_agrees [OF check_capacity_Inr [OF that]] c by simp
    ultimately show thesis using engine [of "[]"] AgentWaits c by auto
  next
    case ReceiveFails
    obtain changed s1 where f: "fence_agent (ac_id c) s = (changed, s1)" by fastforce
    then have step: "s' = s1" "pt' = (if changed then AgentFenced else ThreadOver)"
      using assms(1) AgentWaits c ReceiveFails by (simp_all add: thread_step_def)
    from f show thesis
    proof (cases rule: fence_agent_cases)
      case same
      then show thesis using engine [of "[]"] step AgentWaits by simp
    next
      case (fenced k c')
      then show thesis using fences [of k c'] step AgentWaits by simp
    qed
  qed (use assms AgentWaits in \<open>simp add: thread_step_def\<close>)
next
  case (Verified corr snap)
  then obtain c where c: "co_conns s t = Some c" "agrees_with c snap" using assms(2) by auto
  show thesis
    using stores [OF Verified c] assms(1) Verified c
    by (cases ev) (simp_all add: thread_step_def store_capacity_def)
next
  case (AgentChosen corr d best)
  have "\<exists>ops. tell_engine now best s = s\<lparr>co_engine := fold (fabric_exec pf) ops (co_engine s)\<rparr>"
  proof (cases "\<exists>k c. best = Some k \<and> co_conns s k = Some c")
    case True
    then show ?thesis by (auto simp: tell_engine_def intro!: exI [of _ "[FabSnapshot (ac_snapshot (the (co_conns s (the best))))]"])
  next
    case False
    then show ?thesis
      using assms(2) AgentChosen
      by (cases best) (auto simp: tell_engine_def intro!: exI [of _ "[FabSnapshot (unavailable_snapshot now (co_epoch s))]"])
  qed
  then show thesis using engine assms(1) AgentChosen by (cases ev) (auto simp: thread_step_def)
next
  case (EngineTold corr d)
  have "snd (evaluate_and_reply pf now corr d s) = s\<lparr>co_engine := fold (fabric_exec pf) [FabEvaluate now d] (co_engine s)\<rparr>"
    by (simp add: evaluate_and_reply_def case_prod_unfold Let_def)
  then show thesis
    using engine [of "[FabEvaluate now d]"] assms(1) EngineTold by (cases ev) (auto simp: thread_step_def split: prod.splits)
next
  case ClientWaits
  show thesis
  proof (cases ev)
    case (Receives frm)
    then have c: "client_frame_step pf now frm s = (sent, s', pt')" using assms(1) ClientWaits by (simp add: thread_step_def)
    then show thesis using engine client_frame_step_effect [OF c, of t] ClientWaits by blast
  qed (use engine [of "[]"] assms(1) ClientWaits in \<open>auto simp: thread_step_def\<close>)
qed (use assms engine [of "[]"] reads rolls in \<open>cases ev; auto simp: thread_step_def\<close>)+

definition machine_wf :: "Machine \<Rightarrow> bool" where
  "machine_wf m \<longleftrightarrow> coord_wf (mc_shared m) \<and> (\<forall>t. point_wf (mc_shared m) t (mc_points m t))"

text \<open>A thread's expectations survive the steps of the others.\<close>

lemma point_wf_fields [simp]:
  "point_wf (s\<lparr>co_engine := f\<rparr>) t pt = point_wf s t pt" "point_wf (s\<lparr>co_epoch := e\<rparr>) t pt = point_wf s t pt"
  by (cases pt; simp)+

lemma point_wf_joined: "point_wf s t pt \<Longrightarrow> t \<noteq> u \<Longrightarrow> point_wf (joined u g s) t pt"
  by (cases pt) (auto simp: joined_def)

lemma agrees_with_fenced [simp]: "agrees_with (c\<lparr>ac_alive := b\<rparr>) snap = agrees_with c snap"
  by (simp add: agrees_with_def)

lemma point_wf_fenced:
  "point_wf s t pt \<Longrightarrow> co_conns s k = Some c \<Longrightarrow> point_wf (s\<lparr>co_conns := (co_conns s)(k \<mapsto> c\<lparr>ac_alive := False\<rparr>)\<rparr>) t pt"
  by (cases pt) auto

lemma point_wf_stored:
  "point_wf s t pt \<Longrightarrow> co_conns s u = Some c \<Longrightarrow> t \<noteq> u \<Longrightarrow> point_wf (s\<lparr>co_conns := (co_conns s)(u \<mapsto> c')\<rparr>) t pt"
  by (cases pt) auto

lemma thread_step_wf:
  assumes "thread_step pf now t ev s pt = Some (sent, s', pt')" and "coord_wf s" "point_wf s t pt"
  shows "coord_wf s' \<and> point_wf s' t pt' \<and> (\<forall>u q. u \<noteq> t \<longrightarrow> point_wf s u q \<longrightarrow> point_wf s' u q)"
  using assms(1,3)
proof (cases rule: thread_step_cases)
  case (joins g corr)
  then have "co_conns s t = None" using assms(3) by simp
  then have "coord_wf s'" using coord_wf_joined [OF assms(2)] joins by simp
  moreover have "point_wf s' t pt'" using joins by (simp add: joined_def)
  ultimately show ?thesis using joins point_wf_joined by blast
next
  case (fences k c)
  then show ?thesis using coord_wf_fenced [OF assms(2) fences(2)] point_wf_fenced [OF _ fences(2)] by auto
next
  case (stores c corr snap)
  then have "coord_wf s'" using coord_wf_stored [OF assms(2) stores(2)] by (simp add: agrees_with_def)
  then show ?thesis using stores point_wf_stored [OF _ stores(2)] by simp
qed (use assms in auto)

lemma thread_step_engine:
  assumes "thread_step pf now t ev s pt = Some (sent, s', pt')" and "point_wf s t pt"
  shows "\<exists>ops. co_engine s' = fold (fabric_exec pf) ops (co_engine s)"
  using assms
proof (cases rule: thread_step_cases)
  case (engine ops)
  then show ?thesis by auto
qed (auto simp: joined_def intro: exI [of _ "[]"])

lemma machine_stepD:
  assumes "machine_step pf (t, now, ev) m = Some (sent, m1)"
  obtains s pt where "thread_step pf now t ev (mc_shared m) (mc_points m t) = Some (sent, s, pt)" "m1 = stands t pt s m"
  using assms that by (auto simp: machine_step_def)

lemma machine_step_wf:
  assumes "machine_step pf (t, now, ev) m = Some (sent, m1)" and "machine_wf m"
  shows "machine_wf m1 \<and> (\<exists>ops. co_engine (mc_shared m1) = fold (fabric_exec pf) ops (co_engine (mc_shared m)))"
  using assms(1)
proof (cases rule: machine_stepD)
  case (1 s pt)
  have wf: "coord_wf (mc_shared m)" "point_wf (mc_shared m) u (mc_points m u)" for u using assms(2) by (simp_all add: machine_wf_def)
  show ?thesis
    using thread_step_wf [OF 1(1) wf] thread_step_engine [OF 1(1) wf(2)] 1(2) wf(2) by (simp add: machine_wf_def)
qed

text \<open>A run is one step, then a run.\<close>

lemma machine_run_Cons:
  assumes "machine_run pf ((t, now, ev) # mvs) m = Some (out, m')"
  obtains sent m1 out1 where "machine_step pf (t, now, ev) m = Some (sent, m1)" "machine_run pf mvs m1 = Some (out1, m')"
  using assms that by (auto simp: machine_run.simps(2) split: option.splits)

lemma machine_run_wf:
  "machine_run pf mvs m = Some (out, m') \<Longrightarrow> machine_wf m \<Longrightarrow>
     machine_wf m' \<and> (\<exists>ops. co_engine (mc_shared m') = fold (fabric_exec pf) ops (co_engine (mc_shared m)))"
proof (induction mvs arbitrary: m out)
  case Nil
  then show ?case by (auto intro: exI [of _ "[]"])
next
  case (Cons mv mvs)
  obtain t now ev where mv: "mv = (t, now, ev)" by (cases mv)
  from Cons.prems(1) [unfolded mv] obtain sent m1 out1
    where step: "machine_step pf (t, now, ev) m = Some (sent, m1)" and rest: "machine_run pf mvs m1 = Some (out1, m')"
    by (rule machine_run_Cons)
  obtain ops1 where 1: "machine_wf m1" "co_engine (mc_shared m1) = fold (fabric_exec pf) ops1 (co_engine (mc_shared m))"
    using machine_step_wf [OF step Cons.prems(2)] by blast
  obtain ops2 where 2: "machine_wf m'" "co_engine (mc_shared m') = fold (fabric_exec pf) ops2 (co_engine (mc_shared m1))"
    using Cons.IH [OF rest 1(1)] by blast
  have "co_engine (mc_shared m') = fold (fabric_exec pf) (ops1 @ ops2) (co_engine (mc_shared m))" by (simp add: 1(2) 2(2))
  then show ?case using 2(1) by blast
qed

lemma machine_start_wf: "machine_wf (machine_start f)"
  by (simp add: machine_wf_def machine_start_def coord_wf_def coordinator_start_def)

text \<open>C14: in whatever order the sections of the threads interleave, from a coordinator that starts on any state of
  the engine's own runs: the agent table is ordered by id and names existing connections of the right agents, every snapshot
  is the initial one or was sent by that agent and boot and carries the generation that is checked, the engine is in a state
  of its own runs, so its accounts balance; and an update that has passed its checks still belongs to its connection and
  still has a newer generation when it is stored.\<close>

theorem interleavings_keep_invariant:
  assumes "machine_run pf mvs (machine_start (fabric_run pf ops)) = Some (out, m)"
  shows "om_ok (co_agents (mc_shared m))
    \<and> (\<forall>a k. om_find (co_agents (mc_shared m)) a = Some k \<longrightarrow> (\<exists>c. co_conns (mc_shared m) k = Some c \<and> ac_id c = a))
    \<and> (\<forall>k c. co_conns (mc_shared m) k = Some c \<longrightarrow> id_value (snap_generation (ac_snapshot c)) = ac_capacity_generation c
         \<and> (ac_snapshot c = default_snapshot
            \<or> snap_agent_id (ac_snapshot c) = ac_id c \<and> snap_boot_id (ac_snapshot c) = ac_boot c))
    \<and> (\<exists>ops'. co_engine (mc_shared m) = fabric_run pf ops')
    \<and> (\<forall>t corr snap. mc_points m t = Verified corr snap \<longrightarrow> (\<exists>c. co_conns (mc_shared m) t = Some c
         \<and> snap_agent_id snap = ac_id c \<and> snap_boot_id snap = ac_boot c
         \<and> (ac_capacity_generation c = 0 \<or> ac_capacity_generation c < id_value (snap_generation snap))))"
proof -
  obtain ops2 where wf: "machine_wf m" and eng: "co_engine (mc_shared m) = fold (fabric_exec pf) ops2 (fabric_run pf ops)"
    using machine_run_wf [OF assms machine_start_wf] by (auto simp: machine_start_def coordinator_start_def)
  have "point_wf (mc_shared m) t (mc_points m t)" for t using wf by (simp add: machine_wf_def)
  then have "\<exists>c. co_conns (mc_shared m) t = Some c \<and> agrees_with c snap" if "mc_points m t = Verified corr snap" for t corr snap
    using that by (metis point_wf.simps(4))
  moreover have "\<exists>ops'. co_engine (mc_shared m) = fabric_run pf ops'" using eng fabric_run_more by metis
  ultimately show ?thesis using wf by (auto simp: machine_wf_def coord_wf_def conn_wf_def agrees_with_def)
qed

theorem interleavings_keep_invariant_witness:
  "\<exists>mvs out. machine_run demo_platform mvs (machine_start (fabric_run demo_platform [])) = Some (out, demo_agents)
     \<and> om_ok (co_agents (mc_shared demo_agents))"
proof -
  have "fabric_run demo_platform [] = fabric_empty" by (simp add: fabric_run_def)
  then obtain mvs out where "machine_run demo_platform mvs (machine_start (fabric_run demo_platform [])) = Some (out, demo_agents)"
    using demo_agents_reached by metis
  with interleavings_keep_invariant [OF this] show ?thesis by blast
qed

end
