(* ===== verification/Races.thy ===== *)
theory Races
  imports Threads_Spec
begin

text \<open>
  Three outcomes of the coordinator that its lock does not exclude, each as a schedule: overlapping losses set the
  epoch back, a request is answered on the snapshot chosen for another, and on the snapshot of an agent that was lost
  meanwhile. And what a lock around the roll of the epoch would give.
\<close>

section \<open>The epoch\<close>

text \<open>At most one thread is between the read and the write of the epoch, before and after every step.\<close>

definition one_roller :: "Machine \<Rightarrow> bool" where
  "one_roller m \<longleftrightarrow> (\<forall>t u e f. mc_points m t = EpochRead e \<and> mc_points m u = EpochRead f \<longrightarrow> t = u)"

fun serial_run :: "platform \<Rightarrow> (nat \<times> i64 \<times> thread_event) list \<Rightarrow> Machine \<Rightarrow> bool" where
  "serial_run pf [] m = one_roller m"
| "serial_run pf (mv # mvs) m =
     (one_roller m \<and> (case machine_step pf mv m of None \<Rightarrow> True | Some (_, m1) \<Rightarrow> serial_run pf mvs m1))"

lemma serial_run_one: "serial_run pf mvs m \<Longrightarrow> one_roller m"
  by (cases mvs) simp_all

definition rolls_current :: "Machine \<Rightarrow> bool" where
  "rolls_current m \<longleftrightarrow> (\<forall>t e. mc_points m t = EpochRead e \<longrightarrow> e = co_epoch (mc_shared m))"

lemma serial_step:
  assumes "machine_step pf (t, now, ev) m = Some (sent, m1)" and "machine_wf m" and "one_roller m" and "rolls_current m"
  shows "rolls_current m1 \<and> co_epoch (mc_shared m) \<le> co_epoch (mc_shared m1)"
  using assms(1)
proof (cases rule: machine_stepD)
  case (1 s pt)
  have "point_wf (mc_shared m) t (mc_points m t)" using assms(2) by (simp add: machine_wf_def)
  with 1(1) show ?thesis
  proof (cases rule: thread_step_cases)
    case (rolls e)
    have "mc_points m u \<noteq> EpochRead f" if "u \<noteq> t" for u f using assms(3) rolls(1) that by (auto simp: one_roller_def)
    moreover have "e = co_epoch (mc_shared m)" using assms(4) rolls(1) by (auto simp: rolls_current_def)
    ultimately show ?thesis using 1(2) rolls by (simp add: rolls_current_def)
  qed (use 1(2) assms(4) in \<open>auto simp: rolls_current_def joined_def\<close>)
qed

lemma serial_run_epoch:
  "machine_run pf mvs m = Some (out, m') \<Longrightarrow> serial_run pf mvs m \<Longrightarrow> machine_wf m \<Longrightarrow> rolls_current m \<Longrightarrow>
     co_epoch (mc_shared m) \<le> co_epoch (mc_shared m')"
proof (induction mvs arbitrary: m out)
  case Nil
  then show ?case by simp
next
  case (Cons mv mvs)
  obtain t now ev where mv: "mv = (t, now, ev)" by (cases mv)
  from Cons.prems(1) [unfolded mv] obtain sent m1 out1
    where step: "machine_step pf (t, now, ev) m = Some (sent, m1)" and rest: "machine_run pf mvs m1 = Some (out1, m')"
    by (rule machine_run_Cons)
  have "one_roller m" "serial_run pf mvs m1" using Cons.prems(2) step by (simp_all add: mv)
  moreover have "machine_wf m1" using machine_step_wf [OF step Cons.prems(3)] by blast
  ultimately show ?case
    using serial_step [OF step Cons.prems(3)] Cons.prems(4) Cons.IH [OF rest] by (meson order_trans)
qed

text \<open>If the read and the write of the epoch were one section, so that no two threads are between them at once, the
  epoch would never decrease, whatever else interleaves; so an update that carries an epoch from before the present one
  would be refused as stale for good, on every connection.\<close>

theorem serial_rolls_keep_epoch:
  assumes "machine_wf m" and "rolls_current m" and "machine_run pf mvs m = Some (out, m')" and "serial_run pf mvs m"
    and "e < id_value (co_epoch (mc_shared m))"
  shows "co_epoch (mc_shared m) \<le> co_epoch (mc_shared m')
    \<and> capacity_refusal (mc_shared m') c e snap = Some (ErrorCode_StaleEpoch, ''stale coordinator epoch'')"
proof -
  have "co_epoch (mc_shared m) \<le> co_epoch (mc_shared m')" by (rule serial_run_epoch [OF assms(3,4,1,2)])
  moreover from this have "e \<noteq> id_value (co_epoch (mc_shared m'))"
    using assms(5) by (auto simp: less_eq_Id_def less_Id_def)
  ultimately show ?thesis by (simp add: capacity_refusal_def)
qed

text \<open>An agent's thread that waits, with its agent live in the table.\<close>

definition serves_live :: "Machine \<Rightarrow> nat \<Rightarrow> AgentConn \<Rightarrow> bool" where
  "serves_live m t c \<longleftrightarrow> mc_points m t = AgentWaits \<and> co_conns (mc_shared m) t = Some c
     \<and> om_find (co_agents (mc_shared m)) (ac_id c) = Some t \<and> ac_alive c"

lemma serves_live_fence:
  "serves_live m t c \<Longrightarrow> thread_step pf now t ReceiveFails (mc_shared m) (mc_points m t)
     = Some (None, (mc_shared m)\<lparr>co_conns := (co_conns (mc_shared m))(t \<mapsto> c\<lparr>ac_alive := False\<rparr>)\<rparr>, AgentFenced)"
  by (simp add: serves_live_def thread_step_def fence_agent_def)

text \<open>The parts of the schedules: an agent's loss up to the read of the epoch, and a whole one.\<close>

definition fenced_conn :: "nat \<Rightarrow> AgentConn \<Rightarrow> Coordinator \<Rightarrow> Coordinator" where
  "fenced_conn t c s = s\<lparr>co_conns := (co_conns s)(t \<mapsto> c\<lparr>ac_alive := False\<rparr>)\<rparr>"

lemma fenced_conn_epoch [simp]: "co_epoch (fenced_conn t c s) = co_epoch s"
  by (simp add: fenced_conn_def)

lemma loss_reads:
  "serves_live m t c \<Longrightarrow> machine_run pf [(t, now, ReceiveFails), (t, now, Continues)] m
     = Some ([], stands t (EpochRead (co_epoch (mc_shared m))) (fenced_conn t c (mc_shared m)) m)"
  by (simp add: machine_run_step [OF serves_live_fence] machine_run_step thread_step_def fenced_conn_def)

lemma loss_rolls:
  "serves_live m t c \<Longrightarrow> machine_run pf [(t, now, ReceiveFails), (t, now, Continues), (t, now, Continues)] m
     = Some ([], stands t ThreadOver ((fenced_conn t c (mc_shared m))\<lparr>co_epoch := id_next (co_epoch (mc_shared m))\<rparr>) m)"
  by (simp add: machine_run_step [OF serves_live_fence] machine_run_step thread_step_def fenced_conn_def)

lemma loss_is_serial:
  assumes "serves_live m t c" and "\<And>u e. mc_points m u \<noteq> EpochRead e"
  shows "serial_run pf [(t, now, ReceiveFails), (t, now, Continues), (t, now, Continues)] m"
  using assms by (simp add: serves_live_def machine_step_def thread_step_def fence_agent_def one_roller_def)

lemma serves_live_others:
  assumes "serves_live m u c" "u \<noteq> t"
  shows "serves_live (stands t pt ((fenced_conn t c' (mc_shared m))\<lparr>co_epoch := e\<rparr>) m) u c"
    and "serves_live (stands t pt (fenced_conn t c' (mc_shared m)) m) u c"
  using assms by (simp_all add: serves_live_def fenced_conn_def)

text \<open>C39: the roll of the epoch is a read and a write without the lock. When three live agents are lost, the first
  thread reads the epoch, the two others roll it twice, and then the first writes: the epoch goes back by one. An update
  with the epoch that the third loss has made invalid, refused as stale before, passes again on every connection.\<close>

theorem overlapping_losses_revive_epoch:
  assumes "serves_live m t1 c1" "serves_live m t2 c2" "serves_live m t3 c3" and "distinct [t1, t2, t3]"
    and "id_value (co_epoch (mc_shared m)) < u64_max - 1" and "agrees_with c snap"
    and "old = id_next (co_epoch (mc_shared m))"
  shows "\<exists>m1 m2. machine_run pf
        [(t1, now, ReceiveFails), (t1, now, Continues), (t2, now, ReceiveFails), (t2, now, Continues), (t2, now, Continues),
         (t3, now, ReceiveFails), (t3, now, Continues), (t3, now, Continues)] m = Some ([], m1)
    \<and> machine_run pf [(t1, now, Continues)] m1 = Some ([], m2)
    \<and> co_epoch (mc_shared m1) = id_next old \<and> co_epoch (mc_shared m2) = old \<and> old < id_next old
    \<and> capacity_refusal (mc_shared m1) c (id_value old) snap = Some (ErrorCode_StaleEpoch, ''stale coordinator epoch'')
    \<and> capacity_refusal (mc_shared m2) c (id_value old) snap = None"
proof -
  let ?e = "co_epoch (mc_shared m)"
  let ?a = "stands t1 (EpochRead ?e) (fenced_conn t1 c1 (mc_shared m)) m"
  let ?b = "stands t2 ThreadOver ((fenced_conn t2 c2 (mc_shared ?a))\<lparr>co_epoch := id_next ?e\<rparr>) ?a"
  let ?m1 = "stands t3 ThreadOver ((fenced_conn t3 c3 (mc_shared ?b))\<lparr>co_epoch := id_next (id_next ?e)\<rparr>) ?b"
  let ?m2 = "stands t1 ThreadOver ((mc_shared ?m1)\<lparr>co_epoch := id_next ?e\<rparr>) ?m1"
  have ne: "t2 \<noteq> t1" "t3 \<noteq> t1" "t3 \<noteq> t2" "t1 \<noteq> t2" "t1 \<noteq> t3" using assms(4) by auto
  have live2: "serves_live ?a t2 c2" and live3: "serves_live ?b t3 c3"
    using serves_live_others assms(2,3) ne by metis+
  note 1 = machine_run_silent [OF loss_reads [OF assms(1)], of pf now]
  note 2 = machine_run_silent [OF loss_rolls [OF live2], of pf now]
  have run1: "machine_run pf [(t1, now, ReceiveFails), (t1, now, Continues), (t2, now, ReceiveFails), (t2, now, Continues),
      (t2, now, Continues), (t3, now, ReceiveFails), (t3, now, Continues), (t3, now, Continues)] m = Some ([], ?m1)"
    using 1 2 loss_rolls [OF live3, of pf now] by simp
  have run2: "machine_run pf [(t1, now, Continues)] ?m1 = Some ([], ?m2)"
    using ne by (simp add: machine_run_step thread_step_def)
  have "id_value ?e \<noteq> u64_max" using assms(5) by (auto simp: u64_max_def)
  moreover from this have "id_value ?e + 1 \<noteq> u64_max" using assms(5) by (metis add_diff_cancel_right' less_irrefl)
  ultimately have "old < id_next old"
    by (intro id_next_greater) (simp add: assms(7) id_next_def)
  then have "id_value old \<noteq> id_value (id_next old)" by (auto simp: less_Id_def)
  then have "capacity_refusal (mc_shared ?m1) c (id_value old) snap = Some (ErrorCode_StaleEpoch, ''stale coordinator epoch'')"
    by (simp add: capacity_refusal_def assms(7))
  moreover have "capacity_refusal (mc_shared ?m2) c (id_value old) snap = None"
    using assms(6) by (auto simp: capacity_refusal_def agrees_with_def assms(7))
  ultimately show ?thesis
    using run1 run2 \<open>old < id_next old\<close>
    by - (rule exI [of _ ?m1], rule exI [of _ ?m2], simp add: assms(7))
qed

text \<open>The three agents of the example. After the loss of agent 2 the epoch 1 is refused for good, also after the loss of
  agent 3.\<close>

lemma demo_agents_serve: "n \<in> {1, 2, 3} \<Longrightarrow> serves_live demo_agents n (demo_agent_conn n)"
  by (auto simp: serves_live_def demo_agents_def demo_agent_conn_def demo_conn_def coordinator_start_def)

lemma demo_agents_wf: "machine_wf demo_agents"
  using demo_agents_reached [of demo_platform] machine_run_wf [OF _ machine_start_wf] by blast

lemma demo_agents_idle: "rolls_current demo_agents" "mc_points demo_agents t \<noteq> EpochRead e"
    "co_epoch (mc_shared demo_agents) = Id 1"
  by (simp_all add: rolls_current_def demo_agents_def coordinator_start_def)

theorem serial_rolls_keep_epoch_witness:
  "\<exists>m m'. machine_run demo_platform [(2, 0, ReceiveFails), (2, 0, Continues), (2, 0, Continues)] demo_agents = Some ([], m)
     \<and> machine_run demo_platform [(3, 0, ReceiveFails), (3, 0, Continues), (3, 0, Continues)] m = Some ([], m')
     \<and> capacity_refusal (mc_shared m') demo_conn 1 demo_snapshot = Some (ErrorCode_StaleEpoch, ''stale coordinator epoch'')"
proof -
  let ?c = demo_agent_conn
  let ?m = "stands 2 ThreadOver ((fenced_conn 2 (?c 2) (mc_shared demo_agents))\<lparr>co_epoch := id_next (co_epoch (mc_shared demo_agents))\<rparr>) demo_agents"
  let ?loss = "[(3, 0, ReceiveFails), (3, 0, Continues), (3, 0, Continues)]"
  have run: "machine_run demo_platform [(2, 0, ReceiveFails), (2, 0, Continues), (2, 0, Continues)] demo_agents = Some ([], ?m)"
    by (rule loss_rolls) (simp add: demo_agents_serve)
  have live: "serves_live ?m 3 (?c 3)"
    by (rule serves_live_others(1) [OF demo_agents_serve]) simp_all
  from loss_rolls [OF this, of demo_platform 0] obtain m' where run': "machine_run demo_platform ?loss ?m = Some ([], m')" by blast
  have wf: "machine_wf ?m" using machine_run_wf [OF run demo_agents_wf] by blast
  have cur: "rolls_current ?m" using demo_agents_idle by (simp add: rolls_current_def)
  have "serial_run demo_platform ?loss ?m" by (rule loss_is_serial [OF live]) (simp add: demo_agents_idle(2))
  moreover have "1 < id_value (co_epoch (mc_shared ?m))"
    by (simp add: demo_agents_idle(3) id_next_def u64_max_def)
  ultimately show ?thesis
    using serial_rolls_keep_epoch [OF wf cur run', where e = 1 and c = demo_conn and snap = demo_snapshot] run run' by blast
qed

theorem overlapping_losses_revive_epoch_witness:
  "\<exists>mvs m2. machine_run demo_platform mvs demo_agents = Some ([], m2)
     \<and> co_epoch (mc_shared m2) = Id 2
     \<and> capacity_refusal (mc_shared m2) demo_conn 2
          (default_snapshot\<lparr>snap_agent_id := Id 7, snap_boot_id := Id 1, snap_generation := Id 1\<rparr>) = None"
proof -
  let ?snap = "default_snapshot\<lparr>snap_agent_id := Id 7, snap_boot_id := Id 1, snap_generation := Id 1\<rparr>"
  have "agrees_with demo_conn ?snap" by (simp add: agrees_with_def demo_conn_def)
  moreover have "id_value (co_epoch (mc_shared demo_agents)) < u64_max - 1"
    by (simp add: demo_agents_idle(3) u64_max_numeral)
  moreover have old: "Id 2 = id_next (co_epoch (mc_shared demo_agents))" by (simp add: demo_agents_idle(3) id_next_def u64_max_def)
  ultimately obtain a b m1 m2 where "machine_run demo_platform a demo_agents = Some ([], m1)"
    "machine_run demo_platform b m1 = Some ([], m2)" "co_epoch (mc_shared m2) = Id 2"
    "capacity_refusal (mc_shared m2) demo_conn (id_value (Id 2 :: CoordinatorEpoch)) ?snap = None"
    using overlapping_losses_revive_epoch [OF demo_agents_serve demo_agents_serve demo_agents_serve, of 1 2 3 demo_conn ?snap "Id 2"
        demo_platform 0] by fastforce
  then show ?thesis using machine_run_silent [of demo_platform a demo_agents m1 b] by (intro exI [of _ "a @ b"] exI [of _ m2]) simp
qed

section \<open>Evaluations\<close>

lemma told_twice: "set_snapshot a (set_snapshot b f) = set_snapshot a f"
  by (simp add: set_snapshot_def rm_set_total_def)

lemma offered_engine [simp]:
  "offered_snapshot now d (s\<lparr>co_engine := f\<rparr>) = offered_snapshot now d s" "choose_conn d (s\<lparr>co_engine := f\<rparr>) = choose_conn d s"
  by (simp_all add: offered_snapshot_def choose_snapshot_def choose_agent_def choose_conn_def split: option.split)

lemma told_after:
  "tell_engine now (choose_conn d s) (s\<lparr>co_engine := f\<rparr>) = s\<lparr>co_engine := set_snapshot (offered_snapshot now d s) f\<rparr>"
  using told_snapshot [of now d "s\<lparr>co_engine := f\<rparr>"] by simp

text \<open>No request is admitted on the snapshot that stands for no agent.\<close>

lemma unavailable_never_admits:
  assumes "fst (fabric_evaluate pf now d (set_snapshot (unavailable_snapshot at_time ep) f)) = Inr dec"
  shows "\<not> is_admit dec"
proof -
  let ?s = "set_snapshot (unavailable_snapshot at_time ep) f"
  show ?thesis
  proof (cases rule: evaluate_outcome [where d = d and s = ?s and now = now and pf = pf])
    case (refused dec' sp)
    then show ?thesis using assms by (auto simp: is_admit_def)
  next
    case (granted base pol m dec')
    have "snapshot_gate now d pol (bound now d pol ?s)" using granted(4) by (simp add: gates_def)
    moreover have "af_has_snapshot (bound now d pol ?s)" "af_snapshot (bound now d pol ?s) = unavailable_snapshot at_time ep"
      by (simp_all add: set_snapshot_def bound_def entered_def)
    ultimately show ?thesis using unavailable_snapshot_blocks by (simp add: snapshot_gate_def)
  qed
qed

text \<open>C40: the engine is told the chosen snapshot and asked to evaluate in two calls, with no lock around them. When the
  request of a second client comes in between, the first client's reply is the decision of its request on the snapshot
  chosen for the second; and when the second request suits no agent, the first is never admitted, whatever agents are free.\<close>

theorem answered_on_other_choice:
  assumes "mc_points m t1 = ClientWaits" "mc_points m t2 = ClientWaits" "t1 \<noteq> t2"
    and "evaluate_request frm1 = Some d1" "evaluate_request frm2 = Some d2"
  shows "\<exists>dec m'. machine_run pf [(t1, now, Receives frm1), (t1, now, Continues), (t2, now, Receives frm2),
        (t2, now, Continues), (t1, now, Continues)] m
      = Some ([(t1, (wire_value WireType_EvaluateResponse, fst (snd frm1), encode_evaluate_response dec 0))], m')
    \<and> fst (fabric_evaluate pf now d1 (set_snapshot (offered_snapshot now d2 (mc_shared m)) (co_engine (mc_shared m)))) = Inr dec
    \<and> (choose_snapshot d2 (mc_shared m) = None \<longrightarrow> \<not> is_admit dec)"
proof -
  let ?s = "mc_shared m"
  let ?f = "set_snapshot (offered_snapshot now d2 ?s) (co_engine ?s)"
  obtain dec where dec: "fst (fabric_evaluate pf now d1 ?f) = Inr dec"
    by (cases rule: evaluate_outcome [where d = d1 and s = ?f and now = now and pf = pf]) auto
  then obtain f where eval: "fabric_evaluate pf now d1 ?f = (Inr dec, f)" by (metis prod.collapse)
  have "\<not> is_admit dec" if "choose_snapshot d2 ?s = None"
    using dec that unavailable_never_admits by (simp add: offered_snapshot_def)
  moreover obtain m' where "machine_run pf [(t1, now, Receives frm1), (t1, now, Continues), (t2, now, Receives frm2),
      (t2, now, Continues), (t1, now, Continues)] m
      = Some ([(t1, (wire_value WireType_EvaluateResponse, fst (snd frm1), encode_evaluate_response dec 0))], m')"
    using assms
    by (simp add: machine_run_step thread_step_def client_frame_step_def told_snapshot told_after told_twice evaluate_and_reply_def
        eval del: wire_value.simps)
  ultimately show ?thesis using dec by (intro exI [of _ dec] exI [of _ m']) simp
qed

text \<open>The example's request alone would be admitted; beside one that no agent suits it is not.\<close>

definition demo_frame :: "AdmissionDescriptor \<Rightarrow> message" where
  "demo_frame d = (wire_value WireType_EvaluateRequest, 5, encode_evaluate_request d)"

lemma demo_frame_request: "descriptor_encodable d \<Longrightarrow> evaluate_request (demo_frame d) = Some d"
proof -
  assume e: "descriptor_encodable d"
  have "decode_evaluate_request (byte_reader (encode_evaluate_request d)) = (Inr d, reader_at (encode_descriptor d) [])"
    using reads_apply [OF reads_descriptor [OF e], of "[]" "[]"]
    by (simp add: decode_evaluate_request_def encode_evaluate_request_def byte_reader_at)
  moreover have "wire_of_value (wire_value WireType_EvaluateRequest) = WireType_EvaluateRequest" by code_simp
  ultimately show ?thesis by (simp add: evaluate_request_def demo_frame_def del: wire_value.simps)
qed

lemma demo_frame_corr [simp]: "fst (snd (demo_frame d)) = 5"
  by (simp add: demo_frame_def)

lemma demo_alone:
  "\<exists>dec. fst (client_evaluate demo_platform 0 5 demo_descriptor (demo_live demo_platform))
     = (wire_value WireType_EvaluateResponse, 5, encode_evaluate_response dec 0) \<and> is_admit dec"
proof -
  obtain dec where "fst (fabric_evaluate demo_platform 0 demo_descriptor (fabric_run demo_platform demo_setup)) = Inr dec" "is_admit dec"
    using demo_admitted by blast
  then show ?thesis
    using demo_live_engine [of demo_platform]
    by (intro exI [of _ dec]) (simp add: client_evaluate_def case_prod_unfold Let_def flip: offered_snapshot_def del: wire_value.simps)
qed

lemma demo_other_encodable: "descriptor_encodable (demo_descriptor\<lparr>d_backend := ''tpu''\<rparr>)"
  using demo_descriptor_encodable by (simp add: descriptor_encodable_def string_ok_def)

theorem answered_on_other_choice_witness:
  "\<exists>dec dec' m'. machine_run demo_platform [(0, 0, Receives (demo_frame demo_descriptor)), (0, 0, Continues),
       (1, 0, Receives (demo_frame (demo_descriptor\<lparr>d_backend := ''tpu''\<rparr>))), (1, 0, Continues), (0, 0, Continues)]
       \<lparr>mc_shared = demo_live demo_platform, mc_points = (\<lambda>_. ClientWaits)\<rparr>
     = Some ([(0, (wire_value WireType_EvaluateResponse, 5, encode_evaluate_response dec 0))], m') \<and> \<not> is_admit dec
     \<and> fst (client_evaluate demo_platform 0 5 demo_descriptor (demo_live demo_platform))
         = (wire_value WireType_EvaluateResponse, 5, encode_evaluate_response dec' 0) \<and> is_admit dec'"
proof -
  let ?m = "\<lparr>mc_shared = demo_live demo_platform, mc_points = (\<lambda>_. ClientWaits)\<rparr>"
  let ?d = "demo_descriptor\<lparr>d_backend := ''tpu''\<rparr>"
  have "choose_snapshot ?d (mc_shared ?m) = None"
    by (simp add: choose_snapshot_def choose_agent_def choose_step_def usable_agent_def demo_live_def required_caps_def
        demo_descriptor_def default_descriptor_def cap_add_def cap_contains_all_def cap_contains_def demo_snapshot_def
        default_snapshot_def)
  moreover have "mc_points ?m 0 = ClientWaits" "mc_points ?m 1 = ClientWaits" "(0::nat) \<noteq> 1" by simp_all
  moreover note answered_on_other_choice [OF this demo_frame_request [OF demo_descriptor_encodable]
      demo_frame_request [OF demo_other_encodable], of demo_platform 0, unfolded demo_frame_corr]
  ultimately obtain dec m' where "machine_run demo_platform [(0, 0, Receives (demo_frame demo_descriptor)), (0, 0, Continues),
       (1, 0, Receives (demo_frame ?d)), (1, 0, Continues), (0, 0, Continues)] ?m
     = Some ([(0, (wire_value WireType_EvaluateResponse, 5, encode_evaluate_response dec 0))], m')" "\<not> is_admit dec"
    by blast
  then show ?thesis using demo_alone by blast
qed

text \<open>A request for which an agent was chosen is answered on that agent's last snapshot also when the agent has
  been lost before the engine is told: the reply is the one for the live agent, admissions included, while the agent is
  fenced and the epoch rolled.\<close>

theorem answered_on_lost_agent:
  assumes "mc_points m t = ClientWaits" and "evaluate_request frm = Some d"
    and "choose_conn d (mc_shared m) = Some k" and "serves_live m k c"
  shows "\<exists>m'. machine_run pf [(t, now, Receives frm), (k, now, ReceiveFails), (k, now, Continues), (k, now, Continues),
        (t, now, Continues), (t, now, Continues)] m
      = Some ([(t, fst (client_evaluate pf now (fst (snd frm)) d (mc_shared m)))], m')
    \<and> (\<exists>c'. co_conns (mc_shared m') k = Some c' \<and> \<not> ac_alive c') \<and> co_epoch (mc_shared m') = id_next (co_epoch (mc_shared m))"
proof -
  let ?s = "mc_shared m"
  let ?a = "stands t (AgentChosen (fst (snd frm)) d (Some k)) ?s m"
  let ?s1 = "(fenced_conn k c ?s)\<lparr>co_epoch := id_next (co_epoch ?s)\<rparr>"
  let ?b = "stands k ThreadOver ?s1 ?a"
  have conn: "co_conns ?s k = Some c" and ne: "k \<noteq> t" using assms(1,4) by (auto simp: serves_live_def)
  have live: "serves_live ?a k c" using assms(4) ne by (simp add: serves_live_def)
  have first: "machine_run pf [(t, now, Receives frm)] m = Some ([], ?a)"
    using assms(1-3) by (simp add: machine_run_step thread_step_def client_frame_step_def)
  have offered: "offered_snapshot now d ?s = ac_snapshot c"
    by (simp add: offered_snapshot_def choose_snapshot_def choose_conn_agent assms(3) conn)
  have "evaluate_and_reply pf now (fst (snd frm)) d (tell_engine now (Some k) ?s1)
      = (fst (client_evaluate pf now (fst (snd frm)) d ?s), ?s1\<lparr>co_engine := co_engine (snd (client_evaluate pf now (fst (snd frm)) d ?s))\<rparr>)"
    unfolding client_evaluate_split told_snapshot offered
    by (simp add: tell_engine_def fenced_conn_def evaluate_and_reply_def case_prod_unfold Let_def)
  then have last: "\<exists>m'. machine_run pf [(t, now, Continues), (t, now, Continues)] ?b
      = Some ([(t, fst (client_evaluate pf now (fst (snd frm)) d ?s))], m')
    \<and> mc_shared m' = ?s1\<lparr>co_engine := co_engine (snd (client_evaluate pf now (fst (snd frm)) d ?s))\<rparr>"
    using ne by (simp add: machine_run_step thread_step_def)
  note 1 = machine_run_silent [OF first, of "[(k, now, ReceiveFails), (k, now, Continues), (k, now, Continues),
      (t, now, Continues), (t, now, Continues)]"]
  note 2 = machine_run_silent [OF loss_rolls [OF live, of pf now], of "[(t, now, Continues), (t, now, Continues)]"]
  show ?thesis
    using last 1 2 by (fastforce simp: fenced_conn_def)
qed

theorem answered_on_lost_agent_witness:
  "\<exists>dec m'. machine_run demo_platform [(5, 0, Receives (demo_frame demo_descriptor)), (0, 0, ReceiveFails), (0, 0, Continues),
       (0, 0, Continues), (5, 0, Continues), (5, 0, Continues)]
       \<lparr>mc_shared = demo_live demo_platform, mc_points = (\<lambda>_. ClientWaits)(0 := AgentWaits)\<rparr>
     = Some ([(5, (wire_value WireType_EvaluateResponse, 5, encode_evaluate_response dec 0))], m') \<and> is_admit dec
     \<and> (\<exists>c'. co_conns (mc_shared m') 0 = Some c' \<and> \<not> ac_alive c')"
proof -
  let ?m = "\<lparr>mc_shared = demo_live demo_platform, mc_points = (\<lambda>_. ClientWaits)(0 := AgentWaits)\<rparr>"
  have c: "choose_conn demo_descriptor (mc_shared ?m) = Some 0" "co_conns (mc_shared ?m) 0 \<noteq> None"
    by (simp_all add: choose_conn_def choose_conn_step_def usable_agent_def demo_live_def required_caps_def
        demo_descriptor_def default_descriptor_def cap_contains_all_def)
  then obtain c where live: "serves_live ?m 0 c"
    by (auto simp: serves_live_def demo_live_def)
  have w: "mc_points ?m 5 = ClientWaits" by simp
  obtain dec where dec: "fst (client_evaluate demo_platform 0 5 demo_descriptor (demo_live demo_platform))
      = (wire_value WireType_EvaluateResponse, 5, encode_evaluate_response dec 0)" "is_admit dec"
    using demo_alone by blast
  from answered_on_lost_agent [OF w demo_frame_request [OF demo_descriptor_encodable] c(1) live, of demo_platform 0]
  obtain m' where run: "machine_run demo_platform [(5, 0, Receives (demo_frame demo_descriptor)), (0, 0, ReceiveFails), (0, 0, Continues),
       (0, 0, Continues), (5, 0, Continues), (5, 0, Continues)] ?m
     = Some ([(5, (wire_value WireType_EvaluateResponse, 5, encode_evaluate_response dec 0))], m')"
    and lost: "\<exists>c'. co_conns (mc_shared m') 0 = Some c' \<and> \<not> ac_alive c'"
    using dec(1) by (auto simp del: wire_value.simps)
  show ?thesis by (rule exI [of _ dec], rule exI [of _ m']) (use run lost dec(2) in simp)
qed

end
