(* ===== verification/Conversation.thy ===== *)
theory Conversation
  imports Programs_Spec Examples_Spec Sockets_Spec
begin

text \<open>
  The whole conversation of an agent with the coordinator, through the sockets of both: registration, one capacity
  report, and the loop. With it, the agent program and the distributed example end as they should.
\<close>

section \<open>Two exchanges on one connection\<close>

lemma dispatch_joins:
  assumes "register_valid g" "\<not> boot_conflict g s"
    and "dispatch cid (wire_value WireType_RegisterAgent, 0, encode_register g) s = (res, s1)" "reply_message res = Some (ty, corr, body)"
  shows "ty = wire_value WireType_AgentRegistered" "body = put_u64 (id_value (co_epoch s))" "s1 = joined cid g s"
  using assms by (auto simp: dispatch_register [OF assms(1)] reply_message_def simp del: wire_value.simps)

lemma fresh_update_accepted:
  assumes "snapshot_encodable snap" "snap_agent_id snap = rg_agent g" "snap_boot_id snap = rg_boot g"
    and "co_conns (joined cid g s) cid = Some c"
    and "handle_agent cid c (wire_value WireType_CapacityUpdate, 0, put_u64 (id_value (co_epoch s)) @ encode_capacity_update snap)
           (joined cid g s) = ((ty, corr, body), s2)"
  shows "ty = wire_value WireType_CapacityAccepted" "body = put_u64 (id_value (snap_generation snap))"
    "s2 = (joined cid g s)\<lparr>co_conns := (co_conns (joined cid g s))(cid \<mapsto>
        c\<lparr>ac_snapshot := snap, ac_capacity_generation := id_value (snap_generation snap)\<rparr>)\<rparr>"
proof -
  have "capacity_refusal (joined cid g s) c (id_value (co_epoch s)) snap = None"
    using assms(2-4) by (auto simp: capacity_refusal_def joined_def)
  then show "ty = wire_value WireType_CapacityAccepted" "body = put_u64 (id_value (snap_generation snap))"
    "s2 = (joined cid g s)\<lparr>co_conns := (co_conns (joined cid g s))(cid \<mapsto>
        c\<lparr>ac_snapshot := snap, ac_capacity_generation := id_value (snap_generation snap)\<rparr>)\<rparr>"
    using assms(5) unfolding capacity_update_wire [OF assms(1)] by simp_all
qed

text \<open>The agent's two calls, when the coordinator handles the frames that they send and its replies are what they receive.\<close>

lemma agent_talks:
  assumes "register_valid (agent_registration a)" "snapshot_encodable snap" "\<not> boot_conflict (agent_registration a) s"
    and "snap_agent_id snap = ag_id a" "snap_boot_id snap = ag_boot a"
    and "dispatch cid (wire_value WireType_RegisterAgent, 0, encode_register (agent_registration a)) s = (res, s1)"
    and "reply_message res = Some (ty1, corr1, body1)" and "co_conns s1 cid = Some c"
    and "handle_agent cid c (wire_value WireType_CapacityUpdate, 0,
           put_u64 (id_value (co_epoch s)) @ encode_capacity_update snap) s1 = ((ty2, corr2, body2), s2)"
    and "sk_valid (ag_sock a)" "sk_send (ag_sock a) = []" "pieces (sk_recv (ag_sock a))"
    and "stream_of (sk_recv (ag_sock a)) = frame_bytes j1 ty1 corr1 body1 @ frame_bytes j2 ty2 corr2 body2 @ rest"
    and "length j1 = 4" "length j2 = 4"
  shows "\<exists>a1 a2. register_self x a = (status_success, a1) \<and> send_capacity y snap a1 = (status_success, a2)
    \<and> sk_sent (ag_sock a2) = sk_sent (ag_sock a)
        @ frame_bytes x (wire_value WireType_RegisterAgent) 0 (encode_register (agent_registration a))
        @ frame_bytes y (wire_value WireType_CapacityUpdate) 0 (put_u64 (id_value (co_epoch s)) @ encode_capacity_update snap)"
proof -
  let ?g = "agent_registration a"
  note r = dispatch_joins [OF assms(1,3,6,7)]
  note u = fresh_update_accepted [OF assms(2), of ?g cid s c ty2 corr2 body2 s2, folded r(3), OF _ _ assms(8,9)]
  have ids: "snap_agent_id snap = rg_agent ?g" "snap_boot_id snap = rg_boot ?g" using assms(4,5) by (simp_all add: agent_registration_def)
  have small: "length body1 \<le> 16 * 1024 * 1024" "length body2 \<le> 16 * 1024 * 1024" by (simp_all add: r u(2) [OF ids] put_words_le)
  have listen: "listening (sk_recv (ag_sock a)) (ag_sock a)" using assms(10,12) by (simp add: listening_def)
  from agent_exchange_goes_on [OF small(1) assms(14) listen assms(11,13)] obtain h t evs where
    e1: "agent_exchange x (wire_value WireType_RegisterAgent) (encode_register ?g) a = (Inr (h, body1), a\<lparr>ag_sock := t\<rparr>)"
      "fh_type h = ty1" "listening evs t" "sk_send t = []" "stream_of evs = frame_bytes j2 ty2 corr2 body2 @ rest"
      "sk_sent t = sk_sent (ag_sock a) @ frame_bytes x (wire_value WireType_RegisterAgent) 0 (encode_register ?g)" by blast
  have epoch: "fst (get_u64 (byte_reader body1)) = id_value (co_epoch s)"
    using reads_apply [OF reads_words(3), of "[]" "id_value (co_epoch s)" "[]"] by (simp add: r(2) byte_reader_at)
  let ?a1 = "a\<lparr>ag_sock := t, ag_epoch := co_epoch s\<rparr>"
  have reg: "register_self x a = (status_success, ?a1)"
    using e1(1,2) r(1) epoch by (simp add: register_self_def)
  have "listening evs (ag_sock ?a1)" "sk_send (ag_sock ?a1) = []" using e1(3,4) by simp_all
  from agent_exchange_goes_on [OF small(2) assms(15) this e1(5), of y "wire_value WireType_CapacityUpdate"
      "put_u64 (id_value (ag_epoch ?a1)) @ encode_capacity_update snap"] obtain h2 t2 where
    e2: "agent_exchange y (wire_value WireType_CapacityUpdate) (put_u64 (id_value (ag_epoch ?a1)) @ encode_capacity_update snap) ?a1
        = (Inr (h2, body2), ?a1\<lparr>ag_sock := t2\<rparr>)" "fh_type h2 = ty2"
      "sk_sent t2 = sk_sent t @ frame_bytes y (wire_value WireType_CapacityUpdate) 0
        (put_u64 (id_value (ag_epoch ?a1)) @ encode_capacity_update snap)" by (auto simp del: wire_value.simps) metis
  have "send_capacity y snap ?a1 = (status_success, ?a1\<lparr>ag_sock := t2\<rparr>)"
    using e2(1,2) u(1) [OF ids] by (simp add: send_capacity_def del: wire_value.simps) (simp)
  with reg show ?thesis using e1(6) e2(3) by simp
qed

section \<open>The agent program\<close>

text \<open>C22: the agent program and the coordinator, end to end: when a connection is made and the coordinator handles the
  two frames that the program sends, with its two replies arriving at the program in whatever pieces, followed by anything, the
  program prints its registration and exits with 0; the coordinator, in a reachable state, has the agent, and chooses for
  every request of its backend and number format an agent with at least the memory the program was started with.\<close>

theorem agent_program_end_to_end:
  assumes "device = (case rest of [] \<Rightarrow> ''cuda'' | x # _ \<Rightarrow> x)" "string_ok device"
    and "a = program_agent (strtoull rid) (strtoull boot) (strtoull vram) device (env_connection env)"
    and "snap = program_snapshot (env_now env) (strtoull rid) (strtoull boot) (strtoull vram) device"
    and "status_ok (fst (connect_attempts (env_answers env) 200 0 host (port_argument (env_oob env) port) status_success
           endpoint_new \<lparr>pr_winsock = False, pr_open = {}, pr_calls = []\<rparr>))"
    and "coord_reachable pf s" "co_conns s cid = None" "\<not> boot_conflict (agent_registration a) s"
    and "dispatch cid (wire_value WireType_RegisterAgent, 0, encode_register (agent_registration a)) s = (res, s1)"
    and "reply_message res = Some (ty1, corr1, body1)"
    and "handle_agent cid (registered_conn (strtoull rid) (strtoull boot)) (wire_value WireType_CapacityUpdate, 0,
           put_u64 (id_value (co_epoch s)) @ encode_capacity_update snap) s1 = ((ty2, corr2, body2), s2)"
    and "sk_valid (env_connection env)" "sk_send (env_connection env) = []" "pieces (sk_recv (env_connection env))"
    and "stream_of (sk_recv (env_connection env)) = frame_bytes j1 ty1 corr1 body1 @ frame_bytes j2 ty2 corr2 body2 @ more_bytes"
    and "length j1 = 4" "length j2 = 4"
    and "d_backend d = [] \<or> d_backend d = ''cuda''" "d_dtype d = [] \<or> d_dtype d = ''fp16''"
  shows "agent_main env (host # port # rid # boot # vram # rest) = (''REGISTERED '' @ to_string_u64 (strtoull rid) @ newline, [], 0)
    \<and> coord_reachable pf s2 \<and> om_find (co_agents s2) (Id (strtoull rid)) = Some cid
    \<and> (\<exists>b. choose_agent d s2 = Some b \<and> strtoull vram \<le> free_memory b)"
proof -
  let ?rid = "strtoull rid" and ?boot = "strtoull boot" and ?vram = "strtoull vram"
  have valid: "register_valid (agent_registration a)" unfolding assms(3) by (rule program_registration_valid [OF assms(2)])
  have enc: "snapshot_encodable snap" unfolding assms(4) by (rule program_snapshot_encodable [OF assms(2)])
  have ids: "snap_agent_id snap = ag_id a" "snap_boot_id snap = ag_boot a"
    by (simp_all add: assms(3,4) program_snapshot_def program_agent_def)
  have sock: "ag_sock a = env_connection env" by (simp add: assms(3) program_agent_def)
  have joined: "s1 = s\<lparr>co_conns := (co_conns s)(cid \<mapsto> registered_conn ?rid ?boot), co_agents := om_put (Id ?rid) cid (co_agents s)\<rparr>"
    using dispatch_joins(3) [OF valid assms(8-10)] unfolding assms(3) program_joined .
  then have conn: "co_conns s1 cid = Some (registered_conn ?rid ?boot)" by simp
  obtain a1 a2 where talk: "register_self (env_junk env 0) a = (status_success, a1)" "send_capacity (env_junk env 1) snap a1 = (status_success, a2)"
    using agent_talks [OF valid enc assms(8) ids assms(9,10) conn assms(11), of j1 j2 more_bytes "env_junk env 0" "env_junk env 1"]
      assms(12-17) unfolding sock by blast
  obtain s0 e0 p0 where con: "connect_attempts (env_answers env) 200 0 host (port_argument (env_oob env) port) status_success
      endpoint_new \<lparr>pr_winsock = False, pr_open = {}, pr_calls = []\<rparr> = (s0, e0, p0)" "status_ok s0"
    using assms(5) by (metis fst_conv prod_cases3)
  have main: "agent_main env (host # port # rid # boot # vram # rest) = (''REGISTERED '' @ to_string_u64 ?rid @ newline, [], 0)"
    using con talk unfolding assms(3,4)
    by (simp add: agent_main_def assms(1) [symmetric] case_prod_unfold)
  have "om_find (co_agents s2) (Id ?rid) = Some cid"
  proof (cases rule: handle_agent_cases [of cid "registered_conn ?rid ?boot" "(wire_value WireType_CapacityUpdate, 0,
           put_u64 (id_value (co_epoch s)) @ encode_capacity_update snap)" s1])
    case same
    then show ?thesis using assms(11) by (simp add: joined om_find_put_same)
  next
    case (accepted ev sn)
    then show ?thesis using assms(11) by (simp add: joined om_find_put_same)
  qed
  then show ?thesis
    using main program_capacity_counts [OF assms(2,6,7) assms(8) [unfolded assms(3)] assms(9) [unfolded assms(3)]
        assms(11) [unfolded assms(4)] assms(18,19)] by blast
qed

text \<open>Agent 5 with 1000 bytes, in two pieces, at a coordinator that has just started.\<close>

definition demo_replies :: bytes where
  "demo_replies = frame_bytes [1, 1, 1, 1] (wire_value WireType_AgentRegistered) 0 (put_u64 1)
     @ frame_bytes [2, 2, 2, 2] (wire_value WireType_CapacityAccepted) 0 (put_u64 1001)"

definition demo_env :: ProgramEnv where
  "demo_env = \<lparr>env_oob = (\<lambda>_. 0), env_answers = demo_answers, env_connection = ag_sock (demo_agent demo_replies),
     env_now = 0, env_junk = (\<lambda>_. [0, 0, 0, 0])\<rparr>"

lemma demo_numbers: "strtoull ''5'' = 5" "strtoull ''1'' = 1" "strtoull ''1000'' = 1000" "to_string_u64 5 = ''5''"
  by (simp_all add: strtoull_def parse_integer_def digits_value_def is_space_def is_digit_def to_string_u64_def
      nat_to_string.simps digit_char_def char_of_def bit_0)

lemma attempts_first:
  "status_ok (fst (agent_connect (ans i) host port e p)) \<Longrightarrow>
     connect_attempts ans (Suc k) i host port s e p = agent_connect (ans i) host port e p"
  by (simp split: prod.split) auto

lemma demo_connects:
  "status_ok (fst (connect_attempts (env_answers demo_env) 200 0 host (port_argument (env_oob demo_env) port) status_success
     endpoint_new \<lparr>pr_winsock = False, pr_open = {}, pr_calls = []\<rparr>))"
proof -
  have "status_ok (fst (agent_connect (env_answers demo_env 0) host q endpoint_new \<lparr>pr_winsock = False, pr_open = {}, pr_calls = []\<rparr>))" for q
    by (simp add: demo_env_def agent_connect_def init_winsock_once_def endpoint_connect_def demo_answers_def Let_def)
  moreover have "200 = Suc 199" by simp
  ultimately show ?thesis by (metis attempts_first)
qed

theorem agent_program_end_to_end_witness:
  "agent_main demo_env [''127.0.0.1'', ''7777'', ''5'', ''1'', ''1000''] = (''REGISTERED 5'' @ newline, [], 0)"
proof -
  let ?s = "coordinator_start fabric_empty"
  let ?a = "program_agent 5 1 1000 ''cuda'' (env_connection demo_env)"
  let ?snap = "program_snapshot (env_now demo_env) 5 1 1000 ''cuda''"
  let ?d = "default_descriptor\<lparr>d_backend := ''cuda''\<rparr>"
  have str: "string_ok ''cuda''" by (simp add: string_ok_def)
  note valid = program_registration_valid [OF str, of 5 1 1000 "env_connection demo_env"]
  have free: "\<not> boot_conflict (agent_registration ?a) ?s" "co_conns ?s 0 = None"
    by (simp_all add: boot_conflict_def agent_conn_def coordinator_start_def)
  have disp: "dispatch 0 (wire_value WireType_RegisterAgent, 0, encode_register (agent_registration ?a)) ?s
      = (AgentJoined (wire_value WireType_AgentRegistered, 0, put_u64 1), joined 0 (agent_registration ?a) ?s)"
    using free by (simp add: dispatch_register [OF valid] coordinator_start_def del: wire_value.simps)
  have msg: "reply_message (AgentJoined (wire_value WireType_AgentRegistered, 0, put_u64 1))
      = Some (wire_value WireType_AgentRegistered, 0, put_u64 1)" by (simp add: reply_message_def)
  obtain s2 where cap: "handle_agent 0 (registered_conn 5 1) (wire_value WireType_CapacityUpdate, 0,
      put_u64 (id_value (co_epoch ?s)) @ encode_capacity_update ?snap) (joined 0 (agent_registration ?a) ?s)
      = ((wire_value WireType_CapacityAccepted, 0, put_u64 1001), s2)"
  proof -
    have "capacity_refusal (joined 0 (agent_registration ?a) ?s) (registered_conn 5 1) (id_value (co_epoch ?s)) ?snap = None"
      by (simp add: capacity_refusal_def joined_def registered_conn_def program_snapshot_def)
    moreover have "id_value (snap_generation ?snap) = 1001" by (simp add: program_snapshot_def)
    ultimately show thesis
      using that unfolding capacity_update_wire [OF program_snapshot_encodable [OF str]] by simp
  qed
  have len: "9 < length demo_replies" by (simp add: demo_replies_def frame_bytes_length)
  note sock = demo_agent_sock [OF len]
  have env: "env_connection demo_env = ag_sock (demo_agent demo_replies)" by (simp add: demo_env_def)
  have stream: "stream_of (sk_recv (env_connection demo_env)) = frame_bytes [1, 1, 1, 1] (wire_value WireType_AgentRegistered) 0 (put_u64 1)
      @ frame_bytes [2, 2, 2, 2] (wire_value WireType_CapacityAccepted) 0 (put_u64 1001) @ []"
    unfolding env sock(5) by (simp add: demo_replies_def)
  have rest: "''cuda'' = (case [] of [] \<Rightarrow> ''cuda'' | x # _ \<Rightarrow> x)" by simp
  have want: "d_backend ?d = [] \<or> d_backend ?d = ''cuda''" "d_dtype ?d = [] \<or> d_dtype ?d = ''fp16''"
    by (simp_all add: default_descriptor_def)
  note ends = agent_program_end_to_end [where rid = "''5''" and boot = "''1''" and vram = "''1000''" and env = demo_env and pf = demo_platform,
      unfolded demo_numbers, OF rest str refl refl demo_connects coord_steps.begun free(2,1) disp msg cap _ _ _ stream _ _ want]
  show ?thesis using ends [of "''127.0.0.1''" "''7777''"] sock unfolding env by simp
qed

section \<open>The distributed example\<close>

lemma distributed_caps_ok: "om_ok distributed_caps" "strings_ok (map fst distributed_caps)"
  by (simp_all add: distributed_caps_def cap_add_def cap_dtype_def cap_backend_def strings_ok_def string_ok_def)

lemma distributed_valid:
  "register_valid (agent_registration (distributed_agent sk))" "snapshot_encodable (distributed_snapshot now)"
  using distributed_caps_ok
  by (simp_all add: register_valid_def agent_registration_def distributed_agent_def string_ok_def distributed_snapshot_def
      snapshot_encodable_def default_snapshot_def enum_canonical_def list_all_iff strings_ok_def pressure_enumerators_def
      provenance_enumerators_def)

text \<open>Example 13: once the bind and the connect succeed and the second thread answers the two frames, the agent is
  counted, whether the count comes before or after any other step that leaves the table alone.\<close>

lemma distributed_example_counts:
  assumes "dispatch 0 (wire_value WireType_RegisterAgent, 0, encode_register (agent_registration (distributed_agent sk)))
         distributed_coordinator = (res, s1)" "reply_message res = Some (ty1, corr1, body1)" "co_conns s1 0 = Some c"
    and "handle_agent 0 c (wire_value WireType_CapacityUpdate, 0,
           put_u64 1 @ encode_capacity_update (distributed_snapshot now)) s1 = ((ty2, corr2, body2), s2)"
    and "sk_valid sk" "sk_send sk = []" "pieces (sk_recv sk)"
    and "stream_of (sk_recv sk) = frame_bytes j1 ty1 corr1 body1 @ frame_bytes j2 ty2 corr2 body2 @ more_bytes"
    and "length j1 = 4" "length j2 = 4" and "co_agents seen = co_agents s2"
    and "service_start ab \<lparr>pr_winsock = False, pr_open = {}, pr_calls = []\<rparr> = (svc, p)"
    and "service_bind ab ''127.0.0.1'' 0 svc p = (s, svc1, p1)" "status_ok s"
    and "status_ok (fst (agent_connect ac ''127.0.0.1'' (service_port ab svc1) endpoint_new p1))"
  shows "example_distributed ab ac junk now sk seen
    = Some (''EXAMPLE distributed: agents=1 port='' @ nat_to_string (unat (service_port ab svc1)) @ newline, 0)"
proof -
  let ?a = "distributed_agent sk" and ?s = distributed_coordinator
  have free: "\<not> boot_conflict (agent_registration ?a) ?s" and epoch: "id_value (co_epoch ?s) = 1" and none: "co_agents ?s = []"
    by (simp_all add: boot_conflict_def agent_conn_def distributed_coordinator_def coordinator_start_def)
  have ids: "snap_agent_id (distributed_snapshot now) = ag_id ?a" "snap_boot_id (distributed_snapshot now) = ag_boot ?a"
    by (simp_all add: distributed_snapshot_def distributed_agent_def)
  have sock: "ag_sock ?a = sk" by (simp add: distributed_agent_def)
  obtain a1 a2 where talk: "register_self (junk 0) ?a = (status_success, a1)"
      "send_capacity (junk 1) (distributed_snapshot now) a1 = (status_success, a2)"
    using agent_talks [OF distributed_valid free ids assms(1-3), unfolded epoch sock, OF assms(4-10)] by blast
  have "co_agents s1 = [(Id 1, 0)]"
    using dispatch_joins(3) [OF distributed_valid(1) free assms(1,2)]
    by (simp add: joined_def none agent_registration_def distributed_agent_def)
  moreover have "co_agents s2 = co_agents s1"
    by (rule handle_agent_cases [of 0 c "(wire_value WireType_CapacityUpdate, 0,
           put_u64 1 @ encode_capacity_update (distributed_snapshot now))" s1]) (use assms(4) in auto)
  ultimately have one: "nat_to_string (agent_count seen) = ''1''"
    by (simp add: agent_count_def assms(11) nat_to_string.simps digit_char_def char_of_def bit_0)
  obtain s' e p2 where con: "agent_connect ac ''127.0.0.1'' (service_port ab svc1) endpoint_new p1 = (s', e, p2)" "status_ok s'"
    using assms(15) by (metis fst_conv prod_cases3)
  show ?thesis using talk one con assms(12-14) by (simp add: example_distributed_def Let_def)
qed

end
