(* ===== verification/Spec2Isabelle.thy ===== *)
theory Spec2Isabelle
  imports Engine_Grants Serialize_Spec Codec_Laws Store_Spec Cpu_Backend Cuda_Spec Sockets_Spec Ctl_Spec Programs_Spec Examples_Spec Races Conversation
begin

text \<open>
  Admission Fabric decides whether an inference request may start. A request is an \<open>AdmissionDescriptor\<close>; the engine
  (\<open>AdmissionFabric\<close>) predicts what it needs, checks it against the installed policy, the last capacity snapshot, the
  quota, the deadline and the capacity that is already promised, and answers with an \<open>AdmissionDecision\<close>. An admission
  holds a reservation, which a commit turns into use and a release gives back. A coordinator process runs the engine
  behind a framed TCP protocol: agents register, report capacity and answer heartbeats; clients send evaluations,
  commits, releases and observations. A state store writes the engine's state to a file and reads it back.

  \<^bold>\<open>How the code is modelled.\<close> The paths below are under \<open>src/\<close>; headers are in \<open>include/admission_fabric/\<close>, the
  other files in \<open>src/core/\<close>, unless a path says otherwise.

  \<^item> A class or struct is a record and an operation is a function that takes the record last and returns its result
    with the new record. A \<open>Status\<close> is an error code with a message; a \<open>Result\<close> is \<open>Error + 'a\<close>.
  \<^item> An enum class is a datatype with the source's constructors; where the code casts a byte to the enum, a
    \<open>_Raw\<close> constructor stands for the values outside the enumeration.
  \<^item> Integers keep their width as words and wrap around unless the code checks or saturates. Durations and time points
    are signed 64-bit counts of nanoseconds. A double is its IEEE-754 bit pattern, and \<open>Doubles\<close> computes the
    operations exactly with round-to-nearest-even; \<open>std::exp\<close> and conversions out of range, which the language leaves
    open, are the fields of the parameter \<open>platform\<close>.
  \<^item> A \<open>std::map\<close> is an association list in key order (\<open>omap\<close>), a \<open>ResourceVector\<close> a function on the twelve dimensions.
  \<^item> \<open>SystemClock::now()\<close> is an argument, one reading per call of an operation.
  \<^item> The network is a list of outcomes of the socket calls (bytes, failure, bytes taken), the file system a map from
    paths to contents, and what a save reaches an argument. The answers of the operating system to requests for sockets
    are a record (\<open>OsAnswers\<close>), the CUDA runtime is a record of functions on a state of its own (\<open>CudaRuntime\<close>).

  \<^bold>\<open>The theories.\<close> Each component has a theory for the code and, where there is more to prove than fits beside it,
  one for its properties.

  \<^item> \<open>Prelude\<close>: ordered maps and the locale \<open>ordered_map\<close>. \<open>Errors\<close> (\<open>error.hpp\<close>), \<open>Ids\<close> (\<open>id.hpp\<close>), \<open>Checked\<close>
    (\<open>checked.hpp\<close>).
  \<^item> \<open>Resource\<close> (\<open>resource.hpp\<close>): vectors, capabilities, snapshots, the account container. \<open>Reservation\<close>
    (\<open>reservation.hpp\<close>): the reservation manager. \<open>Reservation_Spec\<close>: over all sequences of operations and restores
    (\<open>rm_calls\<close>) the running sums are the sums over the table, and settling a reservation is a step of an abstract account;
    over operations (\<open>rm_run\<close>) no dimension exceeds its ceiling. A restore may put in sums that do not fit together.
  \<^item> \<open>Doubles\<close>, \<open>Doubles_Order\<close>: floating-point numbers. \<open>Descriptor\<close>, \<open>Observation\<close>, \<open>Quota_Slo\<close>, \<open>Decision\<close>,
    \<open>Fairness\<close>: the headers of these names. \<open>Prediction\<close> (\<open>prediction.hpp\<close>) with \<open>Prediction_Spec\<close>: cold-start demand,
    learned profiles and their bounds. \<open>Policy\<close> (\<open>policy.hpp\<close>) with \<open>Policy_Spec\<close>: generations and overrides.
    \<open>Cpu_Backend\<close> (\<open>backends/cpu_backend.hpp\<close>): the modelled workload. \<open>Cuda_Backend\<close> (\<open>backends/cuda_backend.hpp\<close>,
    \<open>src/backends/cuda/cuda_backend.cu\<close>): the device operations and the kernel. \<open>Cuda_Spec\<close>: under the documented behaviour
    of the runtime, a map of memory blocks, the verified run frees each block it allocated (a log of the calls records it),
    also when \<open>cudaFree\<close> reports the error of an earlier launch, and succeeds if no call fails.
  \<^item> \<open>Engine\<close> (\<open>engine.hpp\<close>, \<open>engine.cpp\<close>): evaluation in its order of checks, commit, release, cancel, observation.
    \<open>Engine_Spec\<close>: what an admission stands on and what a refusal leaves alone. \<open>Engine_Grants\<close>: commits, uniqueness of
    grants, and what happens to a request that is submitted again.
  \<^item> \<open>Serialize\<close> (\<open>serialize.hpp\<close>, \<open>serialize.cpp\<close>): bytes, checksum, frames. \<open>Serialize_Spec\<close>: the checksum bit by
    bit. \<open>Reading\<close>: when a reader reads what a writer wrote (\<open>reads\<close>) and never looks ahead (\<open>scans\<close>), as the locales
    \<open>wire_reader\<close> and \<open>wire_format\<close>. \<open>Frames\<close>: frames and their corruption.
  \<^item> \<open>Enum_Bytes\<close>: the bytes of the enumerations (locale \<open>enum_values\<close>). \<open>Codec\<close> (\<open>codec.hpp\<close>, \<open>codec.cpp\<close>): one encoder
    and decoder per structure. \<open>Codec_Spec\<close>: each pair as an interpretation of \<open>decoder_format\<close>. \<open>Codec_Laws\<close>: round
    trips, truncation, and what a decoder can return: the decoders check no range of an enumeration but that of a
    reservation's status, so \<open>_Raw\<close> values are among it.
  \<^item> \<open>Recovery\<close> (\<open>save_state\<close> and \<open>restore_state\<close> of \<open>engine.cpp\<close>; \<open>persistence.hpp\<close>, \<open>persistence.cpp\<close>): the recovery
    steps carry the partly restored engine through every failure. \<open>Recovery_Spec\<close>, \<open>Store_Spec\<close>: what is read back and
    what is not, field by field, that a save is all or nothing, what a grant is worth after a restart, and which states cannot be loaded.
  \<^item> \<open>Protocol\<close> (\<open>protocol.hpp\<close>, \<open>protocol.cpp\<close>) with \<open>Protocol_Spec\<close>: message types and bodies. \<open>Net\<close> (\<open>net.hpp\<close>,
    \<open>net.cpp\<close>) with \<open>Net_Spec\<close>: send and receive loops, headers, delivery of frames whatever each send call takes.
  \<^item> \<open>Coordinator\<close> (\<open>coordinator.hpp\<close>, \<open>coordinator.cpp\<close>): one function per message, and the loss of a connection.
    \<open>Coordinator_Spec\<close>: the state machine over frames and losses (\<open>coord_step\<close>), its invariant, epochs, the choice of an
    agent and what an admission sent to a client stands on. \<open>Agent\<close> (\<open>agent.hpp\<close>, \<open>agent.cpp\<close>) with \<open>Agent_Spec\<close>: the
    agent's requests, its loop over frames of all types, and the registration exchange of both sides through the transport.

  \<^item> \<open>Serving\<close> (\<open>coordinator.cpp\<close>): the thread of a connection, from the first frame to the failed receive, the accept
    loop, bind and stop. \<open>Serving_Spec\<close>: such a thread is a run of the state machine over exactly the frames it received
    (\<open>coord_trace\<close>, \<open>connection_events\<close>), and sends exactly its replies.
    \<open>Sockets\<close> (\<open>net.cpp\<close>): handles, their set-up, moves and closing. \<open>Sockets_Spec\<close>: the abstract machine of owners
    of handles, which every operation refines.
  \<^item> \<open>Threads\<close> (\<open>coordinator.cpp\<close>): the same handlers cut at the mutex and at every unprotected use of shared data, with
    the threads' control points (\<open>thread_step\<close>) and schedules (\<open>machine_run\<close>). \<open>Threads_Spec\<close>: undisturbed, a thread is
    one step of the state machine, and what stays true in every interleaving. \<open>Races\<close>: what does not, as schedules: the
    epoch set back, a client answered on another's choice or on a lost agent; and the lock that would save the epoch.
  \<^item> \<open>Text\<close> (\<open>units.hpp\<close>, \<open>explain\<close> of \<open>engine.cpp\<close>) with \<open>Text_Spec\<close>: the decimal forms of numbers and how exact
    \<open>format_bytes\<close> is. \<open>Ctl\<close> (\<open>apps/ctl/main.cpp\<close>) with \<open>Ctl_Spec\<close>: the command-line tool. \<open>Programs\<close>
    (\<open>apps/agent/main.cpp\<close>, \<open>apps/coordinator/main.cpp\<close>, \<open>version.hpp\<close>) with \<open>Programs_Spec\<close>: the daemons, and that what
    the agent program reports counts at the coordinator. \<open>Examples\<close> (\<open>examples/\<close>, \<open>benchmarks/\<close>) with
    \<open>Examples_Spec\<close>: the example scenarios and the benchmark's loops on the model, and what they show for every clock. \<open>Conversation\<close>: the agent program and
    the distributed example with the coordinator, end to end through the sockets.

  \<^bold>\<open>How the parts fit.\<close> A run of the engine is a list of operations (\<open>fabric_run\<close>); the coordinator's invariant says
  that its engine is always in a state of such a run, so the properties of the engine hold behind the network.
  The connections of the coordinator live in a store, since the agent table and the thread that serves a connection
  share them; each received frame is one step, and steps of different connections interleave freely. That the threads
  behave so is proved for a thread that is left alone only: the code takes no lock around the engine, the epoch or a
  connection's snapshot, so the properties that rest on whole frames (\<open>remote_admission\<close>, \<open>stale_epoch_never_revives\<close>)
  have counterexamples among the schedules of \<open>Races\<close>, while those of \<open>interleavings_keep_invariant\<close> hold in all of them.

  \<^bold>\<open>Termination.\<close> There is no fuel. Loops over data are structural; the receive loop ends because every round reads
  a missing byte, and the loops of the agent and of the coordinator's threads because every frame they receive uses up pending input.
  \<open>lead_zeros\<close> ends because the numerator grows towards the denominator.

  \<^bold>\<open>Not modelled.\<close> \<open>std::hash\<close> of identifiers; interleavings inside one call of the engine or one copy of a snapshot, which
  are data races in the code and undefined, and the freeing of a connection's record while a pointer into it is held;
  \<open>create_directories\<close> before a save and the removal of the examples' files; how a library writes an infinity or a NaN,
  which is a parameter.
\<close>

end
